(* ===== verification/Prelude.thy ===== *)
theory Prelude
  imports Main
begin

text \<open>
  Shared vocabulary of the development: the \<open>named_theorems\<close> collections, generic
  facts about lists that are updated by identifier, and the string operations of the
  JavaScript standard library that the client uses.

  A string is a list of characters, one per UTF-16 code unit, restricted to Latin-1.  The
  three typographic characters of the user interface that lie outside Latin-1 are stood
  for by otherwise unused control codes: \<open>endash\<close>, \<open>emdash\<close> and \<open>ellipsis\<close>.
\<close>

named_theorems patch_simps \<open>how a patch of one item of a list by its key acts\<close>
named_theorems store_simps \<open>how the operations of the stores act on the state's fields\<close>

subsection \<open>Lists updated by a test\<close>

text \<open>\<open>xs.map(x => p(x) ? f(x) : x)\<close>, the immutable update all stores use.\<close>

definition update_where :: "('a \<Rightarrow> bool) \<Rightarrow> ('a \<Rightarrow> 'a) \<Rightarrow> 'a list \<Rightarrow> 'a list" where
  "update_where p f xs = map (\<lambda>x. if p x then f x else x) xs"

lemma update_where_Nil [simp]: "update_where p f [] = []"
  by (simp add: update_where_def)

lemma update_where_Cons [simp]:
  "update_where p f (x # xs) = (if p x then f x else x) # update_where p f xs"
  by (simp add: update_where_def)

lemma length_update_where [simp]: "length (update_where p f xs) = length xs"
  by (simp add: update_where_def)

lemma update_where_append [simp]:
  "update_where p f (xs @ ys) = update_where p f xs @ update_where p f ys"
  by (simp add: update_where_def)

lemma map_key_update_where [patch_simps]:
  assumes "\<And>x. k (f x) = k x"
  shows "map k (update_where p f xs) = map k xs"
  using assms by (induction xs) auto

lemma set_update_where:
  "set (update_where p f xs) = f ` {x \<in> set xs. p x} \<union> {x \<in> set xs. \<not> p x}"
  by (induction xs) auto

lemma in_set_update_whereE:
  assumes "y \<in> set (update_where p f xs)"
  obtains (hit) x where "x \<in> set xs" "p x" "y = f x" | (miss) "y \<in> set xs" "\<not> p y"
  using assms by (auto simp: set_update_where)

lemma update_where_id [patch_simps]:
  "(\<And>x. x \<in> set xs \<Longrightarrow> \<not> p x) \<Longrightarrow> update_where p f xs = xs"
  by (induction xs) auto

lemma length_filter_update_where_le:
  assumes "\<And>x. x \<in> set xs \<Longrightarrow> p x \<Longrightarrow> q (f x) \<Longrightarrow> q x"
  shows "length (filter q (update_where p f xs)) \<le> length (filter q xs)"
  using assms by (induction xs) (auto simp: le_SucI)

lemma length_filter_update_where_eq:
  assumes "\<And>x. x \<in> set xs \<Longrightarrow> p x \<Longrightarrow> q (f x) = q x"
  shows "length (filter q (update_where p f xs)) = length (filter q xs)"
  using assms by (induction xs) auto

lemma length_filter_filter_le: "length (filter q (filter p xs)) \<le> length (filter q xs)"
  by (induction xs) (auto simp del: filter_filter simp: le_SucI)

lemma find_Some_iff_member:
  "find p xs = Some x \<Longrightarrow> x \<in> set xs \<and> p x"
  by (auto simp: find_Some_iff)

lemma find_None_ball: "find p xs = None \<longleftrightarrow> (\<forall>x \<in> set xs. \<not> p x)"
  by (auto simp: find_None_iff)

lemma find_update_where_key:
  assumes "\<And>x. k (f x) = k x"
  shows "find (\<lambda>x. k x = b) (update_where (\<lambda>x. k x = a) f xs) =
    (if b = a then map_option f (find (\<lambda>x. k x = b) xs) else find (\<lambda>x. k x = b) xs)"
  using assms by (induction xs) auto

lemma find_filter_key:
  "find (\<lambda>x. k x = b) (filter (\<lambda>x. k x \<noteq> a) xs) =
    (if b = a then None else find (\<lambda>x. k x = b) xs)"
  by (induction xs) auto

lemma find_append: "find p (xs @ ys) = (case find p xs of None \<Rightarrow> find p ys | Some x \<Rightarrow> Some x)"
  by (induction xs) auto

lemma distinct_key_unique:
  assumes "distinct (map k xs)" and "x \<in> set xs" and "y \<in> set xs" and "k x = k y"
  shows "x = y"
  using assms by (auto simp: distinct_map dest: inj_onD)

lemma distinct_map_filter_key: "distinct (map k xs) \<Longrightarrow> distinct (map k (filter p xs))"
  by (rule distinct_map_filter)

subsection \<open>Strings\<close>

abbreviation endash :: string where "endash \<equiv> [CHR 0x96]"
abbreviation emdash :: string where "emdash \<equiv> [CHR 0x97]"
abbreviation ellipsis :: string where "ellipsis \<equiv> [CHR 0x85]"

text \<open>White space as \<open>trim\<close> and the regular expression class \<open>\s\<close> understand it.\<close>

definition js_space :: "char \<Rightarrow> bool" where
  "js_space c \<longleftrightarrow> c \<in> {CHR 0x09, CHR 0x0A, CHR 0x0B, CHR 0x0C, CHR 0x0D, CHR 0x20, CHR 0xA0}"

definition js_trim :: "string \<Rightarrow> string" where
  "js_trim s = rev (dropWhile js_space (rev (dropWhile js_space s)))"

lemma set_js_trim: "set (js_trim s) \<subseteq> set s"
  by (auto simp: js_trim_def dest!: set_dropWhileD)

lemma dropWhile_idem: "dropWhile p (dropWhile p s) = dropWhile p s"
  by (induction s) auto

lemma js_trim_idem: "js_trim (js_trim s) = js_trim s"
proof -
  let ?d = "dropWhile js_space"
  have front: "?d (rev (?d (rev t))) = rev (?d (rev t))" if "?d t = t" for t
  proof (cases "rev (?d (rev t))")
    case (Cons c u)
    have "t = rev (?d (rev t)) @ rev (takeWhile js_space (rev t))"
      by (metis rev_append rev_rev_ident takeWhile_dropWhile_id)
    then have "hd t = c" "t \<noteq> []" using Cons by (metis append_Cons list.sel(1) list.distinct(1))+
    then have "\<not> js_space c" using that by (metis hd_dropWhile)
    then show ?thesis using Cons by simp
  next
    case Nil
    show ?thesis unfolding Nil by simp
  qed
  show ?thesis
    using front [of "?d s"] by (simp add: js_trim_def dropWhile_idem)
qed

definition starts_with :: "string \<Rightarrow> string \<Rightarrow> bool" where
  "starts_with s p \<longleftrightarrow> take (length p) s = p"

fun str_includes :: "string \<Rightarrow> string \<Rightarrow> bool" where
  "str_includes [] p \<longleftrightarrow> p = []"
| "str_includes (c # s) p \<longleftrightarrow> starts_with (c # s) p \<or> str_includes s p"

lemma starts_with_append [simp]: "starts_with (p @ s) p"
  by (simp add: starts_with_def)

lemma includes_iff: "str_includes s p \<longleftrightarrow> (\<exists>a b. s = a @ p @ b)"
proof (induction s)
  case Nil
  then show ?case by auto
next
  case (Cons c s)
  have "starts_with (c # s) p \<longleftrightarrow> (\<exists>b. c # s = p @ b)"
    unfolding starts_with_def by (metis append_take_drop_id append_eq_conv_conj)
  moreover have "(\<exists>a b. c # s = a @ p @ b) \<longleftrightarrow>
    (\<exists>b. c # s = p @ b) \<or> (\<exists>a b. s = a @ p @ b)"
    by (metis append_Cons append_Nil list.exhaust list.inject)
  ultimately show ?case using Cons.IH by simp
qed

text \<open>\<open>s.split(c)\<close> for a one-character separator.\<close>

fun split_on :: "char \<Rightarrow> string \<Rightarrow> string list" where
  "split_on c [] = [[]]"
| "split_on c (x # xs) =
     (if x = c then [] # split_on c xs
      else (case split_on c xs of [] \<Rightarrow> [[x]] | p # ps \<Rightarrow> (x # p) # ps))"

lemma split_on_nonempty [simp]: "split_on c s \<noteq> []"
  by (induction s) (auto split: list.splits)

text \<open>\<open>ps.join(c)\<close>; splitting and joining with the same character is the identity.\<close>

fun join_with :: "string \<Rightarrow> string list \<Rightarrow> string" where
  "join_with c [] = []"
| "join_with c [p] = p"
| "join_with c (p # q # ps) = p @ c @ join_with c (q # ps)"

lemma join_split_on: "join_with [c] (split_on c s) = s"
proof (induction s)
  case Nil
  then show ?case by simp
next
  case (Cons x s)
  obtain p ps where "split_on c s = p # ps"
    by (cases "split_on c s") auto
  with Cons.IH show ?case by (cases ps) auto
qed

text \<open>
  \<open>name.replace(/\.[^.]+$/, "")\<close>: the last dot and what follows it go, if something
  follows it.
\<close>

definition strip_ext :: "string \<Rightarrow> string" where
  "strip_ext s =
     (let ext = takeWhile (\<lambda>c. c \<noteq> CHR ''.'') (rev s)
      in if ext \<noteq> [] \<and> length ext < length s
         then take (length s - Suc (length ext)) s else s)"

lemma strip_ext_append:
  assumes "CHR ''.'' \<notin> set ext" and "ext \<noteq> []"
  shows "strip_ext (base @ ''.'' @ ext) = base"
proof -
  have "takeWhile (\<lambda>c. c \<noteq> CHR ''.'') (rev (base @ ''.'' @ ext)) = rev ext"
    using assms(1) by (auto simp: takeWhile_append)
  with assms(2) show ?thesis by (simp add: strip_ext_def)
qed

lemma strip_ext_no_dot: "CHR ''.'' \<notin> set s \<Longrightarrow> strip_ext s = s"
proof -
  assume "CHR ''.'' \<notin> set s"
  then have eq: "takeWhile (\<lambda>c. c \<noteq> CHR ''.'') (rev s) = rev s"
    by (auto simp: takeWhile_eq_all_conv)
  show ?thesis by (simp only: strip_ext_def eq Let_def) simp
qed

lemma length_strip_ext_le: "length (strip_ext s) \<le> length s"
  by (simp add: strip_ext_def Let_def)

text \<open>\<open>String(n)\<close> for a natural number.\<close>

definition digit :: "nat \<Rightarrow> char" where
  "digit d = char_of (48 + d)"

fun dec :: "nat \<Rightarrow> string" where
  "dec n = (if n < 10 then [digit n] else dec (n div 10) @ [digit (n mod 10)])"

declare dec.simps [simp del]

definition dec_int :: "int \<Rightarrow> string" where
  "dec_int i = (if i < 0 then ''-'' @ dec (nat (- i)) else dec (nat i))"

definition undigit :: "char \<Rightarrow> nat" where
  "undigit c = of_char c - 48"

definition undec :: "string \<Rightarrow> nat" where
  "undec s = foldl (\<lambda>n c. 10 * n + undigit c) 0 s"

lemma undigit_digit [simp]: "d < 10 \<Longrightarrow> undigit (digit d) = d"
  by (simp add: undigit_def digit_def)

lemma undec_dec [simp]: "undec (dec n) = n"
proof (induction n rule: dec.induct)
  case (1 n)
  show ?case
  proof (cases "n < 10")
    case True
    then show ?thesis by (simp add: undec_def dec.simps [of n])
  next
    case False
    with 1 have "undec (dec (n div 10)) = n div 10" by simp
    then show ?thesis using False by (simp add: undec_def dec.simps [of n])
  qed
qed

lemma dec_inject [simp]: "dec m = dec n \<longleftrightarrow> m = n"
  by (metis undec_dec)

lemma dec_nonempty [simp]: "dec n \<noteq> []"
  by (simp add: dec.simps [of n])

text \<open>\<open>s.padStart(2, "0")\<close>.\<close>

definition pad2 :: "string \<Rightarrow> string" where
  "pad2 s = replicate (2 - length s) (CHR ''0'') @ s"

end
