(* ===== verification/JsNum.thy ===== *)
theory JsNum
  imports Complex_Main Prelude
begin

text \<open>
  JavaScript numbers.  A finite number is an exact rational; \<open>NaN\<close> and the infinities
  are explicit, since a division by zero in the source yields them, and \<open>Nul\<close> is the
  \<open>null\<close> that a non-finite number becomes in JSON.  The rounding of IEEE doubles and the
  sign of zero are not modelled.
\<close>

datatype jnum = Fin rat | NaN | PInf | NInf | Nul

text \<open>Arithmetic reads \<open>null\<close> as zero.\<close>

fun to_number :: "jnum \<Rightarrow> jnum" where
  "to_number Nul = Fin 0"
| "to_number x = x"

abbreviation num_of_nat :: "nat \<Rightarrow> jnum" where "num_of_nat n \<equiv> Fin (of_nat n)"
abbreviation num_of_int :: "int \<Rightarrow> jnum" where "num_of_int n \<equiv> Fin (of_int n)"

fun inf_of_sign :: "rat \<Rightarrow> jnum" where
  "inf_of_sign r = (if r = 0 then NaN else if 0 < r then PInf else NInf)"

fun jdiv0 :: "jnum \<Rightarrow> jnum \<Rightarrow> jnum" where
  "jdiv0 (Fin a) (Fin b) = (if b = 0 then inf_of_sign a else Fin (a / b))"
| "jdiv0 (Fin a) PInf = Fin 0"
| "jdiv0 (Fin a) NInf = Fin 0"
| "jdiv0 PInf (Fin b) = (if b < 0 then NInf else PInf)"
| "jdiv0 NInf (Fin b) = (if b < 0 then PInf else NInf)"
| "jdiv0 _ _ = NaN"

definition jdiv :: "jnum \<Rightarrow> jnum \<Rightarrow> jnum" where
  "jdiv x y = jdiv0 (to_number x) (to_number y)"

fun jmul0 :: "jnum \<Rightarrow> jnum \<Rightarrow> jnum" where
  "jmul0 (Fin a) (Fin b) = Fin (a * b)"
| "jmul0 (Fin a) PInf = inf_of_sign a"
| "jmul0 (Fin a) NInf = inf_of_sign (- a)"
| "jmul0 PInf (Fin a) = inf_of_sign a"
| "jmul0 NInf (Fin a) = inf_of_sign (- a)"
| "jmul0 PInf PInf = PInf"
| "jmul0 PInf NInf = NInf"
| "jmul0 NInf PInf = NInf"
| "jmul0 NInf NInf = PInf"
| "jmul0 _ _ = NaN"

definition jmul :: "jnum \<Rightarrow> jnum \<Rightarrow> jnum" where
  "jmul x y = jmul0 (to_number x) (to_number y)"

fun jadd0 :: "jnum \<Rightarrow> jnum \<Rightarrow> jnum" where
  "jadd0 (Fin a) (Fin b) = Fin (a + b)"
| "jadd0 (Fin a) PInf = PInf"
| "jadd0 (Fin a) NInf = NInf"
| "jadd0 PInf (Fin a) = PInf"
| "jadd0 NInf (Fin a) = NInf"
| "jadd0 PInf PInf = PInf"
| "jadd0 NInf NInf = NInf"
| "jadd0 _ _ = NaN"

definition jadd :: "jnum \<Rightarrow> jnum \<Rightarrow> jnum" where
  "jadd x y = jadd0 (to_number x) (to_number y)"

definition jsub :: "jnum \<Rightarrow> jnum \<Rightarrow> jnum" where
  "jsub x y = jadd x (jmul (Fin (- 1)) y)"

fun jround0 :: "jnum \<Rightarrow> jnum" where
  "jround0 (Fin a) = num_of_int \<lfloor>a + 1 / 2\<rfloor>"
| "jround0 x = x"

definition jround :: "jnum \<Rightarrow> jnum" where
  "jround x = jround0 (to_number x)"

fun jfloor0 :: "jnum \<Rightarrow> jnum" where
  "jfloor0 (Fin a) = num_of_int \<lfloor>a\<rfloor>"
| "jfloor0 x = x"

definition jfloor :: "jnum \<Rightarrow> jnum" where
  "jfloor x = jfloor0 (to_number x)"

text \<open>Comparisons are false as soon as one side is \<open>NaN\<close>.\<close>

fun jless0 :: "jnum \<Rightarrow> jnum \<Rightarrow> bool" where
  "jless0 (Fin a) (Fin b) \<longleftrightarrow> a < b"
| "jless0 (Fin a) PInf \<longleftrightarrow> True"
| "jless0 NInf (Fin b) \<longleftrightarrow> True"
| "jless0 NInf PInf \<longleftrightarrow> True"
| "jless0 _ _ \<longleftrightarrow> False"

definition jless :: "jnum \<Rightarrow> jnum \<Rightarrow> bool" where
  "jless x y = jless0 (to_number x) (to_number y)"

definition jeq :: "jnum \<Rightarrow> jnum \<Rightarrow> bool" where
  "jeq x y \<longleftrightarrow> x = y \<and> x \<noteq> NaN"

definition jleq :: "jnum \<Rightarrow> jnum \<Rightarrow> bool" where
  "jleq x y \<longleftrightarrow> jless x y \<or> jeq (to_number x) (to_number y)"

text \<open>\<open>Math.min\<close> and \<open>Math.max\<close> propagate \<open>NaN\<close>.\<close>

definition jmin :: "jnum \<Rightarrow> jnum \<Rightarrow> jnum" where
  "jmin x y = (if to_number x = NaN \<or> to_number y = NaN then NaN
               else if jless x y then to_number x else to_number y)"

definition jmax :: "jnum \<Rightarrow> jnum \<Rightarrow> jnum" where
  "jmax x y = (if to_number x = NaN \<or> to_number y = NaN then NaN
               else if jless x y then to_number y else to_number x)"

text \<open>\<open>x || 0\<close>.\<close>

fun num_or_zero :: "jnum \<Rightarrow> jnum" where
  "num_or_zero NaN = Fin 0"
| "num_or_zero Nul = Fin 0"
| "num_or_zero x = x"

fun is_finite :: "jnum \<Rightarrow> bool" where
  "is_finite (Fin a) \<longleftrightarrow> True"
| "is_finite _ \<longleftrightarrow> False"

text \<open>What \<open>JSON.parse(JSON.stringify(x))\<close> gives for a number.\<close>

fun json_num :: "jnum \<Rightarrow> jnum" where
  "json_num (Fin a) = Fin a"
| "json_num _ = Nul"

lemma json_num_idem [simp]: "json_num (json_num x) = json_num x"
  by (cases x) auto

lemmas jnum_defs =
  jdiv_def jmul_def jadd_def jsub_def jround_def jfloor_def jless_def jeq_def jleq_def
  jmin_def jmax_def

lemma jless_Fin [simp]: "jless (Fin a) (Fin b) \<longleftrightarrow> a < b"
  by (simp add: jless_def)

lemma jleq_Fin [simp]: "jleq (Fin a) (Fin b) \<longleftrightarrow> a \<le> b"
  by (auto simp: jleq_def jeq_def)

lemma jmin_Fin [simp]: "jmin (Fin a) (Fin b) = Fin (min a b)"
  by (auto simp: jmin_def min_def)

lemma jmax_Fin [simp]: "jmax (Fin a) (Fin b) = Fin (max a b)"
  by (auto simp: jmax_def max_def)

lemma jround_Fin [simp]: "jround (Fin a) = num_of_int \<lfloor>a + 1 / 2\<rfloor>"
  by (simp add: jround_def)

lemma jmul_Fin [simp]: "jmul (Fin a) (Fin b) = Fin (a * b)"
  by (simp add: jmul_def)

lemma jadd_Fin [simp]: "jadd (Fin a) (Fin b) = Fin (a + b)"
  by (simp add: jadd_def)

lemma jsub_Fin [simp]: "jsub (Fin a) (Fin b) = Fin (a - b)"
  by (simp add: jsub_def)

lemma jdiv_Fin [simp]: "b \<noteq> 0 \<Longrightarrow> jdiv (Fin a) (Fin b) = Fin (a / b)"
  by (simp add: jdiv_def)

subsection \<open>Percentages\<close>

text \<open>\<open>Math.round((part / whole) * 100)\<close>.\<close>

definition percent :: "nat \<Rightarrow> nat \<Rightarrow> jnum" where
  "percent part whole = jround (jmul (jdiv (num_of_nat part) (num_of_nat whole)) (Fin 100))"

lemma percent_zero_whole: "percent 0 0 = NaN"
  by (simp add: percent_def jnum_defs)

lemma percent_bounds:
  assumes "part \<le> whole" and "0 < whole"
  obtains p where "percent part whole = num_of_int p" and "0 \<le> p" and "p \<le> 100"
proof
  let ?q = "(of_nat part / of_nat whole :: rat) * 100"
  have "(of_nat part / of_nat whole :: rat) \<le> 1"
    using assms by (simp add: divide_le_eq_1)
  then have "?q \<le> 100" using mult_right_mono [of _ 1 "100::rat"] by fastforce
  show "percent part whole = num_of_int \<lfloor>?q + 1 / 2\<rfloor>"
    using assms(2) by (simp add: percent_def)
  show "0 \<le> \<lfloor>?q + 1 / 2\<rfloor>" by (simp add: add_nonneg_nonneg)
  show "\<lfloor>?q + 1 / 2\<rfloor> \<le> 100" using \<open>?q \<le> 100\<close> by linarith
qed

lemma percent_nonneg:
  assumes "0 < whole"
  obtains p where "percent part whole = num_of_int p" and "0 \<le> p"
proof
  show "percent part whole = num_of_int \<lfloor>(of_nat part / of_nat whole :: rat) * 100 + 1 / 2\<rfloor>"
    using assms by (simp add: percent_def)
  show "0 \<le> \<lfloor>(of_nat part / of_nat whole :: rat) * 100 + 1 / 2\<rfloor>" by (simp add: add_nonneg_nonneg)
qed

subsection \<open>Number(s)\<close>

text \<open>
  The conversion of a string to a number: white space is trimmed, the empty string is zero,
  then an optional sign, \<open>Infinity\<close> or a decimal literal with an optional fraction and
  exponent, or an unsigned literal in base 16, 8 or 2; anything else is not a number.
\<close>

definition is_digit :: "char \<Rightarrow> bool" where
  "is_digit c \<longleftrightarrow> 48 \<le> (of_char c :: nat) \<and> (of_char c :: nat) \<le> 57"

definition digit_value :: "char \<Rightarrow> nat option" where
  "digit_value c =
     (let n = of_char c :: nat in
      if 48 \<le> n \<and> n \<le> 57 then Some (n - 48)
      else if 65 \<le> n \<and> n \<le> 70 then Some (n - 55)
      else if 97 \<le> n \<and> n \<le> 102 then Some (n - 87) else None)"

fun radix_value :: "nat \<Rightarrow> nat \<Rightarrow> string \<Rightarrow> nat option" where
  "radix_value b acc [] = Some acc"
| "radix_value b acc (c # cs) =
     (case digit_value c of
        None \<Rightarrow> None
      | Some d \<Rightarrow> if d < b then radix_value b (b * acc + d) cs else None)"

definition head_is :: "char \<Rightarrow> string \<Rightarrow> bool" where
  "head_is c s \<longleftrightarrow> (case s of [] \<Rightarrow> False | x # _ \<Rightarrow> x = c)"

lemma head_is_simps [simp]: "\<not> head_is c []" "head_is c (x # xs) \<longleftrightarrow> x = c"
  by (simp_all add: head_is_def)

definition all_digits :: "string \<Rightarrow> bool" where
  "all_digits s \<longleftrightarrow> s \<noteq> [] \<and> list_all is_digit s"

definition exponent_value :: "string \<Rightarrow> int option" where
  "exponent_value s =
     (if head_is CHR ''-'' s \<and> all_digits (tl s) then Some (- int (undec (tl s)))
      else if head_is CHR ''+'' s \<and> all_digits (tl s) then Some (int (undec (tl s)))
      else if all_digits s then Some (int (undec s)) else None)"

definition scale10 :: "rat \<Rightarrow> int \<Rightarrow> rat" where
  "scale10 r e = (if 0 \<le> e then r * 10 ^ nat e else r / 10 ^ nat (- e))"

definition unsigned_number :: "string \<Rightarrow> jnum" where
  "unsigned_number s =
     (let whole = takeWhile is_digit s; rest = dropWhile is_digit s;
          frac = (if head_is CHR ''.'' rest then takeWhile is_digit (tl rest) else []);
          rest' = (if head_is CHR ''.'' rest then dropWhile is_digit (tl rest) else rest);
          mant = of_nat (undec (whole @ frac)) / 10 ^ length frac
      in if s = ''Infinity'' then PInf
         else if whole = [] \<and> frac = [] then NaN
         else if rest' = [] then Fin mant
         else if head_is CHR ''e'' rest' \<or> head_is CHR ''E'' rest'
         then (case exponent_value (tl rest') of None \<Rightarrow> NaN | Some e \<Rightarrow> Fin (scale10 mant e))
         else NaN)"

definition radix_number :: "nat \<Rightarrow> string \<Rightarrow> jnum" where
  "radix_number b s =
     (if s = [] then NaN
      else case radix_value b 0 s of None \<Rightarrow> NaN | Some n \<Rightarrow> num_of_nat n)"

definition js_number :: "string \<Rightarrow> jnum" where
  "js_number raw =
     (let s = js_trim raw; second = tl s
      in if s = [] then Fin 0
         else if head_is CHR ''-'' s then jmul (Fin (- 1)) (unsigned_number second)
         else if head_is CHR ''+'' s then unsigned_number second
         else if head_is CHR ''0'' s \<and> (head_is CHR ''x'' second \<or> head_is CHR ''X'' second)
         then radix_number 16 (tl second)
         else if head_is CHR ''0'' s \<and> (head_is CHR ''o'' second \<or> head_is CHR ''O'' second)
         then radix_number 8 (tl second)
         else if head_is CHR ''0'' s \<and> (head_is CHR ''b'' second \<or> head_is CHR ''B'' second)
         then radix_number 2 (tl second)
         else unsigned_number s)"

lemma is_digit_digit [simp]: "d < 10 \<Longrightarrow> is_digit (digit d)"
  by (simp add: is_digit_def digit_def)

lemma digits_dec: "c \<in> set (dec n) \<Longrightarrow> is_digit c"
proof (induction n rule: dec.induct)
  case (1 n)
  show ?case
  proof (cases "n < 10")
    case True
    with 1 show ?thesis by (simp add: dec.simps [of n])
  next
    case False
    with 1 show ?thesis by (auto simp: dec.simps [of n])
  qed
qed

text \<open>\<open>Number(String(n))\<close> is \<open>n\<close> for a natural number.\<close>

lemma digit_not_special:
  assumes "is_digit c"
  shows "\<not> js_space c" "c \<noteq> CHR ''I''" "c \<noteq> CHR ''-''" "c \<noteq> CHR ''+''" "c \<noteq> CHR ''x''"
    "c \<noteq> CHR ''X''" "c \<noteq> CHR ''o''" "c \<noteq> CHR ''O''" "c \<noteq> CHR ''b''" "c \<noteq> CHR ''B''"
  using assms by (auto simp: is_digit_def js_space_def)

lemma js_trim_digits:
  assumes "list_all is_digit s"
  shows "js_trim s = s"
proof -
  have id: "dropWhile js_space t = t" if "list_all is_digit t" for t
    using that by (cases t) (auto dest: digit_not_special(1))
  have "list_all is_digit (rev s)" using assms by (simp add: list_all_iff)
  with assms show ?thesis by (simp add: js_trim_def id)
qed

lemma head_is_digits: "list_all is_digit s \<Longrightarrow> \<not> is_digit c \<Longrightarrow> \<not> head_is c s"
  by (cases s) auto

lemma unsigned_number_digits:
  assumes "list_all is_digit s" and "s \<noteq> []"
  shows "unsigned_number s = num_of_nat (undec s)"
proof -
  have all: "\<forall>c \<in> set s. is_digit c" using assms(1) by (simp add: list_all_iff)
  have tw: "takeWhile is_digit s = s" using all by (simp only: takeWhile_eq_all_conv)
  have dw: "dropWhile is_digit s = []" using all by (simp only: dropWhile_eq_Nil_conv)
  have "s \<noteq> ''Infinity''" using assms(1) by (auto simp: is_digit_def)
  with assms(2) show ?thesis
    by (simp only: unsigned_number_def Let_def tw dw if_False append_Nil2) (simp add: assms(2))
qed

lemma js_number_dec [simp]: "js_number (dec n) = num_of_nat n"
proof -
  have d: "list_all is_digit (dec n)" by (auto simp: list_all_iff dest: digits_dec)
  then have tl: "list_all is_digit (tl (dec n))" by (cases "dec n") auto
  have no: "\<not> head_is c (dec n)" "\<not> head_is c (tl (dec n))" if "\<not> is_digit c" for c
    using d tl that by (auto dest: head_is_digits)
  have "\<not> is_digit CHR ''-''" "\<not> is_digit CHR ''+''" "\<not> is_digit CHR ''x''" "\<not> is_digit CHR ''X''"
    "\<not> is_digit CHR ''o''" "\<not> is_digit CHR ''O''" "\<not> is_digit CHR ''b''" "\<not> is_digit CHR ''B''"
    by (simp_all add: is_digit_def)
  note this [THEN no(1)] this [THEN no(2)]
  then show ?thesis
    by (simp add: js_number_def Let_def js_trim_digits [OF d] unsigned_number_digits [OF d])
qed

lemma js_number_examples:
  "js_number '' 12.5 '' = Fin (25 / 2)" "js_number ''1e3'' = Fin 1000" "js_number [] = Fin 0"
  "js_number ''12s'' = NaN" "js_number ''0x10'' = Fin 16" "js_number ''-4'' = Fin (- 4)"
  by code_simp+

end
