(* ===== verification/Storage.thy ===== *)
theory Storage
  imports Prelude
begin

text \<open>
  The two browser stores the client persists to.  \<open>localStorage\<close> is a map from keys to
  values that can refuse a read (an inaccessible origin) or a write (quota, private mode);
  the value type is a parameter, one constructor per shape the code stores.  IndexedDB, as
  \<open>web/lib/idb.ts\<close> wraps it, holds the files of uploads by job id.

  Each store is used through a locale: what the clients may rely on is proved there once.
\<close>

subsection \<open>The interface of a key-value store that may fail\<close>

datatype storage_error = SecurityError | QuotaExceeded | IdbUnavailable | TransactionError

text \<open>\<open>try { s = op(s) } catch {}\<close>: a failing operation leaves the state as it is.\<close>

definition try_ignore :: "('s \<Rightarrow> storage_error + 's) \<Rightarrow> 's \<Rightarrow> 's" where
  "try_ignore f s = (case f s of Inl _ \<Rightarrow> s | Inr s' \<Rightarrow> s')"

definition succeeds :: "('s \<Rightarrow> storage_error + 's) \<Rightarrow> 's \<Rightarrow> bool" where
  "succeeds f s \<longleftrightarrow> (case f s of Inl _ \<Rightarrow> False | Inr _ \<Rightarrow> True)"

locale kv_store =
  fixes lookup :: "'s \<Rightarrow> 'k \<Rightarrow> 'v option"
    and put :: "'k \<Rightarrow> 'v \<Rightarrow> 's \<Rightarrow> storage_error + 's"
    and del :: "'k \<Rightarrow> 's \<Rightarrow> storage_error + 's"
  assumes lookup_put: "put k v s = Inr s' \<Longrightarrow> lookup s' = (lookup s)(k := Some v)"
    and lookup_del: "del k s = Inr s' \<Longrightarrow> lookup s' = (lookup s)(k := None)"
begin

lemma lookup_try_put:
  "lookup (try_ignore (put k v) s) =
     (if succeeds (put k v) s then (lookup s)(k := Some v) else lookup s)"
  by (auto simp: try_ignore_def succeeds_def lookup_put split: sum.splits)

lemma lookup_try_del:
  "lookup (try_ignore (del k) s) =
     (if succeeds (del k) s then (lookup s)(k := None) else lookup s)"
  by (auto simp: try_ignore_def succeeds_def lookup_del split: sum.splits)

lemma try_put_other: "k' \<noteq> k \<Longrightarrow> lookup (try_ignore (put k v) s) k' = lookup s k'"
  by (simp add: lookup_try_put)

lemma try_del_other: "k' \<noteq> k \<Longrightarrow> lookup (try_ignore (del k) s) k' = lookup s k'"
  by (simp add: lookup_try_del)

lemma try_put_read_back:
  "succeeds (put k v) s \<Longrightarrow> lookup (try_ignore (put k v) s) k = Some v"
  by (simp add: lookup_try_put)

lemma try_del_gone: "succeeds (del k) s \<Longrightarrow> lookup (try_ignore (del k) s) k = None"
  by (simp add: lookup_try_del)

end

subsection \<open>localStorage\<close>

record 'v local_storage =
  ls_items :: "string \<rightharpoonup> 'v"
  ls_readable :: bool
  ls_writable :: bool

definition empty_storage :: "'v local_storage" where
  "empty_storage = \<lparr>ls_items = Map.empty, ls_readable = True, ls_writable = True\<rparr>"

definition get_item :: "'v local_storage \<Rightarrow> string \<Rightarrow> storage_error + 'v option" where
  "get_item s k = (if ls_readable s then Inr (ls_items s k) else Inl SecurityError)"

definition set_item :: "string \<Rightarrow> 'v \<Rightarrow> 'v local_storage \<Rightarrow> storage_error + 'v local_storage" where
  "set_item k v s =
     (if ls_writable s then Inr (s\<lparr>ls_items := (ls_items s)(k \<mapsto> v)\<rparr>) else Inl QuotaExceeded)"

definition remove_item :: "string \<Rightarrow> 'v local_storage \<Rightarrow> storage_error + 'v local_storage" where
  "remove_item k s =
     (if ls_readable s then Inr (s\<lparr>ls_items := (ls_items s)(k := None)\<rparr>) else Inl SecurityError)"

interpretation lst: kv_store ls_items set_item remove_item
  by unfold_locales (auto simp: set_item_def remove_item_def split: if_splits)

lemma succeeds_set_item [simp]: "succeeds (set_item k v) s \<longleftrightarrow> ls_writable s"
  by (simp add: succeeds_def set_item_def)

lemma succeeds_remove_item [simp]: "succeeds (remove_item k) s \<longleftrightarrow> ls_readable s"
  by (simp add: succeeds_def remove_item_def)

lemma flags_try_set_item [simp]:
  "ls_writable (try_ignore (set_item k v) s) = ls_writable s"
  "ls_readable (try_ignore (set_item k v) s) = ls_readable s"
  by (simp_all add: try_ignore_def set_item_def)

lemma flags_try_remove_item [simp]:
  "ls_writable (try_ignore (remove_item k) s) = ls_writable s"
  "ls_readable (try_ignore (remove_item k) s) = ls_readable s"
  by (simp_all add: try_ignore_def remove_item_def)

subsection \<open>IndexedDB blobs (web/lib/idb.ts)\<close>

text \<open>A browser file; \<open>f_blob\<close> stands for its contents.\<close>

record js_file =
  f_name :: string
  f_size :: nat
  f_blob :: nat

text \<open>
  The database, whether it can be opened, and whether its transactions complete.  The
  object store is created by the first successful open (\<open>onupgradeneeded\<close>).
\<close>

record idb =
  db_available :: bool
  db_tx_ok :: bool
  db_has_store :: bool
  db_blobs :: "string \<rightharpoonup> js_file"

definition empty_idb :: idb where
  "empty_idb = \<lparr>db_available = True, db_tx_ok = True, db_has_store = False, db_blobs = Map.empty\<rparr>"

definition openDb :: "idb \<Rightarrow> storage_error + idb" where
  "openDb d = (if \<not> db_available d then Inl IdbUnavailable
               else Inr (if db_has_store d then d else d\<lparr>db_has_store := True\<rparr>))"

definition idb_put_tx :: "string \<Rightarrow> js_file \<Rightarrow> idb \<Rightarrow> storage_error + idb" where
  "idb_put_tx i f d =
     (case openDb d of Inl e \<Rightarrow> Inl e
      | Inr d' \<Rightarrow> if db_tx_ok d' then Inr (d'\<lparr>db_blobs := (db_blobs d')(i \<mapsto> f)\<rparr>)
                 else Inl TransactionError)"

definition idb_delete_tx :: "string \<Rightarrow> idb \<Rightarrow> storage_error + idb" where
  "idb_delete_tx i d =
     (case openDb d of Inl e \<Rightarrow> Inl e
      | Inr d' \<Rightarrow> if db_tx_ok d' then Inr (d'\<lparr>db_blobs := (db_blobs d')(i := None)\<rparr>)
                 else Inl TransactionError)"

definition idbPut :: "string \<Rightarrow> js_file \<Rightarrow> idb \<Rightarrow> idb" where
  "idbPut i f = try_ignore (idb_put_tx i f)"

definition idbDelete :: "string \<Rightarrow> idb \<Rightarrow> idb" where
  "idbDelete i = try_ignore (idb_delete_tx i)"

definition idbGet :: "idb \<Rightarrow> string \<Rightarrow> js_file option" where
  "idbGet d i =
     (case openDb d of Inl _ \<Rightarrow> None
      | Inr d' \<Rightarrow> if db_tx_ok d' then db_blobs d' i else None)"

interpretation blobs: kv_store db_blobs idb_put_tx idb_delete_tx
  by unfold_locales
    (auto simp: idb_put_tx_def idb_delete_tx_def openDb_def split: if_splits)

definition idb_up :: "idb \<Rightarrow> bool" where
  "idb_up d \<longleftrightarrow> db_available d \<and> db_tx_ok d"

lemma succeeds_idb [simp]:
  "succeeds (idb_put_tx i f) d \<longleftrightarrow> idb_up d"
  "succeeds (idb_delete_tx i) d \<longleftrightarrow> idb_up d"
  by (auto simp: succeeds_def idb_put_tx_def idb_delete_tx_def openDb_def idb_up_def)

lemma idb_up_ops [simp]:
  "idb_up (idbPut i f d) = idb_up d"
  "idb_up (idbDelete i d) = idb_up d"
  by (auto simp: idbPut_def idbDelete_def try_ignore_def idb_put_tx_def idb_delete_tx_def
      openDb_def idb_up_def)

lemma db_blobs_idbPut:
  "db_blobs (idbPut i f d) = (if idb_up d then (db_blobs d)(i \<mapsto> f) else db_blobs d)"
  by (simp add: idbPut_def blobs.lookup_try_put)

lemma db_blobs_idbDelete:
  "db_blobs (idbDelete i d) = (if idb_up d then (db_blobs d)(i := None) else db_blobs d)"
  by (simp add: idbDelete_def blobs.lookup_try_del)

lemma idbGet_iff: "idbGet d i = (if idb_up d then db_blobs d i else None)"
  by (auto simp: idbGet_def openDb_def idb_up_def)

lemmas idb_lookup = idbGet_iff db_blobs_idbPut db_blobs_idbDelete

lemma idbGet_idbPut: "idb_up d \<Longrightarrow> idbGet (idbPut i f d) i = Some f"
  by (simp add: idb_lookup)

end
