(* ===== verification/JobList.thy ===== *)
theory JobList
  imports Prelude
begin

text \<open>
  What the two job stores have in common: a list of jobs with an identifier each, patched
  by id and filtered by id.  The laws are those of \<open>updateJob\<close>/\<open>removeJob\<close> and
  \<open>update\<close>/\<open>removeUrlDownload\<close>; the consequences the dialog, the runner and the
  notifications rely on are proved here once, for both.
\<close>

locale job_list =
  fixes jobs :: "'s \<Rightarrow> 'j list"
    and ident :: "'j \<Rightarrow> 'i"
    and patch :: "'i \<Rightarrow> ('j \<Rightarrow> 'j) \<Rightarrow> 's \<Rightarrow> 's"
    and drop_job :: "'i \<Rightarrow> 's \<Rightarrow> 's"
  assumes jobs_patch: "jobs (patch i f s) = update_where (\<lambda>j. ident j = i) f (jobs s)"
    and jobs_drop: "jobs (drop_job i s) = filter (\<lambda>j. ident j \<noteq> i) (jobs s)"
begin

lemma ids_patch:
  assumes "\<And>j. ident (f j) = ident j"
  shows "map ident (jobs (patch i f s)) = map ident (jobs s)"
  using assms by (simp add: jobs_patch map_key_update_where)

lemma distinct_patch:
  assumes "\<And>j. ident (f j) = ident j" and "distinct (map ident (jobs s))"
  shows "distinct (map ident (jobs (patch i f s)))"
  using assms by (simp add: ids_patch)

lemma distinct_drop:
  "distinct (map ident (jobs s)) \<Longrightarrow> distinct (map ident (jobs (drop_job i s)))"
  by (simp add: jobs_drop distinct_map_filter)

lemma length_patch: "length (jobs (patch i f s)) = length (jobs s)"
  by (simp add: jobs_patch)

lemma drop_gone: "j \<in> set (jobs (drop_job i s)) \<Longrightarrow> ident j \<noteq> i"
  by (simp add: jobs_drop)

lemma drop_others: "j \<in> set (jobs s) \<Longrightarrow> ident j \<noteq> i \<Longrightarrow> j \<in> set (jobs (drop_job i s))"
  by (simp add: jobs_drop)

lemma patch_others:
  "ident j \<noteq> i \<Longrightarrow> j \<in> set (jobs s) \<Longrightarrow> j \<in> set (jobs (patch i f s))"
  by (auto simp: jobs_patch set_update_where)

lemma patch_absent: "i \<notin> ident ` set (jobs s) \<Longrightarrow> jobs (patch i f s) = jobs s"
  unfolding jobs_patch by (rule update_where_id) auto

lemma patch_hit:
  assumes "distinct (map ident (jobs s))" and "j \<in> set (jobs s)"
    and "j' \<in> set (jobs (patch (ident j) f s))" and "ident j' = ident j"
    and "\<And>j. ident (f j) = ident j"
  shows "j' = f j"
proof -
  from assms(3,4) obtain x where "x \<in> set (jobs s)" "ident x = ident j" "j' = f x"
    by (auto simp: jobs_patch set_update_where)
  moreover from this assms(1,2) have "x = j" by (auto intro: distinct_key_unique)
  ultimately show ?thesis by simp
qed

text \<open>Looking a job up by its id, after a patch and after a removal.\<close>

lemma find_patch:
  assumes "\<And>j. ident (f j) = ident j"
  shows "find (\<lambda>j. ident j = k) (jobs (patch i f s)) =
    (if k = i then map_option f (find (\<lambda>j. ident j = k) (jobs s))
     else find (\<lambda>j. ident j = k) (jobs s))"
  unfolding jobs_patch by (rule find_update_where_key) (rule assms)

lemma find_drop:
  "find (\<lambda>j. ident j = k) (jobs (drop_job i s)) =
    (if k = i then None else find (\<lambda>j. ident j = k) (jobs s))"
  unfolding jobs_drop by (rule find_filter_key)

text \<open>Dropping every job that satisfies a test, one call per job, as the dialog does.\<close>

lemma fold_drop:
  "jobs (fold drop_job is s) = filter (\<lambda>j. ident j \<notin> set is) (jobs s)"
  by (induction "is" arbitrary: s) (auto simp: jobs_drop intro: filter_cong)

lemma fold_drop_where:
  assumes "distinct (map ident (jobs s))"
  shows "jobs (fold drop_job (map ident (filter p (jobs s))) s) = filter (\<lambda>j. \<not> p j) (jobs s)"
proof -
  have "j \<in> set (jobs s) \<Longrightarrow> ident j \<notin> ident ` {x \<in> set (jobs s). p x} \<longleftrightarrow> \<not> p j" for j
    using distinct_key_unique [OF assms] by blast
  then show ?thesis
    unfolding fold_drop by (intro filter_cong) auto
qed

end

end
