(* ===== verification/UploadStore.thy ===== *)
theory UploadStore
  imports JsNum Storage JobList "HOL-Library.AList"
begin

text \<open>
  The upload store, \<open>web/lib/upload-store.ts\<close>: the list of upload jobs the application
  keeps across pages and refreshes, the files it holds in memory, the tus transfers in
  flight and the batch runner \<open>startAll\<close>.

  The module's variables are the fields of \<open>upload_store\<close>; every exported function is one
  operation on it.  The asynchronous \<open>startAll\<close>/\<open>startJob\<close> pair is cut at its awaits:
  \<open>batch_pc\<close> says where the one running batch is waiting, and the handlers of
  \<open>upload_event\<close> run the code up to the next await.  A tus upload is a handle; the tus
  library is not part of the source, so its callbacks are events, and \<open>upload_enabled\<close>
  holds what the code relies on: callbacks come from uploads that were started and have
  neither finished nor been aborted, and bytes sent never exceed the total.
\<close>

subsection \<open>Data\<close>

datatype upload_status = UQueued | UUploading | UDone | UFailed | UInterrupted

record upload_job =
  uj_id :: string
  uj_fileName :: string
  uj_fileSize :: nat
  uj_title :: string
  uj_description :: string
  uj_category :: string
  uj_progress :: jnum
  uj_status :: upload_status
  uj_error :: "string option"
  uj_uploadUrl :: "string option"
  uj_finishedAt :: "int option"

text \<open>What the module writes to localStorage under its two keys.\<close>

datatype upload_stored =
    StoredUploads "upload_job list"
  | StoredCompletedAt int
  | StoredOther string

text \<open>The options a tus upload is constructed with.\<close>

record transfer =
  t_id :: string
  t_file :: js_file
  t_uploadUrl :: "string option"
  t_filename :: string
  t_title :: string
  t_description :: string
  t_category :: string

text \<open>
  Where the running batch waits: nowhere, at the head of its loop, for the blob of a job
  from IndexedDB, or for the promise \<open>finished\<close> of an upload.
\<close>

datatype batch_pc = BIdle | BLoop | BBlob upload_job | BFinished nat

record upload_store =
  us_jobs :: "upload_job list"
  us_lastCompletedAt :: "jnum option"
  us_files :: "string \<rightharpoonup> js_file"
  us_activeUploads :: "(string \<times> nat) list"
  us_tus :: "(nat \<times> transfer) list"
  us_nextHandle :: nat
  us_batchRunning :: bool
  us_pc :: batch_pc
  us_listeners :: "nat list"
  us_seen :: "nat \<rightharpoonup> upload_job list"
  us_ls :: "upload_stored local_storage"
  us_idb :: idb
  us_nextUuid :: nat

definition STORAGE_KEY :: string where "STORAGE_KEY = ''vidsilo-uploads''"
definition COMPLETED_KEY :: string where "COMPLETED_KEY = ''vidsilo-uploads-completed''"
definition MAX_BATCH :: nat where "MAX_BATCH = 10"

lemma keys_differ [simp]: "STORAGE_KEY \<noteq> COMPLETED_KEY" "COMPLETED_KEY \<noteq> STORAGE_KEY"
  by (simp_all add: STORAGE_KEY_def COMPLETED_KEY_def)

definition is_active :: "upload_job \<Rightarrow> bool" where
  "is_active j \<longleftrightarrow> uj_status j \<noteq> UDone \<and> uj_status j \<noteq> UFailed"

definition is_pending :: "upload_job \<Rightarrow> bool" where
  "is_pending j \<longleftrightarrow> uj_status j = UQueued \<or> uj_status j = UInterrupted"

subsection \<open>Persistence\<close>

text \<open>A job after \<open>JSON.stringify\<close> and \<open>JSON.parse\<close>.\<close>

definition json_job :: "upload_job \<Rightarrow> upload_job" where
  "json_job j = j\<lparr>uj_progress := json_num (uj_progress j)\<rparr>"

definition loadCompleted :: "bool \<Rightarrow> upload_stored local_storage \<Rightarrow> jnum option" where
  "loadCompleted browser ls =
     (if \<not> browser then None
      else case get_item ls COMPLETED_KEY of
          Inl _ \<Rightarrow> None
        | Inr None \<Rightarrow> None
        | Inr (Some (StoredCompletedAt n)) \<Rightarrow> Some (num_of_int n)
        | Inr (Some (StoredUploads _)) \<Rightarrow> Some NaN
        | Inr (Some (StoredOther raw)) \<Rightarrow> if raw = [] then None else Some NaN)"

definition markUploadsCompleted :: "int \<Rightarrow> upload_store \<Rightarrow> upload_store" where
  "markUploadsCompleted now s =
     s\<lparr>us_lastCompletedAt := Some (num_of_int now),
       us_ls := try_ignore (set_item COMPLETED_KEY (StoredCompletedAt now)) (us_ls s)\<rparr>"

definition hasUploadsCompleted :: "upload_store \<Rightarrow> bool" where
  "hasUploadsCompleted s \<longleftrightarrow> us_lastCompletedAt s \<noteq> None"

definition clearUploadsCompleted :: "upload_store \<Rightarrow> upload_store" where
  "clearUploadsCompleted s =
     s\<lparr>us_lastCompletedAt := None,
       us_ls := try_ignore (remove_item COMPLETED_KEY) (us_ls s)\<rparr>"

text \<open>Anything in flight when the page reloaded is resumable.\<close>

definition interrupt :: "upload_job \<Rightarrow> upload_job" where
  "interrupt j = (if uj_status j = UUploading \<or> uj_status j = UQueued
                  then j\<lparr>uj_status := UInterrupted\<rparr> else j)"

definition DAY_MS :: int where "DAY_MS = 24 * 60 * 60 * 1000"

text \<open>Completed and failed history older than a day is dropped.\<close>

definition keep_recent :: "int \<Rightarrow> upload_job \<Rightarrow> bool" where
  "keep_recent now j =
     (if uj_status j \<noteq> UDone \<and> uj_status j \<noteq> UFailed then True
      else case uj_finishedAt j of None \<Rightarrow> False | Some t \<Rightarrow> now - DAY_MS \<le> t)"

definition load :: "bool \<Rightarrow> int \<Rightarrow> upload_stored local_storage \<Rightarrow> upload_job list" where
  "load browser now ls =
     (if \<not> browser then []
      else case get_item ls STORAGE_KEY of
          Inl _ \<Rightarrow> []
        | Inr None \<Rightarrow> []
        | Inr (Some (StoredUploads js)) \<Rightarrow> filter (keep_recent now) (map interrupt js)
        | Inr (Some (StoredCompletedAt _)) \<Rightarrow> []
        | Inr (Some (StoredOther _)) \<Rightarrow> [])"

definition persist :: "upload_store \<Rightarrow> upload_store" where
  "persist s = s\<lparr>us_ls := try_ignore
     (set_item STORAGE_KEY (StoredUploads (map json_job (us_jobs s)))) (us_ls s)\<rparr>"

subsection \<open>Subscribers\<close>

text \<open>
  \<open>emit\<close> calls every listener; a listener is React's \<open>useSyncExternalStore\<close>, which reads
  the snapshot \<open>getUploads()\<close>: \<open>us_seen\<close> is the last snapshot each listener read.
\<close>

definition emit :: "upload_store \<Rightarrow> upload_store" where
  "emit s = s\<lparr>us_seen := (\<lambda>l. if l \<in> set (us_listeners s) then Some (us_jobs s) else us_seen s l)\<rparr>"

definition subscribeUploads :: "nat \<Rightarrow> upload_store \<Rightarrow> upload_store" where
  "subscribeUploads l s =
     s\<lparr>us_listeners := (if l \<in> set (us_listeners s) then us_listeners s else us_listeners s @ [l]),
       us_seen := (us_seen s)(l \<mapsto> us_jobs s)\<rparr>"

definition unsubscribeUploads :: "nat \<Rightarrow> upload_store \<Rightarrow> upload_store" where
  "unsubscribeUploads l s = s\<lparr>us_listeners := filter (\<lambda>x. x \<noteq> l) (us_listeners s)\<rparr>"

definition getUploads :: "upload_store \<Rightarrow> upload_job list" where
  "getUploads s = us_jobs s"

text \<open>\<open>jobs = js; emit(); persist();\<close>\<close>

definition set_jobs :: "upload_job list \<Rightarrow> upload_store \<Rightarrow> upload_store" where
  "set_jobs js s = persist (emit (s\<lparr>us_jobs := js\<rparr>))"

subsection \<open>Operations on the list\<close>

definition defaultTitle :: "string \<Rightarrow> string" where
  "defaultTitle name = strip_ext name"

definition updateJob :: "string \<Rightarrow> (upload_job \<Rightarrow> upload_job) \<Rightarrow> upload_store \<Rightarrow> upload_store" where
  "updateJob i patch s = set_jobs (update_where (\<lambda>j. uj_id j = i) patch (us_jobs s)) s"

record add_result =
  ar_added :: nat
  ar_duplicates :: nat
  ar_overLimit :: nat

definition resumable :: "js_file \<Rightarrow> upload_job \<Rightarrow> bool" where
  "resumable f j \<longleftrightarrow> uj_fileName j = f_name f \<and> uj_fileSize j = f_size f \<and>
     uj_status j = UInterrupted \<and> (case uj_uploadUrl j of None \<Rightarrow> False | Some u \<Rightarrow> u \<noteq> [])"

definition duplicate_of :: "js_file \<Rightarrow> upload_job \<Rightarrow> bool" where
  "duplicate_of f j \<longleftrightarrow> uj_fileName j = f_name f \<and> uj_fileSize j = f_size f \<and>
     uj_status j \<noteq> UDone \<and> uj_status j \<noteq> UFailed"

definition new_job :: "string \<Rightarrow> js_file \<Rightarrow> upload_job" where
  "new_job i f = \<lparr>uj_id = i, uj_fileName = f_name f, uj_fileSize = f_size f,
     uj_title = defaultTitle (f_name f), uj_description = [], uj_category = [],
     uj_progress = Fin 0, uj_status = UQueued, uj_error = None, uj_uploadUrl = None,
     uj_finishedAt = None\<rparr>"

text \<open>One iteration of the loop of \<open>addFiles\<close>; \<open>uuid\<close> is \<open>crypto.randomUUID\<close>.\<close>

definition add_file ::
  "(nat \<Rightarrow> string) \<Rightarrow> nat \<Rightarrow> js_file \<Rightarrow> upload_store \<times> add_result \<Rightarrow> upload_store \<times> add_result" where
  "add_file uuid slots f sr =
     (let (s, r) = sr in
      case find (resumable f) (us_jobs s) of
        Some old \<Rightarrow>
          (let i = uj_id old;
               s1 = s\<lparr>us_files := (us_files s)(i \<mapsto> f), us_idb := idbPut i f (us_idb s)\<rparr>
           in (set_jobs (update_where (\<lambda>j. uj_id j = i) (\<lambda>j. j\<lparr>uj_status := UQueued\<rparr>) (us_jobs s1)) s1,
               r\<lparr>ar_added := Suc (ar_added r)\<rparr>))
      | None \<Rightarrow>
          if list_ex (duplicate_of f) (us_jobs s) then (s, r\<lparr>ar_duplicates := Suc (ar_duplicates r)\<rparr>)
          else if slots \<le> ar_added r then (s, r\<lparr>ar_overLimit := Suc (ar_overLimit r)\<rparr>)
          else (let i = uuid (us_nextUuid s)
                in (s\<lparr>us_nextUuid := Suc (us_nextUuid s),
                      us_files := (us_files s)(i \<mapsto> f), us_idb := idbPut i f (us_idb s),
                      us_jobs := us_jobs s @ [new_job i f]\<rparr>,
                    r\<lparr>ar_added := Suc (ar_added r)\<rparr>)))"

text \<open>\<open>Math.max(0, MAX_BATCH - active)\<close> is truncated subtraction.\<close>

definition free_slots :: "upload_store \<Rightarrow> nat" where
  "free_slots s = MAX_BATCH - length (filter is_active (us_jobs s))"

definition addFiles :: "(nat \<Rightarrow> string) \<Rightarrow> js_file list \<Rightarrow> upload_store \<Rightarrow> upload_store \<times> add_result" where
  "addFiles uuid fs s =
     (let (s', r) = fold (add_file uuid (free_slots s)) fs
                      (s, \<lparr>ar_added = 0, ar_duplicates = 0, ar_overLimit = 0\<rparr>)
      in (persist (emit s'), r))"

text \<open>\<open>abort()\<close> ends a tus upload without a callback.\<close>

definition abort :: "nat option \<Rightarrow> upload_store \<Rightarrow> upload_store" where
  "abort h s = (case h of None \<Rightarrow> s | Some h \<Rightarrow> s\<lparr>us_tus := AList.delete h (us_tus s)\<rparr>)"

definition removeJob :: "string \<Rightarrow> upload_store \<Rightarrow> upload_store" where
  "removeJob i s =
     (let s1 = abort (map_of (us_activeUploads s) i) s;
          s2 = s1\<lparr>us_activeUploads := AList.delete i (us_activeUploads s1),
                  us_files := (us_files s1)(i := None),
                  us_idb := idbDelete i (us_idb s1)\<rparr>
      in set_jobs (filter (\<lambda>j. uj_id j \<noteq> i) (us_jobs s2)) s2)"

definition resetIdle :: "upload_store \<Rightarrow> upload_store" where
  "resetIdle s =
     (let active = list_ex (\<lambda>j. uj_status j = UUploading \<or> uj_status j = UQueued \<or>
                                uj_status j = UInterrupted) (us_jobs s)
      in if \<not> active \<and> us_jobs s \<noteq> [] then set_jobs [] (s\<lparr>us_files := Map.empty\<rparr>) else s)"

definition clearUploads :: "upload_store \<Rightarrow> upload_store" where
  "clearUploads s =
     (let s1 = fold (\<lambda>(i, h) s. (abort (Some h) s)\<lparr>us_idb := idbDelete i (us_idb s)\<rparr>)
                 (us_activeUploads s) s
      in set_jobs [] (s1\<lparr>us_activeUploads := [], us_files := Map.empty\<rparr>))"

definition clearAllUploads :: "upload_store \<Rightarrow> upload_store" where
  "clearAllUploads s =
     (let s1 = fold (\<lambda>(_, h). abort (Some h)) (us_activeUploads s) s
      in set_jobs [] (s1\<lparr>us_activeUploads := [], us_files := Map.empty\<rparr>))"

definition resetUploadStore :: "upload_store \<Rightarrow> upload_store" where
  "resetUploadStore s = emit (s\<lparr>us_jobs := [], us_files := Map.empty\<rparr>)"

subsection \<open>The batch runner\<close>

text \<open>How a call of \<open>startJob\<close> goes on: it has returned, or it awaits.\<close>

datatype start_result = Returned | AwaitBlob upload_job | AwaitFinished nat

definition tus_options :: "upload_job \<Rightarrow> js_file \<Rightarrow> transfer" where
  "tus_options job f = \<lparr>t_id = uj_id job, t_file = f, t_uploadUrl = uj_uploadUrl job,
     t_filename = f_name f, t_title = uj_title job, t_description = uj_description job,
     t_category = uj_category job\<rparr>"

definition begin_transfer :: "upload_job \<Rightarrow> js_file \<Rightarrow> upload_store \<Rightarrow> upload_store \<times> start_result" where
  "begin_transfer job f s =
     (let i = uj_id job;
          s1 = updateJob i (\<lambda>j. j\<lparr>uj_status := UUploading, uj_error := None\<rparr>) s;
          h = us_nextHandle s1
      in (s1\<lparr>us_activeUploads := AList.update i h (us_activeUploads s1),
             us_tus := AList.update h (tus_options job f) (us_tus s1),
             us_nextHandle := Suc h\<rparr>,
          AwaitFinished h))"

definition startJob :: "string \<Rightarrow> upload_store \<Rightarrow> upload_store \<times> start_result" where
  "startJob i s =
     (case find (\<lambda>j. uj_id j = i) (us_jobs s) of
        None \<Rightarrow> (s, Returned)
      | Some job \<Rightarrow>
          if uj_status job = UUploading \<or> uj_status job = UDone then (s, Returned)
          else (case us_files s i of
                  Some f \<Rightarrow> begin_transfer job f s
                | None \<Rightarrow> (s, AwaitBlob job)))"

text \<open>The rest of \<open>startJob\<close> after \<open>await idbGet(id)\<close>.\<close>

definition startJob_blob :: "upload_job \<Rightarrow> js_file option \<Rightarrow> upload_store \<Rightarrow> upload_store \<times> start_result" where
  "startJob_blob job blob s =
     (case blob of
        None \<Rightarrow> (s, Returned)
      | Some f \<Rightarrow> begin_transfer job f (s\<lparr>us_files := (us_files s)(uj_id job \<mapsto> f)\<rparr>))"

fun set_pc :: "upload_store \<times> start_result \<Rightarrow> upload_store" where
  "set_pc (s, Returned) = s\<lparr>us_pc := BLoop\<rparr>"
| "set_pc (s, AwaitBlob job) = s\<lparr>us_pc := BBlob job\<rparr>"
| "set_pc (s, AwaitFinished h) = s\<lparr>us_pc := BFinished h\<rparr>"

text \<open>One turn of the loop of \<open>startAll\<close>, up to its await, or its end.\<close>

definition batch_turn :: "int \<Rightarrow> upload_store \<Rightarrow> upload_store" where
  "batch_turn now s =
     (case find is_pending (us_jobs s) of
        None \<Rightarrow>
          (let s1 = (if list_ex (\<lambda>j. uj_status j = UDone) (us_jobs s)
                     then markUploadsCompleted now s else s)
           in s1\<lparr>us_batchRunning := False, us_pc := BIdle\<rparr>)
      | Some next \<Rightarrow> set_pc (startJob (uj_id next) s))"

definition startAll :: "int \<Rightarrow> upload_store \<Rightarrow> upload_store" where
  "startAll now s =
     (if us_batchRunning s then s else batch_turn now (s\<lparr>us_batchRunning := True\<rparr>))"

subsection \<open>The callbacks of a tus upload\<close>

definition onProgress :: "string \<Rightarrow> nat \<Rightarrow> nat \<Rightarrow> upload_store \<Rightarrow> upload_store" where
  "onProgress i bytesSent bytesTotal s =
     updateJob i (\<lambda>j. j\<lparr>uj_progress := percent bytesSent bytesTotal\<rparr>) s"

definition onUploadUrlAvailable :: "string \<Rightarrow> string option \<Rightarrow> upload_store \<Rightarrow> upload_store" where
  "onUploadUrlAvailable i url s =
     (case url of
        Some u \<Rightarrow> if u \<noteq> [] then updateJob i (\<lambda>j. j\<lparr>uj_uploadUrl := Some u\<rparr>) s else s
      | None \<Rightarrow> s)"

definition onSuccess :: "int \<Rightarrow> string \<Rightarrow> upload_store \<Rightarrow> upload_store" where
  "onSuccess now i s =
     updateJob i (\<lambda>j. j\<lparr>uj_progress := Fin 100, uj_status := UDone, uj_finishedAt := Some now\<rparr>)
       (s\<lparr>us_activeUploads := AList.delete i (us_activeUploads s),
          us_idb := idbDelete i (us_idb s)\<rparr>)"

definition onError :: "int \<Rightarrow> string \<Rightarrow> string \<Rightarrow> upload_store \<Rightarrow> upload_store" where
  "onError now i msg s =
     updateJob i (\<lambda>j. j\<lparr>uj_status := UFailed, uj_error := Some msg, uj_finishedAt := Some now\<rparr>)
       (s\<lparr>us_activeUploads := AList.delete i (us_activeUploads s)\<rparr>)"

text \<open>
  The upload with handle \<open>h\<close> is over; \<open>resolveFinished()\<close> wakes the batch if it is the
  upload the batch awaits.
\<close>

definition tus_over :: "nat \<Rightarrow> upload_store \<Rightarrow> upload_store" where
  "tus_over h s = s\<lparr>us_tus := AList.delete h (us_tus s),
                    us_pc := (if us_pc s = BFinished h then BLoop else us_pc s)\<rparr>"

lemma alist_delete_Nil [simp]: "AList.delete k [] = []"
  by (simp add: AList.delete_eq)

subsection \<open>Effects of the operations on the fields\<close>

lemma set_jobs_sel [store_simps]:
  "us_jobs (set_jobs js s) = js"
  "us_lastCompletedAt (set_jobs js s) = us_lastCompletedAt s"
  "us_files (set_jobs js s) = us_files s"
  "us_activeUploads (set_jobs js s) = us_activeUploads s"
  "us_tus (set_jobs js s) = us_tus s"
  "us_nextHandle (set_jobs js s) = us_nextHandle s"
  "us_batchRunning (set_jobs js s) = us_batchRunning s"
  "us_pc (set_jobs js s) = us_pc s"
  "us_listeners (set_jobs js s) = us_listeners s"
  "us_ls (set_jobs js s) =
     try_ignore (set_item STORAGE_KEY (StoredUploads (map json_job js))) (us_ls s)"
  "us_idb (set_jobs js s) = us_idb s"
  "us_nextUuid (set_jobs js s) = us_nextUuid s"
  by (simp_all add: set_jobs_def persist_def emit_def)

lemma seen_set_jobs [store_simps]:
  "us_seen (set_jobs js s) = (\<lambda>l. if l \<in> set (us_listeners s) then Some js else us_seen s l)"
  by (simp add: set_jobs_def persist_def emit_def fun_eq_iff)

lemma persist_emit_sel [store_simps]:
  "us_jobs (persist (emit s)) = us_jobs s"
  "us_files (persist (emit s)) = us_files s"
  "us_activeUploads (persist (emit s)) = us_activeUploads s"
  "us_tus (persist (emit s)) = us_tus s"
  "us_nextHandle (persist (emit s)) = us_nextHandle s"
  "us_batchRunning (persist (emit s)) = us_batchRunning s"
  "us_pc (persist (emit s)) = us_pc s"
  "us_listeners (persist (emit s)) = us_listeners s"
  "us_seen (persist (emit s)) = (\<lambda>l. if l \<in> set (us_listeners s) then Some (us_jobs s) else us_seen s l)"
  "us_ls (persist (emit s)) =
     try_ignore (set_item STORAGE_KEY (StoredUploads (map json_job (us_jobs s)))) (us_ls s)"
  "us_idb (persist (emit s)) = us_idb s"
  "us_nextUuid (persist (emit s)) = us_nextUuid s"
  by (simp_all add: persist_def emit_def fun_eq_iff)

lemma abort_sel [store_simps]:
  "us_jobs (abort h s) = us_jobs s"
  "us_files (abort h s) = us_files s"
  "us_activeUploads (abort h s) = us_activeUploads s"
  "us_tus (abort h s) = (case h of None \<Rightarrow> us_tus s | Some h \<Rightarrow> AList.delete h (us_tus s))"
  "us_nextHandle (abort h s) = us_nextHandle s"
  "us_batchRunning (abort h s) = us_batchRunning s"
  "us_pc (abort h s) = us_pc s"
  "us_listeners (abort h s) = us_listeners s"
  "us_seen (abort h s) = us_seen s"
  "us_ls (abort h s) = us_ls s"
  "us_idb (abort h s) = us_idb s"
  "us_nextUuid (abort h s) = us_nextUuid s"
  by (simp_all add: abort_def split: option.splits)

lemma markUploadsCompleted_sel [store_simps]:
  "us_jobs (markUploadsCompleted now s) = us_jobs s"
  "us_files (markUploadsCompleted now s) = us_files s"
  "us_activeUploads (markUploadsCompleted now s) = us_activeUploads s"
  "us_tus (markUploadsCompleted now s) = us_tus s"
  "us_nextHandle (markUploadsCompleted now s) = us_nextHandle s"
  "us_pc (markUploadsCompleted now s) = us_pc s"
  "us_listeners (markUploadsCompleted now s) = us_listeners s"
  "us_seen (markUploadsCompleted now s) = us_seen s"
  "us_idb (markUploadsCompleted now s) = us_idb s"
  "us_nextUuid (markUploadsCompleted now s) = us_nextUuid s"
  by (simp_all add: markUploadsCompleted_def)

lemma updateJob_jobs [store_simps]:
  "us_jobs (updateJob i f s) = update_where (\<lambda>j. uj_id j = i) f (us_jobs s)"
  by (simp add: updateJob_def store_simps)

lemma removeJob_jobs [store_simps]:
  "us_jobs (removeJob i s) = filter (\<lambda>j. uj_id j \<noteq> i) (us_jobs s)"
  by (simp add: removeJob_def store_simps Let_def)

interpretation uploads: job_list us_jobs uj_id updateJob removeJob
  by unfold_locales (simp_all add: store_simps)

end
