(* ===== verification/UploadMachine.thy ===== *)
theory UploadMachine
  imports UploadStore
begin

text \<open>
  The upload store as a state machine: the events that reach it (user actions, the awaits
  of the batch, the callbacks of tus, a page reload, the browser refusing storage), the
  step relation, and the invariant of its reachable states.
\<close>

subsection \<open>Events\<close>

datatype upload_edit = SetTitle string | SetDescription string | SetCategory string

datatype upload_event =
    AddFiles "js_file list" | EditJob string upload_edit | RemoveJob string
  | StartAll | ClearUploads | ClearAllUploads | ResetIdle | ClearCompleted
  | Subscribe nat | Unsubscribe nat
  | Turn | BlobAnswer
  | TusProgress nat nat nat | TusUrl nat "string option" | TusSuccess nat | TusError nat string
  | Reload | StorageFlags bool bool | IdbFlags bool bool

fun apply_edit :: "upload_edit \<Rightarrow> upload_job \<Rightarrow> upload_job" where
  "apply_edit (SetTitle v) j = j\<lparr>uj_title := v\<rparr>"
| "apply_edit (SetDescription v) j = j\<lparr>uj_description := v\<rparr>"
| "apply_edit (SetCategory v) j = j\<lparr>uj_category := v\<rparr>"

text \<open>The module's variables when it is loaded: a first visit or a page reload.\<close>

definition boot ::
  "int \<Rightarrow> upload_stored local_storage \<Rightarrow> idb \<Rightarrow> nat \<Rightarrow> nat \<Rightarrow> upload_store" where
  "boot now ls db handles uuids =
     \<lparr>us_jobs = load True now ls, us_lastCompletedAt = loadCompleted True ls,
      us_files = Map.empty, us_activeUploads = [], us_tus = [], us_nextHandle = handles,
      us_batchRunning = False, us_pc = BIdle, us_listeners = [], us_seen = Map.empty,
      us_ls = ls, us_idb = db, us_nextUuid = uuids\<rparr>"

definition on_tus :: "nat \<Rightarrow> (string \<Rightarrow> upload_store \<Rightarrow> upload_store) \<Rightarrow> upload_store \<Rightarrow> upload_store" where
  "on_tus h k s = (case map_of (us_tus s) h of None \<Rightarrow> s | Some t \<Rightarrow> k (t_id t) s)"

fun react :: "(nat \<Rightarrow> string) \<Rightarrow> int \<Rightarrow> upload_event \<Rightarrow> upload_store \<Rightarrow> upload_store" where
  "react uuid now (AddFiles fs) s = fst (addFiles uuid fs s)"
| "react uuid now (EditJob i ed) s = updateJob i (apply_edit ed) s"
| "react uuid now (RemoveJob i) s = removeJob i s"
| "react uuid now StartAll s = startAll now s"
| "react uuid now ClearUploads s = clearUploads s"
| "react uuid now ClearAllUploads s = clearAllUploads s"
| "react uuid now ResetIdle s = resetIdle s"
| "react uuid now ClearCompleted s = clearUploadsCompleted s"
| "react uuid now (Subscribe l) s = subscribeUploads l s"
| "react uuid now (Unsubscribe l) s = unsubscribeUploads l s"
| "react uuid now Turn s = batch_turn now s"
| "react uuid now BlobAnswer s =
     (case us_pc s of
        BBlob job \<Rightarrow> set_pc (startJob_blob job (idbGet (us_idb s) (uj_id job)) s)
      | _ \<Rightarrow> s)"
| "react uuid now (TusProgress h n m) s = on_tus h (\<lambda>i. onProgress i n m) s"
| "react uuid now (TusUrl h u) s = on_tus h (\<lambda>i. onUploadUrlAvailable i u) s"
| "react uuid now (TusSuccess h) s = tus_over h (on_tus h (onSuccess now) s)"
| "react uuid now (TusError h msg) s = tus_over h (on_tus h (\<lambda>i. onError now i msg) s)"
| "react uuid now Reload s = boot now (us_ls s) (us_idb s) (us_nextHandle s) (us_nextUuid s)"
| "react uuid now (StorageFlags r w) s = s\<lparr>us_ls := (us_ls s)\<lparr>ls_readable := r, ls_writable := w\<rparr>\<rparr>"
| "react uuid now (IdbFlags a ok) s = s\<lparr>us_idb := (us_idb s)\<lparr>db_available := a, db_tx_ok := ok\<rparr>\<rparr>"

text \<open>
  A batch at the head of its loop runs on as a microtask, before any other event.  The tus
  callbacks come from live uploads.
\<close>

fun upload_enabled :: "upload_event \<Rightarrow> upload_store \<Rightarrow> bool" where
  "upload_enabled Turn s \<longleftrightarrow> us_pc s = BLoop"
| "upload_enabled BlobAnswer s \<longleftrightarrow> (case us_pc s of BBlob _ \<Rightarrow> True | _ \<Rightarrow> False)"
| "upload_enabled (TusProgress h n m) s \<longleftrightarrow> us_pc s \<noteq> BLoop \<and> h \<in> fst ` set (us_tus s) \<and> n \<le> m"
| "upload_enabled (TusUrl h u) s \<longleftrightarrow> us_pc s \<noteq> BLoop \<and> h \<in> fst ` set (us_tus s)"
| "upload_enabled (TusSuccess h) s \<longleftrightarrow> us_pc s \<noteq> BLoop \<and> h \<in> fst ` set (us_tus s)"
| "upload_enabled (TusError h m) s \<longleftrightarrow> us_pc s \<noteq> BLoop \<and> h \<in> fst ` set (us_tus s)"
| "upload_enabled _ s \<longleftrightarrow> us_pc s \<noteq> BLoop"

inductive upload_step ::
  "(nat \<Rightarrow> string) \<Rightarrow> upload_store \<Rightarrow> upload_event \<Rightarrow> upload_store \<Rightarrow> bool" for uuid where
  step: "upload_enabled e s \<Longrightarrow> upload_step uuid s e (react uuid now e s)"

inductive_cases upload_stepE: "upload_step uuid s e t"
inductive_simps upload_step_simps: "upload_step uuid s e t"

inductive upload_reach :: "(nat \<Rightarrow> string) \<Rightarrow> upload_store \<Rightarrow> bool" for uuid where
  first_visit: "upload_reach uuid (boot now empty_storage empty_idb 0 0)"
| event: "upload_reach uuid s \<Longrightarrow> upload_step uuid s e t \<Longrightarrow> upload_reach uuid t"

subsection \<open>The invariant\<close>

definition progress_ok :: "jnum \<Rightarrow> bool" where
  "progress_ok x \<longleftrightarrow> (case x of Fin a \<Rightarrow> 0 \<le> a \<and> a \<le> 100 | NaN \<Rightarrow> True | Nul \<Rightarrow> True | _ \<Rightarrow> False)"

definition job_ok :: "upload_job \<Rightarrow> bool" where
  "job_ok j \<longleftrightarrow>
     (uj_status j = UDone \<longrightarrow> uj_progress j = Fin 100 \<and> uj_finishedAt j \<noteq> None) \<and>
     (uj_status j = UFailed \<longrightarrow> uj_error j \<noteq> None \<and> uj_finishedAt j \<noteq> None) \<and>
     progress_ok (uj_progress j)"

definition jobs_ok :: "string set \<Rightarrow> upload_job list \<Rightarrow> bool" where
  "jobs_ok ids js \<longleftrightarrow> distinct (map uj_id js) \<and> uj_id ` set js \<subseteq> ids \<and>
     length (filter is_active js) \<le> MAX_BATCH \<and> (\<forall>j \<in> set js. job_ok j)"

definition drawn :: "(nat \<Rightarrow> string) \<Rightarrow> upload_store \<Rightarrow> string set" where
  "drawn uuid s = uuid ` {..<us_nextUuid s}"

definition stored_ok :: "string set \<Rightarrow> upload_stored local_storage \<Rightarrow> bool" where
  "stored_ok ids ls \<longleftrightarrow>
     (\<forall>js. ls_items ls STORAGE_KEY = Some (StoredUploads js) \<longrightarrow> jobs_ok ids js)"

definition seen_ok :: "upload_store \<Rightarrow> bool" where
  "seen_ok s \<longleftrightarrow> (\<forall>l \<in> set (us_listeners s). us_seen s l = Some (us_jobs s))"

text \<open>
  At most one transfer is live; it is the one the batch awaits, the entry of
  \<open>activeUploads\<close>, and the transfer of the one job that is uploading.
\<close>

definition transfers_ok :: "string set \<Rightarrow> upload_store \<Rightarrow> bool" where
  "transfers_ok ids s \<longleftrightarrow>
     (us_tus s = [] \<and> us_activeUploads s = []) \<or>
     (\<exists>h t. us_pc s = BFinished h \<and> us_tus s = [(h, t)] \<and> us_activeUploads s = [(t_id t, h)] \<and>
        t_id t \<in> ids)"

text \<open>The ids of the jobs with a live tus upload.\<close>

definition live_ids :: "upload_store \<Rightarrow> string set" where
  "live_ids s = (\<lambda>(h, t). t_id t) ` set (us_tus s)"

definition status_ok :: "upload_store \<Rightarrow> bool" where
  "status_ok s \<longleftrightarrow>
     (\<forall>j \<in> set (us_jobs s). (uj_status j = UUploading \<longleftrightarrow> uj_id j \<in> live_ids s) \<and>
        (uj_status j = UQueued \<longrightarrow> us_files s (uj_id j) \<noteq> None))"

definition batch_ok :: "string set \<Rightarrow> upload_store \<Rightarrow> bool" where
  "batch_ok ids s \<longleftrightarrow> (us_batchRunning s \<longleftrightarrow> us_pc s \<noteq> BIdle) \<and>
     (case us_pc s of
        BBlob job \<Rightarrow> uj_id job \<in> ids \<and>
          (\<forall>j \<in> set (us_jobs s). uj_id j = uj_id job \<longrightarrow> is_pending j)
      | _ \<Rightarrow> True)"

definition upload_inv :: "(nat \<Rightarrow> string) \<Rightarrow> upload_store \<Rightarrow> bool" where
  "upload_inv uuid s \<longleftrightarrow> jobs_ok (drawn uuid s) (us_jobs s) \<and> stored_ok (drawn uuid s) (us_ls s) \<and>
     transfers_ok (drawn uuid s) s \<and> status_ok s \<and> batch_ok (drawn uuid s) s \<and> seen_ok s"

lemmas upload_inv_defs =
  upload_inv_def transfers_ok_def status_ok_def batch_ok_def seen_ok_def drawn_def

subsection \<open>Job lists\<close>

lemma progress_ok_simps [simp]:
  "progress_ok (Fin a) \<longleftrightarrow> 0 \<le> a \<and> a \<le> 100"
  "progress_ok NaN" "progress_ok Nul"
  by (auto simp: progress_ok_def)

lemma progress_ok_json [simp]: "progress_ok x \<Longrightarrow> progress_ok (json_num x)"
  by (cases x) (auto simp: progress_ok_def)

lemma progress_ok_percent: "n \<le> m \<Longrightarrow> progress_ok (percent n m)"
proof (cases "m = 0")
  case True
  moreover assume "n \<le> m"
  ultimately show ?thesis by (simp add: percent_zero_whole)
next
  case False
  assume "n \<le> m"
  with False obtain p where "percent n m = num_of_int p" "0 \<le> p" "p \<le> 100"
    by (auto elim: percent_bounds)
  then show ?thesis
    by (metis of_int_0_le_iff of_int_le_iff of_int_numeral progress_ok_simps(1))
qed

lemma is_active_iff: "is_active j \<longleftrightarrow> uj_status j \<in> {UQueued, UUploading, UInterrupted}"
  by (cases "uj_status j") (auto simp: is_active_def)

lemma jobs_ok_Nil [simp]: "jobs_ok ids []"
  by (simp add: jobs_ok_def)

lemma jobs_ok_mono: "jobs_ok ids js \<Longrightarrow> ids \<subseteq> ids' \<Longrightarrow> jobs_ok ids' js"
  by (auto simp: jobs_ok_def)

lemma jobs_ok_filter: "jobs_ok ids js \<Longrightarrow> jobs_ok ids (filter p js)"
proof -
  assume ok: "jobs_ok ids js"
  moreover have "length (filter is_active (filter p js)) \<le> length (filter is_active js)"
    by (rule length_filter_filter_le)
  ultimately show ?thesis by (auto simp: jobs_ok_def distinct_map_filter)
qed

lemma jobs_ok_map:
  assumes "jobs_ok ids js" and "\<And>j. uj_id (f j) = uj_id j" and "\<And>j. is_active (f j) = is_active j"
    and "\<And>j. job_ok j \<Longrightarrow> job_ok (f j)"
  shows "jobs_ok ids (map f js)"
  using assms by (auto simp: jobs_ok_def comp_def filter_map)

lemma jobs_ok_update:
  assumes "jobs_ok ids js" and "\<And>j. uj_id (f j) = uj_id j"
    and "\<And>j. j \<in> set js \<Longrightarrow> p j \<Longrightarrow> job_ok j \<Longrightarrow> job_ok (f j)"
    and "\<And>j. j \<in> set js \<Longrightarrow> p j \<Longrightarrow> is_active (f j) \<Longrightarrow> is_active j"
  shows "jobs_ok ids (update_where p f js)"
proof -
  have "length (filter is_active (update_where p f js)) \<le> length (filter is_active js)"
    using assms(4) by (rule length_filter_update_where_le)
  moreover have "uj_id ` set (update_where p f js) = uj_id ` set js"
    using assms(2) by (metis map_key_update_where set_map)
  ultimately show ?thesis
    using assms by (auto simp: jobs_ok_def map_key_update_where set_update_where)
qed

lemma json_job_sel [simp]:
  "uj_id (json_job j) = uj_id j" "uj_status (json_job j) = uj_status j"
  "is_active (json_job j) = is_active j"
  by (simp_all add: json_job_def is_active_def)

lemma job_ok_json: "job_ok j \<Longrightarrow> job_ok (json_job j)"
  by (auto simp: job_ok_def json_job_def)

lemma jobs_ok_json: "jobs_ok ids js \<Longrightarrow> jobs_ok ids (map json_job js)"
  by (rule jobs_ok_map) (auto simp: job_ok_json)

lemma interrupt_sel [simp]:
  "uj_id (interrupt j) = uj_id j" "is_active (interrupt j) = is_active j"
  by (auto simp: interrupt_def is_active_def)

lemma job_ok_interrupt: "job_ok j \<Longrightarrow> job_ok (interrupt j)"
  by (auto simp: job_ok_def interrupt_def)

lemma jobs_ok_interrupt: "jobs_ok ids js \<Longrightarrow> jobs_ok ids (map interrupt js)"
  by (rule jobs_ok_map) (auto simp: job_ok_interrupt)

lemma stored_ok_set_jobs:
  assumes "jobs_ok ids js" and "stored_ok ids (us_ls s)"
  shows "stored_ok ids (us_ls (set_jobs js s))"
  using assms by (auto simp: stored_ok_def store_simps lst.lookup_try_put jobs_ok_json)

lemma jobs_ok_load:
  assumes "stored_ok ids ls"
  shows "jobs_ok ids (load True now ls)"
proof (cases "get_item ls STORAGE_KEY")
  case (Inl e)
  then show ?thesis by (simp add: load_def)
next
  case (Inr r)
  then have r: "r = ls_items ls STORAGE_KEY" by (simp add: get_item_def split: if_splits)
  show ?thesis
  proof (cases "\<exists>js. r = Some (StoredUploads js)")
    case True
    then obtain js where js: "r = Some (StoredUploads js)" by blast
    with r assms have "jobs_ok ids js" by (simp add: stored_ok_def)
    with Inr js show ?thesis
      by (simp add: load_def jobs_ok_filter jobs_ok_interrupt)
  next
    case False
    with Inr show ?thesis
      by (auto simp: load_def split: option.splits upload_stored.splits)
  qed
qed

subsection \<open>The operations keep the invariant\<close>

lemma drawn_set_jobs [store_simps]: "drawn uuid (set_jobs js s) = drawn uuid s"
  by (simp add: drawn_def store_simps)

lemma live_ids_simps [simp]:
  "us_tus s = [] \<Longrightarrow> live_ids s = {}"
  "us_tus s = [(h, t)] \<Longrightarrow> live_ids s = {t_id t}"
  by (auto simp: live_ids_def)

lemma live_ids_set_jobs [store_simps]: "live_ids (set_jobs js s) = live_ids s"
  by (simp add: live_ids_def store_simps)

lemma seen_ok_set_jobs [store_simps]: "seen_ok (set_jobs js s)"
  by (simp add: seen_ok_def store_simps)

lemma seen_ok_persist_emit [store_simps]: "seen_ok (persist (emit s))"
  by (simp add: seen_ok_def store_simps)

text \<open>Patches that touch neither the identity nor the status of a job.\<close>

lemma inv_updateJob_content:
  assumes inv: "upload_inv uuid s"
    and same: "\<And>j. uj_id (f j) = uj_id j" "\<And>j. uj_status (f j) = uj_status j"
    and ok: "\<And>j. j \<in> set (us_jobs s) \<Longrightarrow> uj_id j = i \<Longrightarrow> job_ok j \<Longrightarrow> job_ok (f j)"
  shows "upload_inv uuid (updateJob i f s)"
proof -
  let ?js = "update_where (\<lambda>j. uj_id j = i) f (us_jobs s)"
  have js: "jobs_ok (drawn uuid s) ?js"
    using inv same ok by (intro jobs_ok_update) (auto simp: upload_inv_def is_active_def)
  then have "stored_ok (drawn uuid s) (us_ls (set_jobs ?js s))"
    using inv by (intro stored_ok_set_jobs) (auto simp: upload_inv_def)
  moreover have "status_ok (set_jobs ?js s)"
    using inv same by (auto simp: upload_inv_def status_ok_def store_simps set_update_where)
  moreover have "batch_ok (drawn uuid s) (set_jobs ?js s)"
    using inv same by (auto simp: upload_inv_def batch_ok_def store_simps set_update_where
        is_pending_def split: batch_pc.splits)
  ultimately show ?thesis
    using inv js by (simp add: updateJob_def upload_inv_def store_simps transfers_ok_def)
qed

lemma inv_edit: "upload_inv uuid s \<Longrightarrow> upload_inv uuid (updateJob i (apply_edit ed) s)"
  by (rule inv_updateJob_content; cases ed) (auto simp: job_ok_def)

lemma live_job_uploading:
  assumes "upload_inv uuid s" and "(h, t) \<in> set (us_tus s)"
    and "j \<in> set (us_jobs s)" and "uj_id j = t_id t"
  shows "uj_status j = UUploading"
  using assms by (force simp: upload_inv_def status_ok_def live_ids_def)

lemma on_tus_live:
  assumes "upload_inv uuid s" and "h \<in> fst ` set (us_tus s)"
  obtains t where "us_tus s = [(h, t)]" "us_activeUploads s = [(t_id t, h)]" "us_pc s = BFinished h"
    "t_id t \<in> drawn uuid s" "\<forall>k. on_tus h k s = k (t_id t) s"
  using assms by (auto simp: upload_inv_def transfers_ok_def on_tus_def)

lemma inv_progress:
  assumes inv: "upload_inv uuid s" and live: "h \<in> fst ` set (us_tus s)" and "n \<le> m"
  shows "upload_inv uuid (on_tus h (\<lambda>i. onProgress i n m) s)"
proof -
  from inv live obtain t where t: "us_tus s = [(h, t)]"
      "\<forall>k. on_tus h k s = k (t_id t) s" by (rule on_tus_live)
  have "job_ok (j\<lparr>uj_progress := percent n m\<rparr>)"
    if "j \<in> set (us_jobs s)" "uj_id j = t_id t" for j
  proof -
    have "uj_status j = UUploading" using inv that t(1) by (intro live_job_uploading) auto
    with progress_ok_percent [OF \<open>n \<le> m\<close>] show ?thesis by (simp add: job_ok_def)
  qed
  then show ?thesis
    unfolding t(2)[rule_format] onProgress_def using inv by (intro inv_updateJob_content) auto
qed

lemma inv_url:
  assumes inv: "upload_inv uuid s" and live: "h \<in> fst ` set (us_tus s)"
  shows "upload_inv uuid (on_tus h (\<lambda>i. onUploadUrlAvailable i u) s)"
proof -
  from inv live obtain t where t: "us_tus s = [(h, t)]"
      "\<forall>k. on_tus h k s = k (t_id t) s" by (rule on_tus_live)
  have "upload_inv uuid (updateJob (t_id t) (\<lambda>j. j\<lparr>uj_uploadUrl := Some v\<rparr>) s)" for v
    using inv by (rule inv_updateJob_content) (auto simp: job_ok_def)
  then show ?thesis
    using inv t(2) by (simp add: onUploadUrlAvailable_def split: option.split)
qed

text \<open>The end of a transfer, successful or not.\<close>

lemma inv_transfer_over:
  assumes inv: "upload_inv uuid s" and tus: "us_tus s = [(h, t)]"
    and f: "\<And>j. uj_id (f j) = uj_id j" "\<And>j. uj_status (f j) \<in> {UDone, UFailed}"
      "\<And>j. job_ok j \<Longrightarrow> job_ok (f j)"
    and s': "s' = s\<lparr>us_activeUploads := AList.delete (t_id t) (us_activeUploads s), us_idb := db\<rparr>"
  shows "upload_inv uuid (tus_over h (updateJob (t_id t) f s'))"
proof -
  let ?js = "update_where (\<lambda>j. uj_id j = t_id t) f (us_jobs s)"
  have pc: "us_pc s = BFinished h" and act: "us_activeUploads s = [(t_id t, h)]"
    and live: "live_ids s = {t_id t}"
    using inv tus by (auto simp: upload_inv_def transfers_ok_def)
  have js: "jobs_ok (drawn uuid s) ?js"
  proof (rule jobs_ok_update)
    show "is_active j" if "is_active (f j)" for j
      using f(2) [of j] that by (auto simp: is_active_def)
  qed (use inv f in \<open>auto simp: upload_inv_def\<close>)
  then have "stored_ok (drawn uuid s) (us_ls (set_jobs ?js s'))"
    using inv by (intro stored_ok_set_jobs) (auto simp: upload_inv_def s')
  moreover have "uj_status j \<noteq> UUploading \<and> (uj_status j = UQueued \<longrightarrow> us_files s (uj_id j) \<noteq> None)"
    if "j \<in> set ?js" for j
    using that
  proof (cases rule: in_set_update_whereE)
    case (hit x)
    with f(2) [of x] show ?thesis by auto
  next
    case miss
    with inv live show ?thesis by (auto simp: upload_inv_def status_ok_def)
  qed
  ultimately show ?thesis
    using inv js pc act tus
    by (simp add: upload_inv_def updateJob_def tus_over_def s' store_simps drawn_def
        transfers_ok_def status_ok_def batch_ok_def seen_ok_def)
qed

lemma inv_success:
  assumes inv: "upload_inv uuid s" and live: "h \<in> fst ` set (us_tus s)"
  shows "upload_inv uuid (tus_over h (on_tus h (onSuccess now) s))"
proof -
  from inv live obtain t where t: "us_tus s = [(h, t)]"
      "\<forall>k. on_tus h k s = k (t_id t) s" by (rule on_tus_live)
  show ?thesis
    unfolding t(2)[rule_format] onSuccess_def
    by (rule inv_transfer_over [OF inv t(1)]) (auto simp: job_ok_def)
qed

lemma inv_error:
  assumes inv: "upload_inv uuid s" and live: "h \<in> fst ` set (us_tus s)"
  shows "upload_inv uuid (tus_over h (on_tus h (\<lambda>i. onError now i msg) s))"
proof -
  from inv live obtain t where t: "us_tus s = [(h, t)]"
      "\<forall>k. on_tus h k s = k (t_id t) s" by (rule on_tus_live)
  show ?thesis
    unfolding t(2)[rule_format] onError_def
    by (rule inv_transfer_over [OF inv t(1), where db = "us_idb s"]) (auto simp: job_ok_def)
qed

text \<open>Operations that drop jobs and abort transfers.\<close>

lemma inv_removeJob:
  assumes inv: "upload_inv uuid s"
  shows "upload_inv uuid (removeJob i s)"
proof -
  let ?js = "filter (\<lambda>j. uj_id j \<noteq> i) (us_jobs s)"
  have js: "jobs_ok (drawn uuid s) ?js"
    using inv by (auto simp: upload_inv_def intro: jobs_ok_filter)
  have "stored_ok (drawn uuid s) (us_ls (set_jobs ?js s))"
    using inv js by (intro stored_ok_set_jobs) (auto simp: upload_inv_def)
  moreover have "transfers_ok (drawn uuid s) (removeJob i s)"
    using inv unfolding upload_inv_def transfers_ok_def
    by (elim conjE disjE exE; cases "map_of (us_activeUploads s) i")
      (auto simp: removeJob_def store_simps Let_def split: if_splits)
  moreover have "status_ok (removeJob i s)"
    using inv unfolding upload_inv_def transfers_ok_def
    by (elim conjE disjE exE; cases "map_of (us_activeUploads s) i")
      (auto simp: status_ok_def removeJob_def store_simps Let_def live_ids_def split: if_splits)
  moreover have "batch_ok (drawn uuid s) (removeJob i s)"
    using inv by (auto simp: upload_inv_def batch_ok_def removeJob_def store_simps Let_def
        split: batch_pc.splits)
  ultimately show ?thesis
    using js by (simp add: upload_inv_def removeJob_def store_simps Let_def drawn_def)
qed

lemma inv_emptied:
  assumes inv: "upload_inv uuid s" and tus: "us_tus s' = []" "us_activeUploads s' = []"
    and same: "us_nextUuid s' = us_nextUuid s" "us_pc s' = us_pc s"
      "us_batchRunning s' = us_batchRunning s" "us_ls s' = us_ls s"
  shows "upload_inv uuid (set_jobs [] s')"
  using inv assms stored_ok_set_jobs [of _ "[]" s']
  by (auto simp: upload_inv_def transfers_ok_def status_ok_def batch_ok_def store_simps drawn_def
      split: batch_pc.splits)

lemma inv_clearAllUploads: "upload_inv uuid s \<Longrightarrow> upload_inv uuid (clearAllUploads s)"
  unfolding clearAllUploads_def Let_def
  by (rule inv_emptied [where s = s]) (auto simp: upload_inv_def transfers_ok_def store_simps)

lemma inv_clearUploads: "upload_inv uuid s \<Longrightarrow> upload_inv uuid (clearUploads s)"
  unfolding clearUploads_def Let_def
  by (rule inv_emptied [where s = s]) (auto simp: upload_inv_def transfers_ok_def store_simps)

lemma inv_resetIdle:
  assumes inv: "upload_inv uuid s"
  shows "upload_inv uuid (resetIdle s)"
proof -
  have "upload_inv uuid (set_jobs [] (s\<lparr>us_files := Map.empty\<rparr>))"
    using inv stored_ok_set_jobs [of _ "[]" "s\<lparr>us_files := Map.empty\<rparr>"]
    by (auto simp: upload_inv_def transfers_ok_def status_ok_def batch_ok_def store_simps drawn_def
        split: batch_pc.splits)
  with inv show ?thesis by (simp add: resetIdle_def Let_def)
qed

text \<open>The batch runner: between transfers nothing is live.\<close>

definition between_transfers :: "(nat \<Rightarrow> string) \<Rightarrow> upload_store \<Rightarrow> bool" where
  "between_transfers uuid s \<longleftrightarrow> jobs_ok (drawn uuid s) (us_jobs s) \<and>
     stored_ok (drawn uuid s) (us_ls s) \<and> status_ok s \<and> seen_ok s \<and>
     us_tus s = [] \<and> us_activeUploads s = [] \<and> us_batchRunning s"

lemma inv_between:
  "upload_inv uuid s \<Longrightarrow> us_pc s \<noteq> BIdle \<Longrightarrow> (\<And>h. us_pc s \<noteq> BFinished h) \<Longrightarrow> between_transfers uuid s"
  by (auto simp: upload_inv_def between_transfers_def transfers_ok_def batch_ok_def)

lemma inv_begin_transfer:
  assumes b: "between_transfers uuid s" and mem: "uj_id job \<in> drawn uuid s"
    and act: "\<And>j. j \<in> set (us_jobs s) \<Longrightarrow> uj_id j = uj_id job \<Longrightarrow> is_active j"
  shows "upload_inv uuid (set_pc (begin_transfer job f s))"
proof -
  let ?f = "\<lambda>j. j\<lparr>uj_status := UUploading, uj_error := None\<rparr>"
  let ?js = "update_where (\<lambda>j. uj_id j = uj_id job) ?f (us_jobs s)"
  have js: "jobs_ok (drawn uuid s) ?js"
    using b act by (intro jobs_ok_update) (auto simp: between_transfers_def job_ok_def)
  have st: "stored_ok (drawn uuid s) (us_ls (set_jobs ?js s))"
    using b js by (intro stored_ok_set_jobs) (auto simp: between_transfers_def)
  have "(uj_status j = UUploading \<longleftrightarrow> uj_id j = uj_id job) \<and>
        (uj_status j = UQueued \<longrightarrow> us_files s (uj_id j) \<noteq> None)" if "j \<in> set ?js" for j
    using that
  proof (cases rule: in_set_update_whereE)
    case (hit x)
    then show ?thesis by auto
  next
    case miss
    with b show ?thesis by (auto simp: between_transfers_def status_ok_def)
  qed
  with b js st mem show ?thesis
    by (auto simp: begin_transfer_def updateJob_def Let_def upload_inv_def store_simps drawn_def
        between_transfers_def transfers_ok_def status_ok_def batch_ok_def seen_ok_def
        live_ids_def tus_options_def)
qed

lemma inv_batch_turn:
  assumes b: "between_transfers uuid s"
  shows "upload_inv uuid (batch_turn now s)"
proof (cases "find is_pending (us_jobs s)")
  case None
  then show ?thesis
    using b by (auto simp: batch_turn_def upload_inv_def between_transfers_def transfers_ok_def
        status_ok_def batch_ok_def seen_ok_def drawn_def store_simps Let_def stored_ok_def
        markUploadsCompleted_def lst.try_put_other live_ids_def)
next
  case (Some nxt)
  then have nx: "nxt \<in> set (us_jobs s)" "is_pending nxt"
    by (auto dest: find_Some_iff_member)
  have dist: "distinct (map uj_id (us_jobs s))" and sub: "uj_id ` set (us_jobs s) \<subseteq> drawn uuid s"
    using b by (auto simp: between_transfers_def jobs_ok_def)
  obtain job where job: "find (\<lambda>j. uj_id j = uj_id nxt) (us_jobs s) = Some job"
    using nx(1) by (cases "find (\<lambda>j. uj_id j = uj_id nxt) (us_jobs s)") (auto simp: find_None_iff)
  then have "job \<in> set (us_jobs s)" "uj_id job = uj_id nxt"
    by (auto dest: find_Some_iff_member)
  with dist nx(1) have eq: "job = nxt" by (auto intro: distinct_key_unique)
  have same: "j = nxt" if "j \<in> set (us_jobs s)" "uj_id j = uj_id nxt" for j
    using dist nx(1) that by (auto intro: distinct_key_unique)
  show ?thesis
  proof (cases "us_files s (uj_id nxt)")
    case None
    then have "batch_turn now s = s\<lparr>us_pc := BBlob nxt\<rparr>"
      using Some job eq nx(2) by (auto simp: batch_turn_def startJob_def is_pending_def)
    moreover have "live_ids (s\<lparr>us_pc := BBlob nxt\<rparr>) = live_ids s" by (simp add: live_ids_def)
    ultimately show ?thesis
      using b sub nx same by (auto simp: upload_inv_def between_transfers_def transfers_ok_def
          status_ok_def batch_ok_def seen_ok_def drawn_def)
  next
    case (Some f)
    then have "batch_turn now s = set_pc (begin_transfer nxt f s)"
      using \<open>find is_pending _ = _\<close> job eq nx(2)
      by (auto simp: batch_turn_def startJob_def is_pending_def)
    moreover have "is_active nxt" using nx(2) by (auto simp: is_pending_def is_active_def)
    ultimately show ?thesis
      using b sub nx(1) same by (auto intro!: inv_begin_transfer)
  qed
qed

lemma inv_startAll:
  assumes inv: "upload_inv uuid s"
  shows "upload_inv uuid (startAll now s)"
proof (cases "us_batchRunning s")
  case False
  have "live_ids (s\<lparr>us_batchRunning := True\<rparr>) = live_ids s" by (simp add: live_ids_def)
  with inv False have "between_transfers uuid (s\<lparr>us_batchRunning := True\<rparr>)"
    by (auto simp: upload_inv_def between_transfers_def transfers_ok_def batch_ok_def drawn_def
        status_ok_def seen_ok_def)
  with False show ?thesis by (simp add: startAll_def inv_batch_turn)
qed (simp add: startAll_def inv)

lemma inv_blob_answer:
  assumes inv: "upload_inv uuid s" and pc: "us_pc s = BBlob job"
  shows "upload_inv uuid (set_pc (startJob_blob job blob s))"
proof -
  have b: "between_transfers uuid s" using inv pc by (intro inv_between) auto
  show ?thesis
  proof (cases blob)
    case None
    with inv pc show ?thesis
      by (auto simp: startJob_blob_def upload_inv_def transfers_ok_def status_ok_def batch_ok_def
          seen_ok_def drawn_def live_ids_def)
  next
    case (Some f)
    let ?s = "s\<lparr>us_files := (us_files s)(uj_id job \<mapsto> f)\<rparr>"
    have "between_transfers uuid ?s"
      using b by (auto simp: between_transfers_def drawn_def status_ok_def seen_ok_def live_ids_def)
    moreover have "uj_id job \<in> drawn uuid ?s"
      using inv pc by (simp add: upload_inv_def batch_ok_def drawn_def)
    moreover have "is_active j" if "j \<in> set (us_jobs ?s)" "uj_id j = uj_id job" for j
      using inv pc that by (auto simp: upload_inv_def batch_ok_def is_pending_def is_active_def)
    ultimately have "upload_inv uuid (set_pc (begin_transfer job f ?s))"
      by (rule inv_begin_transfer)
    with Some show ?thesis by (simp add: startJob_blob_def)
  qed
qed

text \<open>
  \<open>addFiles\<close>.  Within the loop the cap is kept because what is still free shrinks with
  every added job: \<open>active + (slots - added)\<close> never exceeds the cap.
\<close>

definition adding_inv :: "(nat \<Rightarrow> string) \<Rightarrow> nat \<Rightarrow> upload_store \<times> add_result \<Rightarrow> bool" where
  "adding_inv uuid slots sr \<longleftrightarrow> (let (s, r) = sr in
     jobs_ok (drawn uuid s) (us_jobs s) \<and> stored_ok (drawn uuid s) (us_ls s) \<and>
     transfers_ok (drawn uuid s) s \<and> status_ok s \<and> batch_ok (drawn uuid s) s \<and>
     length (filter is_active (us_jobs s)) + (slots - ar_added r) \<le> MAX_BATCH)"

lemma new_job_sel [simp]:
  "uj_id (new_job i f) = i" "uj_status (new_job i f) = UQueued" "is_active (new_job i f)"
  "job_ok (new_job i f)"
  by (simp_all add: new_job_def is_active_def job_ok_def)

lemma uuid_fresh:
  assumes "inj uuid"
  shows "uuid (us_nextUuid s) \<notin> drawn uuid s"
  using assms by (auto simp: drawn_def dest: injD)

lemma drawn_draw: "us_nextUuid s' = Suc (us_nextUuid s) \<Longrightarrow>
    drawn uuid s' = insert (uuid (us_nextUuid s)) (drawn uuid s)"
  by (auto simp: drawn_def less_Suc_eq)

lemma adding_resume:
  assumes "adding_inv uuid slots (s, r)" and old: "old \<in> set (us_jobs s)" "uj_status old = UInterrupted"
    and s1: "s1 = s\<lparr>us_files := (us_files s)(uj_id old \<mapsto> f), us_idb := db\<rparr>"
  shows "adding_inv uuid slots
    (set_jobs (update_where (\<lambda>j. uj_id j = uj_id old) (\<lambda>j. j\<lparr>uj_status := UQueued\<rparr>) (us_jobs s1)) s1,
     r\<lparr>ar_added := Suc (ar_added r)\<rparr>)"
proof -
  let ?js = "update_where (\<lambda>j. uj_id j = uj_id old) (\<lambda>j. j\<lparr>uj_status := UQueued\<rparr>) (us_jobs s)"
  have inv: "jobs_ok (drawn uuid s) (us_jobs s)" "stored_ok (drawn uuid s) (us_ls s)"
      "transfers_ok (drawn uuid s) s" "status_ok s" "batch_ok (drawn uuid s) s"
      "length (filter is_active (us_jobs s)) + (slots - ar_added r) \<le> MAX_BATCH"
    using assms(1) by (auto simp: adding_inv_def)
  have same: "uj_status j = UInterrupted" if "j \<in> set (us_jobs s)" "uj_id j = uj_id old" for j
  proof -
    have "j = old" using inv(1) old(1) that by (auto simp: jobs_ok_def intro: distinct_key_unique)
    with old(2) show ?thesis by simp
  qed
  have js: "jobs_ok (drawn uuid s) ?js"
    using inv(1) by (rule jobs_ok_update) (use same in \<open>auto simp: job_ok_def is_active_def\<close>)
  then have "stored_ok (drawn uuid s) (us_ls (set_jobs ?js s1))"
    using inv(2) by (intro stored_ok_set_jobs) (auto simp: s1)
  moreover have "length (filter is_active ?js) = length (filter is_active (us_jobs s))"
    by (rule length_filter_update_where_eq) (use same in \<open>auto simp: is_active_def\<close>)
  moreover have "(uj_status j = UUploading \<longleftrightarrow> uj_id j \<in> live_ids s) \<and>
      (uj_status j = UQueued \<longrightarrow> us_files s1 (uj_id j) \<noteq> None)" if "j \<in> set ?js" for j
    using that
  proof (cases rule: in_set_update_whereE)
    case (hit x)
    moreover have "uj_id old \<notin> live_ids s" using inv(4) old by (auto simp: status_ok_def)
    ultimately show ?thesis by (auto simp: s1)
  next
    case miss
    with inv(4) show ?thesis by (auto simp: status_ok_def s1)
  qed
  moreover have "is_pending j"
    if "us_pc s = BBlob job" "j \<in> set ?js" "uj_id j = uj_id job" for j job
    using that(2)
  proof (cases rule: in_set_update_whereE)
    case (hit x)
    then show ?thesis by (simp add: is_pending_def)
  next
    case miss
    with that inv(5) show ?thesis by (auto simp: batch_ok_def)
  qed
  ultimately show ?thesis
    using js inv by (auto simp: adding_inv_def store_simps s1 drawn_def transfers_ok_def
        status_ok_def batch_ok_def live_ids_def split: batch_pc.splits)
qed

lemma adding_new:
  assumes "adding_inv uuid slots (s, r)" and inj: "inj uuid" and room: "ar_added r < slots"
    and s': "s' = s\<lparr>us_nextUuid := Suc (us_nextUuid s),
               us_files := (us_files s)(uuid (us_nextUuid s) \<mapsto> f), us_idb := db,
               us_jobs := us_jobs s @ [new_job (uuid (us_nextUuid s)) f]\<rparr>"
  shows "adding_inv uuid slots (s', r\<lparr>ar_added := Suc (ar_added r)\<rparr>)"
proof -
  let ?i = "uuid (us_nextUuid s)"
  have inv: "jobs_ok (drawn uuid s) (us_jobs s)" "stored_ok (drawn uuid s) (us_ls s)"
      "transfers_ok (drawn uuid s) s" "status_ok s" "batch_ok (drawn uuid s) s"
      "length (filter is_active (us_jobs s)) + (slots - ar_added r) \<le> MAX_BATCH"
    using assms(1) by (auto simp: adding_inv_def)
  have ids: "drawn uuid s' = insert ?i (drawn uuid s)"
    by (rule drawn_draw) (simp add: s')
  have fresh: "?i \<notin> drawn uuid s" using inj by (rule uuid_fresh)
  have live: "live_ids s' = live_ids s" "live_ids s \<subseteq> drawn uuid s"
    using inv(3) by (auto simp: live_ids_def s' transfers_ok_def)
  have js: "jobs_ok (drawn uuid s') (us_jobs s')"
    unfolding ids using inv(1,6) fresh room by (auto simp: jobs_ok_def s')
  moreover have "stored_ok (drawn uuid s') (us_ls s')"
    unfolding ids using inv(2) by (auto simp: stored_ok_def s' intro: jobs_ok_mono)
  moreover have "transfers_ok (drawn uuid s') s'"
    unfolding ids using inv(3) by (auto simp: transfers_ok_def s')
  moreover have "status_ok s'"
    using inv(4) live fresh by (auto simp: status_ok_def s')
  moreover have "batch_ok (drawn uuid s') s'"
    unfolding ids using inv(5) by (auto simp: batch_ok_def s' is_pending_def split: batch_pc.splits)
  ultimately show ?thesis
    using inv(6) room by (simp add: adding_inv_def s')
qed

lemma adding_step:
  assumes inv: "adding_inv uuid slots sr" and inj: "inj uuid"
  shows "adding_inv uuid slots (add_file uuid slots f sr)"
proof -
  obtain s r where sr: "sr = (s, r)" by (cases sr)
  show ?thesis
  proof (cases "find (resumable f) (us_jobs s)")
    case (Some old)
    then have "old \<in> set (us_jobs s)" "uj_status old = UInterrupted"
      by (auto dest!: find_Some_iff_member simp: resumable_def)
    from adding_resume [OF inv [unfolded sr] this refl,
        where f = f and db = "idbPut (uj_id old) f (us_idb s)"]
    show ?thesis using Some by (simp add: sr add_file_def Let_def)
  next
    case None
    show ?thesis
    proof (cases "list_ex (duplicate_of f) (us_jobs s) \<or> slots \<le> ar_added r")
      case True
      with inv None show ?thesis by (auto simp: sr add_file_def adding_inv_def Let_def)
    next
      case False
      with inv inj None show ?thesis
        unfolding sr by (auto simp: add_file_def Let_def intro: adding_new)
    qed
  qed
qed

lemma adding_fold:
  "adding_inv uuid slots sr \<Longrightarrow> inj uuid \<Longrightarrow> adding_inv uuid slots (fold (add_file uuid slots) fs sr)"
  by (induction fs arbitrary: sr) (auto simp: adding_step)

lemma inv_addFiles:
  assumes inv: "upload_inv uuid s" and inj: "inj uuid"
  shows "upload_inv uuid (fst (addFiles uuid fs s))"
proof -
  let ?r = "\<lparr>ar_added = 0, ar_duplicates = 0, ar_overLimit = 0\<rparr>"
  let ?sr = "fold (add_file uuid (free_slots s)) fs (s, ?r)"
  have "adding_inv uuid (free_slots s) (s, ?r)"
    using inv by (auto simp: adding_inv_def upload_inv_def free_slots_def jobs_ok_def)
  then have fin: "adding_inv uuid (free_slots s) ?sr" using inj by (rule adding_fold)
  obtain s' r where sr: "?sr = (s', r)" by (cases ?sr)
  have "stored_ok (drawn uuid s') (us_ls (set_jobs (us_jobs s') s'))"
    using fin sr by (intro stored_ok_set_jobs) (auto simp: adding_inv_def)
  then show ?thesis
    using fin sr by (cases "us_pc s'") (auto simp: addFiles_def adding_inv_def upload_inv_def
        store_simps drawn_def transfers_ok_def status_ok_def batch_ok_def live_ids_def)
qed

lemma inv_boot:
  assumes "stored_ok (uuid ` {..<n}) ls"
  shows "upload_inv uuid (boot now ls db h n)"
proof -
  have "uj_status j \<noteq> UUploading \<and> uj_status j \<noteq> UQueued" if "j \<in> set (load True now ls)" for j
    using that by (auto simp: load_def interrupt_def split: sum.splits option.splits
        upload_stored.splits if_splits)
  with jobs_ok_load [OF assms] assms show ?thesis
    by (auto simp: upload_inv_def boot_def drawn_def transfers_ok_def status_ok_def batch_ok_def
        seen_ok_def)
qed

text \<open>Every enabled event keeps the invariant; so every reachable state has it.\<close>

lemma live_ids_cong: "us_tus s' = us_tus s \<Longrightarrow> live_ids s' = live_ids s"
  by (simp add: live_ids_def)

lemma inv_frame:
  assumes inv: "upload_inv uuid s"
    and same: "us_jobs s' = us_jobs s" "us_files s' = us_files s" "us_tus s' = us_tus s"
      "us_activeUploads s' = us_activeUploads s" "us_pc s' = us_pc s"
      "us_batchRunning s' = us_batchRunning s" "us_nextUuid s' = us_nextUuid s"
      "ls_items (us_ls s') STORAGE_KEY = ls_items (us_ls s) STORAGE_KEY"
    and seen: "seen_ok s'"
  shows "upload_inv uuid s'"
  using inv seen live_ids_cong [OF same(3)]
  by (cases "us_pc s") (simp_all add: upload_inv_def same drawn_def stored_ok_def
      transfers_ok_def status_ok_def batch_ok_def)

lemma inv_react:
  assumes inv: "upload_inv uuid s" and inj: "inj uuid" and en: "upload_enabled e s"
  shows "upload_inv uuid (react uuid now e s)"
proof (cases e)
  case Turn
  with inv en have "between_transfers uuid s" by (intro inv_between) auto
  with Turn show ?thesis by (simp add: inv_batch_turn)
next
  case BlobAnswer
  with en obtain job where "us_pc s = BBlob job" by (auto split: batch_pc.splits)
  with BlobAnswer inv show ?thesis by (simp add: inv_blob_answer)
next
  case Reload
  have "stored_ok (uuid ` {..<us_nextUuid s}) (us_ls s)"
    using inv by (simp add: upload_inv_def drawn_def)
  with Reload show ?thesis by (simp add: inv_boot)
next
  case ClearCompleted
  have "upload_inv uuid (clearUploadsCompleted s)"
    using inv by (rule inv_frame)
      (use inv in \<open>auto simp: clearUploadsCompleted_def lst.try_del_other upload_inv_def seen_ok_def\<close>)
  with ClearCompleted show ?thesis by simp
next
  case (Subscribe l)
  have "upload_inv uuid (subscribeUploads l s)"
    using inv by (rule inv_frame)
      (use inv in \<open>auto simp: subscribeUploads_def upload_inv_def seen_ok_def\<close>)
  with Subscribe show ?thesis by simp
next
  case (Unsubscribe l)
  have "upload_inv uuid (unsubscribeUploads l s)"
    using inv by (rule inv_frame)
      (use inv in \<open>auto simp: unsubscribeUploads_def upload_inv_def seen_ok_def\<close>)
  with Unsubscribe show ?thesis by simp
next
  case (StorageFlags r w)
  have "upload_inv uuid (s\<lparr>us_ls := (us_ls s)\<lparr>ls_readable := r, ls_writable := w\<rparr>\<rparr>)"
    using inv by (rule inv_frame) (use inv in \<open>auto simp: upload_inv_def seen_ok_def\<close>)
  with StorageFlags show ?thesis by simp
next
  case (IdbFlags a ok)
  have "upload_inv uuid (s\<lparr>us_idb := (us_idb s)\<lparr>db_available := a, db_tx_ok := ok\<rparr>\<rparr>)"
    using inv by (rule inv_frame) (use inv in \<open>auto simp: upload_inv_def seen_ok_def\<close>)
  with IdbFlags show ?thesis by simp
qed (use inv en inj in \<open>simp_all add: inv_addFiles inv_edit inv_removeJob inv_startAll
      inv_clearUploads inv_clearAllUploads inv_resetIdle inv_progress inv_url inv_success inv_error\<close>)

lemma inv_first_visit: "upload_inv uuid (boot now empty_storage db h 0)"
  by (rule inv_boot) (simp add: stored_ok_def empty_storage_def)

lemma reach_inv: "upload_reach uuid s \<Longrightarrow> inj uuid \<Longrightarrow> upload_inv uuid s"
  by (induction rule: upload_reach.induct)
    (auto simp: inv_first_visit elim!: upload_stepE intro: inv_react)

end
