(* ===== verification/UploadProps.thy ===== *)
theory UploadProps
  imports UploadMachine
begin

text \<open>
  The properties of the upload store: safety of every reachable state, the accounting of
  \<open>addFiles\<close>, what a batch does, what survives a reload, and the two ways the batch
  runner gets stuck.
\<close>

subsection \<open>Runs\<close>

fun run_events :: "(nat \<Rightarrow> string) \<Rightarrow> (int \<times> upload_event) list \<Rightarrow> upload_store \<Rightarrow> upload_store" where
  "run_events uuid [] s = s"
| "run_events uuid ((now, e) # es) s = run_events uuid es (react uuid now e s)"

fun enabled_run :: "(nat \<Rightarrow> string) \<Rightarrow> (int \<times> upload_event) list \<Rightarrow> upload_store \<Rightarrow> bool" where
  "enabled_run uuid [] s \<longleftrightarrow> True"
| "enabled_run uuid ((now, e) # es) s \<longleftrightarrow> upload_enabled e s \<and> enabled_run uuid es (react uuid now e s)"

lemma reach_run:
  "upload_reach uuid s \<Longrightarrow> enabled_run uuid es s \<Longrightarrow> upload_reach uuid (run_events uuid es s)"
proof (induction es arbitrary: s)
  case Nil
  then show ?case by simp
next
  case (Cons te es)
  obtain now e where te: "te = (now, e)" by (cases te)
  with Cons.prems have "upload_reach uuid (react uuid now e s)"
    by (auto intro: upload_reach.event upload_step.step)
  with Cons te show ?case by simp
qed

text \<open>A supply of identifiers and a first visit, for the concrete instances.\<close>

definition sample_uuid :: "nat \<Rightarrow> string" where
  "sample_uuid n = replicate n (CHR ''u'')"

definition first_boot :: upload_store where
  "first_boot = boot 0 empty_storage empty_idb 0 0"

lemma inj_sample_uuid: "inj sample_uuid"
  by (rule injI) (metis length_replicate sample_uuid_def)

lemma reach_first_boot: "upload_reach uuid first_boot"
  by (simp add: first_boot_def upload_reach.first_visit)

lemmas reach_from_boot = reach_run [OF reach_first_boot]

definition sample_file :: js_file where
  "sample_file = \<lparr>f_name = ''movie.mp4'', f_size = 10, f_blob = 7\<rparr>"

subsection \<open>Safety\<close>

text \<open>C1: In every reachable state of the upload store the job ids are distinct, at most
  \<open>MAX_BATCH\<close> jobs are active, at most one job is uploading and at most one tus upload is
  live, and every subscriber has seen the current job list.\<close>

theorem upload_store_safe:
  assumes "upload_reach uuid s" and "inj uuid"
  shows "distinct (map uj_id (us_jobs s)) \<and> length (filter is_active (us_jobs s)) \<le> MAX_BATCH \<and>
    length (filter (\<lambda>j. uj_status j = UUploading) (us_jobs s)) \<le> 1 \<and>
    length (us_tus s) \<le> 1 \<and> (\<forall>l. l \<in> set (us_listeners s) \<longrightarrow> us_seen s l = Some (getUploads s))"
proof -
  have inv: "upload_inv uuid s" using assms by (rule reach_inv)
  then have dist: "distinct (map uj_id (us_jobs s))" by (simp add: upload_inv_def jobs_ok_def)
  have live: "us_tus s = [] \<or> (\<exists>h t. us_tus s = [(h, t)])"
    using inv by (auto simp: upload_inv_def transfers_ok_def)
  have "distinct (map uj_id (filter (\<lambda>j. uj_status j = UUploading) (us_jobs s)))"
    using dist by (rule distinct_map_filter)
  moreover have "uj_id ` set (filter (\<lambda>j. uj_status j = UUploading) (us_jobs s)) \<subseteq> live_ids s"
    using inv by (auto simp: upload_inv_def status_ok_def)
  moreover have "finite (live_ids s)" "card (live_ids s) \<le> 1" using live by auto
  ultimately have "length (filter (\<lambda>j. uj_status j = UUploading) (us_jobs s)) \<le> 1"
    by (metis card_mono distinct_card le_trans length_map set_map)
  with inv dist live show ?thesis
    by (auto simp: upload_inv_def jobs_ok_def seen_ok_def getUploads_def)
qed

definition sample_run :: "(int \<times> upload_event) list" where
  "sample_run = [(0, Subscribe 1), (1, AddFiles [sample_file]), (2, StartAll), (3, TusProgress 0 5 10)]"

lemmas sample_defs = sample_run_def first_boot_def boot_def load_def loadCompleted_def
  empty_storage_def empty_idb_def get_item_def sample_file_def

lemma sample_run_ok:
  "enabled_run sample_uuid sample_run first_boot"
  "map uj_status (us_jobs (run_events sample_uuid sample_run first_boot)) = [UUploading]"
  by code_simp+

theorem upload_store_safe_witness:
  "length (us_tus (run_events sample_uuid sample_run first_boot)) \<le> 1 \<and>
   map uj_status (us_jobs (run_events sample_uuid sample_run first_boot)) = [UUploading]"
  using upload_store_safe [OF reach_from_boot [OF sample_run_ok(1)] inj_sample_uuid] sample_run_ok(2)
  by simp

text \<open>Progress: a whole percentage, as long as tus reports no empty file.\<close>

definition whole_percent :: "upload_job \<Rightarrow> bool" where
  "whole_percent j \<longleftrightarrow> (\<exists>p. uj_progress j = num_of_int p \<and> 0 \<le> p \<and> p \<le> 100)"

definition percents :: "upload_store \<Rightarrow> bool" where
  "percents s \<longleftrightarrow> (\<forall>j \<in> set (us_jobs s). whole_percent j) \<and>
     (\<forall>js. ls_items (us_ls s) STORAGE_KEY = Some (StoredUploads js) \<longrightarrow> (\<forall>j \<in> set js. whole_percent j))"

lemma whole_percent_cong: "uj_progress j = uj_progress k \<Longrightarrow> whole_percent j = whole_percent k"
  by (simp add: whole_percent_def)

lemma whole_percent_keep [simp]:
  "whole_percent (json_job j) = whole_percent j" if "whole_percent j" for j
  using that by (auto simp: whole_percent_def json_job_def)

lemma whole_percent_interrupt [simp]: "whole_percent (interrupt j) = whole_percent j"
  by (rule whole_percent_cong) (simp add: interrupt_def)

lemma whole_percent_new [simp]: "whole_percent (new_job i f)"
  by (auto simp: whole_percent_def new_job_def intro: exI [of _ 0])

lemma whole_percent_report:
  assumes "n \<le> m" and "m \<noteq> 0"
  shows "whole_percent (j\<lparr>uj_progress := percent n m\<rparr>)"
  using assms by (auto simp: whole_percent_def elim!: percent_bounds)

lemma percents_written:
  assumes "percents s" and "\<And>j. j \<in> set js \<Longrightarrow> whole_percent j" and "us_jobs s' = js"
    and "us_ls s' = try_ignore (set_item STORAGE_KEY (StoredUploads (map json_job js))) (us_ls s)"
  shows "percents s'"
  using assms by (auto simp: percents_def lst.lookup_try_put)

lemma percents_set_jobs:
  "percents s \<Longrightarrow> (\<And>j. j \<in> set js \<Longrightarrow> whole_percent j) \<Longrightarrow> percents (set_jobs js s)"
  by (rule percents_written [of s js]) (simp_all add: store_simps)

lemma percents_frame:
  assumes "percents s" and "us_jobs s' = us_jobs s"
    and "ls_items (us_ls s') STORAGE_KEY = ls_items (us_ls s) STORAGE_KEY"
  shows "percents s'"
  using assms by (simp add: percents_def)

lemma percents_updateJob:
  assumes "percents s" and "\<And>j. whole_percent j \<Longrightarrow> whole_percent (f j)"
  shows "percents (updateJob i f s)"
  unfolding updateJob_def
  by (rule percents_set_jobs) (use assms in \<open>auto simp: percents_def set_update_where\<close>)

lemma percents_pc [simp]: "percents (s\<lparr>us_pc := p\<rparr>) = percents s"
  by (simp add: percents_def)

lemma percents_begin: "percents s \<Longrightarrow> percents (set_pc (begin_transfer j f s))"
  by (rule percents_frame [where s = "updateJob (uj_id j)
        (\<lambda>j. j\<lparr>uj_status := UUploading, uj_error := None\<rparr>) s"])
    (auto simp: begin_transfer_def Let_def store_simps whole_percent_def intro!: percents_updateJob)

lemma percents_batch_turn: "percents s \<Longrightarrow> percents (batch_turn now s)"
proof (cases "find is_pending (us_jobs s)")
  case None
  assume "percents s"
  then show ?thesis
    by (rule percents_frame)
      (use None in \<open>auto simp: batch_turn_def Let_def store_simps markUploadsCompleted_def
        lst.try_put_other\<close>)
next
  case (Some nxt)
  assume "percents s"
  with Some show ?thesis
    by (auto simp: batch_turn_def startJob_def percents_begin split: option.splits)
qed

lemma percents_add_file:
  "percents (fst sr) \<Longrightarrow> percents (fst (add_file uuid slots f sr))"
  by (cases sr) (auto simp: add_file_def Let_def percents_def set_update_where whole_percent_def
      store_simps lst.lookup_try_put json_job_def new_job_def split: option.splits if_splits)

lemma percents_addFiles:
  assumes "percents s"
  shows "percents (fst (addFiles uuid fs s))"
proof -
  let ?r = "\<lparr>ar_added = 0, ar_duplicates = 0, ar_overLimit = 0\<rparr>"
  obtain s1 r where sr: "fold (add_file uuid (free_slots s)) fs (s, ?r) = (s1, r)"
    by (cases "fold (add_file uuid (free_slots s)) fs (s, ?r)")
  have "percents (fst (fold (add_file uuid k) fs sr))" if "percents (fst sr)" for k sr
    using that by (induction fs arbitrary: sr) (auto simp: percents_add_file)
  from this [of "(s, ?r)" "free_slots s"] assms have "percents s1" by (simp add: sr)
  then show ?thesis
    by (rule percents_written [where js = "us_jobs s1"])
      (use \<open>percents s1\<close> in \<open>auto simp: addFiles_def sr store_simps percents_def\<close>)
qed

lemma load_from_stored:
  assumes "j \<in> set (load True now ls)"
  shows "\<exists>js k. ls_items ls STORAGE_KEY = Some (StoredUploads js) \<and> k \<in> set js \<and> j = interrupt k"
proof (cases "ls_readable ls")
  case True
  with assms show ?thesis
    by (cases "ls_items ls STORAGE_KEY") (auto simp: load_def get_item_def split: upload_stored.splits)
next
  case False
  with assms show ?thesis by (simp add: load_def get_item_def)
qed

lemma percents_boot:
  assumes "percents s"
  shows "percents (boot now (us_ls s) db h n)"
  using assms by (auto simp: percents_def boot_def dest!: load_from_stored)

lemma clear_fold_sel:
  "us_jobs (fold (\<lambda>(i, h). abort (Some h)) xs s) = us_jobs s"
  "us_ls (fold (\<lambda>(i, h). abort (Some h)) xs s) = us_ls s"
  "us_jobs (fold (\<lambda>(i, h) s. (abort (Some h) s)\<lparr>us_idb := idbDelete i (us_idb s)\<rparr>) xs s) = us_jobs s"
  "us_ls (fold (\<lambda>(i, h) s. (abort (Some h) s)\<lparr>us_idb := idbDelete i (us_idb s)\<rparr>) xs s) = us_ls s"
  by (induction xs arbitrary: s) (auto simp: store_simps)

lemma percents_on_tus:
  "percents s \<Longrightarrow> (\<And>i. percents (k i s)) \<Longrightarrow> percents (on_tus h k s)"
  by (simp add: on_tus_def split: option.split)

lemma percents_tus_over [simp]: "percents (tus_over h s) = percents s"
  by (simp add: tus_over_def percents_def)

lemma percents_react:
  assumes p: "percents s" and en: "upload_enabled e s" and ne: "\<And>h n. e \<noteq> TusProgress h n 0"
  shows "percents (react uuid now e s)"
proof (cases e)
  case (EditJob i ed)
  have "percents (updateJob i (apply_edit ed) s)"
    by (rule percents_updateJob [OF p], cases ed) (simp_all add: whole_percent_def)
  with EditJob show ?thesis by simp
next
  case StartAll
  have "percents (s\<lparr>us_batchRunning := True\<rparr>)" using p by (simp add: percents_def)
  with StartAll p show ?thesis by (simp add: startAll_def percents_batch_turn)
next
  case BlobAnswer
  have "percents (set_pc (begin_transfer job f (s\<lparr>us_files := g\<rparr>)))" for job f g
    using p by (intro percents_begin) (simp add: percents_def)
  with BlobAnswer p show ?thesis
    by (auto simp: startJob_blob_def split: batch_pc.split option.split)
next
  case (TusProgress h n m)
  then have "n \<le> m" "m \<noteq> 0" using en ne by auto
  then have "percents (onProgress i n m s)" for i
    unfolding onProgress_def by (intro percents_updateJob [OF p] whole_percent_report)
  with TusProgress p show ?thesis by (simp add: percents_on_tus)
next
  case (TusUrl h u)
  have "percents (onUploadUrlAvailable i u s)" for i
    using p by (auto simp: onUploadUrlAvailable_def whole_percent_def intro!: percents_updateJob
        split: option.split)
  with TusUrl p show ?thesis by (simp add: percents_on_tus)
next
  case (TusSuccess h)
  have "percents (onSuccess now i s)" for i
    unfolding onSuccess_def
    by (rule percents_updateJob) (use p in \<open>auto simp: percents_def whole_percent_def
        intro!: exI [of _ 100]\<close>)
  with TusSuccess p show ?thesis by (simp add: percents_on_tus)
next
  case (TusError h msg)
  have "percents (onError now i msg s)" for i
    unfolding onError_def
    by (rule percents_updateJob) (use p in \<open>auto simp: percents_def whole_percent_def\<close>)
  with TusError p show ?thesis by (simp add: percents_on_tus)
next
  case ClearCompleted
  with percents_frame [OF p, of "clearUploadsCompleted s"] show ?thesis
    by (simp add: clearUploadsCompleted_def lst.try_del_other)
next
  case (RemoveJob i)
  have "percents (removeJob i s)" unfolding removeJob_def Let_def
    by (rule percents_set_jobs) (use p in \<open>auto simp: percents_def store_simps\<close>)
  with RemoveJob show ?thesis by simp
next
  case ResetIdle
  have "percents (s\<lparr>us_files := Map.empty\<rparr>)" using p by (simp add: percents_def)
  then have "percents (resetIdle s)" using p by (auto simp: resetIdle_def intro: percents_set_jobs)
  with ResetIdle show ?thesis by simp
next
  case ClearUploads
  have "percents (clearUploads s)" unfolding clearUploads_def Let_def
    by (rule percents_set_jobs) (use p in \<open>simp_all add: percents_def clear_fold_sel\<close>)
  with ClearUploads show ?thesis by simp
next
  case ClearAllUploads
  have "percents (clearAllUploads s)" unfolding clearAllUploads_def Let_def
    by (rule percents_set_jobs) (use p in \<open>simp_all add: percents_def clear_fold_sel\<close>)
  with ClearAllUploads show ?thesis by simp
next
  case (Subscribe l)
  with percents_frame [OF p, of "subscribeUploads l s"] show ?thesis by (simp add: subscribeUploads_def)
next
  case (Unsubscribe l)
  with percents_frame [OF p, of "unsubscribeUploads l s"] show ?thesis by (simp add: unsubscribeUploads_def)
next
  case (StorageFlags r w)
  with percents_frame [OF p, of "react uuid now e s"] show ?thesis by simp
next
  case (IdbFlags a ok)
  with percents_frame [OF p, of "react uuid now e s"] show ?thesis by simp
qed (use p in \<open>simp_all add: percents_addFiles percents_batch_turn percents_boot\<close>)

lemma percents_run:
  "percents s \<Longrightarrow> enabled_run uuid es s \<Longrightarrow> (\<And>now h n. (now, TusProgress h n 0) \<notin> set es) \<Longrightarrow>
   percents (run_events uuid es s)"
proof (induction es arbitrary: s)
  case Nil
  then show ?case by simp
next
  case (Cons te es)
  obtain now e where te: "te = (now, e)" by (cases te)
  with Cons.prems have "percents (react uuid now e s)" by (intro percents_react) auto
  then have "percents (run_events uuid es (react uuid now e s))"
    by (rule Cons.IH) (use Cons.prems te in auto)
  with te show ?case by simp
qed

lemma percents_first_boot: "percents first_boot"
  by (simp add: percents_def sample_defs)

text \<open>C2: After any run of the upload store a job is uploading exactly when it has a live tus
  upload, a queued job has its file in memory, and a finished job records when it finished
  (with progress 100, or with the error it failed with).  If tus never reported on an empty
  file, every progress is a whole number between 0 and 100; a report of 0 out of 0 bytes
  makes it NaN (null after a reload), and nothing else does.\<close>

theorem upload_jobs_consistent:
  assumes "inj uuid" and "enabled_run uuid es first_boot"
    and "s = run_events uuid es first_boot" and "j \<in> set (us_jobs s)"
  shows "(uj_status j = UUploading \<longleftrightarrow> (\<exists>h t. (h, t) \<in> set (us_tus s) \<and> t_id t = uj_id j)) \<and>
    (uj_status j = UQueued \<longrightarrow> us_files s (uj_id j) \<noteq> None) \<and>
    (uj_status j = UDone \<longrightarrow> uj_progress j = Fin 100 \<and> uj_finishedAt j \<noteq> None) \<and>
    (uj_status j = UFailed \<longrightarrow> uj_error j \<noteq> None \<and> uj_finishedAt j \<noteq> None) \<and>
    ((\<forall>n h k. (n, TusProgress h k 0) \<notin> set es) \<longrightarrow>
       (\<exists>p. uj_progress j = num_of_int p \<and> 0 \<le> p \<and> p \<le> 100)) \<and>
    progress_ok (uj_progress j)"
proof -
  have "upload_inv uuid s" using reach_inv [OF reach_from_boot [OF assms(2)] assms(1)] assms(3) by simp
  with assms(4) have "job_ok j" and
    st: "uj_status j = UUploading \<longleftrightarrow> uj_id j \<in> live_ids s"
      "uj_status j = UQueued \<longrightarrow> us_files s (uj_id j) \<noteq> None"
    by (auto simp: upload_inv_def jobs_ok_def status_ok_def)
  moreover have "uj_id j \<in> live_ids s \<longleftrightarrow> (\<exists>h t. (h, t) \<in> set (us_tus s) \<and> t_id t = uj_id j)"
    by (force simp: live_ids_def)
  moreover have "whole_percent j" if "\<forall>n h k. (n, TusProgress h k 0) \<notin> set es"
    using percents_run [OF percents_first_boot assms(2)] that assms(3,4) by (simp add: percents_def)
  ultimately show ?thesis by (auto simp: job_ok_def whole_percent_def)
qed

theorem upload_jobs_consistent_witness:
  "\<exists>j. j \<in> set (us_jobs (run_events sample_uuid sample_run first_boot)) \<and>
     uj_status j = UUploading \<and> (\<exists>p. uj_progress j = num_of_int p \<and> 0 \<le> p \<and> p \<le> 100)"
proof -
  obtain j where j: "us_jobs (run_events sample_uuid sample_run first_boot) = [j]" "uj_status j = UUploading"
    using sample_run_ok(2) by (auto simp: map_eq_Cons_conv)
  then have mem: "j \<in> set (us_jobs (run_events sample_uuid sample_run first_boot))" by simp
  have "\<forall>n h k. (n, TusProgress h k 0) \<notin> set sample_run" by (simp add: sample_run_def)
  with upload_jobs_consistent [OF inj_sample_uuid sample_run_ok(1) refl mem] mem j
  show ?thesis by blast
qed

text \<open>An empty file: the progress the dialog shows as a percentage is NaN.\<close>

definition empty_file_run :: "(int \<times> upload_event) list" where
  "empty_file_run = [(1, AddFiles [sample_file\<lparr>f_size := 0\<rparr>]), (2, StartAll), (3, TusProgress 0 0 0)]"

lemma empty_file_nan:
  "enabled_run sample_uuid empty_file_run first_boot \<and>
   map uj_progress (us_jobs (run_events sample_uuid empty_file_run first_boot)) = [NaN]"
  by code_simp

subsection \<open>Adding files\<close>

lemma add_file_accounts:
  assumes "add_file uuid slots f (s, r) = (s', r')"
  shows "ar_added r' + ar_duplicates r' + ar_overLimit r' =
      Suc (ar_added r + ar_duplicates r + ar_overLimit r) \<and>
    (\<exists>new. map uj_id (us_jobs s') = map uj_id (us_jobs s) @ new \<and>
       length new + ar_added r \<le> ar_added r' \<and>
       length new + (slots - ar_added r') \<le> slots - ar_added r)"
  using assms
  by (auto simp: add_file_def Let_def store_simps map_key_update_where split: option.splits if_splits)

lemma fold_add_file_accounts:
  "fold (add_file uuid slots) fs (s, r) = (s', r') \<Longrightarrow>
   ar_added r' + ar_duplicates r' + ar_overLimit r' =
     length fs + (ar_added r + ar_duplicates r + ar_overLimit r) \<and>
   (\<exists>new. map uj_id (us_jobs s') = map uj_id (us_jobs s) @ new \<and>
     length new + ar_added r \<le> ar_added r' \<and>
     length new + (slots - ar_added r') \<le> slots - ar_added r)"
proof (induction fs arbitrary: s r)
  case Nil
  then show ?case by simp
next
  case (Cons f fs)
  obtain s1 r1 where one: "add_file uuid slots f (s, r) = (s1, r1)"
    by (cases "add_file uuid slots f (s, r)")
  with Cons.prems have "fold (add_file uuid slots) fs (s1, r1) = (s', r')" by simp
  from Cons.IH [OF this] obtain new2 where two:
      "ar_added r' + ar_duplicates r' + ar_overLimit r' =
        length fs + (ar_added r1 + ar_duplicates r1 + ar_overLimit r1)"
      "map uj_id (us_jobs s') = map uj_id (us_jobs s1) @ new2"
      "length new2 + ar_added r1 \<le> ar_added r'"
      "length new2 + (slots - ar_added r') \<le> slots - ar_added r1"
    by blast
  from add_file_accounts [OF one] obtain new1 where
      "ar_added r1 + ar_duplicates r1 + ar_overLimit r1 =
        Suc (ar_added r + ar_duplicates r + ar_overLimit r)"
      "map uj_id (us_jobs s1) = map uj_id (us_jobs s) @ new1"
      "length new1 + ar_added r \<le> ar_added r1"
      "length new1 + (slots - ar_added r1) \<le> slots - ar_added r"
    by blast
  with two show ?case by (intro conjI exI [of _ "new1 @ new2"]) auto
qed

text \<open>\<open>addFiles\<close> counts every file exactly once as added, duplicate or over the limit; it
  keeps the existing jobs in place and appends new ones, never more than the free slots of
  the batch nor than it reports as added.\<close>

theorem addFiles_accounts:
  "case addFiles uuid fs s of (s', r) \<Rightarrow>
     ar_added r + ar_duplicates r + ar_overLimit r = length fs \<and>
     (\<exists>new. map uj_id (us_jobs s') = map uj_id (us_jobs s) @ new \<and>
        length new \<le> ar_added r \<and> length new \<le> free_slots s)"
proof -
  let ?r = "\<lparr>ar_added = 0, ar_duplicates = 0, ar_overLimit = 0\<rparr>"
  obtain s1 r where sr: "fold (add_file uuid (free_slots s)) fs (s, ?r) = (s1, r)"
    by (cases "fold (add_file uuid (free_slots s)) fs (s, ?r)")
  from fold_add_file_accounts [OF sr] show ?thesis
    by (auto simp: addFiles_def sr store_simps)
qed

subsection \<open>The life of a job\<close>

text \<open>The life cycle the status type describes, as an abstract transition relation.\<close>

inductive lifecycle :: "upload_status \<Rightarrow> upload_status \<Rightarrow> bool" where
  start: "lifecycle UQueued UUploading"
| resume: "lifecycle UInterrupted UUploading"
| readd: "lifecycle UInterrupted UQueued"
| succeed: "lifecycle UUploading UDone"
| fail: "lifecycle UUploading UFailed"

inductive_simps lifecycle_from_done: "lifecycle UDone st"
inductive_simps lifecycle_from_failed: "lifecycle UFailed st"

definition status_of :: "upload_store \<Rightarrow> string \<Rightarrow> upload_status option" where
  "status_of s i = map_option uj_status (find (\<lambda>j. uj_id j = i) (us_jobs s))"

definition evolves :: "upload_store \<Rightarrow> upload_store \<Rightarrow> bool" where
  "evolves s t \<longleftrightarrow> (\<forall>i a b. status_of s i = Some a \<longrightarrow> status_of t i = Some b \<longrightarrow> lifecycle\<^sup>*\<^sup>* a b)"

lemma evolves_same: "us_jobs t = us_jobs s \<Longrightarrow> evolves s t"
  by (auto simp: evolves_def status_of_def)

lemma evolves_empty: "us_jobs t = [] \<Longrightarrow> evolves s t"
  by (auto simp: evolves_def status_of_def)

lemma evolves_patch:
  assumes js: "us_jobs t = update_where (\<lambda>j. uj_id j = i) f (us_jobs s)"
    and id: "\<And>j. uj_id (f j) = uj_id j"
    and st: "\<And>j. j \<in> set (us_jobs s) \<Longrightarrow> uj_id j = i \<Longrightarrow> lifecycle\<^sup>*\<^sup>* (uj_status j) (uj_status (f j))"
  shows "evolves s t"
proof -
  have "lifecycle\<^sup>*\<^sup>* a b" if a: "status_of s k = Some a" and b: "status_of t k = Some b" for k a b
  proof (cases "k = i")
    case True
    from a obtain j where j: "find (\<lambda>j. uj_id j = k) (us_jobs s) = Some j" "a = uj_status j"
      by (auto simp: status_of_def)
    then have "j \<in> set (us_jobs s)" "uj_id j = i" using True by (auto dest: find_Some_iff_member)
    moreover have "b = uj_status (f j)"
      using b j True id by (simp add: status_of_def js find_update_where_key)
    ultimately show ?thesis using st j by simp
  next
    case False
    with a b id have "a = b" by (auto simp: status_of_def js find_update_where_key)
    then show ?thesis by simp
  qed
  then show ?thesis by (auto simp: evolves_def)
qed

lemma evolves_content:
  assumes "\<And>j. uj_id (f j) = uj_id j" "\<And>j. uj_status (f j) = uj_status j"
  shows "evolves s (updateJob i f s)"
  by (rule evolves_patch [where i = i and f = f]) (simp_all add: assms store_simps)

lemma add_file_status:
  assumes one: "add_file uuid slots f (s, r) = (s', r')" and a: "status_of s i = Some a"
    and dist: "distinct (map uj_id (us_jobs s))"
  shows "\<exists>b. status_of s' i = Some b \<and> lifecycle\<^sup>*\<^sup>* a b"
proof (cases "find (resumable f) (us_jobs s)")
  case None
  with one a show ?thesis
    by (auto simp: add_file_def Let_def status_of_def find_append split: if_splits)
next
  case (Some old)
  then have old: "old \<in> set (us_jobs s)" "uj_status old = UInterrupted"
    by (auto dest!: find_Some_iff_member simp: resumable_def)
  obtain j where j: "find (\<lambda>j. uj_id j = i) (us_jobs s) = Some j" "a = uj_status j"
    using a by (auto simp: status_of_def)
  then have mem: "j \<in> set (us_jobs s)" "uj_id j = i" by (auto dest: find_Some_iff_member)
  have js: "us_jobs s' = update_where (\<lambda>j. uj_id j = uj_id old) (\<lambda>j. j\<lparr>uj_status := UQueued\<rparr>) (us_jobs s)"
    using one Some by (auto simp: add_file_def Let_def store_simps)
  show ?thesis
  proof (cases "i = uj_id old")
    case True
    with mem old dist have "j = old" by (auto intro: distinct_key_unique)
    with True j old show ?thesis
      by (auto simp: status_of_def js find_update_where_key intro: lifecycle.readd)
  next
    case False
    with j show ?thesis by (auto simp: status_of_def js find_update_where_key)
  qed
qed

lemma fold_add_file_status:
  "adding_inv uuid slots (s, r) \<Longrightarrow> inj uuid \<Longrightarrow> fold (add_file uuid slots) fs (s, r) = (s', r') \<Longrightarrow>
   status_of s i = Some a \<Longrightarrow> \<exists>b. status_of s' i = Some b \<and> lifecycle\<^sup>*\<^sup>* a b"
proof (induction fs arbitrary: s r a)
  case Nil
  then show ?case by auto
next
  case (Cons f fs)
  obtain s1 r1 where one: "add_file uuid slots f (s, r) = (s1, r1)"
    by (cases "add_file uuid slots f (s, r)")
  have inv1: "adding_inv uuid slots (s1, r1)"
    using adding_step [OF Cons.prems(1,2), of f] one by simp
  have "distinct (map uj_id (us_jobs s))"
    using Cons.prems(1) by (simp add: adding_inv_def jobs_ok_def)
  from add_file_status [OF one Cons.prems(4) this] obtain b where
      b: "status_of s1 i = Some b" "lifecycle\<^sup>*\<^sup>* a b" by blast
  have "fold (add_file uuid slots) fs (s1, r1) = (s', r')" using Cons.prems(3) one by simp
  from Cons.IH [OF inv1 Cons.prems(2) this b(1)] b(2) show ?case by (auto intro: rtranclp_trans)
qed

lemma evolves_addFiles:
  assumes inv: "upload_inv uuid s" and inj: "inj uuid"
  shows "evolves s (fst (addFiles uuid fs s))"
proof -
  let ?r = "\<lparr>ar_added = 0, ar_duplicates = 0, ar_overLimit = 0\<rparr>"
  obtain s1 r where sr: "fold (add_file uuid (free_slots s)) fs (s, ?r) = (s1, r)"
    by (cases "fold (add_file uuid (free_slots s)) fs (s, ?r)")
  have "adding_inv uuid (free_slots s) (s, ?r)"
    using inv by (auto simp: adding_inv_def upload_inv_def free_slots_def jobs_ok_def)
  note status = fold_add_file_status [OF this inj sr]
  have "us_jobs (fst (addFiles uuid fs s)) = us_jobs s1"
    by (simp add: addFiles_def sr store_simps)
  with status show ?thesis by (fastforce simp: evolves_def status_of_def)
qed

lemma pending_starts: "is_pending j \<Longrightarrow> lifecycle\<^sup>*\<^sup>* (uj_status j) UUploading"
  by (auto simp: is_pending_def r_into_rtranclp lifecycle.start lifecycle.resume)

lemma evolves_set_pc_begin:
  assumes "\<And>j. j \<in> set (us_jobs s) \<Longrightarrow> uj_id j = uj_id job \<Longrightarrow> is_pending j"
  shows "evolves s (set_pc (begin_transfer job f s))"
  by (rule evolves_patch [where i = "uj_id job" and
        f = "\<lambda>j. j\<lparr>uj_status := UUploading, uj_error := None\<rparr>"])
    (use assms in \<open>auto simp: begin_transfer_def store_simps Let_def intro: pending_starts\<close>)

lemma evolves_batch_turn:
  assumes "distinct (map uj_id (us_jobs s))"
  shows "evolves s (batch_turn now s)"
proof (cases "find is_pending (us_jobs s)")
  case None
  then show ?thesis
    by (intro evolves_same) (simp add: batch_turn_def Let_def store_simps)
next
  case (Some nxt)
  then have nx: "nxt \<in> set (us_jobs s)" "is_pending nxt" by (auto dest: find_Some_iff_member)
  have pend: "is_pending j" if "j \<in> set (us_jobs s)" "uj_id j = uj_id nxt" for j
    using distinct_key_unique [OF assms that(1) nx(1) that(2)] nx(2) by simp
  show ?thesis
  proof (cases "find (\<lambda>j. uj_id j = uj_id nxt) (us_jobs s)")
    case None
    with Some show ?thesis by (intro evolves_same) (simp add: batch_turn_def startJob_def)
  next
    case (Some job)
    then have job: "uj_id job = uj_id nxt" by (auto dest: find_Some_iff_member)
    show ?thesis
      using Some \<open>find is_pending _ = _\<close> pend job
      by (auto simp: batch_turn_def startJob_def evolves_same split: option.splits
          intro!: evolves_set_pc_begin)
  qed
qed

lemma evolves_transfer_over:
  assumes inv: "upload_inv uuid s" and tus: "us_tus s = [(h, t)]"
    and f: "\<And>j. uj_id (f j) = uj_id j" "\<And>j. lifecycle UUploading (uj_status (f j))"
    and js: "us_jobs s' = update_where (\<lambda>j. uj_id j = t_id t) f (us_jobs s)"
  shows "evolves s (tus_over h s')"
proof (rule evolves_patch [where i = "t_id t" and f = f])
  fix j assume "j \<in> set (us_jobs s)" "uj_id j = t_id t"
  with inv tus have "uj_status j = UUploading" by (intro live_job_uploading) auto
  with f(2) show "lifecycle\<^sup>*\<^sup>* (uj_status j) (uj_status (f j))" by (simp add: r_into_rtranclp)
qed (simp_all add: f js tus_over_def)

lemma evolves_react:
  assumes inv: "upload_inv uuid s" and inj: "inj uuid" and en: "upload_enabled e s"
    and no_reload: "e \<noteq> Reload"
  shows "evolves s (react uuid now e s)"
proof -
  have dist: "distinct (map uj_id (us_jobs s))" using inv by (simp add: upload_inv_def jobs_ok_def)
  show ?thesis
  proof (cases e)
    case (AddFiles fs)
    with inv inj show ?thesis by (simp add: evolves_addFiles)
  next
    case (EditJob i ed)
    have "evolves s (updateJob i (apply_edit ed) s)"
      by (rule evolves_content; cases ed) simp_all
    with EditJob show ?thesis by simp
  next
    case (RemoveJob i)
    then show ?thesis by (auto simp: evolves_def status_of_def store_simps find_filter_key)
  next
    case StartAll
    have "evolves (s\<lparr>us_batchRunning := True\<rparr>) (batch_turn now (s\<lparr>us_batchRunning := True\<rparr>))"
      by (rule evolves_batch_turn) (simp add: dist)
    then have "evolves s (batch_turn now (s\<lparr>us_batchRunning := True\<rparr>))"
      by (simp add: evolves_def status_of_def)
    with StartAll show ?thesis by (simp add: startAll_def evolves_same)
  next
    case Turn
    with dist show ?thesis by (simp add: evolves_batch_turn)
  next
    case BlobAnswer
    with en obtain job where pc: "us_pc s = BBlob job" by (auto split: batch_pc.splits)
    show ?thesis
    proof (cases "idbGet (us_idb s) (uj_id job)")
      case None
      with BlobAnswer pc show ?thesis by (simp add: startJob_blob_def evolves_same)
    next
      case (Some f)
      let ?s = "s\<lparr>us_files := (us_files s)(uj_id job \<mapsto> f)\<rparr>"
      have "evolves ?s (set_pc (begin_transfer job f ?s))"
        using inv pc by (intro evolves_set_pc_begin) (auto simp: upload_inv_def batch_ok_def)
      then have "evolves s (set_pc (begin_transfer job f ?s))"
        by (simp add: evolves_def status_of_def)
      with BlobAnswer pc Some show ?thesis by (simp add: startJob_blob_def)
    qed
  next
    case (TusProgress h n m)
    then have "h \<in> fst ` set (us_tus s)" using en by simp
    with inv obtain t where "us_tus s = [(h, t)]" "\<forall>k. on_tus h k s = k (t_id t) s"
      by (rule on_tus_live)
    with TusProgress show ?thesis by (simp add: onProgress_def evolves_content)
  next
    case (TusUrl h u)
    then have "h \<in> fst ` set (us_tus s)" using en by simp
    with inv obtain t where "us_tus s = [(h, t)]" "\<forall>k. on_tus h k s = k (t_id t) s"
      by (rule on_tus_live)
    with TusUrl show ?thesis
      by (simp add: onUploadUrlAvailable_def evolves_content evolves_same split: option.split)
  next
    case (TusSuccess h)
    then have "h \<in> fst ` set (us_tus s)" using en by simp
    with inv obtain t where t: "us_tus s = [(h, t)]" "\<forall>k. on_tus h k s = k (t_id t) s"
      by (rule on_tus_live)
    from TusSuccess t(2) show ?thesis
      by (auto simp: onSuccess_def store_simps intro: lifecycle.succeed
          intro!: evolves_transfer_over [OF inv t(1), where
            f = "\<lambda>j. j\<lparr>uj_progress := Fin 100, uj_status := UDone, uj_finishedAt := Some now\<rparr>"])
  next
    case (TusError h msg)
    then have "h \<in> fst ` set (us_tus s)" using en by simp
    with inv obtain t where t: "us_tus s = [(h, t)]" "\<forall>k. on_tus h k s = k (t_id t) s"
      by (rule on_tus_live)
    from TusError t(2) show ?thesis
      by (auto simp: onError_def store_simps intro: lifecycle.fail
          intro!: evolves_transfer_over [OF inv t(1), where
            f = "\<lambda>j. j\<lparr>uj_status := UFailed, uj_error := Some msg, uj_finishedAt := Some now\<rparr>"])
  qed (use no_reload in \<open>auto simp: clearUploads_def clearAllUploads_def resetIdle_def Let_def store_simps
      clearUploadsCompleted_def subscribeUploads_def unsubscribeUploads_def
      intro: evolves_empty evolves_same\<close>)
qed

text \<open>C3: Between two reloads the store refines the job life cycle: whatever the event, a
  job that is still in the list has moved along the life cycle only, so a finished job
  never starts again.\<close>

theorem upload_lifecycle:
  assumes "upload_reach uuid s" and "inj uuid" and "upload_step uuid s e t" and "e \<noteq> Reload"
    and "status_of s i = Some a" and "status_of t i = Some b"
  shows "lifecycle\<^sup>*\<^sup>* a b"
proof -
  from assms(3) obtain now where "t = react uuid now e s" "upload_enabled e s"
    by (auto elim: upload_stepE)
  with evolves_react [OF reach_inv [OF assms(1,2)] assms(2) _ assms(4)] assms(5,6)
  show ?thesis by (auto simp: evolves_def)
qed

theorem upload_lifecycle_witness:
  "\<exists>a b. status_of (run_events sample_uuid sample_run first_boot) [] = Some a \<and>
     status_of (react sample_uuid 9 (TusSuccess 0) (run_events sample_uuid sample_run first_boot)) []
       = Some b \<and> a \<noteq> b \<and> lifecycle\<^sup>*\<^sup>* a b"
proof -
  let ?s = "run_events sample_uuid sample_run first_boot"
  have en: "upload_enabled (TusSuccess 0) ?s" by code_simp
  have a: "status_of ?s [] = Some UUploading" by code_simp
  have b: "status_of (react sample_uuid 9 (TusSuccess 0) ?s) [] = Some UDone" by code_simp
  from upload_lifecycle [OF reach_from_boot [OF sample_run_ok(1)] inj_sample_uuid
      upload_step.step [OF en] _ a b] a b
  show ?thesis by simp
qed

end
