(* ===== verification/UploadBatch.thy ===== *)
theory UploadBatch
  imports UploadProps
begin

text \<open>
  What the batch runner of the upload store does: it uploads one job at a time with the
  job's options, it drains the queue, and the two situations in which it never ends.
  Then what survives a reload of the page.
\<close>

subsection \<open>One turn of the batch\<close>

lemma find_own_id:
  assumes "distinct (map uj_id js)" and "j \<in> set js"
  shows "find (\<lambda>x. uj_id x = uj_id j) js = Some j"
proof -
  obtain x where x: "find (\<lambda>x. uj_id x = uj_id j) js = Some x"
    using assms(2) by (cases "find (\<lambda>x. uj_id x = uj_id j) js") (auto simp: find_None_iff)
  then have "x \<in> set js" "uj_id x = uj_id j" by (auto dest: find_Some_iff_member)
  with assms have "x = j" by (auto intro: distinct_key_unique)
  with x show ?thesis by simp
qed

lemma batch_turn_Some:
  assumes "find is_pending (us_jobs s) = Some j" and "distinct (map uj_id (us_jobs s))"
  shows "batch_turn now s =
    set_pc (case us_files s (uj_id j) of Some f \<Rightarrow> begin_transfer j f s | None \<Rightarrow> (s, AwaitBlob j))"
proof -
  have "j \<in> set (us_jobs s)" "is_pending j"
    using assms(1) by (auto dest: find_Some_iff_member)
  then show ?thesis
    using assms find_own_id [OF assms(2)]
    by (auto simp: batch_turn_def startJob_def is_pending_def split: option.splits)
qed

lemma begin_transfer_sel:
  "us_jobs (set_pc (begin_transfer j f s)) =
     update_where (\<lambda>x. uj_id x = uj_id j) (\<lambda>x. x\<lparr>uj_status := UUploading, uj_error := None\<rparr>) (us_jobs s)"
  "us_tus (set_pc (begin_transfer j f s)) = AList.update (us_nextHandle s) (tus_options j f) (us_tus s)"
  "us_activeUploads (set_pc (begin_transfer j f s)) =
     AList.update (uj_id j) (us_nextHandle s) (us_activeUploads s)"
  "us_pc (set_pc (begin_transfer j f s)) = BFinished (us_nextHandle s)"
  "us_files (set_pc (begin_transfer j f s)) = us_files s"
  "us_batchRunning (set_pc (begin_transfer j f s)) = us_batchRunning s"
  "us_nextHandle (set_pc (begin_transfer j f s)) = Suc (us_nextHandle s)"
  by (simp_all add: begin_transfer_def Let_def updateJob_def store_simps)

text \<open>When the user starts a batch in a reachable idle state and the first pending job
  has its file in memory, exactly that job becomes the uploading one, and the one tus
  upload is created with that file, the job's current title, description and category, and
  the upload URL to resume from when there is one.\<close>

theorem startAll_starts_first_pending:
  assumes "upload_reach uuid s" and "inj uuid" and "\<not> us_batchRunning s"
    and "find is_pending (us_jobs s) = Some j" and "us_files s (uj_id j) = Some f"
  shows "\<exists>h t. us_tus (startAll now s) = [(h, t)] \<and> us_pc (startAll now s) = BFinished h \<and>
    t_id t = uj_id j \<and> t_file t = f \<and> t_uploadUrl t = uj_uploadUrl j \<and> t_title t = uj_title j \<and>
    t_description t = uj_description j \<and> t_category t = uj_category j \<and>
    us_jobs (startAll now s) = update_where (\<lambda>x. uj_id x = uj_id j)
      (\<lambda>x. x\<lparr>uj_status := UUploading, uj_error := None\<rparr>) (us_jobs s)"
proof -
  have inv: "upload_inv uuid s" using assms(1,2) by (rule reach_inv)
  then have dist: "distinct (map uj_id (us_jobs s))" by (simp add: upload_inv_def jobs_ok_def)
  have "us_pc s = BIdle" using inv assms(3) by (auto simp: upload_inv_def batch_ok_def)
  then have "us_tus s = []" using inv by (auto simp: upload_inv_def transfers_ok_def)
  moreover have "startAll now s = set_pc (begin_transfer j f (s\<lparr>us_batchRunning := True\<rparr>))"
    using assms(3-5) dist batch_turn_Some [of "s\<lparr>us_batchRunning := True\<rparr>" j now]
    by (simp add: startAll_def)
  ultimately show ?thesis by (simp add: begin_transfer_sel tus_options_def)
qed

definition added_run :: "(int \<times> upload_event) list" where
  "added_run = [(1, AddFiles [sample_file]), (2, EditJob [] (SetTitle ''My movie''))]"

lemma added_run_ok:
  "enabled_run sample_uuid added_run first_boot"
  "\<not> us_batchRunning (run_events sample_uuid added_run first_boot)"
  "us_jobs (run_events sample_uuid added_run first_boot) =
     [(new_job [] sample_file)\<lparr>uj_title := ''My movie''\<rparr>]"
  "us_files (run_events sample_uuid added_run first_boot) [] = Some sample_file"
  by code_simp+

theorem startAll_starts_first_pending_witness:
  "\<exists>h t. us_tus (startAll 3 (run_events sample_uuid added_run first_boot)) = [(h, t)] \<and>
     t_title t = ''My movie''"
proof -
  let ?j = "(new_job [] sample_file)\<lparr>uj_title := ''My movie''\<rparr>"
  have "find is_pending (us_jobs (run_events sample_uuid added_run first_boot)) = Some ?j"
    by (simp add: added_run_ok is_pending_def)
  moreover have "us_files (run_events sample_uuid added_run first_boot) (uj_id ?j) = Some sample_file"
    by (simp add: added_run_ok)
  ultimately show ?thesis
    using startAll_starts_first_pending [OF reach_from_boot [OF added_run_ok(1)] inj_sample_uuid
        added_run_ok(2), of ?j sample_file 3] by auto
qed

subsection \<open>The batch drains the queue\<close>

text \<open>
  What tus and the microtask queue do with a batch whose files are all in memory: the
  upload the batch awaits ends, with the given outcome, and the loop turns.
\<close>

fun finish_upload :: "(nat \<Rightarrow> string) \<Rightarrow> int \<times> string option \<Rightarrow> upload_store \<Rightarrow> upload_store" where
  "finish_upload uuid (now, outcome) s =
     (case us_pc s of
        BFinished h \<Rightarrow>
          react uuid now Turn
            (react uuid now (case outcome of None \<Rightarrow> TusSuccess h | Some msg \<Rightarrow> TusError h msg) s)
      | _ \<Rightarrow> s)"

definition pending_count :: "upload_store \<Rightarrow> nat" where
  "pending_count s = length (filter is_pending (us_jobs s))"

definition files_in_memory :: "upload_store \<Rightarrow> bool" where
  "files_in_memory s \<longleftrightarrow> (\<forall>j \<in> set (us_jobs s). is_pending j \<longrightarrow> us_files s (uj_id j) \<noteq> None)"

text \<open>A batch whose transfer is live, or that has ended with nothing left to upload.\<close>

definition draining :: "upload_store \<Rightarrow> bool" where
  "draining s \<longleftrightarrow> (\<exists>h t. us_pc s = BFinished h \<and> us_tus s = [(h, t)]) \<or>
     (us_pc s = BIdle \<and> pending_count s = 0)"

lemma pending_begin:
  assumes "find is_pending js = Some j" and "distinct (map uj_id js)"
  shows "Suc (length (filter is_pending (update_where (\<lambda>x. uj_id x = uj_id j)
      (\<lambda>x. x\<lparr>uj_status := UUploading, uj_error := None\<rparr>) js))) = length (filter is_pending js)"
  using assms
proof (induction js)
  case Nil
  then show ?case by simp
next
  case (Cons x js)
  show ?case
  proof (cases "is_pending x")
    case True
    with Cons.prems have "x = j" by simp
    moreover have "update_where (\<lambda>y. uj_id y = uj_id x) g js = js" for g
      using Cons.prems(2) by (intro update_where_id) (auto simp: image_iff)
    ultimately show ?thesis using True by (simp add: is_pending_def)
  next
    case False
    with Cons.prems have "j \<in> set js" by (auto dest: find_Some_iff_member)
    with Cons.prems(2) have "uj_id x \<noteq> uj_id j" by auto
    with False Cons show ?thesis by simp
  qed
qed

lemma batch_turn_drains:
  assumes b: "between_transfers uuid s" and mem: "files_in_memory s"
  shows "draining (batch_turn now s) \<and> files_in_memory (batch_turn now s) \<and>
    pending_count (batch_turn now s) = pending_count s - 1 \<and>
    (us_pc (batch_turn now s) \<noteq> BIdle \<longrightarrow> 0 < pending_count s)"
proof (cases "find is_pending (us_jobs s)")
  case None
  then have none: "filter is_pending (us_jobs s) = []" by (auto simp: find_None_iff filter_empty_conv)
  with None mem show ?thesis
    by (auto simp: batch_turn_def draining_def pending_count_def files_in_memory_def store_simps Let_def)
next
  case (Some j)
  have dist: "distinct (map uj_id (us_jobs s))" using b by (simp add: between_transfers_def jobs_ok_def)
  have "j \<in> set (us_jobs s)" "is_pending j" using Some by (auto dest: find_Some_iff_member)
  with mem obtain f where f: "us_files s (uj_id j) = Some f" by (auto simp: files_in_memory_def)
  have turn: "batch_turn now s = set_pc (begin_transfer j f s)"
    using batch_turn_Some [OF Some dist] f by simp
  have "us_tus s = []" using b by (simp add: between_transfers_def)
  then have "draining (batch_turn now s)" by (simp add: draining_def turn begin_transfer_sel)
  moreover have "files_in_memory (batch_turn now s)"
    using mem by (auto simp: files_in_memory_def turn begin_transfer_sel set_update_where is_pending_def)
  moreover have "Suc (pending_count (batch_turn now s)) = pending_count s"
    using pending_begin [OF Some dist] by (simp add: pending_count_def turn begin_transfer_sel)
  ultimately show ?thesis by (metis diff_Suc_1 zero_less_Suc)
qed

lemma transfer_over_pending:
  assumes inv: "upload_inv uuid s" and pc: "us_pc s = BFinished h" and tus: "us_tus s = [(h, t)]"
    and f: "\<And>j. uj_id (f j) = uj_id j" "\<And>j. \<not> is_pending (f j)"
    and s': "us_jobs s' = update_where (\<lambda>j. uj_id j = t_id t) f (us_jobs s)"
      "us_files s' = us_files s" "us_pc s' = us_pc s"
  shows "pending_count (tus_over h s') = pending_count s \<and>
    (files_in_memory s \<longrightarrow> files_in_memory (tus_over h s')) \<and> us_pc (tus_over h s') = BLoop"
proof -
  have "is_pending (f j) = is_pending j" if "j \<in> set (us_jobs s)" "uj_id j = t_id t" for j
  proof -
    have "uj_status j = UUploading" using inv tus that by (intro live_job_uploading) auto
    with f(2) show ?thesis by (simp add: is_pending_def)
  qed
  then have "pending_count (tus_over h s') = pending_count s"
    by (auto simp: pending_count_def tus_over_def s' intro: length_filter_update_where_eq)
  with f show ?thesis
    by (auto simp: files_in_memory_def tus_over_def s' pc set_update_where)
qed

lemma finish_upload_drains:
  assumes inv: "upload_inv uuid s" and d: "draining s" and mem: "files_in_memory s"
    and pos: "us_pc s \<noteq> BIdle"
  shows "upload_inv uuid (finish_upload uuid (now, oc) s) \<and> draining (finish_upload uuid (now, oc) s) \<and>
    files_in_memory (finish_upload uuid (now, oc) s) \<and>
    pending_count (finish_upload uuid (now, oc) s) = pending_count s - 1 \<and>
    (us_pc (finish_upload uuid (now, oc) s) \<noteq> BIdle \<longrightarrow> 0 < pending_count s)"
proof -
  from d pos obtain h t where pc: "us_pc s = BFinished h" and tus: "us_tus s = [(h, t)]"
    by (auto simp: draining_def)
  let ?e = "case oc of None \<Rightarrow> TusSuccess h | Some msg \<Rightarrow> TusError h msg"
  let ?s = "react uuid now ?e s"
  have inv1: "upload_inv uuid ?s"
    using inv tus by (cases oc) (simp_all add: inv_success inv_error)
  have live: "on_tus h k s = k (t_id t) s" for k by (simp add: on_tus_def tus)
  have over: "pending_count ?s = pending_count s \<and> (files_in_memory s \<longrightarrow> files_in_memory ?s) \<and>
      us_pc ?s = BLoop"
  proof (cases oc)
    case None
    then show ?thesis
      using transfer_over_pending [OF inv pc tus, where s' = "onSuccess now (t_id t) s" and
          f = "\<lambda>j. j\<lparr>uj_progress := Fin 100, uj_status := UDone, uj_finishedAt := Some now\<rparr>"]
      by (simp add: live onSuccess_def updateJob_def store_simps is_pending_def)
  next
    case (Some msg)
    then show ?thesis
      using transfer_over_pending [OF inv pc tus, where s' = "onError now (t_id t) msg s" and
          f = "\<lambda>j. j\<lparr>uj_status := UFailed, uj_error := Some msg, uj_finishedAt := Some now\<rparr>"]
      by (simp add: live onError_def updateJob_def store_simps is_pending_def)
  qed
  then have b: "between_transfers uuid ?s" using inv1 by (intro inv_between) auto
  have "finish_upload uuid (now, oc) s = batch_turn now ?s" by (simp add: pc)
  with batch_turn_drains [OF b] inv_batch_turn [OF b] over mem show ?thesis by simp
qed

lemma finish_upload_idle: "us_pc s = BIdle \<Longrightarrow> finish_upload uuid out s = s"
  by (cases out) simp

lemma drain_all:
  "upload_inv uuid s \<Longrightarrow> draining s \<Longrightarrow> files_in_memory s \<Longrightarrow>
   (us_pc s \<noteq> BIdle \<Longrightarrow> pending_count s < length os) \<Longrightarrow>
   us_pc (fold (finish_upload uuid) os s) = BIdle \<and> upload_inv uuid (fold (finish_upload uuid) os s) \<and>
   pending_count (fold (finish_upload uuid) os s) = 0"
proof (induction os arbitrary: s)
  case Nil
  then show ?case by (auto simp: draining_def)
next
  case (Cons out os)
  obtain now oc where out: "out = (now, oc)" by (cases out)
  show ?case
  proof (cases "us_pc s = BIdle")
    case True
    then have "fold (finish_upload uuid) (out # os) s = fold (finish_upload uuid) os s"
      by (simp add: finish_upload_idle)
    with Cons.IH [OF Cons.prems(1-3)] True show ?thesis by simp
  next
    case False
    let ?s = "finish_upload uuid out s"
    note step = finish_upload_drains [OF Cons.prems(1-3) False, of now oc, folded out]
    have "pending_count ?s < length os" if "us_pc ?s \<noteq> BIdle"
      using step that Cons.prems(4) False by auto
    with Cons.IH [of ?s] step show ?thesis by simp
  qed
qed

text \<open>C4: A batch drains.  Started in a reachable idle state whose pending files are all in
  memory, the batch has ended after as many upload ends as there were pending jobs,
  whatever the outcome of each; then no job is pending or uploading and a new batch can be
  started.\<close>

theorem batch_drains:
  assumes "upload_reach uuid s" and "inj uuid" and "\<not> us_batchRunning s" and "files_in_memory s"
    and "pending_count s \<le> length os"
  shows "let t = fold (finish_upload uuid) os (startAll now s) in
    \<not> us_batchRunning t \<and> us_pc t = BIdle \<and>
    (\<forall>j \<in> set (us_jobs t). uj_status j = UDone \<or> uj_status j = UFailed)"
proof -
  have inv: "upload_inv uuid s" using assms(1,2) by (rule reach_inv)
  let ?s = "s\<lparr>us_batchRunning := True\<rparr>"
  have "us_pc s = BIdle" using inv assms(3) by (auto simp: upload_inv_def batch_ok_def)
  moreover have "live_ids ?s = live_ids s" by (simp add: live_ids_def)
  ultimately have b: "between_transfers uuid ?s"
    using inv by (auto simp: upload_inv_def between_transfers_def transfers_ok_def drawn_def
        status_ok_def seen_ok_def)
  have start: "startAll now s = batch_turn now ?s" using assms(3) by (simp add: startAll_def)
  have "files_in_memory ?s" "pending_count ?s = pending_count s"
    using assms(4) by (simp_all add: files_in_memory_def pending_count_def)
  with batch_turn_drains [OF b, of now] assms(5) have
    "draining (startAll now s)" "files_in_memory (startAll now s)"
    "us_pc (startAll now s) \<noteq> BIdle \<Longrightarrow> pending_count (startAll now s) < length os"
    by (auto simp: start)
  moreover have "upload_inv uuid (startAll now s)" using inv by (rule inv_startAll)
  ultimately have fin: "us_pc (fold (finish_upload uuid) os (startAll now s)) = BIdle"
    "upload_inv uuid (fold (finish_upload uuid) os (startAll now s))"
    "pending_count (fold (finish_upload uuid) os (startAll now s)) = 0"
    using drain_all by blast+
  let ?t = "fold (finish_upload uuid) os (startAll now s)"
  have "uj_status j = UDone \<or> uj_status j = UFailed" if "j \<in> set (us_jobs ?t)" for j
  proof -
    have "us_tus ?t = []" using fin(1,2) by (auto simp: upload_inv_def transfers_ok_def)
    with fin(2) that have "uj_status j \<noteq> UUploading" by (auto simp: upload_inv_def status_ok_def)
    moreover have "\<not> is_pending j" using fin(3) that by (auto simp: pending_count_def filter_empty_conv)
    ultimately show ?thesis by (cases "uj_status j") (auto simp: is_pending_def)
  qed
  with fin show ?thesis by (auto simp: Let_def upload_inv_def batch_ok_def)
qed

definition two_files_run :: "(int \<times> upload_event) list" where
  "two_files_run = [(1, AddFiles [sample_file, sample_file\<lparr>f_name := ''b.mkv''\<rparr>])]"

lemma two_files_run_ok:
  "enabled_run sample_uuid two_files_run first_boot"
  "\<not> us_batchRunning (run_events sample_uuid two_files_run first_boot)"
  "pending_count (run_events sample_uuid two_files_run first_boot) = 2"
  by code_simp+

lemma two_files_in_memory: "files_in_memory (run_events sample_uuid two_files_run first_boot)"
  by code_simp

theorem batch_drains_witness:
  "\<not> us_batchRunning (fold (finish_upload sample_uuid) [(3, None), (4, Some ''timeout'')]
      (startAll 2 (run_events sample_uuid two_files_run first_boot)))"
  using batch_drains [OF reach_from_boot [OF two_files_run_ok(1)] inj_sample_uuid
      two_files_run_ok(2) two_files_in_memory, of "[(3, None), (4, Some ''timeout'')]" 2]
    two_files_run_ok(3)
  by (simp add: Let_def)

end
