(* ===== verification/UploadFaults.thy ===== *)
theory UploadFaults
  imports UploadBatch
begin

text \<open>
  What survives a reload of the page, and the two situations in which the batch runner of
  \<open>web/lib/upload-store.ts\<close> never ends: a pending job whose file is gone makes it spin,
  and an upload that is aborted while the batch awaits it makes it wait for ever.
\<close>

subsection \<open>What a reload restores\<close>

definition stored_jobs :: "upload_store \<Rightarrow> upload_job list" where
  "stored_jobs s = (case ls_items (us_ls s) STORAGE_KEY of
     Some (StoredUploads js) \<Rightarrow> js | _ \<Rightarrow> [])"

definition storage_up :: "upload_store \<Rightarrow> bool" where
  "storage_up s \<longleftrightarrow> ls_readable (us_ls s) \<and> ls_writable (us_ls s)"

text \<open>A job as it comes back after a reload.\<close>

definition restored :: "upload_job \<Rightarrow> upload_job" where
  "restored j = interrupt (json_job j)"

text \<open>The list in memory is the stored list without some jobs, none of which is in \<open>K\<close>: a
  reload may have dropped old history that is still stored.\<close>

definition durable :: "(upload_job \<Rightarrow> bool) \<Rightarrow> upload_store \<Rightarrow> bool" where
  "durable K s \<longleftrightarrow> storage_up s \<and> (\<forall>j \<in> set (stored_jobs s). json_job j = j) \<and>
     (\<exists>P. (\<forall>j. K j \<longrightarrow> P j) \<and>
       map restored (us_jobs s) = filter P (map interrupt (stored_jobs s)))"

lemma json_job_idem [simp]: "json_job (json_job j) = json_job j"
  by (simp add: json_job_def)

lemma interrupt_idem [simp]: "interrupt (interrupt j) = interrupt j"
  by (simp add: interrupt_def)

lemma json_interrupt: "json_job (interrupt j) = interrupt (json_job j)"
  by (simp add: json_job_def interrupt_def)

lemma restored_sel [simp]: "is_active (restored j) = is_active j"
  by (simp add: restored_def)

lemma durable_written:
  assumes "storage_up s" and "us_jobs s' = js"
    and "us_ls s' = try_ignore (set_item STORAGE_KEY (StoredUploads (map json_job js))) (us_ls s)"
  shows "durable K s'"
  using assms by (auto simp: durable_def storage_up_def stored_jobs_def lst.try_put_read_back
      comp_def restored_def intro!: exI [of _ "\<lambda>_. True"])

lemma durable_set_jobs: "storage_up s \<Longrightarrow> durable K (set_jobs js s)"
  by (rule durable_written [of s _ js]) (simp_all add: store_simps)

lemma durable_frame:
  assumes "durable K s" and "us_jobs s' = us_jobs s" and "storage_up s'"
    and "ls_items (us_ls s') STORAGE_KEY = ls_items (us_ls s) STORAGE_KEY"
  shows "durable K s'"
  using assms by (simp add: durable_def stored_jobs_def)

lemma keep_active: "is_active j \<Longrightarrow> keep_recent now j"
  by (auto simp: keep_recent_def is_active_def)

lemma keep_recent_earlier: "keep_recent now j \<Longrightarrow> n \<le> now \<Longrightarrow> keep_recent n j"
  by (auto simp: keep_recent_def split: if_splits option.splits)

lemma load_stored:
  "storage_up s \<Longrightarrow> load True now (us_ls s) = filter (keep_recent now) (map interrupt (stored_jobs s))"
  by (auto simp: load_def get_item_def stored_jobs_def storage_up_def
      split: option.splits upload_stored.splits)

lemma durable_up: "durable K s \<Longrightarrow> storage_up s"
  by (simp add: durable_def)

lemma load_durable:
  assumes "durable (keep_recent now) s"
  shows "load True now (us_ls s) = filter (keep_recent now) (map restored (us_jobs s))"
proof -
  obtain P where P: "\<forall>j. keep_recent now j \<longrightarrow> P j"
      "map restored (us_jobs s) = filter P (map interrupt (stored_jobs s))"
    using assms by (auto simp: durable_def)
  have "filter (keep_recent now) (filter P xs) = filter (keep_recent now) xs" for xs
    by (induction xs) (auto simp: P(1) simp del: filter_filter)
  with assms P(2) show ?thesis by (simp add: load_stored durable_up del: filter_filter)
qed

lemma load_active:
  assumes "durable is_active s"
  shows "filter is_active (load True now (us_ls s)) = map restored (filter is_active (us_jobs s))"
proof -
  obtain P where P: "\<forall>j. is_active j \<longrightarrow> P j"
      "map restored (us_jobs s) = filter P (map interrupt (stored_jobs s))"
    using assms by (auto simp: durable_def)
  have "filter is_active (filter (keep_recent now) xs) = filter is_active xs"
    "filter is_active (filter P xs) = filter is_active xs" for xs
    by (induction xs) (auto simp: P(1) keep_active simp del: filter_filter)
  moreover have "map restored (filter is_active xs) = filter is_active (map restored xs)" for xs
    by (induction xs) auto
  ultimately show ?thesis using assms P(2) by (simp add: load_stored durable_up del: filter_filter)
qed

lemma durable_reload:
  assumes "durable K s" and "\<And>j. K j \<Longrightarrow> keep_recent now j"
  shows "durable K (boot now (us_ls s) db h n)"
proof -
  let ?L = "filter (keep_recent now) (map interrupt (stored_jobs s))"
  have "restored x = x" if "x \<in> set ?L" for x
    using that assms(1) by (auto simp: durable_def restored_def json_interrupt)
  then have "map restored ?L = ?L" by (intro map_idI)
  with assms show ?thesis
    by (auto simp: durable_def load_stored storage_up_def boot_def stored_jobs_def
        intro!: exI [of _ "keep_recent now"])
qed

lemma durable_begin: "storage_up s \<Longrightarrow> durable K (set_pc (begin_transfer j f s))"
  by (rule durable_frame [where s = "updateJob (uj_id j)
        (\<lambda>j. j\<lparr>uj_status := UUploading, uj_error := None\<rparr>) s"])
    (simp_all add: begin_transfer_def Let_def updateJob_def durable_set_jobs storage_up_def store_simps)

lemma durable_pc [simp]: "durable K (s\<lparr>us_pc := p\<rparr>) = durable K s"
  by (simp add: durable_def stored_jobs_def storage_up_def)

lemma durable_batch_turn: "durable K s \<Longrightarrow> durable K (batch_turn now s)"
proof (cases "find is_pending (us_jobs s)")
  case None
  assume "durable K s"
  then show ?thesis
    by (rule durable_frame)
      (use None \<open>durable K s\<close> in \<open>auto simp: batch_turn_def Let_def store_simps storage_up_def
        durable_def markUploadsCompleted_def lst.try_put_other\<close>)
next
  case (Some nxt)
  assume "durable K s"
  with Some show ?thesis
    by (auto simp: batch_turn_def startJob_def durable_begin durable_up split: option.splits)
qed

lemma add_file_storage_up:
  "storage_up (fst sr) \<Longrightarrow> storage_up (fst (add_file uuid slots f sr))"
  by (cases sr) (auto simp: add_file_def Let_def storage_up_def store_simps split: option.splits)

lemma fold_add_file_storage_up:
  "storage_up (fst sr) \<Longrightarrow> storage_up (fst (fold (add_file uuid slots) fs sr))"
  by (induction fs arbitrary: sr) (auto simp: add_file_storage_up)

lemma durable_addFiles:
  assumes "durable K s"
  shows "durable K (fst (addFiles uuid fs s))"
proof -
  let ?r = "\<lparr>ar_added = 0, ar_duplicates = 0, ar_overLimit = 0\<rparr>"
  obtain s1 r where sr: "fold (add_file uuid (free_slots s)) fs (s, ?r) = (s1, r)"
    by (cases "fold (add_file uuid (free_slots s)) fs (s, ?r)")
  have "storage_up s1"
    using fold_add_file_storage_up [of "(s, ?r)" uuid "free_slots s" fs] assms
    by (simp add: sr durable_up)
  then show ?thesis
    by (rule durable_written) (simp_all add: addFiles_def sr store_simps)
qed

lemma fold_abort_sel:
  "us_ls (fold (\<lambda>(i, h). abort (Some h)) xs s) = us_ls s"
  by (induction xs arbitrary: s) (auto simp: store_simps)

lemma fold_abort_delete_sel:
  "us_ls (fold (\<lambda>(i, h) s. (abort (Some h) s)\<lparr>us_idb := idbDelete i (us_idb s)\<rparr>) xs s) = us_ls s"
  by (induction xs arbitrary: s) (auto simp: store_simps)

lemma durable_updateJob: "storage_up s \<Longrightarrow> durable K (updateJob i f s)"
  by (simp add: updateJob_def durable_set_jobs)

lemma durable_on_tus:
  "durable K s \<Longrightarrow> (\<And>i. durable K (k i s)) \<Longrightarrow> durable K (on_tus h k s)"
  by (simp add: on_tus_def split: option.split)

lemma durable_tus_over [simp]: "durable K (tus_over h s) = durable K s"
  by (simp add: tus_over_def durable_def stored_jobs_def storage_up_def)

lemma durable_react:
  assumes d: "durable K s" and no_flags: "\<And>r w. e \<noteq> StorageFlags r w"
    and kept: "\<And>j. e = Reload \<Longrightarrow> K j \<Longrightarrow> keep_recent now j"
  shows "durable K (react uuid now e s)"
proof -
  have up: "storage_up s" using d by (rule durable_up)
  show ?thesis
  proof (cases e)
    case StartAll
    have "durable K (s\<lparr>us_batchRunning := True\<rparr>)"
      using d by (rule durable_frame) (use up in \<open>simp_all add: storage_up_def\<close>)
    with StartAll d show ?thesis by (simp add: startAll_def durable_batch_turn)
  next
    case BlobAnswer
    have "durable K (set_pc (begin_transfer job f (s\<lparr>us_files := g\<rparr>)))" for job f g
      using up by (intro durable_begin) (simp add: storage_up_def)
    with BlobAnswer d show ?thesis
      by (auto simp: startJob_blob_def split: batch_pc.split option.split)
  next
    case ClearCompleted
    with d show ?thesis
      using durable_frame [OF d, of "clearUploadsCompleted s"] up
      by (simp add: clearUploadsCompleted_def lst.try_del_other storage_up_def)
  next
    case (Subscribe l)
    with d show ?thesis
      using durable_frame [OF d, of "subscribeUploads l s"] up
      by (simp add: subscribeUploads_def storage_up_def)
  next
    case (Unsubscribe l)
    with d show ?thesis
      using durable_frame [OF d, of "unsubscribeUploads l s"] up
      by (simp add: unsubscribeUploads_def storage_up_def)
  next
    case (IdbFlags a ok)
    with d show ?thesis
      using durable_frame [OF d, of "react uuid now (IdbFlags a ok) s"] up
      by (simp add: storage_up_def)
  qed (use d up no_flags kept in \<open>auto simp: durable_addFiles durable_updateJob removeJob_def clearUploads_def
      clearAllUploads_def resetIdle_def Let_def storage_up_def fold_abort_sel fold_abort_delete_sel
      store_simps durable_batch_turn durable_reload onProgress_def onUploadUrlAvailable_def
      onSuccess_def onError_def intro!: durable_set_jobs durable_on_tus split: option.split\<close>)
qed

lemma durable_run:
  "durable K s \<Longrightarrow> (\<And>now r w. (now, StorageFlags r w) \<notin> set es) \<Longrightarrow>
   (\<And>now j. (now, Reload) \<in> set es \<Longrightarrow> K j \<Longrightarrow> keep_recent now j) \<Longrightarrow> durable K (run_events uuid es s)"
proof (induction es arbitrary: s)
  case Nil
  then show ?case by simp
next
  case (Cons te es)
  obtain now e where te: "te = (now, e)" by (cases te)
  with Cons.prems have "durable K (react uuid now e s)" by (intro durable_react) auto
  then have "durable K (run_events uuid es (react uuid now e s))"
    by (rule Cons.IH) (use Cons.prems(2,3) in auto)
  with te show ?case by simp
qed

lemma durable_first_boot: "durable K first_boot"
  by (auto simp: durable_def storage_up_def stored_jobs_def sample_defs intro: exI [of _ "\<lambda>_. True"])

text \<open>C5: As long as localStorage works, reloading the page at any moment of any sequence of
  events brings every active job back, in order, as an interrupted job that keeps its id,
  file name and size, title, description, category and upload URL.  The rest of the
  restored list is exactly the history that is recent enough: if no earlier reload was
  later on the clock, the whole list after the reload is the list before it, with active
  jobs interrupted, less the finished and failed jobs older than a day.\<close>

theorem reload_keeps_active_jobs:
  assumes "\<And>n r w. (n, StorageFlags r w) \<notin> set es"
  shows "filter is_active (us_jobs (react uuid now Reload (run_events uuid es first_boot))) =
      map (\<lambda>j. interrupt (json_job j)) (filter is_active (us_jobs (run_events uuid es first_boot))) \<and>
    ((\<forall>n. (n, Reload) \<in> set es \<longrightarrow> n \<le> now) \<longrightarrow>
      us_jobs (react uuid now Reload (run_events uuid es first_boot)) =
        filter (keep_recent now)
          (map (\<lambda>j. interrupt (json_job j)) (us_jobs (run_events uuid es first_boot))))"
proof (intro conjI impI)
  have restored: "restored = (\<lambda>j. interrupt (json_job j))" by (simp add: fun_eq_iff restored_def)
  show "filter is_active (us_jobs (react uuid now Reload (run_events uuid es first_boot))) =
      map (\<lambda>j. interrupt (json_job j)) (filter is_active (us_jobs (run_events uuid es first_boot)))"
    using load_active [OF durable_run [OF durable_first_boot assms keep_active, where uuid = uuid], where now = now]
    by (simp add: boot_def restored)
  assume "\<forall>n. (n, Reload) \<in> set es \<longrightarrow> n \<le> now"
  then have "durable (keep_recent now) (run_events uuid es first_boot)"
    using assms by (intro durable_run durable_first_boot) (auto elim: keep_recent_earlier)
  from load_durable [OF this]
  show "us_jobs (react uuid now Reload (run_events uuid es first_boot)) =
      filter (keep_recent now)
        (map (\<lambda>j. interrupt (json_job j)) (us_jobs (run_events uuid es first_boot)))"
    by (simp add: boot_def restored)
qed

text \<open>Two finished uploads, one of them older than a day at the reload.\<close>

definition reload_run :: "(int \<times> upload_event) list" where
  "reload_run = [(1, AddFiles [sample_file]), (2, StartAll), (3, TusSuccess 0), (4, Turn),
     (DAY_MS, AddFiles [sample_file]), (DAY_MS, StartAll), (DAY_MS, TusSuccess 1),
     (DAY_MS, Turn), (DAY_MS, AddFiles [sample_file]), (DAY_MS, StartAll)]"

lemma reload_run_ok:
  "enabled_run sample_uuid reload_run first_boot"
  "map uj_status (us_jobs (run_events sample_uuid reload_run first_boot)) =
     [UDone, UDone, UUploading]"
  "map uj_status (filter (keep_recent (DAY_MS + 4)) (map (\<lambda>j. interrupt (json_job j))
     (us_jobs (run_events sample_uuid reload_run first_boot)))) = [UDone, UInterrupted]"
  by code_simp+

theorem reload_keeps_active_jobs_witness:
  "map uj_status (us_jobs (react sample_uuid (DAY_MS + 4) Reload
     (run_events sample_uuid reload_run first_boot))) = [UDone, UInterrupted]"
  using reload_keeps_active_jobs [of reload_run sample_uuid "DAY_MS + 4"] reload_run_ok(3)
  by (simp add: reload_run_def)

subsection \<open>A batch whose upload was aborted waits for ever\<close>

definition wedged :: "upload_store \<Rightarrow> bool" where
  "wedged s \<longleftrightarrow> (\<exists>h. us_pc s = BFinished h) \<and> us_tus s = [] \<and> us_batchRunning s"

lemma add_file_frame:
  "us_pc (fst (add_file uuid slots f sr)) = us_pc (fst sr)"
  "us_tus (fst (add_file uuid slots f sr)) = us_tus (fst sr)"
  "us_batchRunning (fst (add_file uuid slots f sr)) = us_batchRunning (fst sr)"
  by (cases sr; simp add: add_file_def Let_def store_simps split: option.split)+

lemma fold_add_file_frame:
  "us_pc (fst (fold (add_file uuid slots) fs sr)) = us_pc (fst sr)"
  "us_tus (fst (fold (add_file uuid slots) fs sr)) = us_tus (fst sr)"
  "us_batchRunning (fst (fold (add_file uuid slots) fs sr)) = us_batchRunning (fst sr)"
  by (induction fs arbitrary: sr) (simp_all add: add_file_frame)

lemma addFiles_frame:
  "us_pc (fst (addFiles uuid fs s)) = us_pc s"
  "us_tus (fst (addFiles uuid fs s)) = us_tus s"
  "us_batchRunning (fst (addFiles uuid fs s)) = us_batchRunning s"
  using fold_add_file_frame [of uuid "free_slots s" fs
      "(s, \<lparr>ar_added = 0, ar_duplicates = 0, ar_overLimit = 0\<rparr>)"]
  by (simp_all add: addFiles_def store_simps case_prod_beta)

lemma fold_abort_frame:
  "us_pc (fold (\<lambda>(i, h). abort (Some h)) xs s) = us_pc s"
  "us_batchRunning (fold (\<lambda>(i, h). abort (Some h)) xs s) = us_batchRunning s"
  "us_tus s = [] \<Longrightarrow> us_tus (fold (\<lambda>(i, h). abort (Some h)) xs s) = []"
  by (induction xs arbitrary: s) (auto simp: store_simps)

lemma fold_abort_delete_frame:
  fixes xs :: "(string \<times> nat) list"
  defines "g \<equiv> \<lambda>(i, h) s. (abort (Some h) s)\<lparr>us_idb := idbDelete i (us_idb s)\<rparr>"
  shows "us_pc (fold g xs s) = us_pc s" "us_batchRunning (fold g xs s) = us_batchRunning s"
    "us_tus s = [] \<Longrightarrow> us_tus (fold g xs s) = []"
  unfolding g_def by (induction xs arbitrary: s) (auto simp: store_simps)

lemma updateJob_frame:
  "us_pc (updateJob i f s) = us_pc s" "us_tus (updateJob i f s) = us_tus s"
  "us_batchRunning (updateJob i f s) = us_batchRunning s"
  by (simp_all add: updateJob_def store_simps)

lemma wedged_react:
  assumes w: "wedged s" and en: "upload_enabled e s" and "e \<noteq> Reload"
  shows "wedged (react uuid now e s)"
  using assms
proof (cases e)
  case (RemoveJob i)
  with w show ?thesis
    by (simp add: wedged_def removeJob_def Let_def store_simps split: option.split)
qed (auto simp: wedged_def addFiles_frame updateJob_frame startAll_def clearUploads_def
    clearAllUploads_def resetIdle_def Let_def store_simps clearUploadsCompleted_def
    subscribeUploads_def unsubscribeUploads_def fold_abort_frame fold_abort_delete_frame)

lemma wedged_run:
  "wedged s \<Longrightarrow> enabled_run uuid es s \<Longrightarrow> (\<And>now. (now, Reload) \<notin> set es) \<Longrightarrow>
   wedged (run_events uuid es s)"
proof (induction es arbitrary: s)
  case Nil
  then show ?case by simp
next
  case (Cons te es)
  obtain now e where te: "te = (now, e)" by (cases te)
  with Cons.prems have "wedged (react uuid now e s)" by (intro wedged_react) auto
  then have "wedged (run_events uuid es (react uuid now e s))"
    by (rule Cons.IH) (use Cons.prems te in auto)
  with te show ?case by simp
qed

lemma clearAllUploads_wedges:
  assumes inv: "upload_inv uuid s" and "us_tus s \<noteq> []"
  shows "wedged (clearAllUploads s)"
  using assms by (auto simp: upload_inv_def transfers_ok_def batch_ok_def wedged_def
      clearAllUploads_def Let_def store_simps)

text \<open>C6: Cancelling everything while a file is uploading blocks the store until the page is
  reloaded: whatever happens afterwards (new files, another start), the batch still counts
  as running, starting a batch does nothing and no job ever uploads.\<close>

theorem cancel_all_blocks_uploads:
  assumes "upload_reach uuid s" and "inj uuid" and "us_tus s \<noteq> []"
    and "enabled_run uuid es (clearAllUploads s)" and "\<And>n. (n, Reload) \<notin> set es"
  shows "us_batchRunning (run_events uuid es (clearAllUploads s)) \<and>
    startAll now (run_events uuid es (clearAllUploads s)) = run_events uuid es (clearAllUploads s) \<and>
    us_tus (run_events uuid es (clearAllUploads s)) = []"
proof -
  have "wedged (clearAllUploads s)"
    using reach_inv [OF assms(1,2)] assms(3) by (rule clearAllUploads_wedges)
  then have "wedged (run_events uuid es (clearAllUploads s))"
    using assms(4,5) by (rule wedged_run)
  then show ?thesis by (simp add: wedged_def startAll_def)
qed

definition after_cancel :: "(int \<times> upload_event) list" where
  "after_cancel = [(7, AddFiles [sample_file]), (8, StartAll)]"

lemma after_cancel_ok:
  "us_tus (run_events sample_uuid sample_run first_boot) \<noteq> []"
  "enabled_run sample_uuid after_cancel
     (clearAllUploads (run_events sample_uuid sample_run first_boot))"
  "map uj_status (us_jobs (run_events sample_uuid after_cancel
     (clearAllUploads (run_events sample_uuid sample_run first_boot)))) = [UQueued]"
  by code_simp+

theorem cancel_all_blocks_uploads_witness:
  "us_batchRunning (run_events sample_uuid after_cancel
      (clearAllUploads (run_events sample_uuid sample_run first_boot))) \<and>
   map uj_status (us_jobs (run_events sample_uuid after_cancel
     (clearAllUploads (run_events sample_uuid sample_run first_boot)))) = [UQueued]"
  using cancel_all_blocks_uploads [OF reach_from_boot [OF sample_run_ok(1)] inj_sample_uuid
      after_cancel_ok(1,2)] after_cancel_ok(3)
  by (simp add: after_cancel_def)

subsection \<open>A batch with a lost file spins\<close>

text \<open>The batch never ends while its first pending job has no file: neither in memory nor
  in IndexedDB.  Each turn asks for the blob, gets none and comes back to the same state,
  for ever, and no later job is reached.\<close>

theorem lost_file_spins:
  assumes "us_pc s = BLoop" and "find is_pending (us_jobs s) = Some j"
    and "distinct (map uj_id (us_jobs s))" and "us_files s (uj_id j) = None"
    and "idbGet (us_idb s) (uj_id j) = None"
  shows "((\<lambda>s. react uuid now BlobAnswer (react uuid now Turn s)) ^^ n) s = s"
proof (induction n)
  case 0
  then show ?case by simp
next
  case (Suc n)
  have "react uuid now Turn s = s\<lparr>us_pc := BBlob j\<rparr>"
    using batch_turn_Some [OF assms(2,3), of now] assms(4) by simp
  then have step: "react uuid now BlobAnswer (react uuid now Turn s) = s"
    using assms(1,5) by (simp add: startJob_blob_def)
  show ?case by (simp only: funpow_Suc_right o_apply step Suc)
qed

definition lost_run :: "(int \<times> upload_event) list" where
  "lost_run = [(0, IdbFlags False False), (1, AddFiles [sample_file]), (2, Reload), (3, StartAll),
     (4, BlobAnswer)]"

lemma lost_run_ok:
  "enabled_run sample_uuid lost_run first_boot"
  "us_pc (run_events sample_uuid lost_run first_boot) = BLoop"
  "find is_pending (us_jobs (run_events sample_uuid lost_run first_boot)) =
     Some ((new_job [] sample_file)\<lparr>uj_status := UInterrupted\<rparr>)"
  "distinct (map uj_id (us_jobs (run_events sample_uuid lost_run first_boot)))"
  "us_files (run_events sample_uuid lost_run first_boot) [] = None"
  "idbGet (us_idb (run_events sample_uuid lost_run first_boot)) [] = None"
  by code_simp+

theorem lost_file_spins_witness:
  "((\<lambda>s. react sample_uuid 5 BlobAnswer (react sample_uuid 5 Turn s)) ^^ 1000)
     (run_events sample_uuid lost_run first_boot) = run_events sample_uuid lost_run first_boot"
  by (rule lost_file_spins [OF lost_run_ok(2,3,4)]) (simp_all add: lost_run_ok(5,6))

end
