(* ===== verification/UrlStore.thy ===== *)
theory UrlStore
  imports JsNum Storage JobList
begin

text \<open>
  The URL download store, \<open>web/lib/url-download-store.ts\<close>: the jobs of videos that the
  server fetches, checked and submitted by the client, and the runner \<open>startDownloads\<close>
  that submits them one by one and polls until each is finished.

  As in the upload store the asynchronous code is cut at its awaits.  \<open>ds_pc\<close> is where the
  running \<open>startDownloads\<close> waits: for the answer to a submission, for the promise of a
  \<open>waitForEntry\<close>, or for the two-second pause of \<open>pollUntilIdle\<close>.  Each call of
  \<open>waitForEntry\<close> is a waiter with its interval timer; every tick of a timer is a request in
  flight of its own, so ticks may overlap.  The server's answers are arguments.
\<close>

subsection \<open>Data\<close>

datatype url_status = DChecking | DQueued | DDownloading | DDone | DFailed

record url_job =
  dj_id :: string
  dj_url :: string
  dj_fileName :: string
  dj_title :: "string option"
  dj_category :: "string option"
  dj_status :: url_status
  dj_progress :: jnum
  dj_error :: "string option"
  dj_entryId :: "string option"
  dj_finishedAt :: "int option"

datatype url_stored =
    StoredDownloads "url_job list"
  | StoredUrlCompletedAt int
  | StoredUrlOther string

record check_result =
  cr_url :: string
  cr_ok :: bool
  cr_reason :: "string option"
  cr_fileName :: "string option"

record submit_result =
  sr_ok :: bool
  sr_reason :: "string option"
  sr_entryId :: "string option"

record download_row =
  dr_publicId :: string
  dr_bytes :: nat
  dr_totalBytes :: nat

record entry_answer =
  ea_status :: string
  ea_error :: "string option"

text \<open>
  A call of \<open>waitForEntry\<close>: its arguments and whether its interval timer is set.  Requests
  in flight ask either for the active downloads or for the entry.
\<close>

record waiter =
  w_publicId :: "string option"
  w_job :: string
  w_timer :: bool

datatype poll_phase = AskList | AskEntry

text \<open>Which loop awaits a waiter: the submission loop or \<open>pollUntilIdle\<close>.\<close>

datatype url_pc = DIdle | DSubmit url_job | DWait nat | DPause url_job

record url_store =
  ds_jobs :: "url_job list"
  ds_lastCompletedAt :: "jnum option"
  ds_polling :: bool
  ds_pc :: url_pc
  ds_inPollLoop :: bool
  ds_waiters :: "waiter list"
  ds_polls :: "(nat \<times> poll_phase) list"
  ds_patches :: "(string \<times> string option \<times> jnum option) list"
  ds_listeners :: "nat list"
  ds_seen :: "nat \<rightharpoonup> url_job list"
  ds_ls :: "url_stored local_storage"
  ds_nextUuid :: nat

definition URL_STORAGE_KEY :: string where "URL_STORAGE_KEY = ''vidsilo-url-downloads''"
definition URL_COMPLETED_KEY :: string where
  "URL_COMPLETED_KEY = ''vidsilo-url-downloads-completed''"

lemma url_keys_differ [simp]:
  "URL_STORAGE_KEY \<noteq> URL_COMPLETED_KEY" "URL_COMPLETED_KEY \<noteq> URL_STORAGE_KEY"
  by (simp_all add: URL_STORAGE_KEY_def URL_COMPLETED_KEY_def)

subsection \<open>Persistence and subscribers\<close>

definition json_url_job :: "url_job \<Rightarrow> url_job" where
  "json_url_job j = j\<lparr>dj_progress := json_num (dj_progress j)\<rparr>"

definition loadUrlCompleted :: "bool \<Rightarrow> url_stored local_storage \<Rightarrow> jnum option" where
  "loadUrlCompleted browser ls =
     (if \<not> browser then None
      else case get_item ls URL_COMPLETED_KEY of
          Inl _ \<Rightarrow> None
        | Inr None \<Rightarrow> None
        | Inr (Some (StoredUrlCompletedAt n)) \<Rightarrow> Some (num_of_int n)
        | Inr (Some (StoredDownloads _)) \<Rightarrow> Some NaN
        | Inr (Some (StoredUrlOther raw)) \<Rightarrow> if raw = [] then None else Some NaN)"

definition markUrlDownloadsCompleted :: "int \<Rightarrow> url_store \<Rightarrow> url_store" where
  "markUrlDownloadsCompleted now s =
     s\<lparr>ds_lastCompletedAt := Some (num_of_int now),
       ds_ls := try_ignore (set_item URL_COMPLETED_KEY (StoredUrlCompletedAt now)) (ds_ls s)\<rparr>"

definition hasUrlDownloadsCompleted :: "url_store \<Rightarrow> bool" where
  "hasUrlDownloadsCompleted s \<longleftrightarrow> ds_lastCompletedAt s \<noteq> None"

definition clearUrlDownloadsCompleted :: "url_store \<Rightarrow> url_store" where
  "clearUrlDownloadsCompleted s =
     s\<lparr>ds_lastCompletedAt := None,
       ds_ls := try_ignore (remove_item URL_COMPLETED_KEY) (ds_ls s)\<rparr>"

definition recheck :: "url_job \<Rightarrow> url_job" where
  "recheck j = (if dj_status j = DQueued \<or> dj_status j = DDownloading
                then j\<lparr>dj_status := DChecking, dj_progress := Fin (- 1)\<rparr> else j)"

definition keep_recent_url :: "int \<Rightarrow> url_job \<Rightarrow> bool" where
  "keep_recent_url now j =
     (if dj_status j \<noteq> DDone \<and> dj_status j \<noteq> DFailed then True
      else case dj_finishedAt j of
             None \<Rightarrow> False | Some t \<Rightarrow> now - 24 * 60 * 60 * 1000 \<le> t)"

definition load_urls :: "bool \<Rightarrow> int \<Rightarrow> url_stored local_storage \<Rightarrow> url_job list" where
  "load_urls browser now ls =
     (if \<not> browser then []
      else case get_item ls URL_STORAGE_KEY of
          Inl _ \<Rightarrow> []
        | Inr None \<Rightarrow> []
        | Inr (Some (StoredDownloads js)) \<Rightarrow> filter (keep_recent_url now) (map recheck js)
        | Inr (Some (StoredUrlCompletedAt _)) \<Rightarrow> []
        | Inr (Some (StoredUrlOther _)) \<Rightarrow> [])"

definition persist_urls :: "url_store \<Rightarrow> url_store" where
  "persist_urls s = s\<lparr>ds_ls := try_ignore
     (set_item URL_STORAGE_KEY (StoredDownloads (map json_url_job (ds_jobs s)))) (ds_ls s)\<rparr>"

definition emit_urls :: "url_store \<Rightarrow> url_store" where
  "emit_urls s = s\<lparr>ds_seen := (\<lambda>l. if l \<in> set (ds_listeners s) then Some (ds_jobs s) else ds_seen s l)\<rparr>"

definition subscribeUrlDownloads :: "nat \<Rightarrow> url_store \<Rightarrow> url_store" where
  "subscribeUrlDownloads l s =
     s\<lparr>ds_listeners := (if l \<in> set (ds_listeners s) then ds_listeners s else ds_listeners s @ [l]),
       ds_seen := (ds_seen s)(l \<mapsto> ds_jobs s)\<rparr>"

definition unsubscribeUrlDownloads :: "nat \<Rightarrow> url_store \<Rightarrow> url_store" where
  "unsubscribeUrlDownloads l s = s\<lparr>ds_listeners := filter (\<lambda>x. x \<noteq> l) (ds_listeners s)\<rparr>"

definition set_url_jobs :: "url_job list \<Rightarrow> url_store \<Rightarrow> url_store" where
  "set_url_jobs js s = persist_urls (emit_urls (s\<lparr>ds_jobs := js\<rparr>))"

subsection \<open>Operations on the list\<close>

definition update_url :: "string \<Rightarrow> (url_job \<Rightarrow> url_job) \<Rightarrow> url_store \<Rightarrow> url_store" where
  "update_url i patch s = set_url_jobs (update_where (\<lambda>j. dj_id j = i) patch (ds_jobs s)) s"

definition removeUrlDownload :: "string \<Rightarrow> url_store \<Rightarrow> url_store" where
  "removeUrlDownload i s = set_url_jobs (filter (\<lambda>j. dj_id j \<noteq> i) (ds_jobs s)) s"

definition clearUrlDownloads :: "url_store \<Rightarrow> url_store" where
  "clearUrlDownloads s = set_url_jobs [] s"

definition clearAllUrlDownloads :: "url_store \<Rightarrow> url_store" where
  "clearAllUrlDownloads s = set_url_jobs [] s"

definition resetUrlDownloadStore :: "url_store \<Rightarrow> url_store" where
  "resetUrlDownloadStore s = emit_urls (s\<lparr>ds_jobs := []\<rparr>)"

definition resetIdleDownloads :: "url_store \<Rightarrow> url_store" where
  "resetIdleDownloads s =
     (let active = list_ex (\<lambda>j. dj_status j = DQueued \<or> dj_status j = DDownloading \<or>
                                dj_status j = DChecking) (ds_jobs s)
      in if \<not> active \<and> ds_jobs s \<noteq> [] then set_url_jobs [] s else s)"

subsection \<open>Checking URLs\<close>

text \<open>
  The two halves of \<open>checkUrls\<close>, before and after its await: the request, which is not
  sent when no line is left, and the loop over the server's answers.
\<close>

definition check_request :: "string list \<Rightarrow> string list option" where
  "check_request ls =
     (let fresh = filter (\<lambda>u. u \<noteq> []) (map js_trim ls) in if fresh = [] then None else Some fresh)"

definition new_url_job :: "string \<Rightarrow> check_result \<Rightarrow> url_job" where
  "new_url_job i r =
     (let name = (case cr_fileName r of Some n \<Rightarrow> n | None \<Rightarrow> cr_url r)
      in \<lparr>dj_id = i, dj_url = cr_url r, dj_fileName = name, dj_title = Some (strip_ext name),
          dj_category = Some [], dj_status = DQueued, dj_progress = Fin 0, dj_error = None,
          dj_entryId = None, dj_finishedAt = None\<rparr>)"

text \<open>The loop over the answers: the set \<open>existing\<close>, the counters and the store.\<close>

fun add_checked ::
  "(nat \<Rightarrow> string) \<Rightarrow> check_result \<Rightarrow> url_store \<times> string list \<times> nat \<times> nat \<Rightarrow>
   url_store \<times> string list \<times> nat \<times> nat" where
  "add_checked uuid r (s, existing, added, failed) =
     (if \<not> cr_ok r then (s, existing, added, Suc failed)
      else if cr_url r \<in> set existing then (s, existing, added, failed)
      else (s\<lparr>ds_jobs := ds_jobs s @ [new_url_job (uuid (ds_nextUuid s)) r],
              ds_nextUuid := Suc (ds_nextUuid s)\<rparr>,
            cr_url r # existing, Suc added, failed))"

definition checkUrls ::
  "(nat \<Rightarrow> string) \<Rightarrow> check_result list \<Rightarrow> url_store \<Rightarrow> url_store \<times> nat \<times> nat" where
  "checkUrls uuid results s =
     (let (s', _, added, failed) = fold (add_checked uuid) results (s, map dj_url (ds_jobs s), 0, 0)
      in (persist_urls (emit_urls s'), added, failed))"

subsection \<open>The download runner\<close>

definition truthy :: "string option \<Rightarrow> bool" where
  "truthy x \<longleftrightarrow> (case x of None \<Rightarrow> False | Some v \<Rightarrow> v \<noteq> [])"

definition finish_downloads :: "int \<Rightarrow> url_store \<Rightarrow> url_store" where
  "finish_downloads now s =
     (let s1 = (if list_ex (\<lambda>j. dj_status j = DDone) (ds_jobs s)
                then markUrlDownloadsCompleted now s else s)
      in s1\<lparr>ds_polling := False, ds_pc := DIdle, ds_inPollLoop := False\<rparr>)"

text \<open>One turn of \<open>pollUntilIdle\<close>: pause for a job that is still downloading, or end.\<close>

definition poll_turn :: "int \<Rightarrow> url_store \<Rightarrow> url_store" where
  "poll_turn now s =
     (case find (\<lambda>j. dj_status j = DDownloading \<and> truthy (dj_entryId j)) (ds_jobs s) of
        None \<Rightarrow> finish_downloads now s
      | Some job \<Rightarrow> s\<lparr>ds_pc := DPause job, ds_inPollLoop := True\<rparr>)"

text \<open>One turn of the submission loop, up to the answer of \<open>submitOne\<close>'s request.\<close>

definition download_turn :: "int \<Rightarrow> url_store \<Rightarrow> url_store" where
  "download_turn now s =
     (case find (\<lambda>j. dj_status j = DQueued) (ds_jobs s) of
        None \<Rightarrow> poll_turn now s
      | Some job \<Rightarrow>
          (update_url (dj_id job)
             (\<lambda>j. j\<lparr>dj_status := DDownloading, dj_progress := Fin (- 1), dj_error := None\<rparr>) s)
            \<lparr>ds_pc := DSubmit job, ds_inPollLoop := False\<rparr>)"

definition startDownloads :: "int \<Rightarrow> url_store \<Rightarrow> url_store" where
  "startDownloads now s =
     (if ds_polling s then s else download_turn now (s\<lparr>ds_polling := True\<rparr>))"

definition waitForEntry :: "string option \<Rightarrow> string \<Rightarrow> url_store \<Rightarrow> url_store" where
  "waitForEntry publicId i s =
     s\<lparr>ds_waiters := ds_waiters s @ [\<lparr>w_publicId = publicId, w_job = i, w_timer = True\<rparr>],
       ds_pc := DWait (length (ds_waiters s))\<rparr>"

text \<open>The body of the PATCH that carries the title and category edited before the start.\<close>

definition patch_body :: "url_job \<Rightarrow> string option \<times> jnum option" where
  "patch_body job =
     (if truthy (dj_title job) then dj_title job else None,
      case dj_category job of
        Some c \<Rightarrow> if c \<noteq> [] then Some (js_number c) else None
      | None \<Rightarrow> None)"

definition send_patch :: "url_job \<Rightarrow> string option \<Rightarrow> url_store \<Rightarrow> url_store" where
  "send_patch job entryId s =
     (if truthy entryId \<and> (truthy (dj_title job) \<or> truthy (dj_category job))
      then s\<lparr>ds_patches := ds_patches s @ [(the entryId, patch_body job)]\<rparr> else s)"

text \<open>
  The rest of \<open>submitOne\<close>: the request failed (the exception ends \<open>startDownloads\<close> through
  its \<open>finally\<close>), or the server answered.
\<close>

definition submit_answer ::
  "int \<Rightarrow> submit_result list option \<Rightarrow> url_job \<Rightarrow> url_store \<Rightarrow> url_store" where
  "submit_answer now answer job s =
     (case answer of
        None \<Rightarrow> s\<lparr>ds_polling := False, ds_pc := DIdle\<rparr>
      | Some [] \<Rightarrow> download_turn now (update_url (dj_id job)
            (\<lambda>j. j\<lparr>dj_status := DFailed, dj_error := Some ''request failed'', dj_finishedAt := Some now\<rparr>) s)
      | Some (r # _) \<Rightarrow>
          if \<not> sr_ok r then
            download_turn now (update_url (dj_id job)
              (\<lambda>j. j\<lparr>dj_status := DFailed,
                     dj_error := Some (case sr_reason r of Some m \<Rightarrow> m | None \<Rightarrow> ''request failed''),
                     dj_finishedAt := Some now\<rparr>) s)
          else waitForEntry (sr_entryId r) (dj_id job)
            (send_patch job (sr_entryId r)
              (update_url (dj_id job) (\<lambda>j. j\<lparr>dj_entryId := sr_entryId r\<rparr>) s)))"

text \<open>The two-second pause of \<open>pollUntilIdle\<close> is over.\<close>

definition pause_over :: "url_job \<Rightarrow> url_store \<Rightarrow> url_store" where
  "pause_over job s = waitForEntry (dj_entryId job) (dj_id job) s"

text \<open>The timer of waiter \<open>w\<close> fires: a request for the active downloads leaves.\<close>

definition tick :: "nat \<Rightarrow> url_store \<Rightarrow> url_store" where
  "tick w s = s\<lparr>ds_polls := ds_polls s @ [(w, AskList)]\<rparr>"

definition clear_timer :: "nat \<Rightarrow> url_store \<Rightarrow> url_store" where
  "clear_timer w s =
     s\<lparr>ds_waiters := (ds_waiters s)[w := (ds_waiters s ! w)\<lparr>w_timer := False\<rparr>]\<rparr>"

text \<open>
  The answer to a request for the active downloads of waiter \<open>w\<close>, \<open>None\<close> when it failed:
  the row gives the progress; without a row the timer is cleared and the entry asked for.
\<close>

definition list_answer :: "nat \<Rightarrow> download_row list option \<Rightarrow> url_store \<Rightarrow> url_store" where
  "list_answer w answer s0 =
     (let s = s0\<lparr>ds_polls := remove1 (w, AskList) (ds_polls s0)\<rparr>; wt = ds_waiters s ! w in
      case answer of
        None \<Rightarrow> s
      | Some rows \<Rightarrow>
          (case find (\<lambda>d. Some (dr_publicId d) = w_publicId wt) rows of
             Some row \<Rightarrow>
               if 0 < dr_totalBytes row
               then update_url (w_job wt)
                      (\<lambda>j. j\<lparr>dj_progress := jmin (Fin 99) (percent (dr_bytes row) (dr_totalBytes row))\<rparr>) s
               else s
           | None \<Rightarrow> (clear_timer w s)\<lparr>ds_polls := ds_polls s @ [(w, AskEntry)]\<rparr>))"

text \<open>\<open>resolve()\<close>: the loop that awaits waiter \<open>w\<close> goes on.\<close>

definition resolve_waiter :: "int \<Rightarrow> nat \<Rightarrow> url_store \<Rightarrow> url_store" where
  "resolve_waiter now w s =
     (if ds_pc s = DWait w
      then (if ds_inPollLoop s then poll_turn now s else download_turn now s)
      else s)"

text \<open>The answer to the request for the entry, \<open>None\<close> when it failed.\<close>

definition entry_answer :: "int \<Rightarrow> nat \<Rightarrow> entry_answer option \<Rightarrow> url_store \<Rightarrow> url_store" where
  "entry_answer now w answer s0 =
     (let s = s0\<lparr>ds_polls := remove1 (w, AskEntry) (ds_polls s0)\<rparr>; wt = ds_waiters s ! w in
      case answer of
        None \<Rightarrow> s
      | Some entry \<Rightarrow>
          resolve_waiter now w (update_url (w_job wt)
            (if ea_status entry = ''failed''
             then (\<lambda>j. j\<lparr>dj_status := DFailed,
                        dj_error := Some (case ea_error entry of Some m \<Rightarrow> m | None \<Rightarrow> ''download failed''),
                        dj_progress := Fin (- 1), dj_finishedAt := Some now\<rparr>)
             else (\<lambda>j. j\<lparr>dj_status := DDone, dj_progress := Fin 100, dj_finishedAt := Some now\<rparr>)) s))"

subsection \<open>Effects of the operations on the fields\<close>

lemma set_url_jobs_sel [store_simps]:
  "ds_jobs (set_url_jobs js s) = js"
  "ds_lastCompletedAt (set_url_jobs js s) = ds_lastCompletedAt s"
  "ds_polling (set_url_jobs js s) = ds_polling s"
  "ds_pc (set_url_jobs js s) = ds_pc s"
  "ds_inPollLoop (set_url_jobs js s) = ds_inPollLoop s"
  "ds_waiters (set_url_jobs js s) = ds_waiters s"
  "ds_polls (set_url_jobs js s) = ds_polls s"
  "ds_patches (set_url_jobs js s) = ds_patches s"
  "ds_listeners (set_url_jobs js s) = ds_listeners s"
  "ds_nextUuid (set_url_jobs js s) = ds_nextUuid s"
  "ds_seen (set_url_jobs js s) = (\<lambda>l. if l \<in> set (ds_listeners s) then Some js else ds_seen s l)"
  "ds_ls (set_url_jobs js s) =
     try_ignore (set_item URL_STORAGE_KEY (StoredDownloads (map json_url_job js))) (ds_ls s)"
  by (simp_all add: set_url_jobs_def persist_urls_def emit_urls_def fun_eq_iff)

lemma persist_emit_urls_sel [store_simps]:
  "ds_jobs (persist_urls (emit_urls s)) = ds_jobs s"
  "ds_polling (persist_urls (emit_urls s)) = ds_polling s"
  "ds_pc (persist_urls (emit_urls s)) = ds_pc s"
  "ds_inPollLoop (persist_urls (emit_urls s)) = ds_inPollLoop s"
  "ds_waiters (persist_urls (emit_urls s)) = ds_waiters s"
  "ds_polls (persist_urls (emit_urls s)) = ds_polls s"
  "ds_listeners (persist_urls (emit_urls s)) = ds_listeners s"
  "ds_nextUuid (persist_urls (emit_urls s)) = ds_nextUuid s"
  "ds_seen (persist_urls (emit_urls s)) =
     (\<lambda>l. if l \<in> set (ds_listeners s) then Some (ds_jobs s) else ds_seen s l)"
  "ds_ls (persist_urls (emit_urls s)) =
     try_ignore (set_item URL_STORAGE_KEY (StoredDownloads (map json_url_job (ds_jobs s)))) (ds_ls s)"
  by (simp_all add: persist_urls_def emit_urls_def fun_eq_iff)

lemma update_url_sel [store_simps]:
  "ds_jobs (update_url i f s) = update_where (\<lambda>j. dj_id j = i) f (ds_jobs s)"
  "ds_polling (update_url i f s) = ds_polling s"
  "ds_pc (update_url i f s) = ds_pc s"
  "ds_inPollLoop (update_url i f s) = ds_inPollLoop s"
  "ds_waiters (update_url i f s) = ds_waiters s"
  "ds_polls (update_url i f s) = ds_polls s"
  "ds_listeners (update_url i f s) = ds_listeners s"
  "ds_nextUuid (update_url i f s) = ds_nextUuid s"
  by (simp_all add: update_url_def store_simps)

lemma removeUrlDownload_jobs [store_simps]:
  "ds_jobs (removeUrlDownload i s) = filter (\<lambda>j. dj_id j \<noteq> i) (ds_jobs s)"
  by (simp add: removeUrlDownload_def store_simps)

interpretation downloads: job_list ds_jobs dj_id update_url removeUrlDownload
  by unfold_locales (simp_all add: store_simps)

end
