(* ===== verification/UrlMachine.thy ===== *)
theory UrlMachine
  imports UrlStore
begin

text \<open>
  The URL download store as a state machine: its events, the step relation and the
  invariant of the reachable states.  The invariant shows that the runner handles one
  download at a time, and that the loop of \<open>pollUntilIdle\<close> never finds a job.
\<close>

subsection \<open>Events\<close>

datatype url_edit = EditUrlTitle string | EditUrlCategory string

datatype url_event =
    CheckAnswer "check_result list" | EditUrl string url_edit | RemoveUrl string
  | StartDownloads | ClearUrls | ClearAllUrls | ResetIdleUrls | ClearUrlsCompleted
  | SubscribeUrls nat | UnsubscribeUrls nat
  | SubmitAnswer "submit_result list option" | PauseOver
  | Tick nat | ListAnswer nat "download_row list option" | EntryAnswer nat "entry_answer option"
  | ReloadUrls | UrlStorageFlags bool bool

fun apply_url_edit :: "url_edit \<Rightarrow> url_job \<Rightarrow> url_job" where
  "apply_url_edit (EditUrlTitle v) j = j\<lparr>dj_title := Some v\<rparr>"
| "apply_url_edit (EditUrlCategory v) j = j\<lparr>dj_category := Some v\<rparr>"

text \<open>The module's variables when it is loaded.\<close>

definition boot_urls :: "int \<Rightarrow> url_stored local_storage \<Rightarrow> nat \<Rightarrow> url_store" where
  "boot_urls now ls uuids =
     \<lparr>ds_jobs = load_urls True now ls, ds_lastCompletedAt = loadUrlCompleted True ls,
      ds_polling = False, ds_pc = DIdle, ds_inPollLoop = False, ds_waiters = [], ds_polls = [],
      ds_patches = [], ds_listeners = [], ds_seen = Map.empty, ds_ls = ls, ds_nextUuid = uuids\<rparr>"

fun url_react :: "(nat \<Rightarrow> string) \<Rightarrow> int \<Rightarrow> url_event \<Rightarrow> url_store \<Rightarrow> url_store" where
  "url_react uuid now (CheckAnswer rs) s = fst (checkUrls uuid rs s)"
| "url_react uuid now (EditUrl i ed) s = update_url i (apply_url_edit ed) s"
| "url_react uuid now (RemoveUrl i) s = removeUrlDownload i s"
| "url_react uuid now StartDownloads s = startDownloads now s"
| "url_react uuid now ClearUrls s = clearUrlDownloads s"
| "url_react uuid now ClearAllUrls s = clearAllUrlDownloads s"
| "url_react uuid now ResetIdleUrls s = resetIdleDownloads s"
| "url_react uuid now ClearUrlsCompleted s = clearUrlDownloadsCompleted s"
| "url_react uuid now (SubscribeUrls l) s = subscribeUrlDownloads l s"
| "url_react uuid now (UnsubscribeUrls l) s = unsubscribeUrlDownloads l s"
| "url_react uuid now (SubmitAnswer a) s =
     (case ds_pc s of DSubmit job \<Rightarrow> submit_answer now a job s | _ \<Rightarrow> s)"
| "url_react uuid now PauseOver s = (case ds_pc s of DPause job \<Rightarrow> pause_over job s | _ \<Rightarrow> s)"
| "url_react uuid now (Tick w) s = tick w s"
| "url_react uuid now (ListAnswer w a) s = list_answer w a s"
| "url_react uuid now (EntryAnswer w a) s = entry_answer now w a s"
| "url_react uuid now ReloadUrls s = boot_urls now (ds_ls s) (ds_nextUuid s)"
| "url_react uuid now (UrlStorageFlags r w) s =
     s\<lparr>ds_ls := (ds_ls s)\<lparr>ls_readable := r, ls_writable := w\<rparr>\<rparr>"

text \<open>An answer belongs to a request in flight, a tick to a timer that is set.\<close>

fun url_enabled :: "url_event \<Rightarrow> url_store \<Rightarrow> bool" where
  "url_enabled (SubmitAnswer _) s \<longleftrightarrow> (case ds_pc s of DSubmit _ \<Rightarrow> True | _ \<Rightarrow> False)"
| "url_enabled PauseOver s \<longleftrightarrow> (case ds_pc s of DPause _ \<Rightarrow> True | _ \<Rightarrow> False)"
| "url_enabled (Tick w) s \<longleftrightarrow> w < length (ds_waiters s) \<and> w_timer (ds_waiters s ! w)"
| "url_enabled (ListAnswer w _) s \<longleftrightarrow> (w, AskList) \<in> set (ds_polls s)"
| "url_enabled (EntryAnswer w _) s \<longleftrightarrow> (w, AskEntry) \<in> set (ds_polls s)"
| "url_enabled _ s \<longleftrightarrow> True"

inductive url_step :: "(nat \<Rightarrow> string) \<Rightarrow> url_store \<Rightarrow> url_event \<Rightarrow> url_store \<Rightarrow> bool" for uuid where
  url_step: "url_enabled e s \<Longrightarrow> url_step uuid s e (url_react uuid now e s)"

inductive_cases url_stepE: "url_step uuid s e t"

inductive url_reach :: "(nat \<Rightarrow> string) \<Rightarrow> url_store \<Rightarrow> bool" for uuid where
  first_load: "url_reach uuid (boot_urls now empty_storage 0)"
| url_event: "url_reach uuid s \<Longrightarrow> url_step uuid s e t \<Longrightarrow> url_reach uuid t"

fun run_urls :: "(nat \<Rightarrow> string) \<Rightarrow> (int \<times> url_event) list \<Rightarrow> url_store \<Rightarrow> url_store" where
  "run_urls uuid [] s = s"
| "run_urls uuid ((now, e) # es) s = run_urls uuid es (url_react uuid now e s)"

fun enabled_urls :: "(nat \<Rightarrow> string) \<Rightarrow> (int \<times> url_event) list \<Rightarrow> url_store \<Rightarrow> bool" where
  "enabled_urls uuid [] s \<longleftrightarrow> True"
| "enabled_urls uuid ((now, e) # es) s \<longleftrightarrow>
     url_enabled e s \<and> enabled_urls uuid es (url_react uuid now e s)"

lemma reach_run_urls:
  "url_reach uuid s \<Longrightarrow> enabled_urls uuid es s \<Longrightarrow> url_reach uuid (run_urls uuid es s)"
  by (induction uuid es s rule: run_urls.induct) (auto intro: url_reach.url_event url_step.url_step)

lemma run_urls_append [simp]: "run_urls uuid (xs @ ys) s = run_urls uuid ys (run_urls uuid xs s)"
  by (induction uuid xs s rule: run_urls.induct) auto

lemma enabled_urls_append [simp]:
  "enabled_urls uuid (xs @ ys) s \<longleftrightarrow> enabled_urls uuid xs s \<and> enabled_urls uuid ys (run_urls uuid xs s)"
  by (induction uuid xs s rule: run_urls.induct) auto

subsection \<open>The invariant\<close>

definition url_progress_ok :: "jnum \<Rightarrow> bool" where
  "url_progress_ok x \<longleftrightarrow> (case x of Fin a \<Rightarrow> a = - 1 \<or> (0 \<le> a \<and> a \<le> 100) | _ \<Rightarrow> False)"

definition url_job_ok :: "url_job \<Rightarrow> bool" where
  "url_job_ok j \<longleftrightarrow> url_progress_ok (dj_progress j) \<and>
     (dj_status j = DDone \<longrightarrow> dj_finishedAt j \<noteq> None) \<and>
     (dj_status j = DFailed \<longrightarrow> dj_error j \<noteq> None \<and> dj_finishedAt j \<noteq> None) \<and>
     (dj_status j = DQueued \<longrightarrow> dj_entryId j = None)"

definition url_jobs_ok :: "string set \<Rightarrow> url_job list \<Rightarrow> bool" where
  "url_jobs_ok ids js \<longleftrightarrow> distinct (map dj_id js) \<and> distinct (map dj_url js) \<and>
     dj_id ` set js \<subseteq> ids \<and> (\<forall>j \<in> set js. url_job_ok j)"

definition drawn_urls :: "(nat \<Rightarrow> string) \<Rightarrow> url_store \<Rightarrow> string set" where
  "drawn_urls uuid s = uuid ` {..<ds_nextUuid s}"

definition stored_urls_ok :: "string set \<Rightarrow> url_stored local_storage \<Rightarrow> bool" where
  "stored_urls_ok ids ls \<longleftrightarrow>
     (\<forall>js. ls_items ls URL_STORAGE_KEY = Some (StoredDownloads js) \<longrightarrow> url_jobs_ok ids js)"

definition urls_seen_ok :: "url_store \<Rightarrow> bool" where
  "urls_seen_ok s \<longleftrightarrow> (\<forall>l \<in> set (ds_listeners s). ds_seen s l = Some (ds_jobs s))"

text \<open>The job the runner works on.\<close>

definition current_job :: "url_store \<Rightarrow> string option" where
  "current_job s = (case ds_pc s of
     DIdle \<Rightarrow> None | DSubmit job \<Rightarrow> Some (dj_id job) | DPause job \<Rightarrow> Some (dj_id job)
   | DWait w \<Rightarrow> Some (w_job (ds_waiters s ! w)))"

text \<open>
  The runner: it is polling exactly when it is not at rest; it never pauses in
  \<open>pollUntilIdle\<close>; a downloading job with an entry is the job it works on; the job it
  submits has no entry yet; the job it works on, and the jobs of the waiters, are neither
  waiting to be checked nor queued.
\<close>

definition job_fits :: "url_store \<Rightarrow> url_job \<Rightarrow> bool" where
  "job_fits s j \<longleftrightarrow>
     (dj_status j = DDownloading \<and> truthy (dj_entryId j) \<longrightarrow> current_job s = Some (dj_id j)) \<and>
     (\<forall>job. ds_pc s = DSubmit job \<and> dj_id j = dj_id job \<longrightarrow>
        dj_status j = DDownloading \<and> dj_entryId j = None) \<and>
     (dj_status j = DChecking \<or> dj_status j = DQueued \<longrightarrow>
        dj_id j \<notin> w_job ` set (ds_waiters s) \<and> current_job s \<noteq> Some (dj_id j))"

definition pc_ok :: "waiter list \<Rightarrow> url_pc \<Rightarrow> bool" where
  "pc_ok ws pc \<longleftrightarrow> (case pc of
     DPause _ \<Rightarrow> False
   | DWait w \<Rightarrow> w < length ws
   | DSubmit job \<Rightarrow> dj_id job \<notin> w_job ` set ws
   | DIdle \<Rightarrow> True)"

definition runner_ok :: "url_store \<Rightarrow> bool" where
  "runner_ok s \<longleftrightarrow> (ds_polling s \<longleftrightarrow> ds_pc s \<noteq> DIdle) \<and> \<not> ds_inPollLoop s \<and>
     pc_ok (ds_waiters s) (ds_pc s) \<and>
     (\<forall>(w, ph) \<in> set (ds_polls s). w < length (ds_waiters s)) \<and>
     (\<forall>j \<in> set (ds_jobs s). job_fits s j)"

definition runner_ids_ok :: "string set \<Rightarrow> url_store \<Rightarrow> bool" where
  "runner_ids_ok ids s \<longleftrightarrow> w_job ` set (ds_waiters s) \<subseteq> ids \<and>
     (case ds_pc s of DSubmit job \<Rightarrow> dj_id job \<in> ids | _ \<Rightarrow> True)"

definition urls_data_ok :: "(nat \<Rightarrow> string) \<Rightarrow> url_store \<Rightarrow> bool" where
  "urls_data_ok uuid s \<longleftrightarrow>
     url_jobs_ok (drawn_urls uuid s) (ds_jobs s) \<and> stored_urls_ok (drawn_urls uuid s) (ds_ls s) \<and>
     urls_seen_ok s"

definition url_inv :: "(nat \<Rightarrow> string) \<Rightarrow> url_store \<Rightarrow> bool" where
  "url_inv uuid s \<longleftrightarrow>
     urls_data_ok uuid s \<and> runner_ok s \<and> runner_ids_ok (drawn_urls uuid s) s"

lemmas url_inv_defs = url_inv_def urls_data_ok_def runner_ok_def runner_ids_ok_def

subsection \<open>The job list and the storage\<close>

lemma url_progress_ok_simps [simp]:
  "url_progress_ok (Fin a) \<longleftrightarrow> a = - 1 \<or> (0 \<le> a \<and> a \<le> 100)"
  by (simp add: url_progress_ok_def)

lemma url_progress_ok_json [simp]: "url_progress_ok x \<Longrightarrow> json_num x = x"
  by (cases x) (simp_all add: url_progress_ok_def)

lemma json_url_job_id [simp]: "url_job_ok j \<Longrightarrow> json_url_job j = j"
  by (simp add: json_url_job_def url_job_ok_def)

lemma url_jobs_ok_Nil [simp]: "url_jobs_ok ids []"
  by (simp add: url_jobs_ok_def)

lemma url_jobs_ok_mono: "url_jobs_ok ids js \<Longrightarrow> ids \<subseteq> ids' \<Longrightarrow> url_jobs_ok ids' js"
  by (auto simp: url_jobs_ok_def)

lemma url_jobs_ok_filter: "url_jobs_ok ids js \<Longrightarrow> url_jobs_ok ids (filter p js)"
  by (auto simp: url_jobs_ok_def distinct_map_filter)

lemma url_jobs_ok_map:
  assumes "url_jobs_ok ids js"
    and "\<And>j. dj_id (f j) = dj_id j" and "\<And>j. dj_url (f j) = dj_url j"
    and "\<And>j. j \<in> set js \<Longrightarrow> url_job_ok j \<Longrightarrow> url_job_ok (f j)"
  shows "url_jobs_ok ids (map f js)"
  using assms by (auto simp: url_jobs_ok_def comp_def)

lemma url_jobs_ok_update:
  assumes "url_jobs_ok ids js"
    and "\<And>j. dj_id (f j) = dj_id j" and "\<And>j. dj_url (f j) = dj_url j"
    and "\<And>j. j \<in> set js \<Longrightarrow> url_job_ok j \<Longrightarrow> dj_id j = i \<Longrightarrow> url_job_ok (f j)"
  shows "url_jobs_ok ids (update_where (\<lambda>j. dj_id j = i) f js)"
  unfolding update_where_def by (rule url_jobs_ok_map) (use assms in auto)

lemma url_jobs_json [simp]: "url_jobs_ok ids js \<Longrightarrow> map json_url_job js = js"
  by (rule map_idI) (auto simp: url_jobs_ok_def)

lemma recheck_sel [simp]:
  "dj_id (recheck j) = dj_id j" "dj_url (recheck j) = dj_url j"
  "dj_status (recheck j) \<noteq> DQueued" "dj_status (recheck j) \<noteq> DDownloading"
  "dj_entryId (recheck j) = dj_entryId j"
  by (simp_all add: recheck_def)

lemma url_job_ok_recheck: "url_job_ok j \<Longrightarrow> url_job_ok (recheck j)"
  by (auto simp: url_job_ok_def recheck_def)

lemma drawn_urls_set [store_simps]: "drawn_urls uuid (set_url_jobs js s) = drawn_urls uuid s"
  by (simp add: drawn_urls_def store_simps)

lemma stored_urls_ok_written:
  "stored_urls_ok ids ls \<Longrightarrow> url_jobs_ok ids js \<Longrightarrow>
   stored_urls_ok ids (try_ignore (set_item URL_STORAGE_KEY (StoredDownloads js)) ls)"
  by (auto simp: stored_urls_ok_def try_ignore_def set_item_def split: sum.splits if_splits)

lemma data_set_url_jobs:
  "urls_data_ok uuid s \<Longrightarrow> url_jobs_ok (drawn_urls uuid s) js \<Longrightarrow> urls_data_ok uuid (set_url_jobs js s)"
  by (simp add: urls_data_ok_def store_simps stored_urls_ok_written urls_seen_ok_def)

lemma data_update_url:
  assumes "urls_data_ok uuid s"
    and "\<And>j. dj_id (f j) = dj_id j" and "\<And>j. dj_url (f j) = dj_url j"
    and "\<And>j. j \<in> set (ds_jobs s) \<Longrightarrow> url_job_ok j \<Longrightarrow> dj_id j = i \<Longrightarrow> url_job_ok (f j)"
  shows "urls_data_ok uuid (update_url i f s)"
  unfolding update_url_def
  by (intro data_set_url_jobs url_jobs_ok_update) (use assms in \<open>auto simp: urls_data_ok_def\<close>)

lemma data_frame:
  assumes "urls_data_ok uuid s" and "ds_jobs t = ds_jobs s" and "ds_nextUuid t = ds_nextUuid s"
    and "ds_ls t = ds_ls s" and "ds_listeners t = ds_listeners s" and "ds_seen t = ds_seen s"
  shows "urls_data_ok uuid t"
  using assms by (simp add: urls_data_ok_def drawn_urls_def urls_seen_ok_def)

lemma url_jobs_ok_load:
  assumes "stored_urls_ok ids ls"
  shows "url_jobs_ok ids (load_urls True now ls)"
proof (cases "get_item ls URL_STORAGE_KEY")
  case (Inl e)
  then show ?thesis by (simp add: load_urls_def)
next
  case (Inr r)
  have "url_jobs_ok ids (map recheck js)" if "r = Some (StoredDownloads js)" for js
  proof (rule url_jobs_ok_map)
    from that Inr have "ls_items ls URL_STORAGE_KEY = Some (StoredDownloads js)"
      by (auto simp: get_item_def split: if_splits)
    with assms show "url_jobs_ok ids js" by (auto simp: stored_urls_ok_def)
  qed (simp_all add: url_job_ok_recheck)
  with Inr show ?thesis
    by (auto simp: load_urls_def intro: url_jobs_ok_filter split: option.splits url_stored.splits)
qed

subsection \<open>The runner\<close>

lemma job_fits_cong:
  "ds_pc t = ds_pc s \<Longrightarrow> ds_waiters t = ds_waiters s \<Longrightarrow> job_fits t = job_fits s"
  by (intro ext) (simp only: job_fits_def current_job_def)

lemma runner_frame:
  assumes "runner_ok s" and "set (ds_jobs t) \<subseteq> set (ds_jobs s)"
    and "ds_pc t = ds_pc s" and "ds_waiters t = ds_waiters s" and "ds_polling t = ds_polling s"
    and "ds_inPollLoop t = ds_inPollLoop s" and "set (ds_polls t) \<subseteq> set (ds_polls s)"
  shows "runner_ok t"
  using assms job_fits_cong [of t s] by (auto simp: runner_ok_def)

lemma ids_frame:
  assumes "runner_ids_ok ids s" and "ids \<subseteq> ids'" and "ds_pc t = ds_pc s" and "ds_waiters t = ds_waiters s"
  shows "runner_ids_ok ids' t"
  using assms by (auto simp: runner_ids_ok_def split: url_pc.splits)

text \<open>A patch that keeps the runner in step with the list.\<close>

lemma runner_update_url:
  assumes "runner_ok s"
    and "\<And>j. j \<in> set (ds_jobs s) \<Longrightarrow> dj_id j = i \<Longrightarrow> job_fits s j \<Longrightarrow> job_fits s (f j)"
  shows "runner_ok (update_url i f s)"
proof -
  have "job_fits (update_url i f s) = job_fits s"
    by (rule job_fits_cong) (simp_all add: store_simps)
  with assms show ?thesis
    by (auto simp: runner_ok_def store_simps set_update_where split: if_splits)
qed

lemma ids_update_url:
  "runner_ids_ok ids s \<Longrightarrow> runner_ids_ok ids (update_url i f s)"
  by (rule ids_frame [where ids = ids]) (simp_all add: store_simps)

lemma drawn_update_url [store_simps]: "drawn_urls uuid (update_url i f s) = drawn_urls uuid s"
  by (simp add: drawn_urls_def store_simps)

lemma inv_update_url:
  assumes "url_inv uuid s"
    and "\<And>j. dj_id (f j) = dj_id j" and "\<And>j. dj_url (f j) = dj_url j"
    and "\<And>j. j \<in> set (ds_jobs s) \<Longrightarrow> dj_id j = i \<Longrightarrow> url_job_ok j \<Longrightarrow> url_job_ok (f j)"
    and "\<And>j. j \<in> set (ds_jobs s) \<Longrightarrow> dj_id j = i \<Longrightarrow> job_fits s j \<Longrightarrow> job_fits s (f j)"
  shows "url_inv uuid (update_url i f s)"
  using assms
  by (simp add: url_inv_def data_update_url runner_update_url ids_update_url store_simps)

lemma inv_edit_url: "url_inv uuid s \<Longrightarrow> url_inv uuid (update_url i (apply_url_edit ed) s)"
  by (rule inv_update_url) (cases ed; simp add: url_job_ok_def job_fits_def)+

lemma inv_set_fewer:
  assumes "url_inv uuid s" and "url_jobs_ok (drawn_urls uuid s) js" and "set js \<subseteq> set (ds_jobs s)"
  shows "url_inv uuid (set_url_jobs js s)"
  using assms runner_frame [of s "set_url_jobs js s"]
    ids_frame [of "drawn_urls uuid s" s "drawn_urls uuid s" "set_url_jobs js s"]
  by (simp add: url_inv_def data_set_url_jobs store_simps)

lemma inv_remove_url: "url_inv uuid s \<Longrightarrow> url_inv uuid (removeUrlDownload i s)"
  unfolding removeUrlDownload_def
  by (rule inv_set_fewer) (auto simp: url_inv_defs url_jobs_ok_filter)

lemma inv_empty_urls: "url_inv uuid s \<Longrightarrow> url_inv uuid (set_url_jobs [] s)"
  by (rule inv_set_fewer) auto

text \<open>
  A turn of the runner starts in a state in which the job it worked on has been dealt with.
\<close>

definition between_downloads :: "url_store \<Rightarrow> bool" where
  "between_downloads s \<longleftrightarrow> ds_polling s \<and>
     (\<forall>(w, ph) \<in> set (ds_polls s). w < length (ds_waiters s)) \<and>
     (\<forall>j \<in> set (ds_jobs s).
        \<not> (dj_status j = DDownloading \<and> truthy (dj_entryId j)) \<and>
        (dj_status j = DChecking \<or> dj_status j = DQueued \<longrightarrow> dj_id j \<notin> w_job ` set (ds_waiters s)))"

lemma mark_sel [store_simps]:
  "ds_jobs (markUrlDownloadsCompleted now s) = ds_jobs s"
  "ds_waiters (markUrlDownloadsCompleted now s) = ds_waiters s"
  "ds_polls (markUrlDownloadsCompleted now s) = ds_polls s"
  "ds_polling (markUrlDownloadsCompleted now s) = ds_polling s"
  "ds_pc (markUrlDownloadsCompleted now s) = ds_pc s"
  "ds_inPollLoop (markUrlDownloadsCompleted now s) = ds_inPollLoop s"
  "ds_nextUuid (markUrlDownloadsCompleted now s) = ds_nextUuid s"
  "ds_listeners (markUrlDownloadsCompleted now s) = ds_listeners s"
  "ds_seen (markUrlDownloadsCompleted now s) = ds_seen s"
  by (simp_all add: markUrlDownloadsCompleted_def)

lemma stored_completed:
  "stored_urls_ok ids ls \<Longrightarrow> stored_urls_ok ids (try_ignore (set_item URL_COMPLETED_KEY v) ls)"
  "stored_urls_ok ids ls \<Longrightarrow> stored_urls_ok ids (try_ignore (remove_item URL_COMPLETED_KEY) ls)"
  by (auto simp: stored_urls_ok_def try_ignore_def set_item_def remove_item_def
      split: sum.splits if_splits)

lemma data_mark: "urls_data_ok uuid s \<Longrightarrow> urls_data_ok uuid (markUrlDownloadsCompleted now s)"
  by (simp add: urls_data_ok_def drawn_urls_def urls_seen_ok_def markUrlDownloadsCompleted_def
      stored_completed)

lemma finish_downloads_sel [store_simps]:
  "ds_jobs (finish_downloads now s) = ds_jobs s"
  "ds_waiters (finish_downloads now s) = ds_waiters s"
  "ds_polls (finish_downloads now s) = ds_polls s"
  "ds_pc (finish_downloads now s) = DIdle"
  "ds_polling (finish_downloads now s) = False"
  "ds_inPollLoop (finish_downloads now s) = False"
  "ds_nextUuid (finish_downloads now s) = ds_nextUuid s"
  by (simp_all add: finish_downloads_def Let_def store_simps)

lemma data_finish: "urls_data_ok uuid s \<Longrightarrow> urls_data_ok uuid (finish_downloads now s)"
  using data_mark [of uuid s now]
  by (auto simp: finish_downloads_def Let_def intro: data_frame)

lemma job_fits_pc:
  "ds_pc s = DIdle \<Longrightarrow> job_fits s j \<longleftrightarrow> \<not> (dj_status j = DDownloading \<and> truthy (dj_entryId j)) \<and>
     (dj_status j = DChecking \<or> dj_status j = DQueued \<longrightarrow> dj_id j \<notin> w_job ` set (ds_waiters s))"
  "ds_pc s = DSubmit job \<Longrightarrow> job_fits s j \<longleftrightarrow>
     (if dj_id j = dj_id job then dj_status j = DDownloading \<and> dj_entryId j = None
      else \<not> (dj_status j = DDownloading \<and> truthy (dj_entryId j)) \<and>
        (dj_status j = DChecking \<or> dj_status j = DQueued \<longrightarrow> dj_id j \<notin> w_job ` set (ds_waiters s)))"
  "ds_pc s = DWait w \<Longrightarrow> job_fits s j \<longleftrightarrow>
     (if dj_id j = w_job (ds_waiters s ! w) then dj_status j \<noteq> DChecking \<and> dj_status j \<noteq> DQueued
      else \<not> (dj_status j = DDownloading \<and> truthy (dj_entryId j)) \<and>
        (dj_status j = DChecking \<or> dj_status j = DQueued \<longrightarrow> dj_id j \<notin> w_job ` set (ds_waiters s)))"
  by (auto simp: job_fits_def current_job_def truthy_def)

lemma data_of_inv: "url_inv uuid s \<Longrightarrow> urls_data_ok uuid s"
  by (simp add: url_inv_def)

lemma inv_finish:
  assumes "urls_data_ok uuid s" and "between_downloads s" and "w_job ` set (ds_waiters s) \<subseteq> drawn_urls uuid s"
  shows "url_inv uuid (finish_downloads now s)"
  using assms
  by (auto simp: url_inv_def data_finish runner_ok_def runner_ids_ok_def store_simps pc_ok_def
      between_downloads_def job_fits_def current_job_def drawn_urls_def)

lemma inv_poll_turn:
  assumes "urls_data_ok uuid s" and "between_downloads s" and "w_job ` set (ds_waiters s) \<subseteq> drawn_urls uuid s"
  shows "url_inv uuid (poll_turn now s)"
proof -
  from assms(2) have "find (\<lambda>j. dj_status j = DDownloading \<and> truthy (dj_entryId j)) (ds_jobs s) = None"
    by (auto simp: find_None_iff between_downloads_def)
  with assms show ?thesis by (simp add: poll_turn_def inv_finish)
qed

lemma inv_download_turn:
  assumes d: "urls_data_ok uuid s" and b: "between_downloads s"
    and w: "w_job ` set (ds_waiters s) \<subseteq> drawn_urls uuid s"
  shows "url_inv uuid (download_turn now s)"
proof (cases "find (\<lambda>j. dj_status j = DQueued) (ds_jobs s)")
  case None
  with assms show ?thesis by (simp add: download_turn_def inv_poll_turn)
next
  case (Some job)
  then have job: "job \<in> set (ds_jobs s)" "dj_status job = DQueued"
    by (auto simp: find_Some_iff)
  let ?f = "\<lambda>j. j\<lparr>dj_status := DDownloading, dj_progress := Fin (- 1), dj_error := None\<rparr>"
  let ?t = "(update_url (dj_id job) ?f s)\<lparr>ds_pc := DSubmit job, ds_inPollLoop := False\<rparr>"
  have eq: "download_turn now s = ?t" using Some by (simp add: download_turn_def)
  have uniq: "j = job" if "j \<in> set (ds_jobs s)" "dj_id j = dj_id job" for j
    using d job that by (auto simp: urls_data_ok_def url_jobs_ok_def intro: distinct_key_unique)
  have entry: "dj_entryId job = None"
    using d job by (auto simp: urls_data_ok_def url_jobs_ok_def url_job_ok_def)
  have "urls_data_ok uuid (update_url (dj_id job) ?f s)"
    by (rule data_update_url [OF d]) (auto simp: url_job_ok_def dest: uniq)
  then have "urls_data_ok uuid ?t" by (rule data_frame) simp_all
  moreover have "job_fits ?t j" if "j \<in> set (ds_jobs ?t)" for j
  proof -
    from that obtain x where x: "x \<in> set (ds_jobs s)" "j = (if dj_id x = dj_id job then ?f x else x)"
      by (auto simp: store_simps set_update_where)
    have pc: "ds_pc ?t = DSubmit job" by simp
    from b x(1) have nx: "\<not> (dj_status x = DDownloading \<and> truthy (dj_entryId x))"
      "dj_status x = DChecking \<or> dj_status x = DQueued \<longrightarrow> dj_id x \<notin> w_job ` set (ds_waiters s)"
      by (simp_all add: between_downloads_def)
    show ?thesis
    proof (cases "dj_id x = dj_id job")
      case True
      with uniq [OF x(1)] x(2) entry show ?thesis by (simp add: job_fits_pc(2) [OF pc])
    next
      case False
      with x(2) nx show ?thesis by (simp add: job_fits_pc(2) [OF pc] store_simps)
    qed
  qed
  then have "runner_ok ?t"
    using b job
    by (auto simp: runner_ok_def store_simps pc_ok_def between_downloads_def)
  moreover have "dj_id job \<in> drawn_urls uuid s"
    using d job by (auto simp: urls_data_ok_def url_jobs_ok_def)
  then have "runner_ids_ok (drawn_urls uuid ?t) ?t"
    using w by (simp add: runner_ids_ok_def store_simps drawn_urls_def)
  ultimately show ?thesis unfolding eq by (simp add: url_inv_def)
qed

lemma between_start:
  assumes "url_inv uuid s" and "\<not> ds_polling s"
  shows "between_downloads (s\<lparr>ds_polling := True\<rparr>)"
  using assms by (auto simp: url_inv_def runner_ok_def between_downloads_def job_fits_def current_job_def)

lemma inv_startDownloads:
  assumes "url_inv uuid s"
  shows "url_inv uuid (startDownloads now s)"
proof (cases "ds_polling s")
  case True
  with assms show ?thesis by (simp add: startDownloads_def)
next
  case False
  with assms have pc: "ds_pc s = DIdle" by (simp add: url_inv_defs)
  have "urls_data_ok uuid (s\<lparr>ds_polling := True\<rparr>)"
    using assms by (auto simp: url_inv_def intro: data_frame)
  moreover have "between_downloads (s\<lparr>ds_polling := True\<rparr>)"
    using assms False by (rule between_start)
  moreover have "w_job ` set (ds_waiters s) \<subseteq> drawn_urls uuid s"
    using assms by (simp add: url_inv_def runner_ids_ok_def)
  ultimately show ?thesis
    using False by (simp add: startDownloads_def inv_download_turn drawn_urls_def)
qed

text \<open>The answer to a submission.\<close>

lemma inv_waitForEntry:
  assumes "url_inv uuid s" and pc: "ds_pc s = DSubmit job"
  shows "url_inv uuid (waitForEntry e (dj_id job)
           (send_patch job e (update_url (dj_id job) (\<lambda>j. j\<lparr>dj_entryId := e\<rparr>) s)))"
proof -
  let ?u = "update_url (dj_id job) (\<lambda>j. j\<lparr>dj_entryId := e\<rparr>) s"
  let ?t = "waitForEntry e (dj_id job) (send_patch job e ?u)"
  have sp: "ds_jobs ?t = ds_jobs ?u" "ds_nextUuid ?t = ds_nextUuid ?u" "ds_ls ?t = ds_ls ?u"
    "ds_listeners ?t = ds_listeners ?u" "ds_seen ?t = ds_seen ?u" "ds_polling ?t = ds_polling s"
    "ds_inPollLoop ?t = ds_inPollLoop s" "ds_polls ?t = ds_polls s"
    "ds_waiters ?t = ds_waiters s @ [\<lparr>w_publicId = e, w_job = dj_id job, w_timer = True\<rparr>]"
    "ds_pc ?t = DWait (length (ds_waiters s))"
    by (simp_all add: waitForEntry_def send_patch_def store_simps)
  have fits: "\<forall>j \<in> set (ds_jobs s). job_fits s j" using assms by (simp add: url_inv_defs)
  have "urls_data_ok uuid ?u"
    by (rule data_update_url [OF data_of_inv [OF assms(1)]])
      (use fits pc in \<open>auto simp: url_job_ok_def job_fits_def\<close>)
  then have "urls_data_ok uuid ?t" by (rule data_frame) (simp_all add: sp)
  moreover have "job_fits ?t j" if "j \<in> set (ds_jobs ?t)" for j
  proof -
    from that obtain x where x: "x \<in> set (ds_jobs s)"
        "j = (if dj_id x = dj_id job then x\<lparr>dj_entryId := e\<rparr> else x)"
      by (auto simp: sp store_simps set_update_where)
    from fits x(1) have "job_fits s x" by blast
    with x(2) show ?thesis
      by (cases "dj_id x = dj_id job")
        (simp_all add: job_fits_pc(2) [OF pc] job_fits_pc(3) [OF sp(10)] sp(9))
  qed
  then have "runner_ok ?t"
    using assms(1) pc by (fastforce simp: url_inv_def runner_ok_def sp pc_ok_def)
  moreover have "runner_ids_ok (drawn_urls uuid ?t) ?t"
    using assms(1) pc by (auto simp: url_inv_def runner_ids_ok_def sp drawn_urls_def store_simps)
  ultimately show ?thesis by (simp add: url_inv_def)
qed

lemma inv_submit_failed:
  assumes "url_inv uuid s" and pc: "ds_pc s = DSubmit job"
  shows "url_inv uuid (download_turn now (update_url (dj_id job)
    (\<lambda>j. j\<lparr>dj_status := DFailed, dj_error := Some m, dj_finishedAt := Some now\<rparr>) s))"
proof (rule inv_download_turn)
  show "urls_data_ok uuid (update_url (dj_id job)
    (\<lambda>j. j\<lparr>dj_status := DFailed, dj_error := Some m, dj_finishedAt := Some now\<rparr>) s)"
    by (rule data_update_url [OF data_of_inv [OF assms(1)]]) (auto simp: url_job_ok_def)
next
  show "between_downloads (update_url (dj_id job)
    (\<lambda>j. j\<lparr>dj_status := DFailed, dj_error := Some m, dj_finishedAt := Some now\<rparr>) s)"
    using assms
    by (auto simp: url_inv_def runner_ok_def between_downloads_def store_simps set_update_where
        job_fits_def current_job_def)
next
  show "w_job ` set (ds_waiters (update_url (dj_id job)
    (\<lambda>j. j\<lparr>dj_status := DFailed, dj_error := Some m, dj_finishedAt := Some now\<rparr>) s))
    \<subseteq> drawn_urls uuid (update_url (dj_id job)
    (\<lambda>j. j\<lparr>dj_status := DFailed, dj_error := Some m, dj_finishedAt := Some now\<rparr>) s)"
    using assms by (simp add: url_inv_def runner_ids_ok_def store_simps)
qed

lemma inv_submit_answer:
  assumes "url_inv uuid s" and pc: "ds_pc s = DSubmit job"
  shows "url_inv uuid (submit_answer now answer job s)"
proof (cases answer)
  case None
  let ?t = "s\<lparr>ds_polling := False, ds_pc := DIdle\<rparr>"
  have fits: "job_fits ?t j" if "job_fits s j" for j
  proof -
    have idle: "ds_pc ?t = DIdle" by simp
    from that show ?thesis
      by (cases "dj_id j = dj_id job")
        (simp_all add: job_fits_pc(2) [OF pc] job_fits_pc(1) [OF idle] truthy_def)
  qed
  have "runner_ok ?t"
    using assms fits by (simp add: url_inv_def runner_ok_def pc_ok_def)
  with assms None show ?thesis
    by (auto simp: submit_answer_def url_inv_def runner_ids_ok_def drawn_urls_def intro: data_frame)
next
  case (Some rs)
  then show ?thesis
    using inv_submit_failed [OF assms] inv_waitForEntry [OF assms]
    by (auto simp: submit_answer_def split: list.splits)
qed

text \<open>The polling of an entry.\<close>

lemma inv_frame_polls:
  assumes "url_inv uuid s" and "\<forall>(w, ph) \<in> set ps. w < length (ds_waiters s)"
  shows "url_inv uuid (s\<lparr>ds_polls := ps\<rparr>)"
  using assms job_fits_cong [of "s\<lparr>ds_polls := ps\<rparr>" s]
  by (auto simp: url_inv_def runner_ok_def runner_ids_ok_def drawn_urls_def intro: data_frame)

lemma inv_polls_bound: "url_inv uuid s \<Longrightarrow> \<forall>(w, ph) \<in> set (ds_polls s). w < length (ds_waiters s)"
  by (simp add: url_inv_def runner_ok_def)

lemma inv_drop_poll: "url_inv uuid s \<Longrightarrow> url_inv uuid (s\<lparr>ds_polls := remove1 p (ds_polls s)\<rparr>)"
  using inv_polls_bound [of uuid s] set_remove1_subset [of p "ds_polls s"]
  by (intro inv_frame_polls) auto

lemma inv_tick: "url_inv uuid s \<Longrightarrow> w < length (ds_waiters s) \<Longrightarrow> url_inv uuid (tick w s)"
  using inv_polls_bound [of uuid s] inv_frame_polls [of uuid s "ds_polls s @ [(w, AskList)]"]
  by (simp add: tick_def)

lemma waiter_jobs_clear_timer [simp]:
  "w < length (ds_waiters s) \<Longrightarrow>
   map w_job (ds_waiters (clear_timer w s)) = map w_job (ds_waiters s)"
  by (rule nth_equalityI) (simp_all add: clear_timer_def nth_list_update)

lemma clear_timer_sel [store_simps]:
  "ds_jobs (clear_timer w s) = ds_jobs s" "ds_pc (clear_timer w s) = ds_pc s"
  "ds_polling (clear_timer w s) = ds_polling s" "ds_inPollLoop (clear_timer w s) = ds_inPollLoop s"
  "ds_polls (clear_timer w s) = ds_polls s" "ds_nextUuid (clear_timer w s) = ds_nextUuid s"
  "length (ds_waiters (clear_timer w s)) = length (ds_waiters s)"
  by (simp_all add: clear_timer_def)

lemma inv_clear_timer:
  assumes "url_inv uuid s" and w: "w < length (ds_waiters s)"
  shows "url_inv uuid (clear_timer w s)"
proof -
  let ?t = "clear_timer w s"
  have nth: "w_job (ds_waiters ?t ! k) = w_job (ds_waiters s ! k)" if "k < length (ds_waiters s)" for k
    using that w by (simp add: clear_timer_def nth_list_update)
  have ids: "w_job ` set (ds_waiters ?t) = w_job ` set (ds_waiters s)"
    using waiter_jobs_clear_timer [OF w] by (metis list.set_map)
  have pc: "pc_ok (ds_waiters s) (ds_pc s)" using assms by (simp add: url_inv_def runner_ok_def)
  then have "current_job ?t = current_job s"
    by (auto simp: current_job_def pc_ok_def store_simps nth split: url_pc.splits)
  then have fits: "job_fits ?t = job_fits s"
    by (intro ext) (simp only: job_fits_def ids store_simps)
  have "pc_ok (ds_waiters ?t) (ds_pc s)"
    using pc by (auto simp: pc_ok_def ids store_simps split: url_pc.splits)
  moreover have "urls_data_ok uuid ?t"
    using assms(1) by (auto simp: url_inv_def clear_timer_def intro: data_frame)
  ultimately show ?thesis
    using assms(1) by (simp add: url_inv_def runner_ok_def runner_ids_ok_def fits ids store_simps drawn_urls_def)
qed

lemma percent_99:
  assumes "0 < m"
  shows "url_progress_ok (jmin (Fin 99) (percent n m))"
proof -
  obtain p where "percent n m = num_of_int p" "0 \<le> p"
    by (rule percent_nonneg [OF assms])
  then show ?thesis by (simp add: jmin_def jnum_defs min_def)
qed

lemma inv_list_answer:
  assumes "url_inv uuid s" and "(w, AskList) \<in> set (ds_polls s)"
  shows "url_inv uuid (list_answer w answer s)"
proof -
  let ?s = "s\<lparr>ds_polls := remove1 (w, AskList) (ds_polls s)\<rparr>"
  have inv: "url_inv uuid ?s" using assms(1) by (rule inv_drop_poll)
  have w: "w < length (ds_waiters ?s)" using inv_polls_bound [OF assms(1)] assms(2) by auto
  have upd: "url_inv uuid (update_url i (\<lambda>j. j\<lparr>dj_progress := jmin (Fin 99) (percent n m)\<rparr>) ?s)"
    if "0 < m" for i n m
    by (rule inv_update_url [OF inv]) (use percent_99 [OF that] in \<open>auto simp: url_job_ok_def job_fits_def\<close>)
  have "url_inv uuid ((clear_timer w ?s)\<lparr>ds_polls := ds_polls ?s @ [(w, AskEntry)]\<rparr>)"
    using inv_polls_bound [OF inv] w
    by (intro inv_frame_polls inv_clear_timer [OF inv]) (auto simp: store_simps)
  with inv upd show ?thesis
    by (simp add: list_answer_def Let_def split: option.split)
qed

lemma between_after_wait:
  assumes "url_inv uuid s" and pc: "ds_pc s = DWait w"
    and f: "\<And>j. dj_id (f j) = dj_id j" "\<And>j. dj_status (f j) \<in> {DDone, DFailed}"
  shows "between_downloads (update_url (w_job (ds_waiters s ! w)) f s)"
proof -
  have fits: "\<forall>j \<in> set (ds_jobs s). job_fits s j" "ds_polling s"
    "\<forall>(w, ph) \<in> set (ds_polls s). w < length (ds_waiters s)"
    using assms(1) pc by (simp_all add: url_inv_def runner_ok_def)
  have "\<not> (dj_status (f j) = DDownloading)" "dj_status (f j) \<noteq> DChecking" "dj_status (f j) \<noteq> DQueued" for j
    using f(2) [of j] by auto
  with fits show ?thesis
    by (auto simp: between_downloads_def store_simps set_update_where job_fits_pc(3) [OF pc]
        split: if_splits)
qed

lemma inv_entry_update:
  assumes inv: "url_inv uuid s" and w: "w < length (ds_waiters s)"
    and f: "\<And>j. dj_id (f j) = dj_id j" "\<And>j. dj_url (f j) = dj_url j"
      "\<And>j. dj_status (f j) \<in> {DDone, DFailed}" "\<And>j. url_job_ok (f j)"
  shows "url_inv uuid (resolve_waiter now w (update_url (w_job (ds_waiters s ! w)) f s))"
proof (cases "ds_pc s = DWait w")
  case True
  let ?u = "update_url (w_job (ds_waiters s ! w)) f s"
  have "urls_data_ok uuid ?u"
    by (rule data_update_url [OF data_of_inv [OF inv]]) (simp_all add: f)
  moreover have "between_downloads ?u" by (rule between_after_wait [OF inv True]) (use f in auto)
  moreover have "w_job ` set (ds_waiters ?u) \<subseteq> drawn_urls uuid ?u"
    using inv by (simp add: url_inv_def runner_ids_ok_def store_simps)
  ultimately show ?thesis
    using True by (simp add: resolve_waiter_def inv_poll_turn inv_download_turn store_simps)
next
  case False
  have waited: "w_job (ds_waiters s ! w) \<in> w_job ` set (ds_waiters s)" using w by simp
  have other: "ds_pc s = DSubmit job \<Longrightarrow> dj_id job \<noteq> w_job (ds_waiters s ! w)" for job
    using inv waited by (auto simp: url_inv_def runner_ok_def pc_ok_def)
  have st: "dj_status (f j) \<noteq> DDownloading" "dj_status (f j) \<noteq> DChecking" "dj_status (f j) \<noteq> DQueued" for j
    using f(3) [of j] by auto
  have "url_inv uuid (update_url (w_job (ds_waiters s ! w)) f s)"
    by (rule inv_update_url [OF inv]) (use f(1,2,4) st other in \<open>auto simp: job_fits_def\<close>)
  with False show ?thesis by (simp add: resolve_waiter_def store_simps)
qed

lemma inv_entry_answer:
  assumes "url_inv uuid s" and "(w, AskEntry) \<in> set (ds_polls s)"
  shows "url_inv uuid (entry_answer now w answer s)"
proof (cases answer)
  case None
  with assms show ?thesis by (simp add: entry_answer_def inv_drop_poll)
next
  case (Some entry)
  let ?s = "s\<lparr>ds_polls := remove1 (w, AskEntry) (ds_polls s)\<rparr>"
  have w: "w < length (ds_waiters ?s)" using inv_polls_bound [OF assms(1)] assms(2) by auto
  show ?thesis
    using inv_entry_update [OF inv_drop_poll [OF assms(1)] w, where now = now]
    by (simp add: entry_answer_def Let_def Some url_job_ok_def)
qed

text \<open>The answers of \<open>checkUrls\<close>: what the loop adds.\<close>

lemma new_url_job_sel [simp]:
  "dj_id (new_url_job i r) = i" "dj_url (new_url_job i r) = cr_url r"
  "dj_status (new_url_job i r) = DQueued" "dj_entryId (new_url_job i r) = None"
  "dj_progress (new_url_job i r) = Fin 0" "dj_finishedAt (new_url_job i r) = None"
  by (simp_all add: new_url_job_def Let_def)

definition added_by :: "(nat \<Rightarrow> string) \<Rightarrow> url_store \<Rightarrow> url_store \<Rightarrow> url_job list \<Rightarrow> bool" where
  "added_by uuid s t news \<longleftrightarrow>
     t = s\<lparr>ds_jobs := ds_jobs s @ news, ds_nextUuid := ds_nextUuid s + length news\<rparr> \<and>
     map dj_id news = map (\<lambda>k. uuid (ds_nextUuid s + k)) [0..<length news] \<and>
     (\<forall>j \<in> set news. \<exists>i r. j = new_url_job i r)"

text \<open>
  The state of the loop against the store it started from: the set holds the URLs of the
  list, which stay distinct, and the counters count.
\<close>

definition checking_inv ::
  "(nat \<Rightarrow> string) \<Rightarrow> url_store \<Rightarrow> check_result list \<Rightarrow> url_store \<times> string list \<times> nat \<times> nat \<Rightarrow> bool" where
  "checking_inv uuid s rs c \<longleftrightarrow> (case c of (t, existing, added, failed) \<Rightarrow>
     (\<exists>news. added_by uuid s t news \<and> added = length news \<and>
        set existing = dj_url ` set (ds_jobs t) \<and>
        distinct (map dj_url news) \<and>
        dj_url ` set news = cr_url ` {r \<in> set rs. cr_ok r} - dj_url ` set (ds_jobs s)) \<and>
     failed = length (filter (\<lambda>r. \<not> cr_ok r) rs))"

lemma checking_start: "checking_inv uuid s [] (s, map dj_url (ds_jobs s), 0, 0)"
  by (simp add: checking_inv_def added_by_def exI [of _ "[]"])

lemma checking_step:
  assumes "checking_inv uuid s rs c"
  shows "checking_inv uuid s (rs @ [r]) (add_checked uuid r c)"
proof -
  obtain t existing added failed where c: "c = (t, existing, added, failed)" by (cases c)
  with assms obtain news where n: "added_by uuid s t news" "added = length news"
      "set existing = dj_url ` set (ds_jobs t)" "distinct (map dj_url news)"
      "dj_url ` set news = cr_url ` {r \<in> set rs. cr_ok r} - dj_url ` set (ds_jobs s)"
    and f: "failed = length (filter (\<lambda>r. \<not> cr_ok r) rs)"
    by (auto simp: checking_inv_def)
  have jobs: "ds_jobs t = ds_jobs s @ news" "ds_nextUuid t = ds_nextUuid s + length news"
    using n(1) by (simp_all add: added_by_def)
  consider "\<not> cr_ok r" | "cr_ok r" "cr_url r \<in> set existing" | "cr_ok r" "cr_url r \<notin> set existing"
    by blast
  then show ?thesis
  proof cases
    case 1
    then have "{x \<in> set (rs @ [r]). cr_ok x} = {x \<in> set rs. cr_ok x}" by auto
    with 1 n f c show ?thesis by (simp add: checking_inv_def) blast
  next
    case 2
    then have "cr_url r \<in> dj_url ` set (ds_jobs s) \<or> cr_url r \<in> cr_url ` {x \<in> set rs. cr_ok x}"
      using n(3,5) jobs by auto
    then have "cr_url ` {x \<in> set (rs @ [r]). cr_ok x} - dj_url ` set (ds_jobs s) =
      cr_url ` {x \<in> set rs. cr_ok x} - dj_url ` set (ds_jobs s)" by auto
    with 2 n f c show ?thesis by (simp add: checking_inv_def) blast
  next
    case 3
    let ?j = "new_url_job (uuid (ds_nextUuid t)) r"
    let ?t = "t\<lparr>ds_jobs := ds_jobs t @ [?j], ds_nextUuid := Suc (ds_nextUuid t)\<rparr>"
    have "added_by uuid s ?t (news @ [?j])"
      using n(1) jobs by (auto simp: added_by_def)
    moreover have "cr_url r \<notin> dj_url ` set news" "cr_url r \<notin> dj_url ` set (ds_jobs s)"
      using 3 n(3) jobs by auto
    then have "distinct (map dj_url (news @ [?j]))"
      "dj_url ` set (news @ [?j]) =
        cr_url ` {x \<in> set (rs @ [r]). cr_ok x} - dj_url ` set (ds_jobs s)"
      using n(4,5) 3 by (auto simp: image_iff)
    moreover have "Suc added = length (news @ [?j])"
      "set (cr_url r # existing) = dj_url ` set (ds_jobs ?t)"
      "failed = length (filter (\<lambda>r. \<not> cr_ok r) (rs @ [r]))"
      using n(2,3) f 3 by simp_all
    moreover have cc: "add_checked uuid r c = (?t, cr_url r # existing, Suc added, failed)"
      using 3 c by simp
    ultimately show ?thesis unfolding cc checking_inv_def prod.case by blast
  qed
qed

lemma checking_fold:
  "checking_inv uuid s rs0 c \<Longrightarrow> checking_inv uuid s (rs0 @ rs) (fold (add_checked uuid) rs c)"
proof (induction rs arbitrary: rs0 c)
  case (Cons r rs)
  from Cons.IH [OF checking_step [OF Cons.prems, of r]] show ?case by simp
qed simp

lemma checkUrls_added:
  obtains t news failed where "checkUrls uuid rs s = (persist_urls (emit_urls t), length news, failed)"
    and "added_by uuid s t news" and "distinct (map dj_url news)"
    and "dj_url ` set news = cr_url ` {r \<in> set rs. cr_ok r} - dj_url ` set (ds_jobs s)"
    and "failed = length (filter (\<lambda>r. \<not> cr_ok r) rs)"
proof -
  obtain t existing added failed where
    c: "fold (add_checked uuid) rs (s, map dj_url (ds_jobs s), 0, 0) = (t, existing, added, failed)"
    by (cases "fold (add_checked uuid) rs (s, map dj_url (ds_jobs s), 0, 0)")
  with checking_fold [OF checking_start, of uuid s rs] have
    "checking_inv uuid s rs (t, existing, added, failed)" by simp
  with c that show ?thesis by (auto simp: checking_inv_def checkUrls_def)
qed

lemma inv_persist_emit:
  assumes "urls_data_ok uuid s" and "url_jobs_ok (drawn_urls uuid t) (ds_jobs t)"
    and "ds_ls t = ds_ls s" and "ds_nextUuid s \<le> ds_nextUuid t"
  shows "urls_data_ok uuid (persist_urls (emit_urls t))"
proof -
  have "stored_urls_ok (drawn_urls uuid t) (ds_ls s)"
    using assms(1,4) by (fastforce simp: urls_data_ok_def stored_urls_ok_def drawn_urls_def
        intro: url_jobs_ok_mono)
  moreover have "drawn_urls uuid (persist_urls (emit_urls t)) = drawn_urls uuid t"
    by (simp add: drawn_urls_def store_simps)
  ultimately show ?thesis
    using assms(2,3)
    by (simp add: urls_data_ok_def store_simps stored_urls_ok_written urls_seen_ok_def)
qed

lemma url_jobs_ok_append:
  assumes "url_jobs_ok ids js" and "url_jobs_ok ids' ks" and "ids \<inter> dj_id ` set ks = {}"
    and "dj_url ` set js \<inter> dj_url ` set ks = {}" and "ids \<subseteq> ids'"
  shows "url_jobs_ok ids' (js @ ks)"
proof -
  have "dj_id ` set js \<inter> dj_id ` set ks = {}"
    using assms(1,3) by (simp add: url_jobs_ok_def) blast
  with assms show ?thesis by (auto simp: url_jobs_ok_def)
qed

lemma inv_checkUrls:
  assumes inv: "url_inv uuid s" and inj: "inj uuid"
  shows "url_inv uuid (fst (checkUrls uuid rs s))"
proof -
  obtain t news failed where
    eq: "checkUrls uuid rs s = (persist_urls (emit_urls t), length news, failed)"
    and ab: "added_by uuid s t news" and d: "distinct (map dj_url news)"
    and urls: "dj_url ` set news = cr_url ` {r \<in> set rs. cr_ok r} - dj_url ` set (ds_jobs s)"
    by (rule checkUrls_added)
  let ?t = "persist_urls (emit_urls t)"
  from ab have t: "t = s\<lparr>ds_jobs := ds_jobs s @ news, ds_nextUuid := ds_nextUuid s + length news\<rparr>"
    and ids: "map dj_id news = map (\<lambda>k. uuid (ds_nextUuid s + k)) [0..<length news]"
    and new: "\<forall>j \<in> set news. \<exists>i r. j = new_url_job i r" by (simp_all add: added_by_def)
  have "distinct (map (\<lambda>k. uuid (ds_nextUuid s + k)) [0..<length news])"
    by (auto simp: distinct_map inj_on_def dest: injD [OF inj])
  then have dist: "distinct (map dj_id news)" by (simp add: ids)
  have "dj_id ` set news = (\<lambda>k. uuid (ds_nextUuid s + k)) ` {0..<length news}"
    using arg_cong [OF ids, of set] by simp
  then have "dj_id ` set news \<subseteq> drawn_urls uuid t" and fresh: "drawn_urls uuid s \<inter> dj_id ` set news = {}"
    using inj by (auto simp: drawn_urls_def t inj_def)
  moreover have "url_job_ok j" if "j \<in> set news" for j
    using new that by (auto simp: url_job_ok_def)
  ultimately have "url_jobs_ok (drawn_urls uuid t) news"
    using d dist by (auto simp: url_jobs_ok_def)
  then have "url_jobs_ok (drawn_urls uuid t) (ds_jobs t)"
    unfolding t using inv fresh urls
    by (auto simp: url_inv_def urls_data_ok_def drawn_urls_def intro!: url_jobs_ok_append)
  then have "urls_data_ok uuid ?t"
    by (rule inv_persist_emit [OF data_of_inv [OF inv]]) (simp_all add: t)
  moreover have keep: "ds_pc ?t = ds_pc s" "ds_waiters ?t = ds_waiters s" "ds_polls ?t = ds_polls s"
    "ds_polling ?t = ds_polling s" "ds_inPollLoop ?t = ds_inPollLoop s"
    by (simp_all add: store_simps t)
  have idsok: "runner_ids_ok (drawn_urls uuid s) s" using inv by (simp add: url_inv_def)
  then have "runner_ids_ok (drawn_urls uuid ?t) ?t"
    by (rule ids_frame) (auto simp: keep drawn_urls_def store_simps t)
  moreover have "job_fits s j" if "j \<in> set news" for j
  proof -
    from that new obtain i r where j: "j = new_url_job i r" by blast
    from that fresh have nid: "dj_id j \<notin> drawn_urls uuid s" by blast
    have "pc_ok (ds_waiters s) (ds_pc s)" using inv by (simp add: url_inv_def runner_ok_def)
    with nid idsok have "current_job s \<noteq> Some (dj_id j)" "dj_id j \<notin> w_job ` set (ds_waiters s)"
      "\<forall>job. ds_pc s = DSubmit job \<longrightarrow> dj_id j \<noteq> dj_id job"
      by (auto simp: runner_ids_ok_def current_job_def pc_ok_def image_subset_iff split: url_pc.splits)
        (metis nth_mem)
    with j show ?thesis by (auto simp: job_fits_def)
  qed
  then have "runner_ok ?t"
    using inv job_fits_cong [OF keep(1,2)] by (auto simp: url_inv_def runner_ok_def keep store_simps t)
  ultimately show ?thesis by (simp add: eq url_inv_def)
qed

lemma load_urls_rechecked:
  "j \<in> set (load_urls browser now ls) \<Longrightarrow> dj_status j \<noteq> DQueued \<and> dj_status j \<noteq> DDownloading"
  by (auto simp: load_urls_def split: if_splits sum.splits option.splits url_stored.splits)

lemma inv_boot_urls:
  "stored_urls_ok (uuid ` {..<n}) ls \<Longrightarrow> url_inv uuid (boot_urls now ls n)"
  using load_urls_rechecked [of _ True now ls]
  by (auto simp: url_inv_def urls_data_ok_def boot_urls_def drawn_urls_def urls_seen_ok_def runner_ok_def
      pc_ok_def runner_ids_ok_def url_jobs_ok_load job_fits_def current_job_def)

lemma inv_url_react:
  assumes inv: "url_inv uuid s" and en: "url_enabled e s" and inj: "inj uuid"
  shows "url_inv uuid (url_react uuid now e s)"
proof (cases e)
  case (SubscribeUrls l)
  have "urls_data_ok uuid (subscribeUrlDownloads l s)"
    using inv by (auto simp: url_inv_defs subscribeUrlDownloads_def drawn_urls_def urls_seen_ok_def)
  moreover have "runner_ok (subscribeUrlDownloads l s)"
    using inv by (auto simp: url_inv_def subscribeUrlDownloads_def intro: runner_frame)
  ultimately show ?thesis
    using inv SubscribeUrls
    by (auto simp: url_inv_def subscribeUrlDownloads_def drawn_urls_def runner_ids_ok_def)
next
  case (UnsubscribeUrls l)
  have "runner_ok (unsubscribeUrlDownloads l s)"
    using inv by (auto simp: url_inv_def unsubscribeUrlDownloads_def intro: runner_frame)
  with inv UnsubscribeUrls show ?thesis
    by (auto simp: url_inv_def urls_data_ok_def unsubscribeUrlDownloads_def drawn_urls_def
        urls_seen_ok_def runner_ids_ok_def)
next
  case ClearUrlsCompleted
  have "runner_ok (clearUrlDownloadsCompleted s)"
    using inv by (auto simp: url_inv_def clearUrlDownloadsCompleted_def intro: runner_frame)
  with inv ClearUrlsCompleted show ?thesis
    by (auto simp: url_inv_def urls_data_ok_def clearUrlDownloadsCompleted_def drawn_urls_def
        urls_seen_ok_def runner_ids_ok_def stored_completed)
next
  case (UrlStorageFlags r w)
  have "runner_ok (s\<lparr>ds_ls := (ds_ls s)\<lparr>ls_readable := r, ls_writable := w\<rparr>\<rparr>)"
    using inv by (auto simp: url_inv_def intro: runner_frame)
  with inv UrlStorageFlags show ?thesis
    by (auto simp: url_inv_def urls_data_ok_def stored_urls_ok_def drawn_urls_def urls_seen_ok_def
        runner_ids_ok_def)
next
  case ReloadUrls
  from inv have "stored_urls_ok (uuid ` {..<ds_nextUuid s}) (ds_ls s)"
    by (simp add: url_inv_def urls_data_ok_def drawn_urls_def)
  with ReloadUrls show ?thesis by (simp add: inv_boot_urls)
next
  case PauseOver
  with inv en show ?thesis by (auto simp: url_inv_def runner_ok_def pc_ok_def split: url_pc.splits)
next
  case (SubmitAnswer a)
  with inv en show ?thesis by (auto simp: inv_submit_answer split: url_pc.splits)
qed (use assms in \<open>simp_all add: inv_checkUrls inv_edit_url inv_remove_url inv_startDownloads
    clearUrlDownloads_def clearAllUrlDownloads_def inv_empty_urls resetIdleDownloads_def Let_def
    inv_tick inv_list_answer inv_entry_answer\<close>)

lemma url_reach_inv: "url_reach uuid s \<Longrightarrow> inj uuid \<Longrightarrow> url_inv uuid s"
proof (induction rule: url_reach.induct)
  case (first_load now)
  show ?case by (rule inv_boot_urls) (simp add: stored_urls_ok_def empty_storage_def)
next
  case (url_event s e t)
  then show ?case by (auto elim!: url_stepE intro: inv_url_react)
qed

end
