(* ===== verification/UrlProps.thy ===== *)
theory UrlProps
  imports UrlMachine
begin

text \<open>
  The properties of the URL download store: safety of every reachable state, the accounting
  of \<open>checkUrls\<close>, the drain of the queue by a server that answers, and the three ways in
  which a job or the runner is stuck for good.
\<close>

definition url_uuid :: "nat \<Rightarrow> string" where
  "url_uuid n = replicate n (CHR ''d'')"

definition first_load_urls :: url_store where
  "first_load_urls = boot_urls 0 empty_storage 0"

lemma inj_url_uuid: "inj url_uuid"
  by (rule injI) (metis length_replicate url_uuid_def)

lemma reach_first_load: "url_reach uuid first_load_urls"
  by (simp add: first_load_urls_def url_reach.first_load)

lemmas reach_urls_from_load = reach_run_urls [OF reach_first_load]

text \<open>Two URLs are found valid and one is not; the download of the first is started.\<close>

definition found :: "string \<Rightarrow> check_result" where
  "found u = \<lparr>cr_url = u, cr_ok = True, cr_reason = None, cr_fileName = None\<rparr>"

definition url_run :: "(int \<times> url_event) list" where
  "url_run = [(1, SubscribeUrls 0),
     (2, CheckAnswer [found ''a.mp4'', (found ''b.mp4'')\<lparr>cr_ok := False\<rparr>, found ''c.mp4'']),
     (3, StartDownloads)]"

lemma url_run_ok: "enabled_urls url_uuid url_run first_load_urls"
  by code_simp

subsection \<open>Safety\<close>

text \<open>C10: In every reachable state of the URL store ids and URLs are distinct, progress is
  \<open>-1\<close> or a percentage, and every subscriber has seen the current list.\<close>

theorem url_store_safe:
  assumes "url_reach uuid s" and "inj uuid"
  shows "distinct (map dj_id (ds_jobs s)) \<and> distinct (map dj_url (ds_jobs s)) \<and>
    (\<forall>j \<in> set (ds_jobs s). \<exists>a. dj_progress j = Fin a \<and> (a = - 1 \<or> 0 \<le> a \<and> a \<le> 100)) \<and>
    (\<forall>l \<in> set (ds_listeners s). ds_seen s l = Some (ds_jobs s))"
proof -
  from url_reach_inv [OF assms] have "urls_data_ok uuid s" by (simp add: url_inv_def)
  moreover have "url_progress_ok x \<Longrightarrow> \<exists>a. x = Fin a \<and> (a = - 1 \<or> 0 \<le> a \<and> a \<le> 100)" for x
    by (cases x) (simp_all add: url_progress_ok_def)
  ultimately show ?thesis
    by (auto simp: urls_data_ok_def url_jobs_ok_def url_job_ok_def urls_seen_ok_def)
qed

theorem url_store_safe_witness:
  "distinct (map dj_url (ds_jobs (run_urls url_uuid url_run first_load_urls))) \<and>
   length (ds_jobs (run_urls url_uuid url_run first_load_urls)) = 2"
proof
  show "distinct (map dj_url (ds_jobs (run_urls url_uuid url_run first_load_urls)))"
    using url_store_safe [OF reach_urls_from_load [OF url_run_ok] inj_url_uuid] by blast
  show "length (ds_jobs (run_urls url_uuid url_run first_load_urls)) = 2"
    by code_simp
qed

text \<open>C9: Downloads run one at a time: in every reachable state a job that is downloading
  and has an entry is the job the runner waits for.  So \<open>pollUntilIdle\<close>, which looks for
  such a job when the queue is empty, never finds one and never polls.\<close>

theorem one_download_at_a_time:
  assumes "url_reach uuid s" and "inj uuid"
  shows "(\<forall>j \<in> set (ds_jobs s). dj_status j = DDownloading \<and> truthy (dj_entryId j) \<longrightarrow>
      current_job s = Some (dj_id j)) \<and>
    (ds_polling s \<longleftrightarrow> ds_pc s \<noteq> DIdle) \<and> (\<forall>job. ds_pc s \<noteq> DPause job)"
  using url_reach_inv [OF assms]
  by (auto simp: url_inv_def runner_ok_def job_fits_def pc_ok_def)

definition accepted_run :: "(int \<times> url_event) list" where
  "accepted_run = url_run @
     [(4, SubmitAnswer (Some [\<lparr>sr_ok = True, sr_reason = None, sr_entryId = Some ''e1''\<rparr>]))]"

lemma accepted_run_ok: "enabled_urls url_uuid accepted_run first_load_urls"
  by code_simp

theorem one_download_at_a_time_witness:
  "ds_pc (run_urls url_uuid accepted_run first_load_urls) = DWait 0 \<and>
   (\<forall>job. ds_pc (run_urls url_uuid accepted_run first_load_urls) \<noteq> DPause job)"
proof
  show "ds_pc (run_urls url_uuid accepted_run first_load_urls) = DWait 0" by code_simp
  show "\<forall>job. ds_pc (run_urls url_uuid accepted_run first_load_urls) \<noteq> DPause job"
    using one_download_at_a_time [OF reach_urls_from_load [OF accepted_run_ok] inj_url_uuid] by blast
qed

subsection \<open>Checking URLs\<close>

text \<open>\<open>checkUrls\<close> appends one queued job for each URL the server accepted that the list
  does not hold yet, once however often it is listed; it reports their number, and one
  failure for each answer that is not \<open>ok\<close>.\<close>

theorem checkUrls_accounts:
  "\<exists>news. ds_jobs (fst (checkUrls uuid rs s)) = ds_jobs s @ news \<and>
     snd (checkUrls uuid rs s) = (length news, length (filter (\<lambda>r. \<not> cr_ok r) rs)) \<and>
     dj_status ` set news \<subseteq> {DQueued} \<and> distinct (map dj_url news) \<and>
     dj_url ` set news = cr_url ` {r \<in> set rs. cr_ok r} - dj_url ` set (ds_jobs s)"
proof -
  obtain t news failed where
    "checkUrls uuid rs s = (persist_urls (emit_urls t), length news, failed)"
    "added_by uuid s t news" "distinct (map dj_url news)"
    "dj_url ` set news = cr_url ` {r \<in> set rs. cr_ok r} - dj_url ` set (ds_jobs s)"
    "failed = length (filter (\<lambda>r. \<not> cr_ok r) rs)"
    by (rule checkUrls_added)
  then show ?thesis
    by (intro exI [of _ news]) (auto simp: added_by_def store_simps)
qed

subsection \<open>Jobs that nothing moves any more\<close>

text \<open>
  A job in the list with which the runner is not concerned: it neither submits it nor has a
  waiter for it.
\<close>

definition inert :: "string \<Rightarrow> url_status \<Rightarrow> url_store \<Rightarrow> bool" where
  "inert i st s \<longleftrightarrow> (\<exists>j \<in> set (ds_jobs s). dj_id j = i \<and> dj_status j = st) \<and>
     i \<notin> w_job ` set (ds_waiters s) \<and> (\<forall>job. ds_pc s = DSubmit job \<longrightarrow> dj_id job \<noteq> i)"

text \<open>The events that take the job out of the list, or reload the page.\<close>

fun keeps_job :: "string \<Rightarrow> url_event \<Rightarrow> bool" where
  "keeps_job i (RemoveUrl k) \<longleftrightarrow> k \<noteq> i"
| "keeps_job i ClearUrls \<longleftrightarrow> False"
| "keeps_job i ClearAllUrls \<longleftrightarrow> False"
| "keeps_job i ReloadUrls \<longleftrightarrow> False"
| "keeps_job i _ \<longleftrightarrow> True"

lemma inert_update_url:
  assumes "inert i st s"
    and "\<And>j. dj_id (f j) = dj_id j" and "k \<noteq> i \<or> (\<forall>j. dj_status (f j) = dj_status j)"
  shows "inert i st (update_url k f s)"
proof -
  from assms(1) obtain j where j: "j \<in> set (ds_jobs s)" "dj_id j = i" "dj_status j = st"
    by (auto simp: inert_def)
  let ?j = "if dj_id j = k then f j else j"
  have "?j \<in> set (ds_jobs (update_url k f s))" "dj_id ?j = i" "dj_status ?j = st"
    using j assms(2,3) by (auto simp: store_simps set_update_where)
  with assms(1) show ?thesis unfolding inert_def store_simps by blast
qed

lemma inert_frame:
  assumes "inert i st s" and "ds_jobs t = ds_jobs s"
    and "w_job ` set (ds_waiters t) \<subseteq> insert k (w_job ` set (ds_waiters s))" and "k \<noteq> i"
    and "\<And>job. ds_pc t = DSubmit job \<Longrightarrow> dj_id job = i \<Longrightarrow> ds_pc s = DSubmit job"
  shows "inert i st t"
proof -
  from assms(1) have "i \<notin> w_job ` set (ds_waiters s)" by (simp add: inert_def)
  with assms(3,4) have "i \<notin> w_job ` set (ds_waiters t)" by blast
  moreover have "\<forall>job. ds_pc t = DSubmit job \<longrightarrow> dj_id job \<noteq> i"
    using assms(1,5) unfolding inert_def by blast
  ultimately show ?thesis using assms(1,2) by (simp add: inert_def)
qed

lemma inert_append:
  assumes "inert i st s" and "ds_jobs t = ds_jobs s @ news"
    and "ds_waiters t = ds_waiters s" and "ds_pc t = ds_pc s"
  shows "inert i st t"
  using assms unfolding inert_def by (simp add: bex_Un)

lemma inert_poll_turn:
  assumes "inert i st s"
  shows "inert i st (poll_turn now s)"
  using assms by (auto simp: inert_def poll_turn_def store_simps split: option.splits)

lemma inert_download_turn:
  assumes "inert i st s" and "distinct (map dj_id (ds_jobs s))" and "st \<noteq> DQueued"
  shows "inert i st (download_turn now s)"
proof (cases "find (\<lambda>j. dj_status j = DQueued) (ds_jobs s)")
  case None
  with assms show ?thesis by (simp add: download_turn_def inert_poll_turn)
next
  case (Some job)
  then have job: "job \<in> set (ds_jobs s)" "dj_status job = DQueued" by (auto simp: find_Some_iff)
  have "dj_id job \<noteq> i"
    using assms job by (auto simp: inert_def dest: distinct_key_unique [OF assms(2)])
  with Some show ?thesis
    using inert_update_url [OF assms(1), of "\<lambda>j. j\<lparr>dj_status := DDownloading, dj_progress := Fin (- 1),
        dj_error := None\<rparr>" "dj_id job"]
    by (auto simp: download_turn_def inert_def)
qed

lemma distinct_ids_update:
  assumes "distinct (map dj_id (ds_jobs s))" and "\<And>j. dj_id (f j) = dj_id j"
  shows "distinct (map dj_id (ds_jobs (update_url k f s)))"
  using downloads.distinct_patch [OF assms(2,1)] .

lemma inert_submit_answer:
  assumes "inert i st s" and "distinct (map dj_id (ds_jobs s))" and "st \<noteq> DQueued"
    and "ds_pc s = DSubmit job"
  shows "inert i st (submit_answer now a job s)"
proof -
  have ne: "dj_id job \<noteq> i" using assms by (auto simp: inert_def)
  have failed: "inert i st (download_turn now (update_url (dj_id job)
      (\<lambda>j. j\<lparr>dj_status := DFailed, dj_error := Some m, dj_finishedAt := Some now\<rparr>) s))" for m
    using ne by (intro inert_download_turn inert_update_url distinct_ids_update assms) auto
  have "inert i st (waitForEntry e (dj_id job)
      (send_patch job e (update_url (dj_id job) (\<lambda>j. j\<lparr>dj_entryId := e\<rparr>) s)))" for e
    by (rule inert_frame [where k = "dj_id job", OF inert_update_url [OF assms(1), where k = "dj_id job"
          and f = "\<lambda>j. j\<lparr>dj_entryId := e\<rparr>"]])
      (use ne in \<open>auto simp: waitForEntry_def send_patch_def store_simps\<close>)
  moreover have "inert i st (s\<lparr>ds_polling := False, ds_pc := DIdle\<rparr>)"
    using assms(1) by (simp add: inert_def)
  ultimately show ?thesis using failed
    by (auto simp: submit_answer_def split: option.splits list.splits)
qed

lemma inert_polls [simp]: "inert i st (s\<lparr>ds_polls := ps\<rparr>) \<longleftrightarrow> inert i st s"
  by (simp add: inert_def)

lemma inert_waiter: "inert i st s \<Longrightarrow> w < length (ds_waiters s) \<Longrightarrow> w_job (ds_waiters s ! w) \<noteq> i"
  by (auto simp: inert_def image_iff) (metis nth_mem)

lemma inert_list_answer:
  assumes "inert i st s" and "w < length (ds_waiters s)"
  shows "inert i st (list_answer w a s)"
proof -
  let ?s = "s\<lparr>ds_polls := remove1 (w, AskList) (ds_polls s)\<rparr>"
  have "inert i st (update_url (w_job (ds_waiters s ! w)) (\<lambda>j. j\<lparr>dj_progress := p\<rparr>) ?s)" for p
    by (rule inert_update_url) (use assms in auto)
  moreover have "map w_job (ds_waiters (clear_timer w ?s)) = map w_job (ds_waiters s)"
    using waiter_jobs_clear_timer [of w ?s] assms(2) by simp
  then have "w_job ` set (ds_waiters (clear_timer w ?s)) = w_job ` set (ds_waiters s)"
    by (metis list.set_map)
  then have "inert i st (clear_timer w ?s)"
    using assms(1) by (simp add: inert_def store_simps)
  ultimately show ?thesis using assms(1)
    by (simp add: list_answer_def Let_def split: option.split)
qed

lemma inert_entry_answer:
  assumes "inert i st s" and "distinct (map dj_id (ds_jobs s))" and "st \<noteq> DQueued"
    and "w < length (ds_waiters s)"
  shows "inert i st (entry_answer now w a s)"
proof -
  have "inert i st (resolve_waiter now w (update_url (w_job (ds_waiters s ! w)) f
      (s\<lparr>ds_polls := ps\<rparr>)))" if f: "\<And>j. dj_id (f j) = dj_id j" for f ps
  proof -
    have "inert i st (update_url (w_job (ds_waiters s ! w)) f (s\<lparr>ds_polls := ps\<rparr>))"
      by (rule inert_update_url) (use assms inert_waiter f in auto)
    moreover have "distinct (map dj_id (ds_jobs
        (update_url (w_job (ds_waiters s ! w)) f (s\<lparr>ds_polls := ps\<rparr>))))"
      by (rule distinct_ids_update) (use assms f in auto)
    ultimately show ?thesis
      using assms(3) by (simp add: resolve_waiter_def inert_poll_turn inert_download_turn)
  qed
  then show ?thesis using assms(1)
    by (simp add: entry_answer_def Let_def split: option.split)
qed

lemma resetIdle_active:
  assumes "inert i st s" and "st = DChecking \<or> st = DDownloading"
  shows "resetIdleDownloads s = s"
  using assms by (auto simp: inert_def resetIdleDownloads_def list_ex_iff)

lemma inert_react:
  assumes inert: "inert i st s" and st: "st = DChecking \<or> st = DDownloading"
    and inv: "url_inv uuid s" and en: "url_enabled e s" and "keeps_job i e"
  shows "inert i st (url_react uuid now e s)"
proof -
  have d: "distinct (map dj_id (ds_jobs s))"
    using inv by (simp add: url_inv_def urls_data_ok_def url_jobs_ok_def)
  have nq: "st \<noteq> DQueued" using st by auto
  show ?thesis
  proof (cases e)
    case (CheckAnswer rs)
    obtain t news failed where "checkUrls uuid rs s = (persist_urls (emit_urls t), length news, failed)"
      "added_by uuid s t news" by (rule checkUrls_added)
    with CheckAnswer show ?thesis
      by (auto simp: added_by_def store_simps intro: inert_append [OF inert])
  next
    case (EditUrl k ed)
    then show ?thesis
      by (simp, intro inert_update_url [OF inert]) (cases ed; simp)+
  next
    case (RemoveUrl k)
    with assms(5) inert show ?thesis
      by (auto simp: inert_def removeUrlDownload_def store_simps)
  next
    case StartDownloads
    have "inert i st (s\<lparr>ds_polling := True\<rparr>)" using inert by (simp add: inert_def)
    with StartDownloads inert nq d show ?thesis
      by (simp add: startDownloads_def inert_download_turn)
  next
    case (SubmitAnswer a)
    with inert nq d show ?thesis by (auto simp: inert_submit_answer split: url_pc.split)
  next
    case PauseOver
    with inv en show ?thesis by (auto simp: url_inv_def runner_ok_def pc_ok_def split: url_pc.splits)
  next
    case (ListAnswer w a)
    with en inert inv_polls_bound [OF inv] show ?thesis by (auto simp: inert_list_answer)
  next
    case (EntryAnswer w a)
    with en inert nq d inv_polls_bound [OF inv] show ?thesis by (auto simp: inert_entry_answer)
  next
    case ResetIdleUrls
    with inert st show ?thesis by (simp add: resetIdle_active)
  qed (use assms(5) inert in \<open>simp_all add: tick_def inert_def subscribeUrlDownloads_def
      unsubscribeUrlDownloads_def clearUrlDownloadsCompleted_def\<close>)
qed

lemma inert_run:
  assumes "inert i st s" and "st = DChecking \<or> st = DDownloading" and "inj uuid"
    and "url_inv uuid s" and "enabled_urls uuid es s" and "\<forall>(now, e) \<in> set es. keeps_job i e"
  shows "inert i st (run_urls uuid es s)"
  using assms
  by (induction uuid es s rule: run_urls.induct) (auto intro: inert_react inv_url_react)

lemma inv_run_urls:
  "url_inv uuid s \<Longrightarrow> inj uuid \<Longrightarrow> enabled_urls uuid es s \<Longrightarrow> url_inv uuid (run_urls uuid es s)"
  by (induction uuid es s rule: run_urls.induct) (auto intro: inv_url_react)

lemma inert_no_entry:
  assumes "inert i DDownloading s" and "url_inv uuid s"
  shows "\<exists>j \<in> set (ds_jobs s). dj_id j = i \<and> dj_status j = DDownloading \<and> \<not> truthy (dj_entryId j)"
proof -
  from assms(1) obtain j where j: "j \<in> set (ds_jobs s)" "dj_id j = i" "dj_status j = DDownloading"
    by (auto simp: inert_def)
  have "current_job s \<noteq> Some i"
    using assms inert_waiter [OF assms(1)]
    by (auto simp: inert_def current_job_def url_inv_def runner_ok_def pc_ok_def split: url_pc.splits)
  with j assms(2) show ?thesis by (auto simp: url_inv_def runner_ok_def job_fits_def)
qed

text \<open>A job that is \<open>checking\<close> after a reload never moves again: whatever happens short of
  a removal or another reload, it stays \<open>checking\<close>, so the list counts as active and
  \<open>resetIdleDownloads\<close> does nothing.\<close>

theorem checking_job_never_moves:
  assumes "url_reach uuid s" and "inj uuid"
    and "j \<in> set (ds_jobs s)" and "dj_status j = DChecking"
    and "enabled_urls uuid es s" and "\<forall>(now, e) \<in> set es. keeps_job (dj_id j) e"
  shows "(\<exists>j' \<in> set (ds_jobs (run_urls uuid es s)). dj_id j' = dj_id j \<and> dj_status j' = DChecking) \<and>
    resetIdleDownloads (run_urls uuid es s) = run_urls uuid es s"
proof -
  have inv: "url_inv uuid s" using assms(1,2) by (rule url_reach_inv)
  then have "job_fits s j" using assms(3) by (simp add: url_inv_def runner_ok_def)
  then have "inert (dj_id j) DChecking s"
    using assms(3,4) by (auto simp: inert_def job_fits_def current_job_def)
  then have "inert (dj_id j) DChecking (run_urls uuid es s)"
    using inv assms(2,5,6) by (intro inert_run) auto
  then show ?thesis using resetIdle_active by (auto simp: inert_def)
qed

definition reloaded_run :: "(int \<times> url_event) list" where
  "reloaded_run = url_run @ [(4, ReloadUrls)]"

definition later_events :: "(int \<times> url_event) list" where
  "later_events = [(5, CheckAnswer [found ''d.mp4'']), (6, StartDownloads),
     (7, SubmitAnswer (Some [])), (8, ResetIdleUrls)]"

definition first_url_job :: url_job where
  "first_url_job = hd (ds_jobs (run_urls url_uuid reloaded_run first_load_urls))"

lemma reloaded_run_ok:
  "enabled_urls url_uuid reloaded_run first_load_urls"
  "enabled_urls url_uuid later_events (run_urls url_uuid reloaded_run first_load_urls)"
  "first_url_job \<in> set (ds_jobs (run_urls url_uuid reloaded_run first_load_urls))"
  "dj_status first_url_job = DChecking" "dj_id first_url_job = []"
  by code_simp+

theorem checking_job_never_moves_witness:
  "resetIdleDownloads (run_urls url_uuid (reloaded_run @ later_events) first_load_urls) =
   run_urls url_uuid (reloaded_run @ later_events) first_load_urls"
  using checking_job_never_moves [OF reach_urls_from_load [OF reloaded_run_ok(1)] inj_url_uuid
      reloaded_run_ok(3,4,2)]
  by (simp add: later_events_def)

text \<open>C11: When the request that submits a URL fails, its job is left \<open>downloading\<close> without an
  entry and the runner has ended; no later event short of a removal or a reload moves the
  job, and a new \<open>startDownloads\<close> does not pick it up.\<close>

theorem submit_error_strands_job:
  assumes "url_reach uuid s" and "inj uuid"
    and "ds_pc s = DSubmit job" and "dj_id job \<in> dj_id ` set (ds_jobs s)"
    and "enabled_urls uuid es (submit_answer now None job s)"
    and "\<forall>(now, e) \<in> set es. keeps_job (dj_id job) e"
  shows "\<not> ds_polling (submit_answer now None job s) \<and>
    (\<exists>j \<in> set (ds_jobs (run_urls uuid es (submit_answer now None job s))).
       dj_id j = dj_id job \<and> dj_status j = DDownloading \<and> \<not> truthy (dj_entryId j))"
proof -
  let ?t = "submit_answer now None job s"
  have inv: "url_inv uuid s" using assms(1,2) by (rule url_reach_inv)
  from assms(4) obtain j where j: "j \<in> set (ds_jobs s)" "dj_id j = dj_id job" by auto
  with inv assms(3) have "dj_status j = DDownloading" "dj_entryId j = None"
    by (auto simp: url_inv_def runner_ok_def job_fits_def)
  moreover have "dj_id job \<notin> w_job ` set (ds_waiters s)"
    using inv assms(3) by (auto simp: url_inv_def runner_ok_def pc_ok_def)
  ultimately have "inert (dj_id job) DDownloading ?t"
    using j by (auto simp: inert_def submit_answer_def)
  moreover have it: "url_inv uuid ?t" using inv assms(3) by (rule inv_submit_answer)
  ultimately have fin: "inert (dj_id job) DDownloading (run_urls uuid es ?t)"
    using assms(2,5,6) by (intro inert_run) auto
  have "url_inv uuid (run_urls uuid es ?t)"
    using it assms(2,5) by (rule inv_run_urls)
  with inert_no_entry [OF fin] show ?thesis by (simp add: submit_answer_def)
qed

definition failed_submit :: "(int \<times> url_event) list" where
  "failed_submit = [(5, StartDownloads), (6, SubmitAnswer (Some [])), (7, ResetIdleUrls), (8, StartDownloads)]"

definition submitted_job :: url_job where
  "submitted_job = (case ds_pc (run_urls url_uuid url_run first_load_urls) of DSubmit job \<Rightarrow> job)"

lemma failed_submit_ok:
  "enabled_urls url_uuid failed_submit
     (submit_answer 4 None submitted_job (run_urls url_uuid url_run first_load_urls))"
  "ds_pc (run_urls url_uuid url_run first_load_urls) = DSubmit submitted_job"
  "dj_id submitted_job \<in> dj_id ` set (ds_jobs (run_urls url_uuid url_run first_load_urls))"
  by code_simp+

theorem submit_error_strands_job_witness:
  "\<exists>j \<in> set (ds_jobs (run_urls url_uuid failed_submit
      (submit_answer 4 None submitted_job (run_urls url_uuid url_run first_load_urls)))).
     dj_id j = dj_id submitted_job \<and> dj_status j = DDownloading \<and> \<not> truthy (dj_entryId j)"
  using submit_error_strands_job [OF reach_urls_from_load [OF url_run_ok] inj_url_uuid
      failed_submit_ok(2,3,1)]
  by (simp add: failed_submit_def)

subsection \<open>A lost answer\<close>

text \<open>The runner waits for a waiter whose timer is cleared and which has no request in flight.\<close>

definition abandoned :: "nat \<Rightarrow> url_store \<Rightarrow> bool" where
  "abandoned w s \<longleftrightarrow> ds_pc s = DWait w \<and> ds_polling s \<and> w < length (ds_waiters s) \<and>
     \<not> w_timer (ds_waiters s ! w) \<and> (\<forall>ph. (w, ph) \<notin> set (ds_polls s))"

lemma update_url_abandoned [simp]: "abandoned w (update_url i f s) \<longleftrightarrow> abandoned w s"
  by (simp add: abandoned_def store_simps)

lemma set_url_jobs_abandoned [simp]: "abandoned w (set_url_jobs js s) \<longleftrightarrow> abandoned w s"
  by (simp add: abandoned_def store_simps)

lemma abandoned_frame:
  assumes "abandoned w s" and "ds_pc t = ds_pc s" and "ds_polling t = ds_polling s"
    and "ds_waiters t = ds_waiters s" and "\<forall>ph. (w, ph) \<in> set (ds_polls t) \<longrightarrow> (w, ph) \<in> set (ds_polls s)"
  shows "abandoned w t"
  using assms by (simp add: abandoned_def)

lemma abandoned_fields [simp]:
  "abandoned w (s\<lparr>ds_seen := x1\<rparr>) \<longleftrightarrow> abandoned w s"
  "abandoned w (s\<lparr>ds_listeners := x2\<rparr>) \<longleftrightarrow> abandoned w s"
  "abandoned w (s\<lparr>ds_lastCompletedAt := x3\<rparr>) \<longleftrightarrow> abandoned w s"
  "abandoned w (s\<lparr>ds_ls := x4\<rparr>) \<longleftrightarrow> abandoned w s"
  by (simp_all add: abandoned_def)

lemma abandoned_remove1: "abandoned w s \<Longrightarrow> abandoned w (s\<lparr>ds_polls := remove1 p (ds_polls s)\<rparr>)"
  using set_remove1_subset [of p "ds_polls s"] by (auto simp: abandoned_def)

lemma abandoned_react:
  assumes ab: "abandoned w s" and en: "url_enabled e s" and "e \<noteq> ReloadUrls"
  shows "abandoned w (url_react uuid now e s)"
proof (cases e)
  case (CheckAnswer rs)
  obtain t news failed where "checkUrls uuid rs s = (persist_urls (emit_urls t), length news, failed)"
    "added_by uuid s t news" by (rule checkUrls_added)
  with CheckAnswer show ?thesis
    by (auto simp: added_by_def store_simps intro: abandoned_frame [OF ab])
next
  case (Tick v)
  with en ab have "v \<noteq> w" by (auto simp: abandoned_def)
  with Tick ab show ?thesis by (auto simp: tick_def abandoned_def)
next
  case (ListAnswer v a)
  with en ab have "v \<noteq> w" by (auto simp: abandoned_def)
  moreover let ?s = "s\<lparr>ds_polls := remove1 (v, AskList) (ds_polls s)\<rparr>"
  have s: "abandoned w ?s" using ab by (rule abandoned_remove1)
  ultimately have "abandoned w ((clear_timer v ?s)\<lparr>ds_polls := ds_polls ?s @ [(v, AskEntry)]\<rparr>)"
    by (auto simp: abandoned_def clear_timer_def)
  with s ListAnswer show ?thesis by (simp add: list_answer_def Let_def split: option.split)
next
  case (EntryAnswer v a)
  with en ab have "v \<noteq> w" by (auto simp: abandoned_def)
  moreover let ?s = "s\<lparr>ds_polls := remove1 (v, AskEntry) (ds_polls s)\<rparr>"
  have s: "abandoned w ?s" using ab by (rule abandoned_remove1)
  moreover have "ds_pc s = DWait w" using ab by (simp add: abandoned_def)
  ultimately have "abandoned w (resolve_waiter now v (update_url i f ?s))" for i f
    by (simp add: resolve_waiter_def store_simps)
  with s EntryAnswer show ?thesis by (simp add: entry_answer_def Let_def split: option.split)
next
  case StartDownloads
  with ab show ?thesis by (simp add: abandoned_def startDownloads_def)
next
  case (SubmitAnswer a)
  with en ab show ?thesis by (simp add: abandoned_def)
next
  case PauseOver
  with en ab show ?thesis by (simp add: abandoned_def)
qed (use assms in \<open>simp_all add: clearUrlDownloads_def clearAllUrlDownloads_def removeUrlDownload_def
    resetIdleDownloads_def Let_def subscribeUrlDownloads_def unsubscribeUrlDownloads_def
    clearUrlDownloadsCompleted_def\<close>)

lemma abandoned_run:
  assumes "abandoned w s" and "enabled_urls uuid es s" and "ReloadUrls \<notin> snd ` set es"
  shows "abandoned w (run_urls uuid es s)"
  using assms by (induction uuid es s rule: run_urls.induct) (auto intro: abandoned_react)

text \<open>C12: When the download is over and the request for its entry, the only one of its waiter in
  flight, fails, nobody asks again: the timer is already cleared.  From then on, in every run
  without a reload, the runner counts as polling and \<open>startDownloads\<close> does nothing, whatever is
  queued.\<close>

theorem entry_error_blocks_downloads:
  assumes "ds_pc s = DWait w" and "ds_polling s" and "w < length (ds_waiters s)"
    and "\<not> w_timer (ds_waiters s ! w)" and "\<forall>ph. (w, ph) \<in> set (ds_polls s) \<longrightarrow> ph = AskEntry"
    and "count_list (ds_polls s) (w, AskEntry) = 1"
    and "enabled_urls uuid es (entry_answer now w None s)" and "ReloadUrls \<notin> snd ` set es"
  shows "startDownloads later (run_urls uuid es (entry_answer now w None s)) =
    run_urls uuid es (entry_answer now w None s)"
proof -
  have "(w, AskEntry) \<notin> set (remove1 (w, AskEntry) (ds_polls s))"
    using assms(6) by (simp add: count_list_0_iff [symmetric] count_list_remove1)
  then have "abandoned w (entry_answer now w None s)"
    using assms(1-5) notin_set_remove1 by (fastforce simp: abandoned_def entry_answer_def)
  then have "abandoned w (run_urls uuid es (entry_answer now w None s))"
    using assms(7,8) by (rule abandoned_run)
  then show ?thesis by (simp add: abandoned_def startDownloads_def)
qed

definition gone_run :: "(int \<times> url_event) list" where
  "gone_run = accepted_run @ [(5, Tick 0), (6, ListAnswer 0 (Some []))]"

lemma gone_run_state:
  "ds_pc (run_urls url_uuid gone_run first_load_urls) = DWait 0"
  "ds_polling (run_urls url_uuid gone_run first_load_urls)"
  "0 < length (ds_waiters (run_urls url_uuid gone_run first_load_urls))"
  "\<not> w_timer (ds_waiters (run_urls url_uuid gone_run first_load_urls) ! 0)"
  "ds_polls (run_urls url_uuid gone_run first_load_urls) = [(0, AskEntry)]"
  "enabled_urls url_uuid [(8, ClearAllUrls), (9, CheckAnswer [found ''z.mp4''])]
     (entry_answer 7 0 None (run_urls url_uuid gone_run first_load_urls))"
  by code_simp+

theorem entry_error_blocks_downloads_witness:
  "startDownloads 10 (run_urls url_uuid [(8, ClearAllUrls), (9, CheckAnswer [found ''z.mp4''])]
     (entry_answer 7 0 None (run_urls url_uuid gone_run first_load_urls))) =
   run_urls url_uuid [(8, ClearAllUrls), (9, CheckAnswer [found ''z.mp4''])]
     (entry_answer 7 0 None (run_urls url_uuid gone_run first_load_urls))"
  by (rule entry_error_blocks_downloads [OF gone_run_state(1,2,3,4) _ _ gone_run_state(6)])
    (simp_all add: gone_run_state(5))

end
