(* ===== verification/UrlDrain.thy ===== *)
theory UrlDrain
  imports UrlProps
begin

text \<open>
  A server that answers drains the queue: each queued URL is submitted, and is refused or
  fetched; when the answers have come in every queued job is done or failed and the runner
  is at rest.
\<close>

subsection \<open>What the server does with one URL\<close>

text \<open>
  The submission is refused, or an entry is made; then some ticks find the download in the
  list, the next one finds it gone and the entry's status is read.
\<close>

datatype fetch = Refused "string option" | Fetched string "(nat \<times> nat) list" entry_answer

fun reports :: "nat \<Rightarrow> int \<Rightarrow> string \<Rightarrow> (nat \<times> nat) list \<Rightarrow> (int \<times> url_event) list" where
  "reports w now eid [] = []"
| "reports w now eid ((b, m) # rs) =
     (now, Tick w) #
     (now, ListAnswer w (Some [\<lparr>dr_publicId = eid, dr_bytes = b, dr_totalBytes = m\<rparr>])) #
     reports w now eid rs"

fun fetch_events :: "nat \<Rightarrow> int \<Rightarrow> fetch \<Rightarrow> (int \<times> url_event) list" where
  "fetch_events w now (Refused m) =
     [(now, SubmitAnswer (Some [\<lparr>sr_ok = False, sr_reason = m, sr_entryId = None\<rparr>]))]"
| "fetch_events w now (Fetched eid rs entry) =
     (now, SubmitAnswer (Some [\<lparr>sr_ok = True, sr_reason = None, sr_entryId = Some eid\<rparr>])) #
     reports w now eid rs @
     [(now, Tick w), (now, ListAnswer w (Some [])), (now, EntryAnswer w (Some entry))]"

definition serve :: "(nat \<Rightarrow> string) \<Rightarrow> int \<times> fetch \<Rightarrow> url_store \<Rightarrow> url_store" where
  "serve uuid x s = (case ds_pc s of
     DSubmit _ \<Rightarrow> run_urls uuid (fetch_events (length (ds_waiters s)) (fst x) (snd x)) s
   | _ \<Rightarrow> s)"

definition outline :: "url_store \<Rightarrow> (string \<times> url_status) list" where
  "outline s = map (\<lambda>j. (dj_id j, dj_status j)) (ds_jobs s)"

definition queued_count :: "url_store \<Rightarrow> nat" where
  "queued_count s = length (filter (\<lambda>(i, st). st = DQueued) (outline s))"

subsection \<open>One turn of the runner\<close>

definition settled :: "url_status \<Rightarrow> bool" where
  "settled st \<longleftrightarrow> st = DDone \<or> st = DFailed"

definition set_status :: "string \<Rightarrow> url_status \<Rightarrow> (string \<times> url_status) list \<Rightarrow> (string \<times> url_status) list" where
  "set_status i st xs = map (\<lambda>(k, x). (k, if k = i then st else x)) xs"

lemma outline_update:
  assumes "\<And>j. dj_id (f j) = dj_id j" and "\<And>j. dj_status (f j) = st"
  shows "outline (update_url i f s) = set_status i st (outline s)"
  using assms by (simp add: outline_def set_status_def store_simps update_where_def)

lemma outline_update_same:
  assumes "\<And>j. dj_id (f j) = dj_id j" and "\<And>j. dj_status (f j) = dj_status j"
  shows "outline (update_url i f s) = outline s"
  using assms by (simp add: outline_def store_simps update_where_def)

lemma outline_ids: "map fst (outline s) = map dj_id (ds_jobs s)"
  by (simp add: outline_def)

lemma set_status_fst [simp]: "map fst (set_status i st xs) = map fst xs"
  by (simp add: set_status_def case_prod_unfold)

lemma set_status_set:
  "(k, x) \<in> set (set_status i st xs) \<longleftrightarrow> (\<exists>y. (k, y) \<in> set xs \<and> x = (if k = i then st else y))"
  by (auto simp: set_status_def image_iff) force+

lemma queued_set_status:
  assumes "distinct (map fst xs)" and "(i, x) \<in> set xs" and "st \<noteq> DQueued"
  shows "length (filter (\<lambda>(k, y). y = DQueued) (set_status i st xs)) =
    length (filter (\<lambda>(k, y). y = DQueued) xs) - (if x = DQueued then 1 else 0)"
  using assms
proof (induction xs)
  case (Cons a xs)
  obtain k y where a: "a = (k, y)" by (cases a)
  show ?case
  proof (cases "k = i")
    case True
    with Cons.prems a have "y = x" "i \<notin> fst ` set xs" by (auto simp: rev_image_eqI)
    then have "set_status i st xs = xs"
      by (auto simp: set_status_def intro!: map_idI) (metis fst_conv image_eqI)
    with True a \<open>y = x\<close> Cons.prems(3) show ?thesis by (simp add: set_status_def)
  next
    case False
    with Cons a have IH: "length (filter (\<lambda>(k, y). y = DQueued) (set_status i st xs)) =
      length (filter (\<lambda>(k, y). y = DQueued) xs) - (if x = DQueued then 1 else 0)" by auto
    have "x = DQueued \<Longrightarrow> 0 < length (filter (\<lambda>(k, y). y = DQueued) xs)"
      using Cons.prems(2) False a by (auto simp: length_greater_0_conv filter_empty_conv)
    with IH False a show ?thesis by (auto simp: set_status_def)
  qed
qed simp

text \<open>
  The runner rests with an empty queue, or submits a job of the list.
\<close>

definition working :: "url_store \<Rightarrow> bool" where
  "working s \<longleftrightarrow> (ds_pc s = DIdle \<and> queued_count s = 0) \<or>
     (\<exists>job. ds_pc s = DSubmit job \<and> (dj_id job, DDownloading) \<in> set (outline s))"

definition pending_count :: "url_store \<Rightarrow> nat" where
  "pending_count s = queued_count s + (if ds_pc s = DIdle then 0 else 1)"

lemma download_turn_outline:
  assumes "between_downloads s" and "distinct (map dj_id (ds_jobs s))"
  shows "working (download_turn now s) \<and> pending_count (download_turn now s) = queued_count s \<and>
    (outline (download_turn now s) = outline s \<or>
     (\<exists>job. ds_pc (download_turn now s) = DSubmit job \<and>
        outline (download_turn now s) = set_status (dj_id job) DDownloading (outline s)))"
proof (cases "find (\<lambda>j. dj_status j = DQueued) (ds_jobs s)")
  case None
  then have q: "queued_count s = 0"
    by (auto simp: queued_count_def outline_def find_None_iff filter_empty_conv)
  from assms(1) have "find (\<lambda>j. dj_status j = DDownloading \<and> truthy (dj_entryId j)) (ds_jobs s) = None"
    by (auto simp: find_None_iff between_downloads_def)
  with None have "download_turn now s = finish_downloads now s"
    by (simp add: download_turn_def poll_turn_def)
  with q show ?thesis
    by (simp add: working_def pending_count_def queued_count_def outline_def store_simps)
next
  case (Some job)
  then have job: "job \<in> set (ds_jobs s)" "dj_status job = DQueued" by (auto simp: find_Some_iff)
  let ?t = "download_turn now s"
  have ol: "outline ?t = set_status (dj_id job) DDownloading (outline s)"
    and pc: "ds_pc ?t = DSubmit job"
    using Some outline_update [of "\<lambda>j. j\<lparr>dj_status := DDownloading, dj_progress := Fin (- 1),
        dj_error := None\<rparr>" DDownloading "dj_id job" s]
    by (simp_all add: download_turn_def outline_def)
  have mem: "(dj_id job, DQueued) \<in> set (outline s)"
    using job by (auto simp: outline_def)
  have "queued_count ?t = queued_count s - 1"
    using queued_set_status [of "outline s" "dj_id job" DQueued DDownloading] assms(2) mem
    by (simp add: queued_count_def ol outline_ids)
  moreover have "0 < queued_count s"
    using mem by (auto simp: queued_count_def length_greater_0_conv filter_empty_conv)
  ultimately have "pending_count ?t = queued_count s" by (simp add: pending_count_def pc)
  moreover have "working ?t" using pc ol mem by (auto simp: working_def set_status_set)
  ultimately show ?thesis using pc ol by blast
qed

subsection \<open>One URL from its submission to its end\<close>

text \<open>What serving the job \<open>i\<close> amounts to: the job is settled, then the runner takes a turn.\<close>

definition serves :: "(nat \<Rightarrow> string) \<Rightarrow> string \<Rightarrow> url_store \<Rightarrow> url_store \<Rightarrow> bool" where
  "serves uuid i s t \<longleftrightarrow> (\<exists>q now st. t = download_turn now q \<and> urls_data_ok uuid q \<and>
     between_downloads q \<and> w_job ` set (ds_waiters q) \<subseteq> drawn_urls uuid q \<and>
     settled st \<and> outline q = set_status i st (outline s))"

lemma refused_serves:
  assumes "url_inv uuid s" and pc: "ds_pc s = DSubmit job"
  shows "serves uuid (dj_id job) s
    (submit_answer now (Some [\<lparr>sr_ok = False, sr_reason = m, sr_entryId = None\<rparr>]) job s)"
proof -
  let ?m = "case m of None \<Rightarrow> ''request failed'' | Some r \<Rightarrow> r"
  let ?q = "update_url (dj_id job)
     (\<lambda>j. j\<lparr>dj_status := DFailed, dj_error := Some ?m, dj_finishedAt := Some now\<rparr>) s"
  have "between_downloads ?q"
    using assms
    by (auto simp: url_inv_def runner_ok_def between_downloads_def store_simps set_update_where
        job_fits_def current_job_def)
  moreover have "urls_data_ok uuid ?q"
    by (rule data_update_url [OF data_of_inv [OF assms(1)]]) (auto simp: url_job_ok_def)
  moreover have "outline ?q = set_status (dj_id job) DFailed (outline s)"
    by (rule outline_update) simp_all
  moreover have "w_job ` set (ds_waiters ?q) \<subseteq> drawn_urls uuid ?q"
    using assms(1) by (simp add: url_inv_def runner_ids_ok_def store_simps)
  ultimately show ?thesis
    unfolding serves_def settled_def submit_answer_def
    by (intro exI [of _ ?q] exI [of _ now] exI [of _ DFailed]) simp
qed

text \<open>The runner waits for waiter \<open>w\<close> of job \<open>i\<close>, whose entry is \<open>eid\<close>.\<close>

definition waiting :: "(nat \<Rightarrow> string) \<Rightarrow> nat \<Rightarrow> string \<Rightarrow> string \<Rightarrow> url_store \<Rightarrow> bool" where
  "waiting uuid w eid i s \<longleftrightarrow> url_inv uuid s \<and> ds_pc s = DWait w \<and> w < length (ds_waiters s) \<and>
     ds_waiters s ! w = \<lparr>w_publicId = Some eid, w_job = i, w_timer = True\<rparr>"

lemma accepted_waits:
  assumes "url_inv uuid s" and pc: "ds_pc s = DSubmit job"
  shows "waiting uuid (length (ds_waiters s)) eid (dj_id job)
      (submit_answer now (Some [\<lparr>sr_ok = True, sr_reason = None, sr_entryId = Some eid\<rparr>]) job s)"
    (is "waiting _ _ _ _ ?t")
    and "outline (submit_answer now (Some [\<lparr>sr_ok = True, sr_reason = None, sr_entryId = Some eid\<rparr>]) job s)
      = outline s"
proof -
  show "waiting uuid (length (ds_waiters s)) eid (dj_id job) ?t"
    using inv_submit_answer [OF assms]
    by (simp add: waiting_def) (simp add: submit_answer_def waitForEntry_def send_patch_def store_simps)
  show "outline ?t = outline s"
    using outline_update_same [of "\<lambda>j. j\<lparr>dj_entryId := Some eid\<rparr>" "dj_id job" s]
    by (simp add: submit_answer_def waitForEntry_def send_patch_def outline_def)
qed

lemma inv_tick_answer:
  assumes "waiting uuid w eid i s"
  shows "url_inv uuid (list_answer w a (tick w s))"
  using assms by (intro inv_list_answer inv_tick) (auto simp: waiting_def tick_def)

lemma report_waits:
  assumes "waiting uuid w eid i s"
  shows "waiting uuid w eid i (list_answer w (Some [\<lparr>dr_publicId = eid, dr_bytes = b, dr_totalBytes = m\<rparr>]) (tick w s))
    \<and> outline (list_answer w (Some [\<lparr>dr_publicId = eid, dr_bytes = b, dr_totalBytes = m\<rparr>]) (tick w s)) = outline s"
proof
  let ?t = "list_answer w (Some [\<lparr>dr_publicId = eid, dr_bytes = b, dr_totalBytes = m\<rparr>]) (tick w s)"
  show "waiting uuid w eid i (list_answer w (Some [\<lparr>dr_publicId = eid, dr_bytes = b, dr_totalBytes = m\<rparr>]) (tick w s))"
    unfolding waiting_def
  proof (intro conjI inv_tick_answer [OF assms])
    show "ds_pc ?t = DWait w" "w < length (ds_waiters ?t)"
      "ds_waiters ?t ! w = \<lparr>w_publicId = Some eid, w_job = i, w_timer = True\<rparr>"
      using assms by (simp_all add: waiting_def list_answer_def Let_def tick_def store_simps)
  qed
  have w: "w_publicId (ds_waiters s ! w) = Some eid" using assms by (simp add: waiting_def)
  have "outline (update_url k (\<lambda>j. j\<lparr>dj_progress := p\<rparr>) t) = outline t" for k p t
    by (rule outline_update_same) simp_all
  then show "outline (list_answer w (Some [\<lparr>dr_publicId = eid, dr_bytes = b, dr_totalBytes = m\<rparr>]) (tick w s)) = outline s"
    by (simp add: list_answer_def Let_def tick_def w) (simp add: outline_def)
qed

lemma reports_wait:
  "waiting uuid w eid i s \<Longrightarrow>
   waiting uuid w eid i (run_urls uuid (reports w now eid rs) s) \<and>
   outline (run_urls uuid (reports w now eid rs) s) = outline s"
proof (induction rs arbitrary: s)
  case (Cons r rs)
  obtain b m where r: "r = (b, m)" by (cases r)
  from report_waits [OF Cons.prems, of b m] Cons.IH show ?case by (simp add: r)
qed simp

lemma gone_serves:
  assumes wt: "waiting uuid w eid i s"
  shows "serves uuid i s (run_urls uuid
    [(now, Tick w), (now, ListAnswer w (Some [])), (now, EntryAnswer w (Some entry))] s)"
proof -
  let ?l = "list_answer w (Some []) (tick w s)"
  have inv: "url_inv uuid ?l" by (rule inv_tick_answer [OF wt])
  have l: "ds_pc ?l = DWait w" "w < length (ds_waiters ?l)" "w_job (ds_waiters ?l ! w) = i"
    "ds_inPollLoop ?l = ds_inPollLoop s" "outline ?l = outline s" "(w, AskEntry) \<in> set (ds_polls ?l)"
    using wt by (simp_all add: waiting_def list_answer_def Let_def tick_def clear_timer_def outline_def)
  let ?s = "?l\<lparr>ds_polls := remove1 (w, AskEntry) (ds_polls ?l)\<rparr>"
  have inv': "url_inv uuid ?s" by (rule inv_drop_poll [OF inv])
  have main: "serves uuid i s (resolve_waiter now w (update_url i f ?s))"
    if f: "\<And>j. dj_id (f j) = dj_id j" "\<And>j. dj_url (f j) = dj_url j" "\<And>j. dj_status (f j) = st"
      "settled st" "\<And>j. url_job_ok (f j)" for f st
  proof -
    let ?q = "update_url i f ?s"
    have "between_downloads ?q"
      using between_after_wait [OF inv', of w f] f l by (auto simp: settled_def)
    moreover have "urls_data_ok uuid ?q"
      by (rule data_update_url [OF data_of_inv [OF inv']]) (simp_all add: f)
    moreover have "outline ?s = outline s" using l(5) by (simp add: outline_def)
    then have "outline ?q = set_status i st (outline s)"
      using outline_update [of f st i ?s] f by simp
    moreover have "w_job ` set (ds_waiters ?q) \<subseteq> drawn_urls uuid ?q"
      using inv' by (simp add: url_inv_def runner_ids_ok_def store_simps)
    moreover have "\<not> ds_inPollLoop s" using wt by (simp add: waiting_def url_inv_def runner_ok_def)
    then have "resolve_waiter now w ?q = download_turn now ?q"
      using l by (simp add: resolve_waiter_def store_simps)
    ultimately show ?thesis using f(4) unfolding serves_def by metis
  qed
  show ?thesis
  proof (cases "ea_status entry = ''failed''")
    case True
    with l(3) show ?thesis
      using main [of _ DFailed] by (simp add: entry_answer_def Let_def settled_def url_job_ok_def)
  next
    case False
    with l(3) show ?thesis
      using main [of _ DDone] by (simp add: entry_answer_def Let_def settled_def url_job_ok_def)
  qed
qed

lemma serves_outline: "serves uuid i s t \<Longrightarrow> outline s' = outline s \<Longrightarrow> serves uuid i s' t"
  by (simp add: serves_def)

lemma serve_serves:
  assumes inv: "url_inv uuid s" and pc: "ds_pc s = DSubmit job"
  shows "serves uuid (dj_id job) s (serve uuid x s)"
proof -
  obtain now f where x: "x = (now, f)" by (cases x)
  show ?thesis
  proof (cases f)
    case (Refused m)
    with x pc refused_serves [OF assms] show ?thesis by (simp add: serve_def)
  next
    case (Fetched eid rs entry)
    let ?w = "length (ds_waiters s)"
    let ?a = "submit_answer now (Some [\<lparr>sr_ok = True, sr_reason = None, sr_entryId = Some eid\<rparr>]) job s"
    have rw: "waiting uuid ?w eid (dj_id job) (run_urls uuid (reports ?w now eid rs) ?a)"
      and ol: "outline (run_urls uuid (reports ?w now eid rs) ?a) = outline s"
      using reports_wait [OF accepted_waits(1) [OF assms]] accepted_waits(2) [OF assms] by simp_all
    from gone_serves [OF rw] have "serves uuid (dj_id job) s (run_urls uuid
        [(now, Tick ?w), (now, ListAnswer ?w (Some [])), (now, EntryAnswer ?w (Some entry))]
        (run_urls uuid (reports ?w now eid rs) ?a))"
      by (rule serves_outline) (simp add: ol)
    then show ?thesis by (simp add: serve_def x Fetched pc)
  qed
qed

subsection \<open>The whole queue\<close>

text \<open>The jobs that were queued at the start: still queued, settled, or being served.\<close>

definition on_track :: "string set \<Rightarrow> url_store \<Rightarrow> bool" where
  "on_track qs s \<longleftrightarrow> (\<forall>i \<in> qs. \<exists>st. (i, st) \<in> set (outline s) \<and>
     (st = DQueued \<or> settled st \<or> (\<exists>job. ds_pc s = DSubmit job \<and> dj_id job = i)))"

lemma turn_on_track:
  assumes b: "between_downloads q" and d: "urls_data_ok uuid q"
    and q: "\<forall>i \<in> qs. \<exists>st. (i, st) \<in> set (outline q) \<and> (st = DQueued \<or> settled st)"
  shows "working (download_turn now q) \<and> pending_count (download_turn now q) = queued_count q \<and>
    on_track qs (download_turn now q) \<and>
    map fst (outline (download_turn now q)) = map fst (outline q)"
proof -
  have "distinct (map dj_id (ds_jobs q))" using d by (simp add: urls_data_ok_def url_jobs_ok_def)
  note turn = download_turn_outline [OF b this, of now]
  then have "on_track qs (download_turn now q)"
    using q unfolding on_track_def
    by (elim conjE disjE exE) (metis, metis set_status_set)
  with turn show ?thesis by auto
qed

lemma serve_progress:
  assumes inv: "url_inv uuid s" and w: "working s" and track: "on_track qs s"
  shows "url_inv uuid (serve uuid x s) \<and> working (serve uuid x s) \<and> on_track qs (serve uuid x s) \<and>
    pending_count (serve uuid x s) = pending_count s - 1 \<and>
    map fst (outline (serve uuid x s)) = map fst (outline s)"
proof (cases "ds_pc s")
  case DIdle
  with assms show ?thesis by (simp add: serve_def pending_count_def working_def)
next
  case (DSubmit job)
  from serve_serves [OF inv DSubmit, of x] obtain q now st where
    eq: "serve uuid x s = download_turn now q" and q: "urls_data_ok uuid q" "between_downloads q"
      "w_job ` set (ds_waiters q) \<subseteq> drawn_urls uuid q" "settled st"
    and ol: "outline q = set_status (dj_id job) st (outline s)"
    unfolding serves_def by blast
  have "\<forall>i \<in> qs. \<exists>st. (i, st) \<in> set (outline q) \<and> (st = DQueued \<or> settled st)"
  proof
    fix i assume "i \<in> qs"
    with track DSubmit obtain y where "(i, y) \<in> set (outline s)"
        "i = dj_id job \<or> y = DQueued \<or> settled y" by (auto simp: on_track_def)
    with q(4) show "\<exists>st. (i, st) \<in> set (outline q) \<and> (st = DQueued \<or> settled st)"
      by (auto simp: ol set_status_set)
  qed
  note turn = turn_on_track [OF q(2,1) this, of now]
  have mem: "(dj_id job, DDownloading) \<in> set (outline s)" using w DSubmit by (simp add: working_def)
  have "distinct (map fst (outline s))"
    using inv by (simp add: outline_ids url_inv_def urls_data_ok_def url_jobs_ok_def)
  then have "queued_count q = queued_count s"
    using queued_set_status [OF _ mem, of st] q(4)
    by (auto simp: queued_count_def ol settled_def)
  with turn show ?thesis
    using inv_download_turn [OF q(1,2,3)] by (simp add: eq pending_count_def DSubmit ol)
qed (use w in \<open>simp_all add: working_def\<close>)

lemma serve_all:
  assumes "url_inv uuid s" and "working s" and "on_track qs s" and "pending_count s \<le> length xs"
  shows "url_inv uuid (fold (serve uuid) xs s) \<and> working (fold (serve uuid) xs s) \<and> on_track qs (fold (serve uuid) xs s) \<and>
    pending_count (fold (serve uuid) xs s) = 0 \<and>
    map fst (outline (fold (serve uuid) xs s)) = map fst (outline s)"
  using assms
proof (induction xs arbitrary: s)
  case (Cons x xs)
  from serve_progress [OF Cons.prems(1,2,3), of x] Cons.prems(4) Cons.IH [of "serve uuid x s"]
  show ?case by simp
qed simp

text \<open>C8: Started on any queue, with a server that answers each submission by a refusal or by
  an entry that it fetches, the runner ends after at most one such answer per queued job;
  then it is at rest, no job is queued, and every job that was queued is done or failed.\<close>

theorem downloads_drain:
  assumes "url_reach uuid s" and "inj uuid" and "\<not> ds_polling s"
    and "queued_count s \<le> length answers"
    and "t = fold (serve uuid) answers (startDownloads now s)"
  shows "ds_pc t = DIdle \<and> \<not> ds_polling t \<and> map dj_id (ds_jobs t) = map dj_id (ds_jobs s) \<and>
    (\<forall>j \<in> set (ds_jobs s). dj_status j = DQueued \<longrightarrow>
       (\<exists>j' \<in> set (ds_jobs t). dj_id j' = dj_id j \<and> (dj_status j' = DDone \<or> dj_status j' = DFailed)))"
proof -
  let ?s = "s\<lparr>ds_polling := True\<rparr>" and ?qs = "{dj_id j |j. j \<in> set (ds_jobs s) \<and> dj_status j = DQueued}"
  have inv: "url_inv uuid s" using assms(1,2) by (rule url_reach_inv)
  have b: "between_downloads ?s" and d: "urls_data_ok uuid ?s"
    using between_start [OF inv assms(3)] inv by (auto simp: url_inv_def intro: data_frame)
  have eq: "startDownloads now s = download_turn now ?s" using assms(3) by (simp add: startDownloads_def)
  have "\<forall>i \<in> ?qs. \<exists>st. (i, st) \<in> set (outline ?s) \<and> (st = DQueued \<or> settled st)"
    by (force simp: outline_def)
  note turn = turn_on_track [OF b d this, of now, folded eq]
  have "queued_count ?s = queued_count s" "outline ?s = outline s"
    by (simp_all add: queued_count_def outline_def)
  with serve_all [OF inv_startDownloads [OF inv], of now ?qs answers] turn assms(4,5)
  have fin: "url_inv uuid t" "working t" "on_track ?qs t" "pending_count t = 0"
    and ids: "map fst (outline t) = map fst (outline s)" by simp_all
  then have pc: "ds_pc t = DIdle" and q0: "queued_count t = 0"
    by (auto simp: pending_count_def split: if_splits)
  have "\<not> ds_polling t" using fin(1) pc by (simp add: url_inv_def runner_ok_def)
  moreover have "\<exists>j' \<in> set (ds_jobs t). dj_id j' = dj_id j \<and> (dj_status j' = DDone \<or> dj_status j' = DFailed)"
    if "j \<in> set (ds_jobs s)" "dj_status j = DQueued" for j
  proof -
    from fin(3) that pc obtain st where st: "(dj_id j, st) \<in> set (outline t)" "st = DQueued \<or> settled st"
      by (auto simp: on_track_def)
    moreover from q0 have "(dj_id j, DQueued) \<notin> set (outline t)"
      by (auto simp: queued_count_def filter_empty_conv)
    ultimately have "settled st" by auto
    with st(1) show ?thesis by (auto simp: outline_def settled_def)
  qed
  ultimately show ?thesis using pc ids by (simp add: outline_ids)
qed

definition checked_run :: "(int \<times> url_event) list" where
  "checked_run = [(2, CheckAnswer [found ''a.mp4'', found ''b.mp4'', found ''c.mp4''])]"

definition server_answers :: "(int \<times> fetch) list" where
  "server_answers = [(3, Fetched ''e1'' [(1, 4), (3, 4)] \<lparr>ea_status = ''ready'', ea_error = None\<rparr>),
     (4, Refused (Some ''no space'')),
     (5, Fetched ''e3'' [] \<lparr>ea_status = ''failed'', ea_error = None\<rparr>)]"

lemma checked_run_ok:
  "enabled_urls url_uuid checked_run first_load_urls"
  "\<not> ds_polling (run_urls url_uuid checked_run first_load_urls)"
  "queued_count (run_urls url_uuid checked_run first_load_urls) \<le> length server_answers"
  "map dj_status (ds_jobs (fold (serve url_uuid) server_answers
     (startDownloads 3 (run_urls url_uuid checked_run first_load_urls)))) = [DDone, DFailed, DFailed]"
  by code_simp+

theorem downloads_drain_witness:
  "ds_pc (fold (serve url_uuid) server_answers
     (startDownloads 3 (run_urls url_uuid checked_run first_load_urls))) = DIdle \<and>
   map dj_status (ds_jobs (fold (serve url_uuid) server_answers
     (startDownloads 3 (run_urls url_uuid checked_run first_load_urls)))) = [DDone, DFailed, DFailed]"
  using downloads_drain [OF reach_urls_from_load [OF checked_run_ok(1)] inj_url_uuid
      checked_run_ok(2,3) refl] checked_run_ok(4) by blast

end
