(* ===== verification/View.thy ===== *)
theory View
  imports JsNum
begin

text \<open>
  What a component renders: a tree of elements with their properties and children, as the
  JSX of the source has them, without the class names and icons' drawing.  A handler is the
  event it reports to the component's state; an input's handler takes the text typed.

  The events a user can cause are the handlers of the elements that are not disabled.
\<close>

datatype 'e attr =
    AText string
  | ABool bool
  | ANum jnum
  | AEvent 'e
  | AInput "string \<Rightarrow> 'e"

datatype 'e node =
    Txt string
  | El string "(string \<times> 'e attr) list" "'e node list"

text \<open>\<open>{c ? node : null}\<close> and \<open>{c && node}\<close>.\<close>

definition show_if :: "bool \<Rightarrow> 'e node \<Rightarrow> 'e node list" where
  "show_if c v = (if c then [v] else [])"

lemma show_if_simps [simp]: "show_if True v = [v]" "show_if False v = []"
  by (simp_all add: show_if_def)

lemma set_show_if [simp]: "set (show_if c v) = (if c then {v} else {})"
  by (simp add: show_if_def)

definition is_disabled :: "(string \<times> 'e attr) list \<Rightarrow> bool" where
  "is_disabled as \<longleftrightarrow> (case map_of as ''disabled'' of Some (ABool b) \<Rightarrow> b | _ \<Rightarrow> False)"

fun attr_events :: "(string \<times> 'e attr) list \<Rightarrow> 'e list" where
  "attr_events [] = []"
| "attr_events ((k, AEvent e) # as) = e # attr_events as"
| "attr_events (a # as) = attr_events as"

text \<open>The events of the enabled elements; a disabled element reports nothing.\<close>

fun node_events :: "'e node \<Rightarrow> 'e list" where
  "node_events (Txt s) = []"
| "node_events (El tag as vs) =
     (if is_disabled as then [] else attr_events as) @ concat (map node_events vs)"

definition can_cause :: "'e node \<Rightarrow> 'e \<Rightarrow> bool" where
  "can_cause v e \<longleftrightarrow> e \<in> set (node_events v)"

text \<open>The text a user reads.\<close>

fun node_text :: "'e node \<Rightarrow> string list" where
  "node_text (Txt s) = [s]"
| "node_text (El tag as vs) = concat (map node_text vs)"

fun node_tags :: "'e node \<Rightarrow> string list" where
  "node_tags (Txt s) = []"
| "node_tags (El tag as vs) = tag # concat (map node_tags vs)"

text \<open>The first element of a tag with a given property.\<close>

fun find_el :: "((string \<times> 'e attr) list \<Rightarrow> bool) \<Rightarrow> string \<Rightarrow> 'e node \<Rightarrow> (string \<times> 'e attr) list list" where
  "find_el p tag (Txt s) = []"
| "find_el p tag (El tg as vs) = (if tg = tag \<and> p as then [as] else []) @ concat (map (find_el p tag) vs)"

end
