(* ===== verification/SingleFlight.thy ===== *)
theory SingleFlight
  imports Prelude
begin

text \<open>
  A request that concurrent callers share: whoever needs it joins the one in flight, or sends
  it when none is.  \<open>tryRefresh\<close> of the API client and \<open>getSiteConfig\<close> both follow this
  pattern with a module variable that holds the promise or null.
\<close>

locale single_flight =
  fixes busy :: "'s \<Rightarrow> bool"
    and sent :: "'s \<Rightarrow> nat"
    and wants :: "'c \<Rightarrow> 's \<Rightarrow> bool"
    and join :: "'c \<Rightarrow> 's \<Rightarrow> 's"
    and settle :: "'a \<Rightarrow> 's \<Rightarrow> 's"
  assumes join_busy: "wants c s \<Longrightarrow> busy s \<Longrightarrow> busy (join c s) \<and> sent (join c s) = sent s"
    and join_idle: "wants c s \<Longrightarrow> \<not> busy s \<Longrightarrow> busy (join c s) \<and> sent (join c s) = Suc (sent s)"
    and join_not: "\<not> wants c s \<Longrightarrow> busy (join c s) = busy s \<and> sent (join c s) = sent s"
    and wants_join: "wants d (join c s) = wants d s"
    and settle_idle: "\<not> busy (settle a s) \<and> sent (settle a s) = sent s"
begin

lemma join_sent:
  "sent (join c s) = sent s + (if wants c s \<and> \<not> busy s then 1 else 0)"
  "busy (join c s) \<longleftrightarrow> wants c s \<or> busy s"
  using join_busy [of c s] join_idle [of c s] join_not [of c s] by auto

lemma joins:
  "sent (fold join cs s) = sent s + (if list_ex (\<lambda>c. wants c s) cs \<and> \<not> busy s then 1 else 0)"
  "busy (fold join cs s) \<longleftrightarrow> list_ex (\<lambda>c. wants c s) cs \<or> busy s"
  by (induction cs arbitrary: s) (auto simp: join_sent wants_join)

text \<open>Any number of callers that come while nothing is in flight send one request together.\<close>

lemma one_request:
  assumes "\<not> busy s" and "c \<in> set cs" and "wants c s"
  shows "sent (fold join cs s) = Suc (sent s)"
proof -
  have "list_ex (\<lambda>c. wants c s) cs" using assms(2,3) by (auto simp: list_ex_iff)
  with assms(1) show ?thesis by (simp add: joins)
qed

text \<open>Callers that come while a request is in flight, and its end, send nothing.\<close>

lemma no_request: "busy s \<Longrightarrow> sent (settle a (fold join cs s)) = sent s"
  by (simp add: settle_idle joins)

end

end
