(* ===== verification/SiteConfig.thy ===== *)
theory SiteConfig
  imports Storage SingleFlight
begin

text \<open>
  The public site configuration, \<open>web/lib/site-config.ts\<close>: a cache in \<open>localStorage\<close> that is
  fresh for five minutes, one request that concurrent callers share, and the two hooks that
  show the site's name and the app's version.
\<close>

record site_config =
  sc_siteName :: string
  sc_defaultLang :: string
  sc_libraryMode :: string
  sc_version :: string

text \<open>What the cache key may hold: an entry, or anything else, which is ignored.\<close>

datatype site_stored = CacheEntry site_config int | CacheJunk string

definition CACHE_KEY :: string where "CACHE_KEY = ''vidsilo-site-config''"

definition CACHE_TTL_MS :: int where "CACHE_TTL_MS = 5 * 60 * 1000"

definition default_site :: site_config where
  "default_site = \<lparr>sc_siteName = ''Vidsilo'', sc_defaultLang = ''en'', sc_libraryMode = ''disabled'',
     sc_version = []\<rparr>"

definition cachedSiteConfig :: "bool \<Rightarrow> int \<Rightarrow> site_stored local_storage \<Rightarrow> site_config option" where
  "cachedSiteConfig browser now ls =
     (if \<not> browser then None
      else case get_item ls CACHE_KEY of
          Inl _ \<Rightarrow> None
        | Inr None \<Rightarrow> None
        | Inr (Some (CacheJunk _)) \<Rightarrow> None
        | Inr (Some (CacheEntry cfg ts)) \<Rightarrow> if now - ts < CACHE_TTL_MS then Some cfg else None)"

text \<open>
  The module: the storage, the promise \<open>inFlight\<close>, the number of requests sent, the callers
  that await the promise, and what each caller got (\<open>None\<close> for a rejection).
\<close>

record site =
  st_ls :: "site_stored local_storage"
  st_inFlight :: bool
  st_sent :: nat
  st_waiting :: "nat list"
  st_results :: "(nat \<times> site_config option) list"

definition getSiteConfig :: "bool \<Rightarrow> int \<times> nat \<Rightarrow> site \<Rightarrow> site" where
  "getSiteConfig browser call s =
     (case call of (now, caller) \<Rightarrow>
        if \<not> browser then s\<lparr>st_results := st_results s @ [(caller, Some default_site)]\<rparr>
        else (case cachedSiteConfig browser now (st_ls s) of
            Some cfg \<Rightarrow> s\<lparr>st_results := st_results s @ [(caller, Some cfg)]\<rparr>
          | None \<Rightarrow>
              (let s1 = (if st_inFlight s then s
                         else s\<lparr>st_inFlight := True, st_sent := Suc (st_sent s)\<rparr>)
               in s1\<lparr>st_waiting := st_waiting s @ [caller]\<rparr>)))"

text \<open>
  The request ends at time \<open>now\<close>: with data, or with \<open>None\<close> for a network error, a status that
  is not ok, or a body that is not JSON.
\<close>

definition site_answer :: "int \<times> site_config option \<Rightarrow> site \<Rightarrow> site" where
  "site_answer answer s =
     (case answer of (now, data) \<Rightarrow>
        s\<lparr>st_ls := (case data of
              Some cfg \<Rightarrow> try_ignore (set_item CACHE_KEY (CacheEntry cfg now)) (st_ls s)
            | None \<Rightarrow> st_ls s),
          st_inFlight := False, st_waiting := [],
          st_results := st_results s @ map (\<lambda>c. (c, data)) (st_waiting s)\<rparr>)"

text \<open>The two hooks: what a component shows after the promise it started has ended.\<close>

definition useSiteName :: "bool \<Rightarrow> site_config option \<Rightarrow> string \<Rightarrow> string" where
  "useSiteName alive result shown =
     (case result of
        Some cfg \<Rightarrow> if alive \<and> sc_siteName cfg \<noteq> [] then sc_siteName cfg else shown
      | None \<Rightarrow> shown)"

definition useAppVersion :: "bool \<Rightarrow> site_config option \<Rightarrow> string \<Rightarrow> string" where
  "useAppVersion alive result shown =
     (case result of
        Some cfg \<Rightarrow> if alive then sc_version cfg else shown
      | None \<Rightarrow> shown)"

subsection \<open>One request at a time\<close>

definition needs_request :: "int \<times> nat \<Rightarrow> site \<Rightarrow> bool" where
  "needs_request call s \<longleftrightarrow> cachedSiteConfig True (fst call) (st_ls s) = None"

interpretation site_request: single_flight st_inFlight st_sent needs_request "getSiteConfig True" site_answer
  by unfold_locales
    (auto simp: Let_def getSiteConfig_def needs_request_def site_answer_def split: option.split prod.split)

lemma getSiteConfig_ls [simp]: "st_ls (fold (getSiteConfig b) calls s) = st_ls s"
  by (induction calls arbitrary: s)
    (auto simp: Let_def getSiteConfig_def split: option.split prod.split)

subsection \<open>The cache\<close>

lemma cached_after_answer:
  assumes "ls_readable ls" and "ls_writable ls"
  shows "cachedSiteConfig True now (try_ignore (set_item CACHE_KEY (CacheEntry cfg t)) ls) =
    (if now - t < CACHE_TTL_MS then Some cfg else None)"
  using assms by (simp add: cachedSiteConfig_def try_ignore_def set_item_def get_item_def)

text \<open>Any number of callers that find no fresh cache send one request; when it is answered
  all of them get the answer, and with working storage every call in the next five minutes is
  served from the cache without a request, and the first one after that sends a request.\<close>

theorem site_config_cached:
  assumes "\<not> st_inFlight s" and "st_waiting s = []" and "calls \<noteq> []"
    and "list_all (\<lambda>c. needs_request c s) calls"
    and "ls_readable (st_ls s)" and "ls_writable (st_ls s)"
    and "s' = site_answer (t, Some cfg) (fold (getSiteConfig True) calls s)"
  shows "st_sent s' = Suc (st_sent s) \<and>
    st_results s' = st_results s @ map (\<lambda>(now, c). (c, Some cfg)) calls \<and>
    (now - t < CACHE_TTL_MS \<longrightarrow>
       st_sent (getSiteConfig True (now, k) s') = st_sent s' \<and>
       st_results (getSiteConfig True (now, k) s') = st_results s' @ [(k, Some cfg)]) \<and>
    (CACHE_TTL_MS \<le> now - t \<longrightarrow> st_sent (getSiteConfig True (now, k) s') = Suc (st_sent s'))"
proof -
  let ?f = "fold (getSiteConfig True) calls s"
  have wait: "st_waiting (fold (getSiteConfig True) cs u) = st_waiting u @ map snd cs \<and>
      st_results (fold (getSiteConfig True) cs u) = st_results u"
    if "list_all (\<lambda>c. needs_request c u) cs" for cs u
    using that
  proof (induction cs arbitrary: u)
    case (Cons c cs)
    then have "list_all (\<lambda>c. needs_request c (getSiteConfig True c' u)) cs" for c'
      by (simp add: site_request.wants_join)
    with Cons show ?case
      by (cases c) (auto simp: Let_def getSiteConfig_def needs_request_def)
  qed simp
  from assms(3,4) obtain c cs where "calls = c # cs" "needs_request c s" by (cases calls) auto
  with site_request.one_request [OF assms(1), of c calls] have sent: "st_sent ?f = Suc (st_sent s)"
    by simp
  have ls: "st_ls s' = try_ignore (set_item CACHE_KEY (CacheEntry cfg t)) (st_ls s)"
    by (simp add: assms(7) site_answer_def)
  have idle: "\<not> st_inFlight s'" by (simp add: assms(7) site_answer_def)
  show ?thesis
    using sent wait [OF assms(4)] assms(2) cached_after_answer [OF assms(5,6), of now cfg t] ls idle
    by (auto simp: Let_def assms(7) site_answer_def getSiteConfig_def comp_def case_prod_unfold)
qed

definition empty_site :: site where
  "empty_site = \<lparr>st_ls = empty_storage, st_inFlight = False, st_sent = 0, st_waiting = [], st_results = []\<rparr>"

theorem site_config_cached_witness:
  "st_sent (site_answer (100, Some default_site)
     (fold (getSiteConfig True) [(90, 1), (95, 2)] empty_site)) = 1"
proof -
  have "list_all (\<lambda>c. needs_request c empty_site) [(90, 1), (95, 2)]"
    by (simp add: needs_request_def cachedSiteConfig_def empty_site_def empty_storage_def get_item_def)
  from site_config_cached [OF _ _ _ this, of _ 100 default_site 200 3] show ?thesis
    by (simp add: empty_site_def empty_storage_def)
qed

end
