(* ===== verification/I18n.thy ===== *)
theory I18n
  imports JsNum SiteConfig
begin

text \<open>
  The text helper of \<open>web/lib/i18n.tsx\<close>: \<open>t(key, vars)\<close> looks a message up and replaces each
  placeholder \<open>{k}\<close> by the value of \<open>k\<close>, with an automatic plural \<open>s\<close>; and the locale of
  the provider.  The messages themselves are in \<open>Messages\<close>.

  \<open>replaceAll\<close> with a string pattern is modelled as the language defines it: the
  occurrences are found from left to right without overlap, and in the replacement the
  sequences \<open>$$\<close>, \<open>$&\<close>, \<open>$`\<close> and \<open>$'\<close> stand for a dollar, the match, and what precedes
  and follows it.
\<close>

subsection \<open>replaceAll\<close>

abbreviation quote_char :: char where "quote_char \<equiv> CHR 0x27"

fun expand_dollars :: "string \<Rightarrow> string \<Rightarrow> string \<Rightarrow> string \<Rightarrow> string" where
  "expand_dollars m before after [] = []"
| "expand_dollars m before after [c] = [c]"
| "expand_dollars m before after (c # d # r) =
     (if c \<noteq> CHR ''$'' then c # expand_dollars m before after (d # r)
      else if d = CHR ''$'' then CHR ''$'' # expand_dollars m before after r
      else if d = CHR ''&'' then m @ expand_dollars m before after r
      else if d = CHR 0x60 then before @ expand_dollars m before after r
      else if d = quote_char then after @ expand_dollars m before after r
      else c # expand_dollars m before after (d # r))"

text \<open>The pattern is not empty; \<open>before\<close> is the part of the subject already passed.\<close>

function replace_from :: "string \<Rightarrow> string \<Rightarrow> string \<Rightarrow> string \<Rightarrow> string" where
  "replace_from p r before [] = []"
| "replace_from p r before (c # s) =
     (if p \<noteq> [] \<and> starts_with (c # s) p
      then expand_dollars p before (drop (length p) (c # s)) r @
           replace_from p r (before @ p) (drop (length p) (c # s))
      else c # replace_from p r (before @ [c]) s)"
  by pat_completeness auto

termination
proof (relation "measure (\<lambda>(p, r, before, s). length s)")
  fix p r before :: string and c :: char and s :: string
  assume "p \<noteq> [] \<and> starts_with (c # s) p"
  then show "((p, r, before @ p, drop (length p) (c # s)), p, r, before, c # s)
    \<in> measure (\<lambda>(p, r, before, s). length s)"
    by (cases p) auto
qed auto

definition replace_all :: "string \<Rightarrow> string \<Rightarrow> string \<Rightarrow> string" where
  "replace_all p r s = replace_from p r [] s"

subsection \<open>The text function\<close>

text \<open>The value of a variable: a string, or a number with \<open>String(n)\<close> as its text.\<close>

datatype var_value = VText string | VNat nat

definition var_text :: "var_value \<Rightarrow> string" where
  "var_text v = (case v of VText s \<Rightarrow> s | VNat n \<Rightarrow> dec n)"

definition var_number :: "var_value \<Rightarrow> jnum" where
  "var_number v = (case v of VText s \<Rightarrow> js_number s | VNat n \<Rightarrow> num_of_nat n)"

type_synonym vars = "(string \<times> var_value) list"

definition plural_suffix :: "var_value \<Rightarrow> string" where
  "plural_suffix n = (if jeq (var_number n) (Fin 1) then [] else ''s'')"

definition enriched_vars :: "vars \<Rightarrow> vars" where
  "enriched_vars vs =
     (case map_of vs ''n'' of
        Some n \<Rightarrow> if map_of vs ''s'' = None then vs @ [(''s'', VText (plural_suffix n))] else vs
      | None \<Rightarrow> vs)"

definition placeholder :: "string \<Rightarrow> string" where
  "placeholder k = ''{'' @ k @ ''}''"

definition interpolate :: "vars \<Rightarrow> string \<Rightarrow> string" where
  "interpolate vs msg = fold (\<lambda>(k, v) out. replace_all (placeholder k) (var_text v) out) vs msg"

text \<open>
  \<open>messages[locale][key] ?? messages.en[key]\<close>: keys are typed, so one of the two is there;
  a missing message would be \<open>undefined\<close>.
\<close>

definition t_text ::
  "(string \<Rightarrow> string \<rightharpoonup> string) \<Rightarrow> string \<Rightarrow> string \<Rightarrow> vars option \<Rightarrow> string option" where
  "t_text messages locale key vs =
     map_option (case vs of None \<Rightarrow> (\<lambda>m. m) | Some ws \<Rightarrow> interpolate (enriched_vars ws))
       (case messages locale key of Some m \<Rightarrow> Some m | None \<Rightarrow> messages ''en'' key)"

subsection \<open>The locale\<close>

definition supported_locales :: "string list" where
  "supported_locales = [''en'']"

definition LANG_KEY :: string where "LANG_KEY = ''lang''"

text \<open>The first render; reading an inaccessible storage throws.\<close>

definition initial_locale :: "bool \<Rightarrow> string local_storage \<Rightarrow> storage_error + string" where
  "initial_locale browser ls =
     (if \<not> browser then Inr ''en''
      else case get_item ls LANG_KEY of
          Inl e \<Rightarrow> Inl e
        | Inr stored \<Rightarrow>
            let v = (case stored of Some s \<Rightarrow> s | None \<Rightarrow> [])
            in Inr (if v \<in> set supported_locales then v else ''en''))"

text \<open>
  The effect: whether the site configuration is asked for (no stored preference, and not
  asked before), and the locale after its answer.
\<close>

definition asks_default_lang :: "bool \<Rightarrow> string local_storage \<Rightarrow> storage_error + bool" where
  "asks_default_lang applied ls =
     (if applied then Inr False
      else case get_item ls LANG_KEY of
          Inl e \<Rightarrow> Inl e
        | Inr (Some (_ # _)) \<Rightarrow> Inr False
        | Inr _ \<Rightarrow> Inr True)"

definition apply_default_lang :: "site_config option \<Rightarrow> string \<Rightarrow> string" where
  "apply_default_lang answer locale =
     (case answer of
        Some cfg \<Rightarrow> if sc_defaultLang cfg \<in> set supported_locales then sc_defaultLang cfg else locale
      | None \<Rightarrow> locale)"

definition setLocale ::
  "string \<Rightarrow> string \<times> string local_storage \<Rightarrow> storage_error + (string \<times> string local_storage)" where
  "setLocale new st =
     (case set_item LANG_KEY new (snd st) of Inl e \<Rightarrow> Inl e | Inr ls \<Rightarrow> Inr (new, ls))"

lemma locale_supported:
  "initial_locale browser ls = Inr l \<Longrightarrow> l \<in> set supported_locales"
  "l \<in> set supported_locales \<Longrightarrow> apply_default_lang answer l \<in> set supported_locales"
  by (auto simp: initial_locale_def supported_locales_def apply_default_lang_def Let_def
      split: if_splits sum.splits option.splits)

subsection \<open>Templates\<close>

text \<open>A message as its text between placeholders.\<close>

datatype piece = Lit string | Hole string

fun render_piece :: "piece \<Rightarrow> string" where
  "render_piece (Lit s) = s"
| "render_piece (Hole k) = placeholder k"

definition render :: "piece list \<Rightarrow> string" where
  "render ps = concat (map render_piece ps)"

fun fill_piece :: "vars \<Rightarrow> piece \<Rightarrow> string" where
  "fill_piece vs (Lit s) = s"
| "fill_piece vs (Hole k) = (case map_of vs k of Some v \<Rightarrow> var_text v | None \<Rightarrow> placeholder k)"

definition fill :: "vars \<Rightarrow> piece list \<Rightarrow> string" where
  "fill vs ps = concat (map (fill_piece vs) ps)"

function parse_template :: "string \<Rightarrow> piece list" where
  "parse_template [] = []"
| "parse_template (c # s) =
     (if c = CHR ''{'' then
        (let r = dropWhile (\<lambda>x. x \<noteq> CHR ''}'') s in
         if r = [] then [Lit (c # s)]
         else Hole (takeWhile (\<lambda>x. x \<noteq> CHR ''}'') s) # parse_template (tl r))
      else Lit [c] # parse_template s)"
  by pat_completeness auto

termination
proof (relation "measure length")
  fix c :: char and s x :: string
  assume "x = dropWhile (\<lambda>x. x \<noteq> CHR ''}'') s"
  then have "length x \<le> length s" by (simp add: length_dropWhile_le)
  then show "(tl x, c # s) \<in> measure length" by simp
qed auto

fun piece_ok :: "piece \<Rightarrow> bool" where
  "piece_ok (Lit s) \<longleftrightarrow> CHR ''{'' \<notin> set s"
| "piece_ok (Hole k) \<longleftrightarrow> CHR ''{'' \<notin> set k \<and> CHR ''}'' \<notin> set k"

definition template_ok :: "string \<Rightarrow> bool" where
  "template_ok m \<longleftrightarrow> list_all piece_ok (parse_template m)"

definition plain_var :: "string \<times> var_value \<Rightarrow> bool" where
  "plain_var kv \<longleftrightarrow> CHR ''{'' \<notin> set (fst kv) \<and> CHR ''}'' \<notin> set (fst kv) \<and>
     CHR ''{'' \<notin> set (var_text (snd kv)) \<and> CHR ''$'' \<notin> set (var_text (snd kv))"

lemma render_simps [simp]:
  "render [] = []" "render (p # ps) = render_piece p @ render ps"
  by (simp_all add: render_def)

lemma fill_simps [simp]:
  "fill vs [] = []" "fill vs (p # ps) = fill_piece vs p @ fill vs ps"
  by (simp_all add: fill_def)

lemma render_parse: "render (parse_template m) = m"
proof (induction m rule: parse_template.induct)
  case (2 c s)
  let ?r = "dropWhile (\<lambda>x. x \<noteq> CHR ''}'') s" and ?k = "takeWhile (\<lambda>x. x \<noteq> CHR ''}'') s"
  show ?case
  proof (cases "c = CHR ''{'' \<and> ?r \<noteq> []")
    case True
    then have "hd ?r = CHR ''}''" using hd_dropWhile by blast
    with True have "?k @ ''}'' @ tl ?r = s"
      by (metis append_Cons append_Nil hd_Cons_tl takeWhile_dropWhile_id)
    with True 2 show ?thesis by (simp add: Let_def placeholder_def)
  next
    case False
    with 2 show ?thesis by (auto simp: Let_def)
  qed
qed simp

lemma expand_plain: "CHR ''$'' \<notin> set r \<Longrightarrow> expand_dollars m before after r = r"
  by (induction m before after r rule: expand_dollars.induct) auto

lemma starts_with_head: "starts_with (c # s) (d # p) \<longleftrightarrow> c = d \<and> starts_with s p"
  by (auto simp: starts_with_def)

lemma replace_pass:
  "p = CHR ''{'' # q \<Longrightarrow> CHR ''{'' \<notin> set s \<Longrightarrow>
   replace_from p r before (s @ u) = s @ replace_from p r (before @ s) u"
  by (induction s arbitrary: before) (auto simp: starts_with_head)

lemma hole_prefix:
  assumes "CHR ''}'' \<notin> set k" and "CHR ''}'' \<notin> set k'"
    and "starts_with (k' @ CHR ''}'' # u) (k @ [CHR ''}''])"
  shows "k' = k"
  using assms
proof (induction k arbitrary: k')
  case Nil
  then show ?case by (cases k') (auto simp: starts_with_head)
next
  case (Cons c k)
  then show ?case by (cases k') (auto simp: starts_with_head)
qed

definition plug :: "string \<Rightarrow> string \<Rightarrow> piece \<Rightarrow> piece" where
  "plug k v p = (if p = Hole k then Lit v else p)"

lemma replace_template:
  assumes "CHR ''{'' \<notin> set k" and "CHR ''}'' \<notin> set k" and "CHR ''$'' \<notin> set v"
  shows "list_all piece_ok ps \<Longrightarrow>
    replace_from (placeholder k) v before (render ps) = render (map (plug k v) ps)"
proof (induction ps arbitrary: before)
  case (Cons p ps)
  have pat: "placeholder k = CHR ''{'' # k @ ''}''" by (simp add: placeholder_def)
  show ?case
  proof (cases p)
    case (Lit s)
    with Cons show ?thesis
      by (simp add: plug_def replace_pass [OF pat])
  next
    case (Hole k')
    show ?thesis
    proof (cases "k' = k")
      case True
      have "starts_with (placeholder k @ render ps) (placeholder k)" by simp
      then show ?thesis
        using Cons Hole True assms(3) by (simp add: pat plug_def expand_plain)
    next
      case False
      from Cons.prems Hole have k': "CHR ''{'' \<notin> set k'" "CHR ''}'' \<notin> set k'" by auto
      have no: "\<not> starts_with (placeholder k' @ render ps) (placeholder k)"
        using hole_prefix [OF assms(2) k'(2), of "render ps"] False
        by (auto simp: placeholder_def starts_with_head)
      have "replace_from (placeholder k) v before (placeholder k' @ render ps) =
          CHR ''{'' # replace_from (placeholder k) v (before @ ''{'') ((k' @ ''}'') @ render ps)"
        using no by (simp add: placeholder_def)
      also have "\<dots> = CHR ''{'' # (k' @ ''}'') @ replace_from (placeholder k) v (before @ ''{'' @ k' @ ''}'') (render ps)"
        using k'(1) by (subst replace_pass [OF pat]) auto
      finally show ?thesis using Cons Hole False by (simp add: plug_def placeholder_def)
    qed
  qed
qed simp

lemma plug_ok:
  "list_all piece_ok ps \<Longrightarrow> CHR ''{'' \<notin> set v \<Longrightarrow> list_all piece_ok (map (plug k v) ps)"
  by (induction ps) (auto simp: plug_def)

lemma fill_plug:
  assumes "k \<notin> fst ` set vs"
  shows "fill vs (map (plug k (var_text v)) ps) = fill ((k, v) # vs) ps"
proof -
  have "map_of vs k = None" using assms by (simp add: map_of_eq_None_iff)
  then have "fill_piece vs (plug k (var_text v) p) = fill_piece ((k, v) # vs) p" for p
    by (cases p) (auto simp: plug_def)
  then show ?thesis by (simp add: fill_def comp_def)
qed

lemma interpolate_pieces:
  "distinct (map fst vs) \<Longrightarrow> list_all plain_var vs \<Longrightarrow> list_all piece_ok ps \<Longrightarrow>
   interpolate vs (render ps) = fill vs ps"
proof (induction vs arbitrary: ps)
  case Nil
  have "fill [] ps = render ps"
  proof (induction ps)
    case (Cons p ps)
    then show ?case by (cases p) auto
  qed simp
  then show ?case by (simp add: interpolate_def)
next
  case (Cons kv vs)
  obtain k v where kv: "kv = (k, v)" by (cases kv)
  from Cons.prems kv have "replace_all (placeholder k) (var_text v) (render ps) =
      render (map (plug k (var_text v)) ps)"
    unfolding replace_all_def by (intro replace_template) (auto simp: plain_var_def)
  with Cons kv fill_plug [of k vs v ps] plug_ok [of ps "var_text v" k] show ?case
    by (simp add: interpolate_def plain_var_def)
qed

lemma plain_suffix: "plain_var (''s'', VText (plural_suffix n))"
  by (simp add: plain_var_def plural_suffix_def var_text_def)

lemma enriched_plain:
  assumes "distinct (map fst vs)" and "list_all plain_var vs"
  shows "distinct (map fst (enriched_vars vs)) \<and> list_all plain_var (enriched_vars vs)"
  using assms plain_suffix
  by (auto simp: enriched_vars_def map_of_eq_None_iff split: option.split)

text \<open>\<open>t\<close> replaces placeholders at once and only them: for a well-formed message and
  values without \<open>$\<close> or \<open>{\<close>, the result is the message's text with every placeholder of a
  variable replaced by its value, and \<open>{s}\<close> by nothing or \<open>s\<close> as \<open>n\<close> is one or not.\<close>

theorem t_fills_placeholders:
  assumes "messages l key = Some m" and "template_ok m"
    and "distinct (map fst vs)" and "list_all plain_var vs"
  shows "t_text messages l key (Some vs) = Some (fill (enriched_vars vs) (parse_template m))"
  using interpolate_pieces [of "enriched_vars vs" "parse_template m"] enriched_plain [OF assms(3,4)] assms(1,2)
  by (simp add: t_text_def render_parse template_ok_def)

theorem t_fills_placeholders_witness:
  "t_text (\<lambda>_. [''libraryResults'' \<mapsto> ''{total} video{s} found'']) ''en'' ''libraryResults''
     (Some [(''total'', VNat 1), (''n'', VNat 1)]) = Some ''1 video found''"
proof -
  let ?m = "''{total} video{s} found''" and ?vs = "[(''total'', VNat 1), (''n'', VNat 1)]"
  have ok: "template_ok ?m" "list_all plain_var ?vs" "distinct (map fst ?vs)"
    "fill (enriched_vars ?vs) (parse_template ?m) = ''1 video found''"
    by code_simp+
  show ?thesis
    using t_fills_placeholders [of "\<lambda>_. [''libraryResults'' \<mapsto> ?m]" "''en''" "''libraryResults''" ?m ?vs] ok
    by simp
qed

text \<open>A dollar in a value is not shown as it is: \<open>replaceAll\<close> reads it as a pattern.\<close>

lemma dollar_is_expanded:
  "interpolate [(''name'', VText ''cost $& up'')] ''Delete {name}?'' = ''Delete cost {name} up?''"
  by code_simp

end
