(* ===== verification/ApiTypes.thy ===== *)
theory ApiTypes
  imports JsNum Storage
begin

text \<open>
  The data the client exchanges with the server, the interfaces of \<open>web/lib/api.ts\<close>: one
  record per interface in the order of its fields, a datatype for each union of literals and
  for the two interfaces that nest themselves.  A field \<open>x?: t\<close> or \<open>x: t | null\<close> is an
  option; identifiers, sizes and counts are whole numbers.  Keys of settings and statuses are
  strings.
\<close>

datatype role = Admin | Editor | Uploader | Viewing

record user =
  ur_id :: int
  ur_email :: string
  ur_nameSurname :: string
  ur_role :: role
  ur_disabled :: bool
  ur_createdAt :: string

definition displayName :: "string \<Rightarrow> string \<Rightarrow> string" where
  "displayName nameSurname email = (if nameSurname \<noteq> [] then nameSurname else email)"

record viewer_account =
  vw_id :: int
  vw_email :: string
  vw_nameSurname :: string
  vw_disabled :: bool
  vw_createdAt :: string

record viewer_list =
  vl_items :: "viewer_account list"
  vl_total :: nat

datatype entry_status = EUploading | EProbing | ETranscoding | EReady | EFailed

record entry =
  en_id :: string
  en_categoryId :: "int option"
  en_uploadedBy :: "int option"
  en_title :: string
  en_description :: string
  en_status :: entry_status
  en_durationMs :: "nat option"
  en_sourceKey :: string
  en_sourceSize :: "nat option"
  en_isPublic :: bool
  en_accessDenied :: bool
  en_domainAclId :: "int option"
  en_playerId :: "int option"
  en_posterKey :: string
  en_posterFrame :: nat
  en_spriteKey :: string
  en_spriteFrames :: nat
  en_error :: "string option"
  en_createdAt :: string
  en_updatedAt :: string

datatype flavor_status = FlPending | FlTranscoding | FlDone | FlFailed | FlSkipped

record entry_flavor =
  ef_entryId :: int
  ef_flavorId :: int
  ef_status :: flavor_status
  ef_error :: "string option"
  ef_playlistKey :: string

record subtitle =
  sb_id :: int
  sb_lang :: string
  sb_label :: string
  sb_vttKey :: string

record entry_detail = entry +
  en_flavors :: "entry_flavor list"
  en_subtitles :: "subtitle list"
  en_uploaderName :: string

datatype category = Category (cat_id: int) (cat_parentId: "int option") (cat_name: string)
  (cat_slug: string) (cat_position: int) (cat_children: "category list option")

record domain_acl =
  acl_id :: int
  acl_title :: string
  acl_whitelist :: "string list"
  acl_blocklist :: "string list"
  acl_createdAt :: string
  acl_updatedAt :: string

datatype codec = H264 | H265
datatype video_mode = Crf | Bitrate

record flavor =
  fv_id :: int
  fv_name :: string
  fv_label :: string
  fv_codec :: codec
  fv_height :: nat
  fv_videoMode :: video_mode
  fv_crf :: "rat option"
  fv_videoBitrate :: "nat option"
  fv_audioBitrate :: nat
  fv_preset :: string
  fv_enabled :: bool
  fv_position :: int

record entry_list =
  el_items :: "entry list"
  el_total :: nat
  el_catalogTotal :: nat
  el_page :: nat
  el_limit :: nat

record day_bytes =
  db_day :: string
  db_bytes :: nat

record dashboard =
  dh_entriesByStatus :: "(string \<times> nat) list"
  dh_totalEntries :: nat
  dh_storageUsed :: nat
  dh_bandwidthTotalBytes :: nat
  dh_bandwidthTodayBytes :: nat
  dh_bandwidthSeries :: "day_bytes list"
  dh_analyticsEnabled :: bool
  dh_queueDepth :: nat
  dh_recent :: "entry list"

record analytics_totals =
  at_plays :: nat
  at_watchSeconds :: nat
  at_bytes :: nat

record analytics_day =
  ad_day :: string
  ad_plays :: nat
  ad_watchSeconds :: nat
  ad_bytes :: nat
  ad_uniqueViewers :: nat

record analytics_response =
  an_totals :: analytics_totals
  an_series :: "analytics_day list"

datatype logo_position = TopLeft | TopRight | BottomLeft | BottomRight

record player_config =
  pc_accentColor :: "string option"
  pc_logoUrl :: "string option"
  pc_logoHref :: "string option"
  pc_logoPosition :: "logo_position option"
  pc_logoSize :: "jnum option"
  pc_logoOpacity :: "jnum option"
  pc_showLoader :: "bool option"
  pc_autoHideControls :: "bool option"

record play_subtitle =
  ps_lang :: string
  ps_label :: string
  ps_url :: string

record play_info =
  pi_title :: string
  pi_description :: string
  pi_status :: entry_status
  pi_durationMs :: "nat option"
  pi_master :: "string option"
  pi_poster :: "string option"
  pi_sprite :: "string option"
  pi_spriteFrames :: nat
  pi_subtitles :: "play_subtitle list"
  pi_embedUrl :: string
  pi_player :: "player_config option"

record player =
  pl_id :: int
  pl_name :: string
  pl_isDefault :: bool
  pl_config :: player_config
  pl_createdAt :: string
  pl_updatedAt :: string

record upload_config =
  uc_maxSizeBytes :: nat
  uc_allowedExtensions :: "string list"

record upload_activity =
  ua_id :: string
  ua_entryId :: int
  ua_title :: string
  ua_uploader :: string
  ua_size :: nat
  ua_offset :: nat
  ua_progress :: jnum
  ua_createdAt :: string

datatype job_status = JQueued | JRunning | JDone | JFailed | JCancelled

record job_activity =
  ja_id :: int
  ja_type :: string
  ja_entryId :: "int option"
  ja_entryTitle :: string
  ja_status :: job_status
  ja_attempts :: nat
  ja_error :: "string option"
  ja_progress :: "string option"
  ja_label :: "string option"
  ja_paused :: bool
  ja_createdAt :: string

text \<open>The values of the settings map, as far as the client reads and writes them.\<close>

datatype setting = SNull | SBool bool | SNum jnum | SText string | SList "string list"

record settings_response =
  sg_settings :: "(string \<times> setting) list"

record catalog_entry =
  ce_id :: string
  ce_title :: string
  ce_slug :: string
  ce_categoryId :: "int option"
  ce_category :: "string option"
  ce_poster :: "string option"
  ce_durationMs :: "nat option"
  ce_createdAt :: string

datatype catalog_category = CatalogCategory (cc_id: int) (cc_name: string) (cc_slug: string)
  (cc_count: nat) (cc_children: "catalog_category list option")

record catalog_response =
  cp_items :: "catalog_entry list"
  cp_total :: nat
  cp_page :: nat
  cp_limit :: nat

record storage_usage =
  su_usedBytes :: nat
  su_totalBytes :: nat
  su_freeBytes :: nat
  su_objectCount :: nat
  su_driver :: string

datatype file_label = LSource | LPoster | LFlavors | LSubtitles | LOther | LSystem

record storage_entry_file =
  sf_label :: file_label
  sf_name :: "string option"
  sf_bytes :: nat
  sf_count :: nat

record storage_entry =
  se_publicId :: string
  se_title :: string
  se_status :: entry_status
  se_totalBytes :: nat
  se_files :: "storage_entry_file list"

end
