(* ===== verification/Ui.thy ===== *)
theory Ui
  imports View I18n ApiTypes
begin

text \<open>
  The small components every page uses, and the theme: \<open>FormError\<close>, \<open>PageLoader\<close>,
  \<open>ThemeToggle\<close>, \<open>LanguageSelect\<close>, \<open>useToast\<close>, \<open>useIsMobile\<close> and the theme provider.
\<close>

text \<open>The text function \<open>t\<close> a component gets from the provider.\<close>

type_synonym translator = "string \<Rightarrow> vars option \<Rightarrow> string"

abbreviation tx :: "translator \<Rightarrow> string \<Rightarrow> string" where "tx t k \<equiv> t k None"

definition FormError :: "string option \<Rightarrow> 'e node list" where
  "FormError message =
     (case message of Some (c # m) \<Rightarrow> [El ''p'' [] [Txt (c # m)]] | _ \<Rightarrow> [])"

definition LoadingCircle :: "'e node" where
  "LoadingCircle = El ''svg'' [(''role'', AText ''status''), (''aria-label'', AText ''loading'')]
     [El ''circle'' [] [], El ''circle'' [] []]"

definition PageLoader :: "translator \<Rightarrow> string option \<Rightarrow> 'e node" where
  "PageLoader t label =
     El ''div'' [] [LoadingCircle,
       El ''span'' [] [Txt (case label of Some l \<Rightarrow> l | None \<Rightarrow> tx t ''loading'')]]"

subsection \<open>Theme\<close>

datatype theme = Dark | Light

fun theme_name :: "theme \<Rightarrow> string" where
  "theme_name Dark = ''dark''"
| "theme_name Light = ''light''"

definition THEME_KEY :: string where "THEME_KEY = ''theme''"

definition resolveTheme :: "bool \<Rightarrow> string option \<Rightarrow> theme" where
  "resolveTheme prefersLight stored =
     (if stored = Some ''light'' then Light else if stored = Some ''dark'' then Dark
      else if prefersLight then Light else Dark)"

text \<open>\<open>getSnapshot\<close>; the storage may throw.\<close>

definition theme_snapshot :: "bool \<Rightarrow> bool \<Rightarrow> string local_storage \<Rightarrow> storage_error + theme" where
  "theme_snapshot browser prefersLight ls =
     (if \<not> browser then Inr Dark
      else case get_item ls THEME_KEY of
          Inl e \<Rightarrow> Inl e
        | Inr stored \<Rightarrow> Inr (resolveTheme prefersLight stored))"

text \<open>The document's class \<open>dark\<close>, the storage, and the change events sent.\<close>

record theme_state =
  th_ls :: "string local_storage"
  th_darkClass :: bool
  th_events :: nat

definition applyTheme :: "theme \<Rightarrow> theme_state \<Rightarrow> theme_state" where
  "applyTheme th s = s\<lparr>th_darkClass := (th = Dark)\<rparr>"

definition setTheme :: "theme \<Rightarrow> theme_state \<Rightarrow> storage_error + theme_state" where
  "setTheme th s =
     (case set_item THEME_KEY (theme_name th) (th_ls s) of
        Inl e \<Rightarrow> Inl e
      | Inr ls \<Rightarrow> (let s1 = applyTheme th (s\<lparr>th_ls := ls\<rparr>) in Inr (s1\<lparr>th_events := Suc (th_events s1)\<rparr>)))"

definition toggleTheme :: "theme \<Rightarrow> theme_state \<Rightarrow> storage_error + theme_state" where
  "toggleTheme current s = setTheme (if current = Dark then Light else Dark) s"

lemma setTheme_snapshot:
  assumes "setTheme th s = Inr s'" and "ls_readable (th_ls s)"
  shows "theme_snapshot True prefers (th_ls s') = Inr th \<and> th_darkClass s' = (th = Dark)"
  using assms
  by (cases th) (auto simp: setTheme_def theme_snapshot_def resolveTheme_def applyTheme_def set_item_def
      get_item_def Let_def split: if_splits)

datatype ui_event = ToggleTheme | ChooseTheme theme | ChooseLocale string

definition ThemeToggle :: "translator \<Rightarrow> theme \<Rightarrow> ui_event node" where
  "ThemeToggle t th =
     El ''Button''
       [(''onClick'', AEvent ToggleTheme),
        (''aria-label'', AText (if th = Dark then tx t ''themeSwitchToLight'' else tx t ''themeSwitchToDark''))]
       [El (if th = Dark then ''SunIcon'' else ''MoonIcon'') [] []]"

definition LanguageSelect :: "translator \<Rightarrow> string \<Rightarrow> ui_event node" where
  "LanguageSelect t locale =
     El ''Select''
       [(''value'', AText locale), (''onChange'', AInput ChooseLocale),
        (''placeholder'', AText (tx t ''langLabel''))]
       (map (\<lambda>l. El ''option'' [(''value'', AText l)] [Txt (tx t ''langEnglish'')]) supported_locales)"

subsection \<open>Toasts and the viewport\<close>

datatype toast_type = ToastSuccess | ToastError | ToastInfo

definition show_toast :: "string \<Rightarrow> toast_type option \<Rightarrow> toast_type \<times> string" where
  "show_toast message type = (case type of Some ty \<Rightarrow> ty | None \<Rightarrow> ToastInfo, message)"

definition MOBILE_BREAKPOINT :: nat where "MOBILE_BREAKPOINT = 768"

definition useIsMobile :: "bool \<Rightarrow> nat \<Rightarrow> bool" where
  "useIsMobile browser innerWidth \<longleftrightarrow> browser \<and> innerWidth < MOBILE_BREAKPOINT"

end
