(* ===== verification/Validators.thy ===== *)
theory Validators
  imports JsNum "HOL-Library.AList"
begin

text \<open>
  The form schemas of \<open>web/lib/validators.ts\<close> and \<open>fieldErrors\<close>.  The schemas are data, in
  the order of the source.  The validation library (zod) is not part of the repository: its
  \<open>safeParse\<close> is a parameter, a function from a schema and the form's data to the issues, and
  what the client relies on is the hypothesis \<open>documented_parse\<close>: every failing rule of a
  field and nothing else is reported, the rules of one field in their order.
\<close>

datatype rule =
    Trim
  | MinLength nat "string option"
  | MaxLength nat "string option"
  | EmailShape string
  | WholeNumber
  | MinNumber int "string option"
  | MaxNumber int "string option"
  | Positive
  | OneOf "string list"

text \<open>A field: its rules, and whether \<open>null\<close> and a missing value are accepted.\<close>

datatype field_kind = TextField | NumberField | BoolField

record field_schema =
  fs_kind :: field_kind
  fs_rules :: "rule list"
  fs_nullable :: bool
  fs_optional :: bool

text \<open>An object schema; \<open>refine\<close> compares two fields.\<close>

record schema =
  sm_fields :: "(string \<times> field_schema) list"
  sm_refine :: "(string \<times> string \<times> string \<times> string) option"

datatype form_value = FText string | FNumber jnum | FBool bool | FNull | FMissing

type_synonym form_data = "(string \<times> form_value) list"
type_synonym issue = "string option \<times> string"
type_synonym field_errors = "(string \<times> string) list"

definition text_rules :: "rule list \<Rightarrow> field_schema" where
  "text_rules rs = \<lparr>fs_kind = TextField, fs_rules = rs, fs_nullable = False, fs_optional = False\<rparr>"

definition number_rules :: "rule list \<Rightarrow> field_schema" where
  "number_rules rs = \<lparr>fs_kind = NumberField, fs_rules = rs, fs_nullable = False, fs_optional = False\<rparr>"

definition optional_field :: "field_schema \<Rightarrow> field_schema" where
  "optional_field f = f\<lparr>fs_optional := True\<rparr>"

definition nullable_field :: "field_schema \<Rightarrow> field_schema" where
  "nullable_field f = f\<lparr>fs_nullable := True\<rparr>"

definition bool_field :: field_schema where
  "bool_field = \<lparr>fs_kind = BoolField, fs_rules = [], fs_nullable = False, fs_optional = False\<rparr>"

definition object_schema :: "(string \<times> field_schema) list \<Rightarrow> schema" where
  "object_schema fs = \<lparr>sm_fields = fs, sm_refine = None\<rparr>"

subsection \<open>The schemas\<close>

definition emailSchema :: field_schema where
  "emailSchema = text_rules
     [Trim, MinLength 1 (Some ''Email is required''), EmailShape ''Enter a valid email address'']"

definition passwordSchema :: field_schema where
  "passwordSchema = text_rules [MinLength 8 (Some ''Password must be at least 8 characters'')]"

definition loginSchema :: schema where
  "loginSchema = object_schema
     [(''email'', emailSchema),
      (''password'', text_rules [MinLength 1 (Some ''Password is required'')])]"

definition changePasswordSchema :: schema where
  "changePasswordSchema =
     \<lparr>sm_fields =
        [(''currentPassword'', text_rules [MinLength 1 (Some ''Current password is required'')]),
         (''newPassword'', passwordSchema),
         (''confirm'', text_rules [MinLength 1 (Some ''Please confirm the new password'')])],
      sm_refine = Some (''newPassword'', ''confirm'', ''New passwords do not match'', ''confirm'')\<rparr>"

definition role_names :: "string list" where
  "role_names = [''admin'', ''editor'', ''uploader'', ''viewer'']"

definition userSchema :: schema where
  "userSchema = object_schema
     [(''email'', emailSchema),
      (''nameSurname'', optional_field (text_rules [Trim, MaxLength 120 (Some ''Name is too long'')])),
      (''password'', passwordSchema),
      (''role'', text_rules [OneOf role_names])]"

definition userEditSchema :: schema where
  "userEditSchema = object_schema
     [(''email'', emailSchema),
      (''nameSurname'', optional_field (text_rules [Trim, MaxLength 120 (Some ''Name is too long'')])),
      (''password'', optional_field (text_rules [])),
      (''role'', text_rules [OneOf role_names]),
      (''disabled'', bool_field)]"

definition categorySchema :: schema where
  "categorySchema = object_schema
     [(''name'', text_rules [Trim, MinLength 1 (Some ''Name is required''),
                            MaxLength 100 (Some ''Name is too long'')]),
      (''parentId'', optional_field (nullable_field (number_rules [])))]"

definition flavorSchema :: schema where
  "flavorSchema = object_schema
     [(''name'', text_rules [Trim, MinLength 1 (Some ''Name is required'')]),
      (''label'', optional_field (text_rules [Trim, MaxLength 60 None])),
      (''codec'', text_rules [OneOf [''h264'', ''h265'']]),
      (''height'', number_rules [WholeNumber, MinNumber 1 (Some ''Height must be at least 1'')]),
      (''videoMode'', text_rules [OneOf [''crf'', ''bitrate'']]),
      (''crf'', optional_field (nullable_field (number_rules [MinNumber 0 None, MaxNumber 51 None]))),
      (''videoBitrate'', optional_field (nullable_field (number_rules [WholeNumber, Positive]))),
      (''audioBitrate'', number_rules [WholeNumber, Positive]),
      (''preset'', text_rules [MinLength 1 None])]"

subsection \<open>What a rule asks\<close>

text \<open>\<open>/^[^\s@]+@[^\s@]+$/\<close>.\<close>

definition email_shape :: "string \<Rightarrow> bool" where
  "email_shape s \<longleftrightarrow>
     (case split_on (CHR ''@'') s of
        [a, b] \<Rightarrow> a \<noteq> [] \<and> b \<noteq> [] \<and> list_all (\<lambda>c. \<not> js_space c) (a @ b)
      | _ \<Rightarrow> False)"

text \<open>The value after the trims before a rule, and the rules with the value each sees.\<close>

fun rule_holds :: "rule \<Rightarrow> form_value \<Rightarrow> bool" where
  "rule_holds (MinLength n _) (FText s) \<longleftrightarrow> n \<le> length s"
| "rule_holds (MaxLength n _) (FText s) \<longleftrightarrow> length s \<le> n"
| "rule_holds (EmailShape _) (FText s) \<longleftrightarrow> email_shape s"
| "rule_holds (OneOf xs) (FText s) \<longleftrightarrow> s \<in> set xs"
| "rule_holds WholeNumber (FNumber (Fin q)) \<longleftrightarrow> q = of_int \<lfloor>q\<rfloor>"
| "rule_holds (MinNumber n _) (FNumber x) \<longleftrightarrow> jleq (num_of_int n) x"
| "rule_holds (MaxNumber n _) (FNumber x) \<longleftrightarrow> jleq x (num_of_int n)"
| "rule_holds Positive (FNumber x) \<longleftrightarrow> jless (Fin 0) x"
| "rule_holds Trim v \<longleftrightarrow> True"
| "rule_holds _ _ \<longleftrightarrow> False"

fun after_rule :: "rule \<Rightarrow> form_value \<Rightarrow> form_value" where
  "after_rule Trim (FText s) = FText (js_trim s)"
| "after_rule r v = v"

text \<open>The message of a rule; the library's own when the schema gives none.\<close>

fun rule_message :: "rule \<Rightarrow> string option" where
  "rule_message (MinLength n m) = m"
| "rule_message (MaxLength n m) = m"
| "rule_message (EmailShape m) = Some m"
| "rule_message (MinNumber n m) = m"
| "rule_message (MaxNumber n m) = m"
| "rule_message _ = None"

fun failing_rules :: "rule list \<Rightarrow> form_value \<Rightarrow> rule list" where
  "failing_rules [] v = []"
| "failing_rules (r # rs) v =
     (if rule_holds r v then [] else [r]) @ failing_rules rs (after_rule r v)"

definition kind_matches :: "field_kind \<Rightarrow> form_value \<Rightarrow> bool" where
  "kind_matches k v \<longleftrightarrow>
     (case v of FText _ \<Rightarrow> k = TextField | FNumber x \<Rightarrow> k = NumberField \<and> is_finite x
      | FBool _ \<Rightarrow> k = BoolField | _ \<Rightarrow> False)"

definition accepts_absent :: "field_schema \<Rightarrow> form_value \<Rightarrow> bool" where
  "accepts_absent f v \<longleftrightarrow> (v = FNull \<and> fs_nullable f) \<or> (v = FMissing \<and> fs_optional f)"

definition field_value :: "form_data \<Rightarrow> string \<Rightarrow> form_value" where
  "field_value d k = (case map_of d k of Some v \<Rightarrow> v | None \<Rightarrow> FMissing)"

text \<open>A field is valid; a schema accepts the data.\<close>

definition field_valid :: "field_schema \<Rightarrow> form_value \<Rightarrow> bool" where
  "field_valid f v \<longleftrightarrow> accepts_absent f v \<or> (kind_matches (fs_kind f) v \<and> failing_rules (fs_rules f) v = [])"

definition refine_holds :: "schema \<Rightarrow> form_data \<Rightarrow> bool" where
  "refine_holds sm d \<longleftrightarrow>
     (case sm_refine sm of
        None \<Rightarrow> True
      | Some (a, b, m, p) \<Rightarrow> field_value d a = field_value d b)"

definition accepts :: "schema \<Rightarrow> form_data \<Rightarrow> bool" where
  "accepts sm d \<longleftrightarrow> list_all (\<lambda>(k, f). field_valid f (field_value d k)) (sm_fields sm) \<and> refine_holds sm d"

subsection \<open>fieldErrors\<close>

definition add_issue :: "issue \<Rightarrow> field_errors \<Rightarrow> field_errors" where
  "add_issue i out =
     (let key = (case fst i of Some p \<Rightarrow> p | None \<Rightarrow> ''form'')
      in if key \<in> fst ` set out then out else out @ [(key, snd i)])"

definition fieldErrors :: "(schema \<Rightarrow> form_data \<Rightarrow> issue list) \<Rightarrow> schema \<Rightarrow> form_data \<Rightarrow> field_errors" where
  "fieldErrors safeParse sm d = fold add_issue (safeParse sm d) []"

text \<open>
  What the client relies on: no issue exactly when the schema accepts the data; an issue of a
  field that is not absent is preceded by the issues of the field's earlier failing rules, and
  carries the schema's message.
\<close>

definition field_messages :: "string \<Rightarrow> issue list \<Rightarrow> string list" where
  "field_messages k is = map snd (filter (\<lambda>(p, m). p = Some k) is)"

definition documented_parse :: "(schema \<Rightarrow> form_data \<Rightarrow> issue list) \<Rightarrow> bool" where
  "documented_parse safeParse \<longleftrightarrow>
     (\<forall>sm d. (safeParse sm d = [] \<longleftrightarrow> accepts sm d) \<and>
       (\<forall>k f r rs. map_of (sm_fields sm) k = Some f \<and> kind_matches (fs_kind f) (field_value d k) \<and>
          failing_rules (fs_rules f) (field_value d k) = r # rs \<and> rule_message r \<noteq> None \<longrightarrow>
          (\<exists>ms. field_messages k (safeParse sm d) = the (rule_message r) # ms)))"

lemma add_issue_nonempty: "add_issue i out \<noteq> []"
  by (auto simp: add_issue_def Let_def)

lemma fold_issues_empty: "fold add_issue is out = [] \<longleftrightarrow> is = [] \<and> out = []"
  by (induction "is" arbitrary: out) (auto simp: add_issue_nonempty)

lemma map_of_add_issue:
  assumes "k \<noteq> ''form''"
  shows "map_of (add_issue i out) k =
    (case map_of out k of Some m \<Rightarrow> Some m | None \<Rightarrow> if fst i = Some k then Some (snd i) else None)"
proof -
  have "k \<in> fst ` set out \<longleftrightarrow> map_of out k \<noteq> None" by (simp add: map_of_eq_None_iff)
  with assms show ?thesis
    by (auto simp: add_issue_def Let_def map_add_def split: option.split)
qed

lemma first_message_wins:
  assumes "k \<noteq> ''form''"
  shows "map_of (fold add_issue is out) k =
    (case map_of out k of Some m \<Rightarrow> Some m
     | None \<Rightarrow> (case field_messages k is of [] \<Rightarrow> None | m # _ \<Rightarrow> Some m))"
proof (induction "is" arbitrary: out)
  case Nil
  then show ?case by (simp add: field_messages_def split: option.split)
next
  case (Cons i "is")
  have "map_of (fold add_issue (i # is) out) k = (case map_of (add_issue i out) k of Some m \<Rightarrow> Some m
     | None \<Rightarrow> (case field_messages k is of [] \<Rightarrow> None | m # _ \<Rightarrow> Some m))"
    using Cons.IH by simp
  then show ?case
    by (cases i) (auto simp: map_of_add_issue [OF assms] field_messages_def split: option.split)
qed

text \<open>With a parser that behaves as documented, \<open>fieldErrors\<close> is empty exactly when the
  schema accepts the form, and a field whose text or number breaks a rule shows the message of
  the first rule it breaks.\<close>

theorem fieldErrors_first_message:
  assumes "documented_parse safeParse"
    and "map_of (sm_fields sm) k = Some f" and "k \<noteq> ''form''"
    and "kind_matches (fs_kind f) (field_value d k)"
    and "failing_rules (fs_rules f) (field_value d k) = r # rs" and "rule_message r = Some m"
  shows "(fieldErrors safeParse sm d = [] \<longleftrightarrow> accepts sm d) \<and>
    map_of (fieldErrors safeParse sm d) k = Some m"
proof
  show "fieldErrors safeParse sm d = [] \<longleftrightarrow> accepts sm d"
    using assms(1) unfolding fieldErrors_def fold_issues_empty by (simp add: documented_parse_def)
  obtain ms where "field_messages k (safeParse sm d) = m # ms"
    using assms(1,2,4,5,6) unfolding documented_parse_def by fastforce
  then show "map_of (fieldErrors safeParse sm d) k = Some m"
    using assms(3) unfolding fieldErrors_def by (simp add: first_message_wins)
qed

text \<open>A parser that behaves as documented exists.\<close>

definition reference_field :: "form_data \<Rightarrow> string \<times> field_schema \<Rightarrow> issue list" where
  "reference_field d kf =
     (case kf of (k, f) \<Rightarrow>
        let v = field_value d k in
        if accepts_absent f v then []
        else if kind_matches (fs_kind f) v
        then map (\<lambda>r. (Some k, case rule_message r of Some m \<Rightarrow> m | None \<Rightarrow> ''Invalid input''))
               (failing_rules (fs_rules f) v)
        else [(Some k, ''Invalid input'')])"

definition reference_parse :: "schema \<Rightarrow> form_data \<Rightarrow> issue list" where
  "reference_parse sm d = concat (map (reference_field d) (sm_fields sm)) @
     (case sm_refine sm of
        Some (a, b, m, p) \<Rightarrow> if refine_holds sm d then [] else [(Some p, m)]
      | None \<Rightarrow> [])"

lemma reference_field_empty: "reference_field d (k, f) = [] \<longleftrightarrow> field_valid f (field_value d k)"
  by (auto simp: reference_field_def Let_def field_valid_def)

lemma reference_messages:
  assumes "map_of fs k = Some f" and "kind_matches (fs_kind f) (field_value d k)"
    and "failing_rules (fs_rules f) (field_value d k) = r # rs" and "rule_message r = Some m"
  shows "\<exists>ms. field_messages k (concat (map (reference_field d) fs)) = m # ms"
  using assms(1)
proof (induction fs)
  case (Cons g fs)
  obtain l h where g: "g = (l, h)" by (cases g)
  show ?case
  proof (cases "l = k")
    case True
    with Cons.prems g have h: "h = f" by simp
    have "\<not> accepts_absent f (field_value d k)"
      using assms(2) by (auto simp: accepts_absent_def kind_matches_def)
    then have "reference_field d (k, f) = (Some k, m) #
        map (\<lambda>r. (Some k, case rule_message r of Some m \<Rightarrow> m | None \<Rightarrow> ''Invalid input'')) rs"
      using assms(2-4) by (simp add: reference_field_def Let_def)
    with g True h show ?thesis by (simp add: field_messages_def)
  next
    case False
    have "\<forall>i \<in> set (reference_field d (l, h)). fst i = Some l"
      by (auto simp: reference_field_def Let_def)
    then have "field_messages k (reference_field d (l, h)) = []"
      using False by (auto simp: field_messages_def filter_empty_conv)
    with Cons g False show ?thesis by (simp add: field_messages_def)
  qed
qed simp

lemma documented_reference: "documented_parse reference_parse"
  unfolding documented_parse_def
proof (intro allI conjI impI)
  fix sm d
  have "concat (map (reference_field d) fs) = [] \<longleftrightarrow>
      list_all (\<lambda>(k, f). field_valid f (field_value d k)) fs" for fs
    by (induction fs) (auto simp: reference_field_empty)
  then show "reference_parse sm d = [] \<longleftrightarrow> accepts sm d"
    by (auto simp: reference_parse_def accepts_def refine_holds_def split: option.split)
  fix k f r rs
  assume "map_of (sm_fields sm) k = Some f \<and> kind_matches (fs_kind f) (field_value d k) \<and>
    failing_rules (fs_rules f) (field_value d k) = r # rs \<and> rule_message r \<noteq> None"
  then obtain ms m where "field_messages k (concat (map (reference_field d) (sm_fields sm))) = m # ms"
      "rule_message r = Some m"
    using reference_messages by blast
  then show "\<exists>ms. field_messages k (reference_parse sm d) = the (rule_message r) # ms"
    by (auto simp: reference_parse_def field_messages_def)
qed

theorem fieldErrors_first_message_witness:
  "map_of (fieldErrors reference_parse loginSchema [(''email'', FText '' ''), (''password'', FText ''x'')]) ''email'' =
   Some ''Email is required''"
proof -
  let ?d = "[(''email'', FText '' ''), (''password'', FText ''x'')]"
  have "map_of (sm_fields loginSchema) ''email'' = Some emailSchema"
    "kind_matches (fs_kind emailSchema) (field_value ?d ''email'')"
    "failing_rules (fs_rules emailSchema) (field_value ?d ''email'') =
       [MinLength 1 (Some ''Email is required''), EmailShape ''Enter a valid email address'']"
    "rule_message (MinLength 1 (Some ''Email is required'')) = Some ''Email is required''"
    by code_simp+
  from fieldErrors_first_message [OF documented_reference this(1) _ this(2,3,4)] show ?thesis by simp
qed

end
