(* ===== verification/UrlCodec.thy ===== *)
theory UrlCodec
  imports JsNum
begin

text \<open>
  \<open>encodeURIComponent\<close> and the decoding of a query parameter, as the language and
  \<open>URLSearchParams\<close> define them, on characters below 256, whose UTF-8 form has one byte or two.
\<close>

definition hex_digit :: "nat \<Rightarrow> char" where
  "hex_digit d = (if d < 10 then char_of (48 + d) else char_of (55 + d))"

definition percent_byte :: "nat \<Rightarrow> string" where
  "percent_byte b = [CHR ''%'', hex_digit (b div 16), hex_digit (b mod 16)]"

definition unreserved :: "char \<Rightarrow> bool" where
  "unreserved c \<longleftrightarrow>
     (let n = of_char c :: nat in
      (48 \<le> n \<and> n \<le> 57) \<or> (65 \<le> n \<and> n \<le> 90) \<or> (97 \<le> n \<and> n \<le> 122)) \<or>
     c \<in> set ''-_.!~*()'' \<or> c = CHR 0x27"

definition encode_char :: "char \<Rightarrow> string" where
  "encode_char c =
     (let n = of_char c :: nat in
      if unreserved c then [c]
      else if n < 128 then percent_byte n
      else percent_byte (192 + n div 64) @ percent_byte (128 + n mod 64))"

definition encodeURIComponent :: "string \<Rightarrow> string" where
  "encodeURIComponent s = concat (map encode_char s)"

text \<open>The decoding: percent sequences to bytes, \<open>+\<close> to a space, then UTF-8.\<close>

fun query_bytes :: "string \<Rightarrow> nat list" where
  "query_bytes [] = []"
| "query_bytes (c # s) =
     (case s of
        h # l # r \<Rightarrow>
          if c = CHR ''%'' \<and> digit_value h \<noteq> None \<and> digit_value l \<noteq> None
          then (16 * the (digit_value h) + the (digit_value l)) # query_bytes r
          else (if c = CHR ''+'' then 32 else of_char c) # query_bytes s
      | _ \<Rightarrow> (if c = CHR ''+'' then 32 else of_char c) # query_bytes s)"

fun utf8_decode :: "nat list \<Rightarrow> string" where
  "utf8_decode [] = []"
| "utf8_decode [b] = [char_of b]"
| "utf8_decode (b # b' # bs) =
     (if 192 \<le> b \<and> b \<le> 195 \<and> 128 \<le> b' \<and> b' \<le> 191
      then char_of (64 * (b - 192) + (b' - 128)) # utf8_decode bs
      else char_of b # utf8_decode (b' # bs))"

definition decode_param :: "string \<Rightarrow> string" where
  "decode_param s = utf8_decode (query_bytes s)"

lemma of_char_hex:
  assumes "d < 16"
  shows "digit_value (hex_digit d) = Some d"
proof (cases "d < 10")
  case True
  then show ?thesis by (simp add: hex_digit_def digit_value_def Let_def)
next
  case False
  with assms have "(of_char (char_of (55 + d) :: char) :: nat) = 55 + d" by simp
  with False assms show ?thesis by (simp add: hex_digit_def digit_value_def Let_def)
qed

lemma query_bytes_percent:
  "b < 256 \<Longrightarrow> query_bytes (percent_byte b @ r) = b # query_bytes r"
  by (simp add: percent_byte_def of_char_hex)

lemma query_bytes_plain:
  "c \<noteq> CHR ''%'' \<Longrightarrow> c \<noteq> CHR ''+'' \<Longrightarrow> query_bytes (c # r) = of_char c # query_bytes r"
  by (auto split: list.split)

definition utf8_bytes :: "char \<Rightarrow> nat list" where
  "utf8_bytes c =
     (let n = of_char c :: nat in if n < 128 then [n] else [192 + n div 64, 128 + n mod 64])"

lemma query_bytes_encode: "query_bytes (encode_char c @ r) = utf8_bytes c @ query_bytes r"
proof (cases "unreserved c")
  case True
  then have "c \<noteq> CHR ''%''" "c \<noteq> CHR ''+''" "(of_char c :: nat) < 128"
    by (auto simp: unreserved_def Let_def)
  with True query_bytes_plain [of c r] show ?thesis
    by (simp add: encode_char_def utf8_bytes_def Let_def del: query_bytes.simps)
next
  case False
  have "(of_char c :: nat) div 64 < 4"
    using nat_of_char_less_256 [of c] by (simp add: less_mult_imp_div_less)
  then have "192 + (of_char c :: nat) div 64 < 256" "128 + (of_char c :: nat) mod 64 < 256" by auto
  with False nat_of_char_less_256 [of c] show ?thesis
    by (simp add: encode_char_def utf8_bytes_def Let_def query_bytes_percent)
qed

lemma query_bytes_encoded:
  "query_bytes (encodeURIComponent s @ r) = concat (map utf8_bytes s) @ query_bytes r"
  by (induction s) (simp_all add: encodeURIComponent_def query_bytes_encode)

lemma utf8_single: "b < 128 \<Longrightarrow> utf8_decode (b # bs) = char_of b # utf8_decode bs"
  by (cases bs) auto

lemma utf8_decode_bytes: "utf8_decode (utf8_bytes c @ bs) = c # utf8_decode bs"
proof (cases "(of_char c :: nat) < 128")
  case True
  then show ?thesis by (simp add: utf8_bytes_def Let_def utf8_single)
next
  case False
  let ?n = "of_char c :: nat"
  have "?n div 64 < 4" using nat_of_char_less_256 [of c] by (simp add: less_mult_imp_div_less)
  moreover have "64 * (?n div 64) + ?n mod 64 = ?n" by simp
  moreover have "?n mod 64 \<le> 63" using mod_less_divisor [of 64 ?n] by linarith
  ultimately show ?thesis using False by (simp add: utf8_bytes_def Let_def)
qed

text \<open>Encoding a parameter and reading it back is the identity.\<close>

theorem decode_encode: "decode_param (encodeURIComponent s) = s"
proof -
  have "utf8_decode (concat (map utf8_bytes s)) = s"
    by (induction s) (simp_all add: utf8_decode_bytes)
  then show ?thesis using query_bytes_encoded [of s "[]"] by (simp add: decode_param_def)
qed

end
