(* ===== verification/ApiClient.thy ===== *)
theory ApiClient
  imports ApiTypes SingleFlight "HOL-Library.AList"
begin

text \<open>
  The request function \<open>api\<close> of \<open>web/lib/api.ts\<close>: the options of a request, the value or the
  error a response becomes, and the silent renewal of the session on a 401, with the one
  refresh request that all calls share.  Calls run concurrently; each is cut at its awaits,
  and the server's responses are events.
\<close>

subsection \<open>The request\<close>

record request_init =
  ri_method :: "string option"
  ri_headers :: "(string \<times> string) list option"
  ri_body :: "string option"

record fetch_options =
  fo_credentials :: string
  fo_method :: "string option"
  fo_headers :: "(string \<times> string) list option"
  fo_body :: "string option"

definition get_init :: request_init where
  "get_init = \<lparr>ri_method = None, ri_headers = None, ri_body = None\<rparr>"

text \<open>
  The object literal of the call of \<open>fetch\<close>: the headers computed first, then \<open>...init\<close>,
  whose own \<open>headers\<close> property, when there is one, replaces them.
\<close>

definition merged_headers :: "request_init \<Rightarrow> (string \<times> string) list option" where
  "merged_headers init =
     (case ri_body init of
        Some (_ # _) \<Rightarrow>
          Some (fold (\<lambda>(k, v). AList.update k v)
                 (case ri_headers init of Some h \<Rightarrow> h | None \<Rightarrow> [])
                 [(''Content-Type'', ''application/json'')])
      | _ \<Rightarrow> ri_headers init)"

definition fetch_request :: "request_init \<Rightarrow> fetch_options" where
  "fetch_request init =
     \<lparr>fo_credentials = ''same-origin'', fo_method = ri_method init,
      fo_headers = (case ri_headers init of Some h \<Rightarrow> Some h | None \<Rightarrow> merged_headers init),
      fo_body = ri_body init\<rparr>"

definition noRefresh :: "string \<Rightarrow> bool" where
  "noRefresh path \<longleftrightarrow> str_includes path ''/api/auth/login'' \<or> str_includes path ''/api/auth/refresh''"

subsection \<open>The response\<close>

text \<open>
  The body of a response: not JSON, the JSON \<open>null\<close>, or a JSON value with the strings its
  properties \<open>error\<close> and \<open>message\<close> hold and the value itself.
\<close>

datatype 'a json_body = NoJson | JsonNull | Json "string option" "string option" 'a

record 'a http_response =
  hr_status :: nat
  hr_statusText :: string
  hr_body :: "'a json_body"

record api_error =
  ae_status :: nat
  ae_code :: string
  ae_message :: string

datatype 'a api_value = Undefined | EmptyObject | NullValue | Value 'a

text \<open>The end of a call: a value, an \<open>ApiError\<close>, or another exception (network, type error).\<close>

datatype 'a api_result = Returned "'a api_value" | Raised api_error | Crashed

definition response_ok :: "'a http_response \<Rightarrow> bool" where
  "response_ok res \<longleftrightarrow> 200 \<le> hr_status res \<and> hr_status res \<le> 299"

definition api_end :: "'a http_response \<Rightarrow> 'a api_result" where
  "api_end res =
     (if hr_status res = 204 then Returned Undefined
      else case hr_body res of
          NoJson \<Rightarrow>
            if response_ok res then Returned EmptyObject
            else Raised \<lparr>ae_status = hr_status res, ae_code = ''error'', ae_message = hr_statusText res\<rparr>
        | JsonNull \<Rightarrow> if response_ok res then Returned NullValue else Crashed
        | Json err msg v \<Rightarrow>
            if response_ok res then Returned (Value v)
            else Raised \<lparr>ae_status = hr_status res,
                         ae_code = (case err of Some c \<Rightarrow> c | None \<Rightarrow> ''error''),
                         ae_message = (case msg of Some m \<Rightarrow> m | None \<Rightarrow> hr_statusText res)\<rparr>)"

subsection \<open>Concurrent calls\<close>

text \<open>
  A call waits for the response to its request (\<open>True\<close> when it is the retry), for the shared
  refresh with the 401 it got, or has ended.
\<close>

datatype 'a phase = Fetching bool | Renewing "'a http_response" | Ended "'a api_result"

record 'a call =
  cl_path :: string
  cl_init :: request_init
  cl_phase :: "'a phase"
  cl_fetches :: nat

text \<open>
  The module variable \<open>refreshing\<close> (a promise or null), the refresh requests in flight, and
  how many were ever sent.
\<close>

record 'a client =
  ct_calls :: "'a call list"
  ct_refreshing :: bool
  ct_inflight :: nat
  ct_refreshes :: nat

definition set_phase :: "nat \<Rightarrow> 'a phase \<Rightarrow> 'a client \<Rightarrow> 'a client" where
  "set_phase k p c = c\<lparr>ct_calls := (ct_calls c)[k := (ct_calls c ! k)\<lparr>cl_phase := p\<rparr>]\<rparr>"

definition tryRefresh :: "'a client \<Rightarrow> 'a client" where
  "tryRefresh c =
     (if \<not> ct_refreshing c
      then c\<lparr>ct_refreshing := True, ct_inflight := Suc (ct_inflight c),
             ct_refreshes := Suc (ct_refreshes c)\<rparr>
      else c)"

definition api :: "string \<Rightarrow> request_init \<Rightarrow> 'a client \<Rightarrow> 'a client" where
  "api path init c = c\<lparr>ct_calls := ct_calls c @
     [\<lparr>cl_path = path, cl_init = init, cl_phase = Fetching False, cl_fetches = 1\<rparr>]\<rparr>"

text \<open>The response to call \<open>k\<close>, \<open>None\<close> when \<open>fetch\<close> rejects.\<close>

definition respond :: "nat \<Rightarrow> 'a http_response option \<Rightarrow> 'a client \<Rightarrow> 'a client" where
  "respond k answer c =
     (case answer of
        None \<Rightarrow> set_phase k (Ended Crashed) c
      | Some res \<Rightarrow>
          (let retried = (case cl_phase (ct_calls c ! k) of Fetching r \<Rightarrow> r | _ \<Rightarrow> True)
           in if hr_status res = 401 \<and> \<not> noRefresh (cl_path (ct_calls c ! k)) \<and> \<not> retried
              then set_phase k (Renewing res) (tryRefresh c)
              else set_phase k (Ended (api_end res)) c))"

text \<open>
  The refresh request ends, with \<open>r.ok\<close> or \<open>false\<close> on a network error: \<open>refreshing\<close> is null
  again, then every call that awaits it goes on: it retries, or ends with its 401.
\<close>

definition after_refresh :: "bool \<Rightarrow> 'a call \<Rightarrow> 'a call" where
  "after_refresh ok cl =
     (case cl_phase cl of
        Renewing res \<Rightarrow>
          if ok then cl\<lparr>cl_phase := Fetching True, cl_fetches := Suc (cl_fetches cl)\<rparr>
          else cl\<lparr>cl_phase := Ended (api_end res)\<rparr>
      | _ \<Rightarrow> cl)"

definition refresh_over :: "bool \<Rightarrow> 'a client \<Rightarrow> 'a client" where
  "refresh_over ok c =
     c\<lparr>ct_refreshing := False, ct_inflight := ct_inflight c - 1,
       ct_calls := map (after_refresh ok) (ct_calls c)\<rparr>"

datatype 'a api_event =
  Call string request_init | Respond nat "'a http_response option" | RefreshOver bool

fun api_react :: "'a api_event \<Rightarrow> 'a client \<Rightarrow> 'a client" where
  "api_react (Call path init) c = api path init c"
| "api_react (Respond k answer) c = respond k answer c"
| "api_react (RefreshOver ok) c = refresh_over ok c"

definition is_fetching :: "'a call \<Rightarrow> bool" where
  "is_fetching cl \<longleftrightarrow> (case cl_phase cl of Fetching _ \<Rightarrow> True | _ \<Rightarrow> False)"

definition is_renewing :: "'a call \<Rightarrow> bool" where
  "is_renewing cl \<longleftrightarrow> (case cl_phase cl of Renewing _ \<Rightarrow> True | _ \<Rightarrow> False)"

fun api_enabled :: "'a api_event \<Rightarrow> 'a client \<Rightarrow> bool" where
  "api_enabled (Call _ _) c \<longleftrightarrow> True"
| "api_enabled (Respond k _) c \<longleftrightarrow> k < length (ct_calls c) \<and> is_fetching (ct_calls c ! k)"
| "api_enabled (RefreshOver _) c \<longleftrightarrow> 0 < ct_inflight c"

definition fresh_client :: "'a client" where
  "fresh_client = \<lparr>ct_calls = [], ct_refreshing = False, ct_inflight = 0, ct_refreshes = 0\<rparr>"

inductive api_reach :: "'a client \<Rightarrow> bool" where
  api_start: "api_reach fresh_client"
| api_step: "api_reach c \<Longrightarrow> api_enabled e c \<Longrightarrow> api_reach (api_react e c)"

inductive_cases api_reachE: "api_reach c"

fun run_api :: "'a api_event list \<Rightarrow> 'a client \<Rightarrow> 'a client" where
  "run_api [] c = c"
| "run_api (e # es) c = run_api es (api_react e c)"

fun enabled_api :: "'a api_event list \<Rightarrow> 'a client \<Rightarrow> bool" where
  "enabled_api [] c \<longleftrightarrow> True"
| "enabled_api (e # es) c \<longleftrightarrow> api_enabled e c \<and> enabled_api es (api_react e c)"

lemma api_reach_run: "api_reach c \<Longrightarrow> enabled_api es c \<Longrightarrow> api_reach (run_api es c)"
  by (induction es c rule: run_api.induct) (auto intro: api_step)

subsection \<open>The shared refresh\<close>

definition call_ok :: "'a call \<Rightarrow> bool" where
  "call_ok cl \<longleftrightarrow> cl_fetches cl \<le> 2 \<and>
     (case cl_phase cl of
        Fetching r \<Rightarrow> cl_fetches cl = (if r then 2 else 1) \<and> (r \<longrightarrow> \<not> noRefresh (cl_path cl))
      | Renewing res \<Rightarrow> cl_fetches cl = 1 \<and> hr_status res = 401 \<and> \<not> noRefresh (cl_path cl)
      | Ended _ \<Rightarrow> noRefresh (cl_path cl) \<longrightarrow> cl_fetches cl = 1)"

definition api_inv :: "'a client \<Rightarrow> bool" where
  "api_inv c \<longleftrightarrow> ct_inflight c = (if ct_refreshing c then 1 else 0) \<and>
     (ct_refreshing c \<longleftrightarrow> list_ex is_renewing (ct_calls c)) \<and> list_all call_ok (ct_calls c)"

lemma set_phase_calls:
  assumes "k < length (ct_calls c)"
  shows "ct_calls (set_phase k p c) = take k (ct_calls c) @
    (ct_calls c ! k)\<lparr>cl_phase := p\<rparr> # drop (Suc k) (ct_calls c)"
  using assms by (simp add: set_phase_def upd_conv_take_nth_drop)

lemma set_phase_sel [simp]:
  "ct_refreshing (set_phase k p c) = ct_refreshing c" "ct_inflight (set_phase k p c) = ct_inflight c"
  "ct_refreshes (set_phase k p c) = ct_refreshes c"
  "length (ct_calls (set_phase k p c)) = length (ct_calls c)"
  by (simp_all add: set_phase_def)

lemma tryRefresh_sel [simp]:
  "ct_calls (tryRefresh c) = ct_calls c" "ct_refreshing (tryRefresh c)"
  "ct_inflight (tryRefresh c) = (if ct_refreshing c then ct_inflight c else Suc (ct_inflight c))"
  "ct_refreshes (tryRefresh c) = (if ct_refreshing c then ct_refreshes c else Suc (ct_refreshes c))"
  by (simp_all add: tryRefresh_def)

lemma split_at_nth:
  assumes "k < length xs"
  shows "list_all p xs \<longleftrightarrow> list_all p (take k xs) \<and> p (xs ! k) \<and> list_all p (drop (Suc k) xs)"
    and "list_ex p xs \<longleftrightarrow> list_ex p (take k xs) \<or> p (xs ! k) \<or> list_ex p (drop (Suc k) xs)"
  using arg_cong [OF id_take_nth_drop [OF assms], of "list_all p"]
    arg_cong [OF id_take_nth_drop [OF assms], of "list_ex p"]
  by simp_all

lemma api_inv_set_phase:
  assumes inv: "api_inv c" and k: "k < length (ct_calls c)" and f: "cl_phase (ct_calls c ! k) = Fetching r"
    and ok: "call_ok ((ct_calls c ! k)\<lparr>cl_phase := p\<rparr>)"
  shows "(\<forall>res. p \<noteq> Renewing res) \<Longrightarrow> api_inv (set_phase k p c)"
    and "p = Renewing res \<Longrightarrow> api_inv (set_phase k p (tryRefresh c))"
proof -
  have nr: "\<not> is_renewing (ct_calls c ! k)" using f by (simp add: is_renewing_def)
  have all: "list_all call_ok (take k (ct_calls c))" "list_all call_ok (drop (Suc k) (ct_calls c))"
    using inv split_at_nth(1) [OF k, of call_ok] by (simp_all add: api_inv_def)
  have ex: "list_ex is_renewing (ct_calls c) \<longleftrightarrow>
      list_ex is_renewing (take k (ct_calls c)) \<or> list_ex is_renewing (drop (Suc k) (ct_calls c))"
    using split_at_nth(2) [OF k, of is_renewing] nr by simp
  show "api_inv (set_phase k p c)" if "\<forall>res. p \<noteq> Renewing res"
  proof -
    from that have "\<not> is_renewing ((ct_calls c ! k)\<lparr>cl_phase := p\<rparr>)"
      by (cases p) (simp_all add: is_renewing_def)
    with inv ok all ex show ?thesis by (simp add: api_inv_def set_phase_calls [OF k])
  qed
  show "api_inv (set_phase k p (tryRefresh c))" if "p = Renewing res"
  proof -
    have "is_renewing ((ct_calls c ! k)\<lparr>cl_phase := p\<rparr>)" using that by (simp add: is_renewing_def)
    with inv ok all k show ?thesis by (simp add: api_inv_def set_phase_calls)
  qed
qed

lemma api_inv_respond:
  assumes inv: "api_inv c" and k: "k < length (ct_calls c)" and f: "is_fetching (ct_calls c ! k)"
  shows "api_inv (respond k answer c)"
proof -
  from f obtain r where r: "cl_phase (ct_calls c ! k) = Fetching r"
    by (auto simp: is_fetching_def split: phase.splits)
  have ok: "call_ok (ct_calls c ! k)" using inv k by (simp add: api_inv_def list_all_length)
  show ?thesis
  proof (cases answer)
    case None
    have "call_ok ((ct_calls c ! k)\<lparr>cl_phase := Ended Crashed\<rparr>)"
      using ok r by (auto simp: call_ok_def split: if_splits)
    from api_inv_set_phase(1) [OF inv k r this] None show ?thesis by (simp add: respond_def)
  next
    case (Some res)
    show ?thesis
    proof (cases "hr_status res = 401 \<and> \<not> noRefresh (cl_path (ct_calls c ! k)) \<and> \<not> r")
      case True
      then have "call_ok ((ct_calls c ! k)\<lparr>cl_phase := Renewing res\<rparr>)"
        using ok r by (auto simp: call_ok_def)
      from api_inv_set_phase(2) [OF inv k r this refl] Some True r show ?thesis
        by (simp add: respond_def)
    next
      case False
      have "call_ok ((ct_calls c ! k)\<lparr>cl_phase := Ended (api_end res)\<rparr>)"
        using ok r by (auto simp: call_ok_def split: if_splits)
      from api_inv_set_phase(1) [OF inv k r this] Some False r show ?thesis
        by (auto simp: respond_def)
    qed
  qed
qed

lemma after_refresh_ok:
  assumes "call_ok cl"
  shows "call_ok (after_refresh ok cl) \<and> \<not> is_renewing (after_refresh ok cl)"
  using assms by (auto simp: after_refresh_def call_ok_def is_renewing_def split: phase.split)

lemma api_inv_refresh_over:
  assumes "api_inv c"
  shows "api_inv (refresh_over ok c)"
proof -
  have "list_all call_ok (map (after_refresh ok) (ct_calls c))"
    "\<not> list_ex is_renewing (map (after_refresh ok) (ct_calls c))"
    using assms after_refresh_ok by (auto simp: api_inv_def list_all_iff list_ex_iff)
  with assms show ?thesis by (simp add: api_inv_def refresh_over_def)
qed

lemma api_inv_react: "api_inv c \<Longrightarrow> api_enabled e c \<Longrightarrow> api_inv (api_react e c)"
proof (cases e)
  case (Call path init)
  then show "api_inv c \<Longrightarrow> api_inv (api_react e c)"
    by (simp add: api_inv_def api_def call_ok_def is_renewing_def)
qed (simp_all add: api_inv_respond api_inv_refresh_over)

lemma api_reach_inv: "api_reach c \<Longrightarrow> api_inv c"
proof (induction rule: api_reach.induct)
  case api_start
  show ?case by (simp add: api_inv_def fresh_client_def)
qed (rule api_inv_react)

interpretation token_refresh: single_flight ct_refreshing ct_refreshes "\<lambda>(_ :: unit) _. True"
  "\<lambda>_. tryRefresh" refresh_over
  by unfold_locales (simp_all add: refresh_over_def)

subsection \<open>Every call ends\<close>

definition call_weight :: "'a call \<Rightarrow> nat" where
  "call_weight cl = (case cl_phase cl of Fetching r \<Rightarrow> if r then 1 else 3 | Renewing _ \<Rightarrow> 2 | Ended _ \<Rightarrow> 0)"

definition client_weight :: "'a client \<Rightarrow> nat" where
  "client_weight c = sum_list (map call_weight (ct_calls c))"

fun is_answer :: "'a api_event \<Rightarrow> bool" where
  "is_answer (Call _ _) \<longleftrightarrow> False"
| "is_answer _ \<longleftrightarrow> True"

lemma weight_set_phase:
  assumes "k < length (ct_calls c)"
    and "call_weight ((ct_calls c ! k)\<lparr>cl_phase := p\<rparr>) < call_weight (ct_calls c ! k)"
  shows "client_weight (set_phase k p c) < client_weight c"
proof -
  have "client_weight c = sum_list (map call_weight (take k (ct_calls c))) +
      (call_weight (ct_calls c ! k) + sum_list (map call_weight (drop (Suc k) (ct_calls c))))"
    unfolding client_weight_def
    using arg_cong [OF id_take_nth_drop [OF assms(1)], of "\<lambda>xs. sum_list (map call_weight xs)"] by simp
  with assms show ?thesis by (simp add: client_weight_def set_phase_calls)
qed

lemma weight_tryRefresh [simp]: "client_weight (tryRefresh c) = client_weight c"
  by (simp add: client_weight_def)

lemma weight_respond:
  assumes k: "k < length (ct_calls c)" and f: "is_fetching (ct_calls c ! k)"
  shows "client_weight (respond k answer c) < client_weight c"
proof -
  have ended: "client_weight (set_phase k (Ended e) c) < client_weight c" for e
    using f by (intro weight_set_phase [OF k])
      (auto simp: call_weight_def is_fetching_def split: phase.splits)
  have renew: "client_weight (set_phase k (Renewing res) (tryRefresh c)) < client_weight c"
    if "cl_phase (ct_calls c ! k) = Fetching False" for res
    using weight_set_phase [of k "tryRefresh c" "Renewing res"] k that by (simp add: call_weight_def)
  from f obtain r where "cl_phase (ct_calls c ! k) = Fetching r"
    by (auto simp: is_fetching_def split: phase.splits)
  with ended renew show ?thesis by (cases r) (auto simp: respond_def split: option.split)
qed

lemma weight_refresh_over:
  assumes "list_ex is_renewing (ct_calls c)"
  shows "client_weight (refresh_over ok c) < client_weight c"
proof -
  have le: "call_weight (after_refresh ok cl) \<le> call_weight cl" for cl :: "'a call"
    by (auto simp: after_refresh_def call_weight_def split: phase.split)
  have lt: "is_renewing cl \<Longrightarrow> call_weight (after_refresh ok cl) < call_weight cl" for cl :: "'a call"
    by (auto simp: after_refresh_def call_weight_def is_renewing_def split: phase.splits)
  have "list_ex is_renewing cs \<Longrightarrow>
      sum_list (map (\<lambda>cl. call_weight (after_refresh ok cl)) cs) < sum_list (map call_weight cs)"
    for cs :: "'a call list"
  proof (induction cs)
    case (Cons cl cs)
    have "sum_list (map (\<lambda>cl. call_weight (after_refresh ok cl)) cs) \<le> sum_list (map call_weight cs)"
      by (rule sum_list_mono) (rule le)
    with Cons show ?case
      using le [of cl] lt [of cl] by (cases "is_renewing cl") (auto intro: add_less_le_mono add_le_less_mono)
  qed simp
  with assms show ?thesis by (simp add: client_weight_def refresh_over_def comp_def)
qed

lemma weight_answer:
  assumes "api_inv c" and "api_enabled e c" and "is_answer e"
  shows "client_weight (api_react e c) < client_weight c"
  using assms
  by (cases e) (auto simp: weight_respond api_inv_def intro!: weight_refresh_over split: if_splits)

lemma answers_bounded:
  "api_inv c \<Longrightarrow> enabled_api es c \<Longrightarrow> list_all is_answer es \<Longrightarrow>
   client_weight (run_api es c) + length es \<le> client_weight c"
proof (induction es c rule: run_api.induct)
  case (2 e es c)
  from 2 weight_answer [of c e] api_inv_react [of c e] show ?case by force
qed simp

lemma answer_enabled:
  assumes "api_inv c" and "\<not> (\<forall>cl \<in> set (ct_calls c). \<exists>r. cl_phase cl = Ended r)"
  shows "\<exists>e. is_answer e \<and> api_enabled e c"
proof -
  from assms(2) obtain k where k: "k < length (ct_calls c)" "\<forall>r. cl_phase (ct_calls c ! k) \<noteq> Ended r"
    by (metis in_set_conv_nth)
  show ?thesis
  proof (cases "cl_phase (ct_calls c ! k)")
    case (Fetching r)
    with k show ?thesis by (intro exI [of _ "Respond k None"]) (simp add: is_fetching_def)
  next
    case (Renewing res)
    with k have "list_ex is_renewing (ct_calls c)"
      by (auto simp: list_ex_iff is_renewing_def intro!: bexI [of _ "ct_calls c ! k"])
    with assms(1) show ?thesis by (intro exI [of _ "RefreshOver True"]) (simp add: api_inv_def)
  qed (use k in auto)
qed

text \<open>C14: At most one refresh request is in flight at any time, it is in flight exactly while
  some call waits for it, no call is sent more than twice, and the calls of the login and
  refresh endpoints are sent once.\<close>

theorem api_refresh_shared:
  assumes "api_reach c"
  shows "ct_inflight c \<le> 1 \<and> (ct_inflight c = 1 \<longleftrightarrow> list_ex is_renewing (ct_calls c)) \<and>
    list_all (\<lambda>cl. cl_fetches cl \<le> (if noRefresh (cl_path cl) then 1 else 2)) (ct_calls c)"
proof -
  have "call_ok cl \<Longrightarrow> cl_fetches cl \<le> (if noRefresh (cl_path cl) then 1 else 2)" for cl :: "'a call"
    by (auto simp: call_ok_def split: phase.splits if_splits)
  with api_reach_inv [OF assms] show ?thesis
    by (auto simp: api_inv_def list_all_iff)
qed

definition expired :: "string http_response" where
  "expired = \<lparr>hr_status = 401, hr_statusText = ''Unauthorized'', hr_body = NoJson\<rparr>"

definition two_calls :: "string api_event list" where
  "two_calls = [Call ''/api/entries'' get_init, Call ''/api/users'' get_init,
     Respond 0 (Some expired), Respond 1 (Some expired)]"

lemma two_calls_ok: "enabled_api two_calls fresh_client"
  by code_simp

theorem api_refresh_shared_witness:
  "ct_inflight (run_api two_calls fresh_client) \<le> 1 \<and>
   list_all is_renewing (ct_calls (run_api two_calls fresh_client))"
proof
  show "ct_inflight (run_api two_calls fresh_client) \<le> 1"
    using api_refresh_shared [OF api_reach_run [OF api_start two_calls_ok]] by blast
  show "list_all is_renewing (ct_calls (run_api two_calls fresh_client))" by code_simp
qed

text \<open>C15: Every call ends: from a reachable state, and with no new calls in between, at most three
  answers per call in total (its request, the refresh, the retry) can come, and as long as a
  call has not ended an answer is due.\<close>

theorem api_calls_end:
  assumes "api_reach c" and "enabled_api es c" and "list_all is_answer es"
  shows "length es \<le> 3 * length (ct_calls c) \<and>
    ((\<forall>cl \<in> set (ct_calls (run_api es c)). \<exists>r. cl_phase cl = Ended r) \<or>
     (\<exists>e. is_answer e \<and> api_enabled e (run_api es c)))"
proof
  have "call_weight cl \<le> 3" for cl :: "'a call" by (simp add: call_weight_def split: phase.split)
  then have "client_weight c \<le> sum_list (map (\<lambda>_. 3) (ct_calls c))"
    unfolding client_weight_def by (intro sum_list_mono)
  with answers_bounded [OF api_reach_inv [OF assms(1)] assms(2,3)]
  show "length es \<le> 3 * length (ct_calls c)" by (simp add: sum_list_triv)
  have "api_inv (run_api es c)" by (rule api_reach_inv [OF api_reach_run [OF assms(1,2)]])
  from answer_enabled [OF this]
  show "(\<forall>cl \<in> set (ct_calls (run_api es c)). \<exists>r. cl_phase cl = Ended r) \<or>
     (\<exists>e. is_answer e \<and> api_enabled e (run_api es c))" by blast
qed

definition both_answers :: "string api_event list" where
  "both_answers = [RefreshOver True,
     Respond 0 (Some \<lparr>hr_status = 200, hr_statusText = ''OK'', hr_body = Json None None ''list''\<rparr>),
     Respond 1 (Some expired)]"

lemma both_answers_ok:
  "enabled_api both_answers (run_api two_calls fresh_client)" "list_all is_answer both_answers"
  "map cl_phase (ct_calls (run_api both_answers (run_api two_calls fresh_client))) =
     [Ended (Returned (Value ''list'')),
      Ended (Raised \<lparr>ae_status = 401, ae_code = ''error'', ae_message = ''Unauthorized''\<rparr>)]"
  by code_simp+

theorem api_calls_end_witness:
  "length both_answers \<le> 3 * length (ct_calls (run_api two_calls fresh_client)) \<and>
   map cl_phase (ct_calls (run_api both_answers (run_api two_calls fresh_client))) =
     [Ended (Returned (Value ''list'')),
      Ended (Raised \<lparr>ae_status = 401, ae_code = ''error'', ae_message = ''Unauthorized''\<rparr>)]"
  using api_calls_end [OF api_reach_run [OF api_start two_calls_ok] both_answers_ok(1,2)]
    both_answers_ok(3) by blast

subsection \<open>A session that expired\<close>

lemma respond_401:
  assumes "k < length (ct_calls c)" and "cl_phase (ct_calls c ! k) = Fetching False"
    and "\<not> noRefresh (cl_path (ct_calls c ! k))" and "hr_status res = 401"
  shows "respond k (Some res) c = set_phase k (Renewing res) (tryRefresh c)"
  using assms by (simp add: respond_def)

text \<open>Any number of calls are answered 401, in any order.\<close>

lemma expire_all:
  assumes "distinct ks" and "\<forall>k \<in> set ks. k < length (ct_calls c) \<and>
      cl_phase (ct_calls c ! k) = Fetching False \<and> \<not> noRefresh (cl_path (ct_calls c ! k))"
    and "\<forall>k. hr_status (res k) = 401"
  shows "\<forall>j < length (ct_calls c). ct_calls (fold (\<lambda>k. respond k (Some (res k))) ks c) ! j =
      (if j \<in> set ks then (ct_calls c ! j)\<lparr>cl_phase := Renewing (res j)\<rparr> else ct_calls c ! j)"
    and "length (ct_calls (fold (\<lambda>k. respond k (Some (res k))) ks c)) = length (ct_calls c)"
    and "ct_refreshes (fold (\<lambda>k. respond k (Some (res k))) ks c) =
      ct_refreshes c + (if ks = [] \<or> ct_refreshing c then 0 else 1)"
proof -
  have "(\<forall>j < length (ct_calls c). ct_calls (fold (\<lambda>k. respond k (Some (res k))) ks c) ! j =
      (if j \<in> set ks then (ct_calls c ! j)\<lparr>cl_phase := Renewing (res j)\<rparr> else ct_calls c ! j)) \<and>
    length (ct_calls (fold (\<lambda>k. respond k (Some (res k))) ks c)) = length (ct_calls c) \<and>
    ct_refreshes (fold (\<lambda>k. respond k (Some (res k))) ks c) =
      ct_refreshes c + (if ks = [] \<or> ct_refreshing c then 0 else 1)"
    using assms(1,2)
  proof (induction ks arbitrary: c)
    case (Cons k ks)
    let ?c = "set_phase k (Renewing (res k)) (tryRefresh c)"
    have eq: "respond k (Some (res k)) c = ?c"
      by (rule respond_401) (use Cons.prems assms(3) in auto)
    have nth: "j < length (ct_calls c) \<Longrightarrow> ct_calls ?c ! j =
        (if j = k then (ct_calls c ! j)\<lparr>cl_phase := Renewing (res k)\<rparr> else ct_calls c ! j)" for j
      by (simp add: set_phase_def nth_list_update)
    have "\<forall>i \<in> set ks. i < length (ct_calls ?c) \<and> cl_phase (ct_calls ?c ! i) = Fetching False \<and>
        \<not> noRefresh (cl_path (ct_calls ?c ! i))"
      using Cons.prems nth by auto
    from Cons.IH [OF _ this] Cons.prems(1) nth show ?case by (auto simp: eq)
  qed simp
  then show "\<forall>j < length (ct_calls c). ct_calls (fold (\<lambda>k. respond k (Some (res k))) ks c) ! j =
      (if j \<in> set ks then (ct_calls c ! j)\<lparr>cl_phase := Renewing (res j)\<rparr> else ct_calls c ! j)"
    "length (ct_calls (fold (\<lambda>k. respond k (Some (res k))) ks c)) = length (ct_calls c)"
    "ct_refreshes (fold (\<lambda>k. respond k (Some (res k))) ks c) =
      ct_refreshes c + (if ks = [] \<or> ct_refreshing c then 0 else 1)" by blast+
qed

text \<open>C13: When the session has expired, any number of calls that are in flight and are answered
  401, in any order, send one refresh request together; when it succeeds each of them is sent
  once more, with its own path and options, and when it fails each ends with its own 401.\<close>

theorem one_refresh_for_all:
  assumes "distinct ks" and "ks \<noteq> []" and "\<not> ct_refreshing c"
    and "\<forall>k \<in> set ks. k < length (ct_calls c) \<and>
      cl_phase (ct_calls c ! k) = Fetching False \<and> \<not> noRefresh (cl_path (ct_calls c ! k))"
    and "\<forall>k. hr_status (res k) = 401"
    and "c' = fold (\<lambda>k. respond k (Some (res k))) ks c"
  shows "ct_refreshes c' = Suc (ct_refreshes c) \<and>
    ct_refreshes (refresh_over ok c') = Suc (ct_refreshes c) \<and>
    (\<forall>k \<in> set ks. ct_calls (refresh_over ok c') ! k =
       (if ok then (ct_calls c ! k)\<lparr>cl_phase := Fetching True, cl_fetches := Suc (cl_fetches (ct_calls c ! k))\<rparr>
        else (ct_calls c ! k)\<lparr>cl_phase := Ended (api_end (res k))\<rparr>))"
proof -
  note ex = expire_all [OF assms(1,4,5), folded assms(6)]
  have "ct_calls (refresh_over ok c') ! k = after_refresh ok (ct_calls c' ! k)" if "k \<in> set ks" for k
    using that assms(4) ex(2) by (simp add: refresh_over_def)
  with ex assms(2-4) show ?thesis by (auto simp: refresh_over_def after_refresh_def)
qed

lemma two_sent:
  "\<forall>k \<in> set [1, 0 :: nat]. k < length (ct_calls (run_api (take 2 two_calls) fresh_client)) \<and>
     cl_phase (ct_calls (run_api (take 2 two_calls) fresh_client) ! k) = Fetching False \<and>
     \<not> noRefresh (cl_path (ct_calls (run_api (take 2 two_calls) fresh_client) ! k))"
  "\<not> ct_refreshing (run_api (take 2 two_calls) fresh_client)"
  "ct_refreshes (run_api (take 2 two_calls) fresh_client) = 0"
  by code_simp+

theorem one_refresh_for_all_witness:
  "ct_refreshes (refresh_over True
     (fold (\<lambda>k. respond k (Some expired)) [1, 0] (run_api (take 2 two_calls) fresh_client))) = 1"
  using one_refresh_for_all [OF _ _ two_sent(2,1), of "\<lambda>_. expired", OF _ _ _ refl, of True] two_sent(3)
  by (simp add: expired_def)

text \<open>A request whose caller passes headers goes out with exactly those: the JSON content
  type that \<open>api\<close> merges in for a body is overwritten by \<open>...init\<close>.\<close>

theorem own_headers_replace_content_type:
  "ri_headers init = Some h \<Longrightarrow> fo_headers (fetch_request init) = Some h"
  by (simp add: fetch_request_def)

end
