(* ===== verification/Auth.thy ===== *)
theory Auth
  imports Ui Validators UrlCodec ApiClient SiteConfig
begin

text \<open>
  Signing in and out: the auth provider, the gate of the admin layout with its redirect, the
  staff login page with its return path, the viewer login page and the change of the
  password.  A handler that awaits a request is two events, the click and the answer; what a
  page does beyond its state (requests, navigation, toasts) is a list of effects.
\<close>

subsection \<open>The provider\<close>

record auth =
  au_user :: "user option"
  au_loading :: bool

definition auth_start :: auth where "auth_start = \<lparr>au_user = None, au_loading = True\<rparr>"

text \<open>The answer to \<open>/api/auth/me\<close>, \<open>None\<close> when it failed.\<close>

definition me_answer :: "user option \<Rightarrow> auth \<Rightarrow> auth" where
  "me_answer answer a = a\<lparr>au_user := answer, au_loading := False\<rparr>"

definition login_answer :: "user option \<Rightarrow> auth \<Rightarrow> auth" where
  "login_answer answer a = (case answer of Some u \<Rightarrow> a\<lparr>au_user := Some u\<rparr> | None \<Rightarrow> a)"

text \<open>The answer to the logout request, failed or not.\<close>

definition logout_answer :: "bool \<Rightarrow> auth \<Rightarrow> auth" where
  "logout_answer ok a = a\<lparr>au_user := None\<rparr>"

subsection \<open>The gate of the admin pages\<close>

datatype gate = Children | Loader | Chrome

definition isLogin :: "string \<Rightarrow> bool" where "isLogin pathname \<longleftrightarrow> pathname = ''/admin/login''"

definition admin_gate :: "string \<Rightarrow> auth \<Rightarrow> gate" where
  "admin_gate pathname a =
     (if isLogin pathname then Children
      else if au_loading a \<or> au_user a = None then Loader else Chrome)"

definition login_redirect :: "string \<Rightarrow> auth \<Rightarrow> string option" where
  "login_redirect pathname a =
     (if isLogin pathname then None
      else if \<not> au_loading a \<and> au_user a = None
      then Some (''/admin/login?next='' @ encodeURIComponent pathname) else None)"

text \<open>The button of the header, by page: its label and the dialog it opens.\<close>

definition header_action :: "translator \<Rightarrow> string \<Rightarrow> (string \<times> string) option" where
  "header_action t pathname =
     (if pathname = ''/admin/entries'' then Some (tx t ''navUpload'', ''openUpload'')
      else if pathname = ''/admin/users'' then Some (tx t ''usersNew'', ''createUser'')
      else if pathname = ''/admin/categories'' then Some (tx t ''newCategory'', ''createCategory'')
      else if pathname = ''/admin/flavors'' then Some (tx t ''flavorsNew'', ''createFlavor'')
      else if pathname = ''/admin/domain-acls'' then Some (tx t ''aclNew'', ''createAcl'')
      else if pathname = ''/admin/players'' then Some (tx t ''playersNew'', ''createPlayer'')
      else if pathname = ''/admin/viewers'' then Some (tx t ''viewerNew'', ''createViewer'')
      else None)"

definition pageTitles :: "translator \<Rightarrow> string \<rightharpoonup> string" where
  "pageTitles t = map_of
     [(''/admin/dashboard'', tx t ''navDashboard''), (''/admin/entries'', tx t ''navEntries''),
      (''/admin/upload'', tx t ''navUpload''), (''/admin/users'', tx t ''navUsers''),
      (''/admin/jobs'', tx t ''navJobs''), (''/admin/analytics'', tx t ''navAnalytics''),
      (''/admin/categories'', tx t ''navCategories''), (''/admin/flavors'', tx t ''navFlavors''),
      (''/admin/domain-acls'', tx t ''navDomainAcls''), (''/admin/players'', tx t ''navPlayers''),
      (''/admin/viewers'', tx t ''navViewers''), (''/admin/storage'', tx t ''navStorage''),
      (''/admin/settings'', tx t ''navSettings'')]"

definition pageTitle :: "translator \<Rightarrow> string \<Rightarrow> string" where
  "pageTitle t pathname = (case pageTitles t pathname of Some x \<Rightarrow> x | None \<Rightarrow> tx t ''appTitle'')"

text \<open>The window title, after the site configuration came or failed.\<close>

definition window_title :: "string \<Rightarrow> string \<Rightarrow> site_config option \<Rightarrow> string" where
  "window_title page fallback cfg =
     page @ '' | '' @ (case cfg of
        Some c \<Rightarrow> if sc_siteName c \<noteq> [] then sc_siteName c else fallback
      | None \<Rightarrow> fallback)"

datatype shell_event = HeaderClick string

definition AdminLayoutBody ::
  "translator \<Rightarrow> string \<Rightarrow> auth \<Rightarrow> shell_event node list \<Rightarrow> shell_event node list" where
  "AdminLayoutBody t pathname a children =
     (case admin_gate pathname a of
        Children \<Rightarrow> children
      | Loader \<Rightarrow> [PageLoader t None]
      | Chrome \<Rightarrow>
          [El ''SidebarProvider'' [] [El ''AppSidebar'' [] [],
             El ''SidebarInset'' []
               (El ''header'' []
                 ([El ''SidebarTrigger'' [] [], El ''Separator'' [] [],
                   El ''h1'' [] [Txt (pageTitle t pathname)]] @
                  (if pathname = ''/admin/analytics'' then [El ''AnalyticsRange'' [] []]
                   else case header_action t pathname of
                     Some (label, act) \<Rightarrow>
                       [El ''Button'' [(''onClick'', AEvent (HeaderClick act))] [Txt label]]
                   | None \<Rightarrow> [])) #
                children)]])"

subsection \<open>The staff login\<close>

definition default_next :: string where "default_next = ''/admin/dashboard''"

definition safe_next :: "string option \<Rightarrow> string" where
  "safe_next rawNext =
     (case rawNext of
        Some (c # r) \<Rightarrow>
          if starts_with (c # r) ''/'' \<and> \<not> starts_with (c # r) ''//'' then c # r else default_next
      | _ \<Rightarrow> default_next)"

record login_form =
  lf_email :: string
  lf_password :: string
  lf_showPassword :: bool
  lf_busy :: bool
  lf_errors :: field_errors
  lf_formError :: "string option"

definition empty_login :: login_form where
  "empty_login = \<lparr>lf_email = [], lf_password = [], lf_showPassword = False, lf_busy = False,
     lf_errors = [], lf_formError = None\<rparr>"

text \<open>How a request of a form ends: success, an \<open>ApiError\<close> or another exception.\<close>

datatype answer = Success | ApiFailure string | OtherFailure string

datatype login_event =
  TypeEmail string | TypePassword string | TogglePassword | SubmitLogin | LoginAnswer answer

datatype effect =
    PostLogin string string
  | PostViewerLogin string string
  | PatchPassword string string
  | RouterReplace string
  | LocationReplace string
  | RouterPush string
  | ShowToast toast_type string

definition clear_error :: "string \<Rightarrow> field_errors \<Rightarrow> field_errors" where
  "clear_error k es = AList.update k [] es"

definition login_data :: "login_form \<Rightarrow> form_data" where
  "login_data f = [(''email'', FText (lf_email f)), (''password'', FText (lf_password f))]"

fun login_step ::
  "(schema \<Rightarrow> form_data \<Rightarrow> issue list) \<Rightarrow> translator \<Rightarrow> string \<Rightarrow> login_event \<Rightarrow> login_form \<Rightarrow>
   login_form \<times> effect list" where
  "login_step parse t next (TypeEmail s) f =
     (f\<lparr>lf_email := s, lf_errors := clear_error ''email'' (lf_errors f)\<rparr>, [])"
| "login_step parse t next (TypePassword s) f =
     (f\<lparr>lf_password := s, lf_errors := clear_error ''password'' (lf_errors f)\<rparr>, [])"
| "login_step parse t next TogglePassword f = (f\<lparr>lf_showPassword := \<not> lf_showPassword f\<rparr>, [])"
| "login_step parse t next SubmitLogin f =
     (let errs = fieldErrors parse loginSchema (login_data f)
      in if errs \<noteq> [] then (f\<lparr>lf_errors := errs\<rparr>, [])
         else (f\<lparr>lf_errors := [], lf_busy := True\<rparr>, [PostLogin (lf_email f) (lf_password f)]))"
| "login_step parse t next (LoginAnswer Success) f = (f\<lparr>lf_busy := False\<rparr>, [RouterReplace next])"
| "login_step parse t next (LoginAnswer (ApiFailure m)) f =
     (f\<lparr>lf_busy := False\<rparr>, [ShowToast ToastError m])"
| "login_step parse t next (LoginAnswer (OtherFailure m)) f =
     (f\<lparr>lf_busy := False\<rparr>, [ShowToast ToastError (tx t ''loginFailed'')])"

text \<open>The effect that leaves the page as soon as a user is signed in.\<close>

definition login_redirects :: "auth \<Rightarrow> string \<Rightarrow> effect list" where
  "login_redirects a next = (case au_user a of Some _ \<Rightarrow> [RouterReplace next] | None \<Rightarrow> [])"

text \<open>The password input with its button, and the page.\<close>

definition password_field :: "translator \<Rightarrow> string \<Rightarrow> login_form \<Rightarrow> login_event node" where
  "password_field t i f =
     El ''div'' []
       [El ''Input'' [(''id'', AText i),
          (''type'', AText (if lf_showPassword f then ''text'' else ''password'')),
          (''value'', AText (lf_password f)), (''onChange'', AInput TypePassword),
          (''autoComplete'', AText ''current-password'')] [],
        El ''button'' [(''type'', AText ''button''), (''onClick'', AEvent TogglePassword),
          (''aria-label'', AText (if lf_showPassword f then tx t ''loginHidePassword''
                                else tx t ''loginShowPassword''))]
          [El (if lf_showPassword f then ''EyeOffIcon'' else ''EyeIcon'') [] []]]"

definition login_frame ::
  "string \<Rightarrow> string \<Rightarrow> string \<Rightarrow> login_event node list \<Rightarrow> login_event node" where
  "login_frame siteName title prompt form =
     El ''div'' []
       [El ''div'' [] [El ''LanguageSelect'' [] [], El ''ThemeToggle'' [] []],
        El ''div'' [] [El ''ClapperboardIcon'' [] [], El ''span'' [] [Txt siteName]],
        El ''Card'' []
          [El ''CardHeader'' [] [El ''CardTitle'' [] [Txt title], El ''CardDescription'' [] [Txt prompt]],
           El ''CardContent'' [] [El ''form'' [(''noValidate'', ABool True)] form]]]"

text \<open>Submitting a form is what its submit button does.\<close>

definition LoginForm :: "translator \<Rightarrow> string \<Rightarrow> login_form \<Rightarrow> login_event node" where
  "LoginForm t siteName f =
     login_frame siteName (tx t ''loginTitle'') (tx t ''loginPrompt'')
       [El ''div'' [] ([El ''Label'' [(''htmlFor'', AText ''email'')] [Txt (tx t ''loginEmail'')],
          El ''Input'' [(''id'', AText ''email''), (''type'', AText ''email''), (''value'', AText (lf_email f)),
            (''onChange'', AInput TypeEmail), (''autoComplete'', AText ''email'')] []] @
          FormError (map_of (lf_errors f) ''email'')),
        El ''div'' [] ([El ''Label'' [(''htmlFor'', AText ''password'')] [Txt (tx t ''loginPassword'')],
          password_field t ''password'' f] @ FormError (map_of (lf_errors f) ''password'')),
        El ''Button'' [(''type'', AText ''submit''), (''disabled'', ABool (lf_busy f)),
          (''onClick'', AEvent SubmitLogin)]
          [Txt (if lf_busy f then tx t ''loginSigningIn'' else tx t ''loginButton'')]]"

subsection \<open>The viewer login\<close>

text \<open>
  \<open>parsed.data\<close> is the data as the schema transforms it: the email trimmed, the password as it
  is.  The request to \<open>/api/viewer/me\<close> on entry leaves for the library when it succeeds.
\<close>

fun viewer_login_step ::
  "(schema \<Rightarrow> form_data \<Rightarrow> issue list) \<Rightarrow> translator \<Rightarrow> login_event \<Rightarrow> login_form \<Rightarrow>
   login_form \<times> effect list" where
  "viewer_login_step parse t (TypeEmail s) f =
     (f\<lparr>lf_email := s, lf_errors := clear_error ''email'' (lf_errors f)\<rparr>, [])"
| "viewer_login_step parse t (TypePassword s) f =
     (f\<lparr>lf_password := s, lf_errors := clear_error ''password'' (lf_errors f)\<rparr>, [])"
| "viewer_login_step parse t TogglePassword f = (f\<lparr>lf_showPassword := \<not> lf_showPassword f\<rparr>, [])"
| "viewer_login_step parse t SubmitLogin f =
     (if parse loginSchema (login_data f) \<noteq> []
      then (f\<lparr>lf_errors := fieldErrors parse loginSchema (login_data f)\<rparr>, [])
      else (f\<lparr>lf_busy := True, lf_formError := None\<rparr>,
            [PostViewerLogin (js_trim (lf_email f)) (lf_password f)]))"
| "viewer_login_step parse t (LoginAnswer Success) f = (f\<lparr>lf_busy := False\<rparr>, [LocationReplace ''/''])"
| "viewer_login_step parse t (LoginAnswer (ApiFailure m)) f =
     (f\<lparr>lf_busy := False, lf_formError := Some m\<rparr>, [])"
| "viewer_login_step parse t (LoginAnswer (OtherFailure m)) f =
     (f\<lparr>lf_busy := False, lf_formError := Some m\<rparr>, [])"

definition viewer_me_answer :: "bool \<Rightarrow> effect list" where
  "viewer_me_answer ok = (if ok then [LocationReplace ''/''] else [])"

definition ViewerLoginPage :: "translator \<Rightarrow> string \<Rightarrow> login_form \<Rightarrow> login_event node" where
  "ViewerLoginPage t siteName f =
     login_frame siteName (tx t ''libraryLoginTitle'') (tx t ''libraryLoginDesc'')
       ([El ''div'' [] ([El ''Label'' [(''htmlFor'', AText ''viewer-email'')] [Txt (tx t ''loginEmail'')],
          El ''Input'' [(''id'', AText ''viewer-email''), (''type'', AText ''email''),
            (''autoComplete'', AText ''email''), (''value'', AText (lf_email f)),
            (''onChange'', AInput TypeEmail)] []] @
          FormError (map_of (lf_errors f) ''email'')),
        El ''div'' [] ([El ''Label'' [(''htmlFor'', AText ''viewer-password'')] [Txt (tx t ''loginPassword'')],
          password_field t ''viewer-password'' f] @ FormError (map_of (lf_errors f) ''password''))] @
        (case lf_formError f of Some (c # m) \<Rightarrow> FormError (Some (c # m)) | _ \<Rightarrow> []) @
        [El ''Button'' [(''type'', AText ''submit''), (''disabled'', ABool (lf_busy f)),
          (''onClick'', AEvent SubmitLogin)]
          [Txt (if lf_busy f then tx t ''loading'' else tx t ''navSignIn'')]])"

subsection \<open>Changing the password\<close>

record password_form =
  pf_current :: string
  pf_next :: string
  pf_confirm :: string
  pf_busy :: bool
  pf_errors :: field_errors

datatype password_event =
  TypeCurrent string | TypeNext string | TypeConfirm string | SubmitPassword | PasswordAnswer answer

definition password_data :: "password_form \<Rightarrow> form_data" where
  "password_data f =
     [(''currentPassword'', FText (pf_current f)), (''newPassword'', FText (pf_next f)),
      (''confirm'', FText (pf_confirm f))]"

fun password_step ::
  "(schema \<Rightarrow> form_data \<Rightarrow> issue list) \<Rightarrow> translator \<Rightarrow> password_event \<Rightarrow> password_form \<Rightarrow>
   password_form \<times> effect list" where
  "password_step parse t (TypeCurrent s) f =
     (f\<lparr>pf_current := s, pf_errors := clear_error ''currentPassword'' (pf_errors f)\<rparr>, [])"
| "password_step parse t (TypeNext s) f =
     (f\<lparr>pf_next := s, pf_errors := clear_error ''newPassword'' (pf_errors f)\<rparr>, [])"
| "password_step parse t (TypeConfirm s) f =
     (f\<lparr>pf_confirm := s, pf_errors := clear_error ''confirm'' (pf_errors f)\<rparr>, [])"
| "password_step parse t SubmitPassword f =
     (let errs = fieldErrors parse changePasswordSchema (password_data f)
      in if errs \<noteq> [] then (f\<lparr>pf_errors := errs\<rparr>, [])
         else (f\<lparr>pf_errors := [], pf_busy := True\<rparr>, [PatchPassword (pf_current f) (pf_next f)]))"
| "password_step parse t (PasswordAnswer Success) f =
     (f\<lparr>pf_current := [], pf_next := [], pf_confirm := [], pf_busy := False\<rparr>,
      [ShowToast ToastSuccess (tx t ''passwordChanged'')])"
| "password_step parse t (PasswordAnswer (ApiFailure m)) f =
     (f\<lparr>pf_busy := False\<rparr>, [ShowToast ToastError m])"
| "password_step parse t (PasswordAnswer (OtherFailure m)) f =
     (f\<lparr>pf_busy := False\<rparr>, [ShowToast ToastError (tx t ''error'')])"

definition password_input ::
  "string \<Rightarrow> string \<Rightarrow> string \<Rightarrow> (string \<Rightarrow> password_event) \<Rightarrow> string option \<Rightarrow> password_event node" where
  "password_input label autocomplete value typed err =
     El ''div'' [] ([El ''Label'' [] [Txt label],
       El ''Input'' [(''type'', AText ''password''), (''autoComplete'', AText autocomplete),
         (''value'', AText value), (''onChange'', AInput typed)] []] @ FormError err)"

definition ChangePasswordContent :: "translator \<Rightarrow> password_form \<Rightarrow> password_event node" where
  "ChangePasswordContent t f =
     El ''form'' [(''noValidate'', ABool True)]
       [El ''DialogHeader'' [] [El ''DialogTitle'' [] [Txt (tx t ''changePasswordTitle'')],
          El ''DialogDescription'' [] [Txt (tx t ''changePasswordDesc'')]],
        El ''div'' []
          [password_input (tx t ''currentPassword'') ''current-password'' (pf_current f) TypeCurrent
             (map_of (pf_errors f) ''currentPassword''),
           password_input (tx t ''newPassword'') ''new-password'' (pf_next f) TypeNext
             (map_of (pf_errors f) ''newPassword''),
           password_input (tx t ''confirmPassword'') ''new-password'' (pf_confirm f) TypeConfirm
             (map_of (pf_errors f) ''confirm'')],
        El ''DialogFooter'' []
          [El ''Button'' [(''type'', AText ''submit''), (''disabled'', ABool (pf_busy f)),
             (''onClick'', AEvent SubmitPassword)]
             [Txt (if pf_busy f then tx t ''loading'' else tx t ''save'')]]]"

subsection \<open>The return path\<close>

text \<open>\<open>params.get("next")\<close> of the login URL.\<close>

definition query_next :: "string \<Rightarrow> string option" where
  "query_next url =
     (if starts_with url ''/admin/login?next='' then Some (decode_param (drop 18 url)) else None)"

text \<open>
  How a browser resolves a path against the page: tabs and line ends are dropped, and two
  leading slashes, of which each may be a backslash, start the name of another host.
\<close>

definition leaves_origin :: "string \<Rightarrow> bool" where
  "leaves_origin href \<longleftrightarrow>
     (case filter (\<lambda>c. c \<notin> {CHR 0x09, CHR 0x0A, CHR 0x0D}) href of
        a # b # _ \<Rightarrow> (a = CHR ''/'' \<or> a = CHR 0x5C) \<and> (b = CHR ''/'' \<or> b = CHR 0x5C)
      | _ \<Rightarrow> False)"

lemma safe_next_form:
  "starts_with (safe_next raw) ''/'' \<and> \<not> starts_with (safe_next raw) ''//''"
  by (auto simp: safe_next_def default_next_def starts_with_def split: option.split list.split)

text \<open>C16: A visitor who opens an admin page without being signed in comes back to it: the gate
  shows no page and redirects to the login, whose address, read back, gives the page's path;
  a valid login that succeeds goes to that path, where the gate then shows the page.\<close>

theorem sign_in_returns_to_page:
  assumes "starts_with p ''/'' \<and> \<not> starts_with p ''//''" and "\<not> isLogin p"
    and "fieldErrors parse loginSchema (login_data f) = []"
  shows "\<exists>url. login_redirect p (me_answer None auth_start) = Some url \<and>
    admin_gate p (me_answer None auth_start) = Loader \<and>
    safe_next (query_next url) = p \<and>
    snd (login_step parse t (safe_next (query_next url)) SubmitLogin f) =
      [PostLogin (lf_email f) (lf_password f)] \<and>
    snd (login_step parse t (safe_next (query_next url)) (LoginAnswer Success) f') = [RouterReplace p] \<and>
    admin_gate p (login_answer (Some u) (me_answer None auth_start)) = Chrome"
proof -
  let ?url = "''/admin/login?next='' @ encodeURIComponent p"
  have "login_redirect p (me_answer None auth_start) = Some ?url"
    using assms(2) by (simp add: login_redirect_def me_answer_def auth_start_def)
  moreover have "safe_next (query_next ?url) = p"
    using assms(1) by (cases p) (simp_all add: query_next_def decode_encode safe_next_def starts_with_def)
  ultimately show ?thesis
    using assms(2,3) by (auto simp: admin_gate_def me_answer_def auth_start_def login_answer_def)
qed

definition typed_login :: login_form where
  "typed_login = empty_login\<lparr>lf_email := ''ann@site'', lf_password := ''secret''\<rparr>"

theorem sign_in_returns_to_page_witness:
  "\<exists>url. login_redirect ''/admin/users'' (me_answer None auth_start) = Some url \<and>
    safe_next (query_next url) = ''/admin/users''"
proof -
  have "starts_with ''/admin/users'' ''/'' \<and> \<not> starts_with ''/admin/users'' ''//''"
    "\<not> isLogin ''/admin/users''" "fieldErrors reference_parse loginSchema (login_data typed_login) = []"
    by code_simp+
  from sign_in_returns_to_page [OF this] show ?thesis by blast
qed

text \<open>A return path without a backslash, tab or line end never leaves the site, whatever the
  address carried.\<close>

theorem safe_next_same_origin:
  assumes "\<forall>r. raw = Some r \<longrightarrow> set r \<inter> {CHR 0x5C, CHR 0x09, CHR 0x0A, CHR 0x0D} = {}"
  shows "\<not> leaves_origin (safe_next raw)"
proof -
  have clean: "set (safe_next raw) \<inter> {CHR 0x5C, CHR 0x09, CHR 0x0A, CHR 0x0D} = {}"
    using assms by (auto simp: safe_next_def default_next_def split: option.split list.split)
  then have "filter (\<lambda>c. c \<notin> {CHR 0x09, CHR 0x0A, CHR 0x0D}) (safe_next raw) = safe_next raw"
    by (intro filter_True) auto
  with clean safe_next_form [of raw] show ?thesis
    by (auto simp: leaves_origin_def starts_with_def split: list.splits)
qed

theorem safe_next_same_origin_witness:
  "\<not> leaves_origin (safe_next (Some ''//evil.example/admin'')) \<and>
   \<not> leaves_origin (safe_next (Some ''https://evil.example''))"
  using safe_next_same_origin [of "Some ''//evil.example/admin''"]
    safe_next_same_origin [of "Some ''https://evil.example''"] by simp

text \<open>The guard misses a backslash, which browsers read as a slash.\<close>

lemma backslash_leaves_origin: "leaves_origin (safe_next (Some (''/'' @ [CHR 0x5C] @ ''evil.example'')))"
  by code_simp

subsection \<open>The forms\<close>

text \<open>
  A login page with the requests it has in flight: the user types and clicks what the page
  shows; an answer comes for a request in flight.
\<close>

inductive login_run ::
  "(schema \<Rightarrow> form_data \<Rightarrow> issue list) \<Rightarrow> translator \<Rightarrow> string \<Rightarrow> string \<Rightarrow> login_form \<Rightarrow> effect list \<Rightarrow> bool"
  for parse t site nxt where
  login_empty: "login_run parse t site nxt empty_login []"
| login_types: "login_run parse t site nxt f fl \<Longrightarrow>
    e \<in> {TypeEmail s, TypePassword s} \<Longrightarrow>
    login_run parse t site nxt (fst (login_step parse t nxt e f)) fl"
| login_clicks: "login_run parse t site nxt f fl \<Longrightarrow> can_cause (LoginForm t site f) e \<Longrightarrow>
    login_run parse t site nxt (fst (login_step parse t nxt e f)) (fl @ snd (login_step parse t nxt e f))"
| login_answers: "login_run parse t site nxt f (q # fl) \<Longrightarrow>
    login_run parse t site nxt (fst (login_step parse t nxt (LoginAnswer a) f)) fl"

lemma login_form_events:
  "can_cause (LoginForm t site f) e \<longleftrightarrow> e = TogglePassword \<or> (e = SubmitLogin \<and> \<not> lf_busy f)"
  by (auto simp: can_cause_def LoginForm_def login_frame_def password_field_def is_disabled_def FormError_def
      split: option.splits list.splits)

text \<open>The login page has at most one request in flight, sends only what its schema accepts,
  and is ready again after every answer: its button is disabled exactly while it waits.\<close>

theorem login_one_request:
  assumes "login_run parse t site next f fl"
  shows "length fl = (if lf_busy f then 1 else 0) \<and>
    (can_cause (LoginForm t site f) SubmitLogin \<longleftrightarrow> fl = []) \<and>
    (\<forall>q \<in> set fl. \<exists>e p. q = PostLogin e p \<and>
       fieldErrors parse loginSchema [(''email'', FText e), (''password'', FText p)] = [])"
  using assms
proof (induction rule: login_run.induct)
  case login_empty
  show ?case by (simp add: login_form_events empty_login_def)
next
  case (login_types f fl e s)
  then show ?case by (auto simp: login_form_events)
next
  case (login_clicks f fl e)
  show ?case
  proof (cases "e = SubmitLogin")
    case True
    with login_clicks show ?thesis by (auto simp: login_form_events Let_def login_data_def)
  next
    case False
    with login_clicks show ?thesis by (auto simp: login_form_events)
  qed
next
  case (login_answers f q fl a)
  then show ?case by (cases a) (auto simp: login_form_events split: if_splits)
qed

lemma login_one_click:
  "login_run reference_parse t site next (typed_login\<lparr>lf_errors := [], lf_busy := True\<rparr>)
     [PostLogin ''ann@site'' ''secret'']"
proof -
  let ?f = "fst (login_step reference_parse t next (TypePassword ''secret'')
      (fst (login_step reference_parse t next (TypeEmail ''ann@site'') empty_login)))"
  have r: "login_run reference_parse t site next ?f []"
    by (rule login_types [OF login_types [OF login_empty]]) auto
  have "fieldErrors reference_parse loginSchema
      [(''email'', FText ''ann@site''), (''password'', FText ''secret'')] = []" by code_simp
  then have "login_step reference_parse t next SubmitLogin ?f =
      (typed_login\<lparr>lf_errors := [], lf_busy := True\<rparr>, [PostLogin ''ann@site'' ''secret''])"
    by (simp add: typed_login_def empty_login_def login_data_def)
  with login_clicks [OF r, of SubmitLogin] show ?thesis
    by (simp add: login_form_events empty_login_def)
qed

theorem login_one_request_witness:
  "\<not> can_cause (LoginForm (\<lambda>_ _. []) [] (typed_login\<lparr>lf_errors := [], lf_busy := True\<rparr>)) SubmitLogin"
  using login_one_request [OF login_one_click [of "\<lambda>_ _. []" "[]" "[]"]] by simp

text \<open>A new password that is too short, or differs from its confirmation, is never sent.\<close>

theorem password_sent_matches:
  assumes "documented_parse parse"
    and "PatchPassword a b \<in> set (snd (password_step parse t SubmitPassword f))"
  shows "a = pf_current f \<and> b = pf_next f \<and> a \<noteq> [] \<and> 8 \<le> length b \<and> b = pf_confirm f"
proof -
  from assms(2) have ab: "a = pf_current f" "b = pf_next f"
    and "fieldErrors parse changePasswordSchema (password_data f) = []"
    by (auto simp: Let_def split: if_splits)
  then have "parse changePasswordSchema (password_data f) = []"
    by (simp add: fieldErrors_def fold_issues_empty)
  with assms(1) have "accepts changePasswordSchema (password_data f)"
    by (simp add: documented_parse_def)
  then show ?thesis
    using ab by (auto simp: accepts_def changePasswordSchema_def password_data_def field_value_def
        text_rules_def field_valid_def accepts_absent_def kind_matches_def passwordSchema_def
        refine_holds_def Suc_le_eq split: if_splits)
qed

definition typed_password :: password_form where
  "typed_password = \<lparr>pf_current = ''old'', pf_next = ''new-secret'', pf_confirm = ''new-secret'',
     pf_busy = False, pf_errors = []\<rparr>"

theorem password_sent_matches_witness:
  "snd (password_step reference_parse (\<lambda>_ _. []) SubmitPassword typed_password) =
     [PatchPassword ''old'' ''new-secret''] \<and> 8 \<le> length ''new-secret''"
proof
  show p: "snd (password_step reference_parse (\<lambda>_ _. []) SubmitPassword typed_password) =
     [PatchPassword ''old'' ''new-secret'']" by code_simp
  have "PatchPassword ''old'' ''new-secret'' \<in>
      set (snd (password_step reference_parse (\<lambda>_ _. []) SubmitPassword typed_password))"
    unfolding p by simp
  from password_sent_matches [OF documented_reference this]
  show "8 \<le> length ''new-secret''" by blast
qed

end
