(* ===== verification/DialogStack.thy ===== *)
theory DialogStack
  imports JsNum
begin

text \<open>
  The dialog manager of \<open>web/hooks/use-dialog.tsx\<close>: a stack of open dialogs with generated
  ids, \<open>open\<close>, \<open>close\<close>, \<open>closeAll\<close> and \<open>confirm\<close>, and the confirm box that keeps its dialog
  open until its action has succeeded.  The classes of the sizes are strings of style; the
  content of a dialog is an opaque number, or a confirm box with its options.
\<close>

datatype dialog_size = SizeSm | SizeMd | SizeLg | SizeXl | Size2xl | Size3xl | Size4xl | Size5xl
  | SizeFull | SizeFullscreen

fun sizeClasses :: "dialog_size \<Rightarrow> string" where
  "sizeClasses SizeSm = ''sm:max-w-sm''"
| "sizeClasses SizeMd = ''sm:max-w-md''"
| "sizeClasses SizeLg = ''sm:max-w-lg''"
| "sizeClasses SizeXl = ''sm:max-w-xl''"
| "sizeClasses Size2xl = ''sm:max-w-2xl''"
| "sizeClasses Size3xl = ''sm:max-w-3xl''"
| "sizeClasses Size4xl = ''sm:max-w-4xl''"
| "sizeClasses Size5xl = ''sm:max-w-5xl''"
| "sizeClasses SizeFull =
     ''overflow-hidden md:max-w-[900px] lg:max-w-[1000px] md:h-[600px]''"
| "sizeClasses SizeFullscreen =
     ''overflow-hidden !max-w-[95vw] !w-[95vw] !h-[90vh] !max-h-[90vh]''"

datatype variant = Plain | Destructive

record confirm_options =
  co_title :: string
  co_description :: "string option"
  co_body :: "string option"
  co_confirmLabel :: "string option"
  co_cancelLabel :: "string option"
  co_variant :: "variant option"
  co_size :: "dialog_size option"

datatype content = Custom nat | ConfirmBox confirm_options

record open_options =
  oo_content :: content
  oo_dismissible :: "bool option"
  oo_size :: "dialog_size option"
  oo_className :: "string option"
  oo_showCloseButton :: "bool option"

record dialog_entry =
  de_id :: string
  de_content :: content
  de_dismissible :: bool
  de_size :: dialog_size
  de_className :: "string option"
  de_showCloseButton :: "bool option"

text \<open>The state: the counter \<open>nextId\<close>, the stack, and the confirm boxes whose action runs.\<close>

record dialogs =
  dg_nextId :: nat
  dg_stack :: "dialog_entry list"
  dg_pending :: "string list"

definition no_dialogs :: dialogs where
  "no_dialogs = \<lparr>dg_nextId = 0, dg_stack = [], dg_pending = []\<rparr>"

definition gen_id :: "nat \<Rightarrow> string" where
  "gen_id n = ''dlg-'' @ dec n"

subsection \<open>The operations\<close>

text \<open>A dialog that leaves the stack unmounts its confirm box and the state in it.\<close>

definition set_stack :: "dialog_entry list \<Rightarrow> dialogs \<Rightarrow> dialogs" where
  "set_stack ds s =
     s\<lparr>dg_stack := ds, dg_pending := filter (\<lambda>i. i \<in> de_id ` set ds) (dg_pending s)\<rparr>"

definition closeDialog :: "string option \<Rightarrow> dialogs \<Rightarrow> dialogs" where
  "closeDialog i s =
     (case i of
        Some (c # k) \<Rightarrow> set_stack (filter (\<lambda>d. de_id d \<noteq> c # k) (dg_stack s)) s
      | _ \<Rightarrow> set_stack (butlast (dg_stack s)) s)"

definition closeAll :: "dialogs \<Rightarrow> dialogs" where
  "closeAll s = set_stack [] s"

definition push_dialog :: "(string \<Rightarrow> dialog_entry) \<Rightarrow> dialogs \<Rightarrow> string \<times> dialogs" where
  "push_dialog mk s =
     (let i = gen_id (Suc (dg_nextId s))
      in (i, s\<lparr>dg_nextId := Suc (dg_nextId s), dg_stack := dg_stack s @ [mk i]\<rparr>))"

definition openDialog :: "open_options \<Rightarrow> dialogs \<Rightarrow> string \<times> dialogs" where
  "openDialog o' =
     push_dialog (\<lambda>i. \<lparr>de_id = i, de_content = oo_content o',
        de_dismissible = (case oo_dismissible o' of Some b \<Rightarrow> b | None \<Rightarrow> False),
        de_size = (case oo_size o' of Some z \<Rightarrow> z | None \<Rightarrow> SizeSm),
        de_className = oo_className o', de_showCloseButton = oo_showCloseButton o'\<rparr>)"

definition confirm :: "confirm_options \<Rightarrow> dialogs \<Rightarrow> string \<times> dialogs" where
  "confirm o' =
     push_dialog (\<lambda>i. \<lparr>de_id = i, de_content = ConfirmBox o', de_dismissible = False,
        de_size = (case co_size o' of Some z \<Rightarrow> z | None \<Rightarrow> SizeSm),
        de_className = Some ''p-0'', de_showCloseButton = None\<rparr>)"

subsection \<open>The confirm box\<close>

text \<open>
  \<open>handleConfirm\<close> up to its await: the buttons are disabled while the action runs, so a click
  does something only when it does not.  The result tells whether the action was started.
\<close>

definition clickConfirm :: "string \<Rightarrow> dialogs \<Rightarrow> dialogs \<times> bool" where
  "clickConfirm i s =
     (if i \<in> de_id ` set (dg_stack s) \<and> i \<notin> set (dg_pending s)
      then (s\<lparr>dg_pending := i # dg_pending s\<rparr>, True) else (s, False))"

definition clickCancel :: "string \<Rightarrow> dialogs \<Rightarrow> dialogs" where
  "clickCancel i s =
     (if i \<in> de_id ` set (dg_stack s) \<and> i \<notin> set (dg_pending s) then closeDialog (Some i) s else s)"

text \<open>
  The action of box \<open>i\<close> ends, with success or by throwing: \<open>onClose\<close> on success,
  \<open>onError\<close> on failure (whether it is called is the second component), then the buttons
  are enabled again.
\<close>

definition action_over :: "string \<Rightarrow> bool \<Rightarrow> dialogs \<Rightarrow> dialogs \<times> bool" where
  "action_over i ok s =
     (let s1 = (if ok then closeDialog (Some i) s else s)
      in (s1\<lparr>dg_pending := filter (\<lambda>k. k \<noteq> i) (dg_pending s1)\<rparr>, \<not> ok))"

record confirm_view =
  cv_title :: string
  cv_titleClass :: string
  cv_description :: "string option"
  cv_body :: "string option"
  cv_cancelLabel :: string
  cv_confirmLabel :: string
  cv_variant :: variant
  cv_disabled :: bool
  cv_spinner :: bool

definition shown :: "string option \<Rightarrow> string option" where
  "shown x = (case x of Some (c # s) \<Rightarrow> Some (c # s) | _ \<Rightarrow> None)"

definition ConfirmDialogContent :: "confirm_options \<Rightarrow> bool \<Rightarrow> confirm_view" where
  "ConfirmDialogContent o' isPending =
     (let v = (case co_variant o' of Some x \<Rightarrow> x | None \<Rightarrow> Plain)
      in \<lparr>cv_title = co_title o',
          cv_titleClass = (if v = Destructive then ''text-destructive'' else []),
          cv_description = shown (co_description o'), cv_body = shown (co_body o'),
          cv_cancelLabel = (case co_cancelLabel o' of Some l \<Rightarrow> l | None \<Rightarrow> ''Cancel''),
          cv_confirmLabel = (case co_confirmLabel o' of Some l \<Rightarrow> l | None \<Rightarrow> ''Confirm''),
          cv_variant = v, cv_disabled = isPending, cv_spinner = isPending\<rparr>)"

subsection \<open>The stack as a state machine\<close>

datatype dialog_event =
    OpenDialog open_options | Confirm confirm_options | CloseDialog "string option" | CloseAllDialogs
  | ClickConfirm string | ClickCancel string | ActionOver string bool

text \<open>The dialog's own \<open>onOpenChange\<close> is \<open>CloseDialog\<close> with its id.\<close>

fun dialog_react :: "dialog_event \<Rightarrow> dialogs \<Rightarrow> dialogs" where
  "dialog_react (OpenDialog o') s = snd (openDialog o' s)"
| "dialog_react (Confirm o') s = snd (confirm o' s)"
| "dialog_react (CloseDialog i) s = closeDialog i s"
| "dialog_react CloseAllDialogs s = closeAll s"
| "dialog_react (ClickConfirm i) s = fst (clickConfirm i s)"
| "dialog_react (ClickCancel i) s = clickCancel i s"
| "dialog_react (ActionOver i ok) s = fst (action_over i ok s)"

inductive dialog_reach :: "dialogs \<Rightarrow> bool" where
  dialog_start: "dialog_reach no_dialogs"
| dialog_event: "dialog_reach s \<Longrightarrow> dialog_reach (dialog_react e s)"

definition dialogs_ok :: "dialogs \<Rightarrow> bool" where
  "dialogs_ok s \<longleftrightarrow> distinct (map de_id (dg_stack s)) \<and>
     de_id ` set (dg_stack s) \<subseteq> gen_id ` {1..dg_nextId s} \<and>
     distinct (dg_pending s) \<and> set (dg_pending s) \<subseteq> de_id ` set (dg_stack s)"

lemma gen_id_inject [simp]: "gen_id m = gen_id n \<longleftrightarrow> m = n"
  by (simp add: gen_id_def)

lemma gen_id_truthy: "\<exists>c k. gen_id n = c # k"
  by (simp add: gen_id_def)

lemma gen_id_new: "gen_id ` {1..n} \<subseteq> gen_id ` {1..Suc n}" "gen_id (Suc n) \<notin> gen_id ` {1..n}"
  by auto

lemma dialogs_ok_set_stack:
  assumes "dialogs_ok s" and "distinct (map de_id ds)" and "set ds \<subseteq> set (dg_stack s)"
  shows "dialogs_ok (set_stack ds s)"
  using assms by (auto simp: dialogs_ok_def set_stack_def)

lemma dialogs_ok_close: "dialogs_ok s \<Longrightarrow> dialogs_ok (closeDialog i s)"
proof -
  assume ok: "dialogs_ok s"
  have "distinct (map de_id (filter p (dg_stack s)))" for p
    using ok by (simp add: dialogs_ok_def distinct_map_filter)
  moreover have "distinct (map de_id (butlast (dg_stack s)))"
    using ok by (simp add: dialogs_ok_def map_butlast distinct_butlast)
  moreover have "set (butlast (dg_stack s)) \<subseteq> set (dg_stack s)" by (auto dest: in_set_butlastD)
  ultimately show ?thesis
    using dialogs_ok_set_stack [OF ok] by (auto simp: closeDialog_def split: option.split list.split)
qed

lemma dialogs_ok_push:
  assumes ok: "dialogs_ok s" and "\<And>i. de_id (mk i) = i"
  shows "dialogs_ok (snd (push_dialog mk s))"
proof -
  have "gen_id (Suc (dg_nextId s)) \<notin> de_id ` set (dg_stack s)"
    using ok gen_id_new(2) [of "dg_nextId s"] unfolding dialogs_ok_def by blast
  moreover have "de_id ` set (dg_stack s) \<subseteq> gen_id ` {1..Suc (dg_nextId s)}"
    using ok gen_id_new(1) [of "dg_nextId s"] unfolding dialogs_ok_def by blast
  ultimately show ?thesis
    using ok assms(2) unfolding dialogs_ok_def push_dialog_def Let_def
    by auto
qed

lemma dialogs_ok_react: "dialogs_ok s \<Longrightarrow> dialogs_ok (dialog_react e s)"
proof (cases e)
  case (ActionOver i ok)
  have "dialogs_ok t \<Longrightarrow> dialogs_ok (t\<lparr>dg_pending := filter (\<lambda>k. k \<noteq> i) (dg_pending t)\<rparr>)" for t
    by (auto simp: dialogs_ok_def)
  then show "dialogs_ok s \<Longrightarrow> dialogs_ok (dialog_react e s)"
    using ActionOver by (simp add: action_over_def Let_def dialogs_ok_close)
next
  case (ClickConfirm i)
  then show "dialogs_ok s \<Longrightarrow> dialogs_ok (dialog_react e s)"
    by (auto simp: clickConfirm_def dialogs_ok_def)
next
  case CloseAllDialogs
  then show "dialogs_ok s \<Longrightarrow> dialogs_ok (dialog_react e s)"
    by (simp add: closeAll_def dialogs_ok_set_stack)
qed (simp_all add: openDialog_def confirm_def dialogs_ok_push dialogs_ok_close clickCancel_def)

lemma dialog_reach_ok: "dialog_reach s \<Longrightarrow> dialogs_ok s"
proof (induction rule: dialog_reach.induct)
  case dialog_start
  show ?case by (simp add: dialogs_ok_def no_dialogs_def)
qed (rule dialogs_ok_react)

subsection \<open>Properties\<close>

lemma push_dialog_split:
  assumes "push_dialog mk s = (i, s')" and "\<And>i. de_id (mk i) = i"
  shows "\<exists>d. s' = s\<lparr>dg_nextId := Suc (dg_nextId s), dg_stack := dg_stack s @ [d]\<rparr> \<and> de_id d = i \<and>
    i = gen_id (Suc (dg_nextId s))"
  using assms by (auto simp: push_dialog_def Let_def)

text \<open>A dialog is closed by the id \<open>open\<close> returned and only it: opened on any reachable
  stack, closing it by its id gives the stack back, as does closing the top, and the id was
  not in use.\<close>

theorem open_close_restores:
  assumes "dialog_reach s" and "openDialog o' s = (i, s')"
  shows "i \<notin> de_id ` set (dg_stack s) \<and> de_id (last (dg_stack s')) = i \<and>
    closeDialog (Some i) s' = s\<lparr>dg_nextId := Suc (dg_nextId s)\<rparr> \<and>
    closeDialog None s' = s\<lparr>dg_nextId := Suc (dg_nextId s)\<rparr>"
proof -
  have ok: "dialogs_ok s" using assms(1) by (rule dialog_reach_ok)
  have "\<exists>d. s' = s\<lparr>dg_nextId := Suc (dg_nextId s), dg_stack := dg_stack s @ [d]\<rparr> \<and> de_id d = i \<and>
      i = gen_id (Suc (dg_nextId s))"
    using assms(2) unfolding openDialog_def by (rule push_dialog_split) simp
  then obtain d where s': "s' = s\<lparr>dg_nextId := Suc (dg_nextId s), dg_stack := dg_stack s @ [d]\<rparr>" "de_id d = i"
    and i: "i = gen_id (Suc (dg_nextId s))" by blast
  obtain c k where ck: "i = c # k" using gen_id_truthy i by blast
  have "de_id ` set (dg_stack s) \<subseteq> gen_id ` {1..dg_nextId s}" using ok by (simp only: dialogs_ok_def)
  from contra_subsetD [OF this gen_id_new(2)] have fresh: "i \<notin> de_id ` set (dg_stack s)"
    unfolding i .
  have "filter (\<lambda>x. de_id x \<noteq> i) (dg_stack s) = dg_stack s"
    using fresh by (auto intro!: filter_True)
  then have f: "filter (\<lambda>x. de_id x \<noteq> i) (dg_stack s') = dg_stack s" "butlast (dg_stack s') = dg_stack s"
    using s' by simp_all
  have p: "filter (\<lambda>x. x \<in> de_id ` set (dg_stack s)) (dg_pending s) = dg_pending s"
    using ok by (auto simp: dialogs_ok_def intro!: filter_True)
  have "set_stack (dg_stack s) s' = s\<lparr>dg_nextId := Suc (dg_nextId s)\<rparr>"
    by (simp add: s'(1) set_stack_def p)
  then have "closeDialog (Some i) s' = s\<lparr>dg_nextId := Suc (dg_nextId s)\<rparr>"
    "closeDialog None s' = s\<lparr>dg_nextId := Suc (dg_nextId s)\<rparr>"
    using f by (simp_all add: closeDialog_def ck)
  with fresh s' show ?thesis by simp
qed

definition some_dialog :: open_options where
  "some_dialog = \<lparr>oo_content = Custom 1, oo_dismissible = None, oo_size = None, oo_className = None,
     oo_showCloseButton = None\<rparr>"

theorem open_close_restores_witness:
  "closeDialog (Some ''dlg-1'') (snd (openDialog some_dialog no_dialogs)) = no_dialogs\<lparr>dg_nextId := 1\<rparr>"
proof -
  have "openDialog some_dialog no_dialogs = (''dlg-1'', snd (openDialog some_dialog no_dialogs))"
    by code_simp
  from open_close_restores [OF dialog_start this] show ?thesis by (simp add: no_dialogs_def)
qed

text \<open>The action of a confirm box runs at most once at a time, and the box goes away by its
  action only when the action succeeds: after a failure it is still open, with its buttons
  enabled, and the other dialogs are untouched either way.\<close>

theorem confirm_box_outcome:
  assumes "dialog_reach s" and "i \<in> set (dg_pending s)"
  shows "\<not> snd (clickConfirm i s) \<and> clickCancel i s = s \<and>
    dg_stack (fst (action_over i ok s)) =
      (if ok then filter (\<lambda>d. de_id d \<noteq> i) (dg_stack s) else dg_stack s) \<and>
    snd (action_over i ok s) = (\<not> ok) \<and> i \<notin> set (dg_pending (fst (action_over i ok s))) \<and>
    (\<not> ok \<longrightarrow> snd (clickConfirm i (fst (action_over i ok s))))"
proof -
  have d: "dialogs_ok s" using assms(1) by (rule dialog_reach_ok)
  then have mem: "i \<in> de_id ` set (dg_stack s)" "i \<in> gen_id ` {1..dg_nextId s}"
    using assms(2) unfolding dialogs_ok_def by blast+
  then obtain n where "i = gen_id n" by blast
  then obtain c k where ck: "i = c # k" using gen_id_truthy by blast
  with mem assms(2) show ?thesis
    by (auto simp: clickConfirm_def clickCancel_def action_over_def Let_def closeDialog_def set_stack_def)
qed

definition ask_delete :: confirm_options where
  "ask_delete = \<lparr>co_title = ''Delete?'', co_description = None, co_body = None, co_confirmLabel = None,
     co_cancelLabel = None, co_variant = Some Destructive, co_size = None\<rparr>"

definition asked :: dialogs where
  "asked = dialog_react (ClickConfirm ''dlg-2'')
     (dialog_react (Confirm ask_delete) (dialog_react (OpenDialog some_dialog) no_dialogs))"

theorem confirm_box_outcome_witness:
  "map de_id (dg_stack (fst (action_over ''dlg-2'' True asked))) = [''dlg-1''] \<and>
   dg_stack (fst (action_over ''dlg-2'' False asked)) = dg_stack asked"
proof
  have r: "dialog_reach asked"
    unfolding asked_def by (intro dialog_event dialog_start)
  have p: "''dlg-2'' \<in> set (dg_pending asked)" by code_simp
  show "map de_id (dg_stack (fst (action_over ''dlg-2'' True asked))) = [''dlg-1'']" by code_simp
  show "dg_stack (fst (action_over ''dlg-2'' False asked)) = dg_stack asked"
    using confirm_box_outcome [OF r p, of False] by simp
qed

end
