(* ===== verification/Messages.thy ===== *)
theory Messages
  imports I18n
begin

text \<open>
  The English messages of \<open>web/lib/i18n.tsx\<close>, in the order of the source, in four parts.
  \<open>endash\<close>, \<open>emdash\<close> and \<open>ellipsis\<close> are the characters the prelude names; an apostrophe is
  character \<open>27\<close> (hexadecimal), a middle dot \<open>B7\<close>.
\<close>

definition messages_en1 :: "(string \<times> string) list" where
  "messages_en1 =
    [(''appName'', ''Vidsilo''),
     (''appTitle'', ''Vidsilo Admin''),
     (''error'', ''Something went wrong''),
     (''deleted'', ''Deleted''),
     (''loading'', ''Loading'' @ ellipsis),
     (''save'', ''Save''),
     (''saved'', ''Saved''),
     (''cancel'', ''Cancel''),
     (''close'', ''Close''),
     (''reset'', ''Reset''),
     (''delete'', ''Delete''),
     (''create'', ''Create''),
     (''edit'', ''Edit''),
     (''none'', ''None''),
     (''untitled'', ''(untitled)''),
     (''navMedia'', ''Media''),
     (''navDashboard'', ''Dashboard''),
     (''navEntries'', ''Entries''),
     (''navUpload'', ''Upload''),
     (''navAdministration'', ''Administration''),
     (''navUsers'', ''Users''),
     (''navJobs'', ''Jobs''),
     (''navAnalytics'', ''Analytics''),
     (''navCategories'', ''Categories''),
     (''navFlavors'', ''Flavors''),
     (''navDomainAcls'', ''Domain ACL''),
     (''navPlayers'', ''Players''),
     (''navSettings'', ''Settings''),
     (''navStorage'', ''Storage''),
     (''colFiles'', ''Files''),
     (''storageSubSource'', ''Source video''),
     (''storageSubPoster'', ''Poster & sprite''),
     (''storageSubFlavors'', ''Flavors''),
     (''storageSubSubtitles'', ''Subtitles''),
     (''storageSubOther'', ''Other''),
     (''storageSystem'', ''System''),
     (''storageSystemUploads'', ''Uploads (spools)''),
     (''storageSystemLogs'', ''Logs''),
     (''storageSystemCache'', ''Cache''),
     (''storageEmpty'', ''No media files yet '' @ emdash @ '' uploads will appear here.''),
     (''storageUsageLine'', ''{pct}% of {total} '' @ [CHR 0xB7] @ '' {free} free''),
     (''storageObjects'', ''{n} objects''),
     (''navSignIn'', ''Sign in''),
     (''langLabel'', ''Language''),
     (''langEnglish'', ''English''),
     (''signOut'', ''Sign out''),
     (''signOutTitle'', ''Sign out?''),
     (''signOutDesc'', ''You will be signed out of this session.''),
     (''darkMode'', ''Dark mode''),
     (''lightMode'', ''Light mode''),
     (''themeSwitchToLight'', ''Switch to light mode''),
     (''themeSwitchToDark'', ''Switch to dark mode''),
     (''appearance'', ''Appearance''),
     (''editUserTitle'', ''Edit user''),
     (''editCategoryTitle'', ''Edit category''),
     (''userUpdated'', ''User updated''),
     (''categoryCreated'', ''Category created''),
     (''categoryUpdated'', ''Category updated''),
     (''flavorCreated'', ''Flavor created''),
     (''flavorUpdated'', ''Flavor updated''),
     (''changePassword'', ''Change password''),
     (''changePasswordTitle'', ''Change password''),
     (''changePasswordDesc'', ''Other signed-in sessions will be signed out.''),
     (''currentPassword'', ''Current password''),
     (''newPassword'', ''New password''),
     (''confirmPassword'', ''Confirm new password''),
     (''passwordKeep'', ''leave blank to keep the current password''),
     (''passwordChanged'', ''Password updated''),
     (''loginTitle'', ''Sign in to Vidsilo''),
     (''loginPrompt'', ''Please sign in to continue.''),
     (''loginEmail'', ''Email''),
     (''loginUsername'', ''Username''),
     (''loginPassword'', ''Password''),
     (''loginButton'', ''Sign in''),
     (''loginSigningIn'', ''Signing in'' @ ellipsis),
     (''loginFailed'', ''Sign in failed '' @ emdash @ '' try again.''),
     (''dashEntries'', ''Entries''),
     (''dashEntryCount'', ''{n} entr{s}''),
     (''dashByStatusDesc'', ''Entries grouped by pipeline status.''),
     (''usersAdministrators'', ''Administrators''),
     (''loginShowPassword'', ''Show password''),
     (''loginHidePassword'', ''Hide password''),
     (''dashEntriesHint'', ''total in catalog''),
     (''dashStorage'', ''Storage used''),
     (''dashStorageHint'', ''media across all entries''),
     (''dashQueue'', ''Queue depth''),
     (''dashQueueHint'', ''jobs waiting or running''),
     (''dashBandwidth'', ''Bandwidth''),
     (''dashBandwidthHint'', ''view traffic '' @ emdash @ '' {today} GB served today''),
     (''analyticsDisabled'', ''Analytics is disabled '' @ emdash @ '' bandwidth is not being counted.''),
     (''dashWelcomeTitle'', ''Welcome to Vidsilo''),
     (''dashWelcomeDesc'', ''Your library is empty '' @ emdash @ '' upload your first video to start building your catalog.''),
     (''dashUploadFirst'', ''Upload a video''),
     (''dashStatusEmpty'', ''Nothing to report yet '' @ emdash @ '' statuses will appear here.''),
     (''dashActivity'', ''Active uploads & jobs''),
     (''dashActivityEmpty'', ''Nothing processing right now.''),
     (''dashUploadingBy'', ''uploading by {email}''),
     (''jobRunning'', ''Processing''),
     (''jobQueued'', ''In Queue''),
     (''jobPause'', ''Pause''),
     (''jobResume'', ''Resume''),
     (''jobAbort'', ''Abort''),
     (''jobCancelled'', ''Cancelled''),
     (''jobAbortTitle'', ''Abort this job?''),
     (''jobAbortDesc'', ''Running work is stopped immediately. Cancelled jobs can be retried later.''),
     (''jobDone'', ''Done''),
     (''jobProbe'', ''Probe''),
     (''jobPosterSprite'', ''Poster & Sprite''),
     (''jobTranscode'', ''Transcode''),
     (''jobRetry'', ''Retry''),
     (''jobRetried'', ''Job requeued''),
     (''jobsEmpty'', ''No jobs yet '' @ emdash @ '' uploads and reprocessing appear here.''),
     (''colType'', ''Type''),
     (''colPlays'', ''Plays''),
     (''colWatchTime'', ''Watch time''),
     (''colBandwidth'', ''Bandwidth''),
     (''actOpen'', ''Open''),
     (''actEmbed'', ''Embed''),
     (''embedTitle'', ''Embed this video''),
     (''analyticsRangeHint'', ''in the selected range''),
     (''analyticsTopEntries'', ''Top entries''),
     (''analyticsEmpty'', ''No viewing data yet '' @ emdash @ '' views will appear here.''),
     (''colEntry'', ''Entry''),
     (''colAttempts'', ''Attempts''),
     (''colError'', ''Error''),
     (''dashRecentEmpty'', ''No videos yet '' @ emdash @ '' uploads will show up here.''),
     (''dashByStatus'', ''Entries by status''),
     (''dashNoEntries'', ''No entries yet '' @ emdash @ '' upload your first video.''),
     (''dashRecent'', ''Recent uploads''),
     (''dashRecentDesc'', ''The latest videos added to your catalog.''),
     (''colTitle'', ''Title''),
     (''colStatus'', ''Status''),
     (''statusUploading'', ''Uploading''),
     (''statusProbing'', ''Probing''),
     (''statusTranscoding'', ''Transcoding''),
     (''statusReady'', ''Ready''),
     (''statusFailed'', ''Failed''),
     (''colDuration'', ''Duration''),
     (''colCategory'', ''Category''),
     (''colSize'', ''Size'')]"

definition messages_en2 :: "(string \<times> string) list" where
  "messages_en2 =
    [(''dashboardViewAll'', ''View all''),
     (''jobsActiveEncoding'', ''Active background encoding''),
     (''jobsWaitingPool'', ''Waiting for worker pool''),
     (''jobsRequiresAttention'', ''Requires attention or retry''),
     (''jobsDoneCount'', ''{n} completed''),
     (''subtitleUploadTitle'', ''Upload Subtitle Track''),
     (''subtitleFileLabel'', ''Subtitle File (.vtt)''),
     (''subtitleClickToSelect'', ''Click to select .vtt file''),
     (''subtitleVttRequired'', ''WebVTT caption format required''),
     (''languageCode'', ''Language Code''),
     (''displayLabel'', ''Display Label''),
     (''subtitlesSectionTitle'', ''Subtitles & Captions''),
     (''subtitlesSectionDesc'', ''Manage WebVTT caption tracks for multi-language playback.''),
     (''directLink'', ''Direct Link''),
     (''copyDirectLink'', ''Copy Direct Link''),
     (''embedCode'', ''Embed Code''),
     (''copyEmbedCode'', ''Copy Embed Code''),
     (''selectNoResults'', ''No results found.''),
     (''chartNoData'', ''No data yet.''),
     (''srClose'', ''Close''),
     (''srMore'', ''More''),
     (''sidebarTitle'', ''Sidebar''),
     (''sidebarDesc'', ''Displays the mobile sidebar.''),
     (''srToggleSidebar'', ''Toggle Sidebar''),
     (''colUploaded'', ''Uploaded''),
     (''colName'', ''Name''),
     (''colNameSurname'', ''Name & Surname''),
     (''colEmail'', ''Email''),
     (''colSlug'', ''Slug''),
     (''colParent'', ''Parent''),
     (''colRole'', ''Role''),
     (''roleAdmin'', ''Administrator''),
     (''roleEditor'', ''Editor''),
     (''roleUploader'', ''Uploader''),
     (''roleViewer'', ''Viewer''),
     (''colCreated'', ''Created''),
     (''colActions'', ''Actions''),
     (''colEnabled'', ''Enabled''),
     (''colCodec'', ''Codec''),
     (''colHeight'', ''Height''),
     (''colVideo'', ''Video''),
     (''colAudio'', ''Audio''),
     (''colFlavor'', ''Flavor''),
     (''colNote'', ''Note''),
     (''dashEmpty'', ''Nothing here yet''),
     (''entriesSearch'', ''Search title or description'' @ ellipsis),
     (''entriesAllStatuses'', ''All statuses''),
     (''entriesAllCategories'', ''All categories''),
     (''entriesDeleteN'', ''Delete ({n})''),
     (''entriesReprocessN'', ''Reprocess ({n})''),
     (''entriesReprocessTitle'', ''Reprocess {n} entries?''),
     (''entriesReprocessDesc'', ''The processing pipeline will re-run for the selected entries.''),
     (''entriesReprocessed'', ''Reprocessing {n} entries''),
     (''entriesEmpty'', ''No entries match your filters.''),
     (''entriesNoneTitle'', ''No entries yet''),
     (''entriesCount'', ''{total} entries '' @ [CHR 0xB7] @ '' page {page} of {pages}''),
     (''entriesPrev'', ''Prev''),
     (''entriesNext'', ''Next''),
     (''entriesDeleteTitle'', ''Delete {n} entries?''),
     (''entriesDeleted'', ''Deleted {n} entries''),
     (''entriesDeleteDesc'', ''This permanently removes the entries and their media from storage. This cannot be undone.''),
     (''entryMetaLine'', ''{category} '' @ [CHR 0xB7] @ '' {duration} '' @ [CHR 0xB7] @ '' {size} '' @ [CHR 0xB7] @ '' uploaded {date}{by}''),
     (''entryWatch'', ''Watch''),
     (''entryReprocess'', ''Reprocess''),
     (''reprocessTitle'', ''Reprocess this entry?''),
     (''reprocessDesc'', ''Probing and transcoding will re-run with the current flavor selection. Existing media is replaced.''),
     (''reprocessQueued'', ''Reprocessing queued '' @ emdash @ '' entry status will update shortly.''),
     (''entryDeleteTitle'', ''Delete this entry?''),
     (''entryDeleteDesc'', ''The entry and all its media (original file, quality presets, posters, analytics) will be permanently removed.''),
     (''reprocessHint'', ''Re-runs probing and transcoding with the currently ticked flavors.''),
     (''tabMetadata'', ''Metadata''),
     (''tabFlavors'', ''Flavors''),
     (''tabPoster'', ''Poster''),
     (''tabSubtitles'', ''Subtitles''),
     (''tabPlayback'', ''Playback''),
     (''tabAnalytics'', ''Analytics''),
     (''labelTitle'', ''Title''),
     (''labelCategory'', ''Category''),
     (''labelDescription'', ''Description''),
     (''labelPublic'', ''Public (browseable without sign-in)''),
     (''labelTick'', ''Tick''),
     (''labelLang'', ''Lang''),
     (''labelSubtitleLabel'', ''Label''),
     (''labelFrame'', ''Frame {n}''),
     (''notTicked'', ''not ticked''),
     (''noSprite'', ''No preview frames yet '' @ emdash @ '' they'' @ [CHR 0x27] @ ''re generated during processing. Reprocess the entry if it is ready and this stays empty.''),
     (''posterScrubHint'', ''Scrub through video frames to pick a custom thumbnail poster '' @ emdash @ '' the footer Save applies it.''),
     (''chgPoster'', ''Poster''),
     (''chgPosterFrame'', ''frame {n}''),
     (''noSubtitles'', ''No subtitles''),
     (''uploadVtt'', ''Upload .vtt''),
     (''subtitleUploaded'', ''Subtitle uploaded''),
     (''deleteSubtitleTitle'', ''Delete subtitle?''),
     (''deleteSubtitleDesc'', ''This removes the subtitle track from the entry.''),
     (''labelEmbedPolicy'', ''Embed security''),
     (''allowAll'', ''Allow All''),
     (''embedSnippet'', ''Embed snippet''),
     (''copy'', ''Copy''),
     (''copied'', ''Copied''),
     (''flavorsLockedHint'', ''During processing, flavors cannot be changed.''),
     (''unsavedChanges'', ''Unsaved changes''),
     (''changesTitle'', ''Review changes''),
     (''changesDesc'', ''These changes will be saved:''),
     (''chgTitle'', ''Title''),
     (''chgDesc'', ''Description''),
     (''chgCategory'', ''Category''),
     (''chgVisibility'', ''Visibility''),
     (''chgAcl'', ''Embed security''),
     (''chgFlavors'', ''Flavors''),
     (''chgAccess'', ''Access''),
     (''visibilityPublic'', ''public''),
     (''visibilityPrivate'', ''private''),
     (''colVisibility'', ''Visibility''),
     (''accessAllowed'', ''Allowed''),
     (''accessDenied'', ''Denied''),
     (''labelDenyAccess'', ''Deny access''),
     (''denyAccessHint'', ''Hide the video from all viewers without deleting it. Editors and admins can still manage it.''),
     (''statPlays'', ''Plays''),
     (''statViewers'', ''Unique viewers''),
     (''statWatchTime'', ''Watch time''),
     (''statBandwidth'', ''Bandwidth''),
     (''chartPlays'', ''Plays per day''),
     (''chartWatch'', ''Watch minutes per day''),
     (''chartBandwidth'', ''Bandwidth (GB) per day''),
     (''noData'', ''No data yet.''),
     (''entryNotFound'', ''No entry selected.''),
     (''uploadDragDrop'', ''Drag & drop videos here''),
     (''uploadOrClick'', ''or click to browse '' @ emdash @ '' up to {max}''),
     (''uploadDone'', ''Upload complete''),
     (''uploadFailed'', ''Upload failed: {error}''),
     (''uploadStart'', ''Start upload''),
     (''uploadDialogTitle'', ''Upload videos''),
     (''uploadInProgressTitle'', ''Uploading'' @ ellipsis)]"

definition messages_en3 :: "(string \<times> string) list" where
  "messages_en3 =
    [(''uploadInProgressDesc'', ''Transfers keep running after you close this dialog.''),
     (''uploadCancelAll'', ''Cancel All''),
     (''uploadCancelAllTitle'', ''Cancel everything?''),
     (''uploadCancelAllDesc'', ''All pending uploads and URL downloads will be stopped. Files already uploaded stay on the server; the rest are discarded.''),
     (''uploadTabComputer'', ''Upload from Computer''),
     (''uploadTabUrl'', ''Download from URL''),
     (''uploadUrlHint'', ''Paste video URLs, one per line, then Check URLs.''),
     (''uploadUrlPlaceholder'', ''https://example.com/video.mp4'' @ [CHR 0x0A] @ ''https://cdn.example.org/clip.mov''),
     (''uploadCheckUrls'', ''Check URLs''),
     (''uploadUrlInvalid'', ''Some URLs were rejected '' @ emdash @ '' check the format and file type.''),
     (''uploadDownloading'', ''Downloading'' @ ellipsis),
     (''uploadPleaseWait'', ''Please wait'' @ ellipsis),
     (''uploadStartDownloadN'', ''Start download {n} item{s}''),
     (''uploadUrlRowHint'', ''Enter each URL on a new row.''),
     (''uploadBackgroundNote'', ''You can close this dialog '' @ emdash @ '' downloads continue in the background.''),
     (''uploadsInProgress'', ''{n} upload{s} in progress''),
     (''uploadInterrupted'', ''paused '' @ emdash @ '' continues automatically when you start the upload''),
     (''uploadStartN'', ''Upload {n} file{s}''),
     (''uploadAddMore'', ''Add more''),
     (''uploadFilesSelected'', ''{n} file{s} selected''),
     (''uploadInProgress'', ''Uploading'' @ ellipsis),
     (''uploadAllComplete'', ''All uploads complete.''),
     (''uploadBatchLimit'', ''You can upload up to {n} files at once.''),
     (''uploadDuplicate'', ''The file you selected is already in the list.''),
     (''uploadStopTitle'', ''Stop this upload?''),
     (''uploadStopDesc'', ''The transfer stops and the partially uploaded file is discarded. The empty entry can be deleted from the Entries page.''),
     (''uploadStop'', ''Stop upload''),
     (''uploadDiscardTitle'', ''Discard unstarted uploads?''),
     (''uploadDiscardDesc'', ''Files that haven'' @ [CHR 0x27] @ ''t started uploading/downloading will be discarded. Running transfers continue in the background.''),
     (''uploadDiscardConfirm'', ''Discard & Close''),
     (''uploadDiscardCancel'', ''Keep Editing''),
     (''usersTitle'', ''Users''),
     (''usersSubtitle'', ''Roles: admin, editor, uploader, viewer''),
     (''usersNew'', ''New user''),
     (''statusActive'', ''Active''),
     (''statusDisabled'', ''Disabled''),
     (''newUserTitle'', ''New user''),
     (''userCreated'', ''User created''),
     (''deleteUserTitle'', ''Delete user?''),
     (''deleteUserDesc'', ''This permanently removes the account for {email}.''),
     (''categoriesTitle'', ''Categories''),
     (''categoriesSubtitle'', ''Tree structure for organizing entries''),
     (''newCategory'', ''New category''),
     (''parentNone'', ''Parent (none)''),
     (''deleteCategoryTitle'', ''Delete category?''),
     (''deleteCategoryDesc'', ''Entries in this category will become uncategorized.''),
     (''flavorsTitle'', ''Flavors''),
     (''flavorsSubtitle'', ''Video quality presets '' @ emdash @ '' only enabled ones are produced; presets larger than the source are skipped''),
     (''flavorsNew'', ''New flavor''),
     (''newFlavorTitle'', ''New flavor''),
     (''editFlavorTitle'', ''Edit flavor''),
     (''codecH264'', ''H.264''),
     (''codecH265'', ''H.265 (HEVC)''),
     (''videoMode'', ''Video mode''),
     (''vmodeCrf'', ''CRF (quality)''),
     (''vmodeBitrate'', ''Bitrate (kbps)''),
     (''labelCrf'', ''CRF''),
     (''labelBitrate'', ''Bitrate (kbps)''),
     (''labelAudioBitrate'', ''Audio bitrate (kbps)''),
     (''labelPreset'', ''Preset''),
     (''saveFlavor'', ''Save flavor''),
     (''flavorEnabled'', ''Flavor enabled''),
     (''flavorDisabled'', ''Flavor disabled''),
     (''deleteFlavorTitle'', ''Delete flavor?''),
     (''deleteFlavorDesc'', ''This removes the quality preset. Existing output files are kept.''),
     (''aclNew'', ''New domain ACL''),
     (''aclEditTitle'', ''Edit domain ACL''),
     (''aclCreated'', ''Domain ACL created''),
     (''aclUpdated'', ''Domain ACL updated''),
     (''aclDeleteTitle'', ''Delete domain ACL?''),
     (''aclDeleteDesc'', ''Entries using this ACL fall back to '' @ [CHR 0x22] @ ''Allow All'' @ [CHR 0x22] @ '' (embeds allowed anywhere).''),
     (''aclColTitle'', ''Title''),
     (''aclColWhitelist'', ''Whitelist''),
     (''playersNew'', ''New player''),
     (''playersName'', ''Name''),
     (''playersNamePlaceholder'', ''e.g. Branded''),
     (''playersDesign'', ''Design''),
     (''playersActions'', ''Actions''),
     (''playersDefault'', ''Default''),
     (''playersEmpty'', ''No players yet '' @ emdash @ '' create one to customize the player look.''),
     (''playersDeleteTitle'', ''Delete {name}?''),
     (''playersDeleteDesc'', ''Entries using this design fall back to the Default player.''),
     (''playersEditTitle'', ''Edit {name}''),
     (''playersAccent'', ''Accent color''),
     (''playersLogo'', ''Logo''),
     (''playersLogoUrl'', ''Logo URL''),
     (''playersLogoHref'', ''Logo link''),
     (''playersLogoPosition'', ''Position''),
     (''playersLogoSize'', ''Size (px)''),
     (''playersLogoOpacity'', ''Opacity''),
     (''playersLoader'', ''Loading spinner''),
     (''playersLoaderHint'', ''Show a spinner while the video is buffering.''),
     (''playersAutoHide'', ''Auto-hide controls''),
     (''playersAutoHideHint'', ''Hide the control bar until hover.''),
     (''playersLogoShort'', ''logo''),
     (''playersNoLoaderShort'', ''no loader''),
     (''playersSelectLabel'', ''Player design''),
     (''playersSelectHint'', ''Which player design this entry uses.''),
     (''chgPlayer'', ''Player''),
     (''aclColBlocklist'', ''Blocklist''),
     (''aclDomainsPlaceholder'', ''example.com'' @ [CHR 0x0A] @ ''sub.example.org''),
     (''aclEmpty'', ''No domain ACLs yet '' @ emdash @ '' create one to restrict where entries can be embedded.''),
     (''settingsRestart'', ''Restart required''),
     (''settingsRestartDesc'', ''Changes to {keys} take effect after the server restarts (Docker: docker compose restart app).''),
     (''settingsSaved'', ''Settings saved''),
     (''gGeneral'', ''General''),
     (''gGeneralDesc'', ''Site identity and upload rules''),
     (''gStorage'', ''Storage''),
     (''gStorageDesc'', ''S3 read-through cache settings''),
     (''gTranscoding'', ''Transcoding''),
     (''gTranscodingDesc'', ''Pipeline tuning '' @ emdash @ '' applies to newly processed entries''),
     (''gAnalytics'', ''Analytics''),
     (''gAnalyticsDesc'', ''Beacon collection and retention''),
     (''settingsSave'', ''Save {group}''),
     (''playerError'', ''Playback failed '' @ emdash @ '' try again later.''),
     (''playerPlay'', ''Play''),
     (''playerPause'', ''Pause''),
     (''playerMute'', ''Mute''),
     (''playerUnmute'', ''Unmute''),
     (''playerFullscreen'', ''Fullscreen''),
     (''playerExitFullscreen'', ''Exit fullscreen''),
     (''playerSpeed'', ''Speed''),
     (''playerPictureInPicture'', ''Picture in picture''),
     (''playerAuto'', ''Auto''),
     (''playerSeek'', ''Seek''),
     (''playerVolume'', ''Volume''),
     (''playerQuality'', ''Quality'')]"

definition messages_en4 :: "(string \<times> string) list" where
  "messages_en4 =
    [(''playerOff'', ''Off''),
     (''playerVideoStatus'', ''This video isn'' @ [CHR 0x27] @ ''t ready to watch yet '' @ emdash @ '' check back shortly.''),
     (''playerMissingId'', ''Missing entry id in URL''),
     (''videoUnavailable'', ''Video is unavailable.''),
     (''previewUnavailable'', ''Preview Not Available''),
     (''libraryTitle'', ''Library''),
     (''librarySearchPlaceholder'', ''Search videos'' @ ellipsis),
     (''libraryAllCategories'', ''All categories''),
     (''libraryEmpty'', ''No public videos yet '' @ emdash @ '' check back soon.''),
     (''libraryNoResults'', ''No videos match your search '' @ emdash @ '' try different keywords or categories.''),
     (''libraryError'', ''Could not load the library '' @ emdash @ '' try again later.''),
     (''libraryResults'', ''{total} video{s} found''),
     (''librarySortLabel'', ''Sort videos''),
     (''librarySortNewest'', ''Newest''),
     (''librarySortOldest'', ''Oldest''),
     (''librarySortTitle'', ''Title''),
     (''librarySortDuration'', ''Longest''),
     (''libraryLoadMore'', ''Load more''),
     (''libraryLoginTitle'', ''Viewer sign in''),
     (''libraryLoginDesc'', ''Sign in to browse the library.''),
     (''librarySignOut'', ''Sign out''),
     (''libraryBackToLibrary'', ''Back to library''),
     (''navViewers'', ''Viewers''),
     (''viewerNew'', ''New viewer''),
     (''viewerEditTitle'', ''Edit viewer''),
     (''viewerDeleteTitle'', ''Delete viewer?''),
     (''viewerDeleteDesc'', ''The viewer can no longer sign in. Their sessions are revoked.''),
     (''viewerCreated'', ''Viewer created''),
     (''viewerUpdated'', ''Viewer updated''),
     (''viewerNameSurname'', ''Name & surname''),
     (''viewerPassword'', ''Password''),
     (''viewerPasswordHint'', ''leave blank to keep the current password''),
     (''viewerActive'', ''Active''),
     (''viewerDisabled'', ''Disabled''),
     (''viewerColEmail'', ''Email''),
     (''viewerColName'', ''Name''),
     (''viewerColStatus'', ''Status''),
     (''viewerColCreated'', ''Created''),
     (''viewerEmpty'', ''No viewers yet '' @ emdash @ '' create one to let people sign in to the library.''),
     (''sumTotalCategories'', ''Total categories''),
     (''sumRootCategories'', ''Root categories''),
     (''sumSubcategories'', ''Subcategories''),
     (''sumTotalUsers'', ''Total users''),
     (''sumActiveUsers'', ''Active users''),
     (''sumDisabledUsers'', ''Disabled users''),
     (''sumTotalFlavors'', ''Total flavors''),
     (''sumEnabledFlavors'', ''Enabled flavors''),
     (''sumTotalAcls'', ''Total ACLs''),
     (''sumTotalPlayers'', ''Total players''),
     (''sumDefaultPlayer'', ''Default player'')]"

definition en :: "(string \<times> string) list" where
  "en = messages_en1 @ messages_en2 @ messages_en3 @ messages_en4"

definition messages :: "string \<Rightarrow> string \<rightharpoonup> string" where
  "messages locale = (if locale = ''en'' then map_of en else Map.empty)"

text \<open>Outside a provider the bare English message is shown.\<close>

definition default_text :: "string \<Rightarrow> vars option \<Rightarrow> string option" where
  "default_text key vs = messages ''en'' key"

lemma templates_ok1: "list_all (\<lambda>(k, m). template_ok m) messages_en1" by code_simp
lemma templates_ok2: "list_all (\<lambda>(k, m). template_ok m) messages_en2" by code_simp
lemma templates_ok3: "list_all (\<lambda>(k, m). template_ok m) messages_en3" by code_simp
lemma templates_ok4: "list_all (\<lambda>(k, m). template_ok m) messages_en4" by code_simp

lemmas templates_ok = templates_ok1 templates_ok2 templates_ok3 templates_ok4

lemma message_ok: "messages ''en'' key = Some m \<Longrightarrow> template_ok m"
  using templates_ok map_of_SomeD [of en key m]
  by (auto simp: messages_def en_def list_all_iff)

definition holes :: "string \<Rightarrow> string list" where
  "holes m = concat (map (\<lambda>p. case p of Hole k \<Rightarrow> [k] | Lit _ \<Rightarrow> []) (parse_template m))"

lemma filled_no_brace:
  assumes "list_all piece_ok ps" and "\<forall>k v. (k, v) \<in> set vs \<longrightarrow> CHR ''{'' \<notin> set (var_text v)"
    and "\<forall>k. Hole k \<in> set ps \<longrightarrow> k \<in> fst ` set vs"
  shows "CHR ''{'' \<notin> set (fill vs ps)"
  using assms(1,3)
proof (induction ps)
  case (Cons p ps)
  have "CHR ''{'' \<notin> set (fill_piece vs p)"
  proof (cases p)
    case (Hole k)
    with Cons.prems obtain v where "map_of vs k = Some v"
      by (metis list.set_intros(1) map_of_eq_None_iff option.exhaust)
    with Hole assms(2) map_of_SomeD [of vs k v] show ?thesis by auto
  qed (use Cons.prems in auto)
  with Cons show ?case by auto
qed simp

text \<open>C23: Every English message is a well-formed template, and \<open>t\<close> fills it: with plain values (no
  opening brace and no dollar sign in a value, no brace in a name) for all its placeholders, the
  result is exactly the text of the message with every placeholder replaced by the value of its
  variable and \<open>{s}\<close> by the plural suffix of \<open>n\<close>, and no placeholder is left.  The condition is
  needed: \<open>replaceAll\<close> reads a dollar sign in a value as a pattern (\<open>dollar_is_expanded\<close>).\<close>

theorem messages_fill_completely:
  assumes "messages ''en'' key = Some m" and "distinct (map fst vs)" and "list_all plain_var vs"
    and "set (holes m) \<subseteq> fst ` set (enriched_vars vs)"
  shows "t_text messages ''en'' key (Some vs) = Some (fill (enriched_vars vs) (parse_template m)) \<and>
    CHR ''{'' \<notin> set (fill (enriched_vars vs) (parse_template m))"
proof -
  have ok: "template_ok m" using assms(1) by (rule message_ok)
  have "\<forall>k v. (k, v) \<in> set (enriched_vars vs) \<longrightarrow> CHR ''{'' \<notin> set (var_text v)"
    using enriched_plain [OF assms(2,3)] by (fastforce simp: list_all_iff plain_var_def)
  moreover have "\<forall>k. Hole k \<in> set (parse_template m) \<longrightarrow> k \<in> fst ` set (enriched_vars vs)"
    using assms(4) by (force simp: holes_def)
  ultimately have "CHR ''{'' \<notin> set (fill (enriched_vars vs) (parse_template m))"
    using filled_no_brace ok by (simp add: template_ok_def)
  moreover have "t_text messages ''en'' key (Some vs) = Some (fill (enriched_vars vs) (parse_template m))"
    using interpolate_pieces [of "enriched_vars vs" "parse_template m"]
      enriched_plain [OF assms(2,3)] assms(1) ok
    by (simp add: t_text_def render_parse template_ok_def)
  ultimately show ?thesis by blast
qed

theorem messages_fill_completely_witness:
  "t_text messages ''en'' ''storageObjects'' (Some [(''n'', VNat 3)]) = Some ''3 objects''"
proof -
  have "map_of messages_en1 ''storageObjects'' = Some ''{n} objects''"
    by code_simp
  then have m: "messages ''en'' ''storageObjects'' = Some ''{n} objects''"
    by (simp add: messages_def en_def map_add_Some_iff)
  have ok: "distinct (map fst [(''n'', VNat 3)])" "list_all plain_var [(''n'', VNat 3)]"
    "set (holes ''{n} objects'') \<subseteq> fst ` set (enriched_vars [(''n'', VNat 3)])"
    "fill (enriched_vars [(''n'', VNat 3)]) (parse_template ''{n} objects'') = ''3 objects''"
    by code_simp+
  show ?thesis using messages_fill_completely [OF m ok(1,2,3)] ok(4) by simp
qed

end
