(* ===== verification/Format.thy ===== *)
theory Format
  imports JsNum Storage
begin

text \<open>
  The formatting helpers of \<open>web/lib/format.ts\<close> and the chart padding of
  \<open>web/lib/charts.ts\<close>.  Sizes, durations and counts are whole numbers; divisions are exact,
  so that \<open>toFixed\<close> rounds the exact quotient, and \<open>Math.floor(Math.log(n) / Math.log(1024))\<close>
  is the exact integer logarithm.  \<open>toLocaleString\<close> of \<open>formatDate\<close> depends on the browser
  and is not modelled.
\<close>

subsection \<open>Number.prototype.toFixed\<close>

definition pad_left :: "nat \<Rightarrow> string \<Rightarrow> string" where
  "pad_left k s = replicate (k - length s) (CHR ''0'') @ s"

text \<open>For \<open>x \<ge> 0\<close>: the whole number nearest to \<open>x * 10 ^ f\<close>, the larger of two, with a dot.\<close>

definition fixed_digits :: "nat \<Rightarrow> rat \<Rightarrow> nat" where
  "fixed_digits f x = nat \<lfloor>x * 10 ^ f + 1 / 2\<rfloor>"

definition to_fixed :: "nat \<Rightarrow> rat \<Rightarrow> string" where
  "to_fixed f x =
     (let n = fixed_digits f x
      in if f = 0 then dec n
         else dec (n div 10 ^ f) @ ''.'' @ pad_left f (dec (n mod 10 ^ f)))"

lemma fixed_digits_near:
  assumes "0 \<le> x"
  shows "\<bar>of_nat (fixed_digits f x) - x * 10 ^ f\<bar> \<le> (1 / 2 :: rat)"
proof -
  have "0 \<le> x * 10 ^ f" using assms by simp
  then have "0 \<le> \<lfloor>x * 10 ^ f + 1 / 2\<rfloor>" by simp
  then have "of_nat (fixed_digits f x) = (of_int \<lfloor>x * 10 ^ f + 1 / 2\<rfloor> :: rat)"
    by (simp add: fixed_digits_def)
  moreover have "of_int \<lfloor>x * 10 ^ f + 1 / 2\<rfloor> \<le> x * 10 ^ f + 1 / 2"
    "x * 10 ^ f + 1 / 2 < of_int \<lfloor>x * 10 ^ f + 1 / 2\<rfloor> + 1" by linarith+
  ultimately show ?thesis by linarith
qed

subsection \<open>Sizes\<close>

fun floor_log :: "nat \<Rightarrow> nat \<Rightarrow> nat" where
  "floor_log b n = (if b < 2 \<or> n < b then 0 else Suc (floor_log b (n div b)))"

declare floor_log.simps [simp del]

lemma floor_log_bounds:
  assumes "2 \<le> b" and "0 < n"
  shows "b ^ floor_log b n \<le> n \<and> n < b ^ Suc (floor_log b n)"
  using assms
proof (induction b n rule: floor_log.induct)
  case (1 b n)
  show ?case
  proof (cases "n < b")
    case True
    with 1 show ?thesis by (simp add: floor_log.simps [of b n])
  next
    case False
    let ?q = "n div b"
    have q: "0 < ?q" using False 1(2) by (simp add: div_greater_zero_iff)
    from 1 False q have IH: "b ^ floor_log b ?q \<le> ?q" "?q < b ^ Suc (floor_log b ?q)" by auto
    have "b ^ Suc (floor_log b ?q) \<le> b * ?q" using IH(1) by simp
    also have "\<dots> \<le> n" by simp
    finally have lo: "b ^ Suc (floor_log b ?q) \<le> n" .
    have "n < b * Suc ?q" using 1(2) by (simp add: dividend_less_times_div)
    also have "\<dots> \<le> b * b ^ Suc (floor_log b ?q)" using IH(2) by (intro mult_le_mono2) simp
    finally show ?thesis using lo False 1(2) by (simp add: floor_log.simps [of b n])
  qed
qed

definition byte_units :: "string list" where
  "byte_units = [''B'', ''KB'', ''MB'', ''GB'', ''TB'']"

definition byte_exponent :: "nat \<Rightarrow> nat" where
  "byte_exponent n = min (floor_log 1024 n) (length byte_units - 1)"

definition formatBytes :: "nat option \<Rightarrow> string" where
  "formatBytes sz =
     (case sz of
        None \<Rightarrow> endash
      | Some n \<Rightarrow>
          if n = 0 then ''0 B''
          else let i = byte_exponent n
               in to_fixed (if i = 0 then 0 else 1) (of_nat n / 1024 ^ i) @ '' '' @ byte_units ! i)"

lemma byte_exponent_bounds:
  assumes "0 < n"
  shows "byte_exponent n \<le> 4" and "1024 ^ byte_exponent n \<le> n"
    and "n < 1024 ^ 5 \<Longrightarrow> n < 1024 ^ Suc (byte_exponent n)"
proof -
  note b = floor_log_bounds [of 1024 n, OF _ assms, simplified]
  show "byte_exponent n \<le> 4" by (simp add: byte_exponent_def byte_units_def)
  have "(1024::nat) ^ byte_exponent n \<le> 1024 ^ floor_log 1024 n"
    by (rule power_increasing) (simp_all add: byte_exponent_def)
  with b show "1024 ^ byte_exponent n \<le> n" by linarith
  assume "n < 1024 ^ 5"
  with b have "(1024::nat) ^ floor_log 1024 n < 1024 ^ 5" by linarith
  then have "floor_log 1024 n < 5" by (rule power_less_imp_less_exp [rotated]) simp
  then have "byte_exponent n = floor_log 1024 n" by (simp add: byte_exponent_def byte_units_def)
  with b show "n < 1024 ^ Suc (byte_exponent n)" by simp
qed

subsection \<open>Durations\<close>

text \<open>\<open>Math.round(ms / 1000)\<close>, the seconds of a duration.\<close>

definition duration_seconds :: "nat \<Rightarrow> nat" where
  "duration_seconds ms = (ms + 500) div 1000"

definition formatDuration :: "nat option \<Rightarrow> string" where
  "formatDuration duration =
     (case duration of
        None \<Rightarrow> endash
      | Some ms \<Rightarrow>
          (let total = duration_seconds ms; h = total div 3600; m = total mod 3600 div 60;
               s = total mod 60
           in if 0 < h then dec h @ '':'' @ pad2 (dec m) @ '':'' @ pad2 (dec s)
              else dec m @ '':'' @ pad2 (dec s)))"

text \<open>Reading a clock back: the fields between colons, the last one in seconds.\<close>

definition read_clock :: "string \<Rightarrow> nat" where
  "read_clock s = foldl (\<lambda>acc f. 60 * acc + undec f) 0 (split_on (CHR '':'') s)"

lemma round_thousand: "jround (Fin (of_nat ms / 1000)) = num_of_nat (duration_seconds ms)"
proof -
  have "\<lfloor>(of_nat ms / 1000 + 1 / 2 :: rat)\<rfloor> = \<lfloor>(of_nat (ms + 500) / of_nat 1000 :: rat)\<rfloor>"
    by (simp add: add_divide_distrib)
  also have "\<dots> = int ((ms + 500) div 1000)"
    by (simp only: floor_divide_of_nat_eq)
  finally show ?thesis by (simp add: duration_seconds_def)
qed

lemma split_on_no_sep: "c \<notin> set s \<Longrightarrow> split_on c s = [s]"
  by (induction s) auto

lemma split_on_append:
  "c \<notin> set s \<Longrightarrow> split_on c (s @ c # t) = s # split_on c t"
  by (induction s) auto

lemma dec_no_colon: "c \<in> set (dec n) \<Longrightarrow> c \<noteq> CHR '':''"
  using digits_dec [of c n] by (auto simp: is_digit_def)

lemma pad2_undec [simp]: "undec (pad2 (dec n)) = undec (dec n)"
proof -
  have "foldl (\<lambda>n c. 10 * n + undigit c) 0 (replicate k (CHR ''0'')) = 0" for k
    by (induction k) (simp_all add: undigit_def)
  then show ?thesis by (simp add: undec_def pad2_def)
qed

lemma pad2_no_colon: "CHR '':'' \<notin> set (pad2 (dec n))"
  using dec_no_colon by (auto simp: pad2_def)

text \<open>\<open>formatDuration\<close> loses nothing but the rounding to seconds: reading the clock back
  gives the duration's seconds.\<close>

theorem formatDuration_roundtrip:
  "read_clock (formatDuration (Some ms)) = duration_seconds ms"
proof -
  have nc: "CHR '':'' \<notin> set (dec n)" for n using dec_no_colon by blast
  let ?t = "duration_seconds ms"
  have "3600 * (?t div 3600) + ?t mod 3600 = ?t" by simp
  moreover have "60 * (?t mod 3600 div 60) + ?t mod 3600 mod 60 = ?t mod 3600" by simp
  moreover have "?t mod 3600 mod 60 = ?t mod 60" by (simp add: mod_mod_cancel)
  ultimately have "3600 * (?t div 3600) + 60 * (?t mod 3600 div 60) + ?t mod 60 = ?t" by linarith
  then show ?thesis
    by (auto simp: formatDuration_def Let_def read_clock_def split_on_append split_on_no_sep nc pad2_no_colon)
qed

subsection \<open>Days, hours and gigabytes\<close>

text \<open>Destructuring takes the first three fields; a missing one prints as \<open>undefined\<close>.\<close>

definition field_at :: "nat \<Rightarrow> string list \<Rightarrow> string" where
  "field_at i fs = (if i < length fs then fs ! i else ''undefined'')"

text \<open>\<open>new Date(iso).toLocaleString()\<close>; reading the text and writing it in the browser's language are
  parameters.\<close>

definition formatDate :: "(string \<Rightarrow> 'd) \<Rightarrow> ('d \<Rightarrow> string) \<Rightarrow> string \<Rightarrow> string" where
  "formatDate new_Date toLocaleString written = toLocaleString (new_Date written)"

definition formatDay :: "string \<Rightarrow> string" where
  "formatDay day =
     (let fs = split_on (CHR ''-'') day
      in field_at 0 fs @ ''-'' @ field_at 1 fs @ ''-'' @ field_at 2 fs)"

definition formatWatchHours :: "nat \<Rightarrow> string" where
  "formatWatchHours seconds = to_fixed 1 (of_nat seconds / 3600)"

definition formatGb :: "nat \<Rightarrow> string" where
  "formatGb bytes = to_fixed 2 (of_nat bytes / 1024 ^ 3)"

lemma formatDay_date:
  assumes "CHR ''-'' \<notin> set y" and "CHR ''-'' \<notin> set m" and "CHR ''-'' \<notin> set d"
  shows "formatDay (y @ ''-'' @ m @ ''-'' @ d) = y @ ''-'' @ m @ ''-'' @ d"
  using assms
  by (simp add: formatDay_def Let_def split_on_append split_on_no_sep field_at_def)

text \<open>A size below a petabyte is printed in the largest unit that leaves at least 1 and
  less than 1024 of it, and the printed tenths are within half a tenth of the exact value.\<close>

theorem formatBytes_accurate:
  assumes "0 < n" and "n < 1024 ^ 5"
  shows "\<exists>i < 5. 1024 ^ i \<le> n \<and> n < 1024 ^ Suc i \<and>
    (\<exists>tenths. formatBytes (Some n) =
        (if i = 0 then dec n else dec (tenths div 10) @ ''.'' @ dec (tenths mod 10)) @ '' '' @ byte_units ! i \<and>
      \<bar>of_nat tenths - 10 * (of_nat n / 1024 ^ i)\<bar> \<le> (1 / 2 :: rat) \<and> 10 \<le> tenths \<and> tenths \<le> 10240)"
proof -
  let ?i = "byte_exponent n" and ?x = "of_nat n / 1024 ^ byte_exponent n :: rat"
  note b = byte_exponent_bounds [OF assms(1)]
  have lo: "1024 ^ ?i \<le> n" and hi: "n < 1024 ^ Suc ?i" using b assms by auto
  have "(of_nat (1024 ^ ?i) :: rat) \<le> of_nat n" using lo by (simp only: of_nat_le_iff)
  then have x1: "1 \<le> ?x" by simp
  have "(of_nat n :: rat) < of_nat (1024 ^ Suc ?i)" using hi by (simp only: of_nat_less_iff)
  then have x2: "?x < 1024" by (simp add: divide_less_eq)
  define t where "t = fixed_digits 1 ?x"
  have near: "\<bar>of_nat t - ?x * 10\<bar> \<le> 1 / 2"
    using fixed_digits_near [of ?x 1] x1 by (simp add: t_def)
  have t10: "10 \<le> t"
  proof (rule ccontr)
    assume "\<not> 10 \<le> t"
    then have "of_nat t \<le> (9::rat)" using of_nat_le_iff [of t 9, where 'a = rat] by simp
    with near x1 show False by linarith
  qed
  have t10240: "t \<le> 10240"
  proof (rule ccontr)
    assume "\<not> t \<le> 10240"
    then have "(10241::rat) \<le> of_nat t" using of_nat_le_iff [of 10241 t, where 'a = rat] by simp
    with near x2 show False by linarith
  qed
  have len: "length (dec (t mod 10)) = 1" by (simp add: dec.simps [of "t mod 10"])
  have "fixed_digits 0 (of_nat n) = n"
    by (simp add: fixed_digits_def floor_eq_iff nat_eq_iff)
  with len have fmt: "formatBytes (Some n) =
      (if ?i = 0 then dec n else dec (t div 10) @ ''.'' @ dec (t mod 10)) @ '' '' @ byte_units ! ?i"
    using assms(1) by (simp add: formatBytes_def Let_def to_fixed_def t_def pad_left_def)
  have near': "\<bar>of_nat t - 10 * ?x\<bar> \<le> 1 / 2" using near by (simp only: mult.commute)
  have i5: "?i < 5" using b(1) by simp
  show ?thesis
  proof (rule exI [of _ ?i], intro conjI)
    show "?i < 5" "1024 ^ ?i \<le> n" "n < 1024 ^ Suc ?i" by (fact i5, fact lo, fact hi)
    show "\<exists>tenths. formatBytes (Some n) =
        (if ?i = 0 then dec n else dec (tenths div 10) @ ''.'' @ dec (tenths mod 10)) @ '' '' @ byte_units ! ?i \<and>
      \<bar>of_nat tenths - 10 * (of_nat n / 1024 ^ ?i)\<bar> \<le> (1 / 2 :: rat) \<and> 10 \<le> tenths \<and> tenths \<le> 10240"
      by (rule exI [of _ t], intro conjI) (fact fmt near' t10 t10240)+
  qed
qed

theorem formatBytes_accurate_witness:
  "formatBytes (Some 1536) = ''1.5 KB'' \<and>
   (\<exists>i < 5. 1024 ^ i \<le> (1536::nat) \<and> (1536::nat) < 1024 ^ Suc i)"
proof
  show "formatBytes (Some 1536) = ''1.5 KB''"
  proof -
    have "\<lfloor>31 / 2 :: rat\<rfloor> = 15" by (simp add: floor_eq_iff)
    moreover have "char_of (49 :: nat) = CHR ''1''" "char_of (53 :: nat) = CHR ''5''" by code_simp+
    ultimately show ?thesis
      by (simp add: formatBytes_def byte_exponent_def byte_units_def floor_log.simps to_fixed_def
          fixed_digits_def pad_left_def dec.simps digit_def Let_def)
  qed
  show "\<exists>i < 5. 1024 ^ i \<le> (1536::nat) \<and> (1536::nat) < 1024 ^ Suc i"
    using formatBytes_accurate [of 1536] by auto
qed

subsection \<open>The viewer id\<close>

text \<open>
  A value of \<open>localStorage\<close> written by other code is any string; here the viewer id is the
  only key.  Both accesses may throw, and nothing catches them.
\<close>

definition VIEWER_KEY :: string where "VIEWER_KEY = ''vidsilo-viewer-id''"

definition viewerId ::
  "bool \<Rightarrow> string \<Rightarrow> string local_storage \<Rightarrow> storage_error + (string \<times> string local_storage)" where
  "viewerId browser uuid ls =
     (if \<not> browser then Inr ([], ls)
      else case get_item ls VIEWER_KEY of
          Inl e \<Rightarrow> Inl e
        | Inr (Some (c # i)) \<Rightarrow> Inr (c # i, ls)
        | Inr _ \<Rightarrow>
            (case set_item VIEWER_KEY uuid ls of
               Inl e \<Rightarrow> Inl e
             | Inr ls' \<Rightarrow> Inr (uuid, ls')))"

text \<open>The viewer id is stable: once it was given out, every later call gives the same id
  without writing, whatever fresh identifier is offered.\<close>

theorem viewerId_stable:
  assumes "viewerId True u ls = Inr (i, ls')" and "u \<noteq> []"
  shows "i \<noteq> [] \<and> viewerId True v ls' = Inr (i, ls')"
proof (cases "get_item ls VIEWER_KEY")
  case (Inl e)
  with assms show ?thesis by (simp add: viewerId_def)
next
  case (Inr r)
  then have rd: "ls_readable ls" by (simp add: get_item_def split: if_splits)
  show ?thesis
  proof (cases "\<exists>c k. r = Some (c # k)")
    case True
    with assms Inr show ?thesis by (auto simp: viewerId_def)
  next
    case False
    then have "viewerId True u ls = (case set_item VIEWER_KEY u ls of Inl e \<Rightarrow> Inl e | Inr l \<Rightarrow> Inr (u, l))"
      using Inr by (auto simp: viewerId_def split: option.split list.split)
    with assms rd show ?thesis
      by (cases u) (auto simp: set_item_def viewerId_def get_item_def split: if_splits)
  qed
qed

theorem viewerId_stable_witness:
  "viewerId True ''other'' (snd (projr (viewerId True ''abc'' empty_storage))) =
   Inr (''abc'', snd (projr (viewerId True ''abc'' empty_storage)))"
proof -
  have "viewerId True ''abc'' empty_storage =
      Inr (''abc'', snd (projr (viewerId True ''abc'' empty_storage)))"
    by (simp add: viewerId_def get_item_def set_item_def empty_storage_def)
  from viewerId_stable [OF this, of "''other''"] show ?thesis by simp
qed

subsection \<open>Padding the chart series\<close>

text \<open>
  \<open>padSeries\<close> prints one point per day, oldest first; \<open>day_key i\<close> is the ISO date of \<open>i\<close> days
  ago by the browser's clock and calendar.  A \<open>Map\<close> keeps the last value of a repeated key.
\<close>

definition by_day :: "(string \<times> 'v) list \<Rightarrow> string \<rightharpoonup> 'v" where
  "by_day points = map_of (rev points)"

definition padSeries ::
  "(nat \<Rightarrow> string) \<Rightarrow> (string \<times> jnum) list \<Rightarrow> nat \<Rightarrow> (string \<times> jnum) list" where
  "padSeries day_key points days =
     map (\<lambda>i. (day_key i, case by_day points (day_key i) of Some v \<Rightarrow> v | None \<Rightarrow> Fin 0))
       (rev [0..<days])"

text \<open>The padded series has one point for each of the last days, today's last; a day that
  was reported shows its last reported value, any other day zero, and no reported value of
  another day shows.\<close>

theorem padSeries_days:
  assumes "inj_on day_key {..<days}"
  shows "length (padSeries day_key points days) = days \<and>
    distinct (map fst (padSeries day_key points days)) \<and>
    (\<forall>i < days. padSeries day_key points days ! (days - Suc i) =
       (day_key i, case map_of (rev points) (day_key i) of Some v \<Rightarrow> v | None \<Rightarrow> Fin 0))"
proof (intro conjI allI impI)
  show "length (padSeries day_key points days) = days" by (simp add: padSeries_def)
  have "map fst (padSeries day_key points days) = rev (map day_key [0..<days])"
    by (simp add: padSeries_def comp_def rev_map)
  moreover have "distinct (map day_key [0..<days])"
    using assms by (simp add: distinct_map lessThan_atLeast0 atLeast_upt)
  ultimately show "distinct (map fst (padSeries day_key points days))" by simp
  fix i assume "i < days"
  then show "padSeries day_key points days ! (days - Suc i) =
      (day_key i, case map_of (rev points) (day_key i) of Some v \<Rightarrow> v | None \<Rightarrow> Fin 0)"
    by (simp add: padSeries_def rev_nth by_day_def)
qed

definition sample_day :: "nat \<Rightarrow> string" where
  "sample_day i = ''2024-05-'' @ pad2 (dec (20 - i))"

theorem padSeries_days_witness:
  "length (padSeries sample_day [(''2024-05-19'', Fin 7)] 3) = 3 \<and>
   padSeries sample_day [(''2024-05-19'', Fin 7)] 3 =
     [(''2024-05-18'', Fin 0), (''2024-05-19'', Fin 7), (''2024-05-20'', Fin 0)]"
proof
  have "inj_on sample_day {..<3}"
  proof (rule inj_onI)
    fix i j :: nat assume ij: "i \<in> {..<3}" "j \<in> {..<3}" "sample_day i = sample_day j"
    then have "undec (pad2 (dec (20 - i))) = undec (pad2 (dec (20 - j)))" by (simp add: sample_day_def)
    with ij(1,2) show "i = j" by simp
  qed
  from padSeries_days [OF this] show "length (padSeries sample_day [(''2024-05-19'', Fin 7)] 3) = 3" by blast
  show "padSeries sample_day [(''2024-05-19'', Fin 7)] 3 =
     [(''2024-05-18'', Fin 0), (''2024-05-19'', Fin 7), (''2024-05-20'', Fin 0)]"
    by code_simp
qed

end
