(* ===== verification/Player.thy ===== *)
theory Player
  imports Ui Format
begin

text \<open>
  The video player, \<open>web/components/vidsilo-player.tsx\<close>: its React state and refs, the handlers
  of the media element, the keyboard, the seek bar and the controls.  A handler reads the
  media element as it is when it runs (an argument) and gives the new state and the commands
  it sends: to the element, to the document, to \<open>localStorage\<close> and to the analytics.  The
  browser answers commands with events of its own; the streaming library (hls.js) is only
  told which source and level to use.
\<close>

subsection \<open>The media element and the commands\<close>

record video =
  vd_paused :: bool
  vd_ended :: bool
  vd_currentTime :: jnum
  vd_duration :: jnum
  vd_volume :: jnum
  vd_muted :: bool
  vd_tracks :: "string list"

datatype command =
    MediaPlay | MediaPause | SetTime jnum | SetVolume jnum | SetMuted bool | SetRate jnum
  | SetSource string | HlsLoad string | HlsLevel int | TrackMode nat bool
  | RequestFullscreen | ExitFullscreen | RequestPip | ExitPip | PreventDefault
  | StoreVolume jnum | StoreMuted bool | StoreRate jnum
  | BeaconPlay string string | BeaconWatch string string nat
  | ArmHide | DisarmHide

record props =
  pp_info :: play_info
  pp_publicId :: string
  pp_autoplay :: bool
  pp_muted :: bool
  pp_loop :: bool
  pp_branding :: "player_config option"
  pp_startTime :: "jnum option"

text \<open>The state and the refs; \<open>p_watched\<close> counts whole seconds.\<close>

record player_state =
  p_playing :: bool
  p_buffering :: bool
  p_current :: jnum
  p_duration :: jnum
  p_volume :: jnum
  p_muted :: bool
  p_rate :: jnum
  p_levels :: "(int \<times> nat) list"
  p_level :: int
  p_subtitle :: string
  p_fullscreen :: bool
  p_scrub :: "jnum option"
  p_dragging :: bool
  p_error :: "string option"
  p_tapped :: bool
  p_hideTimer :: bool
  p_watched :: nat
  p_lastBeacon :: int
  p_played :: bool
  p_startApplied :: bool

subsection \<open>Initial state\<close>

text \<open>\<open>Number(localStorage.getItem(k))\<close>: a missing item is \<open>null\<close>, which is zero.\<close>

definition stored_number :: "string option \<Rightarrow> jnum" where
  "stored_number item = (case item of Some s \<Rightarrow> js_number s | None \<Rightarrow> Fin 0)"

definition initial_volume :: "string option \<Rightarrow> jnum" where
  "initial_volume item =
     (let v = stored_number item in if jleq (Fin 0) v \<and> jleq v (Fin 1) then v else Fin 1)"

definition initial_muted :: "string option \<Rightarrow> bool \<Rightarrow> bool" where
  "initial_muted item muted \<longleftrightarrow> item = Some ''1'' \<or> muted"

definition player_rates :: "rat list" where
  "player_rates = [1 / 2, 3 / 4, 1, 5 / 4, 3 / 2, 2]"

definition initial_rate :: "string option \<Rightarrow> jnum" where
  "initial_rate item =
     (let r = stored_number item in if r \<in> set (map Fin player_rates) then r else Fin 1)"

definition initial_player ::
  "props \<Rightarrow> string option \<Rightarrow> string option \<Rightarrow> string option \<Rightarrow> player_state" where
  "initial_player pr vol mut rate =
     \<lparr>p_playing = False, p_buffering = False, p_current = Fin 0,
      p_duration = (case pi_durationMs (pp_info pr) of Some d \<Rightarrow> num_of_nat d | None \<Rightarrow> Fin 0),
      p_volume = initial_volume vol, p_muted = initial_muted mut (pp_muted pr),
      p_rate = initial_rate rate, p_levels = [], p_level = - 1, p_subtitle = [],
      p_fullscreen = False, p_scrub = None, p_dragging = False, p_error = None, p_tapped = False,
      p_hideTimer = False, p_watched = 0, p_lastBeacon = 0, p_played = False, p_startApplied = False\<rparr>"

subsection \<open>Effects of the state\<close>

text \<open>The source: through hls.js where it is supported, natively where the element can play it.\<close>

definition load_source :: "bool \<Rightarrow> bool \<Rightarrow> props \<Rightarrow> command list" where
  "load_source hlsSupported native pr =
     (case pi_master (pp_info pr) of
        Some (c # m) \<Rightarrow>
          if hlsSupported then [HlsLoad (c # m)]
          else if native then SetSource (c # m) # (if pp_autoplay pr then [MediaPlay] else []) else []
      | _ \<Rightarrow> [])"

definition on_manifest :: "props \<Rightarrow> nat list \<Rightarrow> player_state \<Rightarrow> player_state \<times> command list" where
  "on_manifest pr heights s =
     (s\<lparr>p_levels := map (\<lambda>(i, h). (int i, h)) (zip [0..<length heights] heights)\<rparr>,
      if pp_autoplay pr then [MediaPlay] else [])"

definition on_level :: "int \<Rightarrow> player_state \<Rightarrow> player_state" where
  "on_level l s = s\<lparr>p_level := l\<rparr>"

definition apply_media :: "player_state \<Rightarrow> command list" where
  "apply_media s = [SetVolume (p_volume s), SetMuted (p_muted s), SetRate (p_rate s)]"

definition persist_media :: "player_state \<Rightarrow> command list" where
  "persist_media s = [StoreVolume (p_volume s), StoreMuted (p_muted s), StoreRate (p_rate s)]"

definition applySubtitleTrack :: "video \<Rightarrow> string \<Rightarrow> command list" where
  "applySubtitleTrack v lang =
     map (\<lambda>(i, l). TrackMode i (lang \<noteq> [] \<and> l = lang)) (zip [0..<length (vd_tracks v)] (vd_tracks v))"

subsection \<open>Handlers of the media element\<close>

definition onTime :: "video \<Rightarrow> player_state \<Rightarrow> player_state" where
  "onTime v s = s\<lparr>p_current := jmul (vd_currentTime v) (Fin 1000)\<rparr>"

definition onMeta :: "props \<Rightarrow> video \<Rightarrow> player_state \<Rightarrow> player_state \<times> command list" where
  "onMeta pr v s =
     (let s1 = (if jless (Fin 0) (vd_duration v)
                then s\<lparr>p_duration := jmul (vd_duration v) (Fin 1000)\<rparr> else s)
      in case pp_startTime pr of
           Some st \<Rightarrow>
             if \<not> p_startApplied s1 \<and> jless (Fin 0) st \<and> jless st (vd_duration v)
             then (s1\<lparr>p_startApplied := True\<rparr>, [SetTime st]) else (s1, [])
         | None \<Rightarrow> (s1, []))"

definition flushWatch :: "props \<Rightarrow> string \<Rightarrow> player_state \<Rightarrow> player_state \<times> command list" where
  "flushWatch pr viewId s =
     (if 0 < p_watched s
      then (s\<lparr>p_watched := 0\<rparr>, [BeaconWatch (pp_publicId pr) viewId (p_watched s)])
      else (s, []))"

definition onPlay :: "props \<Rightarrow> string \<Rightarrow> player_state \<Rightarrow> player_state \<times> command list" where
  "onPlay pr viewId s =
     (let s1 = s\<lparr>p_playing := True\<rparr>
      in if \<not> p_played s1 then (s1\<lparr>p_played := True\<rparr>, [BeaconPlay (pp_publicId pr) viewId]) else (s1, []))"

definition onPause :: "props \<Rightarrow> string \<Rightarrow> player_state \<Rightarrow> player_state \<times> command list" where
  "onPause pr viewId s = flushWatch pr viewId (s\<lparr>p_playing := False\<rparr>)"

definition onVolume :: "video \<Rightarrow> player_state \<Rightarrow> player_state" where
  "onVolume v s = s\<lparr>p_volume := vd_volume v, p_muted := vd_muted v\<rparr>"

text \<open>The one-second ticker at time \<open>now\<close> (milliseconds).\<close>

definition ticker :: "props \<Rightarrow> string \<Rightarrow> int \<Rightarrow> video \<Rightarrow> player_state \<Rightarrow> player_state \<times> command list" where
  "ticker pr viewId now v s =
     (if \<not> vd_paused v \<and> \<not> vd_ended v
      then let s1 = s\<lparr>p_watched := Suc (p_watched s)\<rparr>
           in if 30000 < now - p_lastBeacon s1
              then flushWatch pr viewId (s1\<lparr>p_lastBeacon := now\<rparr>) else (s1, [])
      else (s, []))"

subsection \<open>Controls\<close>

definition togglePlay :: "video \<Rightarrow> command list" where
  "togglePlay v = [if vd_paused v then MediaPlay else MediaPause]"

definition seekTo :: "jnum \<Rightarrow> player_state \<Rightarrow> player_state \<times> command list" where
  "seekTo ms s = (s\<lparr>p_current := ms\<rparr>, [SetTime (jdiv ms (Fin 1000))])"

definition setQuality :: "bool \<Rightarrow> int \<Rightarrow> player_state \<Rightarrow> player_state \<times> command list" where
  "setQuality hls i s = (if hls then (s\<lparr>p_level := i\<rparr>, [HlsLevel i]) else (s, []))"

definition setPlaybackRate :: "jnum \<Rightarrow> player_state \<Rightarrow> player_state \<times> command list" where
  "setPlaybackRate r s = (s\<lparr>p_rate := r\<rparr>, [SetRate r])"

definition toggleMute :: "video \<Rightarrow> command list" where
  "toggleMute v = [SetMuted (\<not> vd_muted v)]"

definition toggleFullscreen :: "bool \<Rightarrow> command list" where
  "toggleFullscreen isFullscreen = [if isFullscreen then ExitFullscreen else RequestFullscreen]"

definition togglePictureInPicture :: "bool \<Rightarrow> command list" where
  "togglePictureInPicture inPip = [if inPip then ExitPip else RequestPip]"

text \<open>The volume slider.\<close>

definition slide_volume :: "jnum \<Rightarrow> command list" where
  "slide_volume v = [SetVolume v, SetMuted (v = Fin 0)]"

text \<open>The keyboard, away from inputs and from the seek bar.\<close>

definition onKey :: "string \<Rightarrow> bool \<Rightarrow> bool \<Rightarrow> bool \<Rightarrow> video \<Rightarrow> string \<Rightarrow> command list" where
  "onKey tag inSeekbar isFullscreen inPip v key =
     (if tag \<in> {''INPUT'', ''SELECT'', ''TEXTAREA''} \<or> inSeekbar then []
      else if key = '' '' then PreventDefault # togglePlay v
      else if key = ''ArrowRight'' then [SetTime (jmin (vd_duration v) (jadd (vd_currentTime v) (Fin 10)))]
      else if key = ''ArrowLeft'' then [SetTime (jmax (Fin 0) (jsub (vd_currentTime v) (Fin 10)))]
      else if key = ''ArrowUp'' then [PreventDefault, SetVolume (jmin (Fin 1) (jadd (vd_volume v) (Fin (1 / 10))))]
      else if key = ''ArrowDown'' then [PreventDefault, SetVolume (jmax (Fin 0) (jsub (vd_volume v) (Fin (1 / 10))))]
      else if key \<in> {''f'', ''F''} then toggleFullscreen isFullscreen
      else if key \<in> {''m'', ''M''} then toggleMute v
      else if key \<in> {''p'', ''P''} then togglePictureInPicture inPip
      else [])"

text \<open>The seek bar: the pointer at offset \<open>x\<close> of a bar of width \<open>w\<close>.\<close>

definition seekFromEvent :: "jnum \<Rightarrow> jnum \<Rightarrow> player_state \<Rightarrow> player_state \<times> command list" where
  "seekFromEvent x w s = seekTo (jmul (jdiv x w) (p_duration s)) s"

definition scrub_at :: "jnum \<Rightarrow> jnum \<Rightarrow> player_state \<Rightarrow> player_state" where
  "scrub_at x w s = s\<lparr>p_scrub := Some (jmul (jdiv x w) (Fin 100))\<rparr>"

definition bar_leave :: "player_state \<Rightarrow> player_state" where
  "bar_leave s = (if \<not> p_dragging s then s\<lparr>p_scrub := None\<rparr> else s)"

definition bar_down :: "jnum \<Rightarrow> jnum \<Rightarrow> player_state \<Rightarrow> player_state \<times> command list" where
  "bar_down x w s = seekFromEvent x w (s\<lparr>p_dragging := True\<rparr>)"

definition bar_move :: "jnum \<Rightarrow> jnum \<Rightarrow> player_state \<Rightarrow> player_state" where
  "bar_move x w s = (if \<not> p_dragging s then s else scrub_at x w s)"

definition bar_up :: "jnum \<Rightarrow> jnum \<Rightarrow> player_state \<Rightarrow> player_state \<times> command list" where
  "bar_up x w s =
     (case seekFromEvent x w (s\<lparr>p_dragging := False\<rparr>) of (s1, cs) \<Rightarrow> (s1\<lparr>p_scrub := None\<rparr>, cs))"

definition bar_cancel :: "player_state \<Rightarrow> player_state" where
  "bar_cancel s = s\<lparr>p_dragging := False, p_scrub := None\<rparr>"

definition bar_key :: "video \<Rightarrow> string \<Rightarrow> command list" where
  "bar_key v key =
     (if key = ''ArrowRight'' then
        [PreventDefault, SetTime (jmin (vd_duration v) (jadd (vd_currentTime v) (Fin 10)))]
      else if key = ''ArrowLeft'' then
        [PreventDefault, SetTime (jmax (Fin 0) (jsub (vd_currentTime v) (Fin 10)))]
      else [])"

subsection \<open>Tapping the picture\<close>

definition branding :: "props \<Rightarrow> player_config" where
  "branding pr = (case pp_branding pr of Some b \<Rightarrow> b | None \<Rightarrow>
     \<lparr>pc_accentColor = None, pc_logoUrl = None, pc_logoHref = None, pc_logoPosition = None,
      pc_logoSize = None, pc_logoOpacity = None, pc_showLoader = None, pc_autoHideControls = None\<rparr>)"

definition showLoader :: "props \<Rightarrow> bool" where
  "showLoader pr \<longleftrightarrow> pc_showLoader (branding pr) \<noteq> Some False"

definition autoHideControls :: "props \<Rightarrow> bool" where
  "autoHideControls pr \<longleftrightarrow> pc_autoHideControls (branding pr) \<noteq> Some False"

definition armHideTimer :: "props \<Rightarrow> player_state \<Rightarrow> player_state \<times> command list" where
  "armHideTimer pr s =
     (let clear = (if p_hideTimer s then [DisarmHide] else [])
      in if autoHideControls pr then (s\<lparr>p_hideTimer := True\<rparr>, clear @ [ArmHide]) else (s, clear))"

definition hide_timeout :: "player_state \<Rightarrow> player_state" where
  "hide_timeout s = s\<lparr>p_tapped := False\<rparr>"

definition tap :: "props \<Rightarrow> bool \<Rightarrow> video \<Rightarrow> player_state \<Rightarrow> player_state \<times> command list" where
  "tap pr onControls v s =
     (if onControls then (s, [])
      else let pauses = p_tapped s \<and> \<not> vd_paused v;
               s1 = s\<lparr>p_tapped := (if pauses then True else \<not> p_tapped s)\<rparr>
           in case armHideTimer pr s1 of (s2, cs) \<Rightarrow> (s2, (if pauses then [MediaPause] else []) @ cs))"

definition hover :: "props \<Rightarrow> player_state \<Rightarrow> player_state \<times> command list" where
  "hover pr s = armHideTimer pr (s\<lparr>p_tapped := True\<rparr>)"

definition controls_visible :: "props \<Rightarrow> bool \<Rightarrow> player_state \<Rightarrow> bool" where
  "controls_visible pr hovered s \<longleftrightarrow>
     \<not> autoHideControls pr \<or> p_tapped s \<or> \<not> p_playing s \<or> hovered"

subsection \<open>What the bar shows\<close>

definition bar_progress :: "player_state \<Rightarrow> jnum" where
  "bar_progress s =
     (if jless (Fin 0) (p_duration s) then jmul (jdiv (p_current s) (p_duration s)) (Fin 100) else Fin 0)"

definition scrubAt :: "player_state \<Rightarrow> jnum option" where
  "scrubAt s = map_option (\<lambda>x. jmin (Fin 100) (jmax (Fin 0) x)) (p_scrub s)"

definition scrubTime :: "player_state \<Rightarrow> jnum option" where
  "scrubTime s = map_option (\<lambda>x. jmul (jdiv x (Fin 100)) (p_duration s)) (scrubAt s)"

definition scrubFrame :: "props \<Rightarrow> player_state \<Rightarrow> jnum option" where
  "scrubFrame pr s =
     (let n = pi_spriteFrames (pp_info pr) in
      case scrubTime s of
        Some x \<Rightarrow>
          if 0 < n then Some (jmin (num_of_int (int n - 1))
                               (jfloor (jmul (jdiv x (p_duration s)) (num_of_nat n))))
          else None
      | None \<Rightarrow> None)"

definition fmt :: "rat \<Rightarrow> string" where
  "fmt ms = (let tt = nat \<lfloor>ms / 1000 + 1 / 2\<rfloor> in dec (tt div 60) @ '':'' @ pad2 (dec (tt mod 60)))"

definition scrubCols :: nat where "scrubCols = 10"

text \<open>\<open>Math.max(1, Math.ceil(frames / cols))\<close>.\<close>

definition scrubRows :: "nat \<Rightarrow> nat" where
  "scrubRows frames = max 1 ((frames + scrubCols - 1) div scrubCols)"

definition scrubRowStep :: "nat \<Rightarrow> rat" where
  "scrubRowStep frames =
     (if 1 < scrubRows frames then 100 / of_nat (scrubRows frames - 1) else 0)"

text \<open>The position of a frame in the sprite, in percent of the background's overhang.\<close>

definition scrubPosition :: "nat \<Rightarrow> nat \<Rightarrow> rat \<times> rat" where
  "scrubPosition frames f =
     (of_nat (f mod scrubCols) * (100 / of_nat (scrubCols - 1)),
      of_nat (f div scrubCols) * scrubRowStep frames)"

definition is_hex :: "char \<Rightarrow> bool" where
  "is_hex c \<longleftrightarrow> digit_value c \<noteq> None"

definition accent :: "props \<Rightarrow> string" where
  "accent pr =
     (case pc_accentColor (branding pr) of
        Some (c # h) \<Rightarrow>
          if c = CHR ''#'' \<and> 3 \<le> length h \<and> length h \<le> 8 \<and> list_all is_hex h then c # h
          else ''#ffffff''
      | _ \<Rightarrow> ''#ffffff'')"

definition logoPositionClass :: "props \<Rightarrow> string" where
  "logoPositionClass pr =
     (case (case pc_logoPosition (branding pr) of Some p \<Rightarrow> p | None \<Rightarrow> TopRight) of
        TopLeft \<Rightarrow> ''left-3 top-3'' | TopRight \<Rightarrow> ''right-3 top-3''
      | BottomLeft \<Rightarrow> ''left-3 bottom-12'' | BottomRight \<Rightarrow> ''right-3 bottom-12'')"

end
