(* ===== verification/PlayerProps.thy ===== *)
theory PlayerProps
  imports Player
begin

text \<open>
  The properties of the player: the watch time it reports is the time played, the play is
  reported once, the keys stay inside the video and the volume range, the scrub preview stays
  inside the sprite, and the accent colour is a colour.
\<close>

subsection \<open>Analytics\<close>

datatype watch_event = Ticker int video | Paused | Unload | Played

fun watch_step :: "props \<Rightarrow> string \<Rightarrow> watch_event \<Rightarrow> player_state \<Rightarrow> player_state \<times> command list" where
  "watch_step pr vid (Ticker now v) s = ticker pr vid now v s"
| "watch_step pr vid Paused s = onPause pr vid s"
| "watch_step pr vid Unload s = flushWatch pr vid s"
| "watch_step pr vid Played s = onPlay pr vid s"

fun watch_run ::
  "props \<Rightarrow> string \<Rightarrow> watch_event list \<Rightarrow> player_state \<Rightarrow> player_state \<times> command list" where
  "watch_run pr vid [] s = (s, [])"
| "watch_run pr vid (e # es) s =
     (case watch_step pr vid e s of (s1, cs) \<Rightarrow>
        case watch_run pr vid es s1 of (s2, ds) \<Rightarrow> (s2, cs @ ds))"

fun seconds_in :: "command \<Rightarrow> nat" where
  "seconds_in (BeaconWatch p v n) = n"
| "seconds_in _ = 0"

definition reported :: "command list \<Rightarrow> nat" where
  "reported cs = sum_list (map seconds_in cs)"

fun plays_second :: "watch_event \<Rightarrow> bool" where
  "plays_second (Ticker now v) \<longleftrightarrow> \<not> vd_paused v \<and> \<not> vd_ended v"
| "plays_second _ \<longleftrightarrow> False"

definition play_beacons :: "command list \<Rightarrow> nat" where
  "play_beacons cs = length (filter (\<lambda>c. case c of BeaconPlay p v \<Rightarrow> True | _ \<Rightarrow> False) cs)"

lemma watch_step_counts:
  assumes "watch_step pr vid e s = (s1, cs)"
  shows "reported cs + p_watched s1 = p_watched s + (if plays_second e then 1 else 0)"
    and "play_beacons cs + (if p_played s then 1 else 0) \<le> (if p_played s1 then 1 else 0)"
    and "list_all (\<lambda>c. \<forall>p v. c \<noteq> BeaconWatch p v 0) cs"
  using assms
  by (cases e; force simp: ticker_def onPause_def onPlay_def flushWatch_def reported_def play_beacons_def
      Let_def split: if_splits)+

lemma reported_append: "reported (cs @ ds) = reported cs + reported ds"
  by (simp add: reported_def)

lemma play_beacons_append: "play_beacons (cs @ ds) = play_beacons cs + play_beacons ds"
  by (simp add: play_beacons_def)

lemma watch_sum:
  "reported (snd (watch_run pr vid es s)) + p_watched (fst (watch_run pr vid es s)) =
     p_watched s + length (filter plays_second es)"
proof (induction es arbitrary: s)
  case (Cons e es)
  obtain s1 cs where st: "watch_step pr vid e s = (s1, cs)" by (cases "watch_step pr vid e s")
  obtain s2 ds where rn: "watch_run pr vid es s1 = (s2, ds)" by (cases "watch_run pr vid es s1")
  from watch_step_counts [OF st] Cons.IH [of s1] st rn show ?case
    by (auto simp: reported_append list_all_iff)
qed (simp add: reported_def)

lemma no_empty_report: "list_all (\<lambda>c. \<forall>p v. c \<noteq> BeaconWatch p v 0) (snd (watch_run pr vid es s))"
proof (induction es arbitrary: s)
  case (Cons e es)
  obtain s1 cs where st: "watch_step pr vid e s = (s1, cs)" by (cases "watch_step pr vid e s")
  obtain s2 ds where rn: "watch_run pr vid es s1 = (s2, ds)" by (cases "watch_run pr vid es s1")
  from watch_step_counts(3) [OF st] Cons.IH [of s1] st rn show ?case by simp
qed simp

text \<open>C20: The player reports exactly the seconds it counted: whatever the order of seconds,
  pauses and page exits, the seconds of all watch beacons and the seconds not yet sent add up
  to the seconds in which the video ran; no beacon reports zero seconds.\<close>

theorem watch_time_conserved:
  "reported (snd (watch_run pr vid es s)) + p_watched (fst (watch_run pr vid es s)) =
     p_watched s + length (filter plays_second es) \<and>
   list_all (\<lambda>c. c \<noteq> BeaconWatch (pp_publicId pr) vid 0) (snd (watch_run pr vid es s))"
  using watch_sum [of pr vid es s] no_empty_report [of pr vid es s] by (simp add: list_all_iff)

text \<open>The play is reported at most once while the player is mounted, and only if it has not
  been reported before.\<close>

theorem play_reported_once:
  "play_beacons (snd (watch_run pr vid es s)) \<le> (if p_played s then 0 else 1)"
proof -
  have "play_beacons (snd (watch_run pr vid es s)) + (if p_played s then 1 else 0)
      \<le> (if p_played (fst (watch_run pr vid es s)) then 1 else 0)"
  proof (induction es arbitrary: s)
    case (Cons e es)
    obtain s1 cs where st: "watch_step pr vid e s = (s1, cs)" by (cases "watch_step pr vid e s")
    obtain s2 ds where rn: "watch_run pr vid es s1 = (s2, ds)" by (cases "watch_run pr vid es s1")
    from watch_step_counts(2) [OF st] Cons.IH [of s1] st rn show ?case
      by (simp add: play_beacons_append split: if_splits)
  qed (simp add: play_beacons_def)
  then show ?thesis by (simp split: if_splits)
qed

subsection \<open>Seeking and the volume\<close>

definition media_ok :: "video \<Rightarrow> bool" where
  "media_ok v \<longleftrightarrow> (\<exists>c d u. vd_currentTime v = Fin c \<and> vd_duration v = Fin d \<and> vd_volume v = Fin u \<and>
     0 \<le> c \<and> c \<le> d \<and> 0 \<le> u \<and> u \<le> 1)"

fun within_media :: "video \<Rightarrow> command \<Rightarrow> bool" where
  "within_media v (SetTime x) \<longleftrightarrow> jleq (Fin 0) x \<and> jleq x (vd_duration v)"
| "within_media v (SetVolume x) \<longleftrightarrow> jleq (Fin 0) x \<and> jleq x (Fin 1)"
| "within_media v _ \<longleftrightarrow> True"

text \<open>C22: On a loaded video (position, length and volume known) no key moves the play position out of the video or the
  volume out of its range, on the page and on the seek bar.\<close>

theorem keys_stay_in_range:
  assumes "media_ok v"
  shows "list_all (within_media v) (onKey tag inBar isFull inPip v key) \<and>
    list_all (within_media v) (bar_key v key)"
proof -
  from assms obtain c d u where v: "vd_currentTime v = Fin c" "vd_duration v = Fin d" "vd_volume v = Fin u"
      "0 \<le> c" "c \<le> d" "0 \<le> u" "u \<le> 1"
    by (auto simp: media_ok_def)
  then show ?thesis
    by (simp add: onKey_def bar_key_def togglePlay_def toggleFullscreen_def toggleMute_def
        togglePictureInPicture_def)
qed

definition middle :: video where
  "middle = \<lparr>vd_paused = False, vd_ended = False, vd_currentTime = Fin 95, vd_duration = Fin 100,
     vd_volume = Fin (19 / 20), vd_muted = False, vd_tracks = []\<rparr>"

theorem keys_stay_in_range_witness:
  "onKey ''BODY'' False False False middle ''ArrowRight'' = [SetTime (Fin 100)] \<and>
   list_all (within_media middle) (onKey ''BODY'' False False False middle ''ArrowUp'')"
proof
  have "media_ok middle" by (auto simp: media_ok_def middle_def intro!: exI [of _ "19 / 20"])
  then show "list_all (within_media middle) (onKey ''BODY'' False False False middle ''ArrowUp'')"
    using keys_stay_in_range by blast
  show "onKey ''BODY'' False False False middle ''ArrowRight'' = [SetTime (Fin 100)]"
    by (simp add: onKey_def middle_def)
qed

text \<open>A pointer released left of the seek bar sets a negative position: the seek is not clamped
  as the preview is.\<close>

lemma seek_not_clamped:
  "p_duration s = Fin 1000 \<Longrightarrow> p_current (fst (bar_up (Fin (- 10)) (Fin 100) s)) = Fin (- 100)"
  by (simp add: bar_up_def seekFromEvent_def seekTo_def)

subsection \<open>The scrub preview\<close>

lemma frame_bounds:
  assumes "0 \<le> (q :: rat)" and "q \<le> 100" and "0 < n"
  shows "0 \<le> min (int n - 1) \<lfloor>q / 100 * of_nat n\<rfloor> \<and> min (int n - 1) \<lfloor>q / 100 * of_nat n\<rfloor> < int n"
  using assms by (simp add: min_def)

text \<open>When the duration is known, the preview of any pointer position on or off the seek bar
  is a frame of the sprite, and its position in the sprite is between 0 and 100 percent in
  both directions.\<close>

theorem scrub_frame_in_sprite:
  assumes "p_duration s = Fin d" and "0 < d" and "p_scrub s = Some (Fin x)"
    and "0 < pi_spriteFrames (pp_info pr)"
  shows "\<exists>f < pi_spriteFrames (pp_info pr). scrubFrame pr s = Some (num_of_nat f) \<and>
    0 \<le> fst (scrubPosition (pi_spriteFrames (pp_info pr)) f) \<and>
    fst (scrubPosition (pi_spriteFrames (pp_info pr)) f) \<le> 100 \<and>
    0 \<le> snd (scrubPosition (pi_spriteFrames (pp_info pr)) f) \<and>
    snd (scrubPosition (pi_spriteFrames (pp_info pr)) f) \<le> 100"
proof -
  let ?n = "pi_spriteFrames (pp_info pr)" and ?q = "min 100 (max 0 x)"
  let ?k = "min (int ?n - 1) \<lfloor>?q / 100 * of_nat ?n\<rfloor>"
  have k: "0 \<le> ?k" "?k < int ?n" using frame_bounds [of ?q ?n] assms(4) by auto
  have "scrubFrame pr s = Some (num_of_int ?k)"
    using assms by (simp add: scrubFrame_def scrubTime_def scrubAt_def Let_def jfloor_def)
  moreover obtain f where f: "?k = int f" using k(1) by (metis nonneg_int_cases)
  ultimately have frame: "scrubFrame pr s = Some (num_of_nat f)" by simp
  have less: "f < ?n" using k(2) f by simp
  have "(of_nat (f mod 10) :: rat) \<le> 9"
    using of_nat_le_iff [of "f mod 10" 9, where 'a = rat] by simp
  then have x: "0 \<le> fst (scrubPosition ?n f)" "fst (scrubPosition ?n f) \<le> 100"
    by (simp_all add: scrubPosition_def scrubCols_def)
  have rows: "f div 10 \<le> scrubRows ?n - 1"
  proof -
    obtain m where m: "?n = Suc m" using assms(4) gr0_conv_Suc by blast
    have "f div 10 \<le> m div 10" using less m by (intro div_le_mono) simp
    moreover have "(?n + 9) div 10 = Suc (m div 10)" by (simp add: m)
    ultimately show ?thesis by (simp add: scrubRows_def scrubCols_def)
  qed
  have y: "0 \<le> snd (scrubPosition ?n f)" "snd (scrubPosition ?n f) \<le> 100"
  proof -
    show "0 \<le> snd (scrubPosition ?n f)" by (simp add: scrubPosition_def scrubRowStep_def)
    show "snd (scrubPosition ?n f) \<le> 100"
    proof (cases "1 < scrubRows ?n")
      case True
      have "(of_nat (f div 10) :: rat) \<le> of_nat (scrubRows ?n - 1)" using rows by (simp only: of_nat_le_iff)
      moreover have "(0::rat) < of_nat (scrubRows ?n - 1)" using True by simp
      ultimately have "of_nat (f div 10) * (100 / of_nat (scrubRows ?n - 1)) \<le> (100 :: rat)"
        by (simp add: divide_simps del: of_nat_diff)
      with True show ?thesis by (simp add: scrubPosition_def scrubRowStep_def scrubCols_def)
    qed (simp add: scrubPosition_def scrubRowStep_def)
  qed
  from frame less x y show ?thesis by blast
qed

definition player_at :: "nat \<Rightarrow> rat \<Rightarrow> props \<times> player_state" where
  "player_at frames x =
     (let pr = \<lparr>pp_info = \<lparr>pi_title = [], pi_description = [], pi_status = EReady, pi_durationMs = Some 60000,
              pi_master = None, pi_poster = None, pi_sprite = Some ''s.jpg'', pi_spriteFrames = frames,
              pi_subtitles = [], pi_embedUrl = [], pi_player = None\<rparr>,
            pp_publicId = ''v1'', pp_autoplay = False, pp_muted = False, pp_loop = False,
            pp_branding = None, pp_startTime = None\<rparr>
      in (pr, (initial_player pr None None None)\<lparr>p_scrub := Some (Fin x)\<rparr>))"

theorem scrub_frame_in_sprite_witness:
  "\<exists>f < 25. scrubFrame (fst (player_at 25 130)) (snd (player_at 25 130)) = Some (num_of_nat f)"
proof -
  have "p_duration (snd (player_at 25 130)) = Fin 60000" "(0::rat) < 60000"
    "p_scrub (snd (player_at 25 130)) = Some (Fin 130)"
    "pi_spriteFrames (pp_info (fst (player_at 25 130))) = 25"
    by (simp_all add: player_at_def Let_def initial_player_def)
  with scrub_frame_in_sprite [OF this(1,2,3), of "fst (player_at 25 130)"] show ?thesis by auto
qed

subsection \<open>The look\<close>

text \<open>The accent colour that goes into the page's style is always a hash with three to eight
  hexadecimal digits, whatever the configuration holds.\<close>

theorem accent_is_colour:
  "\<exists>h. accent pr = CHR ''#'' # h \<and> 3 \<le> length h \<and> length h \<le> 8 \<and> list_all is_hex h"
proof (cases "\<exists>c h. pc_accentColor (branding pr) = Some (c # h) \<and> c = CHR ''#'' \<and> 3 \<le> length h \<and>
    length h \<le> 8 \<and> list_all is_hex h")
  case True
  then show ?thesis by (auto simp: accent_def)
next
  case False
  then have "accent pr = ''#ffffff''" by (auto simp: accent_def split: option.split list.split)
  moreover have "list_all is_hex ''ffffff''" by code_simp
  ultimately show ?thesis by auto
qed

text \<open>On a first visit nothing is stored, \<open>Number(null)\<close> is zero, and the volume starts at zero.\<close>

lemma first_visit_is_silent: "p_volume (initial_player pr None mut rate) = Fin 0"
  by (simp add: initial_player_def initial_volume_def stored_number_def)

end
