(* ===== verification/Web.thy ===== *)
theory Web
  imports Ui DialogStack
begin

text \<open>
  What the pages share: the JSON bodies of requests, how a request ends for a handler that
  awaits it, and what a handler does beyond its state (requests, toasts, dialogs, navigation,
  refetching of queries), in order.  \<open>'a\<close> is the page's own type of dialogs and of actions
  that a confirm box runs.  Cached queries are arguments: \<open>None\<close> while nothing has arrived, or, where
  the page looks at \<open>isLoading\<close> too, pending, failed without data, or with data.
\<close>

datatype json =
    JNull | JBool bool | JNum jnum | JText string
  | JList "json list" | JObj "(string \<times> json) list"

abbreviation JNat :: "nat \<Rightarrow> json" where "JNat n \<equiv> JNum (num_of_nat n)"
abbreviation JInt :: "int \<Rightarrow> json" where "JInt i \<equiv> JNum (num_of_int i)"

datatype 'r reply = Ok 'r | ApiErr string | OtherErr string

text \<open>\<open>err instanceof ApiError ? err.message : t("error")\<close>, and with any \<open>Error\<close>.\<close>

fun api_error_text :: "translator \<Rightarrow> string \<Rightarrow> 'r reply \<Rightarrow> string" where
  "api_error_text t key (ApiErr m) = m"
| "api_error_text t key _ = tx t key"

fun error_text :: "'r reply \<Rightarrow> string" where
  "error_text (ApiErr m) = m"
| "error_text (OtherErr m) = m"
| "error_text (Ok _) = []"

datatype 'a web_effect =
    Request string string "json option"
  | Toast toast_type string
  | Invalidate "string list"
  | RouterRefresh
  | GoTo string
  | Reload
  | OpenDlg 'a "dialog_size option" bool bool
  | AskConfirm confirm_options 'a
  | CloseDlg
  | ClickInput string
  | CopyText string

text \<open>What \<open>useQuery\<close> returns: still loading (\<open>isLoading\<close>), failed, or with its data.  A failed query
  has no data and is not loading.\<close>

datatype 'd fetched = QPending | QFailed | QData 'd

fun query_data :: "'d fetched \<Rightarrow> 'd option" where
  "query_data (QData d) = Some d"
| "query_data _ = None"

lemma query_data_iff [simp]: "query_data x = Some d \<longleftrightarrow> x = QData d"
  by (cases x) simp_all

fun is_request :: "'a web_effect \<Rightarrow> bool" where
  "is_request (Request m p b) = True"
| "is_request _ = False"

text \<open>The options of a confirm box with the title, text and labels of the source.\<close>

definition ask :: "string \<Rightarrow> string \<Rightarrow> string \<Rightarrow> string \<Rightarrow> variant option \<Rightarrow> confirm_options" where
  "ask title desc ok cancel v =
     \<lparr>co_title = title, co_description = Some desc, co_body = None, co_confirmLabel = Some ok,
      co_cancelLabel = Some cancel, co_variant = v, co_size = None\<rparr>"

subsection \<open>Numbers as text\<close>

text \<open>
  \<open>String(x)\<close>: whole numbers in decimal, other numbers with the digits of their decimal
  expansion, to at most seventeen places.  Numbers of \<open>1e21\<close> and more, which the program
  never shows, would have an exponent.
\<close>

fun places :: "nat \<Rightarrow> rat \<Rightarrow> nat" where
  "places 0 q = 0"
| "places (Suc n) q = (if q = of_int \<lfloor>q\<rfloor> then 0 else Suc (places n (q * 10)))"

definition rat_text :: "rat \<Rightarrow> string" where
  "rat_text q =
     (let a = \<bar>q\<bar>; k = places 17 a; n = nat \<lfloor>a * 10 ^ k + 1 / 2\<rfloor>; frac = dec (n mod 10 ^ k)
      in (if q < 0 then ''-'' else []) @
         (if k = 0 then dec n
          else dec (n div 10 ^ k) @ ''.'' @ replicate (k - length frac) (CHR ''0'') @ frac))"

fun num_text :: "jnum \<Rightarrow> string" where
  "num_text (Fin q) = rat_text q"
| "num_text NaN = ''NaN''"
| "num_text PInf = ''Infinity''"
| "num_text NInf = ''-Infinity''"
| "num_text Nul = ''null''"

lemma rat_text_nat: "rat_text (of_nat n) = dec n"
proof -
  have "places 17 (of_nat n) = 0" by (simp add: eval_nat_numeral)
  moreover have "nat \<lfloor>(of_nat n :: rat) + 1 / 2\<rfloor> = n" by linarith
  ultimately show ?thesis by (simp add: rat_text_def)
qed

lemma num_text_nat [simp]: "num_text (num_of_nat n) = dec n"
  by (simp add: rat_text_nat)

subsection \<open>Upper case\<close>

text \<open>\<open>toUpperCase\<close> on characters whose capital is one of the same set.\<close>

definition upper_char :: "char \<Rightarrow> string" where
  "upper_char c =
     (let n = of_char c :: nat in
      if n = 0xDF then ''SS''
      else if 97 \<le> n \<and> n \<le> 122 \<or> 0xE0 \<le> n \<and> n \<le> 0xFE \<and> n \<noteq> 0xF7 then [char_of (n - 32)]
      else [c])"

definition js_upper :: "string \<Rightarrow> string" where
  "js_upper s = concat (map upper_char s)"

definition lower_char :: "char \<Rightarrow> char" where
  "lower_char c =
     (let n = of_char c :: nat in
      if 65 \<le> n \<and> n \<le> 90 \<or> 0xC0 \<le> n \<and> n \<le> 0xDE \<and> n \<noteq> 0xD7 then char_of (n + 32) else c)"

definition js_lower :: "string \<Rightarrow> string" where
  "js_lower s = map lower_char s"

end
