(* ===== verification/UploadDialog.thy ===== *)
theory UploadDialog
  imports UploadStore UrlStore Web Format "HOL-Library.Word"
begin

text \<open>
  The upload dialog, \<open>web/components/upload-dialog.tsx\<close>: its state, the handlers, which work
  on the two stores, and what it shows.  A handler that awaits is two events.  The boxes
  that ask for confirmation carry what their handler has captured: the lists of jobs of the
  render in which they were opened.  Whether a card is expanded is the card's own state.
\<close>

subsection \<open>State\<close>

record upload_dialog =
  ud_tab :: string
  ud_categories :: "category list"
  ud_config :: "upload_config option"
  ud_dragOver :: bool
  ud_urlText :: string
  ud_checking :: bool
  ud_starting :: bool

definition new_upload_dialog :: upload_dialog where
  "new_upload_dialog = \<lparr>ud_tab = ''computer'', ud_categories = [], ud_config = None, ud_dragOver = False,
     ud_urlText = [], ud_checking = False, ud_starting = False\<rparr>"

text \<open>The stores and the dialog together.\<close>

record upload_world =
  uw_uploads :: upload_store
  uw_urls :: url_store
  uw_dialog :: upload_dialog

datatype ud_question =
    StopJob string
  | CancelAll "url_job list"
  | Discard "upload_job list" "url_job list"
  | UploadBox

subsection \<open>Opening\<close>

text \<open>
  \<open>useUploadDialog\<close>: finished jobs stay for one more look, otherwise the idle lists start
  empty.  \<open>closed\<close> is the dialog's \<open>onClose\<close>.
\<close>

definition open_upload :: "upload_world \<Rightarrow> upload_world \<times> ud_question web_effect list" where
  "open_upload w =
     (let completed = hasUploadsCompleted (uw_uploads w) \<or> hasUrlDownloadsCompleted (uw_urls w);
          w1 = (if completed then w
                else w\<lparr>uw_uploads := resetIdle (uw_uploads w), uw_urls := resetIdleDownloads (uw_urls w)\<rparr>)
      in (w1\<lparr>uw_dialog := new_upload_dialog\<rparr>, [OpenDlg UploadBox (Some Size2xl) False False]))"

definition closed :: "upload_world \<Rightarrow> upload_world \<times> ud_question web_effect list" where
  "closed w =
     (w\<lparr>uw_uploads := clearUploadsCompleted (uw_uploads w),
        uw_urls := clearUrlDownloadsCompleted (uw_urls w)\<rparr>, [CloseDlg])"

subsection \<open>What is derived from the jobs\<close>

definition shl32 :: "nat \<Rightarrow> nat \<Rightarrow> 32 word" where
  "shl32 a n = push_bit n (word_of_nat a)"

definition maxSize :: "upload_config option \<Rightarrow> nat" where
  "maxSize cfg = (case cfg of Some c \<Rightarrow> uc_maxSizeBytes c | None \<Rightarrow> unat (shl32 8 30))"

definition waits :: "upload_job \<Rightarrow> bool" where
  "waits j \<longleftrightarrow> uj_status j = UQueued \<or> uj_status j = UInterrupted"

definition activeCount :: "upload_job list \<Rightarrow> nat" where
  "activeCount jobs = length (filter (\<lambda>j. uj_status j = UUploading \<or> waits j) jobs)"

definition hasPending :: "upload_job list \<Rightarrow> bool" where
  "hasPending jobs \<longleftrightarrow> list_ex (\<lambda>j. uj_status j \<noteq> UDone) jobs"

definition allDone :: "upload_job list \<Rightarrow> bool" where
  "allDone jobs \<longleftrightarrow> jobs \<noteq> [] \<and> \<not> hasPending jobs"

definition url_busy :: "url_job \<Rightarrow> bool" where
  "url_busy j \<longleftrightarrow> dj_status j = DDownloading \<or> dj_status j = DChecking"

definition urlActive :: "url_job list \<Rightarrow> bool" where
  "urlActive urlJobs \<longleftrightarrow> list_ex url_busy urlJobs"

definition anyActive :: "upload_job list \<Rightarrow> url_job list \<Rightarrow> bool" where
  "anyActive jobs urlJobs \<longleftrightarrow> list_ex (\<lambda>j. uj_status j = UUploading) jobs \<or> urlActive urlJobs"

definition urlQueuedCount :: "url_job list \<Rightarrow> nat" where
  "urlQueuedCount urlJobs = length (filter (\<lambda>j. dj_status j = DQueued) urlJobs)"

definition allUrlDone :: "url_job list \<Rightarrow> bool" where
  "allUrlDone urlJobs \<longleftrightarrow>
     urlJobs \<noteq> [] \<and> \<not> urlActive urlJobs \<and> \<not> list_ex (\<lambda>j. dj_status j = DQueued) urlJobs"

definition showTabs :: "upload_job list \<Rightarrow> url_job list \<Rightarrow> bool" where
  "showTabs jobs urlJobs \<longleftrightarrow> \<not> anyActive jobs urlJobs \<and> \<not> allDone jobs \<and> \<not> allUrlDone urlJobs"

definition urlLines :: "string \<Rightarrow> nat" where
  "urlLines txt = length (filter (\<lambda>l. l \<noteq> []) (map js_trim (split_on (CHR 0x0A) txt)))"

subsection \<open>Handlers\<close>

datatype ud_event =
    DragOver | DragLeave | Drop "js_file list" | PickFiles | DropKey string | Chosen "js_file list"
  | SelectTab string | TypeUrls string
  | AskRemove upload_job | EditUpload string "upload_job \<Rightarrow> upload_job"
  | EditUrl string "url_job \<Rightarrow> url_job" | RemoveUrl string
  | CheckUrls | ChecksOver "check_result list reply"
  | StartUrls | StartingOver | StartFiles | AskCancelAll | CloseAttempt
  | Confirmed ud_question
  | CategoriesCame "category list" | ConfigCame upload_config
  | ToggleCard string

definition addSelected ::
  "translator \<Rightarrow> (nat \<Rightarrow> string) \<Rightarrow> js_file list \<Rightarrow> upload_world \<Rightarrow> upload_world \<times> ud_question web_effect list" where
  "addSelected t uuid files w =
     (case addFiles uuid files (uw_uploads w) of (s, r) \<Rightarrow>
        (w\<lparr>uw_uploads := s\<rparr>,
         if 0 < ar_duplicates r \<and> ar_added r = 0 then [Toast ToastError (tx t ''uploadDuplicate'')]
         else if 0 < ar_overLimit r
         then [Toast ToastError (t ''uploadBatchLimit'' (Some [(''n'', VNat MAX_BATCH)]))] else []))"

definition askRemove ::
  "translator \<Rightarrow> upload_job \<Rightarrow> upload_world \<Rightarrow> upload_world \<times> ud_question web_effect list" where
  "askRemove t job w =
     (if uj_status job = UUploading then
        (w, [AskConfirm (ask (tx t ''uploadStopTitle'') (tx t ''uploadStopDesc'') (tx t ''uploadStop'')
               (tx t ''cancel'') (Some Destructive)) (StopJob (uj_id job))])
      else (w\<lparr>uw_uploads := removeJob (uj_id job) (uw_uploads w)\<rparr>, []))"

text \<open>
  \<open>handleCheckUrls\<close>, before its await (when there is a line to check) and after it.  Without a line
  \<open>checkUrls\<close> returns at once, and the rest of the handler follows.
\<close>

definition handleCheckUrls :: "upload_world \<Rightarrow> upload_world \<times> ud_question web_effect list" where
  "handleCheckUrls w =
     (case check_request (split_on (CHR 0x0A) (ud_urlText (uw_dialog w))) of
        None \<Rightarrow> (w\<lparr>uw_dialog := (uw_dialog w)\<lparr>ud_checking := False\<rparr>\<rparr>, [])
      | Some urls \<Rightarrow>
          (w\<lparr>uw_dialog := (uw_dialog w)\<lparr>ud_checking := True\<rparr>\<rparr>,
           [Request ''POST'' ''/api/entries/from-url/check'' (Some (JObj [(''urls'', JList (map JText urls))]))]))"

definition checks_over ::
  "translator \<Rightarrow> (nat \<Rightarrow> string) \<Rightarrow> check_result list reply \<Rightarrow> upload_world \<Rightarrow>
   upload_world \<times> ud_question web_effect list" where
  "checks_over t uuid answer w =
     (let d = (uw_dialog w)\<lparr>ud_checking := False\<rparr> in
      case answer of
        Ok results \<Rightarrow>
          (case checkUrls uuid results (uw_urls w) of (s, added, failed) \<Rightarrow>
             (w\<lparr>uw_urls := s, uw_dialog := (if 0 < added then d\<lparr>ud_urlText := []\<rparr> else d)\<rparr>,
              if 0 < failed then [Toast ToastError (tx t ''uploadUrlInvalid'')] else []))
      | r \<Rightarrow> (w\<lparr>uw_dialog := d\<rparr>, [Toast ToastError (error_text r)]))"

definition handleStartUrls :: "int \<Rightarrow> upload_world \<Rightarrow> upload_world \<times> ud_question web_effect list" where
  "handleStartUrls now w =
     (w\<lparr>uw_uploads := clearAllUploads (uw_uploads w),
        uw_dialog := (uw_dialog w)\<lparr>ud_starting := True\<rparr>,
        uw_urls := startDownloads now (uw_urls w)\<rparr>, [])"

definition handleStartFiles :: "int \<Rightarrow> upload_world \<Rightarrow> upload_world \<times> ud_question web_effect list" where
  "handleStartFiles now w =
     (w\<lparr>uw_urls := clearAllUrlDownloads (uw_urls w), uw_uploads := startAll now (uw_uploads w)\<rparr>, [])"

definition askCancelAll :: "translator \<Rightarrow> upload_world \<Rightarrow> upload_world \<times> ud_question web_effect list" where
  "askCancelAll t w =
     (w, [AskConfirm (ask (tx t ''uploadCancelAllTitle'') (tx t ''uploadCancelAllDesc'') (tx t ''uploadCancelAll'')
            (tx t ''cancel'') (Some Destructive)) (CancelAll (ds_jobs (uw_urls w)))])"

definition entry_deletions :: "url_job list \<Rightarrow> ud_question web_effect list" where
  "entry_deletions urlJobs =
     concat (map (\<lambda>j. case dj_entryId j of
         Some (c # i) \<Rightarrow> [Request ''DELETE'' (''/api/entries/'' @ c # i) None]
       | _ \<Rightarrow> []) urlJobs)"

definition cancel_all :: "url_job list \<Rightarrow> upload_world \<Rightarrow> upload_world \<times> ud_question web_effect list" where
  "cancel_all urlJobs w =
     (w\<lparr>uw_uploads := clearAllUploads (uw_uploads w), uw_urls := clearAllUrlDownloads (uw_urls w)\<rparr>,
      entry_deletions urlJobs)"

definition discardPending :: "upload_job list \<Rightarrow> url_job list \<Rightarrow> upload_world \<Rightarrow> upload_world" where
  "discardPending jobs urlJobs w =
     w\<lparr>uw_uploads := fold removeJob (map uj_id (filter waits jobs)) (uw_uploads w),
       uw_urls := fold removeUrlDownload (map dj_id (filter (\<lambda>j. dj_status j = DQueued) urlJobs)) (uw_urls w),
       uw_dialog := (uw_dialog w)\<lparr>ud_urlText := []\<rparr>\<rparr>"

definition unstarted :: "upload_world \<Rightarrow> bool" where
  "unstarted w \<longleftrightarrow> list_ex waits (us_jobs (uw_uploads w)) \<or>
     list_ex (\<lambda>j. dj_status j = DQueued) (ds_jobs (uw_urls w)) \<or> js_trim (ud_urlText (uw_dialog w)) \<noteq> []"

definition handleCloseAttempt :: "translator \<Rightarrow> upload_world \<Rightarrow> upload_world \<times> ud_question web_effect list" where
  "handleCloseAttempt t w =
     (if anyActive (us_jobs (uw_uploads w)) (ds_jobs (uw_urls w)) \<or> \<not> unstarted w then closed w
      else (w, [AskConfirm (ask (tx t ''uploadDiscardTitle'') (tx t ''uploadDiscardDesc'')
              (tx t ''uploadDiscardConfirm'') (tx t ''uploadDiscardCancel'') (Some Destructive))
              (Discard (us_jobs (uw_uploads w)) (ds_jobs (uw_urls w)))]))"

fun run_confirmed :: "ud_question \<Rightarrow> upload_world \<Rightarrow> upload_world \<times> ud_question web_effect list" where
  "run_confirmed (StopJob i) w = (w\<lparr>uw_uploads := removeJob i (uw_uploads w)\<rparr>, [])"
| "run_confirmed (CancelAll urlJobs) w = cancel_all urlJobs w"
| "run_confirmed (Discard jobs urlJobs) w = closed (discardPending jobs urlJobs w)"
| "run_confirmed UploadBox w = (w, [])"

text \<open>What the dialog asks the server when it opens; the answers are events of it.\<close>

definition upload_requests :: "'a web_effect list" where
  "upload_requests = [Request ''GET'' ''/api/categories'' None, Request ''GET'' ''/api/upload-config'' None]"

fun upload_dialog_step ::
  "translator \<Rightarrow> (nat \<Rightarrow> string) \<Rightarrow> int \<Rightarrow> ud_event \<Rightarrow> upload_world \<Rightarrow>
   upload_world \<times> ud_question web_effect list" where
  "upload_dialog_step t uuid now DragOver w = (w\<lparr>uw_dialog := (uw_dialog w)\<lparr>ud_dragOver := True\<rparr>\<rparr>, [])"
| "upload_dialog_step t uuid now DragLeave w = (w\<lparr>uw_dialog := (uw_dialog w)\<lparr>ud_dragOver := False\<rparr>\<rparr>, [])"
| "upload_dialog_step t uuid now (Drop fs) w =
     addSelected t uuid fs (w\<lparr>uw_dialog := (uw_dialog w)\<lparr>ud_dragOver := False\<rparr>\<rparr>)"
| "upload_dialog_step t uuid now PickFiles w = (w, [ClickInput ''file''])"
| "upload_dialog_step t uuid now (DropKey k) w = (w, if k = ''Enter'' \<or> k = '' '' then [ClickInput ''file''] else [])"
| "upload_dialog_step t uuid now (Chosen fs) w = (if fs \<noteq> [] then addSelected t uuid fs w else (w, []))"
| "upload_dialog_step t uuid now (SelectTab x) w = (w\<lparr>uw_dialog := (uw_dialog w)\<lparr>ud_tab := x\<rparr>\<rparr>, [])"
| "upload_dialog_step t uuid now (TypeUrls x) w = (w\<lparr>uw_dialog := (uw_dialog w)\<lparr>ud_urlText := x\<rparr>\<rparr>, [])"
| "upload_dialog_step t uuid now (AskRemove job) w = askRemove t job w"
| "upload_dialog_step t uuid now (EditUpload i p) w = (w\<lparr>uw_uploads := updateJob i p (uw_uploads w)\<rparr>, [])"
| "upload_dialog_step t uuid now (EditUrl i p) w = (w\<lparr>uw_urls := update_url i p (uw_urls w)\<rparr>, [])"
| "upload_dialog_step t uuid now (RemoveUrl i) w = (w\<lparr>uw_urls := removeUrlDownload i (uw_urls w)\<rparr>, [])"
| "upload_dialog_step t uuid now CheckUrls w = handleCheckUrls w"
| "upload_dialog_step t uuid now (ChecksOver r) w = checks_over t uuid r w"
| "upload_dialog_step t uuid now StartUrls w = handleStartUrls now w"
| "upload_dialog_step t uuid now StartingOver w = (w\<lparr>uw_dialog := (uw_dialog w)\<lparr>ud_starting := False\<rparr>\<rparr>, [])"
| "upload_dialog_step t uuid now StartFiles w = handleStartFiles now w"
| "upload_dialog_step t uuid now AskCancelAll w = askCancelAll t w"
| "upload_dialog_step t uuid now CloseAttempt w = handleCloseAttempt t w"
| "upload_dialog_step t uuid now (Confirmed a) w = run_confirmed a w"
| "upload_dialog_step t uuid now (CategoriesCame cs) w = (w\<lparr>uw_dialog := (uw_dialog w)\<lparr>ud_categories := cs\<rparr>\<rparr>, [])"
| "upload_dialog_step t uuid now (ConfigCame c) w = (w\<lparr>uw_dialog := (uw_dialog w)\<lparr>ud_config := Some c\<rparr>\<rparr>, [])"
| "upload_dialog_step t uuid now (ToggleCard i) w = (w, [])"

subsection \<open>Cards\<close>

definition category_options :: "translator \<Rightarrow> category list \<Rightarrow> 'e node list" where
  "category_options t categories =
     El ''option'' [(''value'', AText [])] [Txt (tx t ''none'')] #
     map (\<lambda>c. El ''option'' [(''value'', AText (dec_int (cat_id c)))] [Txt (cat_name c)]) categories"

text \<open>Icon and text of a job's status.\<close>

definition job_status_shown :: "translator \<Rightarrow> upload_job \<Rightarrow> string \<times> string" where
  "job_status_shown t job =
     (case uj_status job of
        UDone \<Rightarrow> (''CheckIcon'', '' '' @ emdash @ '' '' @ tx t ''uploadDone'')
      | UFailed \<Rightarrow> (''CircleAlertIcon'', t ''uploadFailed''
          (Some [(''error'', VText (case uj_error job of Some e \<Rightarrow> e | None \<Rightarrow> []))]))
      | UUploading \<Rightarrow> (''UploadCloudIcon'', '' '' @ emdash @ '' '' @ tx t ''uploadInProgress'')
      | UQueued \<Rightarrow> (''TimerIcon'', [])
      | UInterrupted \<Rightarrow> (''TimerIcon'', '' '' @ emdash @ '' '' @ tx t ''uploadInterrupted''))"

definition UploadJobCard ::
  "translator \<Rightarrow> category list \<Rightarrow> bool \<Rightarrow> upload_job \<Rightarrow> ud_event node" where
  "UploadJobCard t categories expanded job =
     (let st = job_status_shown t job; i = uj_id job; uploading = (uj_status job = UUploading);
          idle = (uj_status job \<noteq> UDone \<and> \<not> uploading) in
      El ''Card'' [] [El ''CardContent'' []
        ([El ''div'' []
           [El ''div'' [] [El (fst st) [] []],
            El ''div'' [] [El ''p'' [] [Txt (uj_fileName job)],
              El ''p'' [] [Txt (formatBytes (Some (uj_fileSize job)) @ snd st)]],
            El ''div'' []
              (show_if idle (El ''Button'' [(''onClick'', AEvent (ToggleCard i)),
                 (''title'', AText (if expanded then ''Hide details'' else ''Edit title / category''))]
                 [El ''PencilIcon'' [] []]) @
               show_if idle (El ''Button'' [(''onClick'', AEvent (AskRemove job)), (''title'', AText ''Remove file'')]
                 [El ''Trash2Icon'' [] []]))]] @
         show_if uploading (El ''div'' [] [El ''Progress'' [(''value'', ANum (uj_progress job))] [],
             El ''span'' [] [Txt (num_text (uj_progress job) @ ''%'')]]) @
         show_if (expanded \<and> uj_status job \<noteq> UDone) (El ''div'' []
           [El ''div'' [] [El ''Label'' [] [Txt (tx t ''labelTitle'')],
              El ''Input'' [(''value'', AText (uj_title job)), (''disabled'', ABool uploading),
                (''onChange'', AInput (\<lambda>x. EditUpload i (\<lambda>j. j\<lparr>uj_title := x\<rparr>)))] []],
            El ''div'' [] [El ''Label'' [] [Txt (tx t ''labelCategory'')],
              El ''Select'' [(''value'', AText (uj_category job)), (''disabled'', ABool uploading),
                (''onChange'', AInput (\<lambda>x. EditUpload i (\<lambda>j. j\<lparr>uj_category := x\<rparr>)))]
                (category_options t categories)],
            El ''div'' [] [El ''Label'' [] [Txt (tx t ''labelDescription'')],
              El ''Textarea'' [(''value'', AText (uj_description job)), (''disabled'', ABool uploading),
                (''onChange'', AInput (\<lambda>x. EditUpload i (\<lambda>j. j\<lparr>uj_description := x\<rparr>)))] []]]))])"

definition url_status_shown :: "translator \<Rightarrow> url_job \<Rightarrow> string \<times> string" where
  "url_status_shown t job =
     (case dj_status job of
        DDone \<Rightarrow> (''CheckIcon'', '' '' @ emdash @ '' '' @ tx t ''uploadDone'')
      | DFailed \<Rightarrow> (''CircleAlertIcon'', '' '' @ emdash @ '' '' @
          (case dj_error job of Some e \<Rightarrow> e | None \<Rightarrow> tx t ''error''))
      | DDownloading \<Rightarrow> (''DownloadIcon'', '' '' @ emdash @ '' '' @ tx t ''uploadInProgress'')
      | DQueued \<Rightarrow> (''TimerIcon'', [])
      | DChecking \<Rightarrow> (''Loader2Icon'', []))"

definition UrlDownloadCard ::
  "translator \<Rightarrow> category list \<Rightarrow> bool \<Rightarrow> url_job \<Rightarrow> ud_event node" where
  "UrlDownloadCard t categories expanded job =
     (let st = url_status_shown t job; i = dj_id job; downloading = (dj_status job = DDownloading);
          known = jleq (Fin 0) (dj_progress job) in
      El ''Card'' [] [El ''CardContent'' []
        ([El ''div'' []
           [El ''div'' [] [El (fst st) [] []],
            El ''div'' [] [El ''p'' [] [Txt (if truthy (dj_title job) then the (dj_title job) else dj_fileName job)],
              El ''p'' [] [Txt (dj_url job @ snd st)]],
            El ''div'' []
              (show_if (dj_status job \<noteq> DDone) (El ''Button'' [(''onClick'', AEvent (ToggleCard i)),
                 (''title'', AText (if expanded then ''Hide details'' else ''Edit title / category''))]
                 [El ''PencilIcon'' [] []]) @
               show_if (dj_status job = DQueued \<or> dj_status job = DFailed)
                 (El ''Button'' [(''onClick'', AEvent (RemoveUrl i)), (''title'', AText ''Remove file'')]
                   [El ''Trash2Icon'' [] []]))]] @
         show_if (downloading \<or> dj_status job = DQueued) (El ''div'' []
             [El ''Progress'' [(''value'', ANum (if known then dj_progress job else Fin 0))] [],
              El ''span'' [] [Txt (if known then num_text (dj_progress job) @ ''%'' else ellipsis)]]) @
         show_if (expanded \<and> dj_status job \<noteq> DDone) (El ''div'' []
           [El ''div'' [] [El ''Label'' [] [Txt (tx t ''labelTitle'')],
              El ''Input'' [(''value'', AText (case dj_title job of Some x \<Rightarrow> x | None \<Rightarrow> [])),
                (''disabled'', ABool downloading),
                (''onChange'', AInput (\<lambda>x. EditUrl i (\<lambda>j. j\<lparr>dj_title := Some x\<rparr>)))] []],
            El ''div'' [] [El ''Label'' [] [Txt (tx t ''labelCategory'')],
              El ''Select'' [(''value'', AText (case dj_category job of Some x \<Rightarrow> x | None \<Rightarrow> [])),
                (''disabled'', ABool downloading),
                (''onChange'', AInput (\<lambda>x. EditUrl i (\<lambda>j. j\<lparr>dj_category := Some x\<rparr>)))]
                (category_options t categories)]]))])"

subsection \<open>The dialog\<close>

text \<open>\<open>t(key, { n, s: n > 1 ? "s" : "" })\<close>.\<close>

definition counted :: "translator \<Rightarrow> string \<Rightarrow> nat \<Rightarrow> string" where
  "counted t key n = t key (Some [(''n'', VNat n), (''s'', VText (if 1 < n then ''s'' else []))])"

definition background_note :: "translator \<Rightarrow> ud_event node" where
  "background_note t = El ''p'' [] [El ''TriangleAlertIcon'' [] [], Txt (tx t ''uploadBackgroundNote'')]"

definition button :: "ud_event \<Rightarrow> bool \<Rightarrow> string \<Rightarrow> ud_event node" where
  "button e off label = El ''Button'' [(''onClick'', AEvent e), (''disabled'', ABool off)] [Txt label]"

definition upload_header ::
  "translator \<Rightarrow> upload_dialog \<Rightarrow> upload_job list \<Rightarrow> url_job list \<Rightarrow> ud_event node" where
  "upload_header t d jobs urlJobs =
     El ''DialogHeader'' []
       [El ''DialogTitle'' []
          ((if anyActive jobs urlJobs then [El ''Loader2Icon'' [] [], Txt (tx t ''uploadInProgressTitle'')]
            else [Txt (tx t ''uploadDialogTitle'')]) @
           show_if ((allDone jobs \<or> allUrlDone urlJobs) \<and> (jobs \<noteq> [] \<or> urlJobs \<noteq> []))
             (El ''CircleCheckIcon'' [] [])),
        El ''DialogDescription'' []
          [if anyActive jobs urlJobs
           then El ''span'' [] [El ''InfoIcon'' [] [], Txt (tx t ''uploadInProgressDesc'')]
           else Txt (if allDone jobs \<or> allUrlDone urlJobs then tx t ''uploadAllComplete''
              else if ud_tab d = ''computer'' then
                (if jobs = []
                 then t ''uploadOrClick'' (Some [(''max'', VText (formatBytes (Some (maxSize (ud_config d)))))])
                 else t ''uploadFilesSelected'' (Some [(''n'', VNat (length jobs))]))
              else tx t ''uploadUrlHint'')],
        El ''Button'' [(''onClick'', AEvent CloseAttempt), (''aria-label'', AText (tx t ''close''))]
          [El ''XIcon'' [] []]]"

text \<open>The tab of the computer and the tab of the URLs; a tab's content is there when it is selected.\<close>

definition computer_tab ::
  "translator \<Rightarrow> (string \<Rightarrow> bool) \<Rightarrow> upload_dialog \<Rightarrow> upload_job list \<Rightarrow> ud_event node list" where
  "computer_tab t expanded d jobs =
     show_if (jobs = []) (El ''div'' [(''role'', AText ''button''), (''aria-label'', AText (tx t ''uploadDragDrop'')),
         (''onDragOver'', AEvent DragOver), (''onDragLeave'', AEvent DragLeave), (''onClick'', AEvent PickFiles),
         (''onKeyDown'', AInput DropKey)]
       [El ''div'' [] [El ''UploadCloudIcon'' [] []],
        El ''div'' [] [El ''p'' [] [Txt (tx t ''uploadDragDrop'')],
          El ''p'' [] [Txt (t ''uploadOrClick''
            (Some [(''max'', VText (formatBytes (Some (maxSize (ud_config d)))))]))]]]) @
     [El ''input'' [(''type'', AText ''file''), (''multiple'', ABool True),
        (''accept'', AText ''video/*,.mkv,.webm,.m4v,.avi'')] []] @
     show_if (jobs \<noteq> []) (El ''div'' []
       (map (\<lambda>j. UploadJobCard t (ud_categories d) (expanded (uj_id j)) j) jobs @
        show_if (hasPending jobs) (button PickFiles False (tx t ''uploadAddMore''))))"

definition url_tab ::
  "translator \<Rightarrow> (string \<Rightarrow> bool) \<Rightarrow> upload_dialog \<Rightarrow> url_job list \<Rightarrow> ud_event node list" where
  "url_tab t expanded d urlJobs =
     [El ''Textarea'' [(''placeholder'', AText (tx t ''uploadUrlPlaceholder'')), (''value'', AText (ud_urlText d)),
        (''onChange'', AInput TypeUrls)] [],
      El ''p'' [] [El ''InfoIcon'' [] [], Txt (tx t ''uploadUrlRowHint'')]] @
     show_if (urlJobs \<noteq> []) (El ''div'' []
       (map (\<lambda>j. UrlDownloadCard t (ud_categories d) (expanded (dj_id j)) j) urlJobs)) @
     show_if (urlActive urlJobs) (background_note t)"

definition upload_body ::
  "translator \<Rightarrow> (string \<Rightarrow> bool) \<Rightarrow> upload_dialog \<Rightarrow> upload_job list \<Rightarrow> url_job list \<Rightarrow> ud_event node" where
  "upload_body t expanded d jobs urlJobs =
     (if \<not> showTabs jobs urlJobs then
        El ''div'' []
          (show_if (urlActive urlJobs) (background_note t) @
           map (\<lambda>j. UploadJobCard t (ud_categories d) (expanded (uj_id j)) j) jobs @
           map (\<lambda>j. UrlDownloadCard t (ud_categories d) (expanded (dj_id j)) j) urlJobs)
      else
        El ''div'' [] [El ''Tabs'' [(''value'', AText (ud_tab d))]
          [El ''TabsList'' []
             [El ''TabsTrigger'' [(''onClick'', AEvent (SelectTab ''computer''))]
                [El ''UploadCloudIcon'' [] [], Txt (tx t ''uploadTabComputer'')],
              El ''TabsTrigger'' [(''onClick'', AEvent (SelectTab ''url''))]
                [El ''DownloadIcon'' [] [], Txt (tx t ''uploadTabUrl'')]],
           El ''TabsContent'' [(''value'', AText (ud_tab d))]
             (if ud_tab d = ''computer'' then computer_tab t expanded d jobs
              else if ud_tab d = ''url'' then url_tab t expanded d urlJobs else [])]])"

definition upload_footer ::
  "translator \<Rightarrow> upload_dialog \<Rightarrow> upload_job list \<Rightarrow> url_job list \<Rightarrow> ud_event node" where
  "upload_footer t d jobs urlJobs = El ''DialogFooter'' []
     (if anyActive jobs urlJobs then
        [button AskCancelAll False (tx t ''uploadCancelAll''), button CloseAttempt False (tx t ''close''),
         El ''Button'' [(''disabled'', ABool True)] [El ''Loader2Icon'' [] [], Txt (tx t ''uploadPleaseWait'')]]
      else if ud_tab d = ''computer'' then
        (if jobs = [] \<or> allDone jobs then [button CloseAttempt False (tx t ''close'')]
         else [button CloseAttempt False (tx t ''cancel''),
               button StartFiles (activeCount jobs = 0) (counted t ''uploadStartN'' (activeCount jobs))])
      else if urlJobs = [] then
        [button CloseAttempt False (tx t ''close''),
         button CheckUrls (ud_checking d \<or> urlLines (ud_urlText d) = 0) (tx t ''uploadCheckUrls'')]
      else if allUrlDone urlJobs then [button CloseAttempt False (tx t ''close'')]
      else
        [button CloseAttempt False (tx t ''cancel''),
         button StartUrls (ud_starting d \<or> urlActive urlJobs)
           (if urlActive urlJobs then tx t ''uploadDownloading''
            else counted t ''uploadStartDownloadN'' (urlQueuedCount urlJobs))])"

definition UploadDialogContent ::
  "translator \<Rightarrow> (string \<Rightarrow> bool) \<Rightarrow> upload_world \<Rightarrow> ud_event node" where
  "UploadDialogContent t expanded w =
     (let d = uw_dialog w; jobs = us_jobs (uw_uploads w); urlJobs = ds_jobs (uw_urls w) in
      El ''div'' [] [upload_header t d jobs urlJobs, upload_body t expanded d jobs urlJobs,
        upload_footer t d jobs urlJobs])"

subsection \<open>What the dialog lets happen\<close>

lemma is_disabled_simps [simp]:
  "is_disabled []= False"
  "is_disabled ((''disabled'', ABool b) # as) = b"
  "k \<noteq> ''disabled'' \<Longrightarrow> is_disabled ((k, v) # as) = is_disabled as"
  by (simp_all add: is_disabled_def)

lemma job_card_events:
  "set (node_events (UploadJobCard t cs ex job)) =
     (if uj_status job \<noteq> UDone \<and> uj_status job \<noteq> UUploading
      then {ToggleCard (uj_id job), AskRemove job} else {})"
  by (auto simp: UploadJobCard_def category_options_def Let_def show_if_def o_def)

lemma url_card_events:
  "set (node_events (UrlDownloadCard t cs ex job)) =
     (if dj_status job \<noteq> DDone then {ToggleCard (dj_id job)} else {}) \<union>
     (if dj_status job = DQueued \<or> dj_status job = DFailed then {RemoveUrl (dj_id job)} else {})"
  by (auto simp: UrlDownloadCard_def category_options_def Let_def show_if_def o_def)

lemma header_events: "set (node_events (upload_header t d jobs urlJobs)) = {CloseAttempt}"
  by (auto simp: upload_header_def show_if_def)

lemma button_events: "node_events (button e off l) = (if off then [] else [e])"
  by (simp add: button_def)

lemmas dialog_events = header_events job_card_events url_card_events button_events

lemma body_events:
  "set (node_events (upload_body t ex d jobs urlJobs)) \<subseteq>
     {DragOver, DragLeave, PickFiles, SelectTab ''computer'', SelectTab ''url''} \<union>
     (\<Union>j\<in>set jobs. set (node_events (UploadJobCard t (ud_categories d) (ex (uj_id j)) j))) \<union>
     (\<Union>j\<in>set urlJobs. set (node_events (UrlDownloadCard t (ud_categories d) (ex (dj_id j)) j)))"
  by (auto simp: upload_body_def computer_tab_def url_tab_def background_note_def button_events show_if_def
      split: if_splits)

lemma footer_events:
  "set (node_events (upload_footer t d jobs urlJobs)) =
     {CloseAttempt} \<union>
     (if anyActive jobs urlJobs then {AskCancelAll}
      else if ud_tab d = ''computer'' then
        (if jobs \<noteq> [] \<and> \<not> allDone jobs \<and> activeCount jobs \<noteq> 0 then {StartFiles} else {})
      else if urlJobs = [] then
        (if \<not> ud_checking d \<and> urlLines (ud_urlText d) \<noteq> 0 then {CheckUrls} else {})
      else if \<not> allUrlDone urlJobs \<and> \<not> ud_starting d \<and> \<not> urlActive urlJobs then {StartUrls} else {})"
  by (auto simp: upload_footer_def button_events)

lemma content_events:
  "set (node_events (UploadDialogContent t ex w)) =
     {CloseAttempt} \<union>
     set (node_events (upload_body t ex (uw_dialog w) (us_jobs (uw_uploads w)) (ds_jobs (uw_urls w)))) \<union>
     set (node_events (upload_footer t (uw_dialog w) (us_jobs (uw_uploads w)) (ds_jobs (uw_urls w))))"
  by (simp add: UploadDialogContent_def Let_def header_events)

text \<open>C24: What a click in the dialog can do: uploads start only when something waits and
  nothing runs, downloads only when one is queued and none runs or starts, URLs are checked only
  when there are lines and no check runs; a card removes only a job that is neither done nor
  uploading, so that the question about stopping an upload is never asked; and everything
  is cancelled only while something runs.\<close>

theorem dialog_clicks_guarded:
  assumes "can_cause (UploadDialogContent t expanded w) e"
  shows "(e = StartFiles \<longrightarrow> list_ex waits (us_jobs (uw_uploads w)) \<and>
             \<not> anyActive (us_jobs (uw_uploads w)) (ds_jobs (uw_urls w))) \<and>
    (e = StartUrls \<longrightarrow> list_ex (\<lambda>j. dj_status j = DQueued) (ds_jobs (uw_urls w)) \<and>
       \<not> anyActive (us_jobs (uw_uploads w)) (ds_jobs (uw_urls w)) \<and> \<not> ud_starting (uw_dialog w)) \<and>
    (e = CheckUrls \<longrightarrow> \<not> ud_checking (uw_dialog w) \<and>
       check_request (split_on (CHR 0x0A) (ud_urlText (uw_dialog w))) \<noteq> None) \<and>
    (e = AskCancelAll \<longrightarrow> anyActive (us_jobs (uw_uploads w)) (ds_jobs (uw_urls w))) \<and>
    (\<forall>job. e = AskRemove job \<longrightarrow> askRemove t job w =
       (w\<lparr>uw_uploads := removeJob (uj_id job) (uw_uploads w)\<rparr>, []))"
proof -
  let ?J = "us_jobs (uw_uploads w)" and ?D = "ds_jobs (uw_urls w)" and ?d = "uw_dialog w"
  have e: "e = CloseAttempt \<or> e \<in> set (node_events (upload_body t expanded ?d ?J ?D)) \<or>
      e \<in> set (node_events (upload_footer t ?d ?J ?D))"
    using assms by (auto simp: can_cause_def content_events)
  have card: "uj_status job \<noteq> UUploading" if "e = AskRemove job" for job
    using e that body_events [of t expanded ?d ?J ?D]
    by (auto simp: footer_events job_card_events url_card_events split: if_splits)
  have foot: "e \<in> set (node_events (upload_footer t ?d ?J ?D))"
    if "e \<in> {StartFiles, StartUrls, CheckUrls, AskCancelAll}"
    using e that body_events [of t expanded ?d ?J ?D]
    by (auto simp: job_card_events url_card_events split: if_splits)
  have waits: "list_ex waits js" if "activeCount js \<noteq> 0" "\<not> anyActive js us" for js us
    using that by (auto simp: activeCount_def anyActive_def list_ex_iff filter_empty_conv)
  have queued: "list_ex (\<lambda>j. dj_status j = DQueued) us" if "us \<noteq> []" "\<not> allUrlDone us" "\<not> urlActive us" for us
    using that by (simp add: allUrlDone_def)
  show ?thesis
    using foot card waits queued
    by (auto simp: footer_events askRemove_def urlLines_def check_request_def Let_def split: if_splits)
qed

text \<open>A sample world: one waiting file, nothing else.\<close>

definition waiting_upload :: upload_job where
  "waiting_upload = \<lparr>uj_id = ''a'', uj_fileName = ''movie.mp4'', uj_fileSize = 10, uj_title = ''movie'',
     uj_description = [], uj_category = [], uj_progress = Fin 0, uj_status = UQueued, uj_error = None,
     uj_uploadUrl = None, uj_finishedAt = None\<rparr>"

definition sample_world :: upload_world where
  "sample_world =
     \<lparr>uw_uploads = \<lparr>us_jobs = [waiting_upload], us_lastCompletedAt = None, us_files = Map.empty,
        us_activeUploads = [], us_tus = [], us_nextHandle = 0, us_batchRunning = False, us_pc = BIdle,
        us_listeners = [], us_seen = Map.empty, us_ls = empty_storage, us_idb = empty_idb, us_nextUuid = 1\<rparr>,
      uw_urls = \<lparr>ds_jobs = [], ds_lastCompletedAt = None, ds_polling = False, ds_pc = DIdle,
        ds_inPollLoop = False, ds_waiters = [], ds_polls = [], ds_patches = [], ds_listeners = [],
        ds_seen = Map.empty, ds_ls = empty_storage, ds_nextUuid = 0\<rparr>,
      uw_dialog = new_upload_dialog\<rparr>"

theorem dialog_clicks_guarded_witness:
  "list_ex waits (us_jobs (uw_uploads sample_world)) \<and>
   \<not> anyActive (us_jobs (uw_uploads sample_world)) (ds_jobs (uw_urls sample_world))"
proof -
  have "can_cause (UploadDialogContent (\<lambda>k _. k) (\<lambda>_. False) sample_world) StartFiles"
    by (simp add: can_cause_def content_events footer_events sample_world_def new_upload_dialog_def
        anyActive_def urlActive_def allDone_def hasPending_def activeCount_def waits_def waiting_upload_def)
  from dialog_clicks_guarded [OF this] show ?thesis by simp
qed

text \<open>C25: Closing removes no job without a question.  The dialog closes at once exactly when a
  transfer is running or nothing selected is unstarted, and then keeps every job and the typed
  lines, so that with a running transfer unstarted files stay selected behind the closed
  dialog.  Otherwise nothing changes but a question, and its confirmation drops exactly the
  waiting uploads, the queued downloads and the typed lines, keeps every other job, and closes.\<close>

theorem close_keeps_or_asks:
  assumes "distinct (map uj_id (us_jobs (uw_uploads w)))" and "distinct (map dj_id (ds_jobs (uw_urls w)))"
  shows "(anyActive (us_jobs (uw_uploads w)) (ds_jobs (uw_urls w)) \<or> \<not> unstarted w \<longrightarrow>
      (\<exists>w'. handleCloseAttempt t w = (w', [CloseDlg]) \<and> us_jobs (uw_uploads w') = us_jobs (uw_uploads w) \<and>
         ds_jobs (uw_urls w') = ds_jobs (uw_urls w) \<and> uw_dialog w' = uw_dialog w)) \<and>
    (\<not> anyActive (us_jobs (uw_uploads w)) (ds_jobs (uw_urls w)) \<and> unstarted w \<longrightarrow>
      (\<exists>opts a w'. handleCloseAttempt t w = (w, [AskConfirm opts a]) \<and>
         run_confirmed a w = (w', [CloseDlg]) \<and>
         us_jobs (uw_uploads w') = filter (\<lambda>j. \<not> waits j) (us_jobs (uw_uploads w)) \<and>
         ds_jobs (uw_urls w') = filter (\<lambda>j. dj_status j \<noteq> DQueued) (ds_jobs (uw_urls w)) \<and>
         ud_urlText (uw_dialog w') = []))"
proof -
  have jobs: "us_jobs (clearUploadsCompleted s) = us_jobs s"
    "ds_jobs (clearUrlDownloadsCompleted u) = ds_jobs u" for s u
    by (simp_all add: clearUploadsCompleted_def clearUrlDownloadsCompleted_def)
  show ?thesis
    using uploads.fold_drop_where [OF assms(1), of waits]
      downloads.fold_drop_where [OF assms(2), of "\<lambda>j. dj_status j = DQueued"]
    by (auto simp: handleCloseAttempt_def closed_def discardPending_def jobs)
qed

theorem close_keeps_or_asks_witness:
  "\<exists>opts a w'. handleCloseAttempt (\<lambda>k _. k) sample_world = (sample_world, [AskConfirm opts a]) \<and>
     run_confirmed a sample_world = (w', [CloseDlg]) \<and> us_jobs (uw_uploads w') = []"
proof -
  have "distinct (map uj_id (us_jobs (uw_uploads sample_world)))"
    "distinct (map dj_id (ds_jobs (uw_urls sample_world)))" by (simp_all add: sample_world_def)
  note close_keeps_or_asks [OF this, of "\<lambda>k _. k"]
  moreover have "unstarted sample_world"
    "\<not> anyActive (us_jobs (uw_uploads sample_world)) (ds_jobs (uw_urls sample_world))"
    "filter (\<lambda>j. \<not> waits j) (us_jobs (uw_uploads sample_world)) = []"
    by (simp_all add: sample_world_def unstarted_def waits_def waiting_upload_def anyActive_def urlActive_def)
  ultimately show ?thesis by auto
qed

subsection \<open>Faults\<close>

text \<open>\<open>8 << 30\<close> is computed on 32 bits: before the configuration has arrived the limit shown is 0 B.\<close>

lemma default_limit_is_zero: "maxSize None = 0 \<and> formatBytes (Some (maxSize None)) = ''0 B''"
proof -
  have "maxSize None = 0" by (simp add: maxSize_def shl32_def push_bit_eq_mult)
  then show ?thesis by (simp add: formatBytes_def)
qed

text \<open>
  The confirmed cancellation deletes the entries its question has captured: an entry that the
  server has given out since stays there, and its download goes on.
\<close>

lemma late_entry_not_deleted:
  assumes "\<forall>j\<in>set asked_jobs. dj_entryId j \<noteq> Some i"
  shows "Request ''DELETE'' (''/api/entries/'' @ i) None \<notin> set (snd (run_confirmed (CancelAll asked_jobs) w))"
  using assms by (auto simp: cancel_all_def entry_deletions_def split: option.splits list.splits)

end
