(* ===== verification/AppSidebar.thy ===== *)
theory AppSidebar
  imports UploadStore UrlStore Web Format Auth
begin

text \<open>
  The sidebar of the admin pages, \<open>web/components/app-sidebar.tsx\<close>: the navigation, the user's
  menu, the card of the running uploads and the card of the storage; and the component that
  announces finished uploads, \<open>web/components/upload-notifications.tsx\<close>.
\<close>

subsection \<open>Navigation and menu\<close>

datatype sidebar_event =
    ChangePassword | SetTheme theme | SetLocale string | AskLogout | OpenUpload | DoLogout

definition navGroups :: "translator \<Rightarrow> (string \<times> (string \<times> string \<times> string) list) list" where
  "navGroups t =
     [(tx t ''navMedia'',
        [(tx t ''navDashboard'', ''/admin/dashboard'', ''LayoutDashboardIcon''),
         (tx t ''navEntries'', ''/admin/entries'', ''FilmIcon''),
         (tx t ''navCategories'', ''/admin/categories'', ''FolderTreeIcon'')]),
      (tx t ''navAdministration'',
        [(tx t ''navUsers'', ''/admin/users'', ''UsersIcon''),
         (tx t ''navViewers'', ''/admin/viewers'', ''UserRoundIcon''),
         (tx t ''navJobs'', ''/admin/jobs'', ''ListChecksIcon''),
         (tx t ''navAnalytics'', ''/admin/analytics'', ''BarChartIcon''),
         (tx t ''navFlavors'', ''/admin/flavors'', ''SlidersHorizontalIcon''),
         (tx t ''navDomainAcls'', ''/admin/domain-acls'', ''ShieldIcon''),
         (tx t ''navPlayers'', ''/admin/players'', ''MonitorPlayIcon''),
         (tx t ''navStorage'', ''/admin/storage'', ''DatabaseIcon''),
         (tx t ''navSettings'', ''/admin/settings'', ''SettingsIcon'')])]"

text \<open>\<open>handleLogout\<close> after its request, and the question before it.\<close>

definition handleLogout :: "bool \<Rightarrow> auth \<Rightarrow> auth \<times> sidebar_event web_effect list" where
  "handleLogout ok a = (logout_answer ok a, [GoTo ''/admin/login''])"

definition askLogout :: "translator \<Rightarrow> sidebar_event web_effect" where
  "askLogout t = AskConfirm (ask (tx t ''signOutTitle'') (tx t ''signOutDesc'') (tx t ''signOut'')
     (tx t ''cancel'') None) DoLogout"

definition user_name :: "user \<Rightarrow> string" where
  "user_name u = displayName (ur_nameSurname u) (ur_email u)"

fun role_text :: "role \<Rightarrow> string" where
  "role_text Admin = ''admin''"
| "role_text Editor = ''editor''"
| "role_text Uploader = ''uploader''"
| "role_text Viewing = ''viewer''"

definition initials :: "user option \<Rightarrow> string" where
  "initials u =
     (case u of
        Some v \<Rightarrow> js_upper (if take 2 (user_name v) \<noteq> [] then take 2 (user_name v) else take 2 (ur_email v))
      | None \<Rightarrow> [])"

definition nav_item :: "string \<Rightarrow> string \<times> string \<times> string \<Rightarrow> sidebar_event node" where
  "nav_item pathname item =
     (case item of (title, url, icon) \<Rightarrow>
        El ''SidebarMenuItem'' [] [El ''SidebarMenuButton''
          [(''isActive'', ABool (pathname = url)), (''href'', AText url)]
          [El icon [] [], El ''span'' [] [Txt title]]])"

definition nav_group ::
  "string \<Rightarrow> string \<times> (string \<times> string \<times> string) list \<Rightarrow> sidebar_event node" where
  "nav_group pathname g =
     El ''SidebarGroup'' [] [El ''SidebarGroupLabel'' [] [Txt (fst g)],
       El ''SidebarMenu'' [] (map (nav_item pathname) (snd g))]"

definition user_avatar :: "user \<Rightarrow> sidebar_event node" where
  "user_avatar u = El ''Avatar'' [] [El ''AvatarFallback'' [] [Txt (initials (Some u))]]"

definition theme_menu :: "translator \<Rightarrow> theme \<Rightarrow> sidebar_event node" where
  "theme_menu t th =
     El ''DropdownMenuSub'' []
       [El ''DropdownMenuSubTrigger'' []
          [El (if th = Dark then ''MoonIcon'' else ''SunIcon'') [] [], Txt (tx t ''appearance'')],
        El ''DropdownMenuRadioGroup'' [(''value'', AText (theme_name th))]
          [El ''DropdownMenuRadioItem'' [(''value'', AText ''light''), (''onClick'', AEvent (SetTheme Light))]
             [El ''SunIcon'' [] [], Txt (tx t ''lightMode'')],
           El ''DropdownMenuRadioItem'' [(''value'', AText ''dark''), (''onClick'', AEvent (SetTheme Dark))]
             [El ''MoonIcon'' [] [], Txt (tx t ''darkMode'')]]]"

definition locale_menu :: "translator \<Rightarrow> string \<Rightarrow> sidebar_event node" where
  "locale_menu t locale =
     El ''DropdownMenuSub'' []
       [El ''DropdownMenuSubTrigger'' [] [El ''LanguagesIcon'' [] [], Txt (tx t ''langLabel'')],
        El ''DropdownMenuRadioGroup'' [(''value'', AText locale)]
          (map (\<lambda>l. El ''DropdownMenuRadioItem'' [(''value'', AText l), (''onClick'', AEvent (SetLocale l))]
             [El ''span'' [] [Txt l], El ''span'' [] [Txt (if l = ''en'' then tx t ''langEnglish'' else l)]])
           supported_locales)]"

definition user_menu :: "translator \<Rightarrow> theme \<Rightarrow> string \<Rightarrow> user \<Rightarrow> sidebar_event node" where
  "user_menu t th locale u =
     El ''DropdownMenu'' []
       [El ''button'' [(''type'', AText ''button'')]
          [user_avatar u, El ''span'' [] [Txt (user_name u)], El ''span'' [] [Txt (role_text (ur_role u))],
           El ''ChevronsUpDownIcon'' [] []],
        El ''DropdownMenuContent'' []
          [El ''DropdownMenuLabel'' [] [user_avatar u, El ''span'' [] [Txt (user_name u)],
             El ''span'' [] [Txt (ur_email u @ '' '' @ [CHR 0xB7] @ '' '' @ role_text (ur_role u))]],
           El ''DropdownMenuSeparator'' [] [],
           El ''DropdownMenuItem'' [(''onClick'', AEvent ChangePassword)]
             [El ''KeyRoundIcon'' [] [], Txt (tx t ''changePassword'')],
           theme_menu t th, locale_menu t locale,
           El ''DropdownMenuSeparator'' [] [],
           El ''DropdownMenuItem'' [(''onClick'', AEvent AskLogout)]
             [El ''LogOutIcon'' [] [], Txt (tx t ''signOut'')]]]"

subsection \<open>The card of the running uploads\<close>

definition upload_runs :: "upload_job \<Rightarrow> bool" where
  "upload_runs j \<longleftrightarrow> uj_status j = UUploading \<or> uj_status j = UQueued \<or> uj_status j = UInterrupted"

definition url_runs :: "url_job \<Rightarrow> bool" where
  "url_runs j \<longleftrightarrow> dj_status j = DDownloading \<or> dj_status j = DQueued \<or> dj_status j = DChecking"

definition running_total :: "upload_job list \<Rightarrow> url_job list \<Rightarrow> nat" where
  "running_total jobs urlJobs = length (filter upload_runs jobs) + length (filter url_runs urlJobs)"

definition ring_percent :: "upload_job list \<Rightarrow> url_job list \<Rightarrow> jnum" where
  "ring_percent jobs urlJobs =
     (let total = fold (\<lambda>j acc. jadd acc (num_or_zero (uj_progress j))) (filter upload_runs jobs) (Fin 0)
      in jround (jdiv total (num_of_nat (max 1 (running_total jobs urlJobs)))))"

definition urlUnknown :: "url_job list \<Rightarrow> bool" where
  "urlUnknown urlJobs \<longleftrightarrow> list_ex (\<lambda>j. jless (dj_progress j) (Fin 0)) (filter url_runs urlJobs)"

text \<open>The ring is drawn as an arc of the percentage, or as a spinner.\<close>

definition ProgressRing :: "jnum \<Rightarrow> bool \<Rightarrow> 'e node" where
  "ProgressRing pct indeterminate =
     El ''div'' []
       (El ''svg'' [] (El ''circle'' [] [] #
          show_if (\<not> indeterminate)
            (El ''circle'' [(''strokeDashoffset'', ANum (jsub (Fin 1) (jdiv pct (Fin 100))))] [])) #
        show_if indeterminate (El ''Loader2Icon'' [] []))"

definition UploadProgressCard ::
  "translator \<Rightarrow> upload_job list \<Rightarrow> url_job list \<Rightarrow> sidebar_event node list" where
  "UploadProgressCard t jobs urlJobs =
     (let total = running_total jobs urlJobs; pct = ring_percent jobs urlJobs in
      if total = 0 then []
      else [El ''button'' [(''type'', AText ''button''), (''onClick'', AEvent OpenUpload)]
        [ProgressRing pct (urlUnknown urlJobs),
         El ''div'' []
           [El ''p'' [] [Txt (t ''uploadsInProgress''
              (Some [(''n'', VNat total), (''s'', VText (if 1 < total then ''s'' else []))]))],
            El ''p'' [] [Txt (if filter upload_runs jobs \<noteq> [] then num_text pct @ ''%''
              else if filter url_runs urlJobs \<noteq> [] then tx t ''uploadDownloading'' else [])]]]])"

subsection \<open>The card of the storage\<close>

definition storage_percent :: "storage_usage \<Rightarrow> jnum" where
  "storage_percent d =
     jround (jmul (jdiv (num_of_nat (su_usedBytes d)) (num_of_nat (su_totalBytes d))) (Fin 100))"

definition StorageUsageCard :: "translator \<Rightarrow> storage_usage option \<Rightarrow> sidebar_event node list" where
  "StorageUsageCard t data =
     (case data of
        None \<Rightarrow> []
      | Some d \<Rightarrow>
          let head = El ''div'' [] [El ''span'' [] [Txt (tx t ''navStorage'')],
                El ''span'' [] [Txt (formatBytes (Some (su_usedBytes d)))]] in
          if su_totalBytes d \<le> 0 then
            [El ''div'' [] [head,
               El ''p'' [] [Txt (t ''storageObjects'' (Some [(''n'', VNat (su_objectCount d))]))]]]
          else
            [El ''div'' [] [head, El ''Progress'' [(''value'', ANum (storage_percent d))] [],
               El ''p'' [] [Txt (t ''storageUsageLine''
                 (Some [(''pct'', VText (num_text (storage_percent d))),
                        (''total'', VText (formatBytes (Some (su_totalBytes d)))),
                        (''free'', VText (formatBytes (Some (su_freeBytes d))))]))]]])"

definition AppSidebar ::
  "translator \<Rightarrow> string \<Rightarrow> string \<Rightarrow> string \<Rightarrow> theme \<Rightarrow> string \<Rightarrow> user option \<Rightarrow> upload_job list \<Rightarrow>
   url_job list \<Rightarrow> storage_usage option \<Rightarrow> sidebar_event node" where
  "AppSidebar t pathname siteName appVersion th locale u jobs urlJobs usage =
     El ''Sidebar'' []
       ([El ''SidebarHeader'' [] [El ''SidebarMenuButton'' [(''href'', AText ''/admin/dashboard'')]
           [El ''ClapperboardIcon'' [] [], El ''span'' [] [Txt siteName], El ''span'' [] [Txt appVersion]]],
         El ''SidebarContent'' [] (map (nav_group pathname) (navGroups t))] @
        (case u of
           Some v \<Rightarrow> [El ''SidebarFooter'' [] (UploadProgressCard t jobs urlJobs @ StorageUsageCard t usage @
             [user_menu t th locale v])]
         | None \<Rightarrow> []))"

subsection \<open>Announcing finished uploads\<close>

text \<open>
  The refs of \<open>UploadNotifications\<close> and its two effects.  An effect runs when its dependencies
  have changed; running one again on the same lists does nothing, so here both run
  on every render.
\<close>

record notifier =
  nt_doneIds :: "string list"
  nt_seeded :: bool
  nt_wasActive :: bool

definition new_notifier :: notifier where
  "new_notifier = \<lparr>nt_doneIds = [], nt_seeded = False, nt_wasActive = False\<rparr>"

definition isCurrentlyActive :: "upload_job list \<Rightarrow> url_job list \<Rightarrow> bool" where
  "isCurrentlyActive jobs urlJobs \<longleftrightarrow> filter upload_runs jobs \<noteq> [] \<or> filter url_runs urlJobs \<noteq> []"

definition watch_active ::
  "translator \<Rightarrow> upload_job list \<Rightarrow> url_job list \<Rightarrow> notifier \<Rightarrow> notifier \<times> sidebar_event web_effect list" where
  "watch_active t jobs urlJobs n =
     (if isCurrentlyActive jobs urlJobs then (n\<lparr>nt_wasActive := True\<rparr>, [])
      else if nt_wasActive n \<and> (jobs \<noteq> [] \<or> urlJobs \<noteq> [])
      then (n\<lparr>nt_wasActive := False\<rparr>, [Toast ToastSuccess (tx t ''uploadAllComplete''), RouterRefresh])
      else (n, []))"

fun announce ::
  "upload_job list \<Rightarrow> notifier \<Rightarrow> notifier \<times> sidebar_event web_effect list" where
  "announce [] n = (n, [])"
| "announce (j # js) n =
     (if uj_status j = UDone \<and> uj_id j \<notin> set (nt_doneIds n)
      then (case announce js (n\<lparr>nt_doneIds := uj_id j # nt_doneIds n\<rparr>) of (n', es) \<Rightarrow> (n', RouterRefresh # es))
      else announce js n)"

definition watch_done :: "upload_job list \<Rightarrow> notifier \<Rightarrow> notifier \<times> sidebar_event web_effect list" where
  "watch_done jobs n =
     (if \<not> nt_seeded n
      then (n\<lparr>nt_seeded := True,
              nt_doneIds := nt_doneIds n @ map uj_id (filter (\<lambda>j. uj_status j = UDone) jobs)\<rparr>, [])
      else announce jobs n)"

subsection \<open>The notifier over a sequence of renders\<close>

definition render_step ::
  "translator \<Rightarrow> upload_job list \<times> url_job list \<Rightarrow> notifier \<Rightarrow> notifier \<times> sidebar_event web_effect list" where
  "render_step t r n =
     (case watch_active t (fst r) (snd r) n of (n1, es1) \<Rightarrow>
        case watch_done (fst r) n1 of (n2, es2) \<Rightarrow> (n2, es1 @ es2))"

fun render_run ::
  "translator \<Rightarrow> (upload_job list \<times> url_job list) list \<Rightarrow> notifier \<Rightarrow> notifier \<times> sidebar_event web_effect list" where
  "render_run t [] n = (n, [])"
| "render_run t (r # rs) n =
     (case render_step t r n of (n1, es1) \<Rightarrow>
        case render_run t rs n1 of (n2, es2) \<Rightarrow> (n2, es1 @ es2))"

fun is_toast :: "sidebar_event web_effect \<Rightarrow> bool" where
  "is_toast (Toast ty m) = True"
| "is_toast _ = False"

fun is_refresh :: "sidebar_event web_effect \<Rightarrow> bool" where
  "is_refresh RouterRefresh = True"
| "is_refresh _ = False"

abbreviation toasts :: "sidebar_event web_effect list \<Rightarrow> nat" where
  "toasts es \<equiv> length (filter is_toast es)"

abbreviation refreshes :: "sidebar_event web_effect list \<Rightarrow> nat" where
  "refreshes es \<equiv> length (filter is_refresh es)"

definition done_ids :: "upload_job list \<Rightarrow> string set" where
  "done_ids jobs = uj_id ` {j \<in> set jobs. uj_status j = UDone}"

lemma done_ids_simps [simp]:
  "done_ids [] = {}"
  "done_ids (j # js) = (if uj_status j = UDone then insert (uj_id j) (done_ids js) else done_ids js)"
  by (auto simp: done_ids_def)

lemma announce_counts:
  assumes "distinct (nt_doneIds n)" and "announce jobs n = (n', es)"
  shows "distinct (nt_doneIds n') \<and> set (nt_doneIds n') = set (nt_doneIds n) \<union> done_ids jobs \<and>
    nt_seeded n' = nt_seeded n \<and> nt_wasActive n' = nt_wasActive n \<and> toasts es = 0 \<and>
    length (nt_doneIds n') = length (nt_doneIds n) + refreshes es"
  using assms
proof (induction jobs n arbitrary: es rule: announce.induct)
  case (1 n)
  then show ?case by simp
next
  case (2 j js n)
  show ?case
  proof (cases "uj_status j = UDone \<and> uj_id j \<notin> set (nt_doneIds n)")
    case True
    let ?m = "n\<lparr>nt_doneIds := uj_id j # nt_doneIds n\<rparr>"
    obtain es' where a: "announce js ?m = (n', es')" "es = RouterRefresh # es'"
      using True "2.prems"(2) by (auto split: prod.splits)
    have "distinct (nt_doneIds ?m)" using True "2.prems"(1) by simp
    from "2.IH"(1) [OF True this a(1)] show ?thesis using True a(2) by auto
  next
    case False
    from "2.IH"(2) [OF False "2.prems"(1)] "2.prems"(2) False show ?thesis by (auto split: if_splits)
  qed
qed

lemma watch_active_frame:
  "nt_doneIds (fst (watch_active t js us n)) = nt_doneIds n"
  "nt_seeded (fst (watch_active t js us n)) = nt_seeded n"
  by (simp_all add: watch_active_def)

lemma render_step_ids:
  assumes "distinct (nt_doneIds n)" and "nt_seeded n" and "render_step t r n = (n', es)"
  shows "distinct (nt_doneIds n') \<and> nt_seeded n' \<and>
    set (nt_doneIds n') = set (nt_doneIds n) \<union> done_ids (fst r) \<and>
    refreshes es = toasts es + (length (nt_doneIds n') - length (nt_doneIds n)) \<and>
    length (nt_doneIds n) \<le> length (nt_doneIds n')"
proof -
  obtain n1 es1 where a: "watch_active t (fst r) (snd r) n = (n1, es1)" by fastforce
  obtain n2 es2 where b: "announce (fst r) n1 = (n2, es2)" by fastforce
  have f: "nt_doneIds n1 = nt_doneIds n" "nt_seeded n1"
    using watch_active_frame [of t "fst r" "snd r" n] a assms(2) by auto
  have e: "n' = n2" "es = es1 @ es2"
    using assms(3) a b f by (auto simp: render_step_def watch_done_def)
  have "refreshes es1 = toasts es1" using a by (auto simp: watch_active_def split: if_splits)
  moreover have "distinct (nt_doneIds n1)" using assms(1) f by simp
  ultimately show ?thesis using announce_counts [OF _ b] e f by auto
qed

lemma render_run_ids:
  assumes "distinct (nt_doneIds n)" and "nt_seeded n" and "render_run t rs n = (n', es)"
  shows "set (nt_doneIds n') = set (nt_doneIds n) \<union> (\<Union>r\<in>set rs. done_ids (fst r)) \<and>
    distinct (nt_doneIds n') \<and>
    refreshes es + length (nt_doneIds n) = toasts es + length (nt_doneIds n')"
  using assms
proof (induction rs arbitrary: n es)
  case (Cons r rs)
  obtain n1 es1 where a: "render_step t r n = (n1, es1)" by fastforce
  obtain es2 where b: "render_run t rs n1 = (n', es2)" "es = es1 @ es2"
    using Cons.prems(3) a by (auto split: prod.splits)
  note s = render_step_ids [OF Cons.prems(1,2) a]
  from Cons.IH [OF _ _ b(1)] s b(2) show ?case by auto
qed simp

text \<open>C26: Each upload that becomes done while the admin pages are open is announced, by
  \<open>router.refresh\<close>, exactly once: the list of the page is refreshed once for every job that is
  done in some later render and was not done in the first, plus once with every toast; the
  jobs that were already done in the first render are never announced (on hydration that
  render has the empty list of the server).\<close>

theorem done_announced_once:
  assumes "distinct (map uj_id (filter (\<lambda>j. uj_status j = UDone) jobs0))"
    and "render_run t ((jobs0, urls0) # rs) new_notifier = (n, es)"
  shows "refreshes es = toasts es + card ((\<Union>r\<in>set rs. done_ids (fst r)) - done_ids jobs0)"
proof -
  obtain n1 es1 where a: "render_step t (jobs0, urls0) new_notifier = (n1, es1)" by fastforce
  obtain es2 where b: "render_run t rs n1 = (n, es2)" "es = es1 @ es2"
    using assms(2) a by (auto split: prod.splits)
  have first: "nt_seeded n1" "nt_doneIds n1 = map uj_id (filter (\<lambda>j. uj_status j = UDone) jobs0)" "es1 = []"
    using a by (auto simp: render_step_def watch_done_def watch_active_def new_notifier_def split: if_splits)
  have d: "distinct (nt_doneIds n1)" and s: "set (nt_doneIds n1) = done_ids jobs0"
    using assms(1) by (auto simp: first done_ids_def)
  note run = render_run_ids [OF d first(1) b(1)]
  let ?U = "\<Union>r\<in>set rs. done_ids (fst r)"
  have "length (nt_doneIds n) = card (done_ids jobs0 \<union> ?U)"
    using run s distinct_card [of "nt_doneIds n"] by simp
  moreover have "length (nt_doneIds n1) = card (done_ids jobs0)"
    using d s distinct_card [of "nt_doneIds n1"] by simp
  moreover have "card (done_ids jobs0 \<union> ?U) = card (done_ids jobs0) + card (?U - done_ids jobs0)"
  proof -
    have "done_ids jobs0 \<union> ?U = done_ids jobs0 \<union> (?U - done_ids jobs0)" by auto
    moreover have "finite (done_ids jobs0)" "finite ?U" by (auto simp: done_ids_def)
    ultimately show ?thesis by (metis card_Un_disjoint Diff_disjoint finite_Diff)
  qed
  ultimately show ?thesis using run first b(2) by simp
qed

definition job_with :: "string \<Rightarrow> upload_status \<Rightarrow> upload_job" where
  "job_with i st = \<lparr>uj_id = i, uj_fileName = i, uj_fileSize = 1, uj_title = i, uj_description = [],
     uj_category = [], uj_progress = Fin 0, uj_status = st, uj_error = None, uj_uploadUrl = None,
     uj_finishedAt = None\<rparr>"

theorem done_announced_once_witness:
  "refreshes (snd (render_run (\<lambda>k _. k)
     [([job_with ''a'' UDone, job_with ''b'' UUploading], []), ([job_with ''a'' UDone, job_with ''b'' UDone], [])]
     new_notifier)) = 2"
proof -
  let ?rs = "[([job_with ''a'' UDone, job_with ''b'' UDone], [])]"
  let ?r0 = "([job_with ''a'' UDone, job_with ''b'' UUploading], [])"
  obtain n es where r: "render_run (\<lambda>k _. k) (?r0 # ?rs) new_notifier = (n, es)" by fastforce
  have u: "(\<Union>r\<in>set ?rs. done_ids (fst r)) - done_ids (fst ?r0) = {''b''}"
    by (auto simp: job_with_def)
  have "toasts es = 1"
    using r by (auto simp: render_step_def watch_active_def watch_done_def new_notifier_def job_with_def
        isCurrentlyActive_def upload_runs_def)
  moreover have "refreshes es = toasts es + card ((\<Union>r\<in>set ?rs. done_ids (fst r)) - done_ids (fst ?r0))"
    using done_announced_once [OF _ r] by (simp add: job_with_def)
  ultimately show ?thesis using r u by simp
qed

text \<open>The toast says that all uploads are complete also when every one of them has failed.\<close>

lemma failed_uploads_reported_complete:
  "snd (render_run (\<lambda>k _. k) [([job_with ''a'' UUploading], []), ([job_with ''a'' UFailed], [])] new_notifier) =
     [Toast ToastSuccess ''uploadAllComplete'', RouterRefresh]"
  by (simp add: render_step_def watch_active_def watch_done_def new_notifier_def job_with_def
      isCurrentlyActive_def upload_runs_def)

subsection \<open>The ring\<close>

lemma ring_sum:
  assumes "\<forall>j\<in>set js. \<exists>q. uj_progress j = Fin q \<and> 0 \<le> q \<and> q \<le> 100" and "0 \<le> a"
  shows "\<exists>q. fold (\<lambda>j acc. jadd acc (num_or_zero (uj_progress j))) js (Fin a) = Fin q \<and>
    a \<le> q \<and> q \<le> a + 100 * of_nat (length js)"
  using assms
proof (induction js arbitrary: a)
  case (Cons j js)
  then obtain q where q: "uj_progress j = Fin q" "0 \<le> q" "q \<le> 100" by auto
  from Cons.IH [of "a + q"] Cons.prems q
  obtain r where "fold (\<lambda>j acc. jadd acc (num_or_zero (uj_progress j))) js (Fin (a + q)) = Fin r"
    "a + q \<le> r" "r \<le> a + q + 100 * of_nat (length js)" by auto
  then show ?case using q by (auto simp: algebra_simps intro!: exI [of _ r])
qed simp

text \<open>The ring of the sidebar shows a whole percentage from 0 to 100, which is at most the
  share of the uploads among the running jobs: while a download of a URL runs it never reaches 100.\<close>

theorem ring_percentage_bounds:
  assumes "\<forall>j\<in>set jobs. \<exists>q. uj_progress j = Fin q \<and> 0 \<le> q \<and> q \<le> 100"
  shows "\<exists>p. ring_percent jobs urlJobs = num_of_int p \<and> 0 \<le> p \<and>
    p \<le> \<lfloor>100 * of_nat (length (filter upload_runs jobs)) / of_nat (max 1 (running_total jobs urlJobs)) + (1 / 2 :: rat)\<rfloor> \<and>
    p \<le> 100"
proof -
  let ?A = "filter upload_runs jobs" and ?n = "max 1 (running_total jobs urlJobs)"
  obtain q where q: "fold (\<lambda>j acc. jadd acc (num_or_zero (uj_progress j))) ?A (Fin 0) = Fin q"
    "0 \<le> q" "q \<le> 100 * of_nat (length ?A)"
    using ring_sum [of ?A 0] assms by auto
  have n: "0 < (of_nat ?n :: rat)" by simp
  have share: "q / of_nat ?n \<le> 100 * of_nat (length ?A) / of_nat ?n"
    using q(3) n by (intro divide_right_mono) auto
  have "length ?A \<le> ?n" by (simp add: running_total_def max_def)
  then have "(of_nat (length ?A) :: rat) \<le> of_nat ?n" by (simp only: of_nat_le_iff)
  then have hundred: "100 * of_nat (length ?A) / of_nat ?n \<le> (100 :: rat)"
    using n by (simp add: divide_le_eq)
  have "ring_percent jobs urlJobs = num_of_int \<lfloor>q / of_nat ?n + 1 / 2\<rfloor>"
    using q(1) n by (simp add: ring_percent_def)
  moreover have "0 \<le> \<lfloor>q / of_nat ?n + 1 / 2\<rfloor>" using q(2) n by simp
  moreover have "\<lfloor>q / of_nat ?n + 1 / 2\<rfloor> \<le>
      \<lfloor>100 * of_nat (length ?A) / of_nat ?n + (1 / 2 :: rat)\<rfloor>"
    using share by (intro floor_mono) simp
  moreover have "\<lfloor>q / of_nat ?n + 1 / 2\<rfloor> \<le> 100" using share hundred by linarith
  ultimately show ?thesis by blast
qed

theorem ring_percentage_bounds_witness:
  "\<exists>p. ring_percent [job_with ''a'' UUploading] [] = num_of_int p \<and> 0 \<le> p \<and> p \<le> 100"
proof -
  have "\<forall>j\<in>set [job_with ''a'' UUploading]. \<exists>q. uj_progress j = Fin q \<and> 0 \<le> q \<and> q \<le> 100"
    by (simp add: job_with_def)
  from ring_percentage_bounds [OF this, of "[]"] show ?thesis by blast
qed

end
