(* ===== verification/PlayerView.thy ===== *)
theory PlayerView
  imports Player Web
begin

text \<open>
  What the player renders, and its events put together: the handlers of \<open>Player\<close> as one step
  function, and the elements with their handlers.  Drawings are left out; the sprite of the
  seek bar's preview is its position.
\<close>

subsection \<open>Events\<close>

datatype player_event =
    TogglePlay | ToggleMute | ToggleFullscreen | TogglePip
  | SlideVolume jnum | ChooseQuality int | ChooseSubtitle string | ChooseRate jnum
  | MediaFailed | Waiting | CanPlay | FsChange bool
  | BarClick jnum jnum | LogoClick

text \<open>
  One event of a control at the media element \<open>v\<close>.  Choosing a subtitle also runs the effect
  that sets the tracks' modes; a click on the bar is \<open>seekFromEvent\<close> once more; the logo without
  a link keeps the browser where it is.
\<close>

fun player_step ::
  "translator \<Rightarrow> props \<Rightarrow> bool \<Rightarrow> bool \<Rightarrow> bool \<Rightarrow> video \<Rightarrow> player_event \<Rightarrow> player_state \<Rightarrow>
   player_state \<times> command list" where
  "player_step t pr hls isFs inPip v TogglePlay s = (s, togglePlay v)"
| "player_step t pr hls isFs inPip v ToggleMute s = (s, toggleMute v)"
| "player_step t pr hls isFs inPip v ToggleFullscreen s = (s, toggleFullscreen isFs)"
| "player_step t pr hls isFs inPip v TogglePip s = (s, togglePictureInPicture inPip)"
| "player_step t pr hls isFs inPip v (SlideVolume x) s = (s, slide_volume x)"
| "player_step t pr hls isFs inPip v (ChooseQuality i) s = setQuality hls i s"
| "player_step t pr hls isFs inPip v (ChooseSubtitle l) s = (s\<lparr>p_subtitle := l\<rparr>, applySubtitleTrack v l)"
| "player_step t pr hls isFs inPip v (ChooseRate r) s = setPlaybackRate r s"
| "player_step t pr hls isFs inPip v MediaFailed s = (s\<lparr>p_error := Some (tx t ''playerError'')\<rparr>, [])"
| "player_step t pr hls isFs inPip v Waiting s = (s\<lparr>p_buffering := True\<rparr>, [])"
| "player_step t pr hls isFs inPip v CanPlay s = (s\<lparr>p_buffering := False\<rparr>, [])"
| "player_step t pr hls isFs inPip v (FsChange b) s = (s\<lparr>p_fullscreen := b\<rparr>, [])"
| "player_step t pr hls isFs inPip v (BarClick x w) s = seekFromEvent x w s"
| "player_step t pr hls isFs inPip v LogoClick s =
     (s, case pc_logoHref (branding pr) of Some (c # h) \<Rightarrow> [] | _ \<Rightarrow> [PreventDefault])"

subsection \<open>The picture\<close>

definition player_logo :: "props \<Rightarrow> player_event node list" where
  "player_logo pr =
     (let b = branding pr in
      case pc_logoUrl b of
        Some (c # u) \<Rightarrow>
          [El ''a'' ((case pc_logoHref b of
                Some (d # h) \<Rightarrow> [(''href'', AText (d # h)), (''target'', AText ''_blank'')] | _ \<Rightarrow> []) @
              [(''onClick'', AEvent LogoClick), (''className'', AText (logoPositionClass pr)),
               (''width'', ANum (case pc_logoSize b of Some n \<Rightarrow> n | None \<Rightarrow> Fin 64)),
               (''height'', ANum (case pc_logoSize b of Some n \<Rightarrow> n | None \<Rightarrow> Fin 64)),
               (''opacity'', ANum (case pc_logoOpacity b of Some n \<Rightarrow> n | None \<Rightarrow> Fin (4 / 5)))])
             [El ''img'' [(''src'', AText (c # u)), (''alt'', AText [])] []]]
      | _ \<Rightarrow> [])"

definition has_error :: "player_state \<Rightarrow> bool" where
  "has_error s \<longleftrightarrow> (case p_error s of Some (c # e) \<Rightarrow> True | _ \<Rightarrow> False)"

definition picture :: "translator \<Rightarrow> props \<Rightarrow> player_state \<Rightarrow> player_event node list" where
  "picture t pr s =
     [El ''video'' ((case pi_poster (pp_info pr) of Some p \<Rightarrow> [(''poster'', AText p)] | None \<Rightarrow> []) @
        [(''muted'', ABool (p_muted s)), (''loop'', ABool (pp_loop pr)), (''onError'', AEvent MediaFailed)]) []] @
     map (\<lambda>x. El ''track'' [(''kind'', AText ''subtitles''), (''srcLang'', AText (ps_lang x)),
        (''label'', AText (ps_label x)), (''src'', AText (ps_url x))] []) (pi_subtitles (pp_info pr)) @
     player_logo pr @
     show_if (p_buffering s \<and> showLoader pr \<and> \<not> has_error s) (El ''div'' [(''role'', AText ''status'')]
        [El ''div'' [(''borderTopColor'', AText (accent pr))] []]) @
     (case p_error s of Some (c # e) \<Rightarrow> [El ''div'' [] [Txt (c # e)]] | _ \<Rightarrow> []) @
     show_if (\<not> p_playing s \<and> \<not> has_error s)
       (El ''button'' [(''onClick'', AEvent TogglePlay), (''aria-label'', AText (tx t ''playerPlay''))]
          [El ''div'' [(''backgroundColor'', AText (accent pr))] [El ''svg'' [] []]])"

subsection \<open>The seek bar\<close>

text \<open>\<open>Math.round(x)\<close> of the slider's value, \<open>Math.max(1, Math.round(duration))\<close> of its end.\<close>

definition scrub_preview :: "props \<Rightarrow> player_state \<Rightarrow> player_event node list" where
  "scrub_preview pr s =
     (case (scrubTime s, scrubFrame pr s, pi_sprite (pp_info pr), scrubAt s) of
        (Some tm, Some (Fin f), Some (c # u), Some x) \<Rightarrow>
          let n = pi_spriteFrames (pp_info pr); pos = scrubPosition n (nat \<lfloor>f\<rfloor>) in
          [El ''div'' [(''left'', ANum x), (''backgroundImage'', AText (c # u)),
             (''backgroundSizeX'', ANum (num_of_nat (scrubCols * 100))),
             (''backgroundSizeY'', ANum (num_of_nat (scrubRows n * 100))),
             (''backgroundPositionX'', ANum (Fin (fst pos))), (''backgroundPositionY'', ANum (Fin (snd pos)))] []]
      | _ \<Rightarrow> [])"

definition seek_bar :: "translator \<Rightarrow> props \<Rightarrow> player_state \<Rightarrow> player_event node" where
  "seek_bar t pr s =
     El ''div'' [(''role'', AText ''slider''), (''aria-label'', AText (tx t ''playerSeek'')),
        (''aria-valuemin'', ANum (Fin 0)),
        (''aria-valuemax'', ANum (jmax (Fin 1) (jround (p_duration s)))),
        (''aria-valuenow'', ANum (jround (case scrubTime s of Some x \<Rightarrow> x | None \<Rightarrow> p_current s)))]
       [El ''div'' [(''width'', ANum (case scrubAt s of Some x \<Rightarrow> x | None \<Rightarrow> bar_progress s)),
          (''backgroundColor'', AText (accent pr))] []]"

subsection \<open>The controls\<close>

text \<open>\<open>Math.round\<close> and the clock of a time that is a number; other times print \<open>NaN:NaN\<close>.\<close>

fun clock_text :: "jnum \<Rightarrow> string" where
  "clock_text (Fin ms) = fmt ms"
| "clock_text _ = ''NaN:NaN''"

definition quality_menu :: "translator \<Rightarrow> player_state \<Rightarrow> player_event node list" where
  "quality_menu t s =
     show_if (1 < length (p_levels s))
       (El ''select'' [(''value'', ANum (num_of_int (p_level s))),
          (''onChange'', AInput (\<lambda>x. ChooseQuality (case js_number x of Fin q \<Rightarrow> \<lfloor>q\<rfloor> | _ \<Rightarrow> 0))),
          (''aria-label'', AText (tx t ''playerQuality''))]
          (El ''option'' [(''value'', ANum (Fin (- 1)))] [Txt (tx t ''playerAuto'')] #
           map (\<lambda>(i, h). El ''option'' [(''value'', ANum (num_of_int i))] [Txt (dec h @ ''p'')]) (p_levels s)))"

definition subtitle_menu :: "translator \<Rightarrow> props \<Rightarrow> player_state \<Rightarrow> player_event node list" where
  "subtitle_menu t pr s =
     (let subs = pi_subtitles (pp_info pr) in
      show_if (subs \<noteq> [])
       (El ''select'' [(''value'', AText (p_subtitle s)), (''onChange'', AInput ChooseSubtitle),
          (''aria-label'', AText (tx t ''tabSubtitles''))]
          (El ''option'' [(''value'', AText [])] [Txt (tx t ''playerOff'')] #
           map (\<lambda>x. El ''option'' [(''value'', AText (ps_lang x))]
             [Txt (if ps_label x \<noteq> [] then ps_label x else ps_lang x)]) subs)))"

definition rate_menu :: "translator \<Rightarrow> player_state \<Rightarrow> player_event node" where
  "rate_menu t s =
     El ''select'' [(''value'', ANum (p_rate s)), (''onChange'', AInput (\<lambda>x. ChooseRate (js_number x))),
        (''aria-label'', AText (tx t ''playerSpeed''))]
       (map (\<lambda>r. El ''option'' [(''value'', ANum (Fin r))] [Txt (rat_text r @ ''x'')]) player_rates)"

definition silent :: "player_state \<Rightarrow> bool" where
  "silent s \<longleftrightarrow> p_muted s \<or> jeq (p_volume s) (Fin 0)"

definition control_row :: "translator \<Rightarrow> props \<Rightarrow> bool \<Rightarrow> player_state \<Rightarrow> player_event node" where
  "control_row t pr pipEnabled s = El ''div'' []
     ([El ''button'' [(''onClick'', AEvent TogglePlay),
          (''aria-label'', AText (if p_playing s then tx t ''playerPause'' else tx t ''playerPlay''))]
         [El ''svg'' [] []],
       El ''button'' [(''onClick'', AEvent ToggleMute),
          (''aria-label'', AText (if silent s then tx t ''playerUnmute'' else tx t ''playerMute''))]
         [El ''svg'' [] []],
       El ''label'' [] [El ''span'' [] [Txt (if p_muted s then tx t ''playerUnmute'' else tx t ''playerMute'')],
         El ''input'' [(''type'', AText ''range''), (''min'', ANum (Fin 0)), (''max'', ANum (Fin 1)),
           (''step'', ANum (Fin (1 / 20))), (''value'', ANum (if p_muted s then Fin 0 else p_volume s)),
           (''onChange'', AInput (\<lambda>x. SlideVolume (js_number x))), (''accentColor'', AText (accent pr)),
           (''aria-label'', AText (tx t ''playerVolume''))] []],
       El ''span'' [] [Txt (clock_text (p_current s) @ '' / '' @ clock_text (p_duration s))]] @
      [El ''div'' []
        (quality_menu t s @ subtitle_menu t pr s @ [rate_menu t s] @
         show_if pipEnabled (El ''button'' [(''onClick'', AEvent TogglePip),
            (''aria-label'', AText (tx t ''playerPictureInPicture''))] [El ''svg'' [] []]) @
         [El ''button'' [(''onClick'', AEvent ToggleFullscreen),
            (''aria-label'', AText (if p_fullscreen s then tx t ''playerExitFullscreen''
                                  else tx t ''playerFullscreen''))] [El ''svg'' [] []]])])"

definition VidsiloPlayer ::
  "translator \<Rightarrow> props \<Rightarrow> bool \<Rightarrow> bool \<Rightarrow> player_state \<Rightarrow> player_event node" where
  "VidsiloPlayer t pr pipEnabled hovered s =
     El ''div'' [(''--player-accent'', AText (accent pr))]
       (picture t pr s @
        [El ''div'' [(''data-controls'', ABool True), (''visible'', ABool (controls_visible pr hovered s))]
          (scrub_preview pr s @ [seek_bar t pr s, control_row t pr pipEnabled s])])"

subsection \<open>Properties\<close>

lemma clock_text_nat: "clock_text (num_of_nat (1000 * n)) = dec (n div 60) @ '':'' @ pad2 (dec (n mod 60))"
proof -
  have "nat \<lfloor>of_nat n + (1 / 2 :: rat)\<rfloor> = n" by linarith
  then show ?thesis by (simp add: fmt_def Let_def)
qed

text \<open>
  The subtitle tracks are rendered beside the video element and not in it: the browser
  loads no track for the video.
\<close>

fun tracks_inside :: "'e node \<Rightarrow> nat" where
  "tracks_inside (Txt s) = 0"
| "tracks_inside (El tag as vs) =
     (if tag = ''video'' then length (filter (\<lambda>x. x = ''track'') (concat (map node_tags vs)))
      else sum_list (map tracks_inside vs))"

lemma no_track_in_video: "tracks_inside (VidsiloPlayer t pr pip hovered s) = 0"
  by (auto simp: VidsiloPlayer_def picture_def player_logo_def show_if_def scrub_preview_def seek_bar_def
      control_row_def quality_menu_def subtitle_menu_def rate_menu_def Let_def o_def case_prod_unfold
      split: option.splits list.splits jnum.splits)

end
