(* ===== verification/QueryString.thy ===== *)
theory QueryString
  imports UrlCodec
begin

text \<open>
  \<open>URLSearchParams\<close>: the text of a list of parameters, as the pages put it behind the path of
  a request, and its reading, as the pages read \<open>location.search\<close> and the server reads the
  request.  Characters are below 256, as in \<open>UrlCodec\<close>.
\<close>

definition form_char :: "char \<Rightarrow> string" where
  "form_char c =
     (let n = of_char c :: nat in
      if n = 32 then ''+''
      else if (48 \<le> n \<and> n \<le> 57) \<or> (65 \<le> n \<and> n \<le> 90) \<or> (97 \<le> n \<and> n \<le> 122) \<or> c \<in> set ''*-._'' then [c]
      else if n < 128 then percent_byte n
      else percent_byte (192 + n div 64) @ percent_byte (128 + n mod 64))"

definition form_encode :: "string \<Rightarrow> string" where
  "form_encode s = concat (map form_char s)"

definition form_pair :: "string \<times> string \<Rightarrow> string" where
  "form_pair p = form_encode (fst p) @ ''='' @ form_encode (snd p)"

definition query_string :: "(string \<times> string) list \<Rightarrow> string" where
  "query_string ps = join_with ''&'' (map form_pair ps)"

text \<open>Reading: a pair per part that is not empty, split at its first \<open>=\<close>.\<close>

definition read_pair :: "string \<Rightarrow> string \<times> string" where
  "read_pair s =
     (decode_param (takeWhile (\<lambda>c. c \<noteq> CHR ''='') s),
      decode_param (drop 1 (dropWhile (\<lambda>c. c \<noteq> CHR ''='') s)))"

definition parse_query :: "string \<Rightarrow> (string \<times> string) list" where
  "parse_query s = map read_pair (filter (\<lambda>p. p \<noteq> []) (split_on (CHR ''&'') s))"

definition query_get :: "string \<Rightarrow> (string \<times> string) list \<Rightarrow> string option" where
  "query_get k ps = map_of ps k"

lemma percent_byte_plain:
  "c \<in> set (percent_byte b) \<Longrightarrow> b < 256 \<Longrightarrow> c \<noteq> CHR ''='' \<and> c \<noteq> CHR ''&''"
proof -
  assume c: "c \<in> set (percent_byte b)" and b: "b < 256"
  have hex: "hex_digit d \<noteq> CHR ''='' \<and> hex_digit d \<noteq> CHR ''&''" if "d < 16" for d
    using of_char_hex [OF that] by (auto simp: digit_value_def)
  have "b div 16 < 16" "b mod 16 < 16" using b by auto
  with c hex [of "b div 16"] hex [of "b mod 16"] show ?thesis by (auto simp: percent_byte_def)
qed

lemma two_bytes: "192 + (of_char c :: nat) div 64 < 256" "128 + (of_char c :: nat) mod 64 < 256"
proof -
  have "(of_char c :: nat) div 64 < 4"
    using nat_of_char_less_256 [of c] by (simp add: less_mult_imp_div_less)
  then show "192 + (of_char c :: nat) div 64 < 256" by simp
  have "(of_char c :: nat) mod 64 < 64" by simp
  then show "128 + (of_char c :: nat) mod 64 < 256" by linarith
qed

lemma form_encode_plain:
  assumes "c \<in> set (form_encode s)"
  shows "c \<noteq> CHR ''='' \<and> c \<noteq> CHR ''&''"
proof -
  obtain d where d: "c \<in> set (form_char d)" using assms by (auto simp: form_encode_def)
  then show ?thesis
    using percent_byte_plain [of c "of_char d"] percent_byte_plain [of c "192 + of_char d div 64"]
      percent_byte_plain [of c "128 + of_char d mod 64"] two_bytes [of d] nat_of_char_less_256 [of d]
    by (auto simp: form_char_def Let_def split: if_splits)
qed

lemma query_bytes_plus: "query_bytes (''+'' @ r) = 32 # query_bytes r"
  by (auto split: list.split)

lemma query_bytes_form: "query_bytes (form_char c @ r) = utf8_bytes c @ query_bytes r"
proof (cases "(of_char c :: nat) = 32")
  case True
  then show ?thesis
    using query_bytes_plus [of r] by (simp add: form_char_def utf8_bytes_def del: query_bytes.simps)
next
  case False
  show ?thesis
  proof (cases "form_char c = [c]")
    case True
    have "c \<noteq> CHR ''%''" "c \<noteq> CHR ''+''" "(of_char c :: nat) < 128"
      using True False two_bytes [of c]
      by (auto simp: form_char_def Let_def percent_byte_def split: if_splits)
    with True query_bytes_plain [of c r] show ?thesis
      by (simp add: utf8_bytes_def Let_def del: query_bytes.simps)
  next
    case enc: False
    then show ?thesis
      using False two_bytes [of c] nat_of_char_less_256 [of c]
      by (auto simp: form_char_def utf8_bytes_def Let_def query_bytes_percent simp del: query_bytes.simps
          split: if_splits)
  qed
qed

lemma decode_form: "decode_param (form_encode s) = s"
proof -
  have "query_bytes (form_encode s @ r) = concat (map utf8_bytes s) @ query_bytes r" for r
    by (induction s) (simp_all add: form_encode_def query_bytes_form del: query_bytes.simps(2))
  moreover have "utf8_decode (concat (map utf8_bytes s)) = s"
    by (induction s) (simp_all add: utf8_decode_bytes)
  ultimately show ?thesis using decode_param_def [of "form_encode s"] by (metis append_Nil2 query_bytes.simps(1))
qed

lemma read_form_pair: "read_pair (form_pair p) = p"
proof -
  have "\<forall>c\<in>set (form_encode (fst p)). c \<noteq> CHR ''=''" using form_encode_plain by blast
  then have "takeWhile (\<lambda>c. c \<noteq> CHR ''='') (form_pair p) = form_encode (fst p)"
    "dropWhile (\<lambda>c. c \<noteq> CHR ''='') (form_pair p) = CHR ''='' # form_encode (snd p)"
    by (simp_all add: form_pair_def takeWhile_append2 dropWhile_append2)
  then show ?thesis by (simp add: read_pair_def decode_form)
qed

lemma split_join:
  assumes "\<forall>p\<in>set ps. c \<notin> set p" and "ps \<noteq> []"
  shows "split_on c (join_with [c] ps) = ps"
  using assms
proof (induction ps rule: induct_list012)
  case (2 p)
  then show ?case by (induction p) auto
next
  case (3 p q ps)
  have "split_on c (p @ [c] @ s) = p # split_on c s" if "c \<notin> set p" for s
    using that by (induction p) auto
  with 3 show ?case by simp
qed simp

text \<open>What the pages send is what is read: parameters survive the query string.\<close>

theorem parse_query_string: "parse_query (query_string ps) = ps"
proof (cases "ps = []")
  case True
  then show ?thesis by (simp add: query_string_def parse_query_def)
next
  case False
  have "CHR ''&'' \<notin> set (form_pair p)" for p
    using form_encode_plain by (auto simp: form_pair_def)
  then have "split_on (CHR ''&'') (query_string ps) = map form_pair ps"
    using split_join [of "map form_pair ps" "CHR ''&''"] False by (auto simp: query_string_def)
  moreover have "form_pair p \<noteq> []" for p by (simp add: form_pair_def)
  ultimately show ?thesis by (simp add: parse_query_def filter_map o_def read_form_pair)
qed

end
