(* ===== verification/Parts.thy ===== *)
theory Parts
  imports UrlCodec Format Web
begin

text \<open>
  The small components the pages are made of: \<open>StatusBadge\<close>, \<open>EntryThumb\<close>, \<open>SummaryStrip\<close>,
  \<open>EmptyState\<close> and \<open>PagePlaceholder\<close>, and the table parts every admin page repeats.
\<close>

definition badge_config :: "entry_status \<Rightarrow> string \<times> string" where
  "badge_config st =
     (case st of
        EUploading \<Rightarrow> (''UploadCloudIcon'', ''statusUploading'')
      | EProbing \<Rightarrow> (''ScanSearchIcon'', ''statusProbing'')
      | ETranscoding \<Rightarrow> (''ClapperboardIcon'', ''statusTranscoding'')
      | EReady \<Rightarrow> (''CircleCheckIcon'', ''statusReady'')
      | EFailed \<Rightarrow> (''CircleAlertIcon'', ''statusFailed''))"

definition StatusBadge :: "translator \<Rightarrow> entry_status \<Rightarrow> 'e node" where
  "StatusBadge t st =
     El ''Badge'' [] [El (fst (badge_config st)) [] [], Txt (tx t (snd (badge_config st)))]"

text \<open>The address of a poster, with the time of the last change against stale caches.\<close>

definition poster_url :: "string \<Rightarrow> string option \<Rightarrow> string" where
  "poster_url key updatedAt =
     ''/media/'' @ key @
     (case updatedAt of Some (c # u) \<Rightarrow> ''?v='' @ encodeURIComponent (c # u) | _ \<Rightarrow> [])"

definition EntryThumb :: "string \<Rightarrow> string option \<Rightarrow> string \<Rightarrow> 'e node" where
  "EntryThumb posterKey updatedAt alt =
     (if posterKey \<noteq> [] then El ''img'' [(''src'', AText (poster_url posterKey updatedAt)), (''alt'', AText alt)] []
      else El ''div'' [] [El ''FilmIcon'' [] []])"

definition SummaryStrip :: "(string \<times> string \<times> string option) list \<Rightarrow> 'e node list" where
  "SummaryStrip items =
     (if items = [] then []
      else [El ''div'' [] (map (\<lambda>(label, val, hint).
        El ''span''
          (case hint of
             Some (c # h) \<Rightarrow> [(''title'', AText (c # h)),
               (''aria-label'', AText (label @ '': '' @ val @ '' '' @ emdash @ '' '' @ c # h))]
           | _ \<Rightarrow> [])
          [El ''span'' [] [Txt label], El ''span'' [] [Txt val]]) items)])"

definition EmptyState :: "string \<Rightarrow> string option \<Rightarrow> string option \<Rightarrow> 'e node option \<Rightarrow> 'e node" where
  "EmptyState icon title description act =
     El ''div'' []
       (El icon [] [] #
        (case title of Some (c # x) \<Rightarrow> [El ''p'' [] [Txt (c # x)]] | _ \<Rightarrow> []) @
        (case description of Some (c # x) \<Rightarrow> [El ''p'' [] [Txt (c # x)]] | _ \<Rightarrow> []) @
        (case act of Some v \<Rightarrow> [El ''div'' [] [v]] | None \<Rightarrow> []))"

definition PagePlaceholder :: "string \<Rightarrow> string \<Rightarrow> 'e node" where
  "PagePlaceholder title description =
     El ''div'' [] [El ''div'' [] [El ''h1'' [] [Txt title], El ''p'' [] [Txt description]],
       El ''Card'' [] [Txt (''Coming soon '' @ emdash @ '' wired to the API in a later pass.'')]]"

subsection \<open>Tables, cards, fields\<close>

definition table_head :: "string list \<Rightarrow> 'e node" where
  "table_head cols = El ''TableHeader'' [] [El ''TableRow'' [] (map (\<lambda>c. El ''TableHead'' [] [Txt c]) cols)]"

definition cell :: "'e node list \<Rightarrow> 'e node" where
  "cell vs = El ''TableCell'' [] vs"

definition table_page :: "string list \<Rightarrow> 'e node list \<Rightarrow> 'e node" where
  "table_page cols rows =
     El ''Card'' [] [El ''Table'' [] [table_head cols, El ''TableBody'' [] rows]]"

text \<open>Five rows of placeholders while a list loads.\<close>

definition skeleton_rows :: "nat \<Rightarrow> nat \<Rightarrow> 'e node list" where
  "skeleton_rows n cols =
     replicate n (El ''TableRow'' [] [El ''TableCell'' [(''colSpan'', ANum (num_of_nat cols))]
       [El ''Skeleton'' [] []]])"

definition kpi_card :: "string \<Rightarrow> string \<Rightarrow> string \<Rightarrow> string \<Rightarrow> 'e node" where
  "kpi_card title icon val hint =
     El ''Card'' [] [El ''CardHeader'' [] [El ''CardTitle'' [] [Txt title], El icon [] []],
       El ''CardContent'' [] [El ''div'' [] [Txt val], El ''p'' [] [Txt hint]]]"

definition click :: "string \<Rightarrow> 'e \<Rightarrow> bool \<Rightarrow> string \<Rightarrow> 'e node" where
  "click tag e off label = El tag [(''onClick'', AEvent e), (''disabled'', ABool off)] [Txt label]"

definition icon_click :: "'e \<Rightarrow> string \<Rightarrow> string \<Rightarrow> 'e node" where
  "icon_click e label icon =
     El ''Button'' [(''onClick'', AEvent e), (''aria-label'', AText label)] [El icon [] []]"

definition field :: "string \<Rightarrow> 'e node list \<Rightarrow> 'e node" where
  "field label vs = El ''div'' [] (El ''Label'' [] [Txt label] # vs)"

definition text_input :: "string \<Rightarrow> (string \<Rightarrow> 'e) \<Rightarrow> 'e node" where
  "text_input val typed = El ''Input'' [(''value'', AText val), (''onChange'', AInput typed)] []"

definition options :: "(string \<times> string) list \<Rightarrow> 'e node list" where
  "options os = map (\<lambda>(v, l). El ''option'' [(''value'', AText v)] [Txt l]) os"

definition select :: "(string \<times> string) list \<Rightarrow> string \<Rightarrow> (string \<Rightarrow> 'e) \<Rightarrow> 'e node" where
  "select os val chosen =
     El ''Select'' [(''value'', AText val), (''onChange'', AInput chosen)] (options os)"

lemma disabled_simps [simp]:
  "is_disabled [] = False"
  "is_disabled ((''disabled'', ABool b) # as) = b"
  "k \<noteq> ''disabled'' \<Longrightarrow> is_disabled ((k, v) # as) = is_disabled as"
  by (simp_all add: is_disabled_def)

lemma part_events [simp]:
  "node_events (StatusBadge t st) = []"
  "node_events (EntryThumb k u a) = []"
  "node_events (EmptyState i x d None) = []"
  "node_events (table_head cols) = []"
  "node_events (cell vs) = concat (map node_events vs)"
  "node_events (table_page cols rows) = concat (map node_events rows)"
  "node_events (kpi_card title i v h) = []"
  "node_events (click tag e off l) = (if off then [] else [e])"
  "node_events (icon_click e l i) = [e]"
  "node_events (field l vs) = concat (map node_events vs)"
  "node_events (text_input v f) = []"
  "node_events (select os v g) = []"
  "concat (map node_events (skeleton_rows n m)) = []"
  "concat (map node_events (SummaryStrip xs)) = []"
  by (auto simp: StatusBadge_def EntryThumb_def EmptyState_def table_head_def cell_def table_page_def kpi_card_def
      click_def icon_click_def field_def text_input_def select_def options_def skeleton_rows_def SummaryStrip_def
      o_def concat_eq_Nil_conv split: option.split list.split)

text \<open>A poster's address changes with the entry: two different times give two addresses.\<close>

lemma poster_url_fresh:
  assumes "poster_url key (Some a) = poster_url key (Some b)" and "a \<noteq> []" and "b \<noteq> []"
  shows "a = b"
proof -
  have "encodeURIComponent a = encodeURIComponent b"
    using assms by (cases a; cases b) (auto simp: poster_url_def)
  then show ?thesis by (metis decode_encode)
qed

end
