(* ===== verification/PlayPages.thy ===== *)
theory PlayPages
  imports QueryString SiteConfig PlayerView Parts "HOL-Library.AList"
begin

text \<open>
  The pages around the player: the public page \<open>web/app/(public)/play/page.tsx\<close>, the embedded
  page \<open>web/app/(embed)/embed/page.tsx\<close>, the preview \<open>web/components/playback-preview.tsx\<close> and
  the dialog with the links to share, \<open>web/components/embed-dialog.tsx\<close>.
\<close>

subsection \<open>The address\<close>

definition uuidFromPath :: "bool \<Rightarrow> string \<Rightarrow> string" where
  "uuidFromPath browser pathname =
     (let parts = filter (\<lambda>p. p \<noteq> []) (split_on (CHR ''/'') pathname)
      in if \<not> browser \<or> parts = [] then [] else last parts)"

record play_options =
  po_autoplay :: bool
  po_muted :: bool
  po_loop :: bool
  po_startTime :: jnum

text \<open>The parameters behind the question mark; a missing \<open>t\<close> is \<open>null\<close>, which counts as zero.\<close>

definition play_opts :: "bool \<Rightarrow> string \<Rightarrow> play_options" where
  "play_opts browser query =
     (let ps = parse_query query; n = (case query_get ''t'' ps of Some x \<Rightarrow> js_number x | None \<Rightarrow> Fin 0) in
      if \<not> browser
      then \<lparr>po_autoplay = False, po_muted = False, po_loop = False, po_startTime = Fin 0\<rparr>
      else \<lparr>po_autoplay = (query_get ''autoplay'' ps = Some ''1''), po_muted = (query_get ''muted'' ps = Some ''1''),
            po_loop = (query_get ''loop'' ps = Some ''1''),
            po_startTime = (if is_finite n \<and> jless (Fin 0) n then n else Fin 0)\<rparr>)"

subsection \<open>The public page\<close>

record play_state =
  pg_uuid :: string
  pg_info :: "play_info option"
  pg_error :: bool

definition play_request :: "string \<Rightarrow> 'a web_effect list" where
  "play_request uuid =
     (if uuid = [] then [] else [Request ''GET'' (''/play/'' @ uuid @ ''/playinfo.json'') None])"

definition play_answer :: "play_info reply \<Rightarrow> play_state \<Rightarrow> play_state \<times> 'a web_effect list" where
  "play_answer answer s =
     (case answer of
        Ok info \<Rightarrow> (s\<lparr>pg_info := Some info\<rparr>, [])
      | r \<Rightarrow> (s\<lparr>pg_error := True\<rparr>, [Toast ToastError (error_text r)]))"

text \<open>The document's title and its meta elements, property by property.\<close>

definition setMeta :: "string \<Rightarrow> string \<Rightarrow> (string \<times> string) list \<Rightarrow> (string \<times> string) list" where
  "setMeta property content head = AList.update property content head"

definition play_title :: "play_info \<Rightarrow> site_config option \<Rightarrow> string" where
  "play_title info cfg =
     (case cfg of
        Some c \<Rightarrow> pi_title info @ '' | '' @ (if sc_siteName c \<noteq> [] then sc_siteName c else ''Vidsilo'')
      | None \<Rightarrow> pi_title info @ '' | Vidsilo App'')"

definition play_meta :: "play_info \<Rightarrow> (string \<times> string) list \<Rightarrow> (string \<times> string) list" where
  "play_meta info head =
     (let h1 = setMeta ''og:title'' (pi_title info) head;
          h2 = (if pi_description info \<noteq> [] then setMeta ''og:description'' (pi_description info) h1 else h1);
          h3 = (case pi_poster info of Some (c # p) \<Rightarrow> setMeta ''og:image'' (c # p) h2 | _ \<Rightarrow> h2)
      in setMeta ''og:type'' ''video.other'' h3)"

definition head_effect :: "play_info option \<Rightarrow> (string \<times> string) list \<Rightarrow> (string \<times> string) list" where
  "head_effect info head =
     (case info of Some i \<Rightarrow> if pi_title i \<noteq> [] then play_meta i head else head | None \<Rightarrow> head)"

definition player_props :: "play_options \<Rightarrow> string \<Rightarrow> play_info \<Rightarrow> props" where
  "player_props opts uuid info =
     \<lparr>pp_info = info, pp_publicId = uuid, pp_autoplay = po_autoplay opts, pp_muted = po_muted opts,
      pp_loop = po_loop opts, pp_branding = pi_player info, pp_startTime = Some (po_startTime opts)\<rparr>"

definition play_header :: "string \<Rightarrow> string \<Rightarrow> player_event node" where
  "play_header siteName appVersion =
     El ''header'' [] [El ''Link'' [(''href'', AText ''/'')] [El ''ClapperboardIcon'' [] [],
         El ''span'' [] [Txt siteName], El ''span'' [] [Txt appVersion]],
       El ''LanguageSelect'' [] [], El ''ThemeToggle'' [] []]"

definition back_link :: "translator \<Rightarrow> player_event node" where
  "back_link t = El ''Link'' [(''href'', AText ''/'')] [Txt (tx t ''libraryBackToLibrary'')]"

definition PlayPage ::
  "translator \<Rightarrow> string \<Rightarrow> string \<Rightarrow> play_options \<Rightarrow> bool \<Rightarrow> bool \<Rightarrow> play_state \<Rightarrow> player_state \<Rightarrow> player_event node" where
  "PlayPage t siteName appVersion opts pip hovered s ps =
     El ''main'' []
       [play_header siteName appVersion,
        El ''div'' []
          (if pg_error s then
             [El ''div'' [] [El ''FilmIcon'' [] [], El ''p'' [] [Txt (tx t ''videoUnavailable'')], back_link t]]
           else case pg_info s of
             None \<Rightarrow> [El ''div'' [] [LoadingCircle, El ''span'' [] [Txt (tx t ''loading'')]]]
           | Some info \<Rightarrow>
               if pi_status info \<noteq> EReady then
                 [El ''div'' [] [El ''p'' [] [Txt (tx t ''playerVideoStatus'')], back_link t]]
               else
                 [VidsiloPlayer t (player_props opts (pg_uuid s) info) pip hovered ps,
                  El ''h1'' [] [Txt (pi_title info)]] @
                 show_if (pi_description info \<noteq> []) (El ''p'' [] [Txt (pi_description info)]))]"

subsection \<open>The embedded page\<close>

definition embed_uuid :: "bool \<Rightarrow> string \<Rightarrow> string" where
  "embed_uuid browser pathname =
     (let parts = filter (\<lambda>p. p \<noteq> []) (split_on (CHR ''/'') pathname)
      in if \<not> browser \<or> parts = [] then [] else last parts)"

definition embed_opts :: "bool \<Rightarrow> string \<Rightarrow> play_options" where
  "embed_opts browser query =
     (let ps = parse_query query; n = (case query_get ''t'' ps of Some x \<Rightarrow> js_number x | None \<Rightarrow> Fin 0) in
      if \<not> browser
      then \<lparr>po_autoplay = False, po_muted = False, po_loop = False, po_startTime = Fin 0\<rparr>
      else \<lparr>po_autoplay = (query_get ''autoplay'' ps = Some ''1''), po_muted = (query_get ''muted'' ps = Some ''1''),
            po_loop = (query_get ''loop'' ps = Some ''1''),
            po_startTime = (if is_finite n \<and> jless (Fin 0) n then n else Fin 0)\<rparr>)"

definition embed_answer :: "play_info reply \<Rightarrow> play_state \<Rightarrow> play_state" where
  "embed_answer answer s = (case answer of Ok info \<Rightarrow> s\<lparr>pg_info := Some info\<rparr> | _ \<Rightarrow> s\<lparr>pg_error := True\<rparr>)"

definition EmbedPage ::
  "translator \<Rightarrow> play_options \<Rightarrow> bool \<Rightarrow> bool \<Rightarrow> play_state \<Rightarrow> player_state \<Rightarrow> player_event node" where
  "EmbedPage t opts pip hovered s ps =
     (if pg_uuid s = [] then El ''div'' [] [Txt (tx t ''playerMissingId'')]
      else if pg_error s then El ''div'' [] [Txt (tx t ''videoUnavailable'')]
      else case pg_info s of
        None \<Rightarrow> El ''div'' [] [LoadingCircle]
      | Some info \<Rightarrow>
          El ''div'' []
            [if pi_status info \<noteq> EReady then El ''div'' [] [Txt (tx t ''playerVideoStatus'')]
             else VidsiloPlayer t (player_props opts (pg_uuid s) info) pip hovered ps])"

subsection \<open>The preview\<close>

datatype preview_event = WatchClicked | PreviewAnswer "play_info reply" | ClosePreview

definition preview_step ::
  "translator \<Rightarrow> string \<Rightarrow> preview_event \<Rightarrow> play_info option \<Rightarrow> play_info option \<times> 'a web_effect list" where
  "preview_step t publicId e s =
     (case e of
        WatchClicked \<Rightarrow> (s, [Request ''GET'' (''/play/'' @ publicId @ ''/playinfo.json'') None])
      | PreviewAnswer (Ok info) \<Rightarrow> (if pi_status info = EReady then Some info else None, [])
      | PreviewAnswer r \<Rightarrow> (s, [Toast ToastError (error_text r)])
      | ClosePreview \<Rightarrow> (None, []))"

definition PlaybackPreview ::
  "translator \<Rightarrow> string \<Rightarrow> string \<Rightarrow> nat option \<Rightarrow> play_info option \<Rightarrow> preview_event node" where
  "PlaybackPreview t posterKey updatedAt durationMs s =
     (case s of
        Some info \<Rightarrow>
          El ''div'' [] [El ''VidsiloPlayer'' [(''autoplay'', ABool True)] [],
            El ''button'' [(''onClick'', AEvent ClosePreview), (''aria-label'', AText (tx t ''close''))]
              [El ''XIcon'' [] []]]
      | None \<Rightarrow>
          if posterKey = [] then
            El ''div'' [] [El ''VideoIcon'' [] [], El ''span'' [] [Txt (tx t ''previewUnavailable'')]]
          else
            El ''button'' [(''onClick'', AEvent WatchClicked), (''aria-label'', AText (tx t ''entryWatch''))]
              [El ''img'' [(''src'', AText (''/media/'' @ posterKey @ ''?v='' @ encodeURIComponent updatedAt)),
                 (''alt'', AText ''poster'')] [],
               El ''div'' [] (case durationMs of
                   Some d \<Rightarrow> show_if (0 < d) (El ''span'' [] [Txt (formatDuration (Some d))])
                 | None \<Rightarrow> []),
               El ''PlayIcon'' [] []])"

subsection \<open>The links to share\<close>

definition embed_origin :: "string option \<Rightarrow> string" where
  "embed_origin origin = (case origin of Some s \<Rightarrow> s | None \<Rightarrow> ''http://localhost:8080'')"

definition directUrl :: "string option \<Rightarrow> string \<Rightarrow> string" where
  "directUrl origin i = embed_origin origin @ ''/embed/'' @ i"

definition embed_snippet :: "string option \<Rightarrow> string \<Rightarrow> string" where
  "embed_snippet origin i =
     ''<iframe src='' @ [CHR 0x22] @ directUrl origin i @ [CHR 0x22] @ '' width='' @ [CHR 0x22] @ ''640'' @ [CHR 0x22] @
     '' height='' @ [CHR 0x22] @ ''360'' @ [CHR 0x22] @ '' frameborder='' @ [CHR 0x22] @ ''0'' @ [CHR 0x22] @
     '' allowfullscreen></iframe>''"

record embed_state =
  eb_copiedDirect :: bool
  eb_copiedSnippet :: bool

datatype embed_event = CopyDirect | CopySnippet | DirectTimeout | SnippetTimeout | CloseEmbed

definition embed_step ::
  "string option \<Rightarrow> string \<Rightarrow> embed_event \<Rightarrow> embed_state \<Rightarrow> embed_state \<times> 'a web_effect list" where
  "embed_step origin i e s =
     (case e of
        CopyDirect \<Rightarrow> (s\<lparr>eb_copiedDirect := True\<rparr>, [CopyText (directUrl origin i)])
      | CopySnippet \<Rightarrow> (s\<lparr>eb_copiedSnippet := True\<rparr>, [CopyText (embed_snippet origin i)])
      | DirectTimeout \<Rightarrow> (s\<lparr>eb_copiedDirect := False\<rparr>, [])
      | SnippetTimeout \<Rightarrow> (s\<lparr>eb_copiedSnippet := False\<rparr>, [])
      | CloseEmbed \<Rightarrow> (s, [CloseDlg]))"

definition copy_button :: "translator \<Rightarrow> embed_event \<Rightarrow> bool \<Rightarrow> string \<Rightarrow> embed_event node" where
  "copy_button t e copied key =
     El ''Button'' [(''onClick'', AEvent e)]
       [El (if copied then ''Check'' else ''Copy'') [] [],
        El ''span'' [] [Txt (if copied then tx t ''copied'' else tx t key)]]"

definition EmbedDialogContent ::
  "translator \<Rightarrow> string option \<Rightarrow> string \<Rightarrow> embed_event node \<Rightarrow> embed_state \<Rightarrow> embed_event node" where
  "EmbedDialogContent t origin i preview s =
     El ''div'' []
       [El ''DialogHeader'' [] [El ''DialogTitle'' [] [Txt (tx t ''embedTitle'')],
          El ''DialogDescription'' []
            [Txt ''Share this video via direct URL link or embed iframe into your application.'']],
        preview,
        El ''div'' [] [El ''Link2Icon'' [] [], El ''span'' [] [Txt (tx t ''directLink'')],
          El ''Input'' [(''readOnly'', ABool True), (''value'', AText (directUrl origin i))] [],
          copy_button t CopyDirect (eb_copiedDirect s) ''copyDirectLink''],
        El ''div'' [] [El ''Code2Icon'' [] [], El ''span'' [] [Txt (tx t ''embedCode'')],
          El ''Textarea'' [(''readOnly'', ABool True), (''value'', AText (embed_snippet origin i))] [],
          copy_button t CopySnippet (eb_copiedSnippet s) ''copyEmbedCode''],
        El ''DialogFooter'' [] [click ''Button'' CloseEmbed False (tx t ''close'')]]"

subsection \<open>Properties\<close>

lemma split_on_twice: "split_on c (p @ [c] @ s) = split_on c p @ split_on c s"
proof (induction p)
  case (Cons x p)
  show ?case
  proof (cases "x = c")
    case False
    obtain q qs where "split_on c p = q # qs" by (cases "split_on c p") auto
    with Cons False show ?thesis by simp
  qed (use Cons in simp)
qed simp

lemma last_part:
  assumes "i \<noteq> []" and "CHR ''/'' \<notin> set i"
  shows "last (filter (\<lambda>p. p \<noteq> []) (split_on (CHR ''/'') (p @ ''/'' @ i))) = i \<and>
    filter (\<lambda>p. p \<noteq> []) (split_on (CHR ''/'') (p @ ''/'' @ i)) \<noteq> []"
proof -
  have "split_on (CHR ''/'') i = [i]" using assms(2) by (induction i) auto
  then show ?thesis using assms(1) split_on_twice [of "CHR ''/''" p i] by simp
qed

text \<open>C29: A shared link opens the video it was made for: the identifier read from the path of the direct
  link and of the address inside the embed code is the entry's own, whatever the origin; the
  player page reads back the identifier of a library link in the same way.\<close>

theorem shared_link_opens_entry:
  assumes "i \<noteq> []" and "CHR ''/'' \<notin> set i"
  shows "directUrl origin i = embed_origin origin @ ''/embed/'' @ i \<and> embed_uuid True (''/embed/'' @ i) = i \<and>
    (\<exists>a b. embed_snippet origin i = a @ [CHR 0x22] @ directUrl origin i @ [CHR 0x22] @ b \<and> CHR 0x22 \<notin> set a) \<and>
    uuidFromPath True (''/play/'' @ i) = i"
proof -
  have "embed_snippet origin i = ''<iframe src='' @ [CHR 0x22] @ directUrl origin i @ [CHR 0x22] @
      ('' width='' @ [CHR 0x22] @ ''640'' @ [CHR 0x22] @ '' height='' @ [CHR 0x22] @ ''360'' @ [CHR 0x22] @
       '' frameborder='' @ [CHR 0x22] @ ''0'' @ [CHR 0x22] @ '' allowfullscreen></iframe>'')"
    by (simp only: embed_snippet_def append_assoc)
  moreover have "CHR 0x22 \<notin> set ''<iframe src=''" by simp
  ultimately have "\<exists>a b. embed_snippet origin i = a @ [CHR 0x22] @ directUrl origin i @ [CHR 0x22] @ b \<and>
      CHR 0x22 \<notin> set a" by blast
  moreover have "embed_uuid True (''/embed/'' @ i) = i" "uuidFromPath True (''/play/'' @ i) = i"
    using last_part [OF assms, of "''/embed''"] last_part [OF assms, of "''/play''"]
    by (simp_all add: embed_uuid_def uuidFromPath_def Let_def)
  ultimately show ?thesis by (simp add: directUrl_def)
qed

theorem shared_link_opens_entry_witness:
  "embed_uuid True (''/embed/'' @ ''3f2c'') = ''3f2c'' \<and> uuidFromPath True ''/play/3f2c'' = ''3f2c''"
  using shared_link_opens_entry [of "''3f2c''" None] by simp

text \<open>Whatever the address holds, the start time given to the player is a finite number that is
  not negative, and the switches are on exactly for \<open>1\<close>.\<close>

theorem start_time_finite:
  "\<exists>q. po_startTime (play_opts browser query) = Fin q \<and> 0 \<le> q \<and>
     po_startTime (embed_opts browser query) = Fin q \<and>
     (po_autoplay (play_opts browser query) = (browser \<and> query_get ''autoplay'' (parse_query query) = Some ''1''))"
proof -
  let ?n = "case query_get ''t'' (parse_query query) of Some x \<Rightarrow> js_number x | None \<Rightarrow> Fin 0"
  show ?thesis
    by (cases ?n) (auto simp: play_opts_def embed_opts_def Let_def)
qed

end
