(* ===== verification/Catalog.thy ===== *)
theory Catalog
  imports QueryString SiteConfig Format Web
begin

text \<open>
  The public library, \<open>web/app/(public)/page.tsx\<close>: filters with their delay, the first page of
  a query, further pages, the gate of the library mode, and what the page shows.  The server
  is a parameter: what it answers to a query is the argument of the event of the answer.
\<close>

subsection \<open>Queries\<close>

definition PAGE_SIZE :: nat where "PAGE_SIZE = 24"

record filters =
  fi_q :: string
  fi_category :: string
  fi_sort :: string

definition catalog_params :: "filters \<Rightarrow> nat \<Rightarrow> (string \<times> string) list" where
  "catalog_params f pg =
     [(''page'', dec pg), (''limit'', dec PAGE_SIZE)] @
     (if fi_q f \<noteq> [] then [(''q'', fi_q f)] else []) @
     (if fi_category f \<noteq> [] then [(''category'', fi_category f)] else []) @
     (if fi_sort f \<in> {''title'', ''oldest'', ''duration''} then [(''sort'', fi_sort f)] else [])"

definition catalog_path :: "filters \<Rightarrow> nat \<Rightarrow> string" where
  "catalog_path f pg = ''/api/catalog?'' @ query_string (catalog_params f pg)"

subsection \<open>State\<close>

text \<open>
  \<open>lb_first\<close>: the request of the filters' effect that was not cancelled and is not answered;
  \<open>lb_more\<close>: the snapshot of the request for a further page, whose presence is \<open>loadingMoreRef\<close>.
\<close>

record library =
  lb_q :: string
  lb_filters :: filters
  lb_page :: nat
  lb_data :: "catalog_response option"
  lb_error :: "string option"
  lb_first :: "filters option"
  lb_more :: "(filters \<times> nat) option"
  lb_categories :: "catalog_category list"

definition start_filters :: filters where
  "start_filters = \<lparr>fi_q = [], fi_category = [], fi_sort = ''newest''\<rparr>"

text \<open>The state after the first commit, whose effect has sent the first request.\<close>

definition library_start :: library where
  "library_start = \<lparr>lb_q = [], lb_filters = start_filters, lb_page = 1, lb_data = None, lb_error = None,
     lb_first = Some start_filters, lb_more = None, lb_categories = []\<rparr>"

definition lb_loading :: "library \<Rightarrow> bool" where
  "lb_loading s \<longleftrightarrow> lb_data s = None \<and> lb_error s = None"

definition shown_items :: "library \<Rightarrow> catalog_entry list" where
  "shown_items s = (case lb_data s of Some d \<Rightarrow> cp_items d | None \<Rightarrow> [])"

definition shown_total :: "library \<Rightarrow> nat" where
  "shown_total s = (case lb_data s of Some d \<Rightarrow> cp_total d | None \<Rightarrow> 0)"

definition hasMore :: "library \<Rightarrow> bool" where
  "hasMore s \<longleftrightarrow> length (shown_items s) < shown_total s"

subsection \<open>Events\<close>

datatype library_event =
    TypeQuery string | DelayOver | PickCategory string | PickSort string | LocaleChanged
  | FirstAnswer "catalog_response option" | LoadMore | MoreAnswer "catalog_response option"
  | CategoriesAnswer "catalog_category list option" | SignOut

text \<open>New filters: the effect cancels the pending request and sends the first page.\<close>

definition refilter :: "filters \<Rightarrow> library \<Rightarrow> library \<times> 'a web_effect list" where
  "refilter f s =
     (if f = lb_filters s then (s, [])
      else (s\<lparr>lb_filters := f, lb_first := Some f\<rparr>, [Request ''GET'' (catalog_path f 1) None]))"

definition first_answer :: "translator \<Rightarrow> catalog_response option \<Rightarrow> library \<Rightarrow> library" where
  "first_answer t answer s =
     (case lb_first s of
        None \<Rightarrow> s
      | Some f \<Rightarrow>
          (case answer of
             Some res \<Rightarrow> s\<lparr>lb_first := None, lb_error := None, lb_data := Some res, lb_page := 1\<rparr>
           | None \<Rightarrow> s\<lparr>lb_first := None, lb_error := Some (tx t ''libraryError'')\<rparr>))"

definition loadMore :: "library \<Rightarrow> library \<times> 'a web_effect list" where
  "loadMore s =
     (case lb_more s of
        Some _ \<Rightarrow> (s, [])
      | None \<Rightarrow>
          (s\<lparr>lb_more := Some (lb_filters s, lb_page s + 1)\<rparr>,
           [Request ''GET'' (catalog_path (lb_filters s) (lb_page s + 1)) None]))"

definition more_answer :: "catalog_response option \<Rightarrow> library \<Rightarrow> library" where
  "more_answer answer s =
     (case lb_more s of
        None \<Rightarrow> s
      | Some (f, next) \<Rightarrow>
          let s1 = s\<lparr>lb_more := None\<rparr> in
          (case answer of
             None \<Rightarrow> s1
           | Some res \<Rightarrow>
               if lb_filters s \<noteq> f then s1
               else s1\<lparr>lb_data := Some (case lb_data s of
                         Some prev \<Rightarrow> res\<lparr>cp_items := cp_items prev @ cp_items res\<rparr>
                       | None \<Rightarrow> res),
                       lb_page := next\<rparr>))"

fun library_step ::
  "translator \<Rightarrow> library_event \<Rightarrow> library \<Rightarrow> library \<times> library_event web_effect list" where
  "library_step t (TypeQuery x) s = (s\<lparr>lb_q := x\<rparr>, [])"
| "library_step t DelayOver s = refilter ((lb_filters s)\<lparr>fi_q := lb_q s\<rparr>) s"
| "library_step t (PickCategory c) s = refilter ((lb_filters s)\<lparr>fi_category := c\<rparr>) s"
| "library_step t (PickSort x) s = refilter ((lb_filters s)\<lparr>fi_sort := x\<rparr>) s"
| "library_step t LocaleChanged s =
     (s\<lparr>lb_first := Some (lb_filters s)\<rparr>, [Request ''GET'' (catalog_path (lb_filters s) 1) None])"
| "library_step t (FirstAnswer r) s = (first_answer t r s, [])"
| "library_step t LoadMore s = loadMore s"
| "library_step t (MoreAnswer r) s = (more_answer r s, [])"
| "library_step t (CategoriesAnswer r) s =
     (case r of Some cs \<Rightarrow> (s\<lparr>lb_categories := cs\<rparr>, []) | None \<Rightarrow> (s, []))"
| "library_step t SignOut s = (s, [Request ''POST'' ''/api/viewer/logout'' None, Reload])"

text \<open>The title the tab gets once the name of the site is known.\<close>

definition library_title :: "string \<Rightarrow> string option" where
  "library_title siteName = (if siteName = [] then None else Some siteName)"

subsection \<open>The gate\<close>

text \<open>
  The answer of the site configuration, then the viewer's session, then the staff's; \<open>None\<close>
  for a request that failed.  The viewer is unknown until the second answer.
\<close>

datatype gate_next = AskViewer | Stay | Leave string

definition library_gate :: "site_config option \<Rightarrow> gate_next" where
  "library_gate cfg =
     (case cfg of
        None \<Rightarrow> Stay
      | Some c \<Rightarrow>
          if sc_libraryMode c = ''disabled'' then Leave ''/admin/login''
          else if sc_libraryMode c \<noteq> ''login_only'' then Stay else AskViewer)"

definition session_gate :: "viewer_account option \<Rightarrow> bool \<Rightarrow> viewer_account option \<times> gate_next" where
  "session_gate viewer staff =
     (case viewer of
        Some v \<Rightarrow> (Some v, Stay)
      | None \<Rightarrow> (None, if staff then Stay else Leave ''/login''))"

subsection \<open>The page\<close>

definition brand_link :: "string \<Rightarrow> string \<Rightarrow> 'e node" where
  "brand_link siteName appVersion =
     El ''Link'' [(''href'', AText ''/'')] [El ''ClapperboardIcon'' [] [],
       El ''span'' [] [Txt siteName], El ''span'' [] [Txt appVersion]]"

definition library_header ::
  "translator \<Rightarrow> string \<Rightarrow> string \<Rightarrow> viewer_account option \<Rightarrow> library_event node" where
  "library_header t siteName appVersion viewer =
     El ''header'' [] (brand_link siteName appVersion #
       (case viewer of
          Some v \<Rightarrow> [El ''Avatar'' [] [Txt (js_upper (take 2 (vw_email v)))],
            El ''Button'' [(''onClick'', AEvent SignOut)] [Txt (tx t ''librarySignOut'')]]
        | None \<Rightarrow> []) @
       [El ''LanguageSelect'' [] [], El ''ThemeToggle'' [] []])"

definition library_toolbar :: "translator \<Rightarrow> library \<Rightarrow> library_event node" where
  "library_toolbar t s =
     El ''div'' []
       [El ''Input'' [(''type'', AText ''search''), (''value'', AText (lb_q s)), (''onChange'', AInput TypeQuery),
          (''placeholder'', AText (tx t ''librarySearchPlaceholder'')),
          (''aria-label'', AText (tx t ''librarySearchPlaceholder''))] [],
        El ''Select'' [(''value'', AText (fi_sort (lb_filters s))), (''onChange'', AInput PickSort),
          (''aria-label'', AText (tx t ''librarySortLabel''))]
          (map (\<lambda>(v, l). El ''option'' [(''value'', AText v)] [Txt l])
             [(''newest'', tx t ''librarySortNewest''), (''oldest'', tx t ''librarySortOldest''),
              (''title'', tx t ''librarySortTitle''), (''duration'', tx t ''librarySortDuration'')])]"

definition count_badge :: "nat \<Rightarrow> library_event node list" where
  "count_badge n = show_if (0 < n) (El ''span'' [] [Txt (dec n)])"

definition category_button :: "library \<Rightarrow> string \<Rightarrow> string \<Rightarrow> library_event node list \<Rightarrow> library_event node" where
  "category_button s value name badge =
     El ''button'' [(''onClick'', AEvent (PickCategory value)), (''active'', ABool (fi_category (lb_filters s) = value))]
       (El ''span'' [] [Txt name] # badge)"

fun child_categories :: "catalog_category \<Rightarrow> catalog_category list" where
  "child_categories c = (case cc_children c of Some cs \<Rightarrow> cs | None \<Rightarrow> [])"

definition category_nav :: "translator \<Rightarrow> library \<Rightarrow> library_event node list" where
  "category_nav t s =
     show_if (lb_categories s \<noteq> [])
       (El ''nav'' [(''aria-label'', AText (tx t ''navCategories''))]
          (category_button s [] (tx t ''libraryAllCategories'') [El ''span'' [] [Txt (dec (shown_total s))]] #
           concat (map (\<lambda>c.
             category_button s (dec_int (cc_id c)) (cc_name c) (count_badge (cc_count c)) #
             map (\<lambda>k. category_button s (dec_int (cc_id k)) (cc_name k) (count_badge (cc_count k)))
               (child_categories c)) (lb_categories s))))"

definition catalog_card :: "catalog_entry \<Rightarrow> library_event node" where
  "catalog_card e =
     El ''Link'' [(''href'', AText (''/play/'' @ ce_id e))]
       [El ''div'' []
          ((case ce_poster e of
              Some (c # u) \<Rightarrow> El ''img'' [(''src'', AText (c # u)), (''alt'', AText (ce_title e))] []
            | _ \<Rightarrow> El ''FilmIcon'' [] []) #
           (case ce_durationMs e of
              Some d \<Rightarrow> show_if (0 < d) (El ''span'' [] [Txt (formatDuration (Some d))])
            | None \<Rightarrow> [])),
        El ''div'' [] (El ''p'' [] [Txt (ce_title e)] #
          (case ce_category e of Some (c # k) \<Rightarrow> [El ''p'' [] [Txt (c # k)]] | _ \<Rightarrow> []))]"

definition catalog_view :: "translator \<Rightarrow> library \<Rightarrow> library_event node list" where
  "catalog_view t s =
     (case lb_error s of
        Some (c # e) \<Rightarrow> [El ''div'' [] [El ''FilmIcon'' [] [], El ''p'' [] [Txt (c # e)]]]
      | _ \<Rightarrow>
          if lb_loading s \<and> shown_items s = [] then
            [El ''div'' [] [LoadingCircle, El ''span'' [] [Txt (tx t ''loading'')]]]
          else if shown_items s = [] then
            [El ''div'' [] [El ''FilmIcon'' [] [],
               El ''p'' [] [Txt (if lb_q s \<noteq> [] \<or> fi_category (lb_filters s) \<noteq> [] then tx t ''libraryNoResults''
                               else tx t ''libraryEmpty'')]]]
          else
            El ''div'' [] (map catalog_card (shown_items s)) #
            show_if (hasMore s)
              (El ''Button'' [(''onClick'', AEvent LoadMore)] [Txt (tx t ''libraryLoadMore'')]))"

definition LibraryPage ::
  "translator \<Rightarrow> string \<Rightarrow> string \<Rightarrow> viewer_account option \<Rightarrow> library \<Rightarrow> library_event node" where
  "LibraryPage t siteName appVersion viewer s =
     El ''main'' []
       [library_header t siteName appVersion viewer,
        El ''div'' []
          [library_toolbar t s,
           El ''aside'' []
             (category_nav t s @ [El ''div'' [] [El ''FilmIcon'' [] [],
                El ''span'' [] [Txt (t ''libraryResults''
                  (Some [(''total'', VNat (shown_total s)), (''n'', VNat (shown_total s))]))]]]),
           El ''div'' [] (catalog_view t s)]]"

subsection \<open>Paging\<close>

text \<open>
  A server that pages a list of entries for every query, as the route is documented to: page
  \<open>p\<close> holds the entries from \<open>(p - 1) * limit\<close> on, and the total is the length of the list.
\<close>

definition serve :: "(filters \<Rightarrow> catalog_entry list) \<Rightarrow> filters \<Rightarrow> nat \<Rightarrow> catalog_response" where
  "serve catalog f p =
     \<lparr>cp_items = take PAGE_SIZE (drop (PAGE_SIZE * (p - 1)) (catalog f)), cp_total = length (catalog f),
      cp_page = p, cp_limit = PAGE_SIZE\<rparr>"

text \<open>The states of a visit without the two races the page does not guard against.  The filters
  may change at any moment, also while a further page is loading, whose answer is then the
  stale page of another query.  Left out are only: pressing the button before the first page
  of the current filters is there, and asking again for the first page of the very filters a
  page in flight was asked for (going back to them, or a change of the language).\<close>

inductive calm :: "translator \<Rightarrow> (filters \<Rightarrow> catalog_entry list) \<Rightarrow> library \<Rightarrow> bool"
  for t catalog where
  calm_start: "calm t catalog library_start"
| calm_type: "calm t catalog s \<Longrightarrow> calm t catalog (fst (library_step t (TypeQuery x) s))"
| calm_filter: "calm t catalog s \<Longrightarrow>
    e \<in> {DelayOver, LocaleChanged} \<or> (\<exists>x. e = PickCategory x \<or> e = PickSort x) \<Longrightarrow>
    s' = fst (library_step t e s) \<Longrightarrow>
    (\<And>f n. lb_more s = Some (f, n) \<Longrightarrow> s' = s \<or> lb_filters s' \<noteq> f) \<Longrightarrow>
    calm t catalog s'"
| calm_first: "calm t catalog s \<Longrightarrow> lb_first s = Some f \<Longrightarrow> r \<in> {None, Some (serve catalog f 1)} \<Longrightarrow>
    calm t catalog (fst (library_step t (FirstAnswer r) s))"
| calm_more: "calm t catalog s \<Longrightarrow> lb_first s = None \<Longrightarrow> lb_error s = None \<Longrightarrow> hasMore s \<Longrightarrow>
    calm t catalog (fst (library_step t LoadMore s))"
| calm_page: "calm t catalog s \<Longrightarrow> lb_more s = Some (f, n) \<Longrightarrow> r \<in> {None, Some (serve catalog f n)} \<Longrightarrow>
    calm t catalog (fst (library_step t (MoreAnswer r) s))"

text \<open>A page in flight is either the next page of the query on screen, or stale.\<close>

definition library_inv :: "(filters \<Rightarrow> catalog_entry list) \<Rightarrow> library \<Rightarrow> bool" where
  "library_inv catalog s \<longleftrightarrow>
     (\<forall>f. lb_first s = Some f \<longrightarrow> f = lb_filters s) \<and>
     (lb_first s = None \<and> lb_error s = None \<longrightarrow>
        lb_data s \<noteq> None \<and> 1 \<le> lb_page s \<and> shown_total s = length (catalog (lb_filters s)) \<and>
        shown_items s = take (PAGE_SIZE * lb_page s) (catalog (lb_filters s))) \<and>
     (case lb_more s of
        None \<Rightarrow> True
      | Some (f, n) \<Rightarrow> f = lb_filters s \<longrightarrow> n = lb_page s + 1 \<and> lb_first s = None \<and> lb_error s = None)"

lemma refilter_more [simp]:
  "lb_more (fst (refilter f s)) = lb_more s"
  by (simp add: refilter_def)

lemma inv_new_filters:
  assumes "library_inv catalog s"
    and "s' = s \<or> s' = s\<lparr>lb_filters := f, lb_first := Some f\<rparr>"
    and "\<And>g n. lb_more s = Some (g, n) \<Longrightarrow> s' = s \<or> lb_filters s' \<noteq> g"
  shows "library_inv catalog s'"
proof (cases "s' = s")
  case True
  with assms(1) show ?thesis by simp
next
  case False
  with assms(2,3) have "s' = s\<lparr>lb_filters := f, lb_first := Some f\<rparr>"
    "\<And>n. lb_more s \<noteq> Some (f, n)" by auto
  then show ?thesis by (auto simp: library_inv_def split: option.split)
qed

lemma refilter_cases:
  "fst (refilter f s) = s \<or> fst (refilter f s) = s\<lparr>lb_filters := f, lb_first := Some f\<rparr>"
  by (simp add: refilter_def)

lemma step_new_filters:
  assumes "e \<in> {DelayOver, LocaleChanged} \<or> (\<exists>x. e = PickCategory x \<or> e = PickSort x)"
  obtains f where "fst (library_step t e s) = s \<or>
    fst (library_step t e s) = s\<lparr>lb_filters := f, lb_first := Some f\<rparr>"
proof (cases "e = LocaleChanged")
  case True
  then have "fst (library_step t e s) = s\<lparr>lb_filters := lb_filters s, lb_first := Some (lb_filters s)\<rparr>"
    by simp
  then show ?thesis by (intro that disjI2)
next
  case False
  with assms consider "e = DelayOver" | x where "e = PickCategory x" | x where "e = PickSort x" by auto
  then show ?thesis
  proof cases
    case 1
    then show ?thesis
      using refilter_cases [of "(lb_filters s)\<lparr>fi_q := lb_q s\<rparr>" s] by (intro that) simp
  next
    case (2 x)
    then show ?thesis
      using refilter_cases [of "(lb_filters s)\<lparr>fi_category := x\<rparr>" s] by (intro that) simp
  next
    case (3 x)
    then show ?thesis
      using refilter_cases [of "(lb_filters s)\<lparr>fi_sort := x\<rparr>" s] by (intro that) simp
  qed
qed

lemma calm_inv: "calm t catalog s \<Longrightarrow> library_inv catalog s"
proof (induction rule: calm.induct)
  case calm_start
  then show ?case by (simp add: library_inv_def library_start_def)
next
  case (calm_type s x)
  then show ?case by (auto simp: library_inv_def shown_items_def shown_total_def split: option.splits)
next
  case (calm_filter s e s')
  obtain f where "s' = s \<or> s' = s\<lparr>lb_filters := f, lb_first := Some f\<rparr>"
    unfolding calm_filter(3) by (rule step_new_filters [OF calm_filter(2)])
  with calm_filter(5) show ?case using calm_filter(4) by (rule inv_new_filters)
next
  case (calm_first s f r)
  then show ?case
    by (auto simp: library_inv_def first_answer_def shown_items_def shown_total_def serve_def split: option.splits)
next
  case (calm_more s)
  then show ?case by (auto simp: library_inv_def loadMore_def shown_items_def shown_total_def split: option.splits)
next
  case (calm_page s f n r)
  show ?case
  proof (cases "r = None \<or> lb_filters s \<noteq> f")
    case True
    then have "more_answer r s = s\<lparr>lb_more := None\<rparr>"
      using calm_page(2) by (auto simp: more_answer_def Let_def split: option.split)
    with calm_page(4) show ?thesis by (simp add: library_inv_def shown_items_def shown_total_def)
  next
    case False
    then have f: "f = lb_filters s" and r: "r = Some (serve catalog f n)" using calm_page(3) by auto
    have n: "n = lb_page s + 1" "lb_first s = None" "lb_error s = None"
      "shown_items s = take (PAGE_SIZE * lb_page s) (catalog f)" "lb_data s \<noteq> None" "1 \<le> lb_page s"
      using calm_page(2,4) f by (simp_all add: library_inv_def)
    obtain d where d: "lb_data s = Some d" using n(5) by auto
    have app: "cp_items d @ cp_items (serve catalog f n) = take (PAGE_SIZE * n) (catalog f)"
      using n d take_add [of "PAGE_SIZE * lb_page s" PAGE_SIZE "catalog f"]
      by (simp add: shown_items_def serve_def algebra_simps)
    have "more_answer r s = s\<lparr>lb_more := None,
        lb_data := Some ((serve catalog f n)\<lparr>cp_items := take (PAGE_SIZE * n) (catalog f)\<rparr>), lb_page := n\<rparr>"
      using calm_page(2) f d r app by (simp add: more_answer_def)
    with n f show ?thesis by (simp add: library_inv_def shown_items_def shown_total_def serve_def)
  qed
qed

text \<open>C27: With a server that pages, whenever no first page is awaited and none has failed, the
  library shows exactly the first pages of the current query, in the server's order and
  without gaps or repetitions, under the server's total; when the button for more is gone,
  every entry is shown, and until then one more answered page extends the list by the next
  entries.  The filters may change at any moment, also while a further page loads (its stale
  answer is dropped).  The condition \<open>calm\<close>: the button is not pressed before the first page
  of the current filters is there, and while a page is loading its own query is not asked for
  afresh; outside it the page can skip entries (\<open>overtaken_page_skips\<close>).\<close>

theorem library_shows_prefix:
  assumes "calm t catalog s" and "lb_first s = None" and "lb_error s = None"
  shows "shown_items s = take (PAGE_SIZE * lb_page s) (catalog (lb_filters s)) \<and>
    shown_total s = length (catalog (lb_filters s)) \<and>
    (\<not> hasMore s \<longrightarrow> shown_items s = catalog (lb_filters s)) \<and>
    (hasMore s \<and> lb_more s = None \<longrightarrow>
       (let s' = fst (library_step t (MoreAnswer (Some (serve catalog (lb_filters s) (lb_page s + 1))))
                        (fst (library_step t LoadMore s)))
        in shown_items s' = take (PAGE_SIZE * (lb_page s + 1)) (catalog (lb_filters s)) \<and>
           length (shown_items s) < length (shown_items s')))"
proof -
  have inv: "shown_items s = take (PAGE_SIZE * lb_page s) (catalog (lb_filters s))"
    "shown_total s = length (catalog (lb_filters s))"
    using calm_inv [OF assms(1)] assms(2,3) by (auto simp: library_inv_def)
  let ?s1 = "fst (library_step t LoadMore s)"
  let ?s' = "fst (library_step t (MoreAnswer (Some (serve catalog (lb_filters s) (lb_page s + 1)))) ?s1)"
  have "shown_items ?s' = take (PAGE_SIZE * (lb_page s + 1)) (catalog (lb_filters s)) \<and>
      length (shown_items s) < length (shown_items ?s')" if more: "hasMore s" and idle: "lb_more s = None"
  proof -
    have s1: "?s1 = s\<lparr>lb_more := Some (lb_filters s, lb_page s + 1)\<rparr>" using idle by (simp add: loadMore_def)
    have "calm t catalog ?s1" using calm_more [OF assms more] .
    from calm_page [OF this, of "lb_filters s" "lb_page s + 1" "Some (serve catalog (lb_filters s) (lb_page s + 1))"]
    have "calm t catalog ?s'" using s1 by simp
    from calm_inv [OF this] s1 assms(2,3)
    have it: "shown_items ?s' = take (PAGE_SIZE * (lb_page s + 1)) (catalog (lb_filters s))"
      by (auto simp: library_inv_def more_answer_def)
    have "length (shown_items s) < length (catalog (lb_filters s))" using more inv by (simp add: hasMore_def)
    moreover have "0 < PAGE_SIZE" by (simp add: PAGE_SIZE_def)
    ultimately show ?thesis using it inv(1) by (auto simp: min_def split: if_splits)
  qed
  moreover have "shown_items s = catalog (lb_filters s)" if "\<not> hasMore s"
    using that inv by (simp add: hasMore_def)
  ultimately show ?thesis unfolding Let_def using inv by blast
qed

definition sample_catalog :: "filters \<Rightarrow> catalog_entry list" where
  "sample_catalog f = map (\<lambda>i. \<lparr>ce_id = dec i, ce_title = dec i, ce_slug = dec i, ce_categoryId = None,
     ce_category = None, ce_poster = None, ce_durationMs = None, ce_createdAt = []\<rparr>) [0..<30]"

text \<open>A visit whose filters change while a further page loads.\<close>

definition visit_first :: library where
  "visit_first = fst (library_step (\<lambda>k _. k) (FirstAnswer (Some (serve sample_catalog start_filters 1))) library_start)"

definition visit_stale :: library where
  "visit_stale = fst (library_step (\<lambda>k _. k) (PickCategory ''5'')
     (fst (library_step (\<lambda>k _. k) LoadMore visit_first)))"

definition visit_end :: library where
  "visit_end = fst (library_step (\<lambda>k _. k) (FirstAnswer (Some (serve sample_catalog (lb_filters visit_stale) 1)))
     (fst (library_step (\<lambda>k _. k) (MoreAnswer (Some (serve sample_catalog start_filters 2))) visit_stale)))"

lemmas visit_defs = visit_first_def visit_stale_def visit_end_def library_start_def start_filters_def
  first_answer_def more_answer_def loadMore_def refilter_def

lemma visit_ok:
  "lb_first visit_first = None" "lb_error visit_first = None" "lb_more visit_first = None"
  "lb_filters visit_first = start_filters" "hasMore visit_first"
  "lb_more visit_stale = Some (start_filters, 2)" "lb_filters visit_stale \<noteq> start_filters"
  "lb_first visit_stale = Some (lb_filters visit_stale)"
  "lb_first visit_end = None" "lb_error visit_end = None" "lb_page visit_end = 1"
  by (simp_all add: visit_defs serve_def sample_catalog_def hasMore_def shown_items_def shown_total_def PAGE_SIZE_def)

lemma calm_visit: "calm (\<lambda>k _. k) sample_catalog visit_end"
proof -
  let ?t = "\<lambda>k (_ :: vars option). k"
  have "calm ?t sample_catalog visit_first" unfolding visit_first_def
    by (rule calm_first [where f = start_filters, OF calm_start]) (simp_all add: library_start_def)
  from calm_more [OF this visit_ok(1,2,5)]
  have loading: "calm ?t sample_catalog (fst (library_step ?t LoadMore visit_first))" .
  have "lb_more (fst (library_step ?t LoadMore visit_first)) = Some (start_filters, 2)"
    using visit_ok(6) by (simp add: visit_stale_def)
  with visit_ok(7) have "calm ?t sample_catalog visit_stale"
    by (intro calm_filter [OF loading _ visit_stale_def]) auto
  from calm_page [OF this visit_ok(6)]
  have "calm ?t sample_catalog
      (fst (library_step ?t (MoreAnswer (Some (serve sample_catalog start_filters 2))) visit_stale))" by simp
  from calm_first [OF this, of "lb_filters visit_stale"]
  show ?thesis unfolding visit_end_def using visit_ok(6-8) by (simp add: more_answer_def)
qed

theorem library_shows_prefix_witness:
  "length (shown_items visit_end) = 24"
proof -
  have "shown_items visit_end = take 24 (sample_catalog (lb_filters visit_end))"
    using library_shows_prefix [OF calm_visit visit_ok(9,10)] visit_ok(11) by (simp add: PAGE_SIZE_def)
  then show ?thesis by (simp add: sample_catalog_def)
qed

text \<open>
  The main race the hypothesis leaves out: when the filters have changed and the button is pressed before
  the new first page has come, the page asked for is counted from the old query: the list then
  is the first page followed by a later one, with every page between them missing.
\<close>

lemma overtaken_page_skips:
  assumes "f = (lb_filters s)\<lparr>fi_category := c\<rparr>" and "f \<noteq> lb_filters s" and "lb_more s = None"
  shows "shown_items (more_answer (Some (serve catalog f (lb_page s + 1)))
      (first_answer t (Some (serve catalog f 1))
        (fst (loadMore (fst (refilter f s)))))) =
    cp_items (serve catalog f 1) @ cp_items (serve catalog f (lb_page s + 1))"
  using assms by (simp add: refilter_def loadMore_def first_answer_def more_answer_def shown_items_def Let_def)

end
