(* ===== verification/Charts.thy ===== *)
theory Charts
  imports QueryString Parts
begin

text \<open>
  The line chart \<open>web/components/svg-chart.tsx\<close>, the date range of the header
  \<open>web/components/analytics-range.tsx\<close> and the analytics page
  \<open>web/app/admin/analytics/page.tsx\<close>.  Days are dates of the Gregorian calendar; a text that is
  not a legal \<open>YYYY-MM-DD\<close> gives an invalid date, with which every comparison is false.
  Coordinates are exact.
\<close>

subsection \<open>Days\<close>

record day =
  dy_year :: nat
  dy_month :: nat
  dy_day :: nat

definition leap :: "nat \<Rightarrow> bool" where
  "leap y \<longleftrightarrow> y mod 4 = 0 \<and> (y mod 100 \<noteq> 0 \<or> y mod 400 = 0)"

definition month_days :: "nat \<Rightarrow> nat \<Rightarrow> nat" where
  "month_days y m = (if m = 2 then (if leap y then 29 else 28) else if m \<in> {4, 6, 9, 11} then 30 else 31)"

definition day_ok :: "day \<Rightarrow> bool" where
  "day_ok d \<longleftrightarrow> 1 \<le> dy_month d \<and> dy_month d \<le> 12 \<and> 1 \<le> dy_day d \<and>
     dy_day d \<le> month_days (dy_year d) (dy_month d)"

text \<open>\<open>d.setUTCDate(d.getUTCDate() + 1)\<close>.\<close>

definition next_day :: "day \<Rightarrow> day" where
  "next_day d =
     (if dy_day d < month_days (dy_year d) (dy_month d) then d\<lparr>dy_day := Suc (dy_day d)\<rparr>
      else if dy_month d < 12 then d\<lparr>dy_month := Suc (dy_month d), dy_day := 1\<rparr>
      else \<lparr>dy_year = Suc (dy_year d), dy_month = 1, dy_day = 1\<rparr>)"

text \<open>A number that orders valid days as time does.\<close>

definition day_ord :: "day \<Rightarrow> nat" where
  "day_ord d = 372 * dy_year d + 31 * dy_month d + dy_day d"

definition day_le :: "day \<Rightarrow> day \<Rightarrow> bool" where
  "day_le d e \<longleftrightarrow> dy_year d < dy_year e \<or> dy_year d = dy_year e \<and>
     (dy_month d < dy_month e \<or> dy_month d = dy_month e \<and> dy_day d \<le> dy_day e)"

definition two_digits :: "nat \<Rightarrow> string" where
  "two_digits n = [digit (n div 10 mod 10), digit (n mod 10)]"

text \<open>\<open>toISOString().slice(0, 10)\<close> up to the year 9999.\<close>

definition iso_day :: "day \<Rightarrow> string" where
  "iso_day d = two_digits (dy_year d div 100) @ two_digits (dy_year d) @ ''-'' @
     two_digits (dy_month d) @ ''-'' @ two_digits (dy_day d)"

fun parse_day :: "string \<Rightarrow> day option" where
  "parse_day [a, b, c, d, s1, e, f, s2, g, h] =
     (let x = \<lparr>dy_year = 1000 * undigit a + 100 * undigit b + 10 * undigit c + undigit d,
               dy_month = 10 * undigit e + undigit f, dy_day = 10 * undigit g + undigit h\<rparr>
      in if list_all is_digit [a, b, c, d, e, f, g, h] \<and> s1 = CHR ''-'' \<and> s2 = CHR ''-'' \<and> day_ok x
         then Some x else None)"
| "parse_day _ = None"

lemma month_days_bounds: "28 \<le> month_days y m" "month_days y m \<le> 31"
  by (auto simp: month_days_def)

lemma day_le_ord:
  assumes "day_ok d" and "day_ok e"
  shows "day_le d e \<longleftrightarrow> day_ord d \<le> day_ord e"
  using assms month_days_bounds(2) [of "dy_year d" "dy_month d"] month_days_bounds(2) [of "dy_year e" "dy_month e"]
  by (auto simp: day_le_def day_ord_def day_ok_def)

lemma next_day_ok: "day_ok d \<Longrightarrow> day_ok (next_day d)"
  using month_days_bounds(1) [of "Suc (dy_year d)" 1] month_days_bounds(1) [of "dy_year d" "Suc (dy_month d)"]
  by (auto simp: day_ok_def next_day_def)

lemma next_day_ord: "day_ok d \<Longrightarrow> day_ord d < day_ord (next_day d)"
  using month_days_bounds(2) [of "dy_year d" "dy_month d"]
  by (auto simp: day_ok_def next_day_def day_ord_def)

text \<open>No day lies between a day and the next.\<close>

lemma next_day_least:
  assumes "day_ok d" and "day_ok e" and "day_le d e" and "d \<noteq> e"
  shows "day_le (next_day d) e"
proof -
  obtain y m x where d: "d = \<lparr>dy_year = y, dy_month = m, dy_day = x\<rparr>" by (cases d) auto
  obtain y' m' x' where e: "e = \<lparr>dy_year = y', dy_month = m', dy_day = x'\<rparr>" by (cases e) auto
  show ?thesis using assms by (auto simp: d e day_ok_def day_le_def next_day_def)
qed

lemma digit_undigit: "is_digit c \<Longrightarrow> digit (undigit c) = c"
  by (auto simp: is_digit_def digit_def undigit_def)

lemma undigit_less: "is_digit c \<Longrightarrow> undigit c < 10"
  by (auto simp: is_digit_def undigit_def)

lemma iso_parse:
  assumes "parse_day s = Some d"
  shows "iso_day d = s \<and> day_ok d"
  using assms
proof (induction s rule: parse_day.induct)
  case (1 a b c d' s1 e f s2 g h)
  then have dig: "is_digit a" "is_digit b" "is_digit c" "is_digit d'" "is_digit e" "is_digit f"
      "is_digit g" "is_digit h" "s1 = CHR ''-''" "s2 = CHR ''-''" and ok: "day_ok d"
    and d: "d = \<lparr>dy_year = 1000 * undigit a + 100 * undigit b + 10 * undigit c + undigit d',
               dy_month = 10 * undigit e + undigit f, dy_day = 10 * undigit g + undigit h\<rparr>"
    by (auto simp: Let_def split: if_splits)
  have two: "two_digits (100 * k + 10 * u + v) = [digit u, digit v]" if "u < 10" "v < 10" for k u v
  proof -
    have m: "(x + w * 10) mod 10 = x" "(x + w * 10) div 10 = w" if "x < 10" for x w :: nat
      using that by simp_all
    have "100 * k + 10 * u + v = v + (u + k * 10) * 10" by simp
    then show ?thesis by (simp only: two_digits_def m [OF \<open>u < 10\<close>] m [OF \<open>v < 10\<close>])
  qed
  note less = undigit_less [OF dig(1)] undigit_less [OF dig(2)] undigit_less [OF dig(3)] undigit_less [OF dig(4)]
    undigit_less [OF dig(5)] undigit_less [OF dig(6)] undigit_less [OF dig(7)] undigit_less [OF dig(8)]
  have "dy_year d = 100 * (10 * undigit a + undigit b) + 10 * undigit c + undigit d'" by (simp add: d)
  then have "two_digits (dy_year d) = [digit (undigit c), digit (undigit d')]"
    using two [of "undigit c" "undigit d'" "10 * undigit a + undigit b"] less by simp
  moreover have "dy_year d div 100 = 10 * undigit a + undigit b" using less by (simp add: d)
  then have "two_digits (dy_year d div 100) = [digit (undigit a), digit (undigit b)]"
    using two [of "undigit a" "undigit b" 0] less by simp
  moreover have "two_digits (dy_month d) = [digit (undigit e), digit (undigit f)]"
    using two [of "undigit e" "undigit f" 0] less by (simp add: d)
  moreover have "two_digits (dy_day d) = [digit (undigit g), digit (undigit h)]"
    using two [of "undigit g" "undigit h" 0] less by (simp add: d)
  ultimately have "iso_day d = [digit (undigit a), digit (undigit b), digit (undigit c), digit (undigit d'), CHR ''-'',
      digit (undigit e), digit (undigit f), CHR ''-'', digit (undigit g), digit (undigit h)]"
    by (simp only: iso_day_def) simp
  then show ?case using dig ok by (simp add: digit_undigit)
qed simp_all

subsection \<open>Padding a range\<close>

function day_range :: "day \<Rightarrow> day \<Rightarrow> day list" where
  "day_range d e =
     (if day_ok d \<and> day_ok e \<and> day_le d e then d # day_range (next_day d) e else [])"
  by pat_completeness auto

termination
proof (relation "measure (\<lambda>(d, e). Suc (day_ord e) - day_ord d)")
  fix d e
  assume "day_ok d \<and> day_ok e \<and> day_le d e"
  then have "day_ord d \<le> day_ord e" "day_ord d < day_ord (next_day d)"
    by (auto simp: day_le_ord next_day_ord)
  then show "((next_day d, e), d, e) \<in> measure (\<lambda>(d, e). Suc (day_ord e) - day_ord d)" by simp
qed simp

declare day_range.simps [simp del]

definition padRange :: "(string \<times> rat) list \<Rightarrow> string \<Rightarrow> string \<Rightarrow> (string \<times> rat) list" where
  "padRange points from to =
     (case (parse_day from, parse_day to) of
        (Some d, Some e) \<Rightarrow>
          map (\<lambda>x. (iso_day x, case by_day points (iso_day x) of Some v \<Rightarrow> v | None \<Rightarrow> 0)) (day_range d e)
      | _ \<Rightarrow> [])"

lemma day_range_chain:
  assumes "day_ok d" and "day_ok e" and "day_le d e"
  shows "day_range d e \<noteq> [] \<and> hd (day_range d e) = d \<and> last (day_range d e) = e \<and>
    (\<forall>i. Suc i < length (day_range d e) \<longrightarrow> day_range d e ! Suc i = next_day (day_range d e ! i))"
  using assms
proof (induction d e rule: day_range.induct)
  case (1 d e)
  have unf: "day_range d e = d # day_range (next_day d) e" using 1(2-4) by (simp add: day_range.simps [of d e])
  show ?case
  proof (cases "d = e")
    case True
    have "\<not> day_le (next_day d) e"
      using True 1(2) next_day_ord [OF 1(2)] day_le_ord [OF next_day_ok [OF 1(2)] 1(3)] by simp
    then have "day_range (next_day d) e = []" by (simp add: day_range.simps [of "next_day d"])
    then show ?thesis using unf True by simp
  next
    case False
    note IH = 1(1) [OF _ next_day_ok [OF 1(2)] 1(3) next_day_least [OF 1(2,3,4) False]]
    show ?thesis using IH 1(2-4) unfolding unf by (auto simp: nth_Cons hd_conv_nth split: nat.splits)
  qed
qed

text \<open>C28: For a range of two legal days in order, the series of the chart starts with the first day,
  ends with the last and has every day between them once, in order; each shows its last
  reported value, or zero.\<close>

theorem padRange_covers:
  assumes "parse_day from = Some d" and "parse_day to = Some e" and "day_le d e"
  shows "padRange points from to \<noteq> [] \<and> fst (hd (padRange points from to)) = from \<and>
    fst (last (padRange points from to)) = to \<and>
    (\<forall>i < length (padRange points from to). \<exists>x. day_ok x \<and> fst (padRange points from to ! i) = iso_day x \<and>
       (Suc i < length (padRange points from to) \<longrightarrow>
          fst (padRange points from to ! Suc i) = iso_day (next_day x)) \<and>
       snd (padRange points from to ! i) =
         (case map_of (rev points) (iso_day x) of Some v \<Rightarrow> v | None \<Rightarrow> 0))"
proof -
  have ok: "iso_day d = from" "day_ok d" "iso_day e = to" "day_ok e"
    using iso_parse [OF assms(1)] iso_parse [OF assms(2)] by auto
  note chain = day_range_chain [OF ok(2,4) assms(3)]
  have all_ok: "day_ok x" if "x \<in> set (day_range d e)" for x
    using that
  proof (induction d e rule: day_range.induct)
    case (1 d e)
    then show ?case by (subst (asm) (2) day_range.simps) (auto split: if_splits)
  qed
  have p: "padRange points from to =
      map (\<lambda>x. (iso_day x, case by_day points (iso_day x) of Some v \<Rightarrow> v | None \<Rightarrow> 0)) (day_range d e)"
    using assms(1,2) by (simp add: padRange_def)
  show ?thesis
    using chain ok(1,3) all_ok unfolding p
    by (auto simp: hd_map last_map by_day_def intro!: exI nth_mem)
qed

theorem padRange_covers_witness:
  "map fst (padRange [] ''2024-02-28'' ''2024-03-01'') \<noteq> [] \<and>
   fst (hd (padRange [] ''2024-02-28'' ''2024-03-01'')) = ''2024-02-28''"
proof -
  have "parse_day ''2024-02-28'' = Some \<lparr>dy_year = 2024, dy_month = 2, dy_day = 28\<rparr>"
    "parse_day ''2024-03-01'' = Some \<lparr>dy_year = 2024, dy_month = 3, dy_day = 1\<rparr>"
    by (simp_all add: is_digit_def undigit_def day_ok_def month_days_def leap_def)
  from padRange_covers [OF this, of "[]"] show ?thesis by (simp add: day_le_def)
qed

subsection \<open>The chart\<close>

definition chart_width :: rat where "chart_width = 640"
definition chart_pad :: rat where "chart_pad = 24"

definition chart_max :: "(string \<times> rat) list \<Rightarrow> rat" where
  "chart_max points = fold max (map snd points) 1"

definition chart_x :: "nat \<Rightarrow> nat \<Rightarrow> rat" where
  "chart_x n i =
     (let innerW = chart_width - chart_pad * 2
      in chart_pad + (if n = 1 then innerW / 2 else of_nat i / (of_nat n - 1) * innerW))"

definition chart_y :: "rat \<Rightarrow> rat \<Rightarrow> rat \<Rightarrow> rat" where
  "chart_y height highest v =
     (let innerH = height - chart_pad * 2 in chart_pad + innerH - v / highest * innerH)"

definition chart_coords :: "rat \<Rightarrow> (string \<times> rat) list \<Rightarrow> (rat \<times> rat) list" where
  "chart_coords height points =
     map (\<lambda>(i, p). (chart_x (length points) i, chart_y height (chart_max points) (snd p)))
       (zip [0..<length points] points)"

definition coord_text :: "(rat \<times> rat) list \<Rightarrow> string" where
  "coord_text cs = join_with '' '' (map (\<lambda>(x, y). rat_text x @ '','' @ rat_text y) cs)"

definition tooltipLeft :: "rat \<Rightarrow> rat" where
  "tooltipLeft hx = min 88 (max 12 (hx / chart_width * 100))"

datatype chart_event = Hover nat | Unhover

definition chart_circle :: "rat \<times> rat \<Rightarrow> nat \<Rightarrow> string \<times> rat \<Rightarrow> chart_event node" where
  "chart_circle c i p =
     El ''circle'' [(''cx'', ANum (Fin (fst c))), (''cy'', ANum (Fin (snd c))),
        (''aria-label'', AText (fst p @ '': '' @ rat_text (snd p))),
        (''onMouseEnter'', AEvent (Hover i)), (''onFocus'', AEvent (Hover i)), (''onBlur'', AEvent Unhover)] []"

definition hover_line :: "rat \<Rightarrow> rat \<Rightarrow> rat \<Rightarrow> chart_event node" where
  "hover_line height hx hy =
     El ''g'' [] [El ''line'' [(''x1'', ANum (Fin hx)), (''x2'', ANum (Fin hx)), (''y1'', ANum (Fin chart_pad)),
         (''y2'', ANum (Fin (height - chart_pad)))] [],
       El ''circle'' [(''cx'', ANum (Fin hx)), (''cy'', ANum (Fin hy))] []]"

definition grid_line :: "rat \<Rightarrow> rat \<Rightarrow> chart_event node" where
  "grid_line height f =
     (let y = chart_pad + (height - chart_pad * 2) - f * (height - chart_pad * 2)
      in El ''line'' [(''x1'', ANum (Fin chart_pad)), (''x2'', ANum (Fin (chart_width - chart_pad))),
        (''y1'', ANum (Fin y)), (''y2'', ANum (Fin y))] [])"

definition SvgChart ::
  "translator \<Rightarrow> rat \<Rightarrow> nat option \<Rightarrow> (string \<times> rat) list \<Rightarrow> chart_event node" where
  "SvgChart t height hover points =
     (if points = [] then El ''p'' [] [Txt (tx t ''chartNoData'')]
      else
        let cs = chart_coords height points; n = length points; bottom = height - chart_pad;
            area = (chart_pad, bottom) # cs @ [(chart_x n (n - 1), bottom)] in
        El ''div'' []
          (El ''svg'' [(''role'', AText ''img''), (''onMouseLeave'', AEvent Unhover)]
             (map (grid_line height) [1 / 4, 1 / 2, 3 / 4, 1] @
              [El ''polygon'' [(''points'', AText (coord_text area))] [],
               El ''polyline'' [(''points'', AText (coord_text cs))] []] @
              map (\<lambda>(i, c, p). chart_circle c i p) (zip [0..<n] (zip cs points)) @
              (case hover of Some h \<Rightarrow> [hover_line height (fst (cs ! h)) (snd (cs ! h))] | None \<Rightarrow> []) @
              [El ''text'' [] [Txt (fst (hd points))], El ''text'' [] [Txt (fst (last points))]]) #
           (case hover of
              Some h \<Rightarrow>
                [El ''div'' [(''left'', ANum (Fin (tooltipLeft (fst (cs ! h))))),
                   (''top'', ANum (Fin (snd (cs ! h) / height * 100)))]
                   [El ''span'' [] [Txt (fst (points ! h))], El ''span'' [] [Txt (rat_text (snd (points ! h)))]]]
            | None \<Rightarrow> [])))"

lemma chart_max_bounds: "1 \<le> chart_max points \<and> (\<forall>p\<in>set points. snd p \<le> chart_max points)"
proof -
  have "a \<le> fold max xs a \<and> (\<forall>x\<in>set xs. x \<le> fold max xs a)" for xs and a :: rat
    by (induction xs arbitrary: a) (auto, (meson max.bounded_iff max.cobounded1 order_trans)+)
  then show ?thesis unfolding chart_max_def by auto
qed

text \<open>The chart draws inside its frame: with values that are not negative every point lies between
  the margins, the curve runs from the left margin to the right one with increasing
  positions, a larger value lies higher, and the tooltip stays away from the edges.\<close>

theorem chart_inside_frame:
  assumes "\<forall>p\<in>set points. 0 \<le> snd p" and "chart_pad * 2 \<le> height" and "i < length points"
  shows "chart_pad \<le> fst (chart_coords height points ! i) \<and>
    fst (chart_coords height points ! i) \<le> chart_width - chart_pad \<and>
    chart_pad \<le> snd (chart_coords height points ! i) \<and>
    snd (chart_coords height points ! i) \<le> height - chart_pad \<and>
    (Suc i < length points \<longrightarrow>
       fst (chart_coords height points ! i) < fst (chart_coords height points ! Suc i)) \<and>
    (\<forall>j < length points. snd (points ! i) \<le> snd (points ! j) \<longrightarrow>
       snd (chart_coords height points ! j) \<le> snd (chart_coords height points ! i)) \<and>
    12 \<le> tooltipLeft (fst (chart_coords height points ! i)) \<and>
    tooltipLeft (fst (chart_coords height points ! i)) \<le> 88"
proof -
  let ?n = "length points" and ?m = "chart_max points" and ?h = "height - chart_pad * 2"
  have at: "chart_coords height points ! k = (chart_x ?n k, chart_y height ?m (snd (points ! k)))" if "k < ?n" for k
    using that by (simp add: chart_coords_def)
  have m: "1 \<le> ?m" and le: "k < ?n \<Longrightarrow> snd (points ! k) \<le> ?m" for k
    using chart_max_bounds [of points] by auto
  have share: "0 \<le> of_nat i / (of_nat ?n - 1 :: rat) \<and> of_nat i / (of_nat ?n - 1 :: rat) \<le> 1" if "?n \<noteq> 1"
  proof -
    have "0 < (of_nat ?n - 1 :: rat)" "of_nat i \<le> (of_nat ?n - 1 :: rat)" using that assms(3) by auto
    then show ?thesis by simp
  qed
  have x: "chart_pad \<le> chart_x ?n i \<and> chart_x ?n i \<le> chart_width - chart_pad"
  proof (cases "?n = 1")
    case False
    define q where "q = of_nat i / (of_nat ?n - 1 :: rat)"
    have "chart_x ?n i = 24 + q * 592" using False by (simp add: chart_x_def chart_width_def chart_pad_def q_def)
    moreover have "0 \<le> q" "q \<le> 1" using share [OF False] by (simp_all add: q_def)
    ultimately show ?thesis by (simp add: chart_width_def chart_pad_def)
  qed (simp add: chart_x_def chart_width_def chart_pad_def)
  have inc: "chart_x ?n i < chart_x ?n (Suc i)" if "Suc i < ?n"
  proof -
    have "0 < (of_nat ?n - 1 :: rat)" "?n \<noteq> 1" using that by auto
    then show ?thesis by (simp add: chart_x_def chart_width_def chart_pad_def Let_def divide_strict_right_mono)
  qed
  have "0 \<le> snd (points ! i) / ?m" "snd (points ! i) / ?m \<le> 1" using m le [OF assms(3)] assms(1,3) by auto
  then have "0 \<le> snd (points ! i) / ?m * ?h" "snd (points ! i) / ?m * ?h \<le> ?h"
    using assms(2) by (metis diff_ge_0_iff_ge mult_nonneg_nonneg, metis diff_ge_0_iff_ge mult_left_le_one_le)
  then have y: "chart_pad \<le> chart_y height ?m (snd (points ! i))"
    "chart_y height ?m (snd (points ! i)) \<le> height - chart_pad"
    by (auto simp: chart_y_def Let_def)
  have mono: "chart_y height ?m b \<le> chart_y height ?m a" if "a \<le> b" for a b
    using that m assms(2) by (simp add: chart_y_def Let_def mult_right_mono divide_right_mono)
  show ?thesis using at x y inc mono assms(3) by (auto simp: tooltipLeft_def)
qed

theorem chart_inside_frame_witness:
  "snd (chart_coords 160 [(''a'', 3), (''b'', 5)] ! 1) \<le> snd (chart_coords 160 [(''a'', 3), (''b'', 5)] ! 0) \<and>
   chart_pad \<le> fst (chart_coords 160 [(''a'', 3), (''b'', 5)] ! 0)"
proof -
  have "\<forall>p\<in>set [(''a'', 3 :: rat), (''b'', 5)]. 0 \<le> snd p" "chart_pad * 2 \<le> (160 :: rat)"
    "0 < length [(''a'', 3 :: rat), (''b'', 5)]" by (simp_all add: chart_pad_def)
  from chart_inside_frame [OF this] show ?thesis by auto
qed

subsection \<open>The range in the address\<close>

definition range_path :: "string \<Rightarrow> string \<Rightarrow> string" where
  "range_path from to = ''/admin/analytics?from='' @ from @ ''&to='' @ to"

text \<open>\<open>day_key i\<close> is the ISO date of \<open>i\<close> days ago.\<close>

definition defaultRange :: "(nat \<Rightarrow> string) \<Rightarrow> string \<times> string" where
  "defaultRange day_key = (day_key 13, day_key 0)"

definition range_effect :: "(nat \<Rightarrow> string) \<Rightarrow> string \<Rightarrow> string \<Rightarrow> 'a web_effect list" where
  "range_effect day_key from to =
     (if from \<noteq> [] \<and> to \<noteq> [] then []
      else case defaultRange day_key of (f, e) \<Rightarrow> [GoTo (range_path f e)])"

datatype range_event = PickFrom string | PickTo string

fun range_step :: "string \<Rightarrow> string \<Rightarrow> range_event \<Rightarrow> 'a web_effect list" where
  "range_step from to (PickFrom v) = [GoTo (range_path v to)]"
| "range_step from to (PickTo v) = [GoTo (range_path from v)]"

definition AnalyticsRange :: "string \<Rightarrow> string \<Rightarrow> range_event node" where
  "AnalyticsRange from to =
     El ''div'' []
       [El ''DatePicker'' ((''value'', AText from) # (if to \<noteq> [] then [(''max'', AText to)] else []) @
          [(''onChange'', AInput PickFrom), (''aria-label'', AText ''From'')]) [],
        El ''span'' [] [Txt endash],
        El ''DatePicker'' ((''value'', AText to) # (if from \<noteq> [] then [(''min'', AText from)] else []) @
          [(''onChange'', AInput PickTo), (''aria-label'', AText ''To'')]) []]"

subsection \<open>The analytics page\<close>

record summary_totals =
  sm_entries :: nat
  sm_plays :: nat
  sm_watchSeconds :: nat
  sm_bytes :: nat

record top_entry =
  te_publicId :: string
  te_title :: string
  te_plays :: nat
  te_watchSeconds :: nat
  te_bytes :: nat

record summary =
  sy_totals :: summary_totals
  sy_series :: "analytics_day list option"
  sy_topEntries :: "top_entry list option"

definition summary_path :: "string \<Rightarrow> string \<Rightarrow> string" where
  "summary_path from to = ''/api/analytics/summary?'' @
     query_string ((if from \<noteq> [] then [(''from'', from)] else []) @ (if to \<noteq> [] then [(''to'', to)] else []))"

text \<open>Every load, on entry, on a new range and every thirty seconds while the page is visible.\<close>

definition analytics_load :: "string \<Rightarrow> string \<Rightarrow> 'a web_effect list" where
  "analytics_load from to = [Request ''GET'' (summary_path from to) None]"

definition analytics_tick :: "bool \<Rightarrow> string \<Rightarrow> string \<Rightarrow> 'a web_effect list" where
  "analytics_tick visible from to = (if visible then analytics_load from to else [])"

definition analytics_answer :: "summary option \<Rightarrow> summary option \<Rightarrow> summary option" where
  "analytics_answer answer prev = (case answer of Some d \<Rightarrow> Some d | None \<Rightarrow> prev)"

definition plays_series :: "summary \<Rightarrow> string \<Rightarrow> string \<Rightarrow> (string \<times> rat) list" where
  "plays_series d from to =
     padRange (map (\<lambda>x. (ad_day x, of_nat (ad_plays x))) (case sy_series d of Some xs \<Rightarrow> xs | None \<Rightarrow> [])) from to"

definition watch_series :: "summary \<Rightarrow> string \<Rightarrow> string \<Rightarrow> (string \<times> rat) list" where
  "watch_series d from to =
     padRange (map (\<lambda>x. (ad_day x, of_int \<lfloor>of_nat (ad_watchSeconds x) / 60 + (1 / 2 :: rat)\<rfloor>))
       (case sy_series d of Some xs \<Rightarrow> xs | None \<Rightarrow> [])) from to"

datatype analytics_event = OpenEntry string | PlaysChart chart_event | WatchChart chart_event

definition analytics_cards :: "translator \<Rightarrow> summary \<Rightarrow> (string \<times> string \<times> string) list" where
  "analytics_cards t d =
     [(tx t ''statPlays'', dec (sm_plays (sy_totals d)), ''PlayIcon''),
      (tx t ''statViewers'', dec (sm_entries (sy_totals d)), ''UsersIcon''),
      (tx t ''statWatchTime'', formatWatchHours (sm_watchSeconds (sy_totals d)) @ '' h'', ''ClockIcon''),
      (tx t ''statBandwidth'', formatGb (sm_bytes (sy_totals d)) @ '' GB'', ''ActivityIcon'')]"

definition AnalyticsSkeleton :: "analytics_event node" where
  "AnalyticsSkeleton =
     El ''div'' [] [El ''div'' [] (replicate 4 (El ''Skeleton'' [] [])), El ''Skeleton'' [] []]"

definition top_row :: "translator \<Rightarrow> top_entry \<Rightarrow> analytics_event node" where
  "top_row t e =
     El ''TableRow'' []
       [cell [El ''FilmIcon'' [] [], click ''button'' (OpenEntry (te_publicId e)) False
          (if te_title e \<noteq> [] then te_title e else tx t ''untitled'')],
        cell [Txt (dec (te_plays e))], cell [Txt (formatWatchHours (te_watchSeconds e) @ '' h'')],
        cell [Txt (formatGb (te_bytes e) @ '' GB'')]]"

definition AnalyticsInner ::
  "translator \<Rightarrow> string \<Rightarrow> string \<Rightarrow> nat option \<Rightarrow> nat option \<Rightarrow> summary option \<Rightarrow> analytics_event node list" where
  "AnalyticsInner t from to hoverPlays hoverWatch data =
     (case data of
        None \<Rightarrow> [AnalyticsSkeleton]
      | Some d \<Rightarrow>
          [El ''div'' [] (map (\<lambda>(title, val, icon). kpi_card title icon val (tx t ''analyticsRangeHint''))
             (analytics_cards t d)),
           El ''Card'' [] [El ''CardTitle'' [] [Txt (tx t ''chartPlays'')],
             map_node PlaysChart (SvgChart t 160 hoverPlays (plays_series d from to))],
           El ''Card'' [] [El ''CardTitle'' [] [Txt (tx t ''chartWatch'')],
             map_node WatchChart (SvgChart t 160 hoverWatch (watch_series d from to))],
           El ''Card'' [] [El ''CardTitle'' [] [Txt (tx t ''analyticsTopEntries'')],
             (case sy_topEntries d of
                Some (e # es) \<Rightarrow>
                  table_page [tx t ''colEntry'', tx t ''colPlays'', tx t ''colWatchTime'', tx t ''colBandwidth'']
                    (map (top_row t) (e # es))
              | _ \<Rightarrow> EmptyState ''BarChartIcon'' None (Some (tx t ''analyticsEmpty'')) None)]])"

end
