(* ===== verification/Forms.thy ===== *)
theory Forms
  imports Parts Validators
begin

text \<open>
  What the forms and lists of the admin pages share: a dialog with a form whose save button is
  disabled while a save runs, and the deletion of a row after a question.
\<close>

subsection \<open>Requests among effects\<close>

abbreviation requests :: "'a web_effect list \<Rightarrow> nat" where
  "requests es \<equiv> length (filter is_request es)"

fun closes :: "'a web_effect \<Rightarrow> bool" where
  "closes CloseDlg = True"
| "closes _ = False"

fun succeeded :: "'r reply \<Rightarrow> bool" where
  "succeeded (Ok x) = True"
| "succeeded _ = False"

subsection \<open>A form that saves\<close>

datatype ('e, 'r) form_event = Edit 'e | Submit | Saved "'r reply"

locale save_form =
  fixes pending :: "'s \<Rightarrow> bool"
    and edit :: "'e \<Rightarrow> 's \<Rightarrow> 's"
    and submit :: "'s \<Rightarrow> 's \<times> 'a web_effect list"
    and saved :: "'r reply \<Rightarrow> 's \<Rightarrow> 's \<times> 'a web_effect list"
  assumes edit_pending: "pending (edit e s) = pending s"
    and submit_sends: "\<not> pending s \<Longrightarrow> requests (snd (submit s)) = (if pending (fst (submit s)) then 1 else 0)"
    and submit_stays: "\<not> list_ex closes (snd (submit s))"
    and saved_ends: "\<not> pending (fst (saved r s)) \<and> requests (snd (saved r s)) = 0"
    and saved_closes: "list_ex closes (snd (saved r s)) \<longleftrightarrow> succeeded r"
begin

fun step :: "('e, 'r) form_event \<Rightarrow> 's \<Rightarrow> 's \<times> 'a web_effect list" where
  "step (Edit e) s = (edit e s, [])"
| "step Submit s = submit s"
| "step (Saved r) s = saved r s"

text \<open>The button is disabled while a save runs; an answer needs a save.\<close>

fun enabled :: "('e, 'r) form_event \<Rightarrow> 's \<Rightarrow> bool" where
  "enabled (Edit e) s \<longleftrightarrow> True"
| "enabled Submit s \<longleftrightarrow> \<not> pending s"
| "enabled (Saved r) s \<longleftrightarrow> pending s"

fun run :: "('e, 'r) form_event list \<Rightarrow> 's \<Rightarrow> 's \<times> 'a web_effect list" where
  "run [] s = (s, [])"
| "run (e # es) s =
     (case step e s of (s1, xs) \<Rightarrow> case run es s1 of (s2, ys) \<Rightarrow> (s2, xs @ ys))"

fun enabled_run :: "('e, 'r) form_event list \<Rightarrow> 's \<Rightarrow> bool" where
  "enabled_run [] s \<longleftrightarrow> True"
| "enabled_run (e # es) s \<longleftrightarrow> enabled e s \<and> enabled_run es (fst (step e s))"

fun is_answer :: "('e, 'r) form_event \<Rightarrow> bool" where
  "is_answer (Saved r) = True"
| "is_answer _ = False"

fun is_success :: "('e, 'r) form_event \<Rightarrow> bool" where
  "is_success (Saved r) = succeeded r"
| "is_success _ = False"

text \<open>Every save is answered before the next is sent, and only a success closes the dialog.\<close>

lemma saves_accounted:
  assumes "enabled_run es s"
  shows "requests (snd (run es s)) + (if pending s then 1 else 0) =
    length (filter is_answer es) + (if pending (fst (run es s)) then 1 else 0)"
  using assms
proof (induction es arbitrary: s)
  case (Cons e es)
  obtain s1 xs where s1: "step e s = (s1, xs)" by fastforce
  obtain s2 ys where s2: "run es s1 = (s2, ys)" by fastforce
  have IH: "requests ys + (if pending s1 then 1 else 0) =
      length (filter is_answer es) + (if pending s2 then 1 else 0)"
    using Cons.IH [of s1] Cons.prems s1 s2 by simp
  show ?case
  proof (cases e)
    case (Edit x)
    then show ?thesis using IH s1 s2 edit_pending [of x s] by auto
  next
    case Submit
    then show ?thesis using IH s1 s2 Cons.prems submit_sends [of s] by auto
  next
    case (Saved r)
    then show ?thesis using IH s1 s2 Cons.prems saved_ends [of r s] by auto
  qed
qed simp

lemma one_save_at_a_time:
  assumes "enabled_run es s" and "\<not> pending s"
  shows "length (filter is_answer es) \<le> requests (snd (run es s)) \<and>
    requests (snd (run es s)) \<le> Suc (length (filter is_answer es))"
  using saves_accounted [OF assms(1)] assms(2) by (auto split: if_splits)

lemma closes_by_success:
  "list_ex closes (snd (run es s)) \<longleftrightarrow> list_ex is_success es"
proof (induction es arbitrary: s)
  case (Cons e es)
  obtain s1 xs where s1: "step e s = (s1, xs)" by fastforce
  obtain s2 ys where s2: "run es s1 = (s2, ys)" by fastforce
  have "list_ex closes xs \<longleftrightarrow> is_success e"
  proof (cases e)
    case (Saved r)
    then show ?thesis using s1 saved_closes [of r s] by simp
  qed (use s1 submit_stays [of s] in auto)
  then show ?case using Cons.IH [of s1] s1 s2 by simp
qed simp

end

subsection \<open>Deleting a row\<close>

text \<open>
  The question, the request of its confirmation and the answer.  Where the confirm box has an
  \<open>onError\<close> of its own (\<open>twice\<close>), a failure is reported by the mutation and by the box.
\<close>

definition ask_remove ::
  "translator \<Rightarrow> string \<Rightarrow> string \<Rightarrow> variant option \<Rightarrow> 'a \<Rightarrow> 'a web_effect list" where
  "ask_remove t title desc v act =
     [AskConfirm (ask title desc (tx t ''delete'') (tx t ''cancel'') v) act]"

definition delete_request :: "string \<Rightarrow> int \<Rightarrow> 'a web_effect list" where
  "delete_request base i = [Request ''DELETE'' (base @ dec_int i) None]"

definition delete_answer :: "translator \<Rightarrow> string \<Rightarrow> bool \<Rightarrow> unit reply \<Rightarrow> 'a web_effect list" where
  "delete_answer t key twice r =
     (case r of
        Ok _ \<Rightarrow> [Toast ToastSuccess (tx t ''deleted''), Invalidate [key]]
      | _ \<Rightarrow> Toast ToastError (error_text r) # (if twice then [Toast ToastError (error_text r)] else []))"

lemma delete_answer_refreshes:
  "Invalidate [key] \<in> set (delete_answer t key twice r) \<longleftrightarrow> succeeded r"
  by (cases r) (auto simp: delete_answer_def)

text \<open>One failed deletion is reported twice by the pages whose question handles errors too.\<close>

lemma failure_reported_twice:
  "delete_answer t key True (ApiErr m) = [Toast ToastError m, Toast ToastError m]"
  by (simp add: delete_answer_def)

subsection \<open>Saving\<close>

definition saved_effects :: "string \<Rightarrow> string \<Rightarrow> 'a web_effect list" where
  "saved_effects msg key = [Toast ToastSuccess msg, Invalidate [key], CloseDlg]"

definition form_buttons :: "translator \<Rightarrow> 'e \<Rightarrow> 'e \<Rightarrow> bool \<Rightarrow> bool \<Rightarrow> string \<Rightarrow> 'e node" where
  "form_buttons t cancel submit pending blocked label =
     El ''DialogFooter'' []
       [click ''Button'' cancel pending (tx t ''cancel''),
        click ''Button'' submit (pending \<or> blocked) (if pending then tx t ''loading'' else label)]"

lemma form_buttons_events [simp]:
  "node_events (form_buttons t c e pending blocked l) =
     (if pending then [] else [c]) @ (if pending \<or> blocked then [] else [e])"
  by (simp add: form_buttons_def)

lemma error_events [simp]: "concat (map node_events (FormError m)) = []"
  by (auto simp: FormError_def split: option.split list.split)

end
