(* ===== verification/AdminUsers.thy ===== *)
theory AdminUsers
  imports Forms
begin

text \<open>
  The staff accounts, \<open>web/app/admin/users/page.tsx\<close>, and the viewer accounts,
  \<open>web/app/admin/viewers/page.tsx\<close>: the lists with their counts, the deletion of an account,
  and the two forms.  \<open>fd\<close> is \<open>formatDate\<close>.
\<close>

subsection \<open>Roles\<close>

definition roles :: "role list" where "roles = [Admin, Editor, Uploader, Viewing]"

fun role_value :: "role \<Rightarrow> string" where
  "role_value Admin = ''admin''"
| "role_value Editor = ''editor''"
| "role_value Uploader = ''uploader''"
| "role_value Viewing = ''viewer''"

fun roleLabels :: "role \<Rightarrow> string" where
  "roleLabels Admin = ''roleAdmin''"
| "roleLabels Editor = ''roleEditor''"
| "roleLabels Uploader = ''roleUploader''"
| "roleLabels Viewing = ''roleViewer''"

text \<open>\<open>v as Role\<close> on a value the options offer; other text cannot be chosen.\<close>

definition role_of :: "string \<Rightarrow> role" where
  "role_of v = (case find (\<lambda>r. role_value r = v) roles of Some r \<Rightarrow> r | None \<Rightarrow> Viewing)"

lemma role_of_value [simp]: "role_of (role_value r) = r"
  by (cases r) (simp_all add: role_of_def roles_def)

subsection \<open>The form of a staff account\<close>

record user_form =
  uf_initial :: "user option"
  uf_email :: string
  uf_nameSurname :: string
  uf_password :: string
  uf_role :: role
  uf_disabled :: bool
  uf_errors :: field_errors
  uf_pending :: bool

definition new_user_form :: "user option \<Rightarrow> user_form" where
  "new_user_form init =
     (case init of
        Some u \<Rightarrow> \<lparr>uf_initial = init, uf_email = ur_email u, uf_nameSurname = ur_nameSurname u, uf_password = [],
           uf_role = ur_role u, uf_disabled = ur_disabled u, uf_errors = [], uf_pending = False\<rparr>
      | None \<Rightarrow> \<lparr>uf_initial = None, uf_email = [], uf_nameSurname = [], uf_password = [], uf_role = Viewing,
           uf_disabled = False, uf_errors = [], uf_pending = False\<rparr>)"

datatype user_edit = UEmail string | UName string | UPassword string | URole string | UStatus string

fun user_type :: "user_edit \<Rightarrow> user_form \<Rightarrow> user_form" where
  "user_type (UEmail x) f = f\<lparr>uf_email := x, uf_errors := AList.update ''email'' [] (uf_errors f)\<rparr>"
| "user_type (UName x) f = f\<lparr>uf_nameSurname := x\<rparr>"
| "user_type (UPassword x) f = f\<lparr>uf_password := x, uf_errors := AList.update ''password'' [] (uf_errors f)\<rparr>"
| "user_type (URole x) f = f\<lparr>uf_role := role_of x\<rparr>"
| "user_type (UStatus x) f = f\<lparr>uf_disabled := (x = ''disabled'')\<rparr>"

definition user_values :: "user_form \<Rightarrow> form_data" where
  "user_values f =
     [(''email'', FText (uf_email f)), (''nameSurname'', FText (uf_nameSurname f)),
      (''password'', FText (uf_password f)), (''role'', FText (role_value (uf_role f))),
      (''disabled'', FBool (uf_disabled f))]"

definition user_request :: "user_form \<Rightarrow> 'a web_effect" where
  "user_request f =
     (case uf_initial f of
        Some u \<Rightarrow> Request ''PATCH'' (''/api/users/'' @ dec_int (ur_id u))
          (Some (JObj ([(''email'', JText (uf_email f)), (''nameSurname'', JText (uf_nameSurname f)),
             (''role'', JText (role_value (uf_role f))), (''disabled'', JBool (uf_disabled f))] @
             (if uf_password f \<noteq> [] then [(''password'', JText (uf_password f))] else []))))
      | None \<Rightarrow> Request ''POST'' ''/api/users''
          (Some (JObj [(''email'', JText (uf_email f)), (''nameSurname'', JText (uf_nameSurname f)),
             (''password'', JText (uf_password f)), (''role'', JText (role_value (uf_role f)))])))"

definition user_schema :: "user_form \<Rightarrow> schema" where
  "user_schema f = (if uf_initial f \<noteq> None then userEditSchema else userSchema)"

definition user_submit ::
  "(schema \<Rightarrow> form_data \<Rightarrow> issue list) \<Rightarrow> user_form \<Rightarrow> user_form \<times> 'a web_effect list" where
  "user_submit parse f =
     (let errs = fieldErrors parse (user_schema f) (user_values f) in
      if errs \<noteq> [] then (f\<lparr>uf_errors := errs\<rparr>, [])
      else (f\<lparr>uf_errors := [], uf_pending := True\<rparr>, [user_request f]))"

definition user_saved :: "translator \<Rightarrow> user reply \<Rightarrow> user_form \<Rightarrow> user_form \<times> 'a web_effect list" where
  "user_saved t r f =
     (f\<lparr>uf_pending := False\<rparr>,
      case r of
        Ok _ \<Rightarrow> saved_effects (if uf_initial f \<noteq> None then tx t ''userUpdated'' else tx t ''userCreated'') ''users''
      | _ \<Rightarrow> [Toast ToastError (api_error_text t ''error'' r)])"

interpretation user_saves: save_form uf_pending user_type "user_submit parse" "user_saved t"
  for parse t
proof
  show "uf_pending (user_type e s) = uf_pending s" for e s by (cases e) simp_all
qed (auto simp: user_submit_def user_saved_def user_request_def saved_effects_def Let_def
       split: option.splits reply.splits)

text \<open>The dialog: its elements show the errors of the email and of the password only.\<close>

definition UserFormContent :: "translator \<Rightarrow> user_form \<Rightarrow> (user_edit, user) form_event option node" where
  "UserFormContent t f =
     (let editing = (uf_initial f \<noteq> None); e = (\<lambda>mk x. Some (Edit (mk x))) in
      El ''form'' []
       [El ''DialogTitle'' [] [Txt (if editing then tx t ''editUserTitle'' else tx t ''newUserTitle'')],
        El ''div'' []
         ([field (tx t ''loginEmail'') (text_input (uf_email f) (e UEmail) # FormError (map_of (uf_errors f) ''email'')),
           field (tx t ''colNameSurname'') [text_input (uf_nameSurname f) (e UName)],
           field (tx t ''loginPassword'')
             (El ''Input'' ([(''type'', AText ''password''), (''value'', AText (uf_password f)),
                (''autoComplete'', AText ''new-password''), (''onChange'', AInput (e UPassword))] @
                (if editing then [(''placeholder'', AText (tx t ''passwordKeep''))] else [])) [] #
              FormError (map_of (uf_errors f) ''password'')),
           field (tx t ''colRole'') [select (map (\<lambda>r. (role_value r, tx t (roleLabels r))) roles)
             (role_value (uf_role f)) (e URole)]] @
          show_if editing (field (tx t ''colStatus'')
            [select [(''active'', tx t ''statusActive''), (''disabled'', tx t ''statusDisabled'')]
               (if uf_disabled f then ''disabled'' else ''active'') (e UStatus)])),
        form_buttons t None (Some Submit) (uf_pending f) False (tx t ''save'')])"

subsection \<open>The list of staff accounts\<close>

datatype users_event = EditUser user | UserKey string user | AskRemoveUser user | RemoveUser int | CreateUser

definition users_path :: string where "users_path = ''/api/users''"

definition ask_remove_user :: "translator \<Rightarrow> user \<Rightarrow> users_event web_effect list" where
  "ask_remove_user t u = ask_remove t (tx t ''deleteUserTitle'')
     (t ''deleteUserDesc'' (Some [(''email'', VText (ur_email u))])) (Some Destructive) (RemoveUser (ur_id u))"

definition remove_user_answer :: "translator \<Rightarrow> unit reply \<Rightarrow> users_event web_effect list" where
  "remove_user_answer t r = delete_answer t ''users'' True r"

fun users_step :: "translator \<Rightarrow> users_event \<Rightarrow> users_event web_effect list" where
  "users_step t (EditUser u) = [OpenDlg (EditUser u) (Some SizeSm) False False]"
| "users_step t (UserKey k u) =
     (if k = ''Enter'' \<or> k = '' '' then [OpenDlg (EditUser u) (Some SizeSm) False False] else [])"
| "users_step t CreateUser = [OpenDlg CreateUser (Some SizeSm) False False]"
| "users_step t (AskRemoveUser u) = ask_remove_user t u"
| "users_step t (RemoveUser i) = delete_request ''/api/users/'' i"

definition user_counts :: "user list \<Rightarrow> nat \<times> nat \<times> nat \<times> nat" where
  "user_counts us =
     (let active = length (filter (\<lambda>u. \<not> ur_disabled u) us) in
      (length us, active, length (filter (\<lambda>u. ur_role u = Admin) us), length us - active))"

definition users_summary :: "translator \<Rightarrow> user list \<Rightarrow> (string \<times> string \<times> string option) list" where
  "users_summary t us =
     (case user_counts us of (n, active, admins, disabled) \<Rightarrow>
        [(tx t ''sumTotalUsers'', dec n, None), (tx t ''sumActiveUsers'', dec active, None),
         (tx t ''usersAdministrators'', dec admins, None)] @
        (if 0 < disabled then [(tx t ''sumDisabledUsers'', dec disabled, None)] else []))"

definition name_initials :: "string \<Rightarrow> string \<Rightarrow> string" where
  "name_initials nm email = js_upper (if take 2 nm \<noteq> [] then take 2 nm else take 2 email)"

definition status_badge :: "bool \<Rightarrow> string \<Rightarrow> string \<Rightarrow> 'e node" where
  "status_badge disabled off on =
     El ''Badge'' [] [El (if disabled then ''CircleAlertIcon'' else ''CircleCheckIcon'') [] [],
       Txt (if disabled then off else on)]"

definition user_row :: "translator \<Rightarrow> (string \<Rightarrow> string) \<Rightarrow> user \<Rightarrow> users_event node" where
  "user_row t fd u =
     (let nm = displayName (ur_nameSurname u) (ur_email u) in
      El ''TableRow'' [(''role'', AText ''button''), (''aria-label'', AText (tx t ''edit'' @ '' '' @ ur_email u)),
          (''onKeyDown'', AInput (\<lambda>k. UserKey k u)), (''onClick'', AEvent (EditUser u))]
        [cell [El ''Avatar'' [] [Txt (name_initials nm (ur_email u))], El ''span'' [] [Txt (ur_email u)]],
         cell [Txt nm], cell [El ''Badge'' [] [Txt (tx t (roleLabels (ur_role u)))]],
         cell [status_badge (ur_disabled u) (tx t ''statusDisabled'') (tx t ''statusActive'')],
         cell [Txt (fd (ur_createdAt u))],
         cell [icon_click (EditUser u) (tx t ''edit'' @ '' '' @ ur_email u) ''PencilIcon'',
           icon_click (AskRemoveUser u) (tx t ''delete'' @ '' '' @ ur_email u) ''Trash2'']])"

definition UsersPage :: "translator \<Rightarrow> (string \<Rightarrow> string) \<Rightarrow> user list fetched \<Rightarrow> users_event node" where
  "UsersPage t fd data =
     (let us = (case query_data data of Some xs \<Rightarrow> xs | None \<Rightarrow> []) in
      El ''div'' [] (SummaryStrip (users_summary t us) @
       [table_page [tx t ''colEmail'', tx t ''colName'', tx t ''colRole'', tx t ''colStatus'', tx t ''colCreated'',
           tx t ''colActions'']
         (if data = QPending then skeleton_rows 5 6
          else map (user_row t fd) us @
            show_if (us = []) (El ''TableRow'' []
              [cell [EmptyState ''UsersIcon'' (Some (tx t ''usersTitle'')) (Some (tx t ''dashEmpty'')) None]]))]))"

subsection \<open>The form of a viewer account\<close>

record viewer_form =
  vf_initial :: "viewer_account option"
  vf_email :: string
  vf_nameSurname :: string
  vf_password :: string
  vf_disabled :: bool
  vf_error :: "string option"
  vf_pending :: bool

definition new_viewer_form :: "viewer_account option \<Rightarrow> viewer_form" where
  "new_viewer_form init =
     (case init of
        Some v \<Rightarrow> \<lparr>vf_initial = init, vf_email = vw_email v, vf_nameSurname = vw_nameSurname v, vf_password = [],
           vf_disabled = vw_disabled v, vf_error = None, vf_pending = False\<rparr>
      | None \<Rightarrow> \<lparr>vf_initial = None, vf_email = [], vf_nameSurname = [], vf_password = [], vf_disabled = False,
           vf_error = None, vf_pending = False\<rparr>)"

datatype viewer_edit = VEmail string | VName string | VPassword string | VStatus string

fun viewer_type :: "viewer_edit \<Rightarrow> viewer_form \<Rightarrow> viewer_form" where
  "viewer_type (VEmail x) f = f\<lparr>vf_email := x\<rparr>"
| "viewer_type (VName x) f = f\<lparr>vf_nameSurname := x\<rparr>"
| "viewer_type (VPassword x) f = f\<lparr>vf_password := x\<rparr>"
| "viewer_type (VStatus x) f = f\<lparr>vf_disabled := (x = ''disabled'')\<rparr>"

definition viewer_complete :: "viewer_form \<Rightarrow> bool" where
  "viewer_complete f \<longleftrightarrow> js_trim (vf_email f) \<noteq> [] \<and> (vf_initial f \<noteq> None \<or> vf_password f \<noteq> [])"

definition viewer_request :: "viewer_form \<Rightarrow> 'a web_effect" where
  "viewer_request f =
     Request (if vf_initial f \<noteq> None then ''PATCH'' else ''POST'')
       (case vf_initial f of Some v \<Rightarrow> ''/api/viewers/'' @ dec_int (vw_id v) | None \<Rightarrow> ''/api/viewers'')
       (Some (JObj [(''email'', JText (js_trim (vf_email f))), (''nameSurname'', JText (js_trim (vf_nameSurname f))),
          (''password'', JText (vf_password f)), (''disabled'', JBool (vf_disabled f))]))"

definition viewer_submit :: "viewer_form \<Rightarrow> viewer_form \<times> 'a web_effect list" where
  "viewer_submit f =
     (if \<not> vf_pending f \<and> viewer_complete f then (f\<lparr>vf_pending := True\<rparr>, [viewer_request f]) else (f, []))"

definition viewer_saved ::
  "translator \<Rightarrow> viewer_account reply \<Rightarrow> viewer_form \<Rightarrow> viewer_form \<times> 'a web_effect list" where
  "viewer_saved t r f =
     (case r of
        Ok _ \<Rightarrow> (f\<lparr>vf_pending := False\<rparr>,
          saved_effects (if vf_initial f \<noteq> None then tx t ''viewerUpdated'' else tx t ''viewerCreated'') ''viewers'')
      | _ \<Rightarrow> (f\<lparr>vf_pending := False, vf_error := Some (error_text r)\<rparr>, []))"

interpretation viewer_saves: save_form vf_pending viewer_type viewer_submit "viewer_saved t"
  for t
proof
  show "vf_pending (viewer_type e s) = vf_pending s" for e s by (cases e) simp_all
qed (auto simp: viewer_submit_def viewer_saved_def viewer_request_def saved_effects_def split: reply.splits)

definition ViewerFormContent ::
  "translator \<Rightarrow> viewer_form \<Rightarrow> (viewer_edit, viewer_account) form_event option node" where
  "ViewerFormContent t f =
     (let editing = (vf_initial f \<noteq> None); e = (\<lambda>mk x. Some (Edit (mk x))) in
      El ''form'' []
       [El ''DialogTitle'' [] [Txt (if editing then tx t ''viewerEditTitle'' else tx t ''viewerNew'')],
        El ''div'' []
         ([field (tx t ''viewerColEmail'') [text_input (vf_email f) (e VEmail)],
           field (tx t ''viewerNameSurname'') [text_input (vf_nameSurname f) (e VName)],
           field (tx t ''viewerPassword'') [El ''Input'' [(''type'', AText ''password''),
              (''value'', AText (vf_password f)), (''onChange'', AInput (e VPassword)),
              (''placeholder'', AText (if editing then tx t ''viewerPasswordHint'' else []))] []],
           field (tx t ''colStatus'') [select [(''active'', tx t ''statusActive''), (''disabled'', tx t ''statusDisabled'')]
             (if vf_disabled f then ''disabled'' else ''active'') (e VStatus)]] @
          (case vf_error f of Some (c # m) \<Rightarrow> FormError (Some (c # m)) | _ \<Rightarrow> [])),
        form_buttons t None (Some Submit) (vf_pending f) (\<not> viewer_complete f) (tx t ''save'')])"

subsection \<open>The list of viewer accounts\<close>

datatype viewers_event = EditViewer viewer_account | AskRemoveViewer viewer_account | RemoveViewer int | CreateViewer

definition ask_remove_viewer :: "translator \<Rightarrow> viewer_account \<Rightarrow> viewers_event web_effect list" where
  "ask_remove_viewer t v =
     ask_remove t (tx t ''viewerDeleteTitle'') (tx t ''viewerDeleteDesc'') None (RemoveViewer (vw_id v))"

definition remove_viewer_answer :: "translator \<Rightarrow> unit reply \<Rightarrow> viewers_event web_effect list" where
  "remove_viewer_answer t r = delete_answer t ''viewers'' False r"

fun viewers_step :: "translator \<Rightarrow> viewers_event \<Rightarrow> viewers_event web_effect list" where
  "viewers_step t (EditViewer v) = [OpenDlg (EditViewer v) (Some SizeSm) False False]"
| "viewers_step t CreateViewer = [OpenDlg CreateViewer (Some SizeSm) False False]"
| "viewers_step t (AskRemoveViewer v) = ask_remove_viewer t v"
| "viewers_step t (RemoveViewer i) = delete_request ''/api/viewers/'' i"

definition viewers_summary :: "translator \<Rightarrow> viewer_account list \<Rightarrow> (string \<times> string \<times> string option) list" where
  "viewers_summary t vs =
     (let active = length (filter (\<lambda>v. \<not> vw_disabled v) vs) in
      [(tx t ''navViewers'', dec (length vs), None), (tx t ''viewerActive'', dec active, None),
       (tx t ''viewerDisabled'', dec (length vs - active), None)])"

definition viewer_row :: "translator \<Rightarrow> (string \<Rightarrow> string) \<Rightarrow> viewer_account \<Rightarrow> viewers_event node" where
  "viewer_row t fd v =
     El ''TableRow'' [(''onClick'', AEvent (EditViewer v))]
       [cell [El ''Avatar'' [] [Txt (js_upper (take 2 (vw_email v)))], El ''span'' [] [Txt (vw_email v)]],
        cell [Txt (displayName (vw_nameSurname v) (vw_email v))],
        cell [status_badge (vw_disabled v) (tx t ''viewerDisabled'') (tx t ''viewerActive'')],
        cell [Txt (fd (vw_createdAt v))],
        cell [icon_click (EditViewer v) (tx t ''edit'') ''PencilIcon'',
          icon_click (AskRemoveViewer v) (tx t ''delete'') ''Trash2'']]"

definition ViewersPage :: "translator \<Rightarrow> (string \<Rightarrow> string) \<Rightarrow> viewer_list fetched \<Rightarrow> viewers_event node" where
  "ViewersPage t fd data =
     (let vs = (case query_data data of Some l \<Rightarrow> vl_items l | None \<Rightarrow> []) in
      El ''div'' [] (SummaryStrip (viewers_summary t vs) @
       [table_page [tx t ''viewerColEmail'', tx t ''viewerColName'', tx t ''viewerColStatus'', tx t ''viewerColCreated'',
           tx t ''colActions'']
         (if data = QPending then skeleton_rows 5 5 else map (viewer_row t fd) vs)] @
       show_if (data \<noteq> QPending \<and> vs = []) (EmptyState ''UserRoundIcon'' None (Some (tx t ''viewerEmpty'')) None)))"

end
