(* ===== verification/Categories.thy ===== *)
theory Categories
  imports Forms
begin

text \<open>
  The category tree, \<open>web/app/admin/categories/page.tsx\<close>: the flat list of the tree, the depth
  of a category found by its parents, the page and the form.  The loop that climbs the
  parents may not end on data that is no tree: \<open>depthOf\<close> is then \<open>None\<close>.
\<close>

subsection \<open>The tree as a list\<close>

fun walk :: "category list \<Rightarrow> category list" where
  "walk [] = []"
| "walk (Category i p nm sl po None # ns) = Category i p nm sl po None # walk ns"
| "walk (Category i p nm sl po (Some cs) # ns) = Category i p nm sl po (Some cs) # walk cs @ walk ns"

definition by_id :: "int \<Rightarrow> category list \<Rightarrow> category option" where
  "by_id i flat = find (\<lambda>c. cat_id c = i) flat"

text \<open>A parent of \<open>null\<close> or \<open>0\<close> is none.\<close>

definition parent_of :: "category \<Rightarrow> int option" where
  "parent_of c = (case cat_parentId c of Some p \<Rightarrow> if p = 0 then None else Some p | None \<Rightarrow> None)"

partial_function (option) climb :: "category list \<Rightarrow> category option \<Rightarrow> nat \<Rightarrow> nat option" where
  "climb flat cur d =
     (case Option.bind cur parent_of of
        None \<Rightarrow> Some d
      | Some p \<Rightarrow> climb flat (by_id p flat) (d + 1))"

definition depthOf :: "category list \<Rightarrow> int \<Rightarrow> nat option" where
  "depthOf flat i = climb flat (by_id i flat) 0"

subsection \<open>What a tree is\<close>

text \<open>The reference: the depth in the tree itself, along the same order.\<close>

fun walk_depth :: "nat \<Rightarrow> category list \<Rightarrow> (category \<times> nat) list" where
  "walk_depth d [] = []"
| "walk_depth d (Category i p nm sl po None # ns) = (Category i p nm sl po None, d) # walk_depth d ns"
| "walk_depth d (Category i p nm sl po (Some cs) # ns) =
     (Category i p nm sl po (Some cs), d) # walk_depth (Suc d) cs @ walk_depth d ns"

text \<open>Every node names the node above it.\<close>

fun linked :: "int option \<Rightarrow> category list \<Rightarrow> bool" where
  "linked q [] \<longleftrightarrow> True"
| "linked q (Category i p nm sl po None # ns) \<longleftrightarrow> parent_of (Category i p nm sl po None) = q \<and> 0 < i \<and> linked q ns"
| "linked q (Category i p nm sl po (Some cs) # ns) \<longleftrightarrow>
     parent_of (Category i p nm sl po (Some cs)) = q \<and> 0 < i \<and> linked (Some i) cs \<and> linked q ns"

definition tree_ok :: "category list \<Rightarrow> bool" where
  "tree_ok tree \<longleftrightarrow> linked None tree \<and> distinct (map cat_id (walk tree))"

lemma walk_depth_walk: "map fst (walk_depth d ns) = walk ns"
  by (induction d ns rule: walk_depth.induct) simp_all

lemma walk_mem: "c \<in> set ns \<Longrightarrow> c \<in> set (walk ns)"
  by (induction ns rule: walk.induct) auto

lemma by_id_member:
  assumes "distinct (map cat_id flat)" and "c \<in> set flat"
  shows "by_id (cat_id c) flat = Some c"
  using assms unfolding by_id_def by (induction flat) auto

lemma by_id_Some: "by_id i flat = Some c \<Longrightarrow> c \<in> set flat \<and> cat_id c = i"
  unfolding by_id_def by (induction flat) (auto split: if_splits)

text \<open>In a linked tree a node is at the top level, or its parent is one level above it.\<close>

definition below :: "int option \<Rightarrow> nat \<Rightarrow> (category \<times> nat) list \<Rightarrow> category \<Rightarrow> nat \<Rightarrow> bool" where
  "below q d ds c k \<longleftrightarrow> k = d \<and> parent_of c = q \<or>
     (\<exists>y j. k = Suc j \<and> d \<le> j \<and> (y, j) \<in> set ds \<and> parent_of c = Some (cat_id y))"

lemma below_mono: "below q d ds c k \<Longrightarrow> set ds \<subseteq> set es \<Longrightarrow> below q d es c k"
  unfolding below_def by blast

lemma below_child:
  assumes "below (Some (cat_id n)) (Suc d) ds c k" and "(n, d) \<in> set es" and "set ds \<subseteq> set es"
  shows "below q d es c k"
  using assms unfolding below_def by (metis Suc_leD le_refl subsetD)

lemma walk_depth_parent:
  "linked q ns \<Longrightarrow> (c, k) \<in> set (walk_depth d ns) \<Longrightarrow> below q d (walk_depth d ns) c k"
proof (induction d ns arbitrary: q rule: walk_depth.induct)
  case (2 d i p nm sl po ns)
  let ?n = "Category i p nm sl po None"
  have l: "parent_of ?n = q" "linked q ns" using 2(2) by simp_all
  have m: "c = ?n \<and> k = d \<or> (c, k) \<in> set (walk_depth d ns)" using 2(3) by simp
  from m show ?case
  proof
    assume "(c, k) \<in> set (walk_depth d ns)"
    from 2(1) [OF l(2) this] show ?thesis by (rule below_mono) auto
  qed (use l in \<open>simp add: below_def\<close>)
next
  case (3 d i p nm sl po cs ns)
  let ?n = "Category i p nm sl po (Some cs)"
  have l: "parent_of ?n = q" "linked (Some i) cs" "linked q ns" using 3(3) by simp_all
  have m: "c = ?n \<and> k = d \<or> (c, k) \<in> set (walk_depth (Suc d) cs) \<or> (c, k) \<in> set (walk_depth d ns)"
    using 3(4) by simp
  from m show ?case
  proof (elim disjE)
    assume "(c, k) \<in> set (walk_depth (Suc d) cs)"
    from 3(1) [OF l(2) this] have "below (Some (cat_id ?n)) (Suc d) (walk_depth (Suc d) cs) c k" by simp
    then show ?thesis by (rule below_child) auto
  next
    assume "(c, k) \<in> set (walk_depth d ns)"
    from 3(2) [OF l(3) this] show ?thesis by (rule below_mono) auto
  qed (use l in \<open>simp add: below_def\<close>)
qed simp


subsection \<open>The page\<close>

datatype categories_event =
    EditCategory category
  | CategoryKey string category
  | AskRemoveCategory category
  | RemoveCategory int
  | CreateCategory

definition ask_remove_category :: "translator \<Rightarrow> category \<Rightarrow> categories_event web_effect list" where
  "ask_remove_category t c = ask_remove t (tx t ''deleteCategoryTitle'') (tx t ''deleteCategoryDesc'')
     (Some Destructive) (RemoveCategory (cat_id c))"

definition remove_category_answer :: "translator \<Rightarrow> unit reply \<Rightarrow> categories_event web_effect list" where
  "remove_category_answer t r = delete_answer t ''categories'' True r"

definition open_category :: "categories_event \<Rightarrow> categories_event web_effect list" where
  "open_category e = [OpenDlg e (Some SizeSm) False False]"

fun categories_step :: "translator \<Rightarrow> categories_event \<Rightarrow> categories_event web_effect list" where
  "categories_step t (EditCategory c) = open_category (EditCategory c)"
| "categories_step t (CategoryKey k c) =
     (if k = ''Enter'' \<or> k = '' '' then open_category (EditCategory c) else [])"
| "categories_step t CreateCategory = open_category CreateCategory"
| "categories_step t (AskRemoveCategory c) = ask_remove_category t c"
| "categories_step t (RemoveCategory i) = delete_request ''/api/categories/'' i"

definition rootCount :: "category list \<Rightarrow> nat" where
  "rootCount flat = length (filter (\<lambda>c. parent_of c = None) flat)"

definition categories_summary :: "translator \<Rightarrow> category list \<Rightarrow> (string \<times> string \<times> string option) list" where
  "categories_summary t flat =
     (let childCount = length flat - rootCount flat in
      [(tx t ''sumTotalCategories'', dec (length flat), None), (tx t ''sumRootCategories'', dec (rootCount flat), None)] @
      (if 0 < childCount then [(tx t ''sumSubcategories'', dec childCount, None)] else []))"

definition category_row :: "translator \<Rightarrow> category list \<Rightarrow> category \<Rightarrow> nat \<Rightarrow> categories_event node" where
  "category_row t flat c depth =
     El ''TableRow'' [(''role'', AText ''button''), (''aria-label'', AText (tx t ''edit'' @ '' '' @ cat_name c)),
         (''onKeyDown'', AInput (\<lambda>k. CategoryKey k c)), (''onClick'', AEvent (EditCategory c))]
       [cell [El ''span'' [(''paddingLeft'', ANum (num_of_nat (depth * 24)))]
          [El ''Avatar'' [] [El ''FolderTreeIcon'' [] []], El ''span'' [] [Txt (cat_name c)]]],
        cell [El ''Badge'' [] [Txt (cat_slug c)]],
        cell [Txt (case Option.bind (cat_parentId c) (\<lambda>p. by_id p flat) of Some x \<Rightarrow> cat_name x | None \<Rightarrow> emdash)],
        cell [icon_click (EditCategory c) (tx t ''edit'' @ '' '' @ cat_name c) ''PencilIcon'',
          icon_click (AskRemoveCategory c) (tx t ''delete'' @ '' '' @ cat_name c) ''Trash2'']]"

text \<open>The page never appears when the depth of one of its rows is not found.\<close>

definition category_rows :: "translator \<Rightarrow> category list \<Rightarrow> categories_event node list option" where
  "category_rows t flat =
     those (map (\<lambda>c. map_option (category_row t flat c) (depthOf flat (cat_id c))) flat)"

definition CategoriesPage :: "translator \<Rightarrow> category list fetched \<Rightarrow> categories_event node option" where
  "CategoriesPage t data =
     (let flat = walk (case query_data data of Some tree \<Rightarrow> tree | None \<Rightarrow> []);
          page = (\<lambda>body. El ''div'' [] (SummaryStrip (categories_summary t flat) @
            [table_page [tx t ''colName'', tx t ''colSlug'', tx t ''colParent'', tx t ''colActions''] body])) in
      if data = QPending then Some (page (skeleton_rows 5 4))
      else map_option (\<lambda>body. page (body @ show_if (flat = []) (El ''TableRow'' []
        [cell [EmptyState ''FolderTreeIcon'' (Some (tx t ''navCategories'')) (Some (tx t ''dashEmpty'')) None]])))
        (category_rows t flat))"

subsection \<open>The form\<close>

record category_form =
  cf_initial :: "category option"
  cf_name :: string
  cf_parent :: string
  cf_errors :: field_errors
  cf_pending :: bool

definition new_category_form :: "category option \<Rightarrow> category_form" where
  "new_category_form init =
     \<lparr>cf_initial = init, cf_name = (case init of Some c \<Rightarrow> cat_name c | None \<Rightarrow> []),
      cf_parent = (case Option.bind init parent_of of Some p \<Rightarrow> dec_int p | None \<Rightarrow> []),
      cf_errors = [], cf_pending = False\<rparr>"

datatype category_edit = CName string | CParent string

fun category_type :: "category_edit \<Rightarrow> category_form \<Rightarrow> category_form" where
  "category_type (CName x) f = f\<lparr>cf_name := x, cf_errors := AList.update ''name'' [] (cf_errors f)\<rparr>"
| "category_type (CParent x) f = f\<lparr>cf_parent := x\<rparr>"

definition category_values :: "category_form \<Rightarrow> form_data" where
  "category_values f =
     [(''name'', FText (cf_name f)),
      (''parentId'', if cf_parent f \<noteq> [] then FNumber (js_number (cf_parent f)) else FNull)]"

definition category_request :: "category_form \<Rightarrow> 'a web_effect" where
  "category_request f =
     (let body = JObj [(''name'', JText (cf_name f)),
            (''parentId'', if cf_parent f \<noteq> [] then JNum (js_number (cf_parent f)) else JNull),
            (''position'', JInt (case cf_initial f of Some c \<Rightarrow> cat_position c | None \<Rightarrow> 0))] in
      case cf_initial f of
        Some c \<Rightarrow> Request ''PATCH'' (''/api/categories/'' @ dec_int (cat_id c)) (Some body)
      | None \<Rightarrow> Request ''POST'' ''/api/categories'' (Some body))"

definition category_submit ::
  "(schema \<Rightarrow> form_data \<Rightarrow> issue list) \<Rightarrow> category_form \<Rightarrow> category_form \<times> 'a web_effect list" where
  "category_submit parse f =
     (let errs = fieldErrors parse categorySchema (category_values f) in
      if errs \<noteq> [] then (f\<lparr>cf_errors := errs\<rparr>, [])
      else (f\<lparr>cf_errors := [], cf_pending := True\<rparr>, [category_request f]))"

definition category_saved :: "translator \<Rightarrow> category reply \<Rightarrow> category_form \<Rightarrow> category_form \<times> 'a web_effect list" where
  "category_saved t r f =
     (f\<lparr>cf_pending := False\<rparr>,
      case r of
        Ok _ \<Rightarrow> saved_effects
          (if cf_initial f \<noteq> None then tx t ''categoryUpdated'' else tx t ''categoryCreated'') ''categories''
      | _ \<Rightarrow> [Toast ToastError (error_text r)])"

interpretation category_saves: save_form cf_pending category_type "category_submit parse" "category_saved t"
  for parse t
proof
  show "cf_pending (category_type e s) = cf_pending s" for e s by (cases e) simp_all
qed (auto simp: category_submit_def category_saved_def category_request_def saved_effects_def Let_def
       split: option.splits reply.splits)

definition parent_options :: "translator \<Rightarrow> category option \<Rightarrow> category list \<Rightarrow> (string \<times> string) list" where
  "parent_options t init cs =
     ([], tx t ''none'') #
     map (\<lambda>c. (dec_int (cat_id c), cat_name c)) (filter (\<lambda>c. Some (cat_id c) \<noteq> map_option cat_id init) cs)"

definition CategoryFormContent ::
  "translator \<Rightarrow> category list \<Rightarrow> category_form \<Rightarrow> (category_edit, category) form_event option node" where
  "CategoryFormContent t cs f =
     (let e = (\<lambda>mk x. Some (Edit (mk x))) in
      El ''form'' []
       [El ''DialogTitle'' [] [Txt (if cf_initial f \<noteq> None then tx t ''editCategoryTitle'' else tx t ''newCategory'')],
        El ''div'' []
         [field (tx t ''colName'') (text_input (cf_name f) (e CName) # FormError (map_of (cf_errors f) ''name'')),
          field (tx t ''colParent'') [El ''Select''
            [(''value'', AText (cf_parent f)), (''onChange'', AInput (e CParent)),
             (''placeholder'', AText (tx t ''parentNone''))] (options (parent_options t (cf_initial f) cs))]],
        form_buttons t None (Some Submit) (cf_pending f) False (tx t ''save'')])"


subsection \<open>The depth is the depth in the tree\<close>

lemmas climb_unfold = climb.simps [of flat cur d] for flat cur d

lemma climb_depth:
  assumes "tree_ok tree"
  shows "(c, k) \<in> set (walk_depth 0 tree) \<Longrightarrow> climb (walk tree) (Some c) d = Some (d + k)"
proof (induction k arbitrary: c d)
  case 0
  have "below None 0 (walk_depth 0 tree) c 0"
    using walk_depth_parent [OF _ 0] assms by (simp add: tree_ok_def)
  then show ?case by (simp add: below_def climb_unfold)
next
  case (Suc k)
  have "below None 0 (walk_depth 0 tree) c (Suc k)"
    using walk_depth_parent [OF _ Suc.prems] assms by (simp add: tree_ok_def)
  then obtain y where y: "(y, k) \<in> set (walk_depth 0 tree)" "parent_of c = Some (cat_id y)"
    by (auto simp: below_def)
  have "y \<in> set (map fst (walk_depth 0 tree))" using y(1) by force
  then have "by_id (cat_id y) (walk tree) = Some y"
    using by_id_member assms by (simp add: walk_depth_walk tree_ok_def)
  then show ?case using Suc.IH [OF y(1), of "Suc d"] y(2) by (simp add: climb_unfold [of _ "Some c"])
qed

text \<open>C38: On a list that comes from a tree (every node names the node above it, identifiers are
  positive and different), the depth the page computes by following parents is found, and is
  the depth at which the node stands in the tree; the rows are the nodes in the tree's order.\<close>

theorem depthOf_tree_depth:
  assumes "tree_ok tree"
  shows "map (\<lambda>c. (c, depthOf (walk tree) (cat_id c))) (walk tree) =
    map (\<lambda>(c, k). (c, Some k)) (walk_depth 0 tree)"
proof -
  have "depthOf (walk tree) (cat_id c) = Some k" if "(c, k) \<in> set (walk_depth 0 tree)" for c k
  proof -
    have "c \<in> set (walk tree)" using that by (metis walk_depth_walk fst_conv image_eqI set_map)
    then show ?thesis
      using by_id_member climb_depth [OF assms that, of 0] assms by (simp add: depthOf_def tree_ok_def)
  qed
  then show ?thesis by (simp flip: walk_depth_walk [of 0 tree]) (auto simp: walk_depth_walk)
qed

definition sample_tree :: "category list" where
  "sample_tree =
     [Category 1 None ''A'' ''a'' 0 (Some [Category 2 (Some 1) ''B'' ''b'' 0 (Some [Category 3 (Some 2) ''C'' ''c'' 0 None])]),
      Category 4 None ''D'' ''d'' 1 None]"

lemma sample_tree_ok: "tree_ok sample_tree"
  by (simp add: tree_ok_def sample_tree_def parent_of_def)

theorem depthOf_tree_depth_witness:
  "map (\<lambda>c. depthOf (walk sample_tree) (cat_id c)) (walk sample_tree) = [Some 0, Some 1, Some 2, Some 0]"
  using arg_cong [OF depthOf_tree_depth [OF sample_tree_ok], of "map snd"] by (simp add: sample_tree_def)

subsection \<open>Moving a category\<close>

text \<open>The parent a form sends, and the list once the server has stored it.\<close>

definition sent_parent :: "string \<Rightarrow> int option" where
  "sent_parent v = (if v = [] then None else case js_number v of Fin q \<Rightarrow> Some \<lfloor>q\<rfloor> | _ \<Rightarrow> None)"

fun with_parent :: "int option \<Rightarrow> category \<Rightarrow> category" where
  "with_parent q (Category i p nm sl po cs) = Category i q nm sl po cs"

definition reparent :: "int \<Rightarrow> int option \<Rightarrow> category list \<Rightarrow> category list" where
  "reparent i q flat = map (\<lambda>c. if cat_id c = i then with_parent q c else c) flat"

lemma with_parent_simps [simp]: "cat_id (with_parent q c) = cat_id c" "cat_parentId (with_parent q c) = q"
  by (cases c, simp)+

text \<open>A loop over parents that get smaller in some order ends.\<close>

lemma climb_ends:
  fixes r :: "int \<Rightarrow> nat"
  assumes "\<And>x p y. x \<in> set flat \<Longrightarrow> parent_of x = Some p \<Longrightarrow> by_id p flat = Some y \<Longrightarrow> r p < r (cat_id x)"
  shows "x \<in> set flat \<Longrightarrow> climb flat (Some x) d \<noteq> None"
proof (induction "r (cat_id x)" arbitrary: x d rule: less_induct)
  case less
  show ?case
  proof (cases "Option.bind (parent_of x) (\<lambda>p. by_id p flat)")
    case None
    then show ?thesis
      by (cases "parent_of x") (auto simp: climb_unfold [of _ "Some x"] climb_unfold [of _ None])
  next
    case (Some y)
    then obtain p where p: "parent_of x = Some p" "by_id p flat = Some y" by (cases "parent_of x") auto
    then have y: "y \<in> set flat" "cat_id y = p" using by_id_Some by blast+
    have "climb flat (Some y) (d + 1) \<noteq> None"
      using less.hyps [of y] y assms [OF less.prems p] by blast
    then show ?thesis using p by (simp add: climb_unfold [of _ "Some x"])
  qed
qed

lemma by_id_reparent:
  "by_id p (reparent i q flat) = map_option (\<lambda>c. if cat_id c = i then with_parent q c else c) (by_id p flat)"
  unfolding by_id_def reparent_def by (induction flat) auto

lemma walk_depth_mem:
  assumes "x \<in> set (walk tree)"
  obtains k where "(x, k) \<in> set (walk_depth d tree)"
proof -
  have "x \<in> set (map fst (walk_depth d tree))" using assms by (simp add: walk_depth_walk)
  then show ?thesis using that by auto
qed

text \<open>The rank of a category after the move: its depth, with the new parent at the bottom.\<close>

definition tree_depth :: "category list \<Rightarrow> int \<Rightarrow> nat" where
  "tree_depth tree i = the (depthOf (walk tree) i)"

lemma tree_depth_parent:
  assumes "tree_ok tree" and "x \<in> set (walk tree)" and "parent_of x = Some p"
  shows "tree_depth tree (cat_id x) = Suc (tree_depth tree p) \<and> by_id p (walk tree) \<noteq> None"
proof -
  obtain k where k: "(x, k) \<in> set (walk_depth 0 tree)" using walk_depth_mem [OF assms(2)] .
  have "below None 0 (walk_depth 0 tree) x k"
    using walk_depth_parent [OF _ k] assms(1) by (simp add: tree_ok_def)
  then obtain y j where y: "k = Suc j" "(y, j) \<in> set (walk_depth 0 tree)" "p = cat_id y"
    using assms(3) by (auto simp: below_def)
  have "y \<in> set (walk tree)" using y(2) by (metis walk_depth_walk fst_conv image_eqI set_map)
  then have "by_id p (walk tree) = Some y" "by_id (cat_id x) (walk tree) = Some x"
    using by_id_member assms(1,2) y(3) by (auto simp: tree_ok_def)
  then show ?thesis
    using climb_depth [OF assms(1) k, of 0] climb_depth [OF assms(1) y(2), of 0] y(1)
    by (simp add: tree_depth_def depthOf_def)
qed

lemma linked_root: "linked q ns \<Longrightarrow> c \<in> set ns \<Longrightarrow> parent_of c = q \<and> 0 < cat_id c"
  by (induction ns rule: walk.induct) auto


lemma sent_parent_dec: "0 < i \<Longrightarrow> sent_parent (dec_int i) = Some i"
proof -
  assume "0 < i"
  then obtain n where n: "i = int n" by (metis zero_less_imp_eq_int)
  then show ?thesis by (simp add: sent_parent_def dec_int_def)
qed

lemma offered_parent_root:
  assumes "tree_ok tree" and "(v, l) \<in> set (parent_options t (Some c) tree)" and "sent_parent v = Some q"
  shows "\<exists>y \<in> set tree. cat_id y = q \<and> parent_of y = None \<and> q \<noteq> cat_id c"
proof -
  have "v \<noteq> []" using assms(3) by (auto simp: sent_parent_def)
  then obtain y where y: "y \<in> set tree" "v = dec_int (cat_id y)" "cat_id y \<noteq> cat_id c"
    using assms(2) by (auto simp: parent_options_def)
  moreover have "parent_of y = None \<and> 0 < cat_id y"
    using linked_root [OF _ y(1), of None] assms(1) by (simp add: tree_ok_def)
  ultimately show ?thesis using assms(3) sent_parent_dec [of "cat_id y"] by auto
qed

text \<open>The depth grows downwards in the new list, the chosen parent being a root.\<close>

lemma reparent_ranked:
  assumes ok: "tree_ok tree" and p: "(v, l) \<in> set (parent_options t (Some c) tree)"
    and z: "z \<in> set (reparent (cat_id c) (sent_parent v) (walk tree))" "parent_of z = Some p"
  shows "(if Some p = sent_parent v then 0 else Suc (tree_depth tree p)) <
    (if Some (cat_id z) = sent_parent v then 0 else Suc (tree_depth tree (cat_id z)))"
proof -
  note v = offered_parent_root [OF ok p]
  obtain z0 where z0: "z0 \<in> set (walk tree)" "cat_id z0 = cat_id z"
    "z = (if cat_id z0 = cat_id c then with_parent (sent_parent v) z0 else z0)"
    using z(1) by (auto simp: reparent_def)
  show ?thesis
  proof (cases "cat_id z0 = cat_id c")
    case True
    then have "sent_parent v = Some p" using z(2) z0(3) by (auto simp: parent_of_def split: option.splits if_splits)
    moreover have "Some (cat_id z) \<noteq> sent_parent v" using v [of "cat_id z"] True z0(2) by auto
    ultimately show ?thesis by simp
  next
    case False
    then have p: "parent_of z0 = Some p" using z(2) z0(3) by simp
    have "Some (cat_id z) \<noteq> sent_parent v"
    proof
      assume "Some (cat_id z) = sent_parent v"
      then obtain y where y: "y \<in> set tree" "cat_id y = cat_id z0" "parent_of y = None"
        using v [of "cat_id z"] z0(2) by auto
      moreover have "by_id (cat_id x) (walk tree) = Some x" if "x \<in> set (walk tree)" for x
        using by_id_member ok that by (simp add: tree_ok_def)
      ultimately have "y = z0" using z0(1) walk_mem [OF y(1)] by (metis option.inject)
      then show False using y(3) p by simp
    qed
    then show ?thesis using tree_depth_parent [OF ok z0(1) p] z0(2) by simp
  qed
qed

text \<open>C39: Whatever parent the form offers for a category is chosen, the list the server then has is
  still one in which the depth of every category is found: the form cannot make a
  category its own ancestor, and the page never hangs.\<close>

theorem offered_parents_end:
  assumes "tree_ok tree" and "c \<in> set (walk tree)" and "(v, l) \<in> set (parent_options t (Some c) tree)"
    and "x \<in> set (walk tree)"
  shows "depthOf (reparent (cat_id c) (sent_parent v) (walk tree)) (cat_id x) \<noteq> None"
proof -
  let ?flat = "reparent (cat_id c) (sent_parent v) (walk tree)"
  note ends = climb_ends [of ?flat "\<lambda>i. if Some i = sent_parent v then 0 else Suc (tree_depth tree i)",
      OF reparent_ranked [OF assms(1,3)]]
  have "by_id (cat_id x) (walk tree) = Some x"
    using by_id_member assms(1,4) by (simp add: tree_ok_def)
  then have "by_id (cat_id x) ?flat = Some (if cat_id x = cat_id c then with_parent (sent_parent v) x else x)"
    by (simp add: by_id_reparent)
  then show ?thesis using ends by_id_Some unfolding depthOf_def by metis
qed

theorem offered_parents_end_witness:
  "map fst (parent_options (\<lambda>k _. k) (Some (hd sample_tree)) sample_tree) = [[], ''4''] \<and>
   depthOf (reparent 1 (sent_parent ''4'') (walk sample_tree)) 3 \<noteq> None"
proof -
  let ?t = "\<lambda>k (_ :: vars option). k"
  have four: "dec 4 = ''4''" by code_simp
  have o: "map fst (parent_options ?t (Some (hd sample_tree)) sample_tree) = [[], ''4'']"
    by (simp add: sample_tree_def parent_options_def dec_int_def four)
  then have "\<exists>l. (''4'', l) \<in> set (parent_options ?t (Some (hd sample_tree)) sample_tree)"
    by (simp add: sample_tree_def parent_options_def dec_int_def four)
  then obtain l where "(''4'', l) \<in> set (parent_options ?t (Some (hd sample_tree)) sample_tree)" ..
  from offered_parents_end [OF sample_tree_ok _ this, of "Category 3 (Some 2) ''C'' ''c'' 0 None"] o
  show ?thesis by (simp add: sample_tree_def)
qed

text \<open>On two categories that name each other as parents the loop does not end.\<close>

lemma parents_in_a_ring_hang:
  assumes "parent_of a = Some (cat_id b)" and "parent_of b = Some (cat_id a)"
    and "by_id (cat_id a) flat = Some a" and "by_id (cat_id b) flat = Some b"
  shows "depthOf flat (cat_id a) = None"
proof -
  have "fl = flat \<longrightarrow> cur \<noteq> Some a \<and> cur \<noteq> Some b" if "climb fl cur d = Some k" for fl cur d k
    by (rule climb.raw_induct [where P = "\<lambda>fl cur d k. fl = flat \<longrightarrow> cur \<noteq> Some a \<and> cur \<noteq> Some b", OF _ that])
       (use assms in \<open>force split: option.splits\<close>)
  then show ?thesis using assms(3) by (cases "depthOf flat (cat_id a)") (auto simp: depthOf_def)
qed

end
