(* ===== verification/DomainAcls.thy ===== *)
theory DomainAcls
  imports Forms
begin

text \<open>
  The domain access lists, \<open>web/app/admin/domain-acls/page.tsx\<close>: the text of a list of domains,
  the page, the deletion and the form.
\<close>

subsection \<open>Domains as text\<close>

text \<open>\<open>v.split(/[\n,]/)\<close>, trimmed, without the empty ones.\<close>

definition splitDomains :: "string \<Rightarrow> string list" where
  "splitDomains v =
     filter (\<lambda>d. d \<noteq> [])
       (map js_trim (concat (map (split_on (CHR '','')) (split_on (CHR 0x0A) v))))"

definition clean_domain :: "string \<Rightarrow> bool" where
  "clean_domain d \<longleftrightarrow> d \<noteq> [] \<and> js_trim d = d \<and> CHR '','' \<notin> set d \<and> CHR 0x0A \<notin> set d"

definition domain_lines :: "string list \<Rightarrow> string" where
  "domain_lines ds = join_with [CHR 0x0A] ds"

lemma split_on_absent: "c \<notin> set s \<Longrightarrow> split_on c s = [s]"
  by (induction s) auto

lemma split_on_step: "c \<notin> set s \<Longrightarrow> split_on c (s @ c # rest) = s # split_on c rest"
  by (induction s) (auto split: list.split)

lemma split_on_join:
  assumes "ds \<noteq> []" and "\<forall>d \<in> set ds. c \<notin> set d"
  shows "split_on c (join_with [c] ds) = ds"
  using assms
proof (induction ds rule: induct_list012)
  case (3 d e ds)
  then show ?case using split_on_step [of c d "join_with [c] (e # ds)"] by simp
qed (simp_all add: split_on_absent)

lemma split_on_parts: "d \<in> set (split_on c s) \<Longrightarrow> c \<notin> set d \<and> set d \<subseteq> set s"
  by (induction s arbitrary: d) (force split: list.splits if_splits)+

lemma splitDomains_clean:
  assumes "d \<in> set (splitDomains v)"
  shows "clean_domain d"
proof -
  obtain l e where e: "l \<in> set (split_on (CHR 0x0A) v)" "e \<in> set (split_on (CHR '','') l)"
    "d = js_trim e" "d \<noteq> []"
    using assms by (auto simp: splitDomains_def)
  have "CHR '','' \<notin> set e" "CHR 0x0A \<notin> set e"
    using split_on_parts [OF e(1)] split_on_parts [OF e(2)] by blast+
  then show ?thesis
    using e(3,4) js_trim_idem [of e] set_js_trim [of e] unfolding clean_domain_def by auto
qed

lemma splitDomains_lines:
  assumes "\<forall>d \<in> set ds. clean_domain d"
  shows "splitDomains (domain_lines ds) = ds"
proof (cases ds)
  case Nil
  then show ?thesis by (simp add: splitDomains_def domain_lines_def js_trim_def)
next
  case (Cons d es)
  have "split_on (CHR 0x0A) (domain_lines ds) = ds"
    unfolding domain_lines_def using assms Cons by (intro split_on_join) (auto simp: clean_domain_def)
  moreover have "concat (map (split_on (CHR '','')) ds) = ds" if "\<forall>d \<in> set ds. clean_domain d" for ds
    using that by (induction ds) (auto simp: clean_domain_def split_on_absent)
  moreover have "filter (\<lambda>d. d \<noteq> []) (map js_trim ds) = ds" if "\<forall>d \<in> set ds. clean_domain d" for ds
    using that by (induction ds) (auto simp: clean_domain_def)
  ultimately show ?thesis using assms by (simp add: splitDomains_def)
qed


subsection \<open>The form\<close>

record acl_form =
  af_initial :: "domain_acl option"
  af_title :: string
  af_whitelist :: string
  af_blocklist :: string
  af_pending :: bool

definition new_acl_form :: "domain_acl option \<Rightarrow> acl_form" where
  "new_acl_form init =
     (case init of
        Some a \<Rightarrow> \<lparr>af_initial = init, af_title = acl_title a, af_whitelist = domain_lines (acl_whitelist a),
           af_blocklist = domain_lines (acl_blocklist a), af_pending = False\<rparr>
      | None \<Rightarrow> \<lparr>af_initial = None, af_title = [], af_whitelist = [], af_blocklist = [], af_pending = False\<rparr>)"

datatype acl_edit = ATitle string | AWhitelist string | ABlocklist string

fun acl_type :: "acl_edit \<Rightarrow> acl_form \<Rightarrow> acl_form" where
  "acl_type (ATitle x) f = f\<lparr>af_title := x\<rparr>"
| "acl_type (AWhitelist x) f = f\<lparr>af_whitelist := x\<rparr>"
| "acl_type (ABlocklist x) f = f\<lparr>af_blocklist := x\<rparr>"

definition domain_texts :: "string list \<Rightarrow> json" where
  "domain_texts ds = JList (map JText ds)"

definition acl_body :: "acl_form \<Rightarrow> json" where
  "acl_body f = JObj [(''title'', JText (af_title f)), (''whitelist'', domain_texts (splitDomains (af_whitelist f))),
     (''blocklist'', domain_texts (splitDomains (af_blocklist f)))]"

definition acl_request :: "acl_form \<Rightarrow> 'a web_effect" where
  "acl_request f =
     (case af_initial f of
        Some a \<Rightarrow> Request ''PATCH'' (''/api/acls/'' @ dec_int (acl_id a)) (Some (acl_body f))
      | None \<Rightarrow> Request ''POST'' ''/api/acls'' (Some (acl_body f)))"

definition acl_submit :: "acl_form \<Rightarrow> acl_form \<times> 'a web_effect list" where
  "acl_submit f =
     (if js_trim (af_title f) = [] then (f, []) else (f\<lparr>af_pending := True\<rparr>, [acl_request f]))"

definition acl_saved :: "translator \<Rightarrow> domain_acl reply \<Rightarrow> acl_form \<Rightarrow> acl_form \<times> 'a web_effect list" where
  "acl_saved t r f =
     (f\<lparr>af_pending := False\<rparr>,
      case r of
        Ok _ \<Rightarrow> saved_effects (if af_initial f \<noteq> None then tx t ''aclUpdated'' else tx t ''aclCreated'') ''acls''
      | _ \<Rightarrow> [Toast ToastError (error_text r)])"

interpretation acl_saves: save_form af_pending acl_type acl_submit "acl_saved t" for t
proof
  show "af_pending (acl_type e s) = af_pending s" for e s by (cases e) simp_all
qed (auto simp: acl_submit_def acl_saved_def acl_request_def saved_effects_def split: option.splits reply.splits)

definition domain_area :: "translator \<Rightarrow> string \<Rightarrow> (string \<Rightarrow> 'e) \<Rightarrow> 'e node" where
  "domain_area t val typed =
     El ''Textarea'' [(''rows'', ANum (num_of_nat 3)), (''placeholder'', AText (tx t ''aclDomainsPlaceholder'')),
       (''value'', AText val), (''onChange'', AInput typed)] []"

definition AclFormContent :: "translator \<Rightarrow> acl_form \<Rightarrow> (acl_edit, domain_acl) form_event option node" where
  "AclFormContent t f =
     (let e = (\<lambda>mk x. Some (Edit (mk x))) in
      El ''form'' []
       [El ''DialogTitle'' [] [Txt (if af_initial f \<noteq> None then tx t ''aclEditTitle'' else tx t ''aclNew'')],
        El ''div'' []
         [field (tx t ''aclColTitle'') [text_input (af_title f) (e ATitle)],
          field (tx t ''aclColWhitelist'') [domain_area t (af_whitelist f) (e AWhitelist)],
          field (tx t ''aclColBlocklist'') [domain_area t (af_blocklist f) (e ABlocklist)]],
        form_buttons t None (Some Submit) (af_pending f) (js_trim (af_title f) = []) (tx t ''save'')])"

subsection \<open>The page\<close>

datatype acls_event = EditAcl domain_acl | AclKey string domain_acl | AskRemoveAcl domain_acl | RemoveAcl int | CreateAcl

definition ask_remove_acl :: "translator \<Rightarrow> domain_acl \<Rightarrow> acls_event web_effect list" where
  "ask_remove_acl t a = ask_remove t (tx t ''aclDeleteTitle'') (tx t ''aclDeleteDesc'') (Some Destructive)
     (RemoveAcl (acl_id a))"

definition remove_acl_answer :: "translator \<Rightarrow> unit reply \<Rightarrow> acls_event web_effect list" where
  "remove_acl_answer t r = delete_answer t ''acls'' True r"

definition open_acl :: "acls_event \<Rightarrow> acls_event web_effect list" where
  "open_acl e = [OpenDlg e (Some SizeMd) False False]"

fun acls_step :: "translator \<Rightarrow> acls_event \<Rightarrow> acls_event web_effect list" where
  "acls_step t (EditAcl a) = open_acl (EditAcl a)"
| "acls_step t (AclKey k a) = (if k = ''Enter'' \<or> k = '' '' then open_acl (EditAcl a) else [])"
| "acls_step t CreateAcl = open_acl CreateAcl"
| "acls_step t (AskRemoveAcl a) = ask_remove_acl t a"
| "acls_step t (RemoveAcl i) = delete_request ''/api/acls/'' i"

definition acls_summary :: "translator \<Rightarrow> domain_acl list \<Rightarrow> (string \<times> string \<times> string option) list" where
  "acls_summary t acls =
     [(tx t ''sumTotalAcls'', dec (length acls), None),
      (tx t ''aclColWhitelist'', dec (sum_list (map (length \<circ> acl_whitelist) acls)), None),
      (tx t ''aclColBlocklist'', dec (sum_list (map (length \<circ> acl_blocklist) acls)), None)]"

definition domain_badges :: "string list \<Rightarrow> 'e node" where
  "domain_badges ds =
     cell [if ds \<noteq> [] then El ''div'' [] (map (\<lambda>d. El ''Badge'' [] [Txt d]) ds) else El ''span'' [] [Txt emdash]]"

definition acl_row :: "translator \<Rightarrow> domain_acl \<Rightarrow> acls_event node" where
  "acl_row t a =
     El ''TableRow'' [(''role'', AText ''button''), (''aria-label'', AText (tx t ''edit'' @ '' '' @ acl_title a)),
         (''onKeyDown'', AInput (\<lambda>k. AclKey k a)), (''onClick'', AEvent (EditAcl a))]
       [cell [El ''Avatar'' [] [El ''ShieldIcon'' [] []], El ''span'' [] [Txt (acl_title a)]],
        domain_badges (acl_whitelist a), domain_badges (acl_blocklist a),
        cell [icon_click (EditAcl a) (tx t ''edit'' @ '' '' @ acl_title a) ''PencilIcon'',
          icon_click (AskRemoveAcl a) (tx t ''delete'' @ '' '' @ acl_title a) ''Trash2'']]"

definition DomainAclsPage :: "translator \<Rightarrow> domain_acl list fetched \<Rightarrow> acls_event node" where
  "DomainAclsPage t data =
     (let acls = (case query_data data of Some xs \<Rightarrow> xs | None \<Rightarrow> []) in
      El ''div'' [] (SummaryStrip (acls_summary t acls) @
       [table_page [tx t ''aclColTitle'', tx t ''aclColWhitelist'', tx t ''aclColBlocklist'', tx t ''colActions'']
         (if data = QPending then skeleton_rows 4 4
          else map (acl_row t) acls @
            show_if (acls = []) (El ''TableRow'' []
              [cell [EmptyState ''ShieldIcon'' (Some (tx t ''navDomainAcls'')) (Some (tx t ''aclEmpty'')) None]]))]))"

subsection \<open>What is saved\<close>

text \<open>C35: Whatever is typed, the lists of domains a save sends hold only trimmed texts without comma,
  line break or white space at their ends, none of them empty; and a list that is only opened and saved is sent
  unchanged, so that editing the title of an access list never alters its domains.\<close>

theorem acl_lists_roundtrip:
  assumes "\<forall>d \<in> set (acl_whitelist a) \<union> set (acl_blocklist a). clean_domain d"
  shows "acl_body (acl_type (ATitle x) (new_acl_form (Some a))) =
      JObj [(''title'', JText x), (''whitelist'', domain_texts (acl_whitelist a)),
        (''blocklist'', domain_texts (acl_blocklist a))] \<and>
    (\<forall>f. \<exists>w b. acl_body f = JObj [(''title'', JText (af_title f)), (''whitelist'', domain_texts w),
        (''blocklist'', domain_texts b)] \<and> (\<forall>d \<in> set w \<union> set b. clean_domain d))"
proof -
  have "splitDomains (domain_lines (acl_whitelist a)) = acl_whitelist a"
    "splitDomains (domain_lines (acl_blocklist a)) = acl_blocklist a"
    using assms by (auto intro: splitDomains_lines)
  then show ?thesis
    using splitDomains_clean by (auto simp: acl_body_def new_acl_form_def)
qed

theorem acl_lists_roundtrip_witness:
  "acl_body (new_acl_form (Some \<lparr>acl_id = 1, acl_title = ''x'', acl_whitelist = [''a.org'', ''b.org''],
      acl_blocklist = [], acl_createdAt = [], acl_updatedAt = []\<rparr>)) =
   JObj [(''title'', JText ''x''), (''whitelist'', JList [JText ''a.org'', JText ''b.org'']), (''blocklist'', JList [])]"
proof -
  let ?a = "\<lparr>acl_id = 1, acl_title = ''x'', acl_whitelist = [''a.org'', ''b.org''],
      acl_blocklist = [], acl_createdAt = [], acl_updatedAt = []\<rparr>"
  have "\<forall>d \<in> set (acl_whitelist ?a) \<union> set (acl_blocklist ?a). clean_domain d"
    by (simp add: clean_domain_def js_trim_def js_space_def)
  from acl_lists_roundtrip [OF this, of "''x''"] show ?thesis
    by (simp add: acl_body_def new_acl_form_def domain_texts_def)
qed

end
