(* ===== verification/Flavors.thy ===== *)
theory Flavors
  imports Forms
begin

text \<open>
  The transcoding flavors, \<open>web/app/admin/flavors/page.tsx\<close>: the list with its switches, the
  deletion, and the form over a draft whose numbers are what the fields hold.
\<close>

subsection \<open>Drafts\<close>

record flavor_draft =
  fd_id :: int
  fd_name :: string
  fd_label :: string
  fd_codec :: codec
  fd_height :: jnum
  fd_videoMode :: video_mode
  fd_crf :: "jnum option"
  fd_videoBitrate :: "jnum option"
  fd_audioBitrate :: jnum
  fd_preset :: string
  fd_enabled :: bool
  fd_position :: int

fun codec_name :: "codec \<Rightarrow> string" where
  "codec_name H264 = ''h264''"
| "codec_name H265 = ''h265''"

fun mode_name :: "video_mode \<Rightarrow> string" where
  "mode_name Crf = ''crf''"
| "mode_name Bitrate = ''bitrate''"

definition draft_of :: "flavor \<Rightarrow> flavor_draft" where
  "draft_of f =
     \<lparr>fd_id = fv_id f, fd_name = fv_name f, fd_label = fv_label f, fd_codec = fv_codec f,
      fd_height = num_of_nat (fv_height f), fd_videoMode = fv_videoMode f, fd_crf = map_option Fin (fv_crf f),
      fd_videoBitrate = map_option num_of_nat (fv_videoBitrate f), fd_audioBitrate = num_of_nat (fv_audioBitrate f),
      fd_preset = fv_preset f, fd_enabled = fv_enabled f, fd_position = fv_position f\<rparr>"

definition blank :: flavor where
  "blank =
     \<lparr>fv_id = 0, fv_name = [], fv_label = [], fv_codec = H264, fv_height = 480, fv_videoMode = Crf, fv_crf = Some 23,
      fv_videoBitrate = None, fv_audioBitrate = 128, fv_preset = ''veryfast'', fv_enabled = False, fv_position = 0\<rparr>"

definition json_opt :: "jnum option \<Rightarrow> json" where
  "json_opt x = (case x of Some n \<Rightarrow> JNum n | None \<Rightarrow> JNull)"

definition draft_json :: "flavor_draft \<Rightarrow> json" where
  "draft_json d = JObj
     [(''id'', JInt (fd_id d)), (''name'', JText (fd_name d)), (''label'', JText (fd_label d)),
      (''codec'', JText (codec_name (fd_codec d))), (''height'', JNum (fd_height d)),
      (''videoMode'', JText (mode_name (fd_videoMode d))), (''crf'', json_opt (fd_crf d)),
      (''videoBitrate'', json_opt (fd_videoBitrate d)), (''audioBitrate'', JNum (fd_audioBitrate d)),
      (''preset'', JText (fd_preset d)), (''enabled'', JBool (fd_enabled d)), (''position'', JInt (fd_position d))]"

subsection \<open>The form\<close>

record flavor_form =
  ff_initial :: flavor
  ff_draft :: flavor_draft
  ff_errors :: field_errors
  ff_pending :: bool

definition new_flavor_form :: "flavor option \<Rightarrow> flavor_form" where
  "new_flavor_form init =
     (let f = (case init of Some f \<Rightarrow> f | None \<Rightarrow> blank) in
      \<lparr>ff_initial = f, ff_draft = draft_of f, ff_errors = [], ff_pending = False\<rparr>)"

datatype flavor_edit =
    FName string | FLabel string | FCodec string | FHeight string | FMode string
  | FCrf string | FBitrate string | FAudio string | FPreset string

fun draft_edit :: "flavor_edit \<Rightarrow> flavor_draft \<Rightarrow> flavor_draft" where
  "draft_edit (FName x) d = d\<lparr>fd_name := x\<rparr>"
| "draft_edit (FLabel x) d = d\<lparr>fd_label := x\<rparr>"
| "draft_edit (FCodec x) d = d\<lparr>fd_codec := (if x = ''h265'' then H265 else H264)\<rparr>"
| "draft_edit (FHeight x) d = d\<lparr>fd_height := js_number x\<rparr>"
| "draft_edit (FMode x) d = d\<lparr>fd_videoMode := (if x = ''bitrate'' then Bitrate else Crf)\<rparr>"
| "draft_edit (FCrf x) d = d\<lparr>fd_crf := Some (js_number x)\<rparr>"
| "draft_edit (FBitrate x) d = d\<lparr>fd_videoBitrate := Some (js_number x)\<rparr>"
| "draft_edit (FAudio x) d = d\<lparr>fd_audioBitrate := js_number x\<rparr>"
| "draft_edit (FPreset x) d = d\<lparr>fd_preset := x\<rparr>"

definition flavor_type :: "flavor_edit \<Rightarrow> flavor_form \<Rightarrow> flavor_form" where
  "flavor_type e f = f\<lparr>ff_draft := draft_edit e (ff_draft f)\<rparr>"

text \<open>The rate that the mode does not use is dropped.\<close>

definition sent_draft :: "flavor_draft \<Rightarrow> flavor_draft" where
  "sent_draft d =
     d\<lparr>fd_videoBitrate := (if fd_videoMode d = Bitrate then fd_videoBitrate d else None),
       fd_crf := (if fd_videoMode d = Crf then fd_crf d else None)\<rparr>"

definition form_opt :: "jnum option \<Rightarrow> form_value" where
  "form_opt x = (case x of Some n \<Rightarrow> FNumber n | None \<Rightarrow> FNull)"

definition flavor_values :: "flavor_draft \<Rightarrow> form_data" where
  "flavor_values d =
     [(''id'', FNumber (num_of_int (fd_id d))), (''name'', FText (fd_name d)), (''label'', FText (fd_label d)),
      (''codec'', FText (codec_name (fd_codec d))), (''height'', FNumber (fd_height d)),
      (''videoMode'', FText (mode_name (fd_videoMode d))), (''crf'', form_opt (fd_crf d)),
      (''videoBitrate'', form_opt (fd_videoBitrate d)), (''audioBitrate'', FNumber (fd_audioBitrate d)),
      (''preset'', FText (fd_preset d)), (''enabled'', FBool (fd_enabled d)),
      (''position'', FNumber (num_of_int (fd_position d)))]"

definition flavor_request :: "flavor_form \<Rightarrow> 'a web_effect" where
  "flavor_request f =
     (let body = Some (draft_json (sent_draft (ff_draft f))) in
      if fv_id (ff_initial f) \<noteq> 0 then Request ''PATCH'' (''/api/flavors/'' @ dec_int (fd_id (ff_draft f))) body
      else Request ''POST'' ''/api/flavors'' body)"

definition flavor_submit ::
  "(schema \<Rightarrow> form_data \<Rightarrow> issue list) \<Rightarrow> flavor_form \<Rightarrow> flavor_form \<times> 'a web_effect list" where
  "flavor_submit parse f =
     (let errs = fieldErrors parse flavorSchema (flavor_values (sent_draft (ff_draft f))) in
      if errs \<noteq> [] then (f\<lparr>ff_errors := errs\<rparr>, [])
      else (f\<lparr>ff_errors := [], ff_pending := True\<rparr>, [flavor_request f]))"

definition flavor_saved :: "translator \<Rightarrow> flavor reply \<Rightarrow> flavor_form \<Rightarrow> flavor_form \<times> 'a web_effect list" where
  "flavor_saved t r f =
     (f\<lparr>ff_pending := False\<rparr>,
      case r of
        Ok _ \<Rightarrow> saved_effects
          (if fv_id (ff_initial f) \<noteq> 0 then tx t ''flavorUpdated'' else tx t ''flavorCreated'') ''flavors''
      | _ \<Rightarrow> [Toast ToastError (error_text r)])"

interpretation flavor_saves: save_form ff_pending flavor_type "flavor_submit parse" "flavor_saved t"
  for parse t
  by unfold_locales
     (auto simp: flavor_type_def flavor_submit_def flavor_saved_def flavor_request_def saved_effects_def Let_def
       split: option.splits reply.splits)

definition number_input :: "string option \<Rightarrow> jnum \<Rightarrow> (string \<Rightarrow> 'e) \<Rightarrow> 'e node" where
  "number_input stp val typed =
     El ''Input'' ([(''type'', AText ''number'')] @ (case stp of Some x \<Rightarrow> [(''step'', AText x)] | None \<Rightarrow> []) @
       [(''value'', ANum val), (''onChange'', AInput typed)]) []"

definition presets :: "string list" where
  "presets = [''ultrafast'', ''superfast'', ''veryfast'', ''faster'', ''fast'', ''medium'']"

definition FlavorFormContent :: "translator \<Rightarrow> flavor_form \<Rightarrow> (flavor_edit, flavor) form_event option node" where
  "FlavorFormContent t f =
     (let d = ff_draft f; e = (\<lambda>mk x. Some (Edit (mk x))); err = (\<lambda>k. FormError (map_of (ff_errors f) k)) in
      El ''form'' []
       [El ''DialogTitle'' [] [Txt (if fv_id (ff_initial f) \<noteq> 0 then tx t ''editFlavorTitle'' else tx t ''newFlavorTitle'')],
        El ''div'' []
         [field (tx t ''colName'') (text_input (fd_name d) (e FName) # err ''name''),
          field (tx t ''colFlavor'') [text_input (fd_label d) (e FLabel)],
          field (tx t ''colCodec'') [select [(''h264'', tx t ''codecH264''), (''h265'', tx t ''codecH265'')]
            (codec_name (fd_codec d)) (e FCodec)],
          field (tx t ''colHeight'' @ '' (px)'') (number_input None (fd_height d) (e FHeight) # err ''height''),
          field (tx t ''videoMode'') [select [(''crf'', tx t ''vmodeCrf''), (''bitrate'', tx t ''vmodeBitrate'')]
            (mode_name (fd_videoMode d)) (e FMode)],
          (if fd_videoMode d = Crf then field (tx t ''labelCrf'')
             (number_input (Some ''0.5'') (case fd_crf d of Some n \<Rightarrow> n | None \<Rightarrow> Fin 23) (e FCrf) # err ''crf'')
           else field (tx t ''labelBitrate'')
             (number_input None (case fd_videoBitrate d of Some n \<Rightarrow> n | None \<Rightarrow> Fin 0) (e FBitrate) # err ''videoBitrate'')),
          field (tx t ''labelAudioBitrate'') (number_input None (fd_audioBitrate d) (e FAudio) # err ''audioBitrate''),
          field (tx t ''labelPreset'') [select (map (\<lambda>p. (p, p)) presets) (fd_preset d) (e FPreset)]],
        form_buttons t None (Some Submit) (ff_pending f) False (tx t ''saveFlavor'')])"


subsection \<open>The page\<close>

datatype flavors_event =
    EditFlavor flavor
  | FlavorKey string flavor
  | ToggleFlavor flavor
  | AskRemoveFlavor flavor
  | RemoveFlavor int
  | CreateFlavor

text \<open>\<open>toggleFlavor\<close>: the whole flavor with its switch turned, and the two answers.\<close>

definition toggle_request :: "flavor \<Rightarrow> 'a web_effect" where
  "toggle_request f = Request ''PATCH'' (''/api/flavors/'' @ dec_int (fv_id f))
     (Some (draft_json (draft_of (f\<lparr>fv_enabled := \<not> fv_enabled f\<rparr>))))"

definition toggle_answer :: "translator \<Rightarrow> flavor \<Rightarrow> flavor reply \<Rightarrow> 'a web_effect list" where
  "toggle_answer t f r =
     Invalidate [''flavors''] #
     [case r of
        Ok _ \<Rightarrow> Toast ToastSuccess (if fv_enabled f then tx t ''flavorDisabled'' else tx t ''flavorEnabled'')
      | _ \<Rightarrow> Toast ToastError (error_text r)]"

definition ask_remove_flavor :: "translator \<Rightarrow> flavor \<Rightarrow> flavors_event web_effect list" where
  "ask_remove_flavor t f = ask_remove t (tx t ''deleteFlavorTitle'') (tx t ''deleteFlavorDesc'') (Some Destructive)
     (RemoveFlavor (fv_id f))"

definition remove_flavor_answer :: "translator \<Rightarrow> unit reply \<Rightarrow> flavors_event web_effect list" where
  "remove_flavor_answer t r = delete_answer t ''flavors'' True r"

definition open_flavor :: "flavors_event \<Rightarrow> flavors_event web_effect list" where
  "open_flavor e = [OpenDlg e (Some SizeMd) False False]"

fun flavors_step :: "translator \<Rightarrow> flavors_event \<Rightarrow> flavors_event web_effect list" where
  "flavors_step t (EditFlavor f) = open_flavor (EditFlavor f)"
| "flavors_step t (FlavorKey k f) = (if k = ''Enter'' \<or> k = '' '' then open_flavor (EditFlavor f) else [])"
| "flavors_step t CreateFlavor = open_flavor CreateFlavor"
| "flavors_step t (ToggleFlavor f) = [toggle_request f]"
| "flavors_step t (AskRemoveFlavor f) = ask_remove_flavor t f"
| "flavors_step t (RemoveFlavor i) = delete_request ''/api/flavors/'' i"

definition flavors_summary :: "translator \<Rightarrow> flavor list \<Rightarrow> (string \<times> string \<times> string option) list" where
  "flavors_summary t fs =
     (let enabledCount = length (filter fv_enabled fs) in
      [(tx t ''sumTotalFlavors'', dec (length fs), None), (tx t ''sumEnabledFlavors'', dec enabledCount, None),
       (tx t ''flavorDisabled'', dec (length fs - enabledCount), None)])"

definition video_text :: "flavor \<Rightarrow> string" where
  "video_text f =
     (case fv_videoMode f of
        Crf \<Rightarrow> ''crf '' @ (case fv_crf f of Some q \<Rightarrow> num_text (Fin q) | None \<Rightarrow> ''null'')
      | Bitrate \<Rightarrow> (case fv_videoBitrate f of Some n \<Rightarrow> dec n | None \<Rightarrow> ''null'') @ ''k'') @
     '' '' @ [CHR 0xB7] @ '' '' @ fv_preset f"

definition flavor_row :: "translator \<Rightarrow> flavor \<Rightarrow> flavors_event node" where
  "flavor_row t f =
     El ''TableRow'' [(''role'', AText ''button''), (''aria-label'', AText (tx t ''edit'' @ '' '' @ fv_name f)),
         (''onKeyDown'', AInput (\<lambda>k. FlavorKey k f)), (''onClick'', AEvent (EditFlavor f))]
       [cell [El ''Switch'' [(''aria-label'', AText (fv_name f @ '' '' @ tx t ''colEnabled'')),
          (''checked'', ABool (fv_enabled f)), (''onCheckedChange'', AEvent (ToggleFlavor f))] []],
        cell [El ''Avatar'' [] [El ''VideoIcon'' [] []], El ''span'' [] [Txt (fv_name f)]],
        cell [El ''Badge'' [] [Txt (codec_name (fv_codec f))]],
        cell [Txt (dec (fv_height f) @ ''p'')],
        cell [Txt (video_text f)],
        cell [Txt (dec (fv_audioBitrate f) @ ''k'')],
        cell [icon_click (EditFlavor f) (tx t ''edit'' @ '' '' @ fv_name f) ''PencilIcon'',
          icon_click (AskRemoveFlavor f) (tx t ''delete'' @ '' '' @ fv_name f) ''Trash2'']]"

definition FlavorsPage :: "translator \<Rightarrow> flavor list fetched \<Rightarrow> flavors_event node" where
  "FlavorsPage t data =
     (let fs = (case query_data data of Some xs \<Rightarrow> xs | None \<Rightarrow> []) in
      El ''div'' [] (SummaryStrip (flavors_summary t fs) @
       [table_page [tx t ''colEnabled'', tx t ''colName'', tx t ''colCodec'', tx t ''colHeight'', tx t ''colVideo'',
           tx t ''colAudio'', tx t ''colActions'']
         (if data = QPending then skeleton_rows 5 7
          else map (flavor_row t) fs @
            show_if (fs = []) (El ''TableRow'' []
              [cell [EmptyState ''VideoIcon'' (Some (tx t ''flavorsTitle'')) (Some (tx t ''dashEmpty'')) None]]))]))"

subsection \<open>What is saved\<close>

lemma accepts_flavor:
  "accepts flavorSchema (flavor_values d) \<longleftrightarrow>
     list_all (\<lambda>(k, f). field_valid f (field_value (flavor_values d) k)) (sm_fields flavorSchema)"
  by (simp add: accepts_def refine_holds_def flavorSchema_def object_schema_def)

lemma whole_positive: "0 < q \<Longrightarrow> q = rat_of_int \<lfloor>q\<rfloor> \<Longrightarrow> \<exists>b. q = rat_of_int b \<and> 0 < b"
  by (metis of_int_0_less_iff)

lemma valid_flavor_fields:
  assumes "accepts flavorSchema (flavor_values d)"
  shows "js_trim (fd_name d) \<noteq> []"
    and "\<exists>h. fd_height d = Fin (of_int h) \<and> 1 \<le> h"
    and "\<exists>b. fd_audioBitrate d = Fin (of_int b) \<and> 0 < b"
    and "fd_crf d = None \<or> (\<exists>q. fd_crf d = Some (Fin q) \<and> 0 \<le> q \<and> q \<le> 51)"
    and "fd_videoBitrate d = None \<or> (\<exists>b. fd_videoBitrate d = Some (Fin (of_int b)) \<and> 0 < b)"
proof -
  have v: "field_valid f (field_value (flavor_values d) k)" if "(k, f) \<in> set (sm_fields flavorSchema)" for k f
    using assms that by (auto simp: accepts_flavor list_all_iff)
  note field = field_valid_def accepts_absent_def kind_matches_def field_value_def flavor_values_def
    text_rules_def number_rules_def optional_field_def nullable_field_def
  show "js_trim (fd_name d) \<noteq> []"
    using v [of "''name''" "text_rules [Trim, MinLength 1 (Some ''Name is required'')]"]
    by (auto simp: flavorSchema_def object_schema_def field split: if_splits)
  show "\<exists>h. fd_height d = Fin (of_int h) \<and> 1 \<le> h"
    using v [of "''height''" "number_rules [WholeNumber, MinNumber 1 (Some ''Height must be at least 1'')]"]
    by (cases "fd_height d") (auto simp: flavorSchema_def object_schema_def field split: if_splits)
  show "\<exists>b. fd_audioBitrate d = Fin (of_int b) \<and> 0 < b"
    using v [of "''audioBitrate''" "number_rules [WholeNumber, Positive]"]
    by (cases "fd_audioBitrate d")
       (auto simp: flavorSchema_def object_schema_def field intro!: whole_positive split: if_splits)
  show "fd_crf d = None \<or> (\<exists>q. fd_crf d = Some (Fin q) \<and> 0 \<le> q \<and> q \<le> 51)"
    using v [of "''crf''" "optional_field (nullable_field (number_rules [MinNumber 0 None, MaxNumber 51 None]))"]
    by (cases "fd_crf d"; cases "the (fd_crf d)")
       (auto simp: flavorSchema_def object_schema_def field form_opt_def split: if_splits)
  show "fd_videoBitrate d = None \<or> (\<exists>b. fd_videoBitrate d = Some (Fin (of_int b)) \<and> 0 < b)"
    using v [of "''videoBitrate''" "optional_field (nullable_field (number_rules [WholeNumber, Positive]))"]
    by (cases "fd_videoBitrate d"; cases "the (fd_videoBitrate d)")
       (auto simp: flavorSchema_def object_schema_def field form_opt_def intro!: whole_positive split: if_splits)
qed


text \<open>C36: Whatever is typed, a flavor is sent only with a name, a whole height of at least one, a whole
  positive audio rate, a quality from 0 to 51 if it has one and a whole positive video rate if
  it has one; and it has a quality only in the quality mode, a video rate only in the rate mode.\<close>

theorem flavor_sent_valid:
  assumes "documented_parse parse" and "req \<in> set (snd (flavor_submit parse f))"
  shows "\<exists>m path d. req = Request m path (Some (draft_json d)) \<and> js_trim (fd_name d) \<noteq> [] \<and>
    (\<exists>h \<ge> 1. fd_height d = Fin (of_int h)) \<and> (\<exists>b > 0. fd_audioBitrate d = Fin (of_int b)) \<and>
    (fd_crf d = None \<or> (fd_videoMode d = Crf \<and> (\<exists>q. fd_crf d = Some (Fin q) \<and> 0 \<le> q \<and> q \<le> 51))) \<and>
    (fd_videoBitrate d = None \<or> (fd_videoMode d = Bitrate \<and> (\<exists>b > 0. fd_videoBitrate d = Some (Fin (of_int b)))))"
proof -
  let ?d = "sent_draft (ff_draft f)"
  have "fieldErrors parse flavorSchema (flavor_values ?d) = []" and req: "req = flavor_request f"
    using assms(2) by (auto simp: flavor_submit_def Let_def split: if_splits)
  then have ok: "accepts flavorSchema (flavor_values ?d)"
    using assms(1) unfolding fieldErrors_def fold_issues_empty by (simp add: documented_parse_def)
  have "fd_crf ?d = None \<or> fd_videoMode ?d = Crf" "fd_videoBitrate ?d = None \<or> fd_videoMode ?d = Bitrate"
    by (simp_all add: sent_draft_def)
  then have "(\<exists>h \<ge> 1. fd_height ?d = Fin (of_int h)) \<and> (\<exists>b > 0. fd_audioBitrate ?d = Fin (of_int b)) \<and>
      (fd_crf ?d = None \<or> (fd_videoMode ?d = Crf \<and> (\<exists>q. fd_crf ?d = Some (Fin q) \<and> 0 \<le> q \<and> q \<le> 51))) \<and>
      (fd_videoBitrate ?d = None \<or> (fd_videoMode ?d = Bitrate \<and> (\<exists>b > 0. fd_videoBitrate ?d = Some (Fin (of_int b)))))"
    using valid_flavor_fields(2-5) [OF ok] by meson
  moreover have "\<exists>m path. req = Request m path (Some (draft_json ?d))"
    by (auto simp: req flavor_request_def Let_def)
  ultimately show ?thesis using valid_flavor_fields(1) [OF ok] by blast
qed

definition named_blank :: flavor_form where
  "named_blank = flavor_type (FName ''low'') (new_flavor_form None)"

theorem flavor_sent_valid_witness:
  "\<exists>req. set (snd (flavor_submit reference_parse named_blank :: flavor_form \<times> nat web_effect list)) = {req} \<and>
     (\<exists>m path d. req = Request m path (Some (draft_json d)) \<and> js_trim (fd_name d) \<noteq> [])"
proof -
  have "fieldErrors reference_parse flavorSchema (flavor_values (sent_draft (ff_draft named_blank))) = []"
    by code_simp
  then have one: "snd (flavor_submit reference_parse named_blank) = [flavor_request named_blank :: nat web_effect]"
    by (simp add: flavor_submit_def)
  then have "flavor_request named_blank \<in> set (snd (flavor_submit reference_parse named_blank :: _ \<times> nat web_effect list))"
    by simp
  from flavor_sent_valid [OF documented_reference this] one show ?thesis by auto
qed

text \<open>
  The rate mode is accepted without a rate: a new flavor switched to it, with nothing typed, shows
  a rate of 0 and is sent with none.
\<close>

lemma rate_mode_without_rate:
  "snd (flavor_submit reference_parse (flavor_type (FMode ''bitrate'') named_blank)) =
     [Request ''POST'' ''/api/flavors'' (Some (draft_json
        ((ff_draft named_blank)\<lparr>fd_videoMode := Bitrate, fd_crf := None\<rparr>))) :: nat web_effect]"
proof -
  let ?f = "flavor_type (FMode ''bitrate'') named_blank"
  have "fieldErrors reference_parse flavorSchema (flavor_values (sent_draft (ff_draft ?f))) = []"
    by code_simp
  moreover have "sent_draft (ff_draft ?f) = (ff_draft named_blank)\<lparr>fd_videoMode := Bitrate, fd_crf := None\<rparr>"
    "fv_id (ff_initial ?f) = 0"
    by (simp_all add: named_blank_def flavor_type_def new_flavor_form_def draft_of_def blank_def sent_draft_def)
  ultimately show ?thesis by (simp add: flavor_submit_def flavor_request_def Let_def)
qed

end
