(* ===== verification/Players.thy ===== *)
theory Players
  imports Forms PlayerView
begin

text \<open>
  The player designs, \<open>web/app/admin/players/page.tsx\<close>: the list, the form with the configuration it
  builds from its texts, and the preview.
\<close>

subsection \<open>The configuration a form builds\<close>

fun position_name :: "logo_position \<Rightarrow> string" where
  "position_name TopLeft = ''top-left''"
| "position_name TopRight = ''top-right''"
| "position_name BottomLeft = ''bottom-left''"
| "position_name BottomRight = ''bottom-right''"

definition positions :: "logo_position list" where
  "positions = [TopLeft, TopRight, BottomLeft, BottomRight]"

definition position_of :: "string \<Rightarrow> logo_position" where
  "position_of v = (case find (\<lambda>p. position_name p = v) positions of Some p \<Rightarrow> p | None \<Rightarrow> TopRight)"

lemma position_of_name [simp]: "position_of (position_name p) = p"
  by (cases p) (simp_all add: position_of_def positions_def)

record player_form =
  pf_initial :: "player option"
  pf_name :: string
  pf_accentColor :: string
  pf_logoUrl :: string
  pf_logoHref :: string
  pf_logoPosition :: string
  pf_logoSize :: string
  pf_logoOpacity :: string
  pf_showLoader :: bool
  pf_autoHideControls :: bool
  pf_error :: "string option"
  pf_pending :: bool
  pf_logoFailed :: bool

definition text_or :: "string \<Rightarrow> string option \<Rightarrow> string" where
  "text_or d x = (case x of Some s \<Rightarrow> s | None \<Rightarrow> d)"

definition no_config :: player_config where
  "no_config = \<lparr>pc_accentColor = None, pc_logoUrl = None, pc_logoHref = None, pc_logoPosition = None,
     pc_logoSize = None, pc_logoOpacity = None, pc_showLoader = None, pc_autoHideControls = None\<rparr>"

definition new_player_form :: "player option \<Rightarrow> player_form" where
  "new_player_form init =
     (let cfg = (case init of Some p \<Rightarrow> pl_config p | None \<Rightarrow> no_config) in
      \<lparr>pf_initial = init, pf_name = (case init of Some p \<Rightarrow> pl_name p | None \<Rightarrow> []),
       pf_accentColor = text_or [] (pc_accentColor cfg), pf_logoUrl = text_or [] (pc_logoUrl cfg),
       pf_logoHref = text_or [] (pc_logoHref cfg),
       pf_logoPosition = position_name (case pc_logoPosition cfg of Some p \<Rightarrow> p | None \<Rightarrow> TopRight),
       pf_logoSize = num_text (case pc_logoSize cfg of Some n \<Rightarrow> n | None \<Rightarrow> Fin 64),
       pf_logoOpacity = num_text (case pc_logoOpacity cfg of Some n \<Rightarrow> n | None \<Rightarrow> Fin (4 / 5)),
       pf_showLoader = (pc_showLoader cfg \<noteq> Some False), pf_autoHideControls = (pc_autoHideControls cfg \<noteq> Some False),
       pf_error = None, pf_pending = False, pf_logoFailed = False\<rparr>)"

text \<open>\<open>s.trim() || undefined\<close>, and \<open>Number(s) || d\<close>.\<close>

definition trimmed :: "string \<Rightarrow> string option" where
  "trimmed s = (if js_trim s = [] then None else Some (js_trim s))"

definition number_or :: "rat \<Rightarrow> string \<Rightarrow> jnum" where
  "number_or d s = (let n = js_number s in if n = NaN \<or> n = Fin 0 then Fin d else n)"

definition buildConfig :: "player_form \<Rightarrow> player_config" where
  "buildConfig f =
     \<lparr>pc_accentColor = trimmed (pf_accentColor f), pc_logoUrl = trimmed (pf_logoUrl f),
      pc_logoHref = trimmed (pf_logoHref f), pc_logoPosition = Some (position_of (pf_logoPosition f)),
      pc_logoSize = Some (jmax (Fin 16) (jmin (Fin 512) (number_or 64 (pf_logoSize f)))),
      pc_logoOpacity = Some (jmax (Fin 0) (jmin (Fin 1) (number_or (4 / 5) (pf_logoOpacity f)))),
      pc_showLoader = Some (pf_showLoader f), pc_autoHideControls = Some (pf_autoHideControls f)\<rparr>"

definition config_json :: "player_config \<Rightarrow> json" where
  "config_json c =
     (let txt = (\<lambda>k x. case x of Some s \<Rightarrow> [(k, JText s)] | None \<Rightarrow> []);
          num = (\<lambda>k x. case x of Some n \<Rightarrow> [(k, JNum n)] | None \<Rightarrow> []);
          flag = (\<lambda>k x. case x of Some b \<Rightarrow> [(k, JBool b)] | None \<Rightarrow> []) in
      JObj (txt ''accentColor'' (pc_accentColor c) @ txt ''logoUrl'' (pc_logoUrl c) @ txt ''logoHref'' (pc_logoHref c) @
        txt ''logoPosition'' (map_option position_name (pc_logoPosition c)) @ num ''logoSize'' (pc_logoSize c) @
        num ''logoOpacity'' (pc_logoOpacity c) @ flag ''showLoader'' (pc_showLoader c) @
        flag ''autoHideControls'' (pc_autoHideControls c)))"

subsection \<open>The form\<close>

datatype player_edit =
    PName string | PAccent string | PLogoUrl string | PLogoHref string | PPosition string
  | PSize string | POpacity string | PToggleLoader | PToggleHide | LogoLoaded | LogoFailed

fun player_type :: "player_edit \<Rightarrow> player_form \<Rightarrow> player_form" where
  "player_type (PName x) f = f\<lparr>pf_name := x\<rparr>"
| "player_type (PAccent x) f = f\<lparr>pf_accentColor := x\<rparr>"
| "player_type (PLogoUrl x) f = f\<lparr>pf_logoUrl := x\<rparr>"
| "player_type (PLogoHref x) f = f\<lparr>pf_logoHref := x\<rparr>"
| "player_type (PPosition x) f = f\<lparr>pf_logoPosition := x\<rparr>"
| "player_type (PSize x) f = f\<lparr>pf_logoSize := x\<rparr>"
| "player_type (POpacity x) f = f\<lparr>pf_logoOpacity := x\<rparr>"
| "player_type PToggleLoader f = f\<lparr>pf_showLoader := \<not> pf_showLoader f\<rparr>"
| "player_type PToggleHide f = f\<lparr>pf_autoHideControls := \<not> pf_autoHideControls f\<rparr>"
| "player_type LogoLoaded f = f\<lparr>pf_logoFailed := False\<rparr>"
| "player_type LogoFailed f = f\<lparr>pf_logoFailed := True\<rparr>"

definition player_request :: "player_form \<Rightarrow> 'a web_effect" where
  "player_request f =
     Request (if pf_initial f \<noteq> None then ''PATCH'' else ''POST'')
       (case pf_initial f of Some p \<Rightarrow> ''/api/players/'' @ dec_int (pl_id p) | None \<Rightarrow> ''/api/players'')
       (Some (JObj [(''name'', JText (js_trim (pf_name f))), (''config'', config_json (buildConfig f))]))"

definition player_submit :: "player_form \<Rightarrow> player_form \<times> 'a web_effect list" where
  "player_submit f =
     (if \<not> pf_pending f \<and> js_trim (pf_name f) \<noteq> [] then (f\<lparr>pf_pending := True\<rparr>, [player_request f]) else (f, []))"

definition player_saved :: "translator \<Rightarrow> player reply \<Rightarrow> player_form \<Rightarrow> player_form \<times> 'a web_effect list" where
  "player_saved t r f =
     (case r of
        Ok _ \<Rightarrow> (f\<lparr>pf_pending := False\<rparr>, saved_effects (tx t ''saved'') ''players'')
      | _ \<Rightarrow> (f\<lparr>pf_pending := False, pf_error := Some (error_text r)\<rparr>, []))"

interpretation player_saves: save_form pf_pending player_type player_submit "player_saved t" for t
proof
  show "pf_pending (player_type e s) = pf_pending s" for e s by (cases e) simp_all
qed (auto simp: player_submit_def player_saved_def player_request_def saved_effects_def split: reply.splits)


subsection \<open>The preview\<close>

definition preview_accent :: "player_config \<Rightarrow> string" where
  "preview_accent c =
     (case pc_accentColor c of
        Some (d # h) \<Rightarrow>
          if d = CHR ''#'' \<and> 3 \<le> length h \<and> length h \<le> 8 \<and> list_all is_hex h then d # h
          else ''#ffffff''
      | _ \<Rightarrow> ''#ffffff'')"

definition preview_position :: "player_config \<Rightarrow> string" where
  "preview_position c =
     (case (case pc_logoPosition c of Some p \<Rightarrow> p | None \<Rightarrow> TopRight) of
        TopLeft \<Rightarrow> ''left-3 top-3'' | TopRight \<Rightarrow> ''right-3 top-3''
      | BottomLeft \<Rightarrow> ''left-3 bottom-12'' | BottomRight \<Rightarrow> ''right-3 bottom-12'')"

definition preview_size :: "player_config \<Rightarrow> jnum" where
  "preview_size c = (case pc_logoSize c of Some n \<Rightarrow> n | None \<Rightarrow> Fin 64)"

definition preview_opacity :: "player_config \<Rightarrow> jnum" where
  "preview_opacity c = (case pc_logoOpacity c of Some n \<Rightarrow> n | None \<Rightarrow> Fin (4 / 5))"

definition preview_logo :: "(player_edit \<Rightarrow> 'e) \<Rightarrow> player_config \<Rightarrow> bool \<Rightarrow> 'e node list" where
  "preview_logo ev c failed =
     (let style = [(''className'', AText (preview_position c)), (''width'', ANum (preview_size c)),
        (''height'', ANum (preview_size c)), (''opacity'', ANum (preview_opacity c))] in
      case pc_logoUrl c of
        Some (d # u) \<Rightarrow>
          [El ''div'' style
            [if failed then El ''span'' [] [Txt ''LOGO'']
             else El ''img'' [(''key'', AText (d # u)),
                 (''src'', AText (''/media/branding/logo?url='' @ encodeURIComponent (d # u))), (''alt'', AText []),
                 (''onLoad'', AEvent (ev LogoLoaded)), (''onError'', AEvent (ev LogoFailed))] []]]
      | _ \<Rightarrow> [])"

definition PlayerPreview :: "(player_edit \<Rightarrow> 'e) \<Rightarrow> player_config \<Rightarrow> bool \<Rightarrow> 'e node" where
  "PlayerPreview ev c failed =
     El ''div'' [] (preview_logo ev c failed @
       show_if (pc_showLoader c \<noteq> Some False) (El ''div'' [(''borderTopColor'', AText (preview_accent c))] []) @
       [El ''div'' [] [El ''div'' [(''backgroundColor'', AText (preview_accent c))] [El ''svg'' [] []]],
        El ''div'' []
          [El ''div'' [] [El ''div'' [(''width'', AText ''35%''), (''backgroundColor'', AText (preview_accent c))] []],
           El ''div'' [] [El ''svg'' [] [], El ''svg'' [] [], El ''span'' [] [Txt ''0:07 / 0:21''],
             El ''div'' [] [El ''span'' [] [], El ''span'' [] [], El ''span'' [] []]]]])"

subsection \<open>The form's elements\<close>

definition switch_button :: "'e \<Rightarrow> bool \<Rightarrow> string \<Rightarrow> string \<Rightarrow> 'e node" where
  "switch_button e on label hint =
     El ''button'' [(''onClick'', AEvent e)]
       [El ''div'' [] [El ''Label'' [] [Txt label], El ''p'' [] [Txt hint]],
        El ''Switch'' [(''checked'', ABool on), (''onCheckedChange'', AEvent e)] []]"

definition hinted_input :: "string \<Rightarrow> string \<Rightarrow> (string \<Rightarrow> 'e) \<Rightarrow> 'e node" where
  "hinted_input val hint typed =
     El ''Input'' [(''value'', AText val), (''onChange'', AInput typed), (''placeholder'', AText hint)] []"

definition ranged_input :: "string \<Rightarrow> rat \<Rightarrow> rat \<Rightarrow> (string \<Rightarrow> 'e) \<Rightarrow> 'e node" where
  "ranged_input val lo hi typed =
     El ''Input'' [(''type'', AText ''number''), (''min'', ANum (Fin lo)), (''max'', ANum (Fin hi)),
       (''value'', AText val), (''onChange'', AInput typed)] []"

definition logo_fields :: "translator \<Rightarrow> (player_edit \<Rightarrow> 'e) \<Rightarrow> player_form \<Rightarrow> 'e node" where
  "logo_fields t ev f =
     El ''div'' []
       [El ''Label'' [] [Txt (tx t ''playersLogo'')],
        field (tx t ''playersLogoUrl'') [hinted_input (pf_logoUrl f) (''https://'' @ ellipsis) (ev \<circ> PLogoUrl)],
        field (tx t ''playersLogoHref'') [hinted_input (pf_logoHref f) (''https://'' @ ellipsis) (ev \<circ> PLogoHref)],
        field (tx t ''playersLogoPosition'')
          [select (map (\<lambda>p. (position_name p, position_name p)) positions) (pf_logoPosition f) (ev \<circ> PPosition)],
        field (tx t ''playersLogoSize'') [ranged_input (pf_logoSize f) 16 512 (ev \<circ> PSize)],
        field (tx t ''playersLogoOpacity'') [ranged_input (pf_logoOpacity f) 0 1 (ev \<circ> POpacity)]]"

definition PlayerFormContent :: "translator \<Rightarrow> player_form \<Rightarrow> (player_edit, player) form_event option node" where
  "PlayerFormContent t f =
     (let ev = (\<lambda>e. Some (Edit e)) in
      El ''form'' []
       [El ''DialogTitle'' [] [Txt (case pf_initial f of
          Some p \<Rightarrow> t ''playersEditTitle'' (Some [(''name'', VText (pl_name p))]) | None \<Rightarrow> tx t ''playersNew'')],
        El ''div'' []
         ([PlayerPreview ev (buildConfig f) (pf_logoFailed f),
           field (tx t ''playersName'') [hinted_input (pf_name f) (tx t ''playersNamePlaceholder'') (ev \<circ> PName)],
           field (tx t ''playersAccent'')
            [El ''Input'' [(''type'', AText ''color''),
               (''value'', AText (if pf_accentColor f \<noteq> [] then pf_accentColor f else ''#ffffff'')),
               (''onChange'', AInput (ev \<circ> PAccent))] [],
             hinted_input (pf_accentColor f) ''#ffffff'' (ev \<circ> PAccent)],
           logo_fields t ev f,
           switch_button (ev PToggleLoader) (pf_showLoader f) (tx t ''playersLoader'') (tx t ''playersLoaderHint''),
           switch_button (ev PToggleHide) (pf_autoHideControls f) (tx t ''playersAutoHide'') (tx t ''playersAutoHideHint'')] @
          FormError (pf_error f)),
        form_buttons t None (Some Submit) (pf_pending f) (js_trim (pf_name f) = []) (tx t ''save'')])"

subsection \<open>The page\<close>

datatype players_event = EditPlayer player | PlayerKey string player | AskRemovePlayer player | RemovePlayer int | CreatePlayer

definition ask_remove_player :: "translator \<Rightarrow> player \<Rightarrow> players_event web_effect list" where
  "ask_remove_player t p = ask_remove t (t ''playersDeleteTitle'' (Some [(''name'', VText (pl_name p))]))
     (tx t ''playersDeleteDesc'') None (RemovePlayer (pl_id p))"

definition remove_player_answer :: "translator \<Rightarrow> unit reply \<Rightarrow> players_event web_effect list" where
  "remove_player_answer t r = delete_answer t ''players'' False r"

definition open_player :: "players_event \<Rightarrow> players_event web_effect list" where
  "open_player e = [OpenDlg e (Some Size2xl) False False]"

fun players_step :: "translator \<Rightarrow> players_event \<Rightarrow> players_event web_effect list" where
  "players_step t (EditPlayer p) = open_player (EditPlayer p)"
| "players_step t (PlayerKey k p) = (if k = ''Enter'' \<or> k = '' '' then open_player (EditPlayer p) else [])"
| "players_step t CreatePlayer = open_player CreatePlayer"
| "players_step t (AskRemovePlayer p) = ask_remove_player t p"
| "players_step t (RemovePlayer i) = delete_request ''/api/players/'' i"

definition summarize :: "translator \<Rightarrow> player_config \<Rightarrow> string" where
  "summarize t c =
     (let parts = (case pc_accentColor c of Some (d # x) \<Rightarrow> [d # x] | _ \<Rightarrow> []) @
            (case pc_logoUrl c of Some (d # x) \<Rightarrow> [tx t ''playersLogoShort''] | _ \<Rightarrow> []) @
            (if pc_showLoader c = Some False then [tx t ''playersNoLoaderShort''] else []);
          s = join_with ('' '' @ [CHR 0xB7] @ '' '') parts in
      if s = [] then emdash else s)"

definition player_row :: "translator \<Rightarrow> player \<Rightarrow> players_event node" where
  "player_row t p =
     El ''TableRow'' [(''role'', AText ''button''), (''aria-label'', AText (tx t ''edit'' @ '' '' @ pl_name p)),
         (''onKeyDown'', AInput (\<lambda>k. PlayerKey k p)), (''onClick'', AEvent (EditPlayer p))]
       [cell ([El ''Avatar'' [] [El ''MonitorPlayIcon'' [] []], El ''span'' [] [Txt (pl_name p)]] @
          show_if (pl_isDefault p) (El ''Badge'' [] [Txt (tx t ''playersDefault'')])),
        cell [Txt (summarize t (pl_config p))],
        cell (icon_click (EditPlayer p) (tx t ''edit'' @ '' '' @ pl_name p) ''PencilIcon'' #
          show_if (\<not> pl_isDefault p)
            (icon_click (AskRemovePlayer p) (tx t ''delete'' @ '' '' @ pl_name p) ''Trash2''))]"

definition PlayersPage :: "translator \<Rightarrow> player list fetched \<Rightarrow> players_event node" where
  "PlayersPage t data =
     (let ps = (case query_data data of Some xs \<Rightarrow> xs | None \<Rightarrow> []) in
      El ''div'' [] (SummaryStrip [(tx t ''sumTotalPlayers'', dec (length ps), None),
          (tx t ''sumDefaultPlayer'', dec (length (filter pl_isDefault ps)), None)] @
       [table_page [tx t ''playersName'', tx t ''playersDesign'', tx t ''playersActions'']
         (if data = QPending then skeleton_rows 4 3
          else map (player_row t) ps @
            show_if (ps = []) (El ''TableRow'' []
              [cell [EmptyState ''MonitorPlayIcon'' (Some (tx t ''navPlayers'')) (Some (tx t ''playersEmpty'')) None]]))]))"


subsection \<open>What the form saves and shows\<close>

lemma jmin_right_finite: "(\<exists>q \<le> b. jmin (Fin b) x = Fin q) \<or> jmin (Fin b) x = NInf \<or> x = NaN"
  by (cases x) (auto simp: jmin_def jless_def min_def)

lemma clamp_finite:
  assumes "x \<noteq> NaN" and "a \<le> b"
  shows "\<exists>q. jmax (Fin a) (jmin (Fin b) x) = Fin q \<and> a \<le> q \<and> q \<le> b"
  using jmin_right_finite [of b x] assms
  by (auto simp: jmax_def jless_def)

lemma number_or_not_NaN: "number_or d s \<noteq> NaN"
  by (simp add: number_or_def Let_def)

text \<open>C37: Whatever the fields hold, the configuration a player design is saved with has a logo size from
  16 to 512 and an opacity from 0 to 1, both finite, one of the four positions, and no empty or
  untrimmed text.\<close>

theorem config_in_range:
  "(\<exists>q. pc_logoSize (buildConfig f) = Some (Fin q) \<and> 16 \<le> q \<and> q \<le> 512) \<and>
   (\<exists>q. pc_logoOpacity (buildConfig f) = Some (Fin q) \<and> 0 \<le> q \<and> q \<le> 1) \<and>
   pc_logoPosition (buildConfig f) \<noteq> None \<and>
   list_all (\<lambda>x. case x of None \<Rightarrow> True | Some s \<Rightarrow> s \<noteq> [] \<and> js_trim s = s)
     [pc_accentColor (buildConfig f), pc_logoUrl (buildConfig f), pc_logoHref (buildConfig f)]"
  using clamp_finite [OF number_or_not_NaN, of 16 512] clamp_finite [OF number_or_not_NaN, of 0 1]
  by (simp add: buildConfig_def trimmed_def js_trim_idem)

text \<open>The preview of a design is the player's own look: for every configuration the accent, the
  place, size and opacity of the logo and whether a loader is shown are what the video player computes
  for it.\<close>

theorem preview_shows_player:
  "let pr' = pr\<lparr>pp_branding := Some c\<rparr> in
     preview_accent c = accent pr' \<and> preview_position c = logoPositionClass pr' \<and>
     (pc_showLoader c \<noteq> Some False) = showLoader pr' \<and>
     (preview_logo ev c failed = [] \<longleftrightarrow> player_logo pr' = []) \<and>
     map (\<lambda>as. map (\<lambda>k. map_of as k) [''className'', ''width'', ''height'', ''opacity''])
         (concat (map (find_el (\<lambda>as. map_of as ''opacity'' \<noteq> None) ''a'') (player_logo pr'))) =
     (if player_logo pr' = [] then []
      else [[Some (AText (preview_position c)), Some (ANum (preview_size c)), Some (ANum (preview_size c)),
             Some (ANum (preview_opacity c))]])"
proof -
  let ?pr = "pr\<lparr>pp_branding := Some c\<rparr>"
  have b: "branding ?pr = c" by (simp add: branding_def)
  have pos: "preview_position c = logoPositionClass ?pr"
    by (simp add: preview_position_def logoPositionClass_def b)
  have acc: "preview_accent c = accent ?pr" by (simp add: preview_accent_def accent_def b)
  have nl: "preview_logo ev c failed = [] \<longleftrightarrow> player_logo ?pr = []"
    by (simp add: preview_logo_def player_logo_def b Let_def split: option.split list.split)
  have none: "player_logo ?pr = []" if "\<And>d u. pc_logoUrl c \<noteq> Some (d # u)"
    using that by (simp add: player_logo_def b Let_def split: option.split list.split)
  have look: "map (\<lambda>as. map (\<lambda>k. map_of as k) [''className'', ''width'', ''height'', ''opacity''])
        (concat (map (find_el (\<lambda>as. map_of as ''opacity'' \<noteq> None) ''a'') (player_logo ?pr))) =
      [[Some (AText (preview_position c)), Some (ANum (preview_size c)), Some (ANum (preview_size c)),
        Some (ANum (preview_opacity c))]] \<and> player_logo ?pr \<noteq> []"
    if u: "pc_logoUrl c = Some (d # u)" for d u
  proof -
    consider "pc_logoHref c = None" | "pc_logoHref c = Some []" | e h where "pc_logoHref c = Some (e # h)"
      by (metis neq_Nil_conv option.exhaust)
    then show ?thesis
      by cases (simp_all add: player_logo_def b u pos preview_size_def preview_opacity_def)
  qed
  show ?thesis
    unfolding Let_def using acc pos nl none look
    by (cases "\<exists>d u. pc_logoUrl c = Some (d # u)") (auto simp: showLoader_def b)
qed

text \<open>An opacity of 0 is saved as 0.8; and a logo that failed once is never tried again.\<close>

lemma opacity_zero_lost:
  "pf_logoOpacity f = ''0'' \<Longrightarrow> pc_logoOpacity (buildConfig f) = Some (Fin (4 / 5))"
proof -
  have "js_number ''0'' = Fin 0" by code_simp
  moreover assume "pf_logoOpacity f = ''0''"
  ultimately show ?thesis by (simp add: buildConfig_def number_or_def)
qed

lemma failed_logo_sticks:
  assumes "pf_logoFailed f"
  shows "\<not> can_cause (PlayerPreview ev (buildConfig f) (pf_logoFailed f)) (ev LogoLoaded) \<and>
    (e \<noteq> LogoLoaded \<longrightarrow> pf_logoFailed (player_type e f))"
  using assms
  by (cases e)
     (auto simp: can_cause_def PlayerPreview_def preview_logo_def Let_def show_if_def is_disabled_def
       split: option.splits list.splits)

text \<open>The default design offers no deletion.\<close>

lemma default_player_kept:
  assumes "can_cause (PlayersPage t (QData ps)) (AskRemovePlayer p)"
  shows "p \<in> set ps \<and> \<not> pl_isDefault p"
  using assms
  by (auto simp: can_cause_def PlayersPage_def Let_def player_row_def show_if_def is_disabled_def
      split: if_splits)

end
