(* ===== verification/Settings.thy ===== *)
theory Settings
  imports Parts Flavors
begin

text \<open>
  The settings page, \<open>web/app/admin/settings/page.tsx\<close>: the known settings, the text of a value, what
  a group saves, the two kinds of saving with their requests, and the page.  A text field is not
  controlled: it shows what it held when its group was opened, and what is typed since.
\<close>

subsection \<open>The known settings\<close>

record setting_spec =
  ss_label :: string
  ss_hint :: string
  ss_megabytes :: bool
  ss_enum :: "(string \<times> string) list option"

abbreviation plain_spec :: "string \<Rightarrow> string \<Rightarrow> setting_spec" where
  "plain_spec l h \<equiv> \<lparr>ss_label = l, ss_hint = h, ss_megabytes = False, ss_enum = None\<rparr>"

abbreviation size_spec :: "string \<Rightarrow> string \<Rightarrow> setting_spec" where
  "size_spec l h \<equiv> \<lparr>ss_label = l, ss_hint = h, ss_megabytes = True, ss_enum = None\<rparr>"

text \<open>Two signs of the texts are outside the character set and stand as their three bytes.\<close>

definition minus_sign :: string where "minus_sign = [CHR 0xE2, CHR 0x88, CHR 0x92]"
definition approx_sign :: string where "approx_sign = [CHR 0xE2, CHR 0x89, CHR 0x88]"

definition specs :: "(string \<times> setting_spec) list" where
  "specs =
     [(''site_name'', plain_spec ''Site Name'' ''Shown in the admin UI and the browser title.''),
      (''default_lang'', plain_spec ''Default Language'' (''Used when a viewer hasn'' @ [CHR 0x27] @ ''t chosen a language.'')),
      (''upload.max_size_bytes'', size_spec ''Max Upload Size'' ''Largest allowed file per upload, in megabytes.''),
      (''upload.allowed_extensions'', plain_spec ''Allowed File Extensions''
         ''Comma-separated list; other extensions are rejected.''),
      (''library.mode'', \<lparr>ss_label = ''Public Library'',
         ss_hint = ''Where visitors land on the site root and whether the library requires sign-in.'', ss_megabytes = False,
         ss_enum = Some [(''disabled'', ''Disabled''), (''login_only'', ''Login Only''), (''enabled'', ''Enabled'')]\<rparr>),
      (''cache.enabled'', plain_spec ''Enable Disk Caching'' ''Read-through cache in front of the media store.''),
      (''cache.max_bytes'', size_spec ''Max Cache Size''
         ''The cache evicts least-recently-used files beyond this, in megabytes.''),
      (''transcode.concurrency'', plain_spec ''Parallel Encoders''
         (''How many videos transcode at once. 0 = CPU count '' @ minus_sign @ '' 1; each encoder needs ~1'' @ endash @ ''2 GB RAM.'')),
      (''transcode.segment_seconds'', plain_spec ''HLS Segment Length''
         ''Shorter segments reduce start latency; longer ones reduce overhead.''),
      (''transcode.gop_seconds'', plain_spec ''GOP Keyframe Interval''
         (''Keyframe frequency '' @ emdash @ '' usually 2s with 4s segments.'')),
      (''transcode.preset'', plain_spec ''Encoder Speed Preset''
         ''Faster = less CPU and larger files; slower = better compression.''),
      (''analytics.enabled'', plain_spec ''Playback Analytics'' ''Collects play, bandwidth and watch-time beacons.''),
      (''analytics.retention_days'', plain_spec ''Data Retention (Days)'' ''Beacon rows older than this are purged.''),
      (''analytics.flush_interval_s'', plain_spec ''Flush Buffer Interval (Seconds)''
         ''How often buffered analytics are written to the database.'')]"

record group_def =
  gd_id :: string
  gd_title :: string
  gd_description :: string
  gd_icon :: string
  gd_keys :: "string list"

definition groups :: "translator \<Rightarrow> group_def list" where
  "groups t =
     [\<lparr>gd_id = ''general'', gd_title = tx t ''gGeneral'', gd_description = tx t ''gGeneralDesc'', gd_icon = ''GlobeIcon'',
       gd_keys = [''site_name'', ''library.mode'', ''default_lang'', ''upload.max_size_bytes'', ''upload.allowed_extensions'']\<rparr>,
      \<lparr>gd_id = ''storage'', gd_title = tx t ''gStorage'', gd_description = tx t ''gStorageDesc'', gd_icon = ''HardDriveIcon'',
       gd_keys = [''cache.enabled'', ''cache.max_bytes'']\<rparr>,
      \<lparr>gd_id = ''transcoding'', gd_title = tx t ''gTranscoding'', gd_description = tx t ''gTranscodingDesc'',
       gd_icon = ''SlidersHorizontalIcon'',
       gd_keys = [''transcode.concurrency'', ''transcode.segment_seconds'', ''transcode.gop_seconds'', ''transcode.preset'']\<rparr>,
      \<lparr>gd_id = ''analytics'', gd_title = tx t ''gAnalytics'', gd_description = tx t ''gAnalyticsDesc'', gd_icon = ''BarChart3Icon'',
       gd_keys = [''analytics.enabled'', ''analytics.retention_days'', ''analytics.flush_interval_s'']\<rparr>]"

subsection \<open>Values\<close>

text \<open>\<open>s[k]\<close>, and its text.\<close>

definition value_of :: "(string \<times> setting) list \<Rightarrow> string \<Rightarrow> setting" where
  "value_of s k = (case map_of s k of Some v \<Rightarrow> v | None \<Rightarrow> SNull)"

fun setting_text :: "setting \<Rightarrow> string" where
  "setting_text SNull = []"
| "setting_text (SBool b) = (if b then ''true'' else ''false'')"
| "setting_text (SNum n) = num_text n"
| "setting_text (SText x) = x"
| "setting_text (SList xs) = join_with '', '' xs"

definition list_of_text :: "string \<Rightarrow> string list" where
  "list_of_text v = filter (\<lambda>x. x \<noteq> []) (map js_trim (split_on (CHR '','') v))"

text \<open>One entry of the patch; a boolean has none.\<close>

fun patch_value :: "setting \<Rightarrow> json option" where
  "patch_value (SBool b) = None"
| "patch_value (SList xs) = Some (JList (map JText (list_of_text (setting_text (SList xs)))))"
| "patch_value (SNum n) = Some (JNum (js_number (setting_text (SNum n))))"
| "patch_value v = Some (JText (setting_text v))"

definition group_patch :: "(string \<times> setting) list \<Rightarrow> string list \<Rightarrow> (string \<times> json) list" where
  "group_patch s keys =
     concat (map (\<lambda>k. case patch_value (value_of s k) of Some v \<Rightarrow> [(k, v)] | None \<Rightarrow> []) keys)"

text \<open>What typing or choosing puts into \<open>s[k]\<close>.\<close>

fun typed_value :: "setting \<Rightarrow> string \<Rightarrow> setting" where
  "typed_value (SNum n) x = SNum (js_number x)"
| "typed_value v x = SText x"

text \<open>
  \<open>formatBytes\<close> of any number: below one byte the unit does not exist, and a negative number has
  no logarithm.
\<close>

definition bytes_text :: "jnum \<Rightarrow> string" where
  "bytes_text n =
     (case n of
        Fin q \<Rightarrow>
          if q = 0 then ''0 B''
          else if q < 0 then ''NaN undefined''
          else if q < 1 then to_fixed 1 (q * 1024 ^ Suc (floor_log 1024 (nat \<lceil>1 / q\<rceil> - 1))) @ '' undefined''
          else (let i = byte_exponent (nat \<lfloor>q\<rfloor>) in to_fixed (if i = 0 then 0 else 1) (q / 1024 ^ i) @ '' '' @ byte_units ! i)
      | PInf \<Rightarrow> ''Infinity TB''
      | Nul \<Rightarrow> endash
      | _ \<Rightarrow> ''NaN undefined'')"

definition pretty_size :: "setting \<Rightarrow> string" where
  "pretty_size v =
     approx_sign @ '' '' @
     bytes_text (jmul (jmul (case v of SNum n \<Rightarrow> n | _ \<Rightarrow> js_number (setting_text v)) (Fin 1024)) (Fin 1024))"

lemma bytes_text_formatBytes: "bytes_text (num_of_nat n) = formatBytes (Some n)"
  by (simp add: bytes_text_def formatBytes_def)


subsection \<open>The page's state\<close>

record settings_page =
  st_data :: "(string \<times> setting) list option"
  st_tab :: string
  st_saving :: bool
  st_mounted :: "(string \<times> setting) list"
  st_typed :: "(string \<times> string) list"

definition new_settings_page :: settings_page where
  "new_settings_page = \<lparr>st_data = None, st_tab = ''general'', st_saving = False, st_mounted = [], st_typed = []\<rparr>"

definition page_values :: "settings_page \<Rightarrow> (string \<times> setting) list" where
  "page_values p = (case st_data p of Some s \<Rightarrow> s | None \<Rightarrow> [])"

definition activeGroup :: "translator \<Rightarrow> settings_page \<Rightarrow> group_def" where
  "activeGroup t p = (case find (\<lambda>g. gd_id g = st_tab p) (groups t) of Some g \<Rightarrow> g | None \<Rightarrow> hd (groups t))"

datatype settings_event =
    Loaded "settings_response reply"
  | OpenGroup string
  | TypeSetting string string
  | ChooseSetting string string
  | SaveGroup "string list"
  | GroupPatched "unit reply"
  | GroupFresh "settings_response reply"
  | SetBool string bool
  | BoolPatched "unit reply"
  | BoolFresh "settings_response reply"

definition settings_loaded :: "settings_response reply \<Rightarrow> settings_page \<Rightarrow> settings_page \<times> settings_event web_effect list" where
  "settings_loaded r p =
     (case r of
        Ok x \<Rightarrow> (p\<lparr>st_data := Some (sg_settings x), st_mounted := sg_settings x, st_typed := []\<rparr>, [])
      | _ \<Rightarrow> (p, [Toast ToastError (error_text r)]))"

text \<open>The fields of another group are new elements; clicking the open group changes nothing.\<close>

definition open_group :: "string \<Rightarrow> settings_page \<Rightarrow> settings_page" where
  "open_group g p = (if g = st_tab p then p else p\<lparr>st_tab := g, st_mounted := page_values p, st_typed := []\<rparr>)"

definition set_setting :: "string \<Rightarrow> setting \<Rightarrow> settings_page \<Rightarrow> settings_page" where
  "set_setting k v p = p\<lparr>st_data := Some (AList.update k v (page_values p))\<rparr>"

definition type_setting :: "string \<Rightarrow> string \<Rightarrow> settings_page \<Rightarrow> settings_page" where
  "type_setting k x p =
     (set_setting k (typed_value (value_of (page_values p) k) x) p)\<lparr>st_typed := AList.update k x (st_typed p)\<rparr>"

definition saveGroup :: "string list \<Rightarrow> settings_page \<Rightarrow> settings_page \<times> settings_event web_effect list" where
  "saveGroup keys p =
     (p\<lparr>st_saving := True\<rparr>, [Request ''PATCH'' ''/api/settings'' (Some (JObj (group_patch (page_values p) keys)))])"

definition group_patched :: "unit reply \<Rightarrow> settings_page \<Rightarrow> settings_page \<times> settings_event web_effect list" where
  "group_patched r p =
     (case r of
        Ok _ \<Rightarrow> (p, [Request ''GET'' ''/api/settings'' None])
      | _ \<Rightarrow> (p\<lparr>st_saving := False\<rparr>, [Toast ToastError (error_text r)]))"

definition group_fresh ::
  "translator \<Rightarrow> settings_response reply \<Rightarrow> settings_page \<Rightarrow> settings_page \<times> settings_event web_effect list" where
  "group_fresh t r p =
     (case r of
        Ok x \<Rightarrow> (p\<lparr>st_data := Some (sg_settings x), st_saving := False\<rparr>, [Toast ToastSuccess (tx t ''settingsSaved'')])
      | _ \<Rightarrow> (p\<lparr>st_saving := False\<rparr>, [Toast ToastError (error_text r)]))"

definition setBool :: "string \<Rightarrow> bool \<Rightarrow> settings_event web_effect list" where
  "setBool key v = [Request ''PATCH'' ''/api/settings'' (Some (JObj [(key, JBool v)]))]"

definition bool_patched :: "unit reply \<Rightarrow> settings_event web_effect list" where
  "bool_patched r =
     (case r of Ok _ \<Rightarrow> [Request ''GET'' ''/api/settings'' None] | _ \<Rightarrow> [Toast ToastError (error_text r)])"

definition bool_fresh ::
  "translator \<Rightarrow> settings_response reply \<Rightarrow> settings_page \<Rightarrow> settings_page \<times> settings_event web_effect list" where
  "bool_fresh t r p =
     (case r of
        Ok x \<Rightarrow> (p\<lparr>st_data := Some (sg_settings x)\<rparr>, [Toast ToastSuccess (tx t ''saved'')])
      | _ \<Rightarrow> (p, [Toast ToastError (error_text r)]))"

fun settings_step ::
  "translator \<Rightarrow> settings_event \<Rightarrow> settings_page \<Rightarrow> settings_page \<times> settings_event web_effect list" where
  "settings_step t (Loaded r) p = settings_loaded r p"
| "settings_step t (OpenGroup g) p = (open_group g p, [])"
| "settings_step t (TypeSetting k x) p = (type_setting k x p, [])"
| "settings_step t (ChooseSetting k x) p = (set_setting k (SText x) p, [])"
| "settings_step t (SaveGroup keys) p = saveGroup keys p"
| "settings_step t (GroupPatched r) p = group_patched r p"
| "settings_step t (GroupFresh r) p = group_fresh t r p"
| "settings_step t (SetBool k v) p = (p, setBool k v)"
| "settings_step t (BoolPatched r) p = (p, bool_patched r)"
| "settings_step t (BoolFresh r) p = bool_fresh t r p"

subsection \<open>The page\<close>

definition shown_text :: "settings_page \<Rightarrow> string \<Rightarrow> string" where
  "shown_text p k =
     (case map_of (st_typed p) k of Some x \<Rightarrow> x | None \<Rightarrow> setting_text (value_of (st_mounted p) k))"

definition setting_control :: "settings_page \<Rightarrow> setting_spec \<Rightarrow> string \<Rightarrow> settings_event node" where
  "setting_control p spec k =
     (let v = value_of (page_values p) k in
      case v of
        SBool b \<Rightarrow> El ''Switch'' [(''checked'', ABool b), (''onCheckedChange'', AEvent (SetBool k (\<not> b)))] []
      | _ \<Rightarrow>
        (case ss_enum spec of
           Some os \<Rightarrow> select os (setting_text v) (ChooseSetting k)
         | None \<Rightarrow>
           if k = ''transcode.preset'' then select (map (\<lambda>x. (x, x)) presets) (setting_text v) (ChooseSetting k)
           else El ''div'' []
             (El ''Input'' [(''value'', AText (shown_text p k)),
                (''type'', AText (case v of SNum _ \<Rightarrow> ''number'' | _ \<Rightarrow> ''text'')), (''onChange'', AInput (TypeSetting k))] [] #
              show_if (ss_megabytes spec) (El ''span'' [] [Txt ''MB'']))))"

definition setting_row :: "settings_page \<Rightarrow> string \<Rightarrow> settings_event node" where
  "setting_row p k =
     (let spec = (case map_of specs k of Some sp \<Rightarrow> sp | None \<Rightarrow> plain_spec k []);
          v = value_of (page_values p) k; is_bool = (case v of SBool _ \<Rightarrow> True | _ \<Rightarrow> False) in
      El ''div'' []
       [El ''div'' [] ([El ''Label'' [] [Txt (ss_label spec)], El ''p'' [] [Txt (ss_hint spec)]] @
          show_if (ss_megabytes spec \<and> \<not> is_bool) (El ''div'' [] [El ''span'' [] [Txt (pretty_size v)]])),
        setting_control p spec k])"

definition group_button :: "settings_page \<Rightarrow> group_def \<Rightarrow> settings_event node" where
  "group_button p g =
     El ''button'' [(''onClick'', AEvent (OpenGroup (gd_id g))), (''active'', ABool (st_tab p = gd_id g))]
       [El (gd_icon g) [] [], El ''span'' [] [Txt (gd_title g)]]"

definition SettingsPage :: "translator \<Rightarrow> settings_page \<Rightarrow> settings_event node" where
  "SettingsPage t p =
     (if st_data p = None then El ''div'' [] [El ''Skeleton'' [] [], El ''Skeleton'' [] []]
      else (let g = activeGroup t p in
        El ''div'' []
         [El ''nav'' [] (map (group_button p) (groups t)),
          El ''Card'' []
           [El (gd_icon g) [] [], El ''CardTitle'' [] [Txt (gd_title g)], El ''CardDescription'' [] [Txt (gd_description g)],
            El ''CardContent'' [] (map (setting_row p) (gd_keys g)),
            El ''Button'' [(''disabled'', ABool (st_saving p)), (''onClick'', AEvent (SaveGroup (gd_keys g)))]
             [El ''Save'' [] [],
              Txt (if st_saving p then tx t ''loading'' else t ''settingsSave'' (Some [(''group'', VText (gd_title g))]))]]]))"


subsection \<open>What a group saves\<close>

definition clean_item :: "string \<Rightarrow> bool" where
  "clean_item x \<longleftrightarrow> x \<noteq> [] \<and> js_trim x = x \<and> CHR '','' \<notin> set x"

definition plain_setting :: "setting \<Rightarrow> bool" where
  "plain_setting v \<longleftrightarrow>
     (case v of SNum n \<Rightarrow> (\<exists>i. n = num_of_nat i) | SList xs \<Rightarrow> list_all clean_item xs | SNull \<Rightarrow> False | _ \<Rightarrow> True)"

fun setting_json :: "setting \<Rightarrow> json" where
  "setting_json SNull = JNull"
| "setting_json (SBool b) = JBool b"
| "setting_json (SNum n) = JNum n"
| "setting_json (SText x) = JText x"
| "setting_json (SList xs) = JList (map JText xs)"

fun is_switch :: "setting \<Rightarrow> bool" where
  "is_switch (SBool b) = True"
| "is_switch _ = False"

lemma js_trim_space: "js_trim (CHR '' '' # x) = js_trim x"
  by (simp add: js_trim_def js_space_def)

lemma split_on_front: "c \<notin> set s \<Longrightarrow> split_on c (s @ c # rest) = s # split_on c rest"
  by (induction s) (auto split: list.split)

lemma split_on_none: "c \<notin> set s \<Longrightarrow> split_on c s = [s]"
  by (induction s) auto

lemma list_of_text_join:
  assumes "list_all clean_item xs"
  shows "list_of_text (join_with '', '' xs) = xs"
proof -
  let ?f = "\<lambda>s. filter (\<lambda>x. x \<noteq> []) (map js_trim (split_on (CHR '','') s))"
  have "?f (join_with '', '' xs) = xs \<and> ?f (CHR '' '' # join_with '', '' xs) = xs"
    using assms
  proof (induction xs rule: induct_list012)
    case 1
    then show ?case by (simp add: js_trim_def js_space_def)
  next
    case (2 x)
    then show ?case by (simp add: clean_item_def split_on_none js_trim_space)
  next
    case (3 x y zs)
    then have x: "x \<noteq> []" "js_trim x = x" "CHR '','' \<notin> set x" by (simp_all add: clean_item_def)
    have "?f (CHR '' '' # join_with '', '' (y # zs)) = y # zs" using 3 by simp
    then show ?case
      using split_on_front [OF x(3), of "CHR '' '' # join_with '', '' (y # zs)"]
        split_on_front [of "CHR '',''" "CHR '' '' # x" "CHR '' '' # join_with '', '' (y # zs)"] x
      by (simp add: js_trim_space)
  qed
  then show ?thesis by (simp add: list_of_text_def)
qed

lemma patch_value_plain:
  "plain_setting v \<Longrightarrow> patch_value v = (case v of SBool _ \<Rightarrow> None | _ \<Rightarrow> Some (setting_json v))"
  by (cases v) (auto simp: plain_setting_def list_of_text_join rat_text_nat)

text \<open>C40: A group that is saved as it was loaded sends exactly its values back: every number, text and
  list unchanged, each once and in the group's order, and no switch (those are saved at once by
  themselves).\<close>

theorem unedited_group_unchanged:
  assumes "\<forall>k \<in> set keys. plain_setting (value_of s k)"
  shows "group_patch s keys =
    map (\<lambda>k. (k, setting_json (value_of s k))) (filter (\<lambda>k. \<not> is_switch (value_of s k)) keys)"
  using assms
proof (induction keys)
  case (Cons k keys)
  have "patch_value (value_of s k) =
      (case value_of s k of SBool _ \<Rightarrow> None | _ \<Rightarrow> Some (setting_json (value_of s k)))"
    using patch_value_plain Cons.prems by simp
  then show ?case using Cons by (cases "value_of s k") (simp_all add: group_patch_def)
qed (simp add: group_patch_def)

definition sample_settings :: "(string \<times> setting) list" where
  "sample_settings = [(''site_name'', SText ''Vidsilo''), (''cache.enabled'', SBool True),
     (''upload.allowed_extensions'', SList [''mp4'', ''mov'']), (''upload.max_size_bytes'', SNum (num_of_nat 8192))]"

theorem unedited_group_unchanged_witness:
  "group_patch sample_settings (map fst sample_settings) =
     [(''site_name'', JText ''Vidsilo''), (''upload.allowed_extensions'', JList [JText ''mp4'', JText ''mov'']),
      (''upload.max_size_bytes'', JNat 8192)]"
proof -
  have "\<forall>k \<in> set (map fst sample_settings). plain_setting (value_of sample_settings k)"
    by (auto simp: sample_settings_def value_of_def plain_setting_def clean_item_def js_trim_def js_space_def
        intro: exI [of _ 8192])
  note unedited_group_unchanged [OF this]
  moreover have "value_of sample_settings ''site_name'' = SText ''Vidsilo''"
    "value_of sample_settings ''cache.enabled'' = SBool True"
    "value_of sample_settings ''upload.allowed_extensions'' = SList [''mp4'', ''mov'']"
    "value_of sample_settings ''upload.max_size_bytes'' = SNum (num_of_nat 8192)"
    "map fst sample_settings =
      [''site_name'', ''cache.enabled'', ''upload.allowed_extensions'', ''upload.max_size_bytes'']"
    by (simp_all add: sample_settings_def value_of_def)
  ultimately show ?thesis by simp
qed

subsection \<open>Edits that are lost\<close>

text \<open>
  A list that has been typed into is a text from then on, so that a save sends a text where the
  server keeps a list; its refusal also keeps the rest of the group from being saved.
\<close>

lemma value_of_update [simp]: "value_of (AList.update k v s) k' = (if k' = k then v else value_of s k')"
  by (simp add: value_of_def update_conv')

lemma edited_list_is_text:
  assumes "st_data p = Some s" and "value_of s k = SList xs"
  shows "patch_value (value_of (page_values (type_setting k x p)) k) = Some (JText x)"
  using assms by (simp add: type_setting_def set_setting_def page_values_def)

text \<open>
  Turning a switch reads all settings again: what was typed and not saved is gone, although the
  field still shows it.
\<close>

lemma refetch_drops_edits:
  assumes "st_data p = Some s" and "value_of s k = SText old" and "value_of (sg_settings fresh) k = SText old"
  shows "let p' = fst (settings_step t (BoolFresh (Ok fresh)) (fst (settings_step t (TypeSetting k x) p))) in
    shown_text p' k = x \<and> value_of (page_values p') k = SText old"
  using assms
  by (simp add: bool_fresh_def type_setting_def set_setting_def page_values_def shown_text_def update_conv' Let_def)

text \<open>What has been typed is what is shown and, without a refetch, what is saved.\<close>

lemma typed_is_saved:
  assumes "st_data p = Some s" and "value_of s k = SText old"
  shows "let p' = fst (settings_step t (TypeSetting k x) p) in
    shown_text p' k = x \<and> patch_value (value_of (page_values p') k) = Some (JText x)"
  using assms
  by (simp add: type_setting_def set_setting_def page_values_def shown_text_def update_conv' Let_def)

end
