(* ===== verification/JobsPage.thy ===== *)
theory JobsPage
  imports Forms
begin

text \<open>
  The job queue, \<open>web/app/admin/jobs/page.tsx\<close>: the actions on a job with their answers, the counts,
  the badges and the table.  \<open>fd\<close> is \<open>formatDate\<close>.
\<close>

subsection \<open>Actions\<close>

datatype jobs_event =
    Act int string
  | Retry int
  | AskCancel int
  | CancelJob int

definition act :: "int \<Rightarrow> string \<Rightarrow> 'a web_effect list" where
  "act i action = [Request ''POST'' (''/api/jobs/'' @ dec_int i @ ''/'' @ action) None]"

text \<open>The end of \<open>act\<close>: a failure is caught and reported, so that whoever awaits it goes on.\<close>

definition act_over :: "unit reply \<Rightarrow> 'a web_effect list" where
  "act_over r = (case r of Ok _ \<Rightarrow> [Invalidate [''jobs'']] | _ \<Rightarrow> [Toast ToastError (error_text r)])"

definition retry_over :: "translator \<Rightarrow> unit reply \<Rightarrow> 'a web_effect list" where
  "retry_over t r = act_over r @ [Toast ToastSuccess (tx t ''jobRetried'')]"

definition askCancel :: "translator \<Rightarrow> int \<Rightarrow> jobs_event web_effect list" where
  "askCancel t i =
     [AskConfirm (ask (tx t ''jobAbortTitle'') (tx t ''jobAbortDesc'') (tx t ''jobAbort'') (tx t ''cancel'')
       (Some Destructive)) (CancelJob i)]"

fun jobs_step :: "translator \<Rightarrow> jobs_event \<Rightarrow> jobs_event web_effect list" where
  "jobs_step t (Act i a) = act i a"
| "jobs_step t (Retry i) = act i ''retry''"
| "jobs_step t (AskCancel i) = askCancel t i"
| "jobs_step t (CancelJob i) = act i ''cancel''"

fun jobs_over :: "translator \<Rightarrow> jobs_event \<Rightarrow> unit reply \<Rightarrow> jobs_event web_effect list" where
  "jobs_over t (Retry i) r = retry_over t r"
| "jobs_over t (AskCancel i) r = []"
| "jobs_over t _ r = act_over r"

definition jobs_interval :: "bool \<Rightarrow> nat option" where
  "jobs_interval visible = (if visible then Some 5000 else None)"

subsection \<open>The page\<close>

definition count_status :: "job_status \<Rightarrow> job_activity list \<Rightarrow> nat" where
  "count_status st js = length (filter (\<lambda>j. ja_status j = st) js)"

definition jobs_kpis :: "translator \<Rightarrow> job_activity list \<Rightarrow> (string \<times> string \<times> string \<times> string) list" where
  "jobs_kpis t js =
     [(''Total Jobs'', ''ListChecksIcon'', dec (length js), t ''jobsDoneCount'' (Some [(''n'', VNat (count_status JDone js))])),
      (tx t ''jobRunning'', ''Loader2Icon'', dec (count_status JRunning js), tx t ''jobsActiveEncoding''),
      (tx t ''jobQueued'', ''ClockIcon'', dec (count_status JQueued js), tx t ''jobsWaitingPool''),
      (tx t ''statusFailed'', ''CircleAlertIcon'', dec (count_status JFailed js), tx t ''jobsRequiresAttention'')]"

definition JobStatusBadge :: "translator \<Rightarrow> job_status \<Rightarrow> 'e node" where
  "JobStatusBadge t st =
     El ''Badge'' []
       (case st of
          JCancelled \<Rightarrow> [El ''CircleSlashIcon'' [] [], Txt (tx t ''jobCancelled'')]
        | JFailed \<Rightarrow> [El ''CircleAlertIcon'' [] [], Txt (tx t ''statusFailed'')]
        | JDone \<Rightarrow> [El ''CircleCheckIcon'' [] [], Txt (tx t ''jobDone'')]
        | JRunning \<Rightarrow> [El ''span'' [] [], Txt (tx t ''jobRunning'')]
        | JQueued \<Rightarrow> [El ''ClockIcon'' [] [], Txt (tx t ''jobQueued'')])"

definition action_button :: "'e \<Rightarrow> string \<Rightarrow> string \<Rightarrow> 'e node" where
  "action_button e icon label = El ''Button'' [(''onClick'', AEvent e)] [El icon [] [], Txt label]"

definition job_actions :: "translator \<Rightarrow> job_activity \<Rightarrow> jobs_event node list" where
  "job_actions t j =
     (if ja_status j = JQueued then
        [if ja_paused j then action_button (Act (ja_id j) ''resume'') ''PlayIcon'' (tx t ''jobResume'')
         else action_button (Act (ja_id j) ''pause'') ''PauseIcon'' (tx t ''jobPause'')] else []) @
     show_if (ja_status j = JQueued \<or> ja_status j = JRunning)
       (action_button (AskCancel (ja_id j)) ''CircleStopIcon'' (tx t ''jobAbort'')) @
     show_if (ja_status j = JFailed \<or> ja_status j = JCancelled)
       (action_button (Retry (ja_id j)) ''RotateCcwIcon'' (tx t ''jobRetry''))"

definition filled :: "string option \<Rightarrow> string option" where
  "filled x = (case x of Some (c # s) \<Rightarrow> Some (c # s) | _ \<Rightarrow> None)"

definition or_dash :: "string option \<Rightarrow> string" where
  "or_dash x = (case filled x of Some s \<Rightarrow> s | None \<Rightarrow> emdash)"

definition job_badges :: "translator \<Rightarrow> job_activity \<Rightarrow> 'e node list" where
  "job_badges t j =
     El ''Badge'' [] [Txt (if ja_type j = ''probe'' then tx t ''jobProbe'' else tx t ''jobTranscode'')] #
     (case filled (ja_label j) of Some l \<Rightarrow> [El ''Badge'' [] [Txt l]] | None \<Rightarrow> []) @
     show_if (ja_type j = ''probe'' \<and> filled (ja_progress j) \<noteq> None)
       (El ''Badge'' [] [El ''ImageIcon'' [] [], Txt (tx t ''jobPosterSprite'')])"

definition job_row :: "translator \<Rightarrow> (string \<Rightarrow> string) \<Rightarrow> job_activity \<Rightarrow> jobs_event node" where
  "job_row t fd j =
     El ''TableRow'' []
       [cell (El ''Avatar'' [] [El ''FilmIcon'' [] []] # job_badges t j),
        cell [El ''span'' [] [Txt (or_dash (Some (ja_entryTitle j)))]],
        cell [JobStatusBadge t (ja_status j)], cell [Txt (dec (ja_attempts j))], cell [Txt (or_dash (ja_error j))],
        cell [Txt (fd (ja_createdAt j))], cell [El ''div'' [] (job_actions t j)]]"

definition JobsPage :: "translator \<Rightarrow> (string \<Rightarrow> string) \<Rightarrow> job_activity list option \<Rightarrow> jobs_event node" where
  "JobsPage t fd data =
     (let jobs = (case data of Some xs \<Rightarrow> xs | None \<Rightarrow> []) in
      El ''div'' []
       [El ''div'' [] (if data = None then replicate 4 (El ''Skeleton'' [] [])
          else map (\<lambda>(title, icon, v, h). kpi_card title icon v h) (jobs_kpis t jobs)),
        table_page [tx t ''colType'', tx t ''colEntry'', tx t ''colStatus'', tx t ''colAttempts'', tx t ''colError'',
            tx t ''colCreated'', tx t ''colActions'']
          (if data = None
           then replicate 5 (El ''TableRow'' [] (replicate 7 (El ''TableCell'' [] [El ''Skeleton'' [] []])))
           else map (job_row t fd) jobs @ show_if (jobs = []) (El ''TableRow'' []
             [cell [EmptyState ''ClockIcon'' None (Some (tx t ''jobsEmpty'')) None]]))])"

subsection \<open>What can be done to a job\<close>

lemma action_button_events [simp]: "node_events (action_button e i l) = [e]"
  by (simp add: action_button_def)

lemma job_actions_events:
  "concat (map node_events (job_actions t j)) =
     (case ja_status j of
        JQueued \<Rightarrow> [Act (ja_id j) (if ja_paused j then ''resume'' else ''pause''), AskCancel (ja_id j)]
      | JRunning \<Rightarrow> [AskCancel (ja_id j)]
      | JDone \<Rightarrow> []
      | JFailed \<Rightarrow> [Retry (ja_id j)]
      | JCancelled \<Rightarrow> [Retry (ja_id j)])"
  by (cases "ja_status j") (simp_all add: job_actions_def)

lemma job_row_events: "node_events (job_row t fd j) = concat (map node_events (job_actions t j))"
  by (auto simp: job_row_def job_badges_def JobStatusBadge_def show_if_def split: option.split job_status.split)

text \<open>C34: Every click on the jobs page is an action that makes sense for some job as it is listed:
  pausing and resuming for a queued job (whichever it is not), cancelling for a queued or running
  one, another try for a failed or cancelled one, and nothing for a finished one; the click that
  cancels sends no request, it only asks.\<close>

theorem job_actions_offered:
  assumes "can_cause (JobsPage t fd (Some jobs)) e"
  shows "\<exists>j \<in> set jobs.
    (e = Act (ja_id j) ''pause'' \<and> ja_status j = JQueued \<and> \<not> ja_paused j) \<or>
    (e = Act (ja_id j) ''resume'' \<and> ja_status j = JQueued \<and> ja_paused j) \<or>
    (e = AskCancel (ja_id j) \<and> ja_status j \<in> {JQueued, JRunning} \<and> requests (jobs_step t e) = 0) \<or>
    (e = Retry (ja_id j) \<and> ja_status j \<in> {JFailed, JCancelled})"
proof -
  have kpis: "concat (map node_events (map (\<lambda>(title, icon, v, h). kpi_card title icon v h) xs)) = []" for xs
    by (induction xs) auto
  obtain j where j: "j \<in> set jobs" "e \<in> set (concat (map node_events (job_actions t j)))"
    using assms kpis by (auto simp: can_cause_def JobsPage_def Let_def job_row_events show_if_def is_disabled_def
        split: if_splits)
  from j(2) have "(e = Act (ja_id j) ''pause'' \<and> ja_status j = JQueued \<and> \<not> ja_paused j) \<or>
      (e = Act (ja_id j) ''resume'' \<and> ja_status j = JQueued \<and> ja_paused j) \<or>
      (e = AskCancel (ja_id j) \<and> ja_status j \<in> {JQueued, JRunning}) \<or>
      (e = Retry (ja_id j) \<and> ja_status j \<in> {JFailed, JCancelled})"
    unfolding job_actions_events by (cases "ja_status j") (auto split: if_splits)
  moreover have "requests (jobs_step t (AskCancel i)) = 0" for i by (simp add: askCancel_def)
  ultimately show ?thesis using j(1) by blast
qed

definition sample_job :: job_activity where
  "sample_job = \<lparr>ja_id = 7, ja_type = ''transcode'', ja_entryId = Some 1, ja_entryTitle = ''x'', ja_status = JQueued,
     ja_attempts = 0, ja_error = None, ja_progress = None, ja_label = None, ja_paused = False, ja_createdAt = []\<rparr>"

theorem job_actions_offered_witness:
  "can_cause (JobsPage (\<lambda>k _. k) id (Some [sample_job])) (Act 7 ''pause'') \<and> ja_status sample_job = JQueued"
proof -
  have "can_cause (JobsPage (\<lambda>k _. k) id (Some [sample_job])) (Act 7 ''pause'')"
    by (simp add: can_cause_def JobsPage_def job_row_events job_actions_events sample_job_def is_disabled_def)
  from this job_actions_offered [OF this] show ?thesis by (simp add: sample_job_def)
qed

text \<open>A refused retry is reported as an error and then as a success.\<close>

lemma refused_retry_reported_done:
  "jobs_over t (Retry i) (ApiErr m) = [Toast ToastError m, Toast ToastSuccess (tx t ''jobRetried'')]"
  by (simp add: retry_over_def act_over_def)

text \<open>The answer of \<open>act\<close> never throws, so the confirm box of a cancellation always closes as done.\<close>

lemma cancel_failure_toasted_once: "length (jobs_over t (CancelJob i) r) = 1"
  by (cases r) (simp_all add: act_over_def)

end
