(* ===== verification/StoragePage.thy ===== *)
theory StoragePage
  imports Parts
begin

text \<open>
  The storage page, \<open>web/app/admin/storage/page.tsx\<close>: the sizes of the entries with the files of each,
  and the row of the system's own files, which has no entry.
\<close>

definition subRowIcons :: "file_label \<Rightarrow> string" where
  "subRowIcons l =
     (case l of LSource \<Rightarrow> ''FilmIcon'' | LPoster \<Rightarrow> ''ImageIcon'' | LFlavors \<Rightarrow> ''ClapperboardIcon''
      | LSubtitles \<Rightarrow> ''CaptionsIcon'' | LOther \<Rightarrow> ''ArchiveIcon'' | LSystem \<Rightarrow> ''ServerIcon'')"

definition subRowLabels :: "file_label \<Rightarrow> string" where
  "subRowLabels l =
     (case l of LSource \<Rightarrow> ''storageSubSource'' | LPoster \<Rightarrow> ''storageSubPoster'' | LFlavors \<Rightarrow> ''storageSubFlavors''
      | LSubtitles \<Rightarrow> ''storageSubSubtitles'' | LOther \<Rightarrow> ''storageSubOther'' | LSystem \<Rightarrow> ''storageSystem'')"

definition systemSubLabels :: "(string \<times> string) list" where
  "systemSubLabels =
     [(''uploads'', ''storageSystemUploads''), (''logs'', ''storageSystemLogs''), (''cache'', ''storageSystemCache''),
      (''other'', ''storageSubOther'')]"

datatype storage_event = OpenEntry string | EntryKey string string

fun storage_step :: "storage_event \<Rightarrow> storage_event web_effect list" where
  "storage_step (OpenEntry i) = [OpenDlg (OpenEntry i) (Some Size5xl) False True]"
| "storage_step (EntryKey k i) =
     (if k = ''Enter'' \<or> k = '' '' then [OpenDlg (OpenEntry i) (Some Size5xl) False True] else [])"

definition storage_interval :: "bool \<Rightarrow> nat option" where
  "storage_interval visible = (if visible then Some 60000 else None)"

definition file_count :: "storage_entry \<Rightarrow> nat" where
  "file_count e = sum_list (map sf_count (se_files e))"

definition storage_totals :: "storage_entry list \<Rightarrow> nat \<times> nat" where
  "storage_totals es = (sum_list (map se_totalBytes es), sum_list (map file_count es))"

definition is_system :: "storage_entry \<Rightarrow> bool" where
  "is_system e \<longleftrightarrow> se_publicId e = []"

definition file_text :: "translator \<Rightarrow> storage_entry_file \<Rightarrow> string" where
  "file_text t f =
     (case (sf_label f, sf_name f) of
        (LFlavors, nm) \<Rightarrow> tx t ''storageSubFlavors'' @ '' '' @ [CHR 0xB7] @ '' '' @
          (case nm of Some x \<Rightarrow> x | None \<Rightarrow> ''undefined'')
      | (LSystem, Some (c # x)) \<Rightarrow>
          tx t (case map_of systemSubLabels (c # x) of Some k \<Rightarrow> k | None \<Rightarrow> ''storageSubOther'')
      | (l, _) \<Rightarrow> tx t (subRowLabels l))"

definition file_row :: "translator \<Rightarrow> storage_entry_file \<Rightarrow> storage_event node" where
  "file_row t f =
     El ''TableRow'' []
       [cell [El ''span'' [] [El (subRowIcons (sf_label f)) [] [], Txt (file_text t f)]],
        cell [Txt (dec (sf_count f))], cell [Txt (formatBytes (Some (sf_bytes f)))]]"

definition entry_row :: "translator \<Rightarrow> storage_entry \<Rightarrow> storage_event node" where
  "entry_row t e =
     El ''TableRow''
       (if is_system e then []
        else [(''role'', AText ''button''), (''aria-label'', AText (tx t ''actOpen'' @ '' '' @ se_title e)),
              (''onKeyDown'', AInput (\<lambda>k. EntryKey k (se_publicId e))), (''onClick'', AEvent (OpenEntry (se_publicId e)))])
       [cell ([El ''Avatar'' [] [El ''ServerIcon'' [] []],
          El ''span'' [] [Txt (if is_system e then tx t ''storageSystem''
            else if se_title e \<noteq> [] then se_title e else tx t ''untitled'')]] @
          show_if (\<not> is_system e) (StatusBadge t (se_status e))),
        cell [Txt (dec (file_count e))], cell [Txt (formatBytes (Some (se_totalBytes e)))]]"

definition StoragePage :: "translator \<Rightarrow> storage_entry list fetched \<Rightarrow> storage_event node" where
  "StoragePage t data =
     (let es = (case query_data data of Some xs \<Rightarrow> xs | None \<Rightarrow> []) in
      El ''div'' [] (SummaryStrip
        [(tx t ''dashStorage'', formatBytes (Some (fst (storage_totals es))), None),
         (tx t ''dashEntries'', dec (length es), None), (tx t ''colFiles'', dec (snd (storage_totals es)), None)] @
       [table_page [tx t ''colEntry'' @ '' / File'', tx t ''colFiles'', tx t ''colSize'']
         (if data = QPending then skeleton_rows 5 3
          else concat (map (\<lambda>e. entry_row t e # map (file_row t) (se_files e)) es) @
            show_if (es = []) (El ''TableRow'' []
              [cell [EmptyState ''HardDriveIcon'' (Some (tx t ''navStorage'')) (Some (tx t ''storageEmpty'')) None]]))]))"

text \<open>Only the rows of entries open a dialog, and each opens its own.\<close>

lemma storage_rows_open:
  assumes "can_cause (StoragePage t (QData es)) (OpenEntry i)"
  shows "i \<noteq> [] \<and> i \<in> set (map se_publicId es)"
proof -
  have "node_events (file_row t f) = []" for f by (simp add: file_row_def)
  then have "concat (map node_events (map (file_row t) fs)) = []" for fs by simp
  then show ?thesis
    using assms
    by (auto simp: can_cause_def StoragePage_def Let_def entry_row_def show_if_def is_disabled_def is_system_def
        split: if_splits)
qed

end
