(* ===== verification/EntriesPage.thy ===== *)
theory EntriesPage
  imports Forms QueryString UploadStore
begin

text \<open>
  The list of entries, \<open>web/app/admin/entries/page.tsx\<close>: filters and paging with the request they
  make, the selection and what is done to it, the deletion of one entry, and the table.
  \<open>fd\<close> is \<open>formatDate\<close>.  The actions on a selection take it as it was when the question was asked.
\<close>

subsection \<open>State\<close>

record entries_page =
  ep_q :: string
  ep_status :: string
  ep_category :: string
  ep_page :: int
  ep_limit :: nat
  ep_selected :: "string list"
  ep_doneIds :: "string list"

definition new_entries_page :: entries_page where
  "new_entries_page = \<lparr>ep_q = [], ep_status = [], ep_category = [], ep_page = 1, ep_limit = 20,
     ep_selected = [], ep_doneIds = []\<rparr>"

definition entries_params :: "entries_page \<Rightarrow> (string \<times> string) list" where
  "entries_params s =
     [(''page'', dec_int (ep_page s)), (''limit'', dec (ep_limit s)), (''sort'', ''created'')] @
     (if ep_q s \<noteq> [] then [(''q'', ep_q s)] else []) @
     (if ep_status s \<noteq> [] then [(''status'', ep_status s)] else []) @
     (if ep_category s \<noteq> [] then [(''category'', ep_category s)] else [])"

definition entries_path :: "entries_page \<Rightarrow> string" where
  "entries_path s = ''/api/entries?'' @ query_string (entries_params s)"

definition entries_interval :: "bool \<Rightarrow> nat option" where
  "entries_interval visible = (if visible then Some 10000 else None)"

text \<open>The effect on the own uploads: entries are read again when one has become done.\<close>

definition newly_done :: "upload_job list \<Rightarrow> string list \<Rightarrow> string list" where
  "newly_done js done = filter (\<lambda>i. i \<notin> set done) (remdups (map uj_id (filter (\<lambda>j. uj_status j = UDone) js)))"

definition watch_uploads :: "upload_job list \<Rightarrow> entries_page \<Rightarrow> entries_page \<times> 'a web_effect list" where
  "watch_uploads js s =
     (let new = newly_done js (ep_doneIds s) in
      (s\<lparr>ep_doneIds := ep_doneIds s @ new\<rparr>, if new \<noteq> [] then [Invalidate [''entries'']] else []))"

subsection \<open>Events\<close>

datatype entries_event =
    TypeQuery string | ChooseStatus string | ChooseCategory string | ChooseLimit string
  | PrevPage | NextPage
  | ToggleSelect string | ToggleAll "string list"
  | AskBulkDelete | BulkDelete "string list"
  | AskReprocess | BulkReprocess "string list"
  | AskDeleteEntry entry | DeleteEntry string
  | OpenEntryDetail string | OpenEmbed entry | UploadFirst

definition toggleSelect :: "string \<Rightarrow> string list \<Rightarrow> string list" where
  "toggleSelect i sel = (if i \<in> set sel then filter (\<lambda>x. x \<noteq> i) sel else sel @ [i])"

definition all_selected :: "string list \<Rightarrow> string list \<Rightarrow> bool" where
  "all_selected sel ids \<longleftrightarrow> ids \<noteq> [] \<and> list_all (\<lambda>i. i \<in> set sel) ids"

definition bulkDelete :: "string list \<Rightarrow> 'a web_effect list" where
  "bulkDelete sel = map (\<lambda>i. Request ''DELETE'' (''/api/entries/'' @ i) None) sel"

definition reprocess_request :: "string list \<Rightarrow> 'a web_effect" where
  "reprocess_request ids =
     Request ''POST'' ''/api/entries/reprocess'' (Some (JObj [(''publicIds'', JList (map JText ids))]))"

definition count_vars :: "nat \<Rightarrow> vars option" where
  "count_vars n = Some [(''n'', VNat n)]"

definition askBulkDelete :: "translator \<Rightarrow> string list \<Rightarrow> entries_event web_effect list" where
  "askBulkDelete t sel =
     [AskConfirm (ask (t ''entriesDeleteTitle'' (count_vars (length sel))) (tx t ''entriesDeleteDesc'')
       (tx t ''delete'') (tx t ''cancel'') (Some Destructive)) (BulkDelete sel)]"

definition askReprocess :: "translator \<Rightarrow> string list \<Rightarrow> entries_event web_effect list" where
  "askReprocess t sel =
     [AskConfirm (ask (t ''entriesReprocessTitle'' (count_vars (length sel))) (tx t ''entriesReprocessDesc'')
       (tx t ''entryReprocess'') (tx t ''cancel'') None) (BulkReprocess sel)]"

definition askDelete :: "translator \<Rightarrow> entry \<Rightarrow> entries_event web_effect list" where
  "askDelete t e =
     [AskConfirm (ask (t ''entriesDeleteTitle'' (count_vars 1)) (tx t ''entryDeleteDesc'')
       (tx t ''delete'') (tx t ''cancel'') (Some Destructive)) (DeleteEntry (en_id e))]"

definition limit_of :: "string \<Rightarrow> nat" where
  "limit_of v = (case js_number v of Fin q \<Rightarrow> nat \<lfloor>q\<rfloor> | _ \<Rightarrow> 0)"

fun entries_step :: "translator \<Rightarrow> entries_event \<Rightarrow> entries_page \<Rightarrow> entries_page \<times> entries_event web_effect list" where
  "entries_step t (TypeQuery x) s = (s\<lparr>ep_q := x, ep_page := 1\<rparr>, [])"
| "entries_step t (ChooseStatus x) s = (s\<lparr>ep_status := x, ep_page := 1\<rparr>, [])"
| "entries_step t (ChooseCategory x) s = (s\<lparr>ep_category := x, ep_page := 1\<rparr>, [])"
| "entries_step t (ChooseLimit x) s = (s\<lparr>ep_limit := limit_of x, ep_page := 1\<rparr>, [])"
| "entries_step t PrevPage s = (s\<lparr>ep_page := ep_page s - 1\<rparr>, [])"
| "entries_step t NextPage s = (s\<lparr>ep_page := ep_page s + 1\<rparr>, [])"
| "entries_step t (ToggleSelect i) s = (s\<lparr>ep_selected := toggleSelect i (ep_selected s)\<rparr>, [])"
| "entries_step t (ToggleAll ids) s =
     (s\<lparr>ep_selected := (if all_selected (ep_selected s) ids then [] else remdups ids)\<rparr>, [])"
| "entries_step t AskBulkDelete s = (s, askBulkDelete t (ep_selected s))"
| "entries_step t (BulkDelete sel) s = (s, bulkDelete sel)"
| "entries_step t AskReprocess s = (s, askReprocess t (ep_selected s))"
| "entries_step t (BulkReprocess sel) s = (s, [reprocess_request sel])"
| "entries_step t (AskDeleteEntry e) s = (s, askDelete t e)"
| "entries_step t (DeleteEntry i) s = (s, [Request ''DELETE'' (''/api/entries/'' @ i) None])"
| "entries_step t (OpenEntryDetail i) s = (s, [OpenDlg (OpenEntryDetail i) (Some Size5xl) False True])"
| "entries_step t (OpenEmbed e) s = (s, [OpenDlg (OpenEmbed e) (Some SizeXl) True True])"
| "entries_step t UploadFirst s = (s, [OpenDlg UploadFirst (Some Size2xl) False False])"

text \<open>
  What follows the answers.  Failures of a bulk deletion are dropped one by one; the failure of a
  bulk reprocessing is reported and then passed over.
\<close>

definition bulk_deleted :: "translator \<Rightarrow> string list \<Rightarrow> unit reply list \<Rightarrow> entries_page \<Rightarrow> entries_page \<times> 'a web_effect list" where
  "bulk_deleted t sel answers s =
     (s\<lparr>ep_selected := []\<rparr>,
      [Toast ToastSuccess (t ''entriesDeleted'' (count_vars (length sel))), Invalidate [''entries'']])"

definition reprocessed :: "translator \<Rightarrow> string list \<Rightarrow> unit reply \<Rightarrow> entries_page \<Rightarrow> entries_page \<times> 'a web_effect list" where
  "reprocessed t sel r s =
     (s\<lparr>ep_selected := []\<rparr>,
      (case r of Ok _ \<Rightarrow> [] | _ \<Rightarrow> [Toast ToastError (error_text r)]) @
      [Toast ToastSuccess (t ''entriesReprocessed'' (count_vars (length sel))), Invalidate [''entries'']])"

text \<open>The confirm box of one deletion stays open when its action throws.\<close>

definition entry_deleted :: "translator \<Rightarrow> unit reply \<Rightarrow> 'a web_effect list \<times> bool" where
  "entry_deleted t r =
     (case r of
        Ok _ \<Rightarrow> ([Toast ToastSuccess (tx t ''deleted''), Invalidate [''entries'']], True)
      | _ \<Rightarrow> ([Toast ToastError (error_text r)], False))"

subsection \<open>The page\<close>

definition catName :: "category list \<Rightarrow> int option \<Rightarrow> string" where
  "catName cs i = (case find (\<lambda>c. Some (cat_id c) = i) cs of Some c \<Rightarrow> cat_name c | None \<Rightarrow> emdash)"

definition status_options :: "translator \<Rightarrow> (string \<times> string) list" where
  "status_options t =
     [([], tx t ''entriesAllStatuses''), (''uploading'', tx t ''statusUploading''), (''probing'', tx t ''statusProbing''),
      (''transcoding'', tx t ''statusTranscoding''), (''ready'', tx t ''statusReady''), (''failed'', tx t ''statusFailed'')]"

definition RowActions :: "translator \<Rightarrow> 'e \<Rightarrow> 'e \<Rightarrow> 'e \<Rightarrow> 'e node" where
  "RowActions t opn emb del =
     El ''DropdownMenu'' []
       [El ''Button'' [(''aria-label'', AText (tx t ''colActions''))] [El ''MoreHorizontalIcon'' [] []],
        El ''DropdownMenuItem'' [(''onClick'', AEvent opn)] [Txt (tx t ''edit'')],
        El ''DropdownMenuItem'' [(''onClick'', AEvent emb)] [Txt (tx t ''actEmbed'')],
        El ''DropdownMenuItem'' [(''onClick'', AEvent del)] [Txt (tx t ''delete'')]]"

definition entries_toolbar :: "translator \<Rightarrow> category list \<Rightarrow> entries_page \<Rightarrow> entries_event node" where
  "entries_toolbar t cs s =
     (let n = length (ep_selected s) in
      El ''Card'' []
       ([El ''Input'' [(''placeholder'', AText (tx t ''entriesSearch'')), (''value'', AText (ep_q s)),
           (''onChange'', AInput TypeQuery)] [],
         select (status_options t) (ep_status s) ChooseStatus,
         select (([], tx t ''entriesAllCategories'') # map (\<lambda>c. (dec_int (cat_id c), cat_name c)) cs)
           (ep_category s) ChooseCategory] @
        show_if (0 < n) (El ''div'' []
          [click ''Button'' AskReprocess False (t ''entriesReprocessN'' (count_vars n)),
           click ''Button'' AskBulkDelete False (t ''entriesDeleteN'' (count_vars n))])))"

definition entries_head :: "translator \<Rightarrow> entry_list option \<Rightarrow> entries_page \<Rightarrow> entries_event node" where
  "entries_head t list s =
     (let ids = (case list of Some l \<Rightarrow> map en_id (el_items l) | None \<Rightarrow> []) in
      El ''TableHeader'' [] [El ''TableRow'' []
        (El ''TableHead'' [] [El ''Checkbox'' [(''checked'', ABool (list \<noteq> None \<and> all_selected (ep_selected s) ids)),
           (''onCheckedChange'', AEvent (ToggleAll ids))] []] #
         map (\<lambda>k. El ''TableHead'' [] [Txt (tx t k)])
           [''colTitle'', ''colStatus'', ''colCategory'', ''colDuration'', ''colUploaded'', ''colVisibility''] @
         [El ''TableHead'' [] []])])"

definition entry_line ::
  "translator \<Rightarrow> (string \<Rightarrow> string) \<Rightarrow> category list \<Rightarrow> entries_page \<Rightarrow> entry \<Rightarrow> entries_event node" where
  "entry_line t fd cs s e =
     El ''TableRow'' [(''onClick'', AEvent (OpenEntryDetail (en_id e)))]
       [cell [El ''Checkbox'' [(''checked'', ABool (en_id e \<in> set (ep_selected s))),
          (''onCheckedChange'', AEvent (ToggleSelect (en_id e)))] []],
        cell [EntryThumb (en_posterKey e) (Some (en_updatedAt e)) (en_title e),
          El ''span'' [] [Txt (if en_title e \<noteq> [] then en_title e else tx t ''untitled'')]],
        cell [StatusBadge t (en_status e)],
        cell [Txt (catName cs (en_categoryId e))],
        cell [Txt (formatDuration (en_durationMs e))],
        cell [Txt (fd (en_createdAt e))],
        cell (El ''Badge'' [] [Txt (if en_isPublic e then tx t ''visibilityPublic'' else tx t ''visibilityPrivate'')] #
          show_if (en_accessDenied e) (El ''Badge'' [] [Txt (tx t ''accessDenied'')])),
        cell [RowActions t (OpenEntryDetail (en_id e)) (OpenEmbed e) (AskDeleteEntry e)]]"

definition entries_empty :: "translator \<Rightarrow> entry_list \<Rightarrow> entries_event node list" where
  "entries_empty t l =
     show_if (el_items l = []) (El ''TableRow'' [] [cell
       [if el_catalogTotal l = 0 then EmptyState ''FilmIcon'' (Some (tx t ''entriesNoneTitle'')) (Some (tx t ''dashNoEntries''))
          (Some (El ''Button'' [(''onClick'', AEvent UploadFirst)] [El ''UploadCloudIcon'' [] [], Txt (tx t ''dashUploadFirst'')]))
        else EmptyState ''FilmIcon'' None (Some (tx t ''entriesEmpty'')) None]])"

text \<open>\<open>Math.max(1, Math.ceil(total / limit))\<close>.\<close>

definition page_count :: "nat \<Rightarrow> nat \<Rightarrow> nat" where
  "page_count n limit = max 1 (nat \<lceil>(of_nat n :: rat) / of_nat limit\<rceil>)"

definition entries_pager :: "translator \<Rightarrow> entry_list \<Rightarrow> entries_page \<Rightarrow> entries_event node" where
  "entries_pager t l s =
     El ''div'' []
       [El ''span'' [] [Txt (t ''entriesCount'' (Some [(''total'', VNat (el_total l)), (''page'', VNat (el_page l)),
          (''pages'', VNat (page_count (el_total l) (el_limit l)))]))],
        select (map (\<lambda>n. (dec n, dec n)) [10, 20, 50]) (dec (ep_limit s)) ChooseLimit,
        click ''Button'' PrevPage (ep_page s \<le> 1) (tx t ''entriesPrev''),
        click ''Button'' NextPage (int (el_total l) \<le> ep_page s * int (el_limit l)) (tx t ''entriesNext'')]"

definition EntriesPage ::
  "translator \<Rightarrow> (string \<Rightarrow> string) \<Rightarrow> category list \<Rightarrow> entry_list option \<Rightarrow> entries_page \<Rightarrow> entries_event node" where
  "EntriesPage t fd cs list s =
     El ''div'' []
       ([entries_toolbar t cs s,
         El ''Card'' [] [El ''Table'' [] [entries_head t list s, El ''TableBody'' []
           (case list of
              None \<Rightarrow> replicate 5 (El ''TableRow'' [] (replicate 7 (El ''TableCell'' [] [El ''Skeleton'' [] []])))
            | Some l \<Rightarrow> map (entry_line t fd cs s) (el_items l) @ entries_empty t l)]]] @
        (case list of Some l \<Rightarrow> [entries_pager t l s] | None \<Rightarrow> []))"


subsection \<open>What clicks can do\<close>

lemma RowActions_events [simp]: "node_events (RowActions t a b c) = [a, b, c]"
  by (simp add: RowActions_def)

lemma entries_clicks:
  assumes "can_cause (EntriesPage t fd cs list s) e"
  shows "(e = PrevPage \<longrightarrow> 1 < ep_page s) \<and> (\<forall>v. e \<noteq> ChooseLimit v) \<and>
    (e = NextPage \<longrightarrow> (\<exists>l. list = Some l \<and> ep_page s * int (el_limit l) < int (el_total l))) \<and>
    (e = AskBulkDelete \<or> e = AskReprocess \<longrightarrow> ep_selected s \<noteq> [])"
proof -
  have bar: "node_events (entries_toolbar t cs s) = (if ep_selected s = [] then [] else [AskReprocess, AskBulkDelete])"
    by (simp add: entries_toolbar_def Let_def)
  have head: "set (node_events (entries_head t list s)) \<subseteq> range ToggleAll"
    by (auto simp: entries_head_def Let_def is_disabled_def o_def)
  have line: "set (node_events (entry_line t fd cs s x)) \<subseteq>
      {OpenEntryDetail (en_id x), ToggleSelect (en_id x), OpenEmbed x, AskDeleteEntry x}" for x
    by (auto simp: entry_line_def show_if_def is_disabled_def)
  have empty: "set (concat (map node_events (entries_empty t l))) \<subseteq> {UploadFirst}" for l
    by (auto simp: entries_empty_def show_if_def EmptyState_def is_disabled_def)
  have pager: "node_events (entries_pager t l s) =
      (if ep_page s \<le> 1 then [] else [PrevPage]) @
      (if int (el_total l) \<le> ep_page s * int (el_limit l) then [] else [NextPage])" for l
    by (simp add: entries_pager_def)
  consider "e \<in> set (node_events (entries_toolbar t cs s))" | "e \<in> set (node_events (entries_head t list s))"
    | x where "e \<in> set (node_events (entry_line t fd cs s x))"
    | l where "e \<in> set (concat (map node_events (entries_empty t l)))"
    | l where "list = Some l" "e \<in> set (node_events (entries_pager t l s))"
    using assms by (cases list) (auto simp: can_cause_def EntriesPage_def is_disabled_def)
  then show ?thesis
  proof cases
    case 1
    then show ?thesis by (auto simp: bar split: if_splits)
  next
    case 2
    then show ?thesis using head by auto
  next
    case 3
    then show ?thesis using line by fastforce
  next
    case 4
    then show ?thesis using empty by fastforce
  next
    case 5
    then show ?thesis by (auto simp: pager split: if_splits)
  qed
qed

inductive entries_reachable ::
  "translator \<Rightarrow> (string \<Rightarrow> string) \<Rightarrow> category list \<Rightarrow> entries_page \<Rightarrow> bool" for t fd cs where
  start: "entries_reachable t fd cs new_entries_page"
| click: "entries_reachable t fd cs s \<Longrightarrow> can_cause (EntriesPage t fd cs list s) e \<Longrightarrow>
    entries_reachable t fd cs (fst (entries_step t e s))"
| query: "entries_reachable t fd cs s \<Longrightarrow> entries_reachable t fd cs (fst (entries_step t (TypeQuery x) s))"
| status: "entries_reachable t fd cs s \<Longrightarrow> entries_reachable t fd cs (fst (entries_step t (ChooseStatus x) s))"
| category: "entries_reachable t fd cs s \<Longrightarrow> entries_reachable t fd cs (fst (entries_step t (ChooseCategory x) s))"
| limit: "entries_reachable t fd cs s \<Longrightarrow> n \<in> {10, 20, 50} \<Longrightarrow>
    entries_reachable t fd cs (fst (entries_step t (ChooseLimit (dec n)) s))"
| uploads: "entries_reachable t fd cs s \<Longrightarrow>
    entries_reachable t fd cs (fst (watch_uploads js s :: entries_page \<times> entries_event web_effect list))"
| deleted: "entries_reachable t fd cs s \<Longrightarrow>
    entries_reachable t fd cs (fst (bulk_deleted t sel rs s :: entries_page \<times> entries_event web_effect list))"
| reprocessed: "entries_reachable t fd cs s \<Longrightarrow>
    entries_reachable t fd cs (fst (reprocessed t sel r s :: entries_page \<times> entries_event web_effect list))"

lemma limit_of_dec [simp]: "limit_of (dec n) = n"
  by (simp add: limit_of_def)

lemma entries_inv:
  assumes "entries_reachable t fd cs s"
  shows "1 \<le> ep_page s \<and> distinct (ep_selected s) \<and> ep_limit s \<in> {10, 20, 50}"
  using assms
proof induction
  case (click s list e)
  then show ?case
    using entries_clicks [OF click(2)]
    by (cases e) (auto simp: toggleSelect_def)
qed (auto simp: new_entries_page_def watch_uploads_def bulk_deleted_def reprocessed_def Let_def)

text \<open>C33: In every state the page can get into by clicks, typing, answers and finished uploads, the page
  number is at least 1, the page size is one of those offered, no entry is selected twice, and
  the request made carries exactly the page, size and filters of the state, which the server
  reads back from the address; deleting the selection asks for each selected entry once.\<close>

theorem entries_request_faithful:
  assumes "entries_reachable t fd cs s"
  shows "1 \<le> ep_page s \<and> ep_limit s \<in> {10, 20, 50} \<and>
    (\<exists>qs. entries_path s = ''/api/entries?'' @ qs \<and>
       (let get = (\<lambda>k. query_get k (parse_query qs)); given = (\<lambda>x. if x = [] then None else Some x) in
        get ''page'' = Some (dec (nat (ep_page s))) \<and> get ''limit'' = Some (dec (ep_limit s)) \<and>
        get ''q'' = given (ep_q s) \<and> get ''status'' = given (ep_status s) \<and> get ''category'' = given (ep_category s))) \<and>
    distinct (bulkDelete (ep_selected s) :: entries_event web_effect list) \<and>
    length (bulkDelete (ep_selected s) :: entries_event web_effect list) = length (ep_selected s)"
proof -
  note inv = entries_inv [OF assms]
  have "distinct (bulkDelete (ep_selected s) :: entries_event web_effect list)"
    using inv by (auto simp: bulkDelete_def distinct_map inj_on_def)
  moreover have "dec_int (ep_page s) = dec (nat (ep_page s))" using inv by (simp add: dec_int_def)
  ultimately show ?thesis
    using inv by (auto simp: entries_path_def parse_query_string entries_params_def query_get_def bulkDelete_def Let_def)
qed

theorem entries_request_faithful_witness:
  "\<exists>qs. entries_path (fst (entries_step (\<lambda>k _. k) (TypeQuery ''a b'') new_entries_page)) = ''/api/entries?'' @ qs \<and>
     query_get ''q'' (parse_query qs) = Some ''a b''"
proof -
  let ?t = "\<lambda>k (_ :: vars option). k"
  have "entries_reachable ?t id [] (fst (entries_step ?t (TypeQuery ''a b'') new_entries_page))"
    by (rule entries_reachable.query [OF entries_reachable.start])
  from entries_request_faithful [OF this] show ?thesis
    by (auto simp: Let_def)
qed

text \<open>The next page is offered only when it holds an entry.\<close>

lemma next_page_exists:
  assumes "can_cause (EntriesPage t fd cs (Some l) s) NextPage" and "1 \<le> ep_page s" and "0 < el_limit l"
  shows "ep_page s + 1 \<le> int (page_count (el_total l) (el_limit l))"
proof -
  have "ep_page s * int (el_limit l) < int (el_total l)" using entries_clicks [OF assms(1)] by auto
  then have "(of_int (ep_page s * int (el_limit l)) :: rat) < of_int (int (el_total l))" by linarith
  then have "(of_int (ep_page s) :: rat) < of_nat (el_total l) / of_nat (el_limit l)"
    using assms(3) by (simp add: pos_less_divide_eq)
  then have "ep_page s < \<lceil>(of_nat (el_total l) :: rat) / of_nat (el_limit l)\<rceil>" by (simp add: less_ceiling_iff)
  then show ?thesis using assms(2) unfolding page_count_def by linarith
qed

text \<open>A bulk action is reported as done whatever the answers were.\<close>

lemma bulk_failure_reported_done:
  "snd (bulk_deleted t sel (map (\<lambda>_. ApiErr m) sel) s) =
     [Toast ToastSuccess (t ''entriesDeleted'' (count_vars (length sel))), Invalidate [''entries'']]"
  "Toast ToastSuccess (t ''entriesReprocessed'' (count_vars (length sel))) \<in> set (snd (reprocessed t sel (ApiErr m) s))"
  by (simp_all add: bulk_deleted_def reprocessed_def)

text \<open>Only categories at the top of the tree have their name shown.\<close>

lemma nested_category_nameless:
  "catName [Category 1 None ''A'' ''a'' 0 (Some [Category 2 (Some 1) ''B'' ''b'' 0 None])] (Some 2) = emdash"
  by (simp add: catName_def)

end
