(* ===== verification/DashboardPage.thy ===== *)
theory DashboardPage
  imports Parts
begin

text \<open>
  The dashboard, \<open>web/app/admin/dashboard/page.tsx\<close>: loading, the figures, the small bandwidth chart,
  the recent uploads and the distribution of the entries over their states.  \<open>day_key i\<close> is the ISO
  date of \<open>i\<close> days ago, \<open>ld\<close> is \<open>toLocaleDateString\<close>; colours are left out.
\<close>

subsection \<open>Loading\<close>

datatype dash_event = Focused | Tick bool | DashAnswer "dashboard reply" | OpenRecent string | UploadFirstEntry

definition dash_load :: "'a web_effect list" where
  "dash_load = [Request ''GET'' ''/api/dashboard'' None]"

fun dash_step :: "dash_event \<Rightarrow> dashboard option \<Rightarrow> dashboard option \<times> dash_event web_effect list" where
  "dash_step Focused d = (d, dash_load)"
| "dash_step (Tick visible) d = (d, if visible then dash_load else [])"
| "dash_step (DashAnswer r) d =
     (case r of Ok x \<Rightarrow> (Some x, []) | _ \<Rightarrow> (d, [Toast ToastError (error_text r)]))"
| "dash_step (OpenRecent i) d = (d, [OpenDlg (OpenRecent i) (Some Size5xl) False True])"
| "dash_step UploadFirstEntry d = (d, [OpenDlg UploadFirstEntry (Some Size2xl) False False])"

subsection \<open>The small chart\<close>

definition dash_padSeries :: "(nat \<Rightarrow> string) \<Rightarrow> day_bytes list \<Rightarrow> (string \<times> nat) list" where
  "dash_padSeries day_key points =
     (let byDay = map_of (rev (map (\<lambda>p. (db_day p, db_bytes p)) points)) in
      map (\<lambda>i. (day_key i, case byDay (day_key i) of Some v \<Rightarrow> v | None \<Rightarrow> 0)) (rev [0..<14]))"

definition spark_width :: rat where "spark_width = 88"
definition spark_height :: rat where "spark_height = 30"
definition spark_pad :: rat where "spark_pad = 2"

definition spark_max :: "nat list \<Rightarrow> nat" where
  "spark_max values = fold max values 1"

definition spark_x :: "nat \<Rightarrow> nat \<Rightarrow> rat" where
  "spark_x n i =
     spark_pad + (if n = 1 then (spark_width - spark_pad * 2) / 2
                  else of_nat i / (of_nat n - 1) * (spark_width - spark_pad * 2))"

definition spark_y :: "nat \<Rightarrow> nat \<Rightarrow> rat" where
  "spark_y highest v =
     (let inner = spark_height - spark_pad * 2 in spark_pad + inner - of_nat v / of_nat highest * inner)"

definition spark_coords :: "(nat \<Rightarrow> string) \<Rightarrow> day_bytes list \<Rightarrow> (rat \<times> rat) list" where
  "spark_coords day_key points =
     (let ps = dash_padSeries day_key points; values = map snd ps in
      map (\<lambda>i. (spark_x (length values) i, spark_y (spark_max values) (values ! i))) [0..<length values])"

definition spark_line :: "(rat \<times> rat) list \<Rightarrow> string" where
  "spark_line cs = join_with '' '' (map (\<lambda>(x, y). to_fixed 1 x @ '','' @ to_fixed 1 y) cs)"

definition Sparkline :: "(nat \<Rightarrow> string) \<Rightarrow> day_bytes list \<Rightarrow> 'e node" where
  "Sparkline day_key points =
     El ''svg'' [(''viewBox'', AText ''0 0 88 30'')]
       [El ''polyline'' [(''points'', AText (spark_line (spark_coords day_key points)))] []]"

subsection \<open>The figures\<close>

definition statusKeys :: "(string \<times> string) list" where
  "statusKeys =
     [(''uploading'', ''statusUploading''), (''probing'', ''statusProbing''), (''transcoding'', ''statusTranscoding''),
      (''ready'', ''statusReady''), (''failed'', ''statusFailed'')]"

record kpi =
  kp_title :: string
  kp_value :: string
  kp_hint :: string
  kp_icon :: string
  kp_warning :: "string option"
  kp_spark :: "day_bytes list option"

definition dash_kpis :: "translator \<Rightarrow> dashboard \<Rightarrow> kpi list" where
  "dash_kpis t d =
     [\<lparr>kp_title = tx t ''dashEntries'', kp_value = dec (dh_totalEntries d), kp_hint = tx t ''dashEntriesHint'',
       kp_icon = ''FilmIcon'', kp_warning = None, kp_spark = None\<rparr>,
      \<lparr>kp_title = tx t ''dashStorage'', kp_value = formatBytes (Some (dh_storageUsed d)), kp_hint = tx t ''dashStorageHint'',
       kp_icon = ''HardDriveIcon'', kp_warning = None, kp_spark = None\<rparr>,
      \<lparr>kp_title = tx t ''dashBandwidth'', kp_value = formatGb (dh_bandwidthTotalBytes d) @ '' GB'',
       kp_hint = t ''dashBandwidthHint'' (Some [(''today'', VText (formatGb (dh_bandwidthTodayBytes d)))]),
       kp_icon = ''ActivityIcon'',
       kp_warning = (if dh_analyticsEnabled d then None else Some (tx t ''analyticsDisabled'')),
       kp_spark = Some (dh_bandwidthSeries d)\<rparr>,
      \<lparr>kp_title = tx t ''dashQueue'', kp_value = dec (dh_queueDepth d), kp_hint = tx t ''dashQueueHint'',
       kp_icon = ''TimerIcon'', kp_warning = None, kp_spark = None\<rparr>]"

definition dash_card :: "(nat \<Rightarrow> string) \<Rightarrow> kpi \<Rightarrow> 'e node" where
  "dash_card day_key k =
     El ''Card'' []
       [El ''CardTitle'' [] (Txt (kp_title k) #
          (case kp_warning k of
             Some (c # w) \<Rightarrow> [El ''Tooltip'' [] [El ''TriangleAlertIcon'' [] [], El ''TooltipContent'' [] [Txt (c # w)]]]
           | _ \<Rightarrow> [])),
        El (kp_icon k) [] [],
        El ''CardContent'' [] (El ''div'' [] [Txt (kp_value k)] #
          (case kp_spark k of Some (p # ps) \<Rightarrow> [Sparkline day_key (p # ps)] | _ \<Rightarrow> []) @
          [El ''p'' [] [Txt (kp_hint k)]])]"

subsection \<open>Recent uploads\<close>

definition recent_details :: "(string \<Rightarrow> string) \<Rightarrow> entry \<Rightarrow> 'e node list" where
  "recent_details ld e =
     (let dot = El ''span'' [] [Txt [CHR 0x95]] in
      El ''span'' [] [Txt (formatDuration (en_durationMs e))] #
      (case en_sourceSize e of Some (Suc n) \<Rightarrow> [dot, El ''span'' [] [Txt (formatBytes (Some (Suc n)))]] | _ \<Rightarrow> []) @
      (if en_createdAt e \<noteq> [] then [dot, El ''span'' [] [Txt (ld (en_createdAt e))]] else []))"

definition recent_card :: "translator \<Rightarrow> (string \<Rightarrow> string) \<Rightarrow> entry \<Rightarrow> dash_event node" where
  "recent_card t ld e =
     El ''div'' [(''onClick'', AEvent (OpenRecent (en_id e)))]
       [EntryThumb (en_posterKey e) (Some (en_updatedAt e)) (en_title e),
        El ''span'' [] [Txt (if en_title e \<noteq> [] then en_title e else tx t ''untitled'')],
        El ''div'' [] (recent_details ld e), StatusBadge t (en_status e)]"

definition view_all :: string where "view_all = ''/entries''"

definition recent_uploads :: "translator \<Rightarrow> (string \<Rightarrow> string) \<Rightarrow> entry list \<Rightarrow> dash_event node" where
  "recent_uploads t ld es =
     El ''Card'' []
       [El ''CardTitle'' [] [Txt (tx t ''dashRecent'')], El ''CardDescription'' [] [Txt (tx t ''dashRecentDesc'')],
        El ''Link'' [(''href'', AText view_all)] [El ''span'' [] [Txt (tx t ''dashboardViewAll'')]],
        El ''CardContent'' []
          [if es \<noteq> [] then El ''div'' [] (map (recent_card t ld) es)
           else EmptyState ''ClapperboardIcon'' None (Some (tx t ''dashRecentEmpty'')) None]]"

subsection \<open>Entries by state\<close>

definition totalStatusCount :: "(string \<times> nat) list \<Rightarrow> nat" where
  "totalStatusCount cts = sum_list (map snd cts)"

text \<open>The width of a segment, and \<open>Math.round\<close> of the listed percentage.\<close>

definition segment_width :: "(string \<times> nat) list \<Rightarrow> nat \<Rightarrow> rat" where
  "segment_width cts n = of_nat n / (if totalStatusCount cts = 0 then 1 else of_nat (totalStatusCount cts)) * 100"

definition listed_percent :: "(string \<times> nat) list \<Rightarrow> nat \<Rightarrow> nat" where
  "listed_percent cts n =
     (if 0 < totalStatusCount cts
      then nat \<lfloor>(of_nat n / of_nat (totalStatusCount cts) * 100 :: rat) + 1 / 2\<rfloor> else 0)"

definition status_segment :: "(string \<times> nat) list \<Rightarrow> string \<times> nat \<Rightarrow> 'e node" where
  "status_segment cts sc =
     (case sc of (st, n) \<Rightarrow>
        El ''div'' [(''width'', AText (rat_text (segment_width cts n) @ ''%'')),
          (''title'', AText (st @ '': '' @ dec n @ '' ('' @ to_fixed 1 (segment_width cts n) @ ''%)''))] [])"

definition status_line :: "translator \<Rightarrow> (string \<times> nat) list \<Rightarrow> string \<times> nat \<Rightarrow> 'e node" where
  "status_line t cts sc =
     (case sc of (st, n) \<Rightarrow>
        El ''div'' []
          [El ''span'' [] [Txt (case map_of statusKeys st of Some k \<Rightarrow> tx t k | None \<Rightarrow> st)],
           El ''span'' [] [Txt (t ''dashEntryCount'' (Some [(''n'', VNat n)]))],
           El ''div'' [(''width'', AText (dec (listed_percent cts n) @ ''%''))] [],
           El ''span'' [] [Txt (dec (listed_percent cts n) @ ''%'')]])"

definition status_card :: "translator \<Rightarrow> (string \<times> nat) list \<Rightarrow> 'e node" where
  "status_card t cts =
     El ''Card'' []
       [El ''CardTitle'' [] [Txt (tx t ''dashByStatus'')],
        El ''span'' [] [Txt (tx t ''dashEntriesHint'' @ '' '' @ [CHR 0xB7] @ '' '' @ dec (totalStatusCount cts))],
        El ''CardDescription'' [] [Txt (if cts = [] then tx t ''dashStatusEmpty'' else tx t ''dashByStatusDesc'')],
        El ''CardContent'' []
          [if cts \<noteq> [] then El ''div'' [] [El ''div'' [] (map (status_segment cts) cts), El ''div'' [] (map (status_line t cts) cts)]
           else EmptyState ''FilmIcon'' None (Some (tx t ''dashStatusEmpty'')) None]]"

definition welcome_card :: "translator \<Rightarrow> dash_event node" where
  "welcome_card t =
     El ''Card'' []
       [El ''ClapperboardIcon'' [] [], El ''h2'' [] [Txt (tx t ''dashWelcomeTitle'')], El ''p'' [] [Txt (tx t ''dashWelcomeDesc'')],
        El ''Button'' [(''onClick'', AEvent UploadFirstEntry)] [El ''UploadCloudIcon'' [] [], Txt (tx t ''dashUploadFirst'')]]"

definition DashboardPage ::
  "translator \<Rightarrow> (nat \<Rightarrow> string) \<Rightarrow> (string \<Rightarrow> string) \<Rightarrow> dashboard option \<Rightarrow> dash_event node" where
  "DashboardPage t day_key ld data =
     (case data of
        None \<Rightarrow> El ''div'' [] (replicate 4 (El ''Skeleton'' [] []))
      | Some d \<Rightarrow>
          El ''div'' [] (show_if (dh_totalEntries d = 0) (welcome_card t) @
            [El ''div'' [] (map (dash_card day_key) (dash_kpis t d)),
             recent_uploads t ld (dh_recent d), status_card t (dh_entriesByStatus d)]))"


subsection \<open>What the dashboard shows\<close>

lemma map_of_map_snd: "map_of (map (\<lambda>p. (f p, g (h p))) ps) k = map_option g (map_of (map (\<lambda>p. (f p, h p)) ps) k)"
  by (induction ps) auto

text \<open>The dashboard's own padding of the bandwidth series is the shared one of the charts over fourteen
  days.\<close>

theorem dash_padSeries_shared:
  "map (\<lambda>(d, n). (d, num_of_nat n)) (dash_padSeries day_key points) =
     padSeries day_key (map (\<lambda>p. (db_day p, num_of_nat (db_bytes p))) points) 14"
proof -
  have "map_of (rev (map (\<lambda>p. (db_day p, num_of_nat (db_bytes p))) points)) k =
      map_option num_of_nat (map_of (rev (map (\<lambda>p. (db_day p, db_bytes p)) points)) k)" for k
    using map_of_map_snd [of db_day num_of_nat db_bytes "rev points"] by (simp add: rev_map)
  then show ?thesis
    by (auto simp: dash_padSeries_def padSeries_def by_day_def Let_def split: option.split)
qed

lemma fold_max_upper: "a \<le> fold max xs a \<and> (\<forall>x\<in>set xs. x \<le> fold max xs (a :: nat))"
  by (induction xs arbitrary: a) (auto, (meson max.bounded_iff max.cobounded1 order_trans)+)

lemma spark_y_inside:
  assumes "v \<le> m" and "0 < m"
  shows "2 \<le> spark_y m v \<and> spark_y m v \<le> 28"
proof -
  define q where "q = (of_nat v :: rat) / of_nat m"
  have "0 \<le> q" "q \<le> 1" using assms by (simp_all add: q_def)
  moreover have "spark_y m v = 28 - q * 26"
    by (simp add: spark_y_def spark_height_def spark_pad_def q_def)
  ultimately show ?thesis by simp
qed

lemma spark_x_inside:
  assumes "i < 14"
  shows "2 \<le> spark_x 14 i \<and> spark_x 14 i \<le> 86"
proof -
  have "of_nat i \<le> (13 :: rat)" using assms of_nat_mono [of i 13] by simp
  then show ?thesis by (simp add: spark_x_def spark_width_def spark_pad_def)
qed

text \<open>The bandwidth line has fourteen points, one per day, and each lies inside the drawing with its
  margin of two, whatever was reported.\<close>

theorem spark_inside_frame:
  "length (spark_coords day_key points) = 14 \<and>
   list_all (\<lambda>(x, y). 2 \<le> x \<and> x \<le> 86 \<and> 2 \<le> y \<and> y \<le> 28) (spark_coords day_key points)"
proof -
  let ?vs = "map snd (dash_padSeries day_key points)"
  have n: "length ?vs = 14" by (simp add: dash_padSeries_def Let_def)
  have "2 \<le> spark_y (spark_max ?vs) (?vs ! i) \<and> spark_y (spark_max ?vs) (?vs ! i) \<le> 28" if "i < 14" for i
  proof (rule spark_y_inside)
    show "?vs ! i \<le> spark_max ?vs" using fold_max_upper [of 1 ?vs] that n by (simp add: spark_max_def)
    show "0 < spark_max ?vs" using fold_max_upper [of 1 ?vs] by (simp add: spark_max_def)
  qed
  then show ?thesis
    using spark_x_inside n by (auto simp: spark_coords_def list_all_iff Let_def)
qed

lemma sum_segments:
  "sum_list (map (\<lambda>sc. of_nat (snd sc) / c * 100) cts) = (of_nat (totalStatusCount cts) / c * 100 :: rat)"
  by (induction cts) (simp_all add: totalStatusCount_def add_divide_distrib algebra_simps)

lemma count_le_total: "sc \<in> set cts \<Longrightarrow> snd sc \<le> totalStatusCount cts"
  by (simp add: totalStatusCount_def member_le_sum_list)

text \<open>When there are entries, the segments of the status bar fill it exactly, and each listed
  percentage is at most 100 and within half a percent of its segment.\<close>

theorem status_bar_fills:
  assumes "0 < totalStatusCount cts"
  shows "sum_list (map (\<lambda>sc. segment_width cts (snd sc)) cts) = 100 \<and>
    list_all (\<lambda>sc. 0 \<le> segment_width cts (snd sc) \<and> segment_width cts (snd sc) \<le> 100 \<and>
      listed_percent cts (snd sc) \<le> 100 \<and>
      \<bar>of_nat (listed_percent cts (snd sc)) - segment_width cts (snd sc)\<bar> \<le> 1 / 2) cts"
proof -
  have w: "segment_width cts n = of_nat n / of_nat (totalStatusCount cts) * 100" for n
    using assms by (simp add: segment_width_def)
  have "listed_percent cts n \<le> 100 \<and> \<bar>of_nat (listed_percent cts n) - segment_width cts n\<bar> \<le> 1 / 2 \<and>
      0 \<le> segment_width cts n \<and> segment_width cts n \<le> 100" if "n \<le> totalStatusCount cts" for n
  proof -
    let ?q = "segment_width cts n"
    define r where "r = (of_nat n :: rat) / of_nat (totalStatusCount cts)"
    have "0 \<le> r" "r \<le> 1" "?q = r * 100" using that assms by (simp_all add: r_def w)
    then have q: "0 \<le> ?q" "?q \<le> 100" by simp_all
    have p: "listed_percent cts n = nat \<lfloor>?q + 1 / 2\<rfloor>" using assms by (simp add: listed_percent_def w)
    have f: "0 \<le> \<lfloor>?q + 1 / 2\<rfloor>" "\<lfloor>?q + 1 / 2\<rfloor> \<le> 100" using q by linarith+
    then have "listed_percent cts n \<le> 100" unfolding p by linarith
    moreover from f have "of_nat (listed_percent cts n) = (of_int \<lfloor>?q + 1 / 2\<rfloor> :: rat)" by (simp add: p)
    moreover have "\<bar>of_int \<lfloor>?q + 1 / 2\<rfloor> - ?q\<bar> \<le> 1 / 2" by linarith
    ultimately show ?thesis using q by simp
  qed
  moreover have "sum_list (map (\<lambda>sc. segment_width cts (snd sc)) cts) = 100"
    unfolding w sum_segments using assms by simp
  ultimately show ?thesis using count_le_total by (auto simp: list_all_iff)
qed

theorem status_bar_fills_witness:
  "sum_list (map (\<lambda>sc. segment_width [(''ready'', 2), (''failed'', 1)] (snd sc)) [(''ready'', 2), (''failed'', 1)]) = 100 \<and>
   listed_percent [(''ready'', 2), (''failed'', 1)] 2 \<le> 100"
proof -
  have "0 < totalStatusCount [(''ready'', 2), (''failed'', 1)]" by (simp add: totalStatusCount_def)
  from status_bar_fills [OF this] show ?thesis by simp
qed

end
