(* ===== verification/EntryTabs.thy ===== *)
theory EntryTabs
  imports Forms Charts PlayPages Flavors
begin

text \<open>
  The sections of the entry dialog, \<open>web/components/entry-detail-dialog.tsx\<close>: the poster picker, the
  subtitles with their upload, the security settings, the embed codes and the analytics.  The
  events of the whole dialog are declared here.
\<close>

datatype entry_event =
    OpenSection string
  | TypeTitle string | TypeDescription string | ChooseCategory string
  | TickFlavor int bool
  | PickFrame string
  | SetPublic bool | SetDenied bool | ChooseAcl string | ChoosePlayer string
  | ResetDraft | SaveDraft | SaveConfirmed
  | AskReprocessEntry | ReprocessConfirmed
  | OpenSubtitleUpload | AskRemoveSubtitle int | RemoveSubtitle int
  | EmbedTabEvent embed_event | PreviewEvent preview_event
  | EntryChart nat chart_event

subsection \<open>The poster\<close>

definition poster_cols :: nat where "poster_cols = 10"

definition poster_rows :: "nat \<Rightarrow> nat" where
  "poster_rows frames = max 1 ((frames + poster_cols - 1) div poster_cols)"

definition poster_rowStep :: "nat \<Rightarrow> rat" where
  "poster_rowStep frames = (if 1 < poster_rows frames then 100 / (of_nat (poster_rows frames) - 1) else 0)"

definition poster_position :: "nat \<Rightarrow> nat \<Rightarrow> rat \<times> rat" where
  "poster_position frames frame =
     (of_nat (frame mod poster_cols) * (100 / (of_nat poster_cols - 1)),
      of_nat (frame div poster_cols) * poster_rowStep frames)"

definition PosterPicker :: "translator \<Rightarrow> 'a entry_scheme \<Rightarrow> nat \<Rightarrow> entry_event node" where
  "PosterPicker t e frame =
     (if en_spriteKey e = [] \<or> en_spriteFrames e = 0 then El ''div'' [] [Txt (tx t ''noSprite'')]
      else (let pos = poster_position (en_spriteFrames e) frame in
        El ''div'' []
         [El ''div'' [(''backgroundImage'', AText (''url(/media/'' @ en_spriteKey e @ '')'')),
            (''backgroundSize'', AText (dec (poster_cols * 100) @ ''% '' @ dec (poster_rows (en_spriteFrames e) * 100) @ ''%'')),
            (''backgroundPosition'', AText (rat_text (fst pos) @ ''% '' @ rat_text (snd pos) @ ''%''))] [],
          El ''Label'' [] [Txt (t ''labelFrame'' (Some [(''n'', VNat frame)]))],
          El ''Input'' [(''type'', AText ''range''), (''min'', ANum (Fin 0)),
            (''max'', ANum (num_of_nat (en_spriteFrames e - 1))), (''value'', ANum (num_of_nat frame)),
            (''onChange'', AInput PickFrame)] []]))"

subsection \<open>Uploading a subtitle\<close>

record subtitle_form =
  su_lang :: string
  su_label :: string
  su_file :: "js_file option"
  su_submitting :: bool

definition new_subtitle_form :: subtitle_form where
  "new_subtitle_form = \<lparr>su_lang = ''en'', su_label = [], su_file = None, su_submitting = False\<rparr>"

datatype subtitle_edit = SLang string | SLabel string | SFile "js_file list" | SBrowse

fun subtitle_type :: "subtitle_edit \<Rightarrow> subtitle_form \<Rightarrow> subtitle_form" where
  "subtitle_type (SLang x) f = f\<lparr>su_lang := x\<rparr>"
| "subtitle_type (SLabel x) f = f\<lparr>su_label := x\<rparr>"
| "subtitle_type (SFile fs) f = (case fs of x # _ \<Rightarrow> f\<lparr>su_file := Some x\<rparr> | [] \<Rightarrow> f)"
| "subtitle_type SBrowse f = f"

text \<open>The fields of the form data; the file stands as its name.\<close>

definition subtitle_fields :: "subtitle_form \<Rightarrow> js_file \<Rightarrow> (string \<times> json) list" where
  "subtitle_fields f x =
     (let lang = (if su_lang f \<noteq> [] then su_lang f else ''en'') in
      [(''file'', JText (f_name x)), (''lang'', JText lang),
       (''label'', JText (if su_label f \<noteq> [] then su_label f else lang))])"

definition subtitle_submit :: "string \<Rightarrow> subtitle_form \<Rightarrow> subtitle_form \<times> 'a web_effect list" where
  "subtitle_submit i f =
     (case su_file f of
        None \<Rightarrow> (f, [])
      | Some x \<Rightarrow> (f\<lparr>su_submitting := True\<rparr>,
          [Request ''POST'' (''/api/entries/'' @ i @ ''/subtitles'') (Some (JObj (subtitle_fields f x)))]))"

definition subtitle_message :: "translator \<Rightarrow> string" where
  "subtitle_message t =
     (if tx t ''subtitleUploaded'' \<noteq> [] then tx t ''subtitleUploaded'' else ''Subtitle track uploaded successfully.'')"

definition subtitle_saved :: "translator \<Rightarrow> string \<Rightarrow> unit reply \<Rightarrow> subtitle_form \<Rightarrow> subtitle_form \<times> 'a web_effect list" where
  "subtitle_saved t i r f =
     (case r of
        Ok _ \<Rightarrow> (f,
          [Toast ToastSuccess (subtitle_message t), Invalidate [''entry'', i], CloseDlg])
      | _ \<Rightarrow> (f\<lparr>su_submitting := False\<rparr>, [Toast ToastError (error_text r)]))"

definition file_box :: "translator \<Rightarrow> js_file option \<Rightarrow> (subtitle_edit, unit) form_event option node" where
  "file_box t file =
     El ''div'' [(''onClick'', AEvent (Some (Edit SBrowse)))]
       [El ''CaptionsIcon'' [] [],
        El ''div'' [] (case file of
          Some x \<Rightarrow> [El ''p'' [] [Txt (f_name x)], El ''p'' [] [Txt (formatBytes (Some (f_size x)))]]
        | None \<Rightarrow> [El ''p'' [] [Txt (tx t ''subtitleClickToSelect'')], El ''p'' [] [Txt (tx t ''subtitleVttRequired'')]]),
        El ''Button'' [] [Txt (if file \<noteq> None then ''Change'' else ''Browse'')]]"

definition UploadSubtitleDialog :: "translator \<Rightarrow> subtitle_form \<Rightarrow> (subtitle_edit, unit) form_event option node" where
  "UploadSubtitleDialog t f =
     (let e = (\<lambda>mk x. Some (Edit (mk x))) in
      El ''form'' []
       [El ''DialogTitle'' [] [Txt (tx t ''subtitleUploadTitle'')],
        El ''DialogDescription'' [] [Txt ''Upload a WebVTT (.vtt) caption file to support multi-language playback.''],
        field (tx t ''subtitleFileLabel'') [file_box t (su_file f)],
        field (tx t ''languageCode'') [El ''Input'' [(''placeholder'', AText ''e.g. en, es, tr''),
          (''value'', AText (su_lang f)), (''onChange'', AInput (e SLang))] []],
        field (tx t ''displayLabel'') [El ''Input'' [(''placeholder'', AText ''e.g. English (CC)''),
          (''value'', AText (su_label f)), (''onChange'', AInput (e SLabel))] []],
        El ''DialogFooter'' []
         [click ''Button'' None (su_submitting f) ''Cancel'',
          click ''Button'' (Some Submit) (su_file f = None \<or> su_submitting f)
            (if su_submitting f then ''Uploading...'' else ''Save'')]])"

subsection \<open>The subtitles\<close>

definition ask_remove_subtitle :: "translator \<Rightarrow> int \<Rightarrow> entry_event web_effect list" where
  "ask_remove_subtitle t k = ask_remove t (tx t ''deleteSubtitleTitle'') (tx t ''deleteSubtitleDesc'') (Some Destructive)
     (RemoveSubtitle k)"

definition remove_subtitle :: "string \<Rightarrow> int \<Rightarrow> 'a web_effect list" where
  "remove_subtitle i k = [Request ''DELETE'' (''/api/entries/'' @ i @ ''/subtitles/'' @ dec_int k) None]"

text \<open>A failure goes to the confirm box, which has no handler for it here and says nothing.\<close>

definition remove_subtitle_answer :: "translator \<Rightarrow> string \<Rightarrow> unit reply \<Rightarrow> 'a web_effect list" where
  "remove_subtitle_answer t i r =
     (case r of Ok _ \<Rightarrow> [Toast ToastSuccess (tx t ''deleted''), Invalidate [''entry'', i]] | _ \<Rightarrow> [])"

definition subtitle_row :: "subtitle \<Rightarrow> entry_event node" where
  "subtitle_row s =
     El ''TableRow'' []
       [cell [El ''Badge'' [] [Txt (sb_lang s)]], cell [Txt (sb_label s)], cell [Txt (sb_vttKey s)],
        cell [El ''Button'' [(''onClick'', AEvent (AskRemoveSubtitle (sb_id s)))] [El ''Trash2Icon'' [] []]]]"

definition SubtitlesTab :: "translator \<Rightarrow> entry_detail \<Rightarrow> entry_event node" where
  "SubtitlesTab t e =
     El ''div'' []
       [El ''h3'' [] [Txt (tx t ''subtitlesSectionTitle'')], El ''p'' [] [Txt (tx t ''subtitlesSectionDesc'')],
        El ''Button'' [(''onClick'', AEvent OpenSubtitleUpload)] [El ''PlusIcon'' [] [], Txt ''Upload Subtitle''],
        El ''Table'' [] [table_head [tx t ''languageCode'', tx t ''displayLabel'', ''VTT File Key'', []],
          El ''TableBody'' [] (map subtitle_row (en_subtitles e) @
            show_if (en_subtitles e = []) (El ''TableRow'' [] [cell [Txt (tx t ''noSubtitles'')]]))]]"

subsection \<open>Security\<close>

definition id_text :: "int option \<Rightarrow> string \<Rightarrow> string" where
  "id_text i none = (case i of Some n \<Rightarrow> if n = 0 then none else dec_int n | None \<Rightarrow> none)"

definition chosen_id :: "string \<Rightarrow> string \<Rightarrow> int option" where
  "chosen_id none v = (if v = none then None else case js_number v of Fin q \<Rightarrow> Some \<lfloor>q\<rfloor> | _ \<Rightarrow> None)"

definition toggle_card :: "string \<Rightarrow> string \<Rightarrow> bool \<Rightarrow> (bool \<Rightarrow> entry_event) \<Rightarrow> entry_event node" where
  "toggle_card label hint on ev =
     El ''div'' [(''onClick'', AEvent (ev (\<not> on)))]
       [El ''Label'' [] [Txt label], El ''p'' [] [Txt hint],
        El ''Switch'' [(''checked'', ABool on), (''onCheckedChange'', AEvent (ev (\<not> on)))] []]"

definition choice_card :: "string \<Rightarrow> string \<Rightarrow> (string \<times> string) list \<Rightarrow> string \<Rightarrow> (string \<Rightarrow> entry_event) \<Rightarrow> entry_event node" where
  "choice_card label hint os v ev =
     El ''div'' [] [El ''Label'' [] [Txt label], El ''p'' [] [Txt hint], select os v ev]"

definition SecurityTab ::
  "translator \<Rightarrow> int option \<Rightarrow> domain_acl list \<Rightarrow> int option \<Rightarrow> player list \<Rightarrow> bool \<Rightarrow> bool \<Rightarrow> entry_event node" where
  "SecurityTab t aclId acls playerId players isPublic denied =
     El ''div'' []
       ([toggle_card (tx t ''labelPublic'') ''Allow video playback across public embeds without authentication.'' isPublic SetPublic,
         toggle_card (tx t ''labelDenyAccess'') (tx t ''denyAccessHint'') denied SetDenied,
         choice_card (tx t ''labelEmbedPolicy'')
           ''Configure domain whitelist security policies to restrict where this video can be embedded.''
           (([], tx t ''allowAll'') # map (\<lambda>a. (dec_int (acl_id a), acl_title a)) acls) (id_text aclId []) ChooseAcl] @
        show_if (1 < length players) (choice_card (tx t ''playersSelectLabel'') (tx t ''playersSelectHint'')
           (([], tx t ''playersDefault'') # map (\<lambda>p. (dec_int (pl_id p), pl_name p)) players) (id_text playerId []) ChoosePlayer))"

subsection \<open>Embed codes\<close>

definition tab_directUrl :: "string option \<Rightarrow> string \<Rightarrow> string" where
  "tab_directUrl origin i = (case origin of Some s \<Rightarrow> s | None \<Rightarrow> ''http://localhost:8080'') @ ''/embed/'' @ i"

definition tab_snippet :: "string option \<Rightarrow> string \<Rightarrow> string" where
  "tab_snippet origin i =
     ''<iframe src='' @ [CHR 0x22] @ tab_directUrl origin i @ [CHR 0x22] @ '' width='' @ [CHR 0x22] @ ''640'' @ [CHR 0x22] @
     '' height='' @ [CHR 0x22] @ ''360'' @ [CHR 0x22] @ '' frameborder='' @ [CHR 0x22] @ ''0'' @ [CHR 0x22] @
     '' allowfullscreen></iframe>''"

definition tab_copy :: "string option \<Rightarrow> string \<Rightarrow> embed_event \<Rightarrow> embed_state \<Rightarrow> embed_state \<times> 'a web_effect list" where
  "tab_copy origin i e s =
     (case e of
        CopyDirect \<Rightarrow> (s\<lparr>eb_copiedDirect := True\<rparr>, [CopyText (tab_directUrl origin i)])
      | CopySnippet \<Rightarrow> (s\<lparr>eb_copiedSnippet := True\<rparr>, [CopyText (tab_snippet origin i)])
      | DirectTimeout \<Rightarrow> (s\<lparr>eb_copiedDirect := False\<rparr>, [])
      | SnippetTimeout \<Rightarrow> (s\<lparr>eb_copiedSnippet := False\<rparr>, [])
      | CloseEmbed \<Rightarrow> (s, []))"

definition tab_copy_button :: "translator \<Rightarrow> embed_event \<Rightarrow> bool \<Rightarrow> string \<Rightarrow> entry_event node" where
  "tab_copy_button t e copied key =
     El ''Button'' [(''onClick'', AEvent (EmbedTabEvent e))]
       [El (if copied then ''Check'' else ''Copy'') [] [],
        El ''span'' [] [Txt (if copied then tx t ''copied'' else tx t key)]]"

definition EmbedTab :: "translator \<Rightarrow> string option \<Rightarrow> string \<Rightarrow> entry_event node \<Rightarrow> embed_state \<Rightarrow> entry_event node" where
  "EmbedTab t origin i preview s =
     El ''div'' []
       [preview,
        El ''div'' [] [El ''Link2Icon'' [] [], El ''span'' [] [Txt (tx t ''directLink'')],
          El ''Input'' [(''readOnly'', ABool True), (''value'', AText (tab_directUrl origin i))] [],
          tab_copy_button t CopyDirect (eb_copiedDirect s) ''copyDirectLink''],
        El ''div'' [] [El ''Code2Icon'' [] [], El ''span'' [] [Txt (tx t ''embedCode'')],
          El ''Textarea'' [(''readOnly'', ABool True), (''value'', AText (tab_snippet origin i))] [],
          tab_copy_button t CopySnippet (eb_copiedSnippet s) ''copyEmbedCode'']]"

subsection \<open>Analytics\<close>

definition entry_plays :: "analytics_response \<Rightarrow> (string \<times> rat) list" where
  "entry_plays d = map (\<lambda>x. (ad_day x, of_nat (ad_plays x))) (an_series d)"

definition entry_watch :: "analytics_response \<Rightarrow> (string \<times> rat) list" where
  "entry_watch d = map (\<lambda>x. (ad_day x, of_int \<lfloor>(of_nat (ad_watchSeconds x) / 60 :: rat) + 1 / 2\<rfloor>)) (an_series d)"

text \<open>\<open>Number(formatGb(bytes))\<close>: gigabytes to two digits.\<close>

definition entry_bytes :: "analytics_response \<Rightarrow> (string \<times> rat) list" where
  "entry_bytes d = map (\<lambda>x. (ad_day x, case js_number (formatGb (ad_bytes x)) of Fin q \<Rightarrow> q | _ \<Rightarrow> 0)) (an_series d)"

definition entry_cards :: "translator \<Rightarrow> analytics_response \<Rightarrow> (string \<times> string) list" where
  "entry_cards t d =
     [(tx t ''statPlays'', dec (at_plays (an_totals d))),
      (tx t ''statViewers'', dec (sum_list (map ad_uniqueViewers (an_series d)))),
      (tx t ''statWatchTime'', formatWatchHours (at_watchSeconds (an_totals d)) @ '' h''),
      (tx t ''statBandwidth'', formatGb (at_bytes (an_totals d)) @ '' GB'')]"

definition chart_card :: "translator \<Rightarrow> string \<Rightarrow> nat \<Rightarrow> nat option \<Rightarrow> (string \<times> rat) list \<Rightarrow> entry_event node" where
  "chart_card t title k hov points =
     El ''Card'' [] [El ''CardTitle'' [] [Txt title], map_node (EntryChart k) (SvgChart t 160 hov points)]"

definition AnalyticsTab :: "translator \<Rightarrow> (nat \<Rightarrow> nat option) \<Rightarrow> analytics_response \<Rightarrow> entry_event node" where
  "AnalyticsTab t hov d =
     El ''div'' []
       [El ''div'' [] (map (\<lambda>(title, v). El ''Card'' [] [El ''CardTitle'' [] [Txt title], El ''div'' [] [Txt v]]) (entry_cards t d)),
        chart_card t (tx t ''chartPlays'') 0 (hov 0) (entry_plays d),
        chart_card t (tx t ''chartWatch'') 1 (hov 1) (entry_watch d),
        chart_card t (tx t ''chartBandwidth'') 2 (hov 2) (entry_bytes d)]"

end
