(* ===== verification/EntryDetail.thy ===== *)
theory EntryDetail
  imports EntryTabs
begin

text \<open>
  The entry dialog, \<open>web/components/entry-detail-dialog.tsx\<close>: the draft over the entry the server
  has, what counts as a change, the question before a save with its list of changes, the request, the
  reprocessing, and the elements around the sections of \<open>EntryTabs\<close>.  A JavaScript \<open>Set\<close> is a list
  without repetitions in the order of insertion.
\<close>

subsection \<open>State\<close>

record entry_draft =
  dr_title :: string
  dr_description :: string
  dr_categoryId :: "int option"
  dr_isPublic :: bool
  dr_accessDenied :: bool

record entry_dialog =
  eg_draft :: "entry_draft option"
  eg_ticked :: "int list"
  eg_aclId :: "int option"
  eg_playerId :: "int option"
  eg_posterFrame :: nat
  eg_posterTouched :: bool
  eg_active :: string
  eg_reprocessing :: bool

definition new_entry_dialog :: entry_dialog where
  "new_entry_dialog = \<lparr>eg_draft = None, eg_ticked = [], eg_aclId = None, eg_playerId = None, eg_posterFrame = 0,
     eg_posterTouched = False, eg_active = ''metadata'', eg_reprocessing = False\<rparr>"

definition entry_interval :: "entry_status option \<Rightarrow> nat option" where
  "entry_interval st = (if st \<in> {Some EUploading, Some EProbing, Some ETranscoding} then Some 5000 else None)"

definition entryEditable :: "entry_detail \<Rightarrow> bool" where
  "entryEditable e \<longleftrightarrow> en_status e = EReady \<or> en_status e = EFailed"

definition base_ticked :: "entry_detail \<Rightarrow> int list" where
  "base_ticked e = remdups (map ef_flavorId (filter (\<lambda>f. ef_status f \<noteq> FlSkipped) (en_flavors e)))"

definition base_draft :: "entry_detail \<Rightarrow> entry_draft" where
  "base_draft e = \<lparr>dr_title = en_title e, dr_description = en_description e, dr_categoryId = en_categoryId e,
     dr_isPublic = en_isPublic e, dr_accessDenied = en_accessDenied e\<rparr>"

definition current_frame :: "entry_detail \<Rightarrow> nat" where
  "current_frame e = (if 0 < en_spriteFrames e then min (en_posterFrame e) (en_spriteFrames e - 1) else 0)"

text \<open>The effect that runs when the server's entry has changed, and the reset button.\<close>

definition sync_entry :: "entry_detail \<Rightarrow> entry_dialog \<Rightarrow> entry_dialog" where
  "sync_entry e s =
     s\<lparr>eg_draft := Some (base_draft e), eg_aclId := en_domainAclId e, eg_playerId := en_playerId e,
       eg_ticked := base_ticked e, eg_posterFrame := current_frame e, eg_posterTouched := False\<rparr>"

definition reset_draft :: "entry_detail \<Rightarrow> entry_dialog \<Rightarrow> entry_dialog" where
  "reset_draft e s =
     s\<lparr>eg_draft := Some (base_draft e), eg_aclId := en_domainAclId e, eg_playerId := en_playerId e,
       eg_ticked := base_ticked e, eg_posterFrame := current_frame e, eg_posterTouched := False\<rparr>"

subsection \<open>Changes\<close>

definition setsEqual :: "int list \<Rightarrow> int list \<Rightarrow> bool" where
  "setsEqual a b \<longleftrightarrow> length a = length b \<and> list_all (\<lambda>v. v \<in> set b) a"

definition isDirty :: "entry_detail \<Rightarrow> entry_draft \<Rightarrow> entry_dialog \<Rightarrow> bool" where
  "isDirty e d s \<longleftrightarrow>
     dr_title d \<noteq> en_title e \<or> dr_description d \<noteq> en_description e \<or> dr_categoryId d \<noteq> en_categoryId e \<or>
     dr_isPublic d \<noteq> en_isPublic e \<or> dr_accessDenied d \<noteq> en_accessDenied e \<or> eg_aclId s \<noteq> en_domainAclId e \<or>
     eg_playerId s \<noteq> en_playerId e \<or> eg_posterTouched s \<or> \<not> setsEqual (eg_ticked s) (base_ticked e)"

record entry_lists =
  eq_flavors :: "flavor list"
  eq_categories :: "category list"
  eq_acls :: "domain_acl list"
  eq_players :: "player list"

definition truncate_text :: "string \<Rightarrow> string" where
  "truncate_text s = (if 50 < length s then take 50 s @ ellipsis else s)"

definition dashed :: "string \<Rightarrow> string" where
  "dashed s = (if s \<noteq> [] then s else emdash)"

text \<open>\<open>id == null ? none : list.find(...)?.name ?? String(id)\<close>.\<close>

definition named :: "string \<Rightarrow> ('x \<Rightarrow> int) \<Rightarrow> ('x \<Rightarrow> string) \<Rightarrow> 'x list \<Rightarrow> int option \<Rightarrow> string" where
  "named none ident nm xs i =
     (case i of None \<Rightarrow> none
      | Some k \<Rightarrow> (case find (\<lambda>x. ident x = k) xs of Some x \<Rightarrow> nm x | None \<Rightarrow> dec_int k))"

definition flavor_names :: "flavor list \<Rightarrow> int list \<Rightarrow> string" where
  "flavor_names fs ids =
     (if ids \<noteq> [] then join_with '', '' (map (\<lambda>i. named [] fv_id fv_name fs (Some i)) ids) else emdash)"

definition buildChanges ::
  "translator \<Rightarrow> entry_lists \<Rightarrow> entry_detail \<Rightarrow> entry_draft \<Rightarrow> entry_dialog \<Rightarrow> (string \<times> string \<times> string) list" where
  "buildChanges t l e d s =
     (if dr_title d \<noteq> en_title e then [(tx t ''chgTitle'', dashed (en_title e), dashed (dr_title d))] else []) @
     (if dr_description d \<noteq> en_description e
      then [(tx t ''chgDesc'', dashed (truncate_text (en_description e)), dashed (truncate_text (dr_description d)))] else []) @
     (if dr_categoryId d \<noteq> en_categoryId e
      then [(tx t ''chgCategory'', named (tx t ''none'') cat_id cat_name (eq_categories l) (en_categoryId e),
             named (tx t ''none'') cat_id cat_name (eq_categories l) (dr_categoryId d))] else []) @
     (let vis = (\<lambda>v. if v then tx t ''visibilityPublic'' else tx t ''visibilityPrivate'') in
      if dr_isPublic d \<noteq> en_isPublic e then [(tx t ''chgVisibility'', vis (en_isPublic e), vis (dr_isPublic d))] else []) @
     (let acc = (\<lambda>v. if v then tx t ''accessDenied'' else tx t ''accessAllowed'') in
      if dr_accessDenied d \<noteq> en_accessDenied e
      then [(tx t ''chgAccess'', acc (en_accessDenied e), acc (dr_accessDenied d))] else []) @
     (if eg_aclId s \<noteq> en_domainAclId e
      then [(tx t ''chgAcl'', named (tx t ''allowAll'') acl_id acl_title (eq_acls l) (en_domainAclId e),
             named (tx t ''allowAll'') acl_id acl_title (eq_acls l) (eg_aclId s))] else []) @
     (if eg_playerId s \<noteq> en_playerId e
      then [(tx t ''chgPlayer'', named (tx t ''playersDefault'') pl_id pl_name (eq_players l) (en_playerId e),
             named (tx t ''playersDefault'') pl_id pl_name (eq_players l) (eg_playerId s))] else []) @
     (if \<not> setsEqual (eg_ticked s) (base_ticked e)
      then [(tx t ''chgFlavors'',
             flavor_names (eq_flavors l) (filter (\<lambda>v. v \<notin> set (eg_ticked s)) (base_ticked e)),
             flavor_names (eq_flavors l) (filter (\<lambda>v. v \<notin> set (base_ticked e)) (eg_ticked s)))] else []) @
     (if eg_posterTouched s
      then [(tx t ''chgPoster'', t ''chgPosterFrame'' (Some [(''n'', VNat (en_posterFrame e))]),
             t ''chgPosterFrame'' (Some [(''n'', VNat (eg_posterFrame s))]))] else [])"

definition change_row :: "string \<times> string \<times> string \<Rightarrow> 'e node" where
  "change_row c =
     (case c of (label, old, new) \<Rightarrow>
        El ''div'' [] [El ''span'' [] [Txt label],
          El ''div'' [] [El ''span'' [] [Txt old], El ''ArrowRight'' [] [], El ''span'' [] [Txt new]]])"

subsection \<open>Saving and reprocessing\<close>

definition json_id :: "int option \<Rightarrow> json" where
  "json_id i = (case i of Some n \<Rightarrow> JInt n | None \<Rightarrow> JNull)"

definition ticks_changed :: "entry_detail \<Rightarrow> int list \<Rightarrow> bool" where
  "ticks_changed e ticked \<longleftrightarrow>
     length (base_ticked e) \<noteq> length ticked \<or> list_ex (\<lambda>v. v \<notin> set (base_ticked e)) ticked"

definition entry_body :: "entry_detail \<Rightarrow> entry_draft \<Rightarrow> entry_dialog \<Rightarrow> (string \<times> json) list" where
  "entry_body e d s =
     [(''title'', JText (dr_title d)), (''description'', JText (dr_description d)),
      (''categoryId'', json_id (dr_categoryId d)), (''isPublic'', JBool (dr_isPublic d)),
      (''accessDenied'', JBool (dr_accessDenied d)), (''domainAclId'', json_id (eg_aclId s)),
      (''playerId'', json_id (eg_playerId s))] @
     (if ticks_changed e (eg_ticked s) then [(''flavorIds'', JList (map JInt (eg_ticked s)))] else []) @
     (if eg_posterTouched s then [(''posterFrame'', JNat (eg_posterFrame s))] else [])"

definition save_entry :: "string \<Rightarrow> entry_detail \<Rightarrow> entry_draft \<Rightarrow> entry_dialog \<Rightarrow> 'a web_effect list" where
  "save_entry i e d s = [Request ''PATCH'' (''/api/entries/'' @ i) (Some (JObj (entry_body e d s)))]"

definition entry_saved :: "translator \<Rightarrow> string \<Rightarrow> unit reply \<Rightarrow> 'a web_effect list" where
  "entry_saved t i r =
     (case r of
        Ok _ \<Rightarrow> [Invalidate [''entry'', i], Invalidate [''entries''], Toast ToastSuccess (tx t ''saved'')]
      | _ \<Rightarrow> [Toast ToastError (error_text r)])"

definition ask_save ::
  "translator \<Rightarrow> entry_lists \<Rightarrow> entry_detail \<Rightarrow> entry_draft \<Rightarrow> entry_dialog \<Rightarrow> entry_event web_effect list" where
  "ask_save t l e d s =
     (let changes = buildChanges t l e d s in
      if changes = [] then []
      else [AskConfirm (ask (tx t ''changesTitle'') (tx t ''changesDesc'') (tx t ''save'') (tx t ''cancel'') None) SaveConfirmed])"

definition changes_view ::
  "translator \<Rightarrow> entry_lists \<Rightarrow> entry_detail \<Rightarrow> entry_draft \<Rightarrow> entry_dialog \<Rightarrow> 'e node" where
  "changes_view t l e d s = El ''div'' [] (map change_row (buildChanges t l e d s))"

definition ask_reprocess_entry :: "translator \<Rightarrow> entry_event web_effect list" where
  "ask_reprocess_entry t =
     [AskConfirm (ask (tx t ''reprocessTitle'') (tx t ''reprocessDesc'') (tx t ''entryReprocess'') (tx t ''cancel'') None)
        ReprocessConfirmed]"

definition reprocess_entry :: "string \<Rightarrow> entry_dialog \<Rightarrow> entry_dialog \<times> 'a web_effect list" where
  "reprocess_entry i s =
     (s\<lparr>eg_reprocessing := True\<rparr>, [Request ''POST'' (''/api/entries/'' @ i @ ''/reprocess'') None])"

definition entry_reprocessed :: "translator \<Rightarrow> string \<Rightarrow> unit reply \<Rightarrow> entry_dialog \<Rightarrow> entry_dialog \<times> 'a web_effect list" where
  "entry_reprocessed t i r s =
     (s\<lparr>eg_reprocessing := False\<rparr>,
      case r of
        Ok _ \<Rightarrow> [Invalidate [''entry'', i], Invalidate [''entries''], Toast ToastSuccess (tx t ''reprocessQueued'')]
      | _ \<Rightarrow> [Toast ToastError (error_text r)])"

subsection \<open>Events\<close>

definition tick_flavor :: "int \<Rightarrow> bool \<Rightarrow> int list \<Rightarrow> int list" where
  "tick_flavor i v sel = (if v then (if i \<in> set sel then sel else sel @ [i]) else filter (\<lambda>x. x \<noteq> i) sel)"

definition frame_of :: "string \<Rightarrow> nat" where
  "frame_of v = (case js_number v of Fin q \<Rightarrow> nat \<lfloor>q\<rfloor> | _ \<Rightarrow> 0)"

text \<open>An event of the dialog once the entry and the draft are there.\<close>

fun entry_step ::
  "translator \<Rightarrow> string \<Rightarrow> entry_lists \<Rightarrow> entry_detail \<Rightarrow> entry_draft \<Rightarrow> entry_event \<Rightarrow> entry_dialog \<Rightarrow>
   entry_dialog \<times> entry_event web_effect list" where
  "entry_step t i l e d (OpenSection x) s = (s\<lparr>eg_active := x\<rparr>, [])"
| "entry_step t i l e d (TypeTitle x) s = (s\<lparr>eg_draft := Some (d\<lparr>dr_title := x\<rparr>)\<rparr>, [])"
| "entry_step t i l e d (TypeDescription x) s = (s\<lparr>eg_draft := Some (d\<lparr>dr_description := x\<rparr>)\<rparr>, [])"
| "entry_step t i l e d (ChooseCategory x) s =
     (s\<lparr>eg_draft := Some (d\<lparr>dr_categoryId := chosen_id ''none'' x\<rparr>)\<rparr>, [])"
| "entry_step t i l e d (TickFlavor k v) s = (s\<lparr>eg_ticked := tick_flavor k v (eg_ticked s)\<rparr>, [])"
| "entry_step t i l e d (PickFrame x) s = (s\<lparr>eg_posterFrame := frame_of x, eg_posterTouched := True\<rparr>, [])"
| "entry_step t i l e d (SetPublic v) s = (s\<lparr>eg_draft := Some (d\<lparr>dr_isPublic := v\<rparr>)\<rparr>, [])"
| "entry_step t i l e d (SetDenied v) s = (s\<lparr>eg_draft := Some (d\<lparr>dr_accessDenied := v\<rparr>)\<rparr>, [])"
| "entry_step t i l e d (ChooseAcl x) s = (s\<lparr>eg_aclId := chosen_id [] x\<rparr>, [])"
| "entry_step t i l e d (ChoosePlayer x) s = (s\<lparr>eg_playerId := chosen_id [] x\<rparr>, [])"
| "entry_step t i l e d ResetDraft s = (reset_draft e s, [])"
| "entry_step t i l e d SaveDraft s = (s, ask_save t l e d s)"
| "entry_step t i l e d SaveConfirmed s = (s, save_entry i e d s)"
| "entry_step t i l e d AskReprocessEntry s = (s, ask_reprocess_entry t)"
| "entry_step t i l e d ReprocessConfirmed s = reprocess_entry i s"
| "entry_step t i l e d OpenSubtitleUpload s = (s, [OpenDlg OpenSubtitleUpload (Some SizeMd) True True])"
| "entry_step t i l e d (AskRemoveSubtitle k) s = (s, ask_remove_subtitle t k)"
| "entry_step t i l e d (RemoveSubtitle k) s = (s, remove_subtitle i k)"
| "entry_step t i l e d (EmbedTabEvent x) s = (s, [])"
| "entry_step t i l e d (PreviewEvent x) s = (s, [])"
| "entry_step t i l e d (EntryChart k x) s = (s, [])"


subsection \<open>The dialog\<close>

definition sections :: "translator \<Rightarrow> (string \<times> string \<times> string) list" where
  "sections t =
     [(''metadata'', tx t ''tabMetadata'', ''PencilLineIcon''), (''flavors'', tx t ''tabFlavors'', ''VideoIcon''),
      (''poster'', tx t ''tabPoster'', ''ImageIcon''), (''subtitles'', tx t ''tabSubtitles'', ''CaptionsIcon''),
      (''security'', ''Security'', ''ShieldIcon''), (''embed'', ''Embed'', ''Code2Icon''),
      (''analytics'', tx t ''tabAnalytics'', ''BarChart3Icon'')]"

definition section_menu :: "translator \<Rightarrow> string \<Rightarrow> entry_event node list" where
  "section_menu t active =
     [El ''SidebarMenu'' [] (map (\<lambda>(i, label, icon).
        El ''button'' [(''isActive'', ABool (active = i)), (''onClick'', AEvent (OpenSection i))]
          [El icon [] [], El ''span'' [] [Txt label]]) (sections t)),
      El ''div'' [] (map (\<lambda>(i, label, icon).
        El ''Button'' [(''isActive'', ABool (active = i)), (''onClick'', AEvent (OpenSection i))]
          [El icon [] [], Txt label]) (sections t))]"

definition entry_header :: "translator \<Rightarrow> (string \<Rightarrow> string) \<Rightarrow> category list \<Rightarrow> entry_detail \<Rightarrow> entry_event node" where
  "entry_header t fd cs e =
     (let dot = El ''span'' [] [Txt [CHR 0x95]];
          catName = (case find (\<lambda>c. Some (cat_id c) = en_categoryId e) cs of Some c \<Rightarrow> cat_name c | None \<Rightarrow> emdash) in
      El ''header'' []
       [El ''h2'' [] [Txt (if en_title e \<noteq> [] then en_title e else tx t ''untitled'')], StatusBadge t (en_status e),
        El ''div'' [] ([El ''span'' [] [Txt catName], dot, El ''span'' [] [Txt (formatDuration (en_durationMs e))], dot,
          El ''span'' [] [Txt (formatBytes (en_sourceSize e))], dot, El ''span'' [] [Txt (fd (en_createdAt e))]] @
          show_if (en_uploaderName e \<noteq> []) (El ''span'' [] [Txt (''by '' @ en_uploaderName e)]))])"

definition metadata_section ::
  "translator \<Rightarrow> category list \<Rightarrow> entry_detail \<Rightarrow> entry_draft \<Rightarrow> play_info option \<Rightarrow> entry_event node" where
  "metadata_section t cs e d info =
     El ''div'' []
       [(if en_status e = EReady
         then map_node PreviewEvent (PlaybackPreview t (en_posterKey e) (en_updatedAt e) (en_durationMs e) info)
         else El ''div'' [] [El ''VideoIcon'' [] [], El ''span'' [] [Txt (tx t ''previewUnavailable'')]]),
        field (tx t ''labelTitle'') [text_input (dr_title d) TypeTitle],
        field (tx t ''labelCategory'')
          [select ((''none'', tx t ''none'') # map (\<lambda>c. (dec_int (cat_id c), cat_name c)) cs)
             (id_text (dr_categoryId d) ''none'') ChooseCategory],
        field (tx t ''labelDescription'')
          [El ''Textarea'' [(''rows'', ANum (Fin 4)), (''value'', AText (dr_description d)), (''onChange'', AInput TypeDescription)] []]]"

fun flavor_state_name :: "flavor_status \<Rightarrow> string" where
  "flavor_state_name FlPending = ''pending''"
| "flavor_state_name FlTranscoding = ''transcoding''"
| "flavor_state_name FlDone = ''done''"
| "flavor_state_name FlFailed = ''failed''"
| "flavor_state_name FlSkipped = ''skipped''"

definition flavor_state :: "translator \<Rightarrow> entry_flavor option \<Rightarrow> 'e node" where
  "flavor_state t ef =
     (case ef of
        Some x \<Rightarrow> El ''Badge'' [] (show_if (ef_status x = FlTranscoding) (El ''Loader2Icon'' [] []) @
          [Txt (flavor_state_name (ef_status x))])
      | None \<Rightarrow> El ''span'' [] [Txt (tx t ''notTicked'')])"

definition tick_row :: "translator \<Rightarrow> entry_detail \<Rightarrow> int list \<Rightarrow> flavor \<Rightarrow> entry_event node" where
  "tick_row t e ticked f =
     (let ef = find (\<lambda>x. ef_flavorId x = fv_id f) (en_flavors e); on = fv_id f \<in> set ticked in
      El ''TableRow'' []
       [cell [El ''Switch'' [(''checked'', ABool on), (''disabled'', ABool (\<not> entryEditable e)),
          (''onCheckedChange'', AEvent (TickFlavor (fv_id f) (\<not> on)))] []],
        cell [Txt (fv_name f)], cell [El ''Badge'' [] [Txt (codec_name (fv_codec f))]],
        cell [Txt (dec (fv_height f) @ ''p'')], cell [flavor_state t ef],
        cell [Txt (case ef of
          Some x \<Rightarrow> if ef_status x \<in> {FlFailed, FlSkipped} then (case ef_error x of Some m \<Rightarrow> m | None \<Rightarrow> []) else []
        | None \<Rightarrow> [])]])"

definition flavors_section ::
  "translator \<Rightarrow> bool \<Rightarrow> flavor list \<Rightarrow> entry_detail \<Rightarrow> entry_dialog \<Rightarrow> entry_event node" where
  "flavors_section t isAdmin fs e s =
     El ''div'' []
       ([El ''Table'' [] [table_head [tx t ''labelTick'', tx t ''colFlavor'', tx t ''colCodec'', tx t ''colHeight'',
            tx t ''colStatus'', tx t ''colNote''], El ''TableBody'' [] (map (tick_row t e (eg_ticked s)) fs)]] @
        show_if (\<not> entryEditable e) (El ''div'' [] [El ''InfoIcon'' [] [], El ''span'' [] [Txt (tx t ''flavorsLockedHint'')]]) @
        show_if (isAdmin \<and> entryEditable e)
          (El ''div'' [] [El ''Label'' [] [Txt (tx t ''entryReprocess'')], El ''p'' [] [Txt (tx t ''reprocessHint'')],
             click ''Button'' AskReprocessEntry (eg_reprocessing s) (tx t ''entryReprocess'')]))"

record entry_extras =
  ex_isAdmin :: bool
  ex_origin :: "string option"
  ex_preview :: "play_info option"
  ex_embed :: embed_state
  ex_analytics :: "analytics_response option"
  ex_hover :: "nat \<Rightarrow> nat option"

definition entry_section ::
  "translator \<Rightarrow> entry_lists \<Rightarrow> entry_extras \<Rightarrow> entry_detail \<Rightarrow> entry_draft \<Rightarrow> entry_dialog \<Rightarrow> entry_event node list" where
  "entry_section t l x e d s =
     (let a = eg_active s; preview = map_node PreviewEvent
        (PlaybackPreview t (en_posterKey e) (en_updatedAt e) (en_durationMs e) (ex_preview x)) in
      show_if (a = ''metadata'') (metadata_section t (eq_categories l) e d (ex_preview x)) @
      show_if (a = ''flavors'') (flavors_section t (ex_isAdmin x) (eq_flavors l) e s) @
      show_if (a = ''poster'') (PosterPicker t e (eg_posterFrame s)) @
      show_if (a = ''subtitles'') (SubtitlesTab t e) @
      show_if (a = ''security'')
        (SecurityTab t (eg_aclId s) (eq_acls l) (eg_playerId s) (eq_players l) (dr_isPublic d) (dr_accessDenied d)) @
      show_if (a = ''embed'') (EmbedTab t (ex_origin x) (en_id e) preview (ex_embed x)) @
      show_if (a = ''analytics'') (case ex_analytics x of
          Some r \<Rightarrow> AnalyticsTab t (ex_hover x) r | None \<Rightarrow> El ''div'' [] [LoadingCircle]))"

definition unsaved_bar :: "translator \<Rightarrow> entry_detail \<Rightarrow> entry_draft \<Rightarrow> entry_dialog \<Rightarrow> entry_event node list" where
  "unsaved_bar t e d s =
     show_if (isDirty e d s)
       (El ''footer'' [] [El ''span'' [] [Txt (tx t ''unsavedChanges'')],
          click ''Button'' ResetDraft False (tx t ''reset''), click ''Button'' SaveDraft False (tx t ''save'')])"

definition entry_skeleton :: "entry_event node" where
  "entry_skeleton =
     El ''SidebarProvider'' []
       [El ''SidebarMenu'' [] (replicate 6 (El ''SidebarMenuItem'' [] [El ''Skeleton'' [] [], El ''Skeleton'' [] []])),
        El ''main'' [] (replicate 6 (El ''Skeleton'' [] []))]"

definition EntryDetailDialog ::
  "translator \<Rightarrow> (string \<Rightarrow> string) \<Rightarrow> entry_lists \<Rightarrow> entry_extras \<Rightarrow> entry_detail option \<Rightarrow> entry_dialog \<Rightarrow> entry_event node" where
  "EntryDetailDialog t fd l x entry s =
     (case (entry, eg_draft s) of
        (Some e, Some d) \<Rightarrow>
          El ''SidebarProvider'' [] (section_menu t (eg_active s) @
            [El ''main'' [] (entry_header t fd (eq_categories l) e #
              (case en_error e of Some (c # m) \<Rightarrow> [El ''div'' [] [El ''InfoIcon'' [] [], El ''span'' [] [Txt (c # m)]]] | _ \<Rightarrow> []) @
              [El ''div'' [] (entry_section t l x e d s)] @ unsaved_bar t e d s)])
      | _ \<Rightarrow> entry_skeleton)"


subsection \<open>Changes are what is reported and sent\<close>

lemma setsEqual_refl [simp]: "setsEqual a a"
  by (simp add: setsEqual_def list_all_iff)

lemma setsEqual_set: "distinct a \<Longrightarrow> distinct b \<Longrightarrow> setsEqual a b \<longleftrightarrow> set a = set b"
  unfolding setsEqual_def list_all_iff
  by (metis card_subset_eq distinct_card List.finite_set subsetI order_refl subsetD)

lemma one_or_none: "(if c then [x] else []) = [] \<longleftrightarrow> \<not> c"
  by simp

lemma distinct_base [simp]: "distinct (base_ticked e)"
  by (simp add: base_ticked_def)

text \<open>C31: The three places that compare the draft with the server agree: the bar for unsaved changes
  appears exactly when the question before a save has a change to list, the flavors are sent
  exactly when they are listed as changed, and right after the entry is read or the draft is reset there
  is no change; resetting gives exactly what reading the entry gives.\<close>

theorem dirty_has_changes:
  "(isDirty e d s \<longleftrightarrow> buildChanges t l e d s \<noteq> []) \<and>
   (isDirty e d s \<longleftrightarrow> ask_save t l e d s \<noteq> []) \<and>
   (map_of (entry_body e d s) ''flavorIds'' \<noteq> None \<longleftrightarrow> \<not> setsEqual (eg_ticked s) (base_ticked e)) \<and>
   (map_of (entry_body e d s) ''posterFrame'' \<noteq> None \<longleftrightarrow> eg_posterTouched s) \<and>
   \<not> isDirty e (base_draft e) (sync_entry e s) \<and> eg_draft (sync_entry e s) = Some (base_draft e) \<and>
   reset_draft e s = sync_entry e s"
proof -
  have changes: "isDirty e d s \<longleftrightarrow> buildChanges t l e d s \<noteq> []"
    unfolding isDirty_def buildChanges_def Let_def append_is_Nil_conv one_or_none by blast
  have ticks: "ticks_changed e (eg_ticked s) \<longleftrightarrow> \<not> setsEqual (eg_ticked s) (base_ticked e)"
    by (auto simp: ticks_changed_def setsEqual_def list_all_iff list_ex_iff)
  have "map_of (entry_body e d s) ''flavorIds'' \<noteq> None \<longleftrightarrow> ticks_changed e (eg_ticked s)"
    "map_of (entry_body e d s) ''posterFrame'' \<noteq> None \<longleftrightarrow> eg_posterTouched s"
    by (simp_all add: entry_body_def)
  moreover have "ask_save t l e d s \<noteq> [] \<longleftrightarrow> buildChanges t l e d s \<noteq> []" by (simp add: ask_save_def Let_def)
  moreover have "\<not> isDirty e (base_draft e) (sync_entry e s)"
    by (simp add: isDirty_def base_draft_def sync_entry_def)
  ultimately show ?thesis using changes ticks by (simp add: sync_entry_def reset_draft_def)
qed

text \<open>
  What the server documents for the request: every field of the body is stored, the flavors and the
  poster only when they are in it.
\<close>

definition entry_patched :: "entry_detail \<Rightarrow> (string \<times> json) list \<Rightarrow> entry_detail \<Rightarrow> bool" where
  "entry_patched e body e' \<longleftrightarrow>
     map_of body ''title'' = Some (JText (en_title e')) \<and>
     map_of body ''description'' = Some (JText (en_description e')) \<and>
     map_of body ''categoryId'' = Some (json_id (en_categoryId e')) \<and>
     map_of body ''isPublic'' = Some (JBool (en_isPublic e')) \<and>
     map_of body ''accessDenied'' = Some (JBool (en_accessDenied e')) \<and>
     map_of body ''domainAclId'' = Some (json_id (en_domainAclId e')) \<and>
     map_of body ''playerId'' = Some (json_id (en_playerId e')) \<and>
     (case map_of body ''flavorIds'' of
        Some (JList ids) \<Rightarrow> set ids = JInt ` set (base_ticked e')
      | _ \<Rightarrow> set (base_ticked e') = set (base_ticked e)) \<and>
     (case map_of body ''posterFrame'' of
        Some j \<Rightarrow> j = JNat (en_posterFrame e')
      | None \<Rightarrow> en_posterFrame e' = en_posterFrame e) \<and>
     en_spriteFrames e' = en_spriteFrames e"

lemma body_fields:
  "map_of (entry_body e d s) ''flavorIds'' =
     (if ticks_changed e (eg_ticked s) then Some (JList (map JInt (eg_ticked s))) else None)"
  "map_of (entry_body e d s) ''posterFrame'' =
     (if eg_posterTouched s then Some (JNat (eg_posterFrame s)) else None)"
  by (simp_all add: entry_body_def)

lemma patched_ticks:
  assumes "entry_patched e (entry_body e d s) e'"
  shows "if ticks_changed e (eg_ticked s) then JInt ` set (eg_ticked s) = JInt ` set (base_ticked e')
    else set (base_ticked e') = set (base_ticked e)"
  using assms unfolding entry_patched_def body_fields by (simp split: if_splits)

lemma json_id_inject [simp]: "json_id a = json_id b \<longleftrightarrow> a = b"
  by (auto simp: json_id_def split: option.splits)

text \<open>C30: For an entry with a sprite: when the server stores a save and the entry is read again, the dialog shows exactly what was
  saved (texts, category, visibility, access list, player, ticked flavors and the chosen poster
  frame) and reports no unsaved change.\<close>

theorem save_then_read:
  assumes "entry_patched e (entry_body e d s) e'" and "distinct (eg_ticked s)"
    and "eg_posterFrame s < en_spriteFrames e" and "eg_posterTouched s \<or> eg_posterFrame s = en_posterFrame e"
  shows "let s' = sync_entry e' s in
    eg_draft s' = Some d \<and> eg_aclId s' = eg_aclId s \<and> eg_playerId s' = eg_playerId s \<and>
    set (eg_ticked s') = set (eg_ticked s) \<and> eg_posterFrame s' = eg_posterFrame s \<and> \<not> isDirty e' d s'"
proof -
  have d: "base_draft e' = d" and ids: "en_domainAclId e' = eg_aclId s" "en_playerId e' = eg_playerId s"
    using assms(1) by (simp_all add: entry_patched_def entry_body_def base_draft_def)
  have inj: "inj JInt" by (auto simp: inj_on_def)
  have ticks: "set (base_ticked e') = set (eg_ticked s)"
  proof (cases "ticks_changed e (eg_ticked s)")
    case True
    then have "JInt ` set (eg_ticked s) = JInt ` set (base_ticked e')"
      using patched_ticks [OF assms(1)] by simp
    then show ?thesis using inj by (simp add: inj_image_eq_iff)
  next
    case False
    then have "set (base_ticked e') = set (base_ticked e)" using patched_ticks [OF assms(1)] by simp
    moreover have "setsEqual (eg_ticked s) (base_ticked e)"
      using False by (auto simp: ticks_changed_def setsEqual_def list_all_iff list_ex_iff)
    ultimately have "set (base_ticked e') = set (base_ticked e)" "setsEqual (eg_ticked s) (base_ticked e)" by auto
    then show ?thesis using assms(2) by (simp add: setsEqual_set)
  qed
  have "en_posterFrame e' = eg_posterFrame s \<and> en_spriteFrames e' = en_spriteFrames e"
    using assms(1,4) unfolding entry_patched_def body_fields by (auto split: if_splits)
  then have "current_frame e' = eg_posterFrame s" using assms(3) by (simp add: current_frame_def)
  then show ?thesis
    using d ids ticks dirty_has_changes [of e' d s] by (auto simp: sync_entry_def isDirty_def base_draft_def)
qed


definition sample_entry :: entry_detail where
  "sample_entry =
     \<lparr>en_id = ''a1'', en_categoryId = None, en_uploadedBy = None, en_title = ''old'', en_description = [],
      en_status = EReady, en_durationMs = None, en_sourceKey = [], en_sourceSize = None, en_isPublic = False,
      en_accessDenied = False, en_domainAclId = None, en_playerId = None, en_posterKey = [], en_posterFrame = 3,
      en_spriteKey = ''s'', en_spriteFrames = 20, en_error = None, en_createdAt = [], en_updatedAt = [],
      en_flavors = [\<lparr>ef_entryId = 1, ef_flavorId = 1, ef_status = FlDone, ef_error = None, ef_playlistKey = []\<rparr>],
      en_subtitles = [], en_uploaderName = []\<rparr>"

definition sample_draft :: entry_draft where
  "sample_draft = (base_draft sample_entry)\<lparr>dr_title := ''new''\<rparr>"

definition sample_dialog :: entry_dialog where
  "sample_dialog = (sync_entry sample_entry new_entry_dialog)\<lparr>eg_draft := Some sample_draft\<rparr>"

theorem save_then_read_witness:
  "isDirty sample_entry sample_draft sample_dialog \<and>
   eg_draft (sync_entry (sample_entry\<lparr>en_title := ''new''\<rparr>) sample_dialog) = Some sample_draft"
proof -
  let ?e' = "sample_entry\<lparr>en_title := ''new''\<rparr>"
  have ticked: "eg_ticked sample_dialog = base_ticked sample_entry" "base_ticked ?e' = base_ticked sample_entry"
    by (simp_all add: sample_dialog_def sync_entry_def base_ticked_def)
  then have "\<not> ticks_changed sample_entry (eg_ticked sample_dialog)"
    by (auto simp: ticks_changed_def list_ex_iff)
  moreover have "\<not> eg_posterTouched sample_dialog" by (simp add: sample_dialog_def sync_entry_def)
  ultimately have "entry_patched sample_entry (entry_body sample_entry sample_draft sample_dialog) ?e'"
    using ticked unfolding entry_patched_def body_fields
    by (simp add: entry_body_def sample_draft_def base_draft_def sample_dialog_def sync_entry_def sample_entry_def)
  moreover have "distinct (eg_ticked sample_dialog)" by (simp add: ticked)
  moreover have "eg_posterFrame sample_dialog < en_spriteFrames sample_entry"
    "eg_posterFrame sample_dialog = en_posterFrame sample_entry"
    by (simp_all add: sample_dialog_def sync_entry_def current_frame_def sample_entry_def)
  ultimately have "eg_draft (sync_entry ?e' sample_dialog) = Some sample_draft"
    using save_then_read [of sample_entry sample_draft sample_dialog ?e'] by (simp add: Let_def)
  moreover have "isDirty sample_entry sample_draft sample_dialog"
    by (simp add: isDirty_def sample_draft_def sample_entry_def base_draft_def)
  ultimately show ?thesis by blast
qed

text \<open>
  Reading the entry again replaces the draft whatever was typed: while an entry is processed it is
  read every five seconds, and each change of a flavor's state drops the unsaved edits.  A
  read between the question and its confirmation leaves a request without the listed changes.
\<close>

lemma reading_drops_edits:
  assumes "base_draft e' = base_draft e" and "dr_title d \<noteq> en_title e"
  shows "eg_draft (sync_entry e' (s\<lparr>eg_draft := Some d\<rparr>)) \<noteq> Some d \<and>
    map_of (entry_body e' (the (eg_draft (sync_entry e' (s\<lparr>eg_draft := Some d\<rparr>)))) (sync_entry e' s)) ''title'' =
      Some (JText (en_title e))"
  using assms by (auto simp: sync_entry_def base_draft_def entry_body_def)

subsection \<open>What clicks can do\<close>

lemma map_node_events [simp]: "node_events (map_node f v) = map f (node_events v)"
proof (induction v)
  case (El tag as vs)
  have "is_disabled (map (map_prod id (map_attr f)) as) = is_disabled as"
    by (induction as) (auto simp: is_disabled_def split: attr.splits option.splits)
  moreover have "attr_events (map (map_prod id (map_attr f)) as) = map f (attr_events as)"
    by (induction as rule: attr_events.induct) auto
  ultimately show ?case using El by (simp add: map_concat o_def cong: map_cong)
qed simp

definition tame :: "entry_event \<Rightarrow> bool" where
  "tame ev \<longleftrightarrow> (case ev of TickFlavor k v \<Rightarrow> False | AskReprocessEntry \<Rightarrow> False | ReprocessConfirmed \<Rightarrow> False
     | SaveDraft \<Rightarrow> False | SaveConfirmed \<Rightarrow> False | RemoveSubtitle k \<Rightarrow> False | _ \<Rightarrow> True)"

text \<open>What the sections may cause: anything tame, ticks while the entry is idle, and its reprocessing.\<close>

definition allowed :: "bool \<Rightarrow> entry_detail \<Rightarrow> entry_dialog \<Rightarrow> entry_event \<Rightarrow> bool" where
  "allowed adm e s ev \<longleftrightarrow> tame ev \<or>
     (entryEditable e \<and> ((\<exists>k v. ev = TickFlavor k v) \<or> (adm \<and> \<not> eg_reprocessing s \<and> ev = AskReprocessEntry)))"

lemma tame_simps [simp]:
  "tame (OpenSection a)" "tame (PreviewEvent v)" "tame OpenSubtitleUpload" "tame (AskRemoveSubtitle k)"
  "tame (SetPublic b)" "tame (SetDenied b)" "tame (EmbedTabEvent m)" "tame (EntryChart n c)" "tame ResetDraft"
  by (simp_all add: tame_def)

lemma tame_sections:
  "list_all tame (concat (map node_events (section_menu t a)))"
  "list_all tame (node_events (metadata_section t cs e d info))"
  "list_all tame (node_events (PosterPicker t e n))"
  "list_all tame (node_events (SubtitlesTab t e2))"
  "list_all tame (node_events (SecurityTab t ac as pl ps pub den))"
  "list_all tame (node_events (EmbedTab t o2 i (map_node PreviewEvent pv) es))"
  "list_all tame (node_events (AnalyticsTab t hv r))"
  by (auto simp: list_all_iff section_menu_def sections_def metadata_section_def PosterPicker_def SubtitlesTab_def
      SecurityTab_def EmbedTab_def AnalyticsTab_def Let_def subtitle_row_def toggle_card_def choice_card_def
      tab_copy_button_def chart_card_def show_if_def is_disabled_def split: if_splits)

lemma tame_allowed: "list_all tame evs \<Longrightarrow> list_all (allowed adm e s) evs"
  by (auto simp: list_all_iff allowed_def)

lemma flavors_allowed: "list_all (allowed adm e s) (node_events (flavors_section t adm fs e s))"
proof -
  have "list_all (allowed adm e s) (node_events (tick_row t e tk f))" for tk f
    by (auto simp: list_all_iff allowed_def tick_row_def flavor_state_def Let_def show_if_def is_disabled_def
        split: option.splits if_splits)
  then show ?thesis
    by (auto simp: list_all_iff flavors_section_def show_if_def is_disabled_def) (auto simp: allowed_def)
qed

lemma entry_section_allowed:
  "list_all (allowed (ex_isAdmin x) e s) (concat (map node_events (entry_section t l x e d s)))"
  using tame_sections [THEN tame_allowed] flavors_allowed
  by (simp add: entry_section_def Let_def show_if_def LoadingCircle_def split: option.split)


text \<open>C32: In the entry dialog nothing dangerous can be clicked at the wrong time: flavors are ticked only while
  the entry is idle, reprocessing is asked for only by an administrator for an idle entry and not
  while such a request runs, a save is asked for only when there is a change to list, and no save,
  reprocessing or deletion of a subtitle happens by a click without its question.\<close>

theorem entry_clicks_guarded:
  assumes "can_cause (EntryDetailDialog t fd l x (Some e) s) ev" and "eg_draft s = Some d"
  shows "(\<forall>k v. ev = TickFlavor k v \<longrightarrow> entryEditable e) \<and>
    (ev = AskReprocessEntry \<longrightarrow> ex_isAdmin x \<and> entryEditable e \<and> \<not> eg_reprocessing s) \<and>
    (ev = SaveDraft \<longrightarrow> buildChanges t l e d s \<noteq> []) \<and>
    ev \<noteq> SaveConfirmed \<and> ev \<noteq> ReprocessConfirmed \<and> (\<forall>k. ev \<noteq> RemoveSubtitle k)"
proof -
  have head: "node_events (entry_header t fd cs e) = []" for cs
    by (simp add: entry_header_def Let_def show_if_def)
  have bar: "concat (map node_events (unsaved_bar t e d s)) = (if isDirty e d s then [ResetDraft, SaveDraft] else [])"
    by (simp add: unsaved_bar_def show_if_def)
  have "list_all (\<lambda>ev. allowed (ex_isAdmin x) e s ev \<or> (isDirty e d s \<and> ev = SaveDraft))
      (node_events (EntryDetailDialog t fd l x (Some e) s))"
    using tame_sections(1) [of t "eg_active s", THEN tame_allowed, of "ex_isAdmin x" e s] head bar
      entry_section_allowed [of x e s t l d]
    by (simp add: EntryDetailDialog_def assms(2) list_all_iff split: option.split list.split)
       (auto simp: allowed_def tame_def)
  then have "allowed (ex_isAdmin x) e s ev \<or> (isDirty e d s \<and> ev = SaveDraft)"
    using assms(1) by (auto simp: can_cause_def list_all_iff)
  then show ?thesis
    using dirty_has_changes [of e d s t l] by (auto simp: allowed_def tame_def)
qed

definition sample_extras :: entry_extras where
  "sample_extras = \<lparr>ex_isAdmin = True, ex_origin = None, ex_preview = None,
     ex_embed = \<lparr>eb_copiedDirect = False, eb_copiedSnippet = False\<rparr>, ex_analytics = None, ex_hover = (\<lambda>_. None)\<rparr>"

theorem entry_clicks_guarded_witness:
  "buildChanges (\<lambda>k _. k) \<lparr>eq_flavors = [], eq_categories = [], eq_acls = [], eq_players = []\<rparr>
     sample_entry sample_draft sample_dialog \<noteq> []"
proof -
  let ?t = "\<lambda>k (_ :: vars option). k" and ?l = "\<lparr>eq_flavors = [], eq_categories = [], eq_acls = [], eq_players = []\<rparr>"
  have draft: "eg_draft sample_dialog = Some sample_draft" by (simp add: sample_dialog_def)
  have "isDirty sample_entry sample_draft sample_dialog"
    by (simp add: isDirty_def sample_draft_def sample_entry_def base_draft_def)
  then have "can_cause (EntryDetailDialog ?t id ?l sample_extras (Some sample_entry) sample_dialog) SaveDraft"
    by (simp add: can_cause_def EntryDetailDialog_def draft unsaved_bar_def split: option.split list.split)
  from entry_clicks_guarded [OF this draft] show ?thesis by simp
qed

text \<open>The embed codes of the dialog are those of the embed box; and the poster picker shows a frame of the sprite.\<close>

lemma tab_embed_codes:
  "tab_directUrl origin i = directUrl origin i" "tab_snippet origin i = embed_snippet origin i"
  by (simp_all add: tab_directUrl_def directUrl_def embed_origin_def tab_snippet_def embed_snippet_def)

lemma poster_position_inside:
  assumes "frame < frames"
  shows "0 \<le> fst (poster_position frames frame) \<and> fst (poster_position frames frame) \<le> 100 \<and>
    0 \<le> snd (poster_position frames frame) \<and> snd (poster_position frames frame) \<le> 100"
proof -
  have col: "(of_nat (frame mod 10) :: rat) \<le> 9" using of_nat_mono [of "frame mod 10" 9] by simp
  let ?r = "poster_rows frames"
  have "frame div 10 < ?r" using assms by (simp add: poster_rows_def poster_cols_def)
  then have row: "(of_nat (frame div 10) :: rat) \<le> of_nat ?r - 1 \<and> (1 < ?r \<longrightarrow> 0 < (of_nat ?r - 1 :: rat))"
    using of_nat_mono [of "Suc (frame div 10)" ?r] by auto
  have "of_nat (frame div 10) * poster_rowStep frames \<le> 100"
  proof (cases "1 < ?r")
    case True
    then have "0 < (of_nat ?r - 1 :: rat)" using row by blast
    then show ?thesis using row True by (simp add: poster_rowStep_def pos_divide_le_eq mult.commute)
  qed (simp add: poster_rowStep_def)
  moreover have "0 \<le> poster_rowStep frames" using row by (simp add: poster_rowStep_def)
  ultimately show ?thesis using col by (simp add: poster_position_def poster_cols_def)
qed

end
