(* ===== verification/Consent.thy ===== *)
theory Consent
  imports Web
begin

text \<open>
  A page together with the dialog manager: the questions a page asks become confirm boxes of
  \<open>DialogStack\<close>, and the action of a box is an event of the page.  The state keeps what each box
  runs and a log of everything the page did, each entry with the box that caused it.
\<close>

subsection \<open>What a user can do on a page\<close>

fun attr_inputs :: "(string \<times> 'e attr) list \<Rightarrow> (string \<Rightarrow> 'e) list" where
  "attr_inputs [] = []"
| "attr_inputs ((k, AInput f) # as) = f # attr_inputs as"
| "attr_inputs (a # as) = attr_inputs as"

fun node_inputs :: "'e node \<Rightarrow> (string \<Rightarrow> 'e) list" where
  "node_inputs (Txt s) = []"
| "node_inputs (El tag as vs) =
     (if is_disabled as then [] else attr_inputs as) @ concat (map node_inputs vs)"

text \<open>A click on an enabled element, or any text put into an enabled field.\<close>

definition interaction :: "'e node \<Rightarrow> 'e \<Rightarrow> bool" where
  "interaction v e \<longleftrightarrow> can_cause v e \<or> (\<exists>f \<in> set (node_inputs v). \<exists>x. e = f x)"

text \<open>All events of a page satisfy a predicate, whatever is typed.\<close>

fun attr_all :: "('e \<Rightarrow> bool) \<Rightarrow> 'e attr \<Rightarrow> bool" where
  "attr_all P (AEvent e) \<longleftrightarrow> P e"
| "attr_all P (AInput f) \<longleftrightarrow> (\<forall>x. P (f x))"
| "attr_all P _ \<longleftrightarrow> True"

fun node_all :: "('e \<Rightarrow> bool) \<Rightarrow> 'e node \<Rightarrow> bool" where
  "node_all P (Txt s) \<longleftrightarrow> True"
| "node_all P (El tag as vs) \<longleftrightarrow>
     (is_disabled as \<or> (\<forall>a \<in> snd ` set as. attr_all P a)) \<and> (\<forall>v \<in> set vs. node_all P v)"

lemma attr_all_events: "\<forall>a \<in> snd ` set as. attr_all P a \<Longrightarrow> e \<in> set (attr_events as) \<Longrightarrow> P e"
  by (induction as rule: attr_events.induct) auto

lemma attr_all_inputs: "\<forall>a \<in> snd ` set as. attr_all P a \<Longrightarrow> f \<in> set (attr_inputs as) \<Longrightarrow> P (f x)"
  by (induction as rule: attr_inputs.induct) auto

lemma node_all_interaction: "node_all P v \<Longrightarrow> interaction v e \<Longrightarrow> P e"
proof (induction v)
  case (El tag as vs)
  show ?case
  proof (cases "\<exists>v \<in> set vs. interaction v e")
    case True
    then show ?thesis using El by auto
  next
    case False
    then have own: "\<not> is_disabled as"
      "e \<in> set (attr_events as) \<or> (\<exists>f \<in> set (attr_inputs as). \<exists>x. e = f x)"
      using El.prems(2) by (auto simp: interaction_def can_cause_def split: if_splits)
    then have all: "\<forall>a \<in> snd ` set as. attr_all P a" using El.prems(1) by simp
    from own(2) show ?thesis
    proof
      assume "e \<in> set (attr_events as)"
      then show ?thesis by (rule attr_all_events [OF all])
    next
      assume "\<exists>f \<in> set (attr_inputs as). \<exists>x. e = f x"
      then obtain f x where f: "f \<in> set (attr_inputs as)" "e = f x" by blast
      show ?thesis unfolding f(2) by (rule attr_all_inputs [OF all f(1)])
    qed
  qed
qed (simp add: interaction_def can_cause_def)

lemma attr_events_mem: "(k, AEvent e) \<in> set as \<Longrightarrow> e \<in> set (attr_events as)"
  by (induction as rule: attr_events.induct) auto

lemma attr_inputs_mem: "(k, AInput f) \<in> set as \<Longrightarrow> f \<in> set (attr_inputs as)"
  by (induction as rule: attr_inputs.induct) auto

lemma node_all_mono: "node_all P v \<Longrightarrow> (\<And>e. P e \<Longrightarrow> Q e) \<Longrightarrow> node_all Q v"
proof (induction v)
  case (El tag as vs)
  have "attr_all P a \<Longrightarrow> attr_all Q a" for a using El.prems(2) by (cases a) auto
  then show ?case using El by auto
qed simp

lemma node_all_interactions: "node_all (interaction v) v"
proof (induction v)
  case (El tag as vs)
  let ?I = "interaction (El tag as vs)"
  have "node_all ?I v" if "v \<in> set vs" for v
  proof (rule node_all_mono [OF El.IH [OF that]])
    show "?I e" if "interaction v e" for e
      using that \<open>v \<in> set vs\<close> by (auto simp: interaction_def can_cause_def)
  qed
  moreover have "attr_all ?I a" if "\<not> is_disabled as" "(k, a) \<in> set as" for k a
    using that attr_events_mem attr_inputs_mem
    by (cases a) (fastforce simp: interaction_def can_cause_def)+
  ultimately show ?case by auto
qed simp

lemma node_all_map [simp]: "node_all P (map_node f v) \<longleftrightarrow> node_all (P \<circ> f) v"
proof (induction v)
  case (El tag as vs)
  have "is_disabled (map (map_prod id (map_attr f)) as) = is_disabled as"
    by (induction as) (auto simp: is_disabled_def split: attr.splits option.splits)
  moreover have "attr_all P (map_attr f a) \<longleftrightarrow> attr_all (P \<circ> f) a" for a
    by (cases a) simp_all
  ultimately show ?case using El by (auto simp: o_def)
qed simp

lemma node_all_show_if [simp]: "(\<forall>v \<in> set (show_if c w). node_all P v) \<longleftrightarrow> (c \<longrightarrow> node_all P w)"
  by (simp add: show_if_def)

subsection \<open>A page with its confirm boxes\<close>

record ('s, 'e) session =
  ss_page :: 's
  ss_dialogs :: dialogs
  ss_actions :: "(string \<times> confirm_options \<times> 'e) list"
  ss_log :: "(string option \<times> 'e web_effect) list"
  ss_runs :: "string list"
  ss_failures :: "string list"

definition new_session :: "'s \<Rightarrow> ('s, 'e) session" where
  "new_session s = \<lparr>ss_page = s, ss_dialogs = no_dialogs, ss_actions = [], ss_log = [], ss_runs = [], ss_failures = []\<rparr>"

fun perform_one :: "string option \<Rightarrow> 'e web_effect \<Rightarrow> ('s, 'e) session \<Rightarrow> ('s, 'e) session" where
  "perform_one c (AskConfirm o' e) w =
     (case confirm o' (ss_dialogs w) of (i, d) \<Rightarrow>
        w\<lparr>ss_dialogs := d, ss_actions := (i, o', e) # ss_actions w, ss_log := ss_log w @ [(c, AskConfirm o' e)]\<rparr>)"
| "perform_one c x w = w\<lparr>ss_log := ss_log w @ [(c, x)]\<rparr>"

definition run_event ::
  "('e \<Rightarrow> 's \<Rightarrow> 's \<times> 'e web_effect list) \<Rightarrow> string option \<Rightarrow> 'e \<Rightarrow> ('s, 'e) session \<Rightarrow> ('s, 'e) session" where
  "run_event step c e w =
     (case step e (ss_page w) of (s, xs) \<Rightarrow> fold (perform_one c) xs (w\<lparr>ss_page := s\<rparr>))"

text \<open>The operations of the dialog manager that neither ask nor confirm nor end an action.\<close>

fun plain_dialog_event :: "dialog_event \<Rightarrow> bool" where
  "plain_dialog_event (OpenDialog o') = True"
| "plain_dialog_event (CloseDialog i) = True"
| "plain_dialog_event CloseAllDialogs = True"
| "plain_dialog_event (ClickCancel i) = True"
| "plain_dialog_event _ = False"

text \<open>
  Anything may change what the page shows (answers, other tabs, navigation); the user interacts
  with the page, opens, closes and cancels dialogs, and confirms boxes; actions end well or not.
\<close>

inductive session_reach ::
  "('s \<Rightarrow> 'e node) \<Rightarrow> ('e \<Rightarrow> 's \<Rightarrow> 's \<times> 'e web_effect list) \<Rightarrow> ('s, 'e) session \<Rightarrow> bool"
  for view step where
  session_start: "session_reach view step (new_session s)"
| session_changed: "session_reach view step w \<Longrightarrow> session_reach view step (w\<lparr>ss_page := s\<rparr>)"
| session_interaction: "session_reach view step w \<Longrightarrow> interaction (view (ss_page w)) e \<Longrightarrow>
    session_reach view step (run_event step None e w)"
| session_dialog: "session_reach view step w \<Longrightarrow> plain_dialog_event ev \<Longrightarrow>
    session_reach view step (w\<lparr>ss_dialogs := dialog_react ev (ss_dialogs w)\<rparr>)"
| session_confirm: "session_reach view step w \<Longrightarrow> clickConfirm i (ss_dialogs w) = (d, True) \<Longrightarrow>
    map_of (ss_actions w) i = Some (o', e) \<Longrightarrow>
    session_reach view step (run_event step (Some i) e (w\<lparr>ss_dialogs := d, ss_runs := i # ss_runs w\<rparr>))"
| session_ended: "session_reach view step w \<Longrightarrow> i \<in> set (dg_pending (ss_dialogs w)) \<Longrightarrow>
    session_reach view step (w\<lparr>ss_dialogs := fst (action_over i ok (ss_dialogs w)),
      ss_failures := (if ok then ss_failures w else i # ss_failures w)\<rparr>)"

subsection \<open>What the log shows\<close>

lemma perform_log: "ss_log (fold (perform_one c) xs w) = ss_log w @ map (Pair c) xs"
proof (induction xs arbitrary: w)
  case (Cons x xs)
  have "ss_log (perform_one c x w) = ss_log w @ [(c, x)]"
    by (cases x) (simp_all split: prod.split)
  then show ?case using Cons by simp
qed simp

text \<open>A box that is open and whose action does not run, the only kind that a confirmation starts.\<close>

definition idle :: "string \<Rightarrow> dialogs \<Rightarrow> bool" where
  "idle i d \<longleftrightarrow> i \<in> de_id ` set (dg_stack d) \<and> i \<notin> set (dg_pending d)"

definition used_ids :: "dialogs \<Rightarrow> string set" where
  "used_ids d = gen_id ` {1..dg_nextId d}"

lemma idle_used: "dialogs_ok d \<Longrightarrow> idle i d \<Longrightarrow> i \<in> used_ids d"
  by (auto simp: dialogs_ok_def idle_def used_ids_def)

lemma idle_set_stack: "set ds \<subseteq> set (dg_stack d) \<Longrightarrow> idle i (set_stack ds d) \<Longrightarrow> idle i d"
  by (auto simp: idle_def set_stack_def)

lemma idle_close: "idle i (closeDialog k d) \<Longrightarrow> idle i d"
proof -
  have "set (butlast (dg_stack d)) \<subseteq> set (dg_stack d)" by (auto dest: in_set_butlastD)
  moreover have "set (filter p (dg_stack d)) \<subseteq> set (dg_stack d)" for p by auto
  moreover have "\<exists>p. closeDialog k d = set_stack (butlast (dg_stack d)) d \<or> closeDialog k d = set_stack (filter p (dg_stack d)) d"
    unfolding closeDialog_def by (cases k) (auto split: list.split)
  ultimately show "idle i (closeDialog k d) \<Longrightarrow> idle i d"
    by (metis idle_set_stack)
qed

lemma idle_push: "(\<And>i. de_id (mk i) = i) \<Longrightarrow> idle i (snd (push_dialog mk d)) \<Longrightarrow>
    idle i d \<or> i = gen_id (Suc (dg_nextId d))"
  by (auto simp: push_dialog_def Let_def idle_def)

lemma used_push: "used_ids (snd (push_dialog mk d)) = insert (gen_id (Suc (dg_nextId d))) (used_ids d)"
  by (simp add: used_ids_def push_dialog_def Let_def atLeastAtMostSuc_conv)

lemma new_id_unused: "gen_id (Suc (dg_nextId d)) \<notin> used_ids d"
  unfolding used_ids_def by (rule gen_id_new(2))

lemma used_close [simp]: "used_ids (closeDialog k d) = used_ids d"
  by (simp add: used_ids_def closeDialog_def set_stack_def split: option.split list.split)

text \<open>
  What holds in every session: a box ran once more than it failed at most, and only as often as it
  failed while it is idle.
\<close>

definition runs_bounded :: "('s, 'e) session \<Rightarrow> bool" where
  "runs_bounded w \<longleftrightarrow> dialogs_ok (ss_dialogs w) \<and> set (ss_runs w) \<subseteq> used_ids (ss_dialogs w) \<and>
     (\<forall>i. count_list (ss_runs w) i \<le> Suc (count_list (ss_failures w) i)) \<and>
     (\<forall>i. idle i (ss_dialogs w) \<longrightarrow> count_list (ss_runs w) i \<le> count_list (ss_failures w) i)"

lemma runs_bounded_push:
  assumes w: "runs_bounded w" and mk: "\<And>i. de_id (mk i) = i"
  shows "runs_bounded (w\<lparr>ss_dialogs := snd (push_dialog mk (ss_dialogs w)), ss_actions := as, ss_log := l\<rparr>)"
proof -
  have ok: "dialogs_ok (snd (push_dialog mk (ss_dialogs w)))"
    using w mk by (simp add: runs_bounded_def dialogs_ok_push)
  have fresh: "count_list (ss_runs w) (gen_id (Suc (dg_nextId (ss_dialogs w)))) = 0"
    using w new_id_unused [of "ss_dialogs w"] by (auto simp: runs_bounded_def count_list_0_iff)
  have "count_list (ss_runs w) i \<le> count_list (ss_failures w) i"
    if "idle i (snd (push_dialog mk (ss_dialogs w)))" for i
    using idle_push [OF mk that] w fresh by (auto simp: runs_bounded_def)
  then show ?thesis using w ok by (auto simp: runs_bounded_def used_push)
qed

lemma runs_bounded_confirm:
  assumes "runs_bounded w" and "confirm o' (ss_dialogs w) = (i, d)"
  shows "runs_bounded (w\<lparr>ss_dialogs := d, ss_actions := as, ss_log := l\<rparr>)"
proof -
  have d: "d = snd (confirm o' (ss_dialogs w))" using assms(2) by simp
  show ?thesis unfolding d confirm_def by (rule runs_bounded_push [OF assms(1)]) simp
qed

lemma runs_bounded_perform: "runs_bounded w \<Longrightarrow> runs_bounded (fold (perform_one c) xs w)"
proof (induction xs arbitrary: w)
  case (Cons x xs)
  have "runs_bounded (perform_one c x w)"
  proof (cases x)
    case (AskConfirm o' e)
    then show ?thesis using runs_bounded_confirm [OF Cons.prems] by (simp split: prod.split)
  qed (use Cons.prems in \<open>simp_all add: runs_bounded_def\<close>)
  then show ?case using Cons.IH by simp
qed simp

lemma runs_bounded_page: "runs_bounded (w\<lparr>ss_page := s\<rparr>) = runs_bounded w"
  by (simp add: runs_bounded_def)

lemma runs_bounded_event: "runs_bounded w \<Longrightarrow> runs_bounded (run_event step c e w)"
  by (simp add: run_event_def runs_bounded_perform runs_bounded_page split: prod.split)

lemma runs_bounded_dialog:
  assumes w: "runs_bounded w" and ev: "plain_dialog_event ev"
  shows "runs_bounded (w\<lparr>ss_dialogs := dialog_react ev (ss_dialogs w)\<rparr>)"
proof (cases ev)
  case (OpenDialog o')
  show ?thesis
    using runs_bounded_push [OF w, of _ "ss_log w" "ss_actions w"] by (simp add: OpenDialog openDialog_def)
next
  case CloseAllDialogs
  then show ?thesis
    using w by (simp add: runs_bounded_def closeAll_def idle_def set_stack_def used_ids_def dialogs_ok_def)
next
  case (CloseDialog i)
  then show ?thesis using w idle_close by (auto simp: runs_bounded_def dialogs_ok_close)
next
  case (ClickCancel i)
  then show ?thesis using w idle_close by (auto simp: runs_bounded_def dialogs_ok_close clickCancel_def)
qed (use ev in simp_all)

lemma runs_bounded_click:
  assumes w: "runs_bounded w" and "clickConfirm i (ss_dialogs w) = (d, True)"
  shows "runs_bounded (w\<lparr>ss_dialogs := d, ss_runs := i # ss_runs w\<rparr>)"
proof -
  have idle: "idle i (ss_dialogs w)" and d: "d = (ss_dialogs w)\<lparr>dg_pending := i # dg_pending (ss_dialogs w)\<rparr>"
    using assms(2) by (simp_all add: clickConfirm_def idle_def split: if_splits)
  have "d = dialog_react (ClickConfirm i) (ss_dialogs w)" using assms(2) by simp
  then have "dialogs_ok d" using w dialogs_ok_react [of "ss_dialogs w" "ClickConfirm i"] by (simp add: runs_bounded_def)
  moreover have "idle k d \<longleftrightarrow> idle k (ss_dialogs w) \<and> k \<noteq> i" for k by (auto simp: d idle_def)
  moreover have "used_ids d = used_ids (ss_dialogs w)" by (simp add: d used_ids_def)
  ultimately show ?thesis
    using w idle idle_used by (auto simp: runs_bounded_def)
qed

lemma runs_bounded_ended:
  assumes w: "runs_bounded w" and i: "i \<in> set (dg_pending (ss_dialogs w))"
  shows "runs_bounded (w\<lparr>ss_dialogs := fst (action_over i ok (ss_dialogs w)),
      ss_failures := (if ok then ss_failures w else i # ss_failures w)\<rparr>)"
proof -
  let ?d = "ss_dialogs w" and ?d' = "fst (action_over i ok (ss_dialogs w))"
  have d: "dialogs_ok ?d" using w by (simp add: runs_bounded_def)
  have "dialogs_ok ?d'" using dialogs_ok_react [OF d, of "ActionOver i ok"] by simp
  moreover have "used_ids ?d' = used_ids ?d"
    using used_close [of "Some i" ?d] by (simp add: action_over_def Let_def used_ids_def)
  moreover have "idle k ?d \<or> (k = i \<and> \<not> ok)" if "idle k ?d'" for k
  proof (cases ok)
    case False
    then show ?thesis using that by (auto simp: action_over_def Let_def idle_def)
  next
    case True
    have "i \<in> used_ids ?d" using d i by (auto simp: dialogs_ok_def used_ids_def)
    then obtain c r where "i = c # r" unfolding used_ids_def using gen_id_truthy by blast
    then show ?thesis using True that
      by (auto simp: action_over_def Let_def idle_def closeDialog_def set_stack_def)
  qed
  moreover have "count_list (ss_runs w) i \<le> Suc (count_list (ss_failures w) i)" for i
    using w by (simp add: runs_bounded_def)
  moreover have "count_list (ss_runs w) k \<le> count_list (ss_failures w) k" if "idle k ?d" for k
    using w that by (simp add: runs_bounded_def)
  ultimately show ?thesis using w by (simp add: runs_bounded_def le_SucI) metis
qed

lemma session_runs_bounded: "session_reach view step w \<Longrightarrow> runs_bounded w"
proof (induction rule: session_reach.induct)
  case (session_start s)
  have "dialogs_ok no_dialogs" using dialog_reach_ok [OF dialog_start] .
  then show ?case by (simp add: runs_bounded_def new_session_def)
qed (simp_all add: runs_bounded_page runs_bounded_event runs_bounded_dialog runs_bounded_click runs_bounded_ended)

text \<open>Every session keeps the order of question and effect.\<close>

lemma perform_actions:
  "\<exists>new. ss_actions (fold (perform_one c) xs w) = new @ ss_actions w \<and>
     (\<forall>(i, o', e) \<in> set new. AskConfirm o' e \<in> set xs)"
proof (induction xs arbitrary: w)
  case (Cons x xs)
  obtain new where new: "ss_actions (fold (perform_one c) xs (perform_one c x w)) = new @ ss_actions (perform_one c x w)"
    "\<forall>(i, o', e) \<in> set new. AskConfirm o' e \<in> set xs"
    using Cons by blast
  show ?case
  proof (cases x)
    case (AskConfirm o' e)
    obtain i d where "confirm o' (ss_dialogs w) = (i, d)" by fastforce
    then have "ss_actions (perform_one c x w) = (i, o', e) # ss_actions w" by (simp add: AskConfirm)
    then show ?thesis using new AskConfirm by (intro exI [of _ "new @ [(i, o', e)]"]) auto
  qed (use new in \<open>auto intro!: exI [of _ new]\<close>)
qed simp

lemma run_event_log:
  "ss_log (run_event step c e w) = ss_log w @ map (Pair c) (snd (step e (ss_page w)))"
  by (simp add: run_event_def perform_log split: prod.split)

lemma perform_runs: "ss_runs (fold (perform_one c) xs w) = ss_runs w"
proof (induction xs arbitrary: w)
  case (Cons x xs)
  have "ss_runs (perform_one c x w) = ss_runs w" by (cases x) (simp_all split: prod.split)
  then show ?case using Cons by simp
qed simp

lemma run_event_runs: "ss_runs (run_event step c e w) = ss_runs w"
  by (cases "step e (ss_page w)") (simp add: run_event_def perform_runs)

lemma run_event_actions:
  "\<exists>new. ss_actions (run_event step c e w) = new @ ss_actions w \<and>
     (\<forall>(i, o', e') \<in> set new. AskConfirm o' e' \<in> set (snd (step e (ss_page w))))"
  using perform_actions [of c "snd (step e (ss_page w))" "w\<lparr>ss_page := fst (step e (ss_page w))\<rparr>"]
  by (cases "step e (ss_page w)") (simp add: run_event_def)

definition asked_before :: "('e \<Rightarrow> 's \<Rightarrow> 's \<times> 'e web_effect list) \<Rightarrow> ('s, 'e) session \<Rightarrow> bool" where
  "asked_before step w \<longleftrightarrow>
     (\<forall>i o' e. (i, o', e) \<in> set (ss_actions w) \<longrightarrow> (\<exists>c. (c, AskConfirm o' e) \<in> set (ss_log w))) \<and>
     (\<forall>pre i x post. ss_log w = pre @ (Some i, x) # post \<longrightarrow>
        (\<exists>o' e s c. (i, o', e) \<in> set (ss_actions w) \<and> (c, AskConfirm o' e) \<in> set pre \<and> x \<in> set (snd (step e s))))"

text \<open>An event adds its effects to the log; those of a box have the box's question before them.\<close>

lemma asked_before_event:
  assumes w: "asked_before step w" and w': "ss_log w' = ss_log w" "ss_actions w' = ss_actions w" 
    and c: "\<And>i. c = Some i \<Longrightarrow> \<exists>o'. (i, o', e) \<in> set (ss_actions w)"
  shows "asked_before step (run_event step c e w')"
proof -
  let ?xs = "snd (step e (ss_page w'))"
  obtain new where new: "ss_actions (run_event step c e w') = new @ ss_actions w"
    "\<forall>(i, o', e') \<in> set new. AskConfirm o' e' \<in> set ?xs"
    using run_event_actions [of step c e w'] w'(2) by auto
  have log: "ss_log (run_event step c e w') = ss_log w @ map (Pair c) ?xs" by (simp add: run_event_log w'(1))
  have "\<exists>o' f s k. (i, o', f) \<in> set (ss_actions w) \<and> (k, AskConfirm o' f) \<in> set pre \<and> x \<in> set (snd (step f s))"
    if split: "ss_log w @ map (Pair c) ?xs = pre @ (Some i, x) # post" for pre i x post
  proof (cases "length pre < length (ss_log w)")
    case True
    then have "ss_log w = pre @ (Some i, x) # take (length (ss_log w) - length pre - 1) post"
      using arg_cong [OF split, of "take (length (ss_log w))"] by (cases "length (ss_log w) - length pre") simp_all
    then show ?thesis using w unfolding asked_before_def by blast
  next
    case False
    then obtain ys where pre: "pre = ss_log w @ ys" and ys: "map (Pair c) ?xs = ys @ (Some i, x) # post"
      using split by (auto simp: append_eq_append_conv2)
    have "(Some i, x) \<in> set (map (Pair c) ?xs)" unfolding ys by simp
    then have "c = Some i" "x \<in> set ?xs" by auto
    moreover obtain o' where "(i, o', e) \<in> set (ss_actions w)" using c \<open>c = Some i\<close> by blast
    moreover have "\<exists>k. (k, AskConfirm o' e) \<in> set (ss_log w)"
      using w \<open>(i, o', e) \<in> set (ss_actions w)\<close> unfolding asked_before_def by blast
    ultimately show ?thesis unfolding pre by auto
  qed
  then have order: "\<forall>pre i x post. ss_log w @ map (Pair c) ?xs = pre @ (Some i, x) # post \<longrightarrow>
      (\<exists>o' f s k. (i, o', f) \<in> set (new @ ss_actions w) \<and> (k, AskConfirm o' f) \<in> set pre \<and> x \<in> set (snd (step f s)))"
    unfolding set_append by blast
  have "\<exists>k. (k, AskConfirm o' f) \<in> set (ss_log w @ map (Pair c) ?xs)"
    if "(i, o', f) \<in> set (new @ ss_actions w)" for i o' f
    using that new(2) w unfolding asked_before_def by fastforce
  with order show ?thesis unfolding asked_before_def log new(1) by blast
qed

lemma session_asked_before: "session_reach view step w \<Longrightarrow> asked_before step w"
proof (induction rule: session_reach.induct)
  case (session_confirm w i d o' e)
  have "(i, o', e) \<in> set (ss_actions w)" by (rule map_of_SomeD) fact
  then show ?case by (intro asked_before_event [OF session_confirm.IH]) auto
next
  case (session_interaction w e)
  show ?case by (intro asked_before_event [OF session_interaction.IH]) auto
qed (simp_all add: asked_before_def new_session_def)

lemma session_cause_ran: "session_reach view step w \<Longrightarrow> (Some i, x) \<in> set (ss_log w) \<Longrightarrow> i \<in> set (ss_runs w)"
proof (induction arbitrary: i x rule: session_reach.induct)
  case (session_interaction w e)
  then show ?case by (auto simp: run_event_log run_event_runs)
next
  case (session_confirm w j d o' e)
  then show ?case by (auto simp: run_event_log run_event_runs)
qed (auto simp: new_session_def)

text \<open>The requests that must not happen by a single click: deletions, aborted jobs, reprocessing.  This
  is a specification; the retry of a job is not counted, the jobs page sends it at once.\<close>

definition ends_with :: "string \<Rightarrow> string \<Rightarrow> bool" where
  "ends_with s p \<longleftrightarrow> length p \<le> length s \<and> drop (length s - length p) s = p"

fun dangerous :: "'a web_effect \<Rightarrow> bool" where
  "dangerous (Request m p b) \<longleftrightarrow> m = ''DELETE'' \<or> ends_with p ''/cancel'' \<or> ends_with p ''/reprocess''"
| "dangerous _ \<longleftrightarrow> False"

text \<open>The contract of a page: nothing a user can do on it is dangerous by itself.\<close>

locale careful_page =
  fixes view :: "'s \<Rightarrow> 'e node" and step :: "'e \<Rightarrow> 's \<Rightarrow> 's \<times> 'e web_effect list"
  assumes interactions_harmless: "interaction (view s) e \<Longrightarrow> \<not> list_ex dangerous (snd (step e s))"
begin

lemma log_cause: "session_reach view step w \<Longrightarrow> (c, x) \<in> set (ss_log w) \<Longrightarrow> dangerous x \<Longrightarrow> c \<noteq> None"
proof (induction arbitrary: c x rule: session_reach.induct)
  case (session_interaction w e)
  then show ?case
    using interactions_harmless [OF session_interaction.hyps(2)]
    by (auto simp: run_event_log list_ex_iff)
next
  case (session_confirm w i d o' e)
  then show ?case by (auto simp: run_event_log)
qed (auto simp: new_session_def)

text \<open>
  Whatever happens in a session, a dangerous request was made by a box about it: the question was
  asked before, the box was confirmed, and it acted once more than its action failed at most.
\<close>

lemma dangers_confirmed:
  assumes "session_reach view step w" and "ss_log w = pre @ (c, x) # post" and "dangerous x"
  shows "\<exists>i o' e s k. c = Some i \<and> (k, AskConfirm o' e) \<in> set pre \<and> (i, o', e) \<in> set (ss_actions w) \<and>
    x \<in> set (snd (step e s)) \<and> i \<in> set (ss_runs w) \<and> count_list (ss_runs w) i \<le> Suc (count_list (ss_failures w) i)"
proof -
  have "c \<noteq> None" using log_cause [OF assms(1) _ assms(3), of c] assms(2) by simp
  then obtain i where c: "c = Some i" by blast
  have log: "ss_log w = pre @ (Some i, x) # post" using assms(2) unfolding c .
  obtain o' e s k where "(i, o', e) \<in> set (ss_actions w)" "(k, AskConfirm o' e) \<in> set pre" "x \<in> set (snd (step e s))"
    using session_asked_before [OF assms(1)] log unfolding asked_before_def by blast
  moreover have "count_list (ss_runs w) i \<le> Suc (count_list (ss_failures w) i)"
    using session_runs_bounded [OF assms(1)] by (simp add: runs_bounded_def)
  moreover have "i \<in> set (ss_runs w)" using session_cause_ran [OF assms(1), of i x] log by simp
  ultimately show ?thesis using c by blast
qed

end

end
