(* ===== verification/AdminApp.thy ===== *)
theory AdminApp
  imports Consent AdminUsers Categories DomainAcls Flavors Players Settings JobsPage StoragePage EntriesPage
    DashboardPage EntryDetail UploadDialog
begin

text \<open>
  The admin pages as one application: each page with its data is a screen, and every page is shown
  to keep the contract of \<open>careful_page\<close>; so does the application, whatever is navigated to.
\<close>

subsection \<open>Paths\<close>

lemma ends_with_last: "ends_with s p \<Longrightarrow> p \<noteq> [] \<Longrightarrow> s \<noteq> [] \<and> last s = last p"
proof -
  assume e: "ends_with s p" "p \<noteq> []"
  then have s: "s = take (length s - length p) s @ p" by (metis append_take_drop_id ends_with_def)
  have "last s = last p" by (subst s) (simp add: e(2))
  moreover have "s \<noteq> []" using e s by (metis append_is_Nil_conv)
  ultimately show ?thesis by blast
qed

lemma harmless_path:
  assumes "s \<noteq> []" and "last s \<noteq> CHR ''l''" and "last s \<noteq> CHR ''s''"
  shows "\<not> ends_with s ''/cancel'' \<and> \<not> ends_with s ''/reprocess''"
  using assms ends_with_last [of s "''/cancel''"] ends_with_last [of s "''/reprocess''"] by auto

lemma digit_last: "d < 10 \<Longrightarrow> digit d \<noteq> CHR ''l'' \<and> digit d \<noteq> CHR ''s''"
  by (simp add: digit_def less_eq_Suc_le char_of_eq_iff take_bit_eq_mod)

lemma dec_last: "last (dec n) \<noteq> CHR ''l'' \<and> last (dec n) \<noteq> CHR ''s''"
  by (cases "n < 10") (simp_all add: dec.simps [of n] digit_last)

lemma dec_int_last: "dec_int i \<noteq> [] \<and> last (dec_int i) \<noteq> CHR ''l'' \<and> last (dec_int i) \<noteq> CHR ''s''"
  by (simp add: dec_int_def dec_last)

subsection \<open>Every page is careful\<close>

text \<open>An event of a page without state is harmless when its effects are.\<close>

definition harmless :: "'e web_effect list \<Rightarrow> bool" where
  "harmless xs \<longleftrightarrow> \<not> list_ex dangerous xs"

lemma harmless_simps [simp]:
  "harmless []" "harmless (x # xs) \<longleftrightarrow> \<not> dangerous x \<and> harmless xs"
  "harmless (xs @ ys) \<longleftrightarrow> harmless xs \<and> harmless ys"
  by (auto simp: harmless_def)

lemma careful_by_view:
  assumes "\<And>s. node_all (\<lambda>e. harmless (snd (step e s))) (view s)"
  shows "careful_page view step"
proof
  show "\<not> list_ex dangerous (snd (step e s))" if "interaction (view s) e" for s e
    using node_all_interaction [OF assms that] by (simp add: harmless_def)
qed

lemma node_all_parts [simp]:
  "\<forall>v \<in> set (SummaryStrip items). node_all P v"
  "node_all P (StatusBadge t st)" "node_all P (EntryThumb key u a)"
  "node_all P (EmptyState icon title desc extra) \<longleftrightarrow> (case extra of Some v \<Rightarrow> node_all P v | None \<Rightarrow> True)"
  "node_all P (kpi_card a b c d)" "node_all P (cell vs) \<longleftrightarrow> (\<forall>v \<in> set vs. node_all P v)"
  "node_all P (table_page cols vs) \<longleftrightarrow> (\<forall>v \<in> set vs. node_all P v)"
  "\<forall>v \<in> set (skeleton_rows n k). node_all P v"
  "node_all P (click tag e off label) \<longleftrightarrow> off \<or> P e"
  "node_all P (icon_click e label icon) \<longleftrightarrow> P e"
  by (auto simp: SummaryStrip_def StatusBadge_def EntryThumb_def EmptyState_def kpi_card_def cell_def table_page_def
      table_head_def skeleton_rows_def click_def icon_click_def is_disabled_def split: option.split list.split)

lemma node_all_select [simp]: "node_all P (select os val f) \<longleftrightarrow> (\<forall>x. P (f x))"
  by (auto simp: select_def options_def is_disabled_def)

lemma harmless_ask [simp]: "harmless (ask_remove t a b c e)"
  by (simp add: ask_remove_def)

abbreviation stateless :: "('e \<Rightarrow> 'e web_effect list) \<Rightarrow> 'e \<Rightarrow> 's \<Rightarrow> 's \<times> 'e web_effect list" where
  "stateless step e s \<equiv> (s, step e)"

interpretation users_page: careful_page "UsersPage t fd" "stateless (users_step t)"
  by (rule careful_by_view)
    (auto simp: UsersPage_def Let_def user_row_def status_badge_def ask_remove_user_def is_disabled_def split: option.split)

interpretation viewers_page: careful_page "ViewersPage t fd" "stateless (viewers_step t)"
  by (rule careful_by_view)
    (auto simp: ViewersPage_def Let_def viewer_row_def status_badge_def ask_remove_viewer_def is_disabled_def split: option.split)

lemma those_members: "those xs = Some ys \<Longrightarrow> y \<in> set ys \<Longrightarrow> Some y \<in> set xs"
  by (induction xs arbitrary: ys) (auto split: option.splits)

interpretation categories_page: careful_page
  "\<lambda>data. case CategoriesPage t data of Some v \<Rightarrow> v | None \<Rightarrow> El ''div'' [] []" "stateless (categories_step t)"
proof (rule careful_by_view)
  fix data
  have row: "node_all (\<lambda>e. harmless (categories_step t e)) (category_row t flat c d)" for flat c d
    by (auto simp: category_row_def ask_remove_category_def open_category_def is_disabled_def)
  have "node_all (\<lambda>e. harmless (categories_step t e)) v" if "category_rows t flat = Some rows" "v \<in> set rows" for flat rows v
  proof -
    have "Some v \<in> (\<lambda>c. map_option (category_row t flat c) (depthOf flat (cat_id c))) ` set flat"
      using those_members [OF that(1) [unfolded category_rows_def] that(2)] by simp
    then obtain c where "map_option (category_row t flat c) (depthOf flat (cat_id c)) = Some v" by force
    then show ?thesis using row by auto
  qed
  then show "node_all (\<lambda>e. harmless (snd (stateless (categories_step t) e data)))
      (case CategoriesPage t data of Some v \<Rightarrow> v | None \<Rightarrow> El ''div'' [] [])"
    by (auto simp: CategoriesPage_def Let_def is_disabled_def split: option.split)
qed

interpretation acls_page: careful_page "DomainAclsPage t" "stateless (acls_step t)"
  by (rule careful_by_view)
    (auto simp: DomainAclsPage_def Let_def acl_row_def domain_badges_def ask_remove_acl_def open_acl_def is_disabled_def
      split: option.split)

interpretation flavors_page: careful_page "FlavorsPage t" "stateless (flavors_step t)"
proof -
  have "\<not> dangerous (toggle_request f)" for f
    using harmless_path [of "''/api/flavors/'' @ dec_int (fv_id f)"] dec_int_last by (simp add: toggle_request_def)
  then show "careful_page (FlavorsPage t) (stateless (flavors_step t))"
    by (intro careful_by_view)
      (auto simp: FlavorsPage_def Let_def flavor_row_def ask_remove_flavor_def open_flavor_def is_disabled_def split: option.split)
qed

interpretation players_page: careful_page "PlayersPage t" "stateless (players_step t)"
  by (rule careful_by_view)
    (auto simp: PlayersPage_def Let_def player_row_def ask_remove_player_def open_player_def is_disabled_def split: option.split)

interpretation jobs_page: careful_page "JobsPage t fd" "stateless (jobs_step t)"
proof -
  have "\<not> ends_with (xs @ ''/pause'') ''/cancel''" "\<not> ends_with (xs @ ''/pause'') ''/reprocess''"
    "\<not> ends_with (xs @ ''/resume'') ''/cancel''" "\<not> ends_with (xs @ ''/resume'') ''/reprocess''"
    "\<not> ends_with (xs @ ''/retry'') ''/cancel''" "\<not> ends_with (xs @ ''/retry'') ''/reprocess''" for xs
    using harmless_path [of "xs @ ''/pause''"] harmless_path [of "xs @ ''/resume''"] harmless_path [of "xs @ ''/retry''"]
    by simp_all
  note paths = this [of "''/api/jobs/'' @ dec_int i" for i, simplified]
  have "\<forall>v \<in> set (job_actions t j). node_all (\<lambda>e. harmless (jobs_step t e)) v" for j
    by (auto simp: job_actions_def action_button_def act_def askCancel_def is_disabled_def paths)
  then show "careful_page (JobsPage t fd) (stateless (jobs_step t))"
    by (intro careful_by_view)
      (auto simp: JobsPage_def Let_def job_row_def job_badges_def JobStatusBadge_def is_disabled_def
        split: option.split job_status.split)
qed

interpretation storage_page: careful_page "StoragePage t" "stateless storage_step"
  by (rule careful_by_view)
    (auto simp: StoragePage_def Let_def entry_row_def file_row_def is_disabled_def show_if_def split: option.split)

interpretation entries_screen: careful_page
  "\<lambda>(cs, list, s). EntriesPage t fd cs list s"
  "\<lambda>e (cs, list, s). ((cs, list, fst (entries_step t e s)), snd (entries_step t e s))"
proof (rule careful_by_view)
  fix x :: "category list \<times> entry_list option \<times> entries_page"
  obtain cs list s where x: "x = (cs, list, s)" by (cases x)
  let ?P = "\<lambda>e. harmless (snd (entries_step t e s))"
  have "node_all ?P (entries_toolbar t cs s)" "node_all ?P (entries_head t list s)"
    "\<And>e. node_all ?P (entry_line t fd cs s e)" "\<And>l. \<forall>v \<in> set (entries_empty t l). node_all ?P v"
    "\<And>l. node_all ?P (entries_pager t l s)"
    by (auto simp: entries_toolbar_def entries_head_def entry_line_def entries_empty_def entries_pager_def Let_def
        askBulkDelete_def askReprocess_def askDelete_def RowActions_def show_if_def)
  then show "node_all (\<lambda>e. harmless (snd (case x of (cs, list, s) \<Rightarrow>
      ((cs, list, fst (entries_step t e s)), snd (entries_step t e s))))) (case x of (cs, list, s) \<Rightarrow> EntriesPage t fd cs list s)"
    by (auto simp: x EntriesPage_def split: option.split)
qed

interpretation dashboard_page: careful_page "DashboardPage t day_key ld" dash_step
  by (rule careful_by_view)
    (auto simp: DashboardPage_def Let_def welcome_card_def dash_card_def recent_uploads_def recent_card_def recent_details_def
      status_card_def status_segment_def status_line_def Sparkline_def show_if_def split: option.split)

interpretation settings_screen: careful_page "SettingsPage t" "settings_step t"
proof (rule careful_by_view)
  fix p
  have "\<not> ends_with ''/api/settings'' ''/cancel''" "\<not> ends_with ''/api/settings'' ''/reprocess''"
    by (simp_all add: ends_with_def)
  note paths = this
  let ?P = "\<lambda>e. harmless (snd (settings_step t e p))"
  have events: "?P (OpenGroup g)" "?P (TypeSetting k x)" "?P (ChooseSetting k x)" "?P (SaveGroup ks)" "?P (SetBool k b)"
    for g k x ks b
    by (simp_all add: setBool_def saveGroup_def paths)
  have "node_all ?P (setting_control p spec k)" for spec k
    using events by (cases "value_of (page_values p) k"; cases "ss_enum spec")
      (simp_all add: setting_control_def Let_def show_if_def del: settings_step.simps)
  then have "node_all ?P (setting_row p k)" for k
    by (simp add: setting_row_def Let_def show_if_def del: settings_step.simps)
  then show "node_all (\<lambda>e. harmless (snd (settings_step t e p))) (SettingsPage t p)"
    using events by (auto simp: SettingsPage_def Let_def group_button_def simp del: settings_step.simps)
qed

lemma node_all_True [simp]: "node_all (\<lambda>_. True) v"
proof (induction v)
  case (El tag as vs)
  have "attr_all (\<lambda>_. True) a" for a :: "'a attr" by (cases a) simp_all
  then show ?case using El by simp
qed simp

definition entry_screen_step ::
  "translator \<Rightarrow> string \<Rightarrow> entry_lists \<Rightarrow> entry_event \<Rightarrow> entry_detail option \<times> entry_extras \<times> entry_dialog \<Rightarrow>
   (entry_detail option \<times> entry_extras \<times> entry_dialog) \<times> entry_event web_effect list" where
  "entry_screen_step t i l ev s =
     (case s of (entry, x, dl) \<Rightarrow>
        (case (entry, eg_draft dl) of
           (Some e, Some d) \<Rightarrow> ((entry, x, fst (entry_step t i l e d ev dl)), snd (entry_step t i l e d ev dl))
         | _ \<Rightarrow> (s, [])))"

interpretation entry_screen: careful_page
  "\<lambda>(entry, x, dl). EntryDetailDialog t fd l x entry dl" "entry_screen_step t i l"
proof (rule careful_by_view)
  fix s :: "entry_detail option \<times> entry_extras \<times> entry_dialog"
  obtain entry x dl where s: "s = (entry, x, dl)" by (cases s)
  show "node_all (\<lambda>e. harmless (snd (entry_screen_step t i l e s)))
      (case s of (entry, x, dl) \<Rightarrow> EntryDetailDialog t fd l x entry dl)"
  proof (cases entry)
    case None
    then show ?thesis by (simp add: s EntryDetailDialog_def entry_skeleton_def)
  next
    case (Some e)
    show ?thesis
    proof (cases "eg_draft dl")
      case None
      then show ?thesis by (simp add: s Some EntryDetailDialog_def entry_skeleton_def)
    next
      case d: (Some d)
      let ?P = "\<lambda>ev. harmless (snd (entry_step t i l e d ev dl))"
      have asks: "harmless (ask_save t l e d dl)" "harmless (ask_reprocess_entry t)" "harmless (ask_remove_subtitle t k)" for k
        by (simp_all add: ask_save_def Let_def ask_reprocess_entry_def ask_remove_subtitle_def)
      have "\<forall>v \<in> set (section_menu t a). node_all ?P v" "node_all ?P (entry_header t fd cs e)"
        "node_all ?P (metadata_section t cs e d info)" "node_all ?P (flavors_section t adm fs e dl)"
        "node_all ?P (PosterPicker t e n)" "node_all ?P (SubtitlesTab t e)"
        "node_all ?P (SecurityTab t ac as pl ps pub den)" "node_all ?P (AnalyticsTab t hov r)"
        "node_all ?P (EmbedTab t org k (map_node PreviewEvent pv) es)"
        "\<forall>v \<in> set (unsaved_bar t e d dl). node_all ?P v"
        for a cs info adm fs n ac as pl ps pub den hov r org k pv es
        by (auto simp: section_menu_def entry_header_def metadata_section_def flavors_section_def tick_row_def flavor_state_def
            PosterPicker_def SubtitlesTab_def subtitle_row_def SecurityTab_def toggle_card_def choice_card_def
            AnalyticsTab_def chart_card_def EmbedTab_def tab_copy_button_def unsaved_bar_def Let_def show_if_def o_def asks
            field_def text_input_def table_head_def LoadingCircle_def is_disabled_def split: option.split)
      then show ?thesis
        by (auto simp: s Some d entry_screen_step_def EntryDetailDialog_def entry_section_def Let_def show_if_def LoadingCircle_def
            simp del: entry_step.simps split: option.split list.split)
    qed
  qed
qed

text \<open>The actions of the upload dialog's boxes are events of it, marked as confirmed.\<close>

lemma dangerous_map [simp]: "dangerous (map_web_effect f x) = dangerous x"
  by (cases x) simp_all

lemma harmless_map [simp]: "harmless (map (map_web_effect f) xs) = harmless xs"
  by (simp add: harmless_def list_ex_iff)

definition upload_screen_step ::
  "translator \<Rightarrow> (nat \<Rightarrow> string) \<Rightarrow> int \<Rightarrow> ud_event \<Rightarrow> upload_world \<Rightarrow> upload_world \<times> ud_event web_effect list" where
  "upload_screen_step t uuid now e w =
     (case upload_dialog_step t uuid now e w of (w', xs) \<Rightarrow> (w', map (map_web_effect Confirmed) xs))"

lemma upload_harmless:
  assumes "\<forall>a. e \<noteq> Confirmed a"
  shows "harmless (snd (upload_screen_step t uuid now e w))"
proof -
  have check: "\<not> ends_with ''/api/entries/from-url/check'' ''/cancel''" "\<not> ends_with ''/api/entries/from-url/check'' ''/reprocess''"
    by (simp_all add: ends_with_def)
  have "harmless (snd (upload_dialog_step t uuid now e w))"
  proof (cases e)
    case (Confirmed a)
    then show ?thesis using assms by simp
  qed (simp_all add: addSelected_def askRemove_def handleCheckUrls_def checks_over_def handleStartUrls_def handleStartFiles_def
      askCancelAll_def handleCloseAttempt_def closed_def Let_def check split: prod.split option.split reply.split)
  then show ?thesis by (cases "upload_dialog_step t uuid now e w") (simp add: upload_screen_step_def)
qed

interpretation upload_screen: careful_page "UploadDialogContent t expanded" "upload_screen_step t uuid now"
proof (rule careful_by_view)
  fix w :: upload_world
  let ?C = "\<lambda>e. \<forall>a. e \<noteq> Confirmed a"
  let ?d = "uw_dialog w" and ?J = "us_jobs (uw_uploads w)" and ?D = "ds_jobs (uw_urls w)"
  have button: "node_all ?C (UploadDialog.button e off l) \<longleftrightarrow> off \<or> ?C e" for e off l
    by (auto simp: button_def)
  have cards: "node_all ?C (UploadJobCard t cs ex job)" "node_all ?C (UrlDownloadCard t cs ex url)"
    "\<forall>v \<in> set (category_options t cs). node_all ?C v" for cs ex job url
    by (auto simp: UploadJobCard_def UrlDownloadCard_def category_options_def Let_def ball_Un o_def)
  have tabs: "\<forall>v \<in> set (computer_tab t ex d js). node_all ?C v" "\<forall>v \<in> set (url_tab t ex d us). node_all ?C v"
    "node_all ?C (upload_header t d js us)" "node_all ?C (upload_footer t d js us)" for ex d js us
    by (auto simp: computer_tab_def url_tab_def background_note_def upload_header_def upload_footer_def button cards
        ball_Un)
  then have "node_all ?C (upload_body t ex d js us)" for ex d js us
    by (auto simp: upload_body_def background_note_def cards ball_Un)
  then have "node_all ?C (UploadDialogContent t expanded w)"
    using tabs by (simp add: UploadDialogContent_def Let_def)
  then show "node_all (\<lambda>e. harmless (snd (upload_screen_step t uuid now e w))) (UploadDialogContent t expanded w)"
    by (rule node_all_mono) (rule upload_harmless)
qed

subsection \<open>The application\<close>

datatype admin_screen =
    UsersScreen "user list fetched" | ViewersScreen "viewer_list fetched" | CategoriesScreen "category list fetched"
  | AclsScreen "domain_acl list fetched" | FlavorsScreen "flavor list fetched" | PlayersScreen "player list fetched"
  | JobsScreen "job_activity list option" | StorageScreen "storage_entry list fetched"
  | EntriesScreen "category list \<times> entry_list option \<times> entries_page"
  | DashboardScreen "dashboard option" | SettingsScreen settings_page
  | EntryScreen string entry_lists "entry_detail option \<times> entry_extras \<times> entry_dialog"
  | UploadScreen upload_world

datatype admin_event =
    UsersEv users_event | ViewersEv viewers_event | CategoriesEv categories_event | AclsEv acls_event
  | FlavorsEv flavors_event | PlayersEv players_event | JobsEv jobs_event | StorageEv storage_event
  | EntriesEv entries_event | DashboardEv dash_event | SettingsEv settings_event | EntryEv entry_event
  | UploadEv ud_event

text \<open>What the browser and the libraries give to every page.\<close>

record surroundings =
  sr_t :: translator
  sr_formatDate :: "string \<Rightarrow> string"
  sr_dateText :: "string \<Rightarrow> string"
  sr_day_key :: "nat \<Rightarrow> string"
  sr_expanded :: "string \<Rightarrow> bool"
  sr_uuid :: "nat \<Rightarrow> string"
  sr_now :: int

fun admin_view :: "surroundings \<Rightarrow> admin_screen \<Rightarrow> admin_event node" where
  "admin_view r (UsersScreen d) = map_node UsersEv (UsersPage (sr_t r) (sr_formatDate r) d)"
| "admin_view r (ViewersScreen d) = map_node ViewersEv (ViewersPage (sr_t r) (sr_formatDate r) d)"
| "admin_view r (CategoriesScreen d) = map_node CategoriesEv
     (case CategoriesPage (sr_t r) d of Some v \<Rightarrow> v | None \<Rightarrow> El ''div'' [] [])"
| "admin_view r (AclsScreen d) = map_node AclsEv (DomainAclsPage (sr_t r) d)"
| "admin_view r (FlavorsScreen d) = map_node FlavorsEv (FlavorsPage (sr_t r) d)"
| "admin_view r (PlayersScreen d) = map_node PlayersEv (PlayersPage (sr_t r) d)"
| "admin_view r (JobsScreen d) = map_node JobsEv (JobsPage (sr_t r) (sr_formatDate r) d)"
| "admin_view r (StorageScreen d) = map_node StorageEv (StoragePage (sr_t r) d)"
| "admin_view r (EntriesScreen s) = map_node EntriesEv
     (case s of (cs, list, p) \<Rightarrow> EntriesPage (sr_t r) (sr_formatDate r) cs list p)"
| "admin_view r (DashboardScreen d) = map_node DashboardEv (DashboardPage (sr_t r) (sr_day_key r) (sr_dateText r) d)"
| "admin_view r (SettingsScreen p) = map_node SettingsEv (SettingsPage (sr_t r) p)"
| "admin_view r (EntryScreen i l s) = map_node EntryEv
     (case s of (e, x, dl) \<Rightarrow> EntryDetailDialog (sr_t r) (sr_formatDate r) l x e dl)"
| "admin_view r (UploadScreen w) = map_node UploadEv (UploadDialogContent (sr_t r) (sr_expanded r) w)"

definition lifted ::
  "('e \<Rightarrow> admin_event) \<Rightarrow> ('s \<Rightarrow> admin_screen) \<Rightarrow> 's \<times> 'e web_effect list \<Rightarrow> admin_screen \<times> admin_event web_effect list" where
  "lifted ev sc r = (sc (fst r), map (map_web_effect ev) (snd r))"

definition admin_step :: "surroundings \<Rightarrow> admin_event \<Rightarrow> admin_screen \<Rightarrow> admin_screen \<times> admin_event web_effect list" where
  "admin_step r e s =
     (case e of
        UsersEv x \<Rightarrow> (case s of UsersScreen d \<Rightarrow> lifted UsersEv UsersScreen (d, users_step (sr_t r) x) | _ \<Rightarrow> (s, []))
      | ViewersEv x \<Rightarrow> (case s of ViewersScreen d \<Rightarrow> lifted ViewersEv ViewersScreen (d, viewers_step (sr_t r) x) | _ \<Rightarrow> (s, []))
      | CategoriesEv x \<Rightarrow> (case s of CategoriesScreen d \<Rightarrow> lifted CategoriesEv CategoriesScreen (d, categories_step (sr_t r) x) | _ \<Rightarrow> (s, []))
      | AclsEv x \<Rightarrow> (case s of AclsScreen d \<Rightarrow> lifted AclsEv AclsScreen (d, acls_step (sr_t r) x) | _ \<Rightarrow> (s, []))
      | FlavorsEv x \<Rightarrow> (case s of FlavorsScreen d \<Rightarrow> lifted FlavorsEv FlavorsScreen (d, flavors_step (sr_t r) x) | _ \<Rightarrow> (s, []))
      | PlayersEv x \<Rightarrow> (case s of PlayersScreen d \<Rightarrow> lifted PlayersEv PlayersScreen (d, players_step (sr_t r) x) | _ \<Rightarrow> (s, []))
      | JobsEv x \<Rightarrow> (case s of JobsScreen d \<Rightarrow> lifted JobsEv JobsScreen (d, jobs_step (sr_t r) x) | _ \<Rightarrow> (s, []))
      | StorageEv x \<Rightarrow> (case s of StorageScreen d \<Rightarrow> lifted StorageEv StorageScreen (d, storage_step x) | _ \<Rightarrow> (s, []))
      | EntriesEv x \<Rightarrow> (case s of EntriesScreen d \<Rightarrow> lifted EntriesEv EntriesScreen (case d of (cs, list, p) \<Rightarrow> ((cs, list, fst (entries_step (sr_t r) x p)), snd (entries_step (sr_t r) x p))) | _ \<Rightarrow> (s, []))
      | DashboardEv x \<Rightarrow> (case s of DashboardScreen d \<Rightarrow> lifted DashboardEv DashboardScreen (dash_step x d) | _ \<Rightarrow> (s, []))
      | SettingsEv x \<Rightarrow> (case s of SettingsScreen p \<Rightarrow> lifted SettingsEv SettingsScreen (settings_step (sr_t r) x p) | _ \<Rightarrow> (s, []))
      | UploadEv x \<Rightarrow> (case s of UploadScreen w \<Rightarrow> lifted UploadEv UploadScreen (upload_screen_step (sr_t r) (sr_uuid r) (sr_now r) x w) | _ \<Rightarrow> (s, []))
      | EntryEv x \<Rightarrow> (case s of EntryScreen i l d \<Rightarrow> lifted EntryEv (EntryScreen i l) (entry_screen_step (sr_t r) i l x d) | _ \<Rightarrow> (s, [])))"

lemma interaction_map: "interaction (map_node f v) e \<Longrightarrow> \<exists>x. e = f x \<and> interaction v x"
proof -
  assume e: "interaction (map_node f v) e"
  let ?Q = "\<lambda>e. \<exists>x. e = f x \<and> interaction v x"
  have "(?Q \<circ> f) x" if "interaction v x" for x
    unfolding comp_apply by (rule exI [of _ x]) (use that in simp)
  then have "node_all (?Q \<circ> f) v" by (rule node_all_mono [OF node_all_interactions])
  then have "node_all ?Q (map_node f v)" by (simp only: node_all_map)
  from node_all_interaction [OF this e] show ?thesis .
qed

text \<open>A page keeps its contract as a screen of the application.\<close>

lemma lifted_page:
  assumes "careful_page view step" and "interaction (map_node ev (view d)) e"
  shows "\<exists>x. e = ev x \<and> \<not> list_ex dangerous (snd (lifted ev sc (step x d)))"
proof -
  obtain x where x: "e = ev x" "interaction (view d) x" using interaction_map [OF assms(2)] by blast
  have "\<not> list_ex dangerous (snd (step x d))"
    by (rule careful_page.interactions_harmless [OF assms(1) x(2)])
  then show ?thesis using x(1) by (auto simp: lifted_def list_ex_iff)
qed

interpretation admin_app: careful_page "admin_view r" "admin_step r"
proof
  fix s e
  assume e: "interaction (admin_view r s) e"
  show "\<not> list_ex dangerous (snd (admin_step r e s))"
  proof (cases s)
    case (UsersScreen d)
    then show ?thesis
      using lifted_page [OF users_page.careful_page_axioms e [unfolded UsersScreen admin_view.simps], of "UsersScreen"]
      by (elim exE conjE) (simp add: admin_step_def)
  next
    case (ViewersScreen d)
    then show ?thesis
      using lifted_page [OF viewers_page.careful_page_axioms e [unfolded ViewersScreen admin_view.simps], of "ViewersScreen"]
      by (elim exE conjE) (simp add: admin_step_def)
  next
    case (CategoriesScreen d)
    then show ?thesis
      using lifted_page [OF categories_page.careful_page_axioms e [unfolded CategoriesScreen admin_view.simps], of "CategoriesScreen"]
      by (elim exE conjE) (simp add: admin_step_def)
  next
    case (AclsScreen d)
    then show ?thesis
      using lifted_page [OF acls_page.careful_page_axioms e [unfolded AclsScreen admin_view.simps], of "AclsScreen"]
      by (elim exE conjE) (simp add: admin_step_def)
  next
    case (FlavorsScreen d)
    then show ?thesis
      using lifted_page [OF flavors_page.careful_page_axioms e [unfolded FlavorsScreen admin_view.simps], of "FlavorsScreen"]
      by (elim exE conjE) (simp add: admin_step_def)
  next
    case (PlayersScreen d)
    then show ?thesis
      using lifted_page [OF players_page.careful_page_axioms e [unfolded PlayersScreen admin_view.simps], of "PlayersScreen"]
      by (elim exE conjE) (simp add: admin_step_def)
  next
    case (JobsScreen d)
    then show ?thesis
      using lifted_page [OF jobs_page.careful_page_axioms e [unfolded JobsScreen admin_view.simps], of "JobsScreen"]
      by (elim exE conjE) (simp add: admin_step_def)
  next
    case (StorageScreen d)
    then show ?thesis
      using lifted_page [OF storage_page.careful_page_axioms e [unfolded StorageScreen admin_view.simps], of "StorageScreen"]
      by (elim exE conjE) (simp add: admin_step_def)
  next
    case (EntriesScreen d)
    then show ?thesis
      using lifted_page [OF entries_screen.careful_page_axioms e [unfolded EntriesScreen admin_view.simps], of "EntriesScreen"]
      by (elim exE conjE) (simp add: admin_step_def)
  next
    case (DashboardScreen d)
    then show ?thesis
      using lifted_page [OF dashboard_page.careful_page_axioms e [unfolded DashboardScreen admin_view.simps], of "DashboardScreen"]
      by (elim exE conjE) (simp add: admin_step_def)
  next
    case (SettingsScreen d)
    then show ?thesis
      using lifted_page [OF settings_screen.careful_page_axioms e [unfolded SettingsScreen admin_view.simps], of "SettingsScreen"]
      by (elim exE conjE) (simp add: admin_step_def)
  next
    case (EntryScreen i l d)
    then show ?thesis
      using lifted_page [OF entry_screen.careful_page_axioms [where i = i] e [unfolded EntryScreen admin_view.simps], of "EntryScreen i l"]
      by (elim exE conjE) (simp add: admin_step_def)
  next
    case (UploadScreen d)
    then show ?thesis
      using lifted_page [OF upload_screen.careful_page_axioms [where uuid = "sr_uuid r" and now = "sr_now r"] e [unfolded UploadScreen admin_view.simps], of "UploadScreen"]
      by (elim exE conjE) (simp add: admin_step_def)
  qed
qed

text \<open>C7: Nothing is deleted (DELETE), aborted (\<open>/cancel\<close>) or reprocessed (\<open>/reprocess\<close>) by a single
  click anywhere in the admin pages, the entry dialog or the upload dialog: in every session of
  clicks, typing, navigation and answers, such a request was made by a confirm box, the question
  of the box was asked before, the user confirmed it, and the action ran at most once more than
  it failed, however often the button is clicked.  The retry of a failed job (\<open>/retry\<close>) is sent
  without a question and is not among these requests.\<close>

theorem dangerous_requests_confirmed:
  assumes "session_reach (admin_view r) (admin_step r) w" and "ss_log w = pre @ (c, x) # post" and "dangerous x"
  shows "\<exists>i o' e s k. c = Some i \<and> (k, AskConfirm o' e) \<in> set pre \<and> (i, o', e) \<in> set (ss_actions w) \<and>
    x \<in> set (snd (admin_step r e s)) \<and> i \<in> set (ss_runs w) \<and>
    count_list (ss_runs w) i \<le> Suc (count_list (ss_failures w) i)"
  using assms by (rule admin_app.dangers_confirmed)

definition sample_surroundings :: surroundings where
  "sample_surroundings = \<lparr>sr_t = (\<lambda>k _. k), sr_formatDate = id, sr_dateText = id, sr_day_key = (\<lambda>_. []),
     sr_expanded = (\<lambda>_. False), sr_uuid = (\<lambda>_. []), sr_now = 0\<rparr>"

definition sample_user :: user where
  "sample_user = \<lparr>ur_id = 5, ur_email = ''a@b.c'', ur_nameSurname = ''A B'', ur_role = Editor, ur_disabled = False,
     ur_createdAt = []\<rparr>"

abbreviation "start_session \<equiv> new_session (UsersScreen (QData [sample_user]))"

definition asked_session :: "(admin_screen, admin_event) session" where
  "asked_session = run_event (admin_step sample_surroundings) None (UsersEv (AskRemoveUser sample_user)) start_session"

definition deleted_session :: "(admin_screen, admin_event) session" where
  "deleted_session = run_event (admin_step sample_surroundings) (Some ''dlg-1'') (UsersEv (RemoveUser 5))
     (asked_session\<lparr>ss_dialogs := fst (clickConfirm ''dlg-1'' (ss_dialogs asked_session)),
        ss_runs := ''dlg-1'' # ss_runs asked_session\<rparr>)"

lemma sample_texts: "gen_id (Suc 0) = ''dlg-1''" "dec_int 5 = ''5''"
  by code_simp+

lemma deleted_reach: "session_reach (admin_view sample_surroundings) (admin_step sample_surroundings) deleted_session"
proof -
  let ?r = "sample_surroundings"
  have "interaction (admin_view ?r (UsersScreen (QData [sample_user]))) (UsersEv (AskRemoveUser sample_user))"
    by (simp add: interaction_def can_cause_def UsersPage_def Let_def user_row_def table_page_def icon_click_def is_disabled_def)
  then have asked: "session_reach (admin_view ?r) (admin_step ?r) asked_session"
    unfolding asked_session_def by (intro session_interaction session_start) (simp add: new_session_def)
  have "clickConfirm ''dlg-1'' (ss_dialogs asked_session) = (fst (clickConfirm ''dlg-1'' (ss_dialogs asked_session)), True)"
    "\<exists>o'. map_of (ss_actions asked_session) ''dlg-1'' = Some (o', UsersEv (RemoveUser 5))"
    by (simp_all add: asked_session_def run_event_def admin_step_def lifted_def ask_remove_user_def ask_remove_def
        new_session_def confirm_def push_dialog_def Let_def no_dialogs_def sample_texts
        clickConfirm_def sample_user_def)
  then show ?thesis unfolding deleted_session_def using session_confirm [OF asked] by blast
qed

theorem dangerous_requests_confirmed_witness:
  "\<exists>i o' e k. (k, AskConfirm o' e) \<in> set (butlast (ss_log deleted_session)) \<and> i \<in> set (ss_runs deleted_session) \<and>
     last (ss_log deleted_session) = (Some i, Request ''DELETE'' ''/api/users/5'' None)"
proof -
  have log: "ss_log deleted_session =
      butlast (ss_log deleted_session) @ (Some ''dlg-1'', Request ''DELETE'' ''/api/users/5'' None) # []"
    by (simp add: deleted_session_def run_event_log admin_step_def lifted_def delete_request_def asked_session_def
        new_session_def run_event_def ask_remove_user_def ask_remove_def confirm_def push_dialog_def Let_def
        sample_texts)
  moreover have "last (ss_log deleted_session) = (Some ''dlg-1'', Request ''DELETE'' ''/api/users/5'' None)"
    by (subst log) simp
  ultimately show ?thesis
    using dangerous_requests_confirmed [OF deleted_reach log] by auto
qed

end
