(* ===== verification/Queries.thy ===== *)
theory Queries
  imports AdminApp
begin

text \<open>
  The queries that the admin pages share through the query client, by key and path, and what the
  successful mutations invalidate: \<open>query-provider.tsx\<close> promises that invalidation keeps every page
  that uses the same key in sync, and the entry dialog relies on it for its lists.
\<close>

subsection \<open>Queries\<close>

datatype key_part = KeyText string | KeyObj "(string \<times> json) list"

record query =
  qr_key :: "key_part list"
  qr_path :: string

definition plain_query :: "string \<Rightarrow> string \<Rightarrow> query" where
  "plain_query key path = \<lparr>qr_key = [KeyText key], qr_path = path\<rparr>"

definition users_query :: query where "users_query = plain_query ''users'' ''/api/users''"
definition viewers_query :: query where "viewers_query = plain_query ''viewers'' ''/api/viewers?limit=100''"
definition categories_query :: query where "categories_query = plain_query ''categories'' ''/api/categories''"
definition form_categories_query :: query where
  "form_categories_query = plain_query ''categories'' ''/api/categories''"
definition acls_query :: query where "acls_query = plain_query ''acls'' ''/api/acls''"
definition flavors_query :: query where "flavors_query = plain_query ''flavors'' ''/api/flavors''"
definition players_query :: query where "players_query = plain_query ''players'' ''/api/players''"
definition jobs_query :: query where "jobs_query = plain_query ''jobs'' ''/api/jobs''"
definition storage_query :: query where "storage_query = plain_query ''storage-files'' ''/api/storage/files''"
definition usage_query :: query where "usage_query = plain_query ''storage-usage'' ''/api/storage/usage''"

definition entries_query :: "entries_page \<Rightarrow> query" where
  "entries_query s = \<lparr>qr_key = [KeyText ''entries'', KeyObj [(''q'', JText (ep_q s)), (''status'', JText (ep_status s)),
      (''category'', JText (ep_category s)), (''page'', JInt (ep_page s)), (''limit'', JNat (ep_limit s))]],
     qr_path = entries_path s\<rparr>"

definition entry_categories_query :: query where
  "entry_categories_query = plain_query ''categories'' ''/api/categories''"

definition entries_page_queries :: "entries_page \<Rightarrow> query list" where
  "entries_page_queries s = [entry_categories_query, entries_query s]"

definition entry_query :: "string \<Rightarrow> query" where
  "entry_query i = \<lparr>qr_key = [KeyText ''entry'', KeyText i], qr_path = ''/api/entries/'' @ i\<rparr>"

definition analytics_query :: "string \<Rightarrow> query" where
  "analytics_query i =
     \<lparr>qr_key = [KeyText ''entry-analytics'', KeyText i], qr_path = ''/api/entries/'' @ i @ ''/analytics''\<rparr>"

text \<open>The entry dialog reads its lists under the keys of the admin pages.\<close>

definition entry_dialog_queries :: "string \<Rightarrow> query list" where
  "entry_dialog_queries i =
     [entry_query i, plain_query ''flavors'' ''/api/flavors'', plain_query ''categories'' ''/api/categories'',
      plain_query ''acls'' ''/api/acls'', plain_query ''players'' ''/api/players'', analytics_query i]"

text \<open>What is read while a screen is open: its own queries and that of the storage card in the sidebar.\<close>

fun screen_queries :: "admin_screen \<Rightarrow> query list" where
  "screen_queries (UsersScreen d) = [users_query, usage_query]"
| "screen_queries (ViewersScreen d) = [viewers_query, usage_query]"
| "screen_queries (CategoriesScreen d) = [categories_query, form_categories_query, usage_query]"
| "screen_queries (AclsScreen d) = [acls_query, usage_query]"
| "screen_queries (FlavorsScreen d) = [flavors_query, usage_query]"
| "screen_queries (PlayersScreen d) = [players_query, usage_query]"
| "screen_queries (JobsScreen d) = [jobs_query, usage_query]"
| "screen_queries (StorageScreen d) = [storage_query, usage_query]"
| "screen_queries (EntriesScreen s) = usage_query # entries_page_queries (snd (snd s))"
| "screen_queries (EntryScreen i l s) = usage_query # entry_dialog_queries i"
| "screen_queries (DashboardScreen d) = [usage_query]"
| "screen_queries (SettingsScreen p) = [usage_query]"
| "screen_queries (UploadScreen w) = [usage_query]"

subsection \<open>Mutations\<close>

text \<open>The mutations of the admin pages and dialogs, with what the server answers to a save; the last
  two are the deletions of a confirmed cancellation in the upload dialog and the title and category
  that a started URL download sends for its new entry.\<close>

datatype mutation =
    SaveUser user_form user | RemoveUserM int
  | SaveViewer viewer_form viewer_account | RemoveViewerM int
  | SaveCategory category_form category | RemoveCategoryM int
  | SaveAcl acl_form domain_acl | RemoveAclM int
  | SaveFlavor flavor_form flavor | ToggleFlavorM flavor flavor | RemoveFlavorM int
  | SavePlayer player_form player | RemovePlayerM int
  | ActOnJob int string | RetryJob int
  | RemoveEntry string | RemoveEntries "string list" | ReprocessEntries "string list"
  | SaveEntry string entry_detail entry_draft entry_dialog | ReprocessEntry string entry_dialog
  | AddSubtitle string subtitle_form | RemoveSubtitleM string int
  | CancelUrlJobs "url_job list" | SendTitle url_job string url_store

text \<open>
  The paths of what a mutation changes: its requests that are no reads, and the entries named in
  the body of the request for many.
\<close>

fun named_entries :: "json option \<Rightarrow> string list" where
  "named_entries (Some (JObj [(k, JList js)])) =
     concat (map (\<lambda>j. case j of JText i \<Rightarrow> [''/api/entries/'' @ i] | _ \<Rightarrow> []) js)"
| "named_entries _ = []"

fun touched_by :: "'a web_effect \<Rightarrow> string list" where
  "touched_by (Request m p b) =
     (if m = ''GET'' then [] else if p = ''/api/entries/reprocess'' then named_entries b else [p])"
| "touched_by _ = []"

definition touched :: "'a web_effect list \<Rightarrow> string list" where
  "touched xs = concat (map touched_by xs)"

fun invalidated_by :: "'a web_effect \<Rightarrow> string list list" where
  "invalidated_by (Invalidate k) = [k]"
| "invalidated_by _ = []"

definition invalidated :: "'a web_effect list \<Rightarrow> string list list" where
  "invalidated xs = concat (map invalidated_by xs)"

fun mutation_paths :: "translator \<Rightarrow> mutation \<Rightarrow> string list" where
  "mutation_paths t (SaveUser f u) = touched [user_request f :: unit web_effect]"
| "mutation_paths t (RemoveUserM i) = touched (users_step t (RemoveUser i))"
| "mutation_paths t (SaveViewer f v) = touched [viewer_request f :: unit web_effect]"
| "mutation_paths t (RemoveViewerM i) = touched (viewers_step t (RemoveViewer i))"
| "mutation_paths t (SaveCategory f c) = touched [category_request f :: unit web_effect]"
| "mutation_paths t (RemoveCategoryM i) = touched (categories_step t (RemoveCategory i))"
| "mutation_paths t (SaveAcl f a) = touched [acl_request f :: unit web_effect]"
| "mutation_paths t (RemoveAclM i) = touched (acls_step t (RemoveAcl i))"
| "mutation_paths t (SaveFlavor f v) = touched [flavor_request f :: unit web_effect]"
| "mutation_paths t (ToggleFlavorM f v) = touched (flavors_step t (ToggleFlavor f))"
| "mutation_paths t (RemoveFlavorM i) = touched (flavors_step t (RemoveFlavor i))"
| "mutation_paths t (SavePlayer f p) = touched [player_request f :: unit web_effect]"
| "mutation_paths t (RemovePlayerM i) = touched (players_step t (RemovePlayer i))"
| "mutation_paths t (ActOnJob i a) = touched (jobs_step t (Act i a))"
| "mutation_paths t (RetryJob i) = touched (jobs_step t (Retry i))"
| "mutation_paths t (RemoveEntry i) = touched (snd (entries_step t (DeleteEntry i) new_entries_page))"
| "mutation_paths t (RemoveEntries is) = touched (snd (entries_step t (BulkDelete is) new_entries_page))"
| "mutation_paths t (ReprocessEntries is) = touched (snd (entries_step t (BulkReprocess is) new_entries_page))"
| "mutation_paths t (SaveEntry i e d s) = touched (save_entry i e d s :: unit web_effect list)"
| "mutation_paths t (ReprocessEntry i s) = touched (snd (reprocess_entry i s :: entry_dialog \<times> unit web_effect list))"
| "mutation_paths t (AddSubtitle i f) = touched (snd (subtitle_submit i f :: subtitle_form \<times> unit web_effect list))"
| "mutation_paths t (RemoveSubtitleM i k) = touched (remove_subtitle i k :: unit web_effect list)"
| "mutation_paths t (CancelUrlJobs js) = touched (entry_deletions js)"
| "mutation_paths t (SendTitle job i s) =
     map (\<lambda>(k, b). ''/api/entries/'' @ k) (drop (length (ds_patches s)) (ds_patches (send_patch job (Some i) s)))"

text \<open>The keys that are invalidated when it has succeeded; the answers of the last two are not
  looked at.\<close>

fun mutation_keys :: "translator \<Rightarrow> mutation \<Rightarrow> string list list" where
  "mutation_keys t (SaveUser f u) = invalidated (snd (user_saved t (Ok u) f :: user_form \<times> unit web_effect list))"
| "mutation_keys t (RemoveUserM i) = invalidated (remove_user_answer t (Ok ()))"
| "mutation_keys t (SaveViewer f v) = invalidated (snd (viewer_saved t (Ok v) f :: viewer_form \<times> unit web_effect list))"
| "mutation_keys t (RemoveViewerM i) = invalidated (remove_viewer_answer t (Ok ()))"
| "mutation_keys t (SaveCategory f c) = invalidated (snd (category_saved t (Ok c) f :: category_form \<times> unit web_effect list))"
| "mutation_keys t (RemoveCategoryM i) = invalidated (remove_category_answer t (Ok ()))"
| "mutation_keys t (SaveAcl f a) = invalidated (snd (acl_saved t (Ok a) f :: acl_form \<times> unit web_effect list))"
| "mutation_keys t (RemoveAclM i) = invalidated (remove_acl_answer t (Ok ()))"
| "mutation_keys t (SaveFlavor f v) = invalidated (snd (flavor_saved t (Ok v) f :: flavor_form \<times> unit web_effect list))"
| "mutation_keys t (ToggleFlavorM f v) = invalidated (toggle_answer t f (Ok v) :: unit web_effect list)"
| "mutation_keys t (RemoveFlavorM i) = invalidated (remove_flavor_answer t (Ok ()))"
| "mutation_keys t (SavePlayer f p) = invalidated (snd (player_saved t (Ok p) f :: player_form \<times> unit web_effect list))"
| "mutation_keys t (RemovePlayerM i) = invalidated (remove_player_answer t (Ok ()))"
| "mutation_keys t (ActOnJob i a) = invalidated (jobs_over t (Act i a) (Ok ()))"
| "mutation_keys t (RetryJob i) = invalidated (jobs_over t (Retry i) (Ok ()))"
| "mutation_keys t (RemoveEntry i) = invalidated (fst (entry_deleted t (Ok ()) :: unit web_effect list \<times> bool))"
| "mutation_keys t (RemoveEntries is) = invalidated (snd (bulk_deleted t is (map (\<lambda>_. Ok ()) is) new_entries_page :: entries_page \<times> unit web_effect list))"
| "mutation_keys t (ReprocessEntries is) = invalidated (snd (reprocessed t is (Ok ()) new_entries_page :: entries_page \<times> unit web_effect list))"
| "mutation_keys t (SaveEntry i e d s) = invalidated (entry_saved t i (Ok ()) :: unit web_effect list)"
| "mutation_keys t (ReprocessEntry i s) = invalidated (snd (entry_reprocessed t i (Ok ()) s :: entry_dialog \<times> unit web_effect list))"
| "mutation_keys t (AddSubtitle i f) = invalidated (snd (subtitle_saved t i (Ok ()) f :: subtitle_form \<times> unit web_effect list))"
| "mutation_keys t (RemoveSubtitleM i k) = invalidated (remove_subtitle_answer t i (Ok ()) :: unit web_effect list)"
| "mutation_keys t (CancelUrlJobs js) = []"
| "mutation_keys t (SendTitle job i s) = []"

subsection \<open>Who reads what changes\<close>

definition without_query :: "string \<Rightarrow> string" where
  "without_query p = takeWhile (\<lambda>c. c \<noteq> CHR ''?'') p"

text \<open>
  The dependence that the paths alone show, which is a specification and no code: a path changes
  what a query reads when it is the query's path or a path below it.  What the server changes
  besides (the storage and the jobs when an entry is deleted, the entries when a category or a
  flavor is) is not in the repository's client and is not covered.
\<close>

definition reads :: "query \<Rightarrow> string \<Rightarrow> bool" where
  "reads q p \<longleftrightarrow> (let b = without_query (qr_path q) in
     starts_with p b \<and> (drop (length b) p = [] \<or> hd (drop (length b) p) = CHR ''/''))"

text \<open>\<open>invalidateQueries\<close> marks the queries whose key begins with the given one.\<close>

definition refreshed :: "string list list \<Rightarrow> query \<Rightarrow> bool" where
  "refreshed ks q \<longleftrightarrow> list_ex (\<lambda>k. take (length k) (qr_key q) = map KeyText k) ks"

text \<open>
  What stays as it was read although it changed: the list of entries after a change of subtitles
  (it shows none), the data of an entry after its deletion from the list, and, which is seen, after
  its reprocessing from the list; and the list and the entry after the two mutations of the upload
  dialog and of the URL downloads, which invalidate nothing.
\<close>

fun left_stale :: "mutation \<Rightarrow> query \<Rightarrow> bool" where
  "left_stale (AddSubtitle i f) q \<longleftrightarrow> hd (qr_key q) = KeyText ''entries''"
| "left_stale (RemoveSubtitleM i k) q \<longleftrightarrow> hd (qr_key q) = KeyText ''entries''"
| "left_stale (RemoveEntry i) q \<longleftrightarrow> hd (qr_key q) = KeyText ''entry''"
| "left_stale (RemoveEntries is) q \<longleftrightarrow> hd (qr_key q) = KeyText ''entry''"
| "left_stale (ReprocessEntries is) q \<longleftrightarrow> hd (qr_key q) = KeyText ''entry''"
| "left_stale (CancelUrlJobs js) q \<longleftrightarrow> hd (qr_key q) \<in> {KeyText ''entries'', KeyText ''entry''}"
| "left_stale (SendTitle job i s) q \<longleftrightarrow> hd (qr_key q) \<in> {KeyText ''entries'', KeyText ''entry''}"
| "left_stale _ q \<longleftrightarrow> False"

text \<open>Entry ids are parts of paths: no separators, and not the word of the request for many.\<close>

definition plain_id :: "string \<Rightarrow> bool" where
  "plain_id i \<longleftrightarrow> CHR ''/'' \<notin> set i \<and> CHR ''?'' \<notin> set i \<and> i \<noteq> ''reprocess''"

fun mutation_ids :: "mutation \<Rightarrow> string list" where
  "mutation_ids (RemoveEntry i) = [i]"
| "mutation_ids (RemoveEntries is) = is"
| "mutation_ids (ReprocessEntries is) = is"
| "mutation_ids (SaveEntry i e d s) = [i]"
| "mutation_ids (ReprocessEntry i s) = [i]"
| "mutation_ids (AddSubtitle i f) = [i]"
| "mutation_ids (RemoveSubtitleM i k) = [i]"
| "mutation_ids (CancelUrlJobs js) =
     concat (map (\<lambda>j. case dj_entryId j of Some (c # i) \<Rightarrow> [c # i] | _ \<Rightarrow> []) js)"
| "mutation_ids (SendTitle job i s) = [i]"
| "mutation_ids _ = []"

fun screen_ids :: "admin_screen \<Rightarrow> string list" where
  "screen_ids (EntryScreen i l s) = [i]"
| "screen_ids _ = []"

subsection \<open>Paths of the mutations\<close>

text \<open>The collection a mutation works on, by the key and the path its pages read it with.\<close>

fun mutation_collection :: "mutation \<Rightarrow> string" where
  "mutation_collection (SaveUser f u) = ''users''"
| "mutation_collection (RemoveUserM i) = ''users''"
| "mutation_collection (SaveViewer f v) = ''viewers''"
| "mutation_collection (RemoveViewerM i) = ''viewers''"
| "mutation_collection (SaveCategory f c) = ''categories''"
| "mutation_collection (RemoveCategoryM i) = ''categories''"
| "mutation_collection (SaveAcl f a) = ''acls''"
| "mutation_collection (RemoveAclM i) = ''acls''"
| "mutation_collection (SaveFlavor f v) = ''flavors''"
| "mutation_collection (ToggleFlavorM f v) = ''flavors''"
| "mutation_collection (RemoveFlavorM i) = ''flavors''"
| "mutation_collection (SavePlayer f p) = ''players''"
| "mutation_collection (RemovePlayerM i) = ''players''"
| "mutation_collection (ActOnJob i a) = ''jobs''"
| "mutation_collection (RetryJob i) = ''jobs''"
| "mutation_collection _ = ''entries''"

definition under :: "string \<Rightarrow> string \<Rightarrow> bool" where
  "under b p \<longleftrightarrow> starts_with p b \<and> (drop (length b) p = [] \<or> hd (drop (length b) p) = CHR ''/'')"

lemma reads_under: "reads q p \<longleftrightarrow> under (without_query (qr_path q)) p"
  by (simp add: reads_def under_def Let_def)

lemma under_split: "under b p \<Longrightarrow> \<exists>r. p = b @ r \<and> (r = [] \<or> hd r = CHR ''/'')"
  unfolding under_def starts_with_def by (metis append_take_drop_id)

lemma plain_collection:
  assumes "mutation_collection m \<noteq> ''entries''"
  shows "mutation_keys t m = [[mutation_collection m]]" "\<not> left_stale m q"
    "p \<in> set (mutation_paths t m) \<Longrightarrow> \<exists>r. p = ''/api/'' @ mutation_collection m @ r \<and> (r = [] \<or> hd r = CHR ''/'')"
proof -
  show "mutation_keys t m = [[mutation_collection m]]"
    using assms by (cases m) (simp_all add: invalidated_def user_saved_def viewer_saved_def category_saved_def
        acl_saved_def flavor_saved_def player_saved_def saved_effects_def remove_user_answer_def
        remove_viewer_answer_def remove_category_answer_def remove_acl_answer_def remove_flavor_answer_def
        remove_player_answer_def delete_answer_def toggle_answer_def act_over_def retry_over_def)
  show "\<not> left_stale m q" using assms by (cases m) simp_all
  show "\<exists>r. p = ''/api/'' @ mutation_collection m @ r \<and> (r = [] \<or> hd r = CHR ''/'')"
    if "p \<in> set (mutation_paths t m)"
    using assms that by (cases m) (simp_all add: touched_def user_request_def viewer_request_def category_request_def
        acl_request_def flavor_request_def toggle_request_def player_request_def delete_request_def act_def Let_def
        split: option.splits if_splits)
qed

lemma cancel_paths:
  "list_all plain_id (mutation_ids (CancelUrlJobs js)) \<Longrightarrow>
   mutation_paths t (CancelUrlJobs js) = map (\<lambda>i. ''/api/entries/'' @ i) (mutation_ids (CancelUrlJobs js))"
  by (induction js) (auto simp: touched_def entry_deletions_def plain_id_def split: option.splits list.splits)

text \<open>The changes of the entries: each changes one entry, or a part of it.\<close>

lemma entry_paths:
  assumes "mutation_collection m = ''entries''" and "p \<in> set (mutation_paths t m)" and "list_all plain_id (mutation_ids m)"
  shows "\<exists>i r. i \<in> set (mutation_ids m) \<and> plain_id i \<and> p = ''/api/entries/'' @ i @ r \<and>
    (r = [] \<or> r = ''/reprocess'' \<or> r = ''/subtitles'' \<or> (\<exists>k. r = ''/subtitles/'' @ dec_int k))"
proof (cases "\<exists>js. m = CancelUrlJobs js")
  case True
  then obtain js where m: "m = CancelUrlJobs js" by blast
  from assms(2) cancel_paths [OF assms(3) [unfolded m]] obtain i
    where i: "i \<in> set (mutation_ids m)" "p = ''/api/entries/'' @ i @ []"
    unfolding m by (auto simp del: mutation_paths.simps mutation_ids.simps)
  moreover have "plain_id i" using assms(3) i(1) by (auto simp: list_all_iff)
  ultimately show ?thesis by blast
next
  case False
  with assms show ?thesis
    by (cases m) (auto simp: touched_def bulkDelete_def reprocess_request_def save_entry_def reprocess_entry_def
      subtitle_submit_def remove_subtitle_def send_patch_def list_all_iff plain_id_def split: option.splits if_splits)
qed

lemma plain_prefix:
  assumes "plain_id i" and "plain_id j" and "j @ r = i @ d" and "r = [] \<or> hd r = CHR ''/''" and "d = [] \<or> hd d = CHR ''/''"
  shows "i = j \<and> r = d"
proof -
  have tw: "takeWhile (\<lambda>c. c \<noteq> CHR ''/'') (k @ x) = k" if "plain_id k" "x = [] \<or> hd x = CHR ''/''" for k x
    using that by (cases x) (auto simp: plain_id_def takeWhile_append)
  have "i = j" using tw [OF assms(1,5)] tw [OF assms(2,4)] assms(3) by simp
  then show ?thesis using assms(3) by simp
qed

lemmas query_defs = users_query_def viewers_query_def categories_query_def acls_query_def flavors_query_def
  players_query_def jobs_query_def storage_query_def usage_query_def entries_query_def entry_query_def
  analytics_query_def plain_query_def

text \<open>Everything that is read, whatever is open.\<close>

lemma screen_reads:
  assumes "q \<in> set (screen_queries s)" and "list_all plain_id (screen_ids s)"
  shows "q \<in> {users_query, viewers_query, categories_query, acls_query, flavors_query, players_query, jobs_query,
      storage_query, usage_query} \<or> (\<exists>p. q = entries_query p) \<or>
    (\<exists>i. plain_id i \<and> (q = entry_query i \<or> q = analytics_query i))"
proof -
  have "form_categories_query = categories_query" "entry_categories_query = categories_query"
    by (simp_all add: form_categories_query_def entry_categories_query_def categories_query_def)
  then show ?thesis
    using assms by (cases s) (auto simp: entries_page_queries_def entry_dialog_queries_def acls_query_def [symmetric]
        flavors_query_def [symmetric] players_query_def [symmetric] categories_query_def [symmetric])
qed

lemma query_bases:
  "without_query (qr_path users_query) = ''/api/users''" "without_query (qr_path viewers_query) = ''/api/viewers''"
  "without_query (qr_path categories_query) = ''/api/categories''" "without_query (qr_path acls_query) = ''/api/acls''"
  "without_query (qr_path flavors_query) = ''/api/flavors''" "without_query (qr_path players_query) = ''/api/players''"
  "without_query (qr_path jobs_query) = ''/api/jobs''" "without_query (qr_path storage_query) = ''/api/storage/files''"
  "without_query (qr_path usage_query) = ''/api/storage/usage''"
  "without_query (qr_path (entries_query p)) = ''/api/entries''"
  by (simp_all add: query_defs without_query_def entries_path_def)

lemma entry_bases:
  assumes "plain_id i"
  shows "without_query (qr_path (entry_query i)) = ''/api/entries/'' @ i"
    "without_query (qr_path (analytics_query i)) = ''/api/entries/'' @ i @ ''/analytics''"
proof -
  have "takeWhile (\<lambda>c. c \<noteq> CHR ''?'') (i @ x) = i @ takeWhile (\<lambda>c. c \<noteq> CHR ''?'') x" for x
    using assms by (auto simp: plain_id_def takeWhile_append)
  from this this [of "[]"] show "without_query (qr_path (entry_query i)) = ''/api/entries/'' @ i"
    "without_query (qr_path (analytics_query i)) = ''/api/entries/'' @ i @ ''/analytics''"
    by (simp_all add: query_defs without_query_def)
qed

lemma reads_collection:
  assumes "q \<in> set (screen_queries s)" and "list_all plain_id (screen_ids s)" and "reads q (''/api/'' @ c @ r)"
    and "c \<in> {''users'', ''viewers'', ''categories'', ''acls'', ''flavors'', ''players'', ''jobs''}" and "r = [] \<or> hd r = CHR ''/''"
  shows "qr_key q = [KeyText c]"
proof -
  obtain d where d: "''/api/'' @ c @ r = without_query (qr_path q) @ d"
    using under_split assms(3) unfolding reads_under by blast
  from screen_reads [OF assms(1,2)] show ?thesis
  proof (elim disjE exE conjE)
    assume "q \<in> {users_query, viewers_query, categories_query, acls_query, flavors_query, players_query, jobs_query,
      storage_query, usage_query}"
    then show ?thesis using d assms(4) by (elim insertE emptyE) (simp_all add: query_bases, simp_all add: query_defs)
  next
    fix p assume q: "q = entries_query p"
    show ?thesis using d assms(4) unfolding q query_bases by (elim insertE emptyE) simp_all
  next
    fix i assume i: "plain_id i" and q: "q = entry_query i"
    show ?thesis using d assms(4) unfolding q entry_bases [OF i] by (elim insertE emptyE) simp_all
  next
    fix i assume i: "plain_id i" and q: "q = analytics_query i"
    show ?thesis using d assms(4) unfolding q entry_bases [OF i] by (elim insertE emptyE) simp_all
  qed
qed

lemma reads_entries:
  assumes "q \<in> set (screen_queries s)" and "list_all plain_id (screen_ids s)" and "reads q (''/api/entries/'' @ i @ r)"
    and "plain_id i" and "r = [] \<or> r = ''/reprocess'' \<or> r = ''/subtitles'' \<or> (\<exists>k. r = ''/subtitles/'' @ dec_int k)"
  shows "(\<exists>p. q = entries_query p) \<or> q = entry_query i"
proof -
  obtain d where d: "''/api/entries/'' @ i @ r = without_query (qr_path q) @ d" "d = [] \<or> hd d = CHR ''/''"
    using under_split assms(3) unfolding reads_under by blast
  have r: "r = [] \<or> hd r = CHR ''/''" using assms(5) by auto
  from screen_reads [OF assms(1,2)] show ?thesis
  proof (elim disjE exE conjE)
    assume "q \<in> {users_query, viewers_query, categories_query, acls_query, flavors_query, players_query, jobs_query,
      storage_query, usage_query}"
    then show ?thesis using d(1) by (elim insertE emptyE) (simp_all add: query_bases)
  next
    fix p assume q: "q = entries_query p"
    then show ?thesis by blast
  next
    fix j assume j: "plain_id j" and q: "q = entry_query j"
    then show ?thesis using d plain_prefix [OF j assms(4) _ r] unfolding q entry_bases [OF j] by auto
  next
    fix j assume j: "plain_id j" and q: "q = analytics_query j"
    then have "i @ r = j @ ''/analytics'' @ d" using d(1) unfolding q entry_bases [OF j] by simp
    then show ?thesis using plain_prefix [OF j assms(4) _ r, of "''/analytics'' @ d"] assms(5) by auto
  qed
qed

text \<open>Queries that share a key read the same path, so they can share the answer.\<close>

lemma shared_keys:
  assumes "q \<in> set (screen_queries s)" "q' \<in> set (screen_queries s')"
    and "list_all plain_id (screen_ids s)" "list_all plain_id (screen_ids s')" and "qr_key q = qr_key q'"
  shows "qr_path q = qr_path q'"
  using screen_reads [OF assms(1,3)] screen_reads [OF assms(2,4)] assms(5)
  by (elim disjE exE conjE insertE emptyE) (simp_all add: query_defs entries_path_def entries_params_def)

lemma mutation_collections:
  "mutation_collection m \<in> {''users'', ''viewers'', ''categories'', ''acls'', ''flavors'', ''players'', ''jobs'', ''entries''}"
  by (cases m) simp_all

lemma readers_refreshed:
  assumes q: "q \<in> set (screen_queries s)" "list_all plain_id (screen_ids s)" and p: "p \<in> set (mutation_paths t m)"
    and r: "reads q p" and m: "list_all plain_id (mutation_ids m)"
  shows "refreshed (mutation_keys t m) q \<longleftrightarrow> \<not> left_stale m q"
proof (cases "mutation_collection m = ''entries''")
  case False
  obtain x where x: "p = ''/api/'' @ mutation_collection m @ x" "x = [] \<or> hd x = CHR ''/''"
    using plain_collection(3) [OF False p] by blast
  have "qr_key q = [KeyText (mutation_collection m)]"
    using reads_collection [OF q r [unfolded x(1)] _ x(2)] mutation_collections [of m] False by blast
  then show ?thesis using plain_collection(1,2) [OF False] by (simp add: refreshed_def)
next
  case True
  obtain i x where i: "i \<in> set (mutation_ids m)" "plain_id i" "p = ''/api/entries/'' @ i @ x"
    "x = [] \<or> x = ''/reprocess'' \<or> x = ''/subtitles'' \<or> (\<exists>k. x = ''/subtitles/'' @ dec_int k)"
    using entry_paths [OF True p m] by blast
  from reads_entries [OF q r [unfolded i(3)] i(2,4)] show ?thesis
  proof (elim disjE exE)
    fix e assume e: "q = entries_query e"
    show ?thesis using True unfolding e
      by (cases m) (simp_all add: refreshed_def invalidated_def entries_query_def entry_deleted_def bulk_deleted_def
          reprocessed_def entry_saved_def entry_reprocessed_def subtitle_saved_def remove_subtitle_answer_def)
  next
    assume e: "q = entry_query i"
    show ?thesis using True i(1) unfolding e
      by (cases m) (simp_all add: refreshed_def invalidated_def entry_query_def entry_deleted_def bulk_deleted_def
          reprocessed_def entry_saved_def entry_reprocessed_def subtitle_saved_def remove_subtitle_answer_def)
  qed
qed

text \<open>As far as the paths of the requests show: when a mutation has succeeded, every query of every
  screen that reads what its request changed is invalidated, but for the cases of \<open>left_stale\<close>.
  Queries that share a key read the same path.\<close>

theorem mutations_refresh_readers:
  assumes "q \<in> set (screen_queries s)" and "list_all plain_id (screen_ids s)"
  shows "(p \<in> set (mutation_paths t m) \<and> reads q p \<and> list_all plain_id (mutation_ids m) \<longrightarrow>
      (refreshed (mutation_keys t m) q \<longleftrightarrow> \<not> left_stale m q)) \<and>
    (q' \<in> set (screen_queries s') \<and> list_all plain_id (screen_ids s') \<and> qr_key q = qr_key q' \<longrightarrow>
      qr_path q = qr_path q')"
  using readers_refreshed [OF assms] shared_keys [OF assms(1) _ assms(2)] by blast

theorem mutations_refresh_readers_witness:
  "\<not> refreshed (mutation_keys (\<lambda>k _. k) (ReprocessEntries [''a1''])) (entry_query ''a1'') \<and>
   refreshed (mutation_keys (\<lambda>k _. k) (ReprocessEntries [''a1''])) (entries_query new_entries_page)"
proof -
  let ?t = "\<lambda>k (_ :: vars option). k" and ?m = "ReprocessEntries [''a1'']" and ?p = "''/api/entries/a1''"
  let ?d = "EntryScreen ''a1'' \<lparr>eq_flavors = [], eq_categories = [], eq_acls = [], eq_players = []\<rparr>
      (None, \<lparr>ex_isAdmin = False, ex_origin = None, ex_preview = None, ex_embed = \<lparr>eb_copiedDirect = False, eb_copiedSnippet = False\<rparr>, ex_analytics = None,
        ex_hover = (\<lambda>_. None)\<rparr>, new_entry_dialog)"
  let ?l = "EntriesScreen ([], None, new_entries_page)"
  have p: "?p \<in> set (mutation_paths ?t ?m)" by (simp add: touched_def reprocess_request_def)
  have ids: "list_all plain_id (screen_ids ?d)" "list_all plain_id (screen_ids ?l)" "list_all plain_id (mutation_ids ?m)"
    by (simp_all add: plain_id_def)
  have q: "entry_query ''a1'' \<in> set (screen_queries ?d)" "entries_query new_entries_page \<in> set (screen_queries ?l)"
    by (simp_all add: entry_dialog_queries_def entries_page_queries_def)
  have "reads (entry_query ''a1'') ?p" "reads (entries_query new_entries_page) ?p"
    by (simp_all add: reads_def query_bases entry_bases starts_with_def plain_id_def)
  then show ?thesis
    using mutations_refresh_readers [OF q(1) ids(1), of ?p ?t ?m] mutations_refresh_readers [OF q(2) ids(2), of ?p ?t ?m]
      p ids(3) by (simp add: entry_query_def entries_query_def)
qed

end
