(* ===== verification/Kit.thy ===== *)
theory Kit
  imports Consent
begin

text \<open>
  The element library \<open>web/components/ui\<close>: each part as a function from its properties and
  children to the element it renders.  Class names are left out, so a property that only chooses
  classes is just taken away.  An element given as \<open>render\<close> is written around the children.  The
  elements of the base library (\<open>DialogPrimitive.Popup\<close> and so on) stay what they are.

  The lemmas show that the parts without a handler of their own are transparent: whatever a page
  puts into them, the user can cause the same events as if the part were a plain element.  Some
  parts ignore their children (\<open>leaf_parts\<close>).  The addon of an input group, and with it the
  search field of a command palette, has a handler: its event is a parameter.
\<close>

type_synonym 'e kit_part = "(string \<times> 'e attr) list \<Rightarrow> 'e node list \<Rightarrow> 'e node"

subsection \<open>Properties\<close>

text \<open>The component's own properties followed by \<open>{...props}\<close>: the caller's replace those of the same name.\<close>

definition spread :: "(string \<times> 'e attr) list \<Rightarrow> (string \<times> 'e attr) list \<Rightarrow> (string \<times> 'e attr) list" where
  "spread own props = filter (\<lambda>(k, _). k \<notin> fst ` set props) own @ props"

text \<open>What is left of the properties after some were taken by name.\<close>

definition without :: "string list \<Rightarrow> (string \<times> 'e attr) list \<Rightarrow> (string \<times> 'e attr) list" where
  "without ks props = filter (\<lambda>(k, _). k \<notin> set ks) props"

text \<open>A property with its default; one passed on under another name; one read as a flag or text.\<close>

definition prop_or :: "(string \<times> 'e attr) list \<Rightarrow> string \<Rightarrow> 'e attr \<Rightarrow> 'e attr" where
  "prop_or props k d = (case map_of props k of Some a \<Rightarrow> a | None \<Rightarrow> d)"

definition opt_prop :: "(string \<times> 'e attr) list \<Rightarrow> string \<Rightarrow> string \<Rightarrow> (string \<times> 'e attr) list" where
  "opt_prop props k name = (case map_of props k of Some a \<Rightarrow> [(name, a)] | None \<Rightarrow> [])"

definition bool_prop :: "(string \<times> 'e attr) list \<Rightarrow> string \<Rightarrow> bool \<Rightarrow> bool" where
  "bool_prop props k d = (case map_of props k of Some (ABool b) \<Rightarrow> b | _ \<Rightarrow> d)"

definition text_prop :: "(string \<times> 'e attr) list \<Rightarrow> string \<Rightarrow> string \<Rightarrow> string" where
  "text_prop props k d = (case map_of props k of Some (AText s) \<Rightarrow> s | _ \<Rightarrow> d)"

text \<open>Handlers are passed under names that begin with \<open>on\<close>.\<close>

fun quiet_attr :: "'e attr \<Rightarrow> bool" where
  "quiet_attr (AEvent e) \<longleftrightarrow> False"
| "quiet_attr (AInput f) \<longleftrightarrow> False"
| "quiet_attr _ \<longleftrightarrow> True"

abbreviation handler_name :: "string \<Rightarrow> bool" where "handler_name k \<equiv> take 2 k = ''on''"

definition handlers_named :: "(string \<times> 'e attr) list \<Rightarrow> bool" where
  "handlers_named as \<longleftrightarrow> (\<forall>(k, a) \<in> set as. handler_name k \<or> quiet_attr a)"

lemma handlers_named_simps [simp]:
  "handlers_named []"
  "handlers_named (x # as) \<longleftrightarrow> (handler_name (fst x) \<or> quiet_attr (snd x)) \<and> handlers_named as"
  "handlers_named (as @ bs) \<longleftrightarrow> handlers_named as \<and> handlers_named bs"
  by (auto simp: handlers_named_def)

lemma handlers_named_kept [simp]:
  "handlers_named props \<Longrightarrow> handlers_named (without ks props)"
  "handlers_named own \<Longrightarrow> handlers_named props \<Longrightarrow> handlers_named (spread own props)"
  by (auto simp: handlers_named_def without_def spread_def)

lemma quiet_prop_or [simp]:
  assumes "handlers_named props" and "\<not> handler_name k" and "quiet_attr d"
  shows "quiet_attr (prop_or props k d)"
  using assms by (auto simp: prop_or_def handlers_named_def split: option.split dest!: map_of_SomeD)

definition quiet :: "(string \<times> 'e attr) list \<Rightarrow> bool" where
  "quiet as \<longleftrightarrow> (\<forall>a \<in> snd ` set as. quiet_attr a)"

lemma quiet_simps [simp]:
  "quiet []" "quiet (x # as) \<longleftrightarrow> quiet_attr (snd x) \<and> quiet as" "quiet (as @ bs) \<longleftrightarrow> quiet as \<and> quiet bs"
  by (auto simp: quiet_def)

lemma quiet_opt_prop [simp]:
  assumes "handlers_named props" and "\<not> handler_name k"
  shows "quiet (opt_prop props k name)"
  using assms by (auto simp: opt_prop_def handlers_named_def split: option.split dest!: map_of_SomeD)

lemma quiet_named: "quiet as \<Longrightarrow> handlers_named as"
  by (auto simp: quiet_def handlers_named_def)

definition keys :: "(string \<times> 'e attr) list \<Rightarrow> string set" where "keys as = fst ` set as"

lemma keys_simps [simp]:
  "keys [] = {}" "keys (x # as) = insert (fst x) (keys as)" "keys (as @ bs) = keys as \<union> keys bs"
  by (auto simp: keys_def)

lemma keys_opt_prop [simp]: "k \<in> keys (opt_prop props p name) \<longleftrightarrow> k = name \<and> map_of props p \<noteq> None"
  by (auto simp: opt_prop_def split: option.split)

subsection \<open>Transparency\<close>

text \<open>The events of an element with these properties and children.\<close>

definition attrs_all :: "('e \<Rightarrow> bool) \<Rightarrow> (string \<times> 'e attr) list \<Rightarrow> bool" where
  "attrs_all P as \<longleftrightarrow> is_disabled as \<or> (\<forall>a \<in> snd ` set as. attr_all P a)"

definition part_all :: "('e \<Rightarrow> bool) \<Rightarrow> (string \<times> 'e attr) list \<Rightarrow> 'e node list \<Rightarrow> bool" where
  "part_all P as vs \<longleftrightarrow> attrs_all P as \<and> (\<forall>v \<in> set vs. node_all P v)"

lemma node_all_El: "node_all P (El tag as vs) \<longleftrightarrow> part_all P as vs"
  by (simp add: part_all_def attrs_all_def)

lemma part_all_nil [simp]: "part_all P as [] \<longleftrightarrow> attrs_all P as" "attrs_all P []"
  by (simp_all add: part_all_def attrs_all_def)

lemma quiet_attr_all: "quiet_attr a \<Longrightarrow> attr_all P a"
  by (cases a) simp_all

lemma attrs_all_quiet [simp]: "quiet as \<Longrightarrow> attrs_all P as"
  by (auto simp: attrs_all_def quiet_def quiet_attr_all)

lemma attrs_all_spread [simp]:
  assumes "quiet own" and "''disabled'' \<notin> keys own"
  shows "attrs_all P (spread own props) \<longleftrightarrow> attrs_all P props"
proof -
  have "is_disabled (spread own props) = is_disabled props"
    using assms(2) by (induction own) (auto simp: spread_def is_disabled_def map_add_def)
  moreover have "(\<forall>a \<in> snd ` set (spread own props). attr_all P a) \<longleftrightarrow> (\<forall>a \<in> snd ` set props. attr_all P a)"
    using assms(1) by (auto simp: spread_def quiet_def image_iff dest!: quiet_attr_all)
  ultimately show ?thesis by (simp add: attrs_all_def)
qed

lemma attrs_all_without [simp]:
  assumes "handlers_named props" and "\<forall>k \<in> set ks. \<not> handler_name k" and "''disabled'' \<notin> set ks"
  shows "attrs_all P (without ks props) \<longleftrightarrow> attrs_all P props"
proof -
  have "is_disabled (without ks props) = is_disabled props"
    using assms(3) by (induction props) (auto simp: without_def is_disabled_def)
  moreover have "attr_all P a" if "(k, a) \<in> set props" "k \<in> set ks" for k a
  proof -
    have "quiet_attr a" using that assms(1,2) by (auto simp: handlers_named_def)
    then show ?thesis by (rule quiet_attr_all)
  qed
  then have "(\<forall>a \<in> snd ` set (without ks props). attr_all P a) \<longleftrightarrow> (\<forall>a \<in> snd ` set props. attr_all P a)"
    unfolding without_def set_filter by fastforce
  ultimately show ?thesis by (simp add: attrs_all_def)
qed

lemma part_all_spread [simp]:
  "quiet own \<Longrightarrow> ''disabled'' \<notin> keys own \<Longrightarrow> part_all P (spread own props) vs \<longleftrightarrow> part_all P props vs"
  "handlers_named props \<Longrightarrow> \<forall>k \<in> set ks. \<not> handler_name k \<Longrightarrow> ''disabled'' \<notin> set ks \<Longrightarrow>
    part_all P (without ks props) vs \<longleftrightarrow> part_all P props vs"
  by (simp_all add: part_all_def)

definition transparent :: "'e kit_part \<Rightarrow> bool" where
  "transparent f \<longleftrightarrow> (\<forall>P props vs. handlers_named props \<longrightarrow> node_all P (f props vs) = part_all P props vs)"

lemma transparentI: "(\<And>P props vs. handlers_named props \<Longrightarrow> node_all P (f props vs) = part_all P props vs) \<Longrightarrow> transparent f"
  by (simp add: transparent_def)

lemmas part_rules = node_all_El part_all_def node_all_show_if

text \<open>The texts among the children.\<close>

abbreviation shown :: "'e node list \<Rightarrow> string set" where "shown vs \<equiv> set (concat (map node_text vs))"

lemma shown_append: "shown vs \<subseteq> A \<Longrightarrow> shown vs \<subseteq> A \<union> B" "shown vs \<subseteq> shown vs \<union> B"
  by auto

subsection \<open>Button, badge, input and label\<close>

definition Button :: "'e kit_part" where
  "Button props kids =
     El ''ButtonPrimitive'' (spread [(''data-slot'', AText ''button'')] (without [''variant'', ''size''] props))
       kids"

text \<open>A badge is drawn by \<open>useRender\<close>, which turns the state into data properties.\<close>

definition Badge :: "'e kit_part" where
  "Badge props kids =
     El ''span'' (spread [(''data-slot'', AText ''badge''), (''data-variant'', prop_or props ''variant'' (AText ''default''))] (without [''variant''] props))
       kids"

definition Input :: "'e kit_part" where
  "Input props kids =
     El ''InputPrimitive'' (spread (opt_prop props ''type'' ''type'' @ [(''data-slot'', AText ''input'')]) (without [''type''] props)) kids"

definition Textarea :: "'e kit_part" where
  "Textarea props kids =
     El ''textarea'' (spread [(''data-slot'', AText ''textarea'')] props)
       kids"

definition Label :: "'e kit_part" where
  "Label props kids =
     El ''label'' (spread [(''data-slot'', AText ''label'')] props)
       kids"

definition Skeleton :: "'e kit_part" where
  "Skeleton props kids =
     El ''div'' (spread [(''data-slot'', AText ''skeleton'')] props)
       kids"

definition Separator :: "'e kit_part" where
  "Separator props kids =
     El ''SeparatorPrimitive'' (spread [(''data-slot'', AText ''separator''), (''orientation'', prop_or props ''orientation'' (AText ''horizontal''))] (without [''orientation''] props))
       kids"

definition Checkbox :: "'e kit_part" where
  "Checkbox props kids =
     El ''CheckboxPrimitive.Root'' (spread [(''data-slot'', AText ''checkbox'')] props)
       [El ''CheckboxPrimitive.Indicator'' [(''data-slot'', AText ''checkbox-indicator'')] [El ''CheckIcon'' [] []]]"

definition Switch :: "'e kit_part" where
  "Switch props kids =
     El ''SwitchPrimitive.Root'' (spread [(''data-slot'', AText ''switch''), (''data-size'', prop_or props ''size'' (AText ''default''))] (without [''size''] props))
       [El ''SwitchPrimitive.Thumb'' [(''data-slot'', AText ''switch-thumb'')] []]"

definition ScrollBar :: "'e kit_part" where
  "ScrollBar props kids =
     El ''ScrollAreaPrimitive.Scrollbar'' (spread [(''data-slot'', AText ''scroll-area-scrollbar''), (''data-orientation'', prop_or props ''orientation'' (AText ''vertical'')), (''orientation'', prop_or props ''orientation'' (AText ''vertical''))] (without [''orientation''] props))
       [El ''ScrollAreaPrimitive.Thumb'' [(''data-slot'', AText ''scroll-area-thumb'')] []]"

definition ScrollArea :: "'e kit_part" where
  "ScrollArea props kids =
     El ''ScrollAreaPrimitive.Root'' (spread [(''data-slot'', AText ''scroll-area'')] props)
       [El ''ScrollAreaPrimitive.Viewport'' [(''data-slot'', AText ''scroll-area-viewport'')] kids,
        ScrollBar [] [], El ''ScrollAreaPrimitive.Corner'' [] []]"

lemma button_parts [simp]:
  assumes "handlers_named props"
  shows "node_all P (Button props vs) \<longleftrightarrow> part_all P props vs"
    "node_all P (Badge props vs) \<longleftrightarrow> part_all P props vs"
    "node_all P (Input props vs) \<longleftrightarrow> part_all P props vs"
    "node_all P (Textarea props vs) \<longleftrightarrow> part_all P props vs"
    "node_all P (Label props vs) \<longleftrightarrow> part_all P props vs"
    "node_all P (Skeleton props vs) \<longleftrightarrow> part_all P props vs"
    "node_all P (Separator props vs) \<longleftrightarrow> part_all P props vs"
    "node_all P (Checkbox props []) \<longleftrightarrow> part_all P props []"
    "node_all P (Switch props []) \<longleftrightarrow> part_all P props []"
    "node_all P (ScrollBar props []) \<longleftrightarrow> part_all P props []"
    "node_all P (ScrollArea props vs) \<longleftrightarrow> part_all P props vs"
  using assms by (simp_all add: Button_def Badge_def Input_def Textarea_def Label_def Skeleton_def Separator_def Checkbox_def Switch_def ScrollBar_def ScrollArea_def part_rules del: node_all.simps(2))

lemma button_texts:
  "shown vs \<subseteq> set (node_text (Button props vs))"
  "shown vs \<subseteq> set (node_text (Badge props vs))"
  "shown vs \<subseteq> set (node_text (Input props vs))"
  "shown vs \<subseteq> set (node_text (Textarea props vs))"
  "shown vs \<subseteq> set (node_text (Label props vs))"
  "shown vs \<subseteq> set (node_text (Skeleton props vs))"
  "shown vs \<subseteq> set (node_text (Separator props vs))"
  "shown vs \<subseteq> set (node_text (ScrollArea props vs))"
  by (auto simp: Button_def Badge_def Input_def Textarea_def Label_def Skeleton_def Separator_def Checkbox_def Switch_def ScrollBar_def ScrollArea_def)

subsection \<open>Progress\<close>

definition ProgressIndicator :: "'e kit_part" where
  "ProgressIndicator props kids =
     El ''ProgressPrimitive.Indicator'' (spread [(''data-slot'', AText ''progress-indicator'')] props)
       kids"

definition ProgressTrack :: "'e kit_part" where
  "ProgressTrack props kids =
     El ''ProgressPrimitive.Track'' (spread [(''data-slot'', AText ''progress-track'')] props)
       kids"

definition Progress :: "'e kit_part" where
  "Progress props kids =
     El ''ProgressPrimitive.Root'' (spread (opt_prop props ''value'' ''value'' @ [(''data-slot'', AText ''progress'')]) (without [''value''] props))
       (kids @ [ProgressTrack [] [ProgressIndicator [] []]])"

definition ProgressLabel :: "'e kit_part" where
  "ProgressLabel props kids =
     El ''ProgressPrimitive.Label'' (spread [(''data-slot'', AText ''progress-label'')] props)
       kids"

definition ProgressValue :: "'e kit_part" where
  "ProgressValue props kids =
     El ''ProgressPrimitive.Value'' (spread [(''data-slot'', AText ''progress-value'')] props)
       kids"

lemma progress_parts [simp]:
  assumes "handlers_named props"
  shows "node_all P (ProgressIndicator props vs) \<longleftrightarrow> part_all P props vs"
    "node_all P (ProgressTrack props vs) \<longleftrightarrow> part_all P props vs"
    "node_all P (Progress props vs) \<longleftrightarrow> part_all P props vs"
    "node_all P (ProgressLabel props vs) \<longleftrightarrow> part_all P props vs"
    "node_all P (ProgressValue props vs) \<longleftrightarrow> part_all P props vs"
  using assms by (simp_all add: ProgressIndicator_def ProgressTrack_def Progress_def ProgressLabel_def ProgressValue_def part_rules del: node_all.simps(2))

lemma progress_texts:
  "shown vs \<subseteq> set (node_text (ProgressIndicator props vs))"
  "shown vs \<subseteq> set (node_text (ProgressTrack props vs))"
  "shown vs \<subseteq> set (node_text (Progress props vs))"
  "shown vs \<subseteq> set (node_text (ProgressLabel props vs))"
  "shown vs \<subseteq> set (node_text (ProgressValue props vs))"
  by (auto simp: ProgressIndicator_def ProgressTrack_def Progress_def ProgressLabel_def ProgressValue_def)

subsection \<open>Card, table, alert, avatar and tabs\<close>

definition Card :: "'e kit_part" where
  "Card props kids =
     El ''div'' (spread [(''data-slot'', AText ''card''), (''data-size'', prop_or props ''size'' (AText ''default''))] (without [''size''] props))
       kids"

definition CardHeader :: "'e kit_part" where
  "CardHeader props kids =
     El ''div'' (spread [(''data-slot'', AText ''card-header'')] props)
       kids"

definition CardTitle :: "'e kit_part" where
  "CardTitle props kids =
     El ''div'' (spread [(''data-slot'', AText ''card-title'')] props)
       kids"

definition CardDescription :: "'e kit_part" where
  "CardDescription props kids =
     El ''div'' (spread [(''data-slot'', AText ''card-description'')] props)
       kids"

definition CardAction :: "'e kit_part" where
  "CardAction props kids =
     El ''div'' (spread [(''data-slot'', AText ''card-action'')] props)
       kids"

definition CardContent :: "'e kit_part" where
  "CardContent props kids =
     El ''div'' (spread [(''data-slot'', AText ''card-content'')] props)
       kids"

definition CardFooter :: "'e kit_part" where
  "CardFooter props kids =
     El ''div'' (spread [(''data-slot'', AText ''card-footer'')] props)
       kids"

definition Table :: "'e kit_part" where
  "Table props kids =
     El ''div'' [(''data-slot'', AText ''table-container'')] [El ''table'' (spread [(''data-slot'', AText ''table'')] props) kids]"

definition TableHeader :: "'e kit_part" where
  "TableHeader props kids =
     El ''thead'' (spread [(''data-slot'', AText ''table-header'')] props)
       kids"

definition TableBody :: "'e kit_part" where
  "TableBody props kids =
     El ''tbody'' (spread [(''data-slot'', AText ''table-body'')] props)
       kids"

definition TableFooter :: "'e kit_part" where
  "TableFooter props kids =
     El ''tfoot'' (spread [(''data-slot'', AText ''table-footer'')] props)
       kids"

definition TableRow :: "'e kit_part" where
  "TableRow props kids =
     El ''tr'' (spread [(''data-slot'', AText ''table-row'')] props)
       kids"

definition TableHead :: "'e kit_part" where
  "TableHead props kids =
     El ''th'' (spread [(''data-slot'', AText ''table-head'')] props)
       kids"

definition TableCell :: "'e kit_part" where
  "TableCell props kids =
     El ''td'' (spread [(''data-slot'', AText ''table-cell'')] props)
       kids"

definition TableCaption :: "'e kit_part" where
  "TableCaption props kids =
     El ''caption'' (spread [(''data-slot'', AText ''table-caption'')] props)
       kids"

definition Alert :: "'e kit_part" where
  "Alert props kids =
     El ''div'' (spread [(''data-slot'', AText ''alert''), (''role'', AText ''alert'')] (without [''variant''] props))
       kids"

definition AlertTitle :: "'e kit_part" where
  "AlertTitle props kids =
     El ''div'' (spread [(''data-slot'', AText ''alert-title'')] props)
       kids"

definition AlertDescription :: "'e kit_part" where
  "AlertDescription props kids =
     El ''div'' (spread [(''data-slot'', AText ''alert-description'')] props)
       kids"

definition AlertAction :: "'e kit_part" where
  "AlertAction props kids =
     El ''div'' (spread [(''data-slot'', AText ''alert-action'')] props)
       kids"

definition Avatar :: "'e kit_part" where
  "Avatar props kids =
     El ''AvatarPrimitive.Root'' (spread [(''data-slot'', AText ''avatar''), (''data-size'', prop_or props ''size'' (AText ''default''))] (without [''size''] props))
       kids"

definition AvatarImage :: "'e kit_part" where
  "AvatarImage props kids =
     El ''AvatarPrimitive.Image'' (spread [(''data-slot'', AText ''avatar-image'')] props)
       kids"

definition AvatarFallback :: "'e kit_part" where
  "AvatarFallback props kids =
     El ''AvatarPrimitive.Fallback'' (spread [(''data-slot'', AText ''avatar-fallback'')] props)
       kids"

definition AvatarBadge :: "'e kit_part" where
  "AvatarBadge props kids =
     El ''span'' (spread [(''data-slot'', AText ''avatar-badge'')] props)
       kids"

definition AvatarGroup :: "'e kit_part" where
  "AvatarGroup props kids =
     El ''div'' (spread [(''data-slot'', AText ''avatar-group'')] props)
       kids"

definition AvatarGroupCount :: "'e kit_part" where
  "AvatarGroupCount props kids =
     El ''div'' (spread [(''data-slot'', AText ''avatar-group-count'')] props)
       kids"

definition Tabs :: "'e kit_part" where
  "Tabs props kids =
     El ''TabsPrimitive.Root'' (spread [(''data-slot'', AText ''tabs''), (''data-orientation'', prop_or props ''orientation'' (AText ''horizontal''))] (without [''orientation''] props))
       kids"

definition TabsList :: "'e kit_part" where
  "TabsList props kids =
     El ''TabsPrimitive.List'' (spread [(''data-slot'', AText ''tabs-list''), (''data-variant'', prop_or props ''variant'' (AText ''default''))] (without [''variant''] props))
       kids"

definition TabsTrigger :: "'e kit_part" where
  "TabsTrigger props kids =
     El ''TabsPrimitive.Tab'' (spread [(''data-slot'', AText ''tabs-trigger'')] props)
       kids"

definition TabsContent :: "'e kit_part" where
  "TabsContent props kids =
     El ''TabsPrimitive.Panel'' (spread [(''data-slot'', AText ''tabs-content'')] props)
       kids"

lemma card_parts [simp]:
  assumes "handlers_named props"
  shows "node_all P (Card props vs) \<longleftrightarrow> part_all P props vs"
    "node_all P (CardHeader props vs) \<longleftrightarrow> part_all P props vs"
    "node_all P (CardTitle props vs) \<longleftrightarrow> part_all P props vs"
    "node_all P (CardDescription props vs) \<longleftrightarrow> part_all P props vs"
    "node_all P (CardAction props vs) \<longleftrightarrow> part_all P props vs"
    "node_all P (CardContent props vs) \<longleftrightarrow> part_all P props vs"
    "node_all P (CardFooter props vs) \<longleftrightarrow> part_all P props vs"
    "node_all P (Table props vs) \<longleftrightarrow> part_all P props vs"
    "node_all P (TableHeader props vs) \<longleftrightarrow> part_all P props vs"
    "node_all P (TableBody props vs) \<longleftrightarrow> part_all P props vs"
    "node_all P (TableFooter props vs) \<longleftrightarrow> part_all P props vs"
    "node_all P (TableRow props vs) \<longleftrightarrow> part_all P props vs"
    "node_all P (TableHead props vs) \<longleftrightarrow> part_all P props vs"
    "node_all P (TableCell props vs) \<longleftrightarrow> part_all P props vs"
    "node_all P (TableCaption props vs) \<longleftrightarrow> part_all P props vs"
    "node_all P (Alert props vs) \<longleftrightarrow> part_all P props vs"
    "node_all P (AlertTitle props vs) \<longleftrightarrow> part_all P props vs"
    "node_all P (AlertDescription props vs) \<longleftrightarrow> part_all P props vs"
    "node_all P (AlertAction props vs) \<longleftrightarrow> part_all P props vs"
    "node_all P (Avatar props vs) \<longleftrightarrow> part_all P props vs"
    "node_all P (AvatarImage props vs) \<longleftrightarrow> part_all P props vs"
    "node_all P (AvatarFallback props vs) \<longleftrightarrow> part_all P props vs"
    "node_all P (AvatarBadge props vs) \<longleftrightarrow> part_all P props vs"
    "node_all P (AvatarGroup props vs) \<longleftrightarrow> part_all P props vs"
    "node_all P (AvatarGroupCount props vs) \<longleftrightarrow> part_all P props vs"
    "node_all P (Tabs props vs) \<longleftrightarrow> part_all P props vs"
    "node_all P (TabsList props vs) \<longleftrightarrow> part_all P props vs"
    "node_all P (TabsTrigger props vs) \<longleftrightarrow> part_all P props vs"
    "node_all P (TabsContent props vs) \<longleftrightarrow> part_all P props vs"
  using assms by (simp_all add: Card_def CardHeader_def CardTitle_def CardDescription_def CardAction_def CardContent_def CardFooter_def Table_def TableHeader_def TableBody_def TableFooter_def TableRow_def TableHead_def TableCell_def TableCaption_def Alert_def AlertTitle_def AlertDescription_def AlertAction_def Avatar_def AvatarImage_def AvatarFallback_def AvatarBadge_def AvatarGroup_def AvatarGroupCount_def Tabs_def TabsList_def TabsTrigger_def TabsContent_def part_rules del: node_all.simps(2))

lemma card_texts:
  "shown vs \<subseteq> set (node_text (Card props vs))"
  "shown vs \<subseteq> set (node_text (CardHeader props vs))"
  "shown vs \<subseteq> set (node_text (CardTitle props vs))"
  "shown vs \<subseteq> set (node_text (CardDescription props vs))"
  "shown vs \<subseteq> set (node_text (CardAction props vs))"
  "shown vs \<subseteq> set (node_text (CardContent props vs))"
  "shown vs \<subseteq> set (node_text (CardFooter props vs))"
  "shown vs \<subseteq> set (node_text (Table props vs))"
  "shown vs \<subseteq> set (node_text (TableHeader props vs))"
  "shown vs \<subseteq> set (node_text (TableBody props vs))"
  "shown vs \<subseteq> set (node_text (TableFooter props vs))"
  "shown vs \<subseteq> set (node_text (TableRow props vs))"
  "shown vs \<subseteq> set (node_text (TableHead props vs))"
  "shown vs \<subseteq> set (node_text (TableCell props vs))"
  "shown vs \<subseteq> set (node_text (TableCaption props vs))"
  "shown vs \<subseteq> set (node_text (Alert props vs))"
  "shown vs \<subseteq> set (node_text (AlertTitle props vs))"
  "shown vs \<subseteq> set (node_text (AlertDescription props vs))"
  "shown vs \<subseteq> set (node_text (AlertAction props vs))"
  "shown vs \<subseteq> set (node_text (Avatar props vs))"
  "shown vs \<subseteq> set (node_text (AvatarImage props vs))"
  "shown vs \<subseteq> set (node_text (AvatarFallback props vs))"
  "shown vs \<subseteq> set (node_text (AvatarBadge props vs))"
  "shown vs \<subseteq> set (node_text (AvatarGroup props vs))"
  "shown vs \<subseteq> set (node_text (AvatarGroupCount props vs))"
  "shown vs \<subseteq> set (node_text (Tabs props vs))"
  "shown vs \<subseteq> set (node_text (TabsList props vs))"
  "shown vs \<subseteq> set (node_text (TabsTrigger props vs))"
  "shown vs \<subseteq> set (node_text (TabsContent props vs))"
  by (auto simp: Card_def CardHeader_def CardTitle_def CardDescription_def CardAction_def CardContent_def CardFooter_def Table_def TableHeader_def TableBody_def TableFooter_def TableRow_def TableHead_def TableCell_def TableCaption_def Alert_def AlertTitle_def AlertDescription_def AlertAction_def Avatar_def AvatarImage_def AvatarFallback_def AvatarBadge_def AvatarGroup_def AvatarGroupCount_def Tabs_def TabsList_def TabsTrigger_def TabsContent_def)

subsection \<open>Breadcrumb\<close>

definition Breadcrumb :: "'e kit_part" where
  "Breadcrumb props kids =
     El ''nav'' (spread [(''aria-label'', AText ''breadcrumb''), (''data-slot'', AText ''breadcrumb'')] props)
       kids"

definition BreadcrumbList :: "'e kit_part" where
  "BreadcrumbList props kids =
     El ''ol'' (spread [(''data-slot'', AText ''breadcrumb-list'')] props)
       kids"

definition BreadcrumbItem :: "'e kit_part" where
  "BreadcrumbItem props kids =
     El ''li'' (spread [(''data-slot'', AText ''breadcrumb-item'')] props)
       kids"

definition BreadcrumbLink :: "'e kit_part" where
  "BreadcrumbLink props kids =
     El ''a'' (spread [(''data-slot'', AText ''breadcrumb-link'')] props)
       kids"

definition BreadcrumbPage :: "'e kit_part" where
  "BreadcrumbPage props kids =
     El ''span'' (spread [(''data-slot'', AText ''breadcrumb-page''), (''role'', AText ''link''), (''aria-disabled'', AText ''true''), (''aria-current'', AText ''page'')] props)
       kids"

definition BreadcrumbSeparator :: "'e kit_part" where
  "BreadcrumbSeparator props kids =
     El ''li'' (spread [(''data-slot'', AText ''breadcrumb-separator''), (''role'', AText ''presentation''), (''aria-hidden'', AText ''true'')] props)
       (if kids = [] then [El ''ChevronRightIcon'' [] []] else kids)"

definition BreadcrumbEllipsis :: "translator \<Rightarrow> 'e kit_part" where
  "BreadcrumbEllipsis t props kids =
     El ''span'' (spread [(''data-slot'', AText ''breadcrumb-ellipsis''), (''role'', AText ''presentation''), (''aria-hidden'', AText ''true'')] props)
       [El ''MoreHorizontalIcon'' [] [], El ''span'' [] [Txt (tx t ''srMore'')]]"

lemma breadcrumb_parts [simp]:
  assumes "handlers_named props"
  shows "node_all P (Breadcrumb props vs) \<longleftrightarrow> part_all P props vs"
    "node_all P (BreadcrumbList props vs) \<longleftrightarrow> part_all P props vs"
    "node_all P (BreadcrumbItem props vs) \<longleftrightarrow> part_all P props vs"
    "node_all P (BreadcrumbLink props vs) \<longleftrightarrow> part_all P props vs"
    "node_all P (BreadcrumbPage props vs) \<longleftrightarrow> part_all P props vs"
    "node_all P (BreadcrumbSeparator props vs) \<longleftrightarrow> part_all P props vs"
    "node_all P (BreadcrumbEllipsis t props []) \<longleftrightarrow> part_all P props []"
  using assms by (simp_all add: Breadcrumb_def BreadcrumbList_def BreadcrumbItem_def BreadcrumbLink_def BreadcrumbPage_def BreadcrumbSeparator_def BreadcrumbEllipsis_def part_rules del: node_all.simps(2))

lemma breadcrumb_texts:
  "shown vs \<subseteq> set (node_text (Breadcrumb props vs))"
  "shown vs \<subseteq> set (node_text (BreadcrumbList props vs))"
  "shown vs \<subseteq> set (node_text (BreadcrumbItem props vs))"
  "shown vs \<subseteq> set (node_text (BreadcrumbLink props vs))"
  "shown vs \<subseteq> set (node_text (BreadcrumbPage props vs))"
  "shown vs \<subseteq> set (node_text (BreadcrumbSeparator props vs))"
  by (auto simp: Breadcrumb_def BreadcrumbList_def BreadcrumbItem_def BreadcrumbLink_def BreadcrumbPage_def BreadcrumbSeparator_def BreadcrumbEllipsis_def)

subsection \<open>Dialog, alert dialog and sheet\<close>

definition Dialog :: "'e kit_part" where
  "Dialog props kids =
     El ''DialogPrimitive.Root'' (spread [(''data-slot'', AText ''dialog'')] props)
       kids"

definition DialogTrigger :: "'e kit_part" where
  "DialogTrigger props kids =
     El ''DialogPrimitive.Trigger'' (spread [(''data-slot'', AText ''dialog-trigger'')] props)
       kids"

definition DialogPortal :: "'e kit_part" where
  "DialogPortal props kids =
     El ''DialogPrimitive.Portal'' (spread [(''data-slot'', AText ''dialog-portal'')] props)
       kids"

definition DialogClose :: "'e kit_part" where
  "DialogClose props kids =
     El ''DialogPrimitive.Close'' (spread [(''data-slot'', AText ''dialog-close'')] props)
       kids"

definition DialogOverlay :: "'e kit_part" where
  "DialogOverlay props kids =
     El ''DialogPrimitive.Backdrop'' (spread [(''data-slot'', AText ''dialog-overlay'')] props)
       kids"

definition DialogTitle :: "'e kit_part" where
  "DialogTitle props kids =
     El ''DialogPrimitive.Title'' (spread [(''data-slot'', AText ''dialog-title'')] props)
       kids"

definition DialogDescription :: "'e kit_part" where
  "DialogDescription props kids =
     El ''DialogPrimitive.Description'' (spread [(''data-slot'', AText ''dialog-description'')] props)
       kids"

definition DialogHeader :: "'e kit_part" where
  "DialogHeader props kids =
     El ''div'' (spread [(''data-slot'', AText ''dialog-header'')] props)
       kids"

definition DialogContent :: "translator \<Rightarrow> 'e kit_part" where
  "DialogContent t props kids =
     DialogPortal [] [DialogOverlay [] [],
       El ''DialogPrimitive.Popup'' (spread [(''data-slot'', AText ''dialog-content'')] (without [''showCloseButton''] props))
         (kids @ show_if (bool_prop props ''showCloseButton'' True)
           (El ''DialogPrimitive.Close'' [(''data-slot'', AText ''dialog-close'')]
             [Button [(''variant'', AText ''ghost''), (''size'', AText ''icon-sm'')]
               [El ''XIcon'' [] [], El ''span'' [] [Txt (tx t ''srClose'')]]]))]"

definition DialogFooter :: "'e kit_part" where
  "DialogFooter props kids =
     El ''div'' (spread [(''data-slot'', AText ''dialog-footer'')] (without [''showCloseButton''] props))
       (kids @ show_if (bool_prop props ''showCloseButton'' False)
         (El ''DialogPrimitive.Close'' [] [Button [(''variant'', AText ''outline'')] [Txt ''Close'']]))"

definition AlertDialog :: "'e kit_part" where
  "AlertDialog props kids =
     El ''AlertDialogPrimitive.Root'' (spread [(''data-slot'', AText ''alert-dialog'')] props)
       kids"

definition AlertDialogTrigger :: "'e kit_part" where
  "AlertDialogTrigger props kids =
     El ''AlertDialogPrimitive.Trigger'' (spread [(''data-slot'', AText ''alert-dialog-trigger'')] props)
       kids"

definition AlertDialogPortal :: "'e kit_part" where
  "AlertDialogPortal props kids =
     El ''AlertDialogPrimitive.Portal'' (spread [(''data-slot'', AText ''alert-dialog-portal'')] props)
       kids"

definition AlertDialogOverlay :: "'e kit_part" where
  "AlertDialogOverlay props kids =
     El ''AlertDialogPrimitive.Backdrop'' (spread [(''data-slot'', AText ''alert-dialog-overlay'')] props)
       kids"

definition AlertDialogTitle :: "'e kit_part" where
  "AlertDialogTitle props kids =
     El ''AlertDialogPrimitive.Title'' (spread [(''data-slot'', AText ''alert-dialog-title'')] props)
       kids"

definition AlertDialogDescription :: "'e kit_part" where
  "AlertDialogDescription props kids =
     El ''AlertDialogPrimitive.Description'' (spread [(''data-slot'', AText ''alert-dialog-description'')] props)
       kids"

definition AlertDialogContent :: "'e kit_part" where
  "AlertDialogContent props kids =
     AlertDialogPortal [] [AlertDialogOverlay [] [],
       El ''AlertDialogPrimitive.Popup''
         (spread [(''data-slot'', AText ''alert-dialog-content''), (''data-size'', prop_or props ''size'' (AText ''default''))]
           (without [''size''] props)) kids]"

definition AlertDialogHeader :: "'e kit_part" where
  "AlertDialogHeader props kids =
     El ''div'' (spread [(''data-slot'', AText ''alert-dialog-header'')] props)
       kids"

definition AlertDialogFooter :: "'e kit_part" where
  "AlertDialogFooter props kids =
     El ''div'' (spread [(''data-slot'', AText ''alert-dialog-footer'')] props)
       kids"

definition AlertDialogMedia :: "'e kit_part" where
  "AlertDialogMedia props kids =
     El ''div'' (spread [(''data-slot'', AText ''alert-dialog-media'')] props)
       kids"

definition AlertDialogAction :: "'e kit_part" where
  "AlertDialogAction props kids =
     Button (spread [(''data-slot'', AText ''alert-dialog-action'')] props) kids"

definition AlertDialogCancel :: "'e kit_part" where
  "AlertDialogCancel props kids =
     El ''AlertDialogPrimitive.Close''
       (spread [(''data-slot'', AText ''alert-dialog-cancel'')] (without [''variant'', ''size''] props))
       [Button [(''variant'', prop_or props ''variant'' (AText ''outline'')), (''size'', prop_or props ''size'' (AText ''default''))] kids]"

definition Sheet :: "'e kit_part" where
  "Sheet props kids =
     El ''SheetPrimitive.Root'' (spread [(''data-slot'', AText ''sheet'')] props)
       kids"

definition SheetTrigger :: "'e kit_part" where
  "SheetTrigger props kids =
     El ''SheetPrimitive.Trigger'' (spread [(''data-slot'', AText ''sheet-trigger'')] props)
       kids"

definition SheetClose :: "'e kit_part" where
  "SheetClose props kids =
     El ''SheetPrimitive.Close'' (spread [(''data-slot'', AText ''sheet-close'')] props)
       kids"

definition SheetPortal :: "'e kit_part" where
  "SheetPortal props kids =
     El ''SheetPrimitive.Portal'' (spread [(''data-slot'', AText ''sheet-portal'')] props)
       kids"

definition SheetOverlay :: "'e kit_part" where
  "SheetOverlay props kids =
     El ''SheetPrimitive.Backdrop'' (spread [(''data-slot'', AText ''sheet-overlay'')] props)
       kids"

definition SheetTitle :: "'e kit_part" where
  "SheetTitle props kids =
     El ''SheetPrimitive.Title'' (spread [(''data-slot'', AText ''sheet-title'')] props)
       kids"

definition SheetDescription :: "'e kit_part" where
  "SheetDescription props kids =
     El ''SheetPrimitive.Description'' (spread [(''data-slot'', AText ''sheet-description'')] props)
       kids"

definition SheetHeader :: "'e kit_part" where
  "SheetHeader props kids =
     El ''div'' (spread [(''data-slot'', AText ''sheet-header'')] props)
       kids"

definition SheetFooter :: "'e kit_part" where
  "SheetFooter props kids =
     El ''div'' (spread [(''data-slot'', AText ''sheet-footer'')] props)
       kids"

definition SheetContent :: "translator \<Rightarrow> 'e kit_part" where
  "SheetContent t props kids =
     SheetPortal [] [SheetOverlay [] [],
       El ''SheetPrimitive.Popup''
         (spread [(''data-slot'', AText ''sheet-content''), (''data-side'', prop_or props ''side'' (AText ''right''))]
           (without [''side'', ''showCloseButton''] props))
         (kids @ show_if (bool_prop props ''showCloseButton'' True)
           (El ''SheetPrimitive.Close'' [(''data-slot'', AText ''sheet-close'')]
             [Button [(''variant'', AText ''ghost''), (''size'', AText ''icon-sm'')]
               [El ''XIcon'' [] [], El ''span'' [] [Txt (tx t ''srClose'')]]]))]"

lemma dialog_parts [simp]:
  assumes "handlers_named props"
  shows "node_all P (Dialog props vs) \<longleftrightarrow> part_all P props vs"
    "node_all P (DialogTrigger props vs) \<longleftrightarrow> part_all P props vs"
    "node_all P (DialogPortal props vs) \<longleftrightarrow> part_all P props vs"
    "node_all P (DialogClose props vs) \<longleftrightarrow> part_all P props vs"
    "node_all P (DialogOverlay props vs) \<longleftrightarrow> part_all P props vs"
    "node_all P (DialogTitle props vs) \<longleftrightarrow> part_all P props vs"
    "node_all P (DialogDescription props vs) \<longleftrightarrow> part_all P props vs"
    "node_all P (DialogHeader props vs) \<longleftrightarrow> part_all P props vs"
    "node_all P (DialogContent t props vs) \<longleftrightarrow> part_all P props vs"
    "node_all P (DialogFooter props vs) \<longleftrightarrow> part_all P props vs"
    "node_all P (AlertDialog props vs) \<longleftrightarrow> part_all P props vs"
    "node_all P (AlertDialogTrigger props vs) \<longleftrightarrow> part_all P props vs"
    "node_all P (AlertDialogPortal props vs) \<longleftrightarrow> part_all P props vs"
    "node_all P (AlertDialogOverlay props vs) \<longleftrightarrow> part_all P props vs"
    "node_all P (AlertDialogTitle props vs) \<longleftrightarrow> part_all P props vs"
    "node_all P (AlertDialogDescription props vs) \<longleftrightarrow> part_all P props vs"
    "node_all P (AlertDialogContent props vs) \<longleftrightarrow> part_all P props vs"
    "node_all P (AlertDialogHeader props vs) \<longleftrightarrow> part_all P props vs"
    "node_all P (AlertDialogFooter props vs) \<longleftrightarrow> part_all P props vs"
    "node_all P (AlertDialogMedia props vs) \<longleftrightarrow> part_all P props vs"
    "node_all P (AlertDialogAction props vs) \<longleftrightarrow> part_all P props vs"
    "node_all P (AlertDialogCancel props vs) \<longleftrightarrow> part_all P props vs"
    "node_all P (Sheet props vs) \<longleftrightarrow> part_all P props vs"
    "node_all P (SheetTrigger props vs) \<longleftrightarrow> part_all P props vs"
    "node_all P (SheetClose props vs) \<longleftrightarrow> part_all P props vs"
    "node_all P (SheetPortal props vs) \<longleftrightarrow> part_all P props vs"
    "node_all P (SheetOverlay props vs) \<longleftrightarrow> part_all P props vs"
    "node_all P (SheetTitle props vs) \<longleftrightarrow> part_all P props vs"
    "node_all P (SheetDescription props vs) \<longleftrightarrow> part_all P props vs"
    "node_all P (SheetHeader props vs) \<longleftrightarrow> part_all P props vs"
    "node_all P (SheetFooter props vs) \<longleftrightarrow> part_all P props vs"
    "node_all P (SheetContent t props vs) \<longleftrightarrow> part_all P props vs"
  using assms by (simp_all add: Dialog_def DialogTrigger_def DialogPortal_def DialogClose_def DialogOverlay_def DialogTitle_def DialogDescription_def DialogHeader_def DialogContent_def DialogFooter_def AlertDialog_def AlertDialogTrigger_def AlertDialogPortal_def AlertDialogOverlay_def AlertDialogTitle_def AlertDialogDescription_def AlertDialogContent_def AlertDialogHeader_def AlertDialogFooter_def AlertDialogMedia_def AlertDialogAction_def AlertDialogCancel_def Sheet_def SheetTrigger_def SheetClose_def SheetPortal_def SheetOverlay_def SheetTitle_def SheetDescription_def SheetHeader_def SheetFooter_def SheetContent_def part_rules del: node_all.simps(2))

lemma dialog_texts:
  "shown vs \<subseteq> set (node_text (Dialog props vs))"
  "shown vs \<subseteq> set (node_text (DialogTrigger props vs))"
  "shown vs \<subseteq> set (node_text (DialogPortal props vs))"
  "shown vs \<subseteq> set (node_text (DialogClose props vs))"
  "shown vs \<subseteq> set (node_text (DialogOverlay props vs))"
  "shown vs \<subseteq> set (node_text (DialogTitle props vs))"
  "shown vs \<subseteq> set (node_text (DialogDescription props vs))"
  "shown vs \<subseteq> set (node_text (DialogHeader props vs))"
  "shown vs \<subseteq> set (node_text (DialogContent t props vs))"
  "shown vs \<subseteq> set (node_text (DialogFooter props vs))"
  "shown vs \<subseteq> set (node_text (AlertDialog props vs))"
  "shown vs \<subseteq> set (node_text (AlertDialogTrigger props vs))"
  "shown vs \<subseteq> set (node_text (AlertDialogPortal props vs))"
  "shown vs \<subseteq> set (node_text (AlertDialogOverlay props vs))"
  "shown vs \<subseteq> set (node_text (AlertDialogTitle props vs))"
  "shown vs \<subseteq> set (node_text (AlertDialogDescription props vs))"
  "shown vs \<subseteq> set (node_text (AlertDialogContent props vs))"
  "shown vs \<subseteq> set (node_text (AlertDialogHeader props vs))"
  "shown vs \<subseteq> set (node_text (AlertDialogFooter props vs))"
  "shown vs \<subseteq> set (node_text (AlertDialogMedia props vs))"
  "shown vs \<subseteq> set (node_text (AlertDialogAction props vs))"
  "shown vs \<subseteq> set (node_text (AlertDialogCancel props vs))"
  "shown vs \<subseteq> set (node_text (Sheet props vs))"
  "shown vs \<subseteq> set (node_text (SheetTrigger props vs))"
  "shown vs \<subseteq> set (node_text (SheetClose props vs))"
  "shown vs \<subseteq> set (node_text (SheetPortal props vs))"
  "shown vs \<subseteq> set (node_text (SheetOverlay props vs))"
  "shown vs \<subseteq> set (node_text (SheetTitle props vs))"
  "shown vs \<subseteq> set (node_text (SheetDescription props vs))"
  "shown vs \<subseteq> set (node_text (SheetHeader props vs))"
  "shown vs \<subseteq> set (node_text (SheetFooter props vs))"
  "shown vs \<subseteq> set (node_text (SheetContent t props vs))"
  by (auto simp: Dialog_def DialogTrigger_def DialogPortal_def DialogClose_def DialogOverlay_def DialogTitle_def DialogDescription_def DialogHeader_def DialogContent_def DialogFooter_def AlertDialog_def AlertDialogTrigger_def AlertDialogPortal_def AlertDialogOverlay_def AlertDialogTitle_def AlertDialogDescription_def AlertDialogContent_def AlertDialogHeader_def AlertDialogFooter_def AlertDialogMedia_def AlertDialogAction_def AlertDialogCancel_def Sheet_def SheetTrigger_def SheetClose_def SheetPortal_def SheetOverlay_def SheetTitle_def SheetDescription_def SheetHeader_def SheetFooter_def SheetContent_def Button_def)

subsection \<open>Popover, tooltip and dropdown menu\<close>

definition Popover :: "'e kit_part" where
  "Popover props kids =
     El ''PopoverPrimitive.Root'' (spread [(''data-slot'', AText ''popover'')] props)
       kids"

definition PopoverTrigger :: "'e kit_part" where
  "PopoverTrigger props kids =
     El ''PopoverPrimitive.Trigger'' (spread [(''data-slot'', AText ''popover-trigger'')] props)
       kids"

definition PopoverTitle :: "'e kit_part" where
  "PopoverTitle props kids =
     El ''PopoverPrimitive.Title'' (spread [(''data-slot'', AText ''popover-title'')] props)
       kids"

definition PopoverDescription :: "'e kit_part" where
  "PopoverDescription props kids =
     El ''PopoverPrimitive.Description'' (spread [(''data-slot'', AText ''popover-description'')] props)
       kids"

definition PopoverHeader :: "'e kit_part" where
  "PopoverHeader props kids =
     El ''div'' (spread [(''data-slot'', AText ''popover-header'')] props)
       kids"

definition PopoverContent :: "'e kit_part" where
  "PopoverContent props kids =
     El ''PopoverPrimitive.Portal'' [] [El ''PopoverPrimitive.Positioner''
       [(''align'', prop_or props ''align'' (AText ''center'')), (''alignOffset'', prop_or props ''alignOffset'' (ANum (Fin 0))),
        (''side'', prop_or props ''side'' (AText ''bottom'')), (''sideOffset'', prop_or props ''sideOffset'' (ANum (Fin 4)))]
       [El ''PopoverPrimitive.Popup'' (spread [(''data-slot'', AText ''popover-content'')] (without [''align'', ''alignOffset'', ''side'', ''sideOffset''] props)) kids]]"

definition TooltipProvider :: "'e kit_part" where
  "TooltipProvider props kids =
     El ''TooltipPrimitive.Provider''
       (spread [(''data-slot'', AText ''tooltip-provider''), (''delay'', prop_or props ''delay'' (ANum (Fin 0)))] (without [''delay''] props)) kids"

definition Tooltip :: "'e kit_part" where
  "Tooltip props kids =
     El ''TooltipPrimitive.Root'' (spread [(''data-slot'', AText ''tooltip'')] props)
       kids"

definition TooltipTrigger :: "'e kit_part" where
  "TooltipTrigger props kids =
     El ''TooltipPrimitive.Trigger'' (spread [(''data-slot'', AText ''tooltip-trigger'')] props)
       kids"

definition TooltipContent :: "'e kit_part" where
  "TooltipContent props kids =
     El ''TooltipPrimitive.Portal'' [] [El ''TooltipPrimitive.Positioner''
       [(''align'', prop_or props ''align'' (AText ''center'')), (''alignOffset'', prop_or props ''alignOffset'' (ANum (Fin 0))),
        (''side'', prop_or props ''side'' (AText ''top'')), (''sideOffset'', prop_or props ''sideOffset'' (ANum (Fin 4)))]
       [El ''TooltipPrimitive.Popup'' (spread [(''data-slot'', AText ''tooltip-content'')] (without [''align'', ''alignOffset'', ''side'', ''sideOffset''] props)) (kids @ [El ''TooltipPrimitive.Arrow'' [] []])]]"

definition DropdownMenu :: "'e kit_part" where
  "DropdownMenu props kids =
     El ''MenuPrimitive.Root'' (spread [(''data-slot'', AText ''dropdown-menu'')] props)
       kids"

definition DropdownMenuPortal :: "'e kit_part" where
  "DropdownMenuPortal props kids =
     El ''MenuPrimitive.Portal'' (spread [(''data-slot'', AText ''dropdown-menu-portal'')] props)
       kids"

definition DropdownMenuTrigger :: "'e kit_part" where
  "DropdownMenuTrigger props kids =
     El ''MenuPrimitive.Trigger'' (spread [(''data-slot'', AText ''dropdown-menu-trigger'')] props)
       kids"

definition DropdownMenuGroup :: "'e kit_part" where
  "DropdownMenuGroup props kids =
     El ''MenuPrimitive.Group'' (spread [(''data-slot'', AText ''dropdown-menu-group'')] props)
       kids"

definition DropdownMenuSub :: "'e kit_part" where
  "DropdownMenuSub props kids =
     El ''MenuPrimitive.SubmenuRoot'' (spread [(''data-slot'', AText ''dropdown-menu-sub'')] props)
       kids"

definition DropdownMenuRadioGroup :: "'e kit_part" where
  "DropdownMenuRadioGroup props kids =
     El ''MenuPrimitive.RadioGroup'' (spread [(''data-slot'', AText ''dropdown-menu-radio-group'')] props)
       kids"

definition DropdownMenuSeparator :: "'e kit_part" where
  "DropdownMenuSeparator props kids =
     El ''MenuPrimitive.Separator'' (spread [(''data-slot'', AText ''dropdown-menu-separator'')] props)
       kids"

definition DropdownMenuContent :: "'e kit_part" where
  "DropdownMenuContent props kids =
     El ''MenuPrimitive.Portal'' [] [El ''MenuPrimitive.Positioner''
       [(''align'', prop_or props ''align'' (AText ''start'')), (''alignOffset'', prop_or props ''alignOffset'' (ANum (Fin 0))),
        (''side'', prop_or props ''side'' (AText ''bottom'')), (''sideOffset'', prop_or props ''sideOffset'' (ANum (Fin 4)))]
       [El ''MenuPrimitive.Popup'' (spread [(''data-slot'', AText ''dropdown-menu-content'')] (without [''align'', ''alignOffset'', ''side'', ''sideOffset''] props)) kids]]"

definition DropdownMenuLabel :: "'e kit_part" where
  "DropdownMenuLabel props kids =
     El ''MenuPrimitive.GroupLabel'' (spread ([(''data-slot'', AText ''dropdown-menu-label'')] @ opt_prop props ''inset'' ''data-inset'') (without [''inset''] props))
       kids"

definition DropdownMenuItem :: "'e kit_part" where
  "DropdownMenuItem props kids =
     El ''MenuPrimitive.Item''
       (spread ([(''data-slot'', AText ''dropdown-menu-item'')] @ opt_prop props ''inset'' ''data-inset'' @
          [(''data-variant'', prop_or props ''variant'' (AText ''default''))]) (without [''inset'', ''variant''] props)) kids"

definition DropdownMenuSubTrigger :: "'e kit_part" where
  "DropdownMenuSubTrigger props kids =
     El ''MenuPrimitive.SubmenuTrigger'' (spread ([(''data-slot'', AText ''dropdown-menu-sub-trigger'')] @ opt_prop props ''inset'' ''data-inset'') (without [''inset''] props))
       (kids @ [El ''ChevronRightIcon'' [] []])"

definition DropdownMenuSubContent :: "'e kit_part" where
  "DropdownMenuSubContent props kids =
     DropdownMenuContent (spread
       [(''data-slot'', AText ''dropdown-menu-sub-content''), (''align'', prop_or props ''align'' (AText ''start'')),
        (''alignOffset'', prop_or props ''alignOffset'' (ANum (Fin (-3)))), (''side'', prop_or props ''side'' (AText ''right'')),
        (''sideOffset'', prop_or props ''sideOffset'' (ANum (Fin 0)))]
       (without [''align'', ''alignOffset'', ''side'', ''sideOffset''] props)) kids"

definition DropdownMenuCheckboxItem :: "'e kit_part" where
  "DropdownMenuCheckboxItem props kids =
     El ''MenuPrimitive.CheckboxItem''
       (spread ([(''data-slot'', AText ''dropdown-menu-checkbox-item'')] @ opt_prop props ''inset'' ''data-inset'' @
          opt_prop props ''checked'' ''checked'') (without [''checked'', ''inset''] props))
       (El ''span'' [(''data-slot'', AText ''dropdown-menu-checkbox-item-indicator'')]
          [El ''MenuPrimitive.CheckboxItemIndicator'' [] [El ''CheckIcon'' [] []]] # kids)"

definition DropdownMenuRadioItem :: "'e kit_part" where
  "DropdownMenuRadioItem props kids =
     El ''MenuPrimitive.RadioItem''
       (spread ([(''data-slot'', AText ''dropdown-menu-radio-item'')] @ opt_prop props ''inset'' ''data-inset'') (without [''inset''] props))
       (El ''span'' [(''data-slot'', AText ''dropdown-menu-radio-item-indicator'')]
          [El ''MenuPrimitive.RadioItemIndicator'' [] [El ''CheckIcon'' [] []]] # kids)"

definition DropdownMenuShortcut :: "'e kit_part" where
  "DropdownMenuShortcut props kids =
     El ''span'' (spread [(''data-slot'', AText ''dropdown-menu-shortcut'')] props)
       kids"

lemma popover_parts [simp]:
  assumes "handlers_named props"
  shows "node_all P (Popover props vs) \<longleftrightarrow> part_all P props vs"
    "node_all P (PopoverTrigger props vs) \<longleftrightarrow> part_all P props vs"
    "node_all P (PopoverTitle props vs) \<longleftrightarrow> part_all P props vs"
    "node_all P (PopoverDescription props vs) \<longleftrightarrow> part_all P props vs"
    "node_all P (PopoverHeader props vs) \<longleftrightarrow> part_all P props vs"
    "node_all P (PopoverContent props vs) \<longleftrightarrow> part_all P props vs"
    "node_all P (TooltipProvider props vs) \<longleftrightarrow> part_all P props vs"
    "node_all P (Tooltip props vs) \<longleftrightarrow> part_all P props vs"
    "node_all P (TooltipTrigger props vs) \<longleftrightarrow> part_all P props vs"
    "node_all P (TooltipContent props vs) \<longleftrightarrow> part_all P props vs"
    "node_all P (DropdownMenu props vs) \<longleftrightarrow> part_all P props vs"
    "node_all P (DropdownMenuPortal props vs) \<longleftrightarrow> part_all P props vs"
    "node_all P (DropdownMenuTrigger props vs) \<longleftrightarrow> part_all P props vs"
    "node_all P (DropdownMenuGroup props vs) \<longleftrightarrow> part_all P props vs"
    "node_all P (DropdownMenuSub props vs) \<longleftrightarrow> part_all P props vs"
    "node_all P (DropdownMenuRadioGroup props vs) \<longleftrightarrow> part_all P props vs"
    "node_all P (DropdownMenuSeparator props vs) \<longleftrightarrow> part_all P props vs"
    "node_all P (DropdownMenuContent props vs) \<longleftrightarrow> part_all P props vs"
    "node_all P (DropdownMenuLabel props vs) \<longleftrightarrow> part_all P props vs"
    "node_all P (DropdownMenuItem props vs) \<longleftrightarrow> part_all P props vs"
    "node_all P (DropdownMenuSubTrigger props vs) \<longleftrightarrow> part_all P props vs"
    "node_all P (DropdownMenuSubContent props vs) \<longleftrightarrow> part_all P props vs"
    "node_all P (DropdownMenuCheckboxItem props vs) \<longleftrightarrow> part_all P props vs"
    "node_all P (DropdownMenuRadioItem props vs) \<longleftrightarrow> part_all P props vs"
    "node_all P (DropdownMenuShortcut props vs) \<longleftrightarrow> part_all P props vs"
  using assms by (simp_all add: Popover_def PopoverTrigger_def PopoverTitle_def PopoverDescription_def PopoverHeader_def PopoverContent_def TooltipProvider_def Tooltip_def TooltipTrigger_def TooltipContent_def DropdownMenu_def DropdownMenuPortal_def DropdownMenuTrigger_def DropdownMenuGroup_def DropdownMenuSub_def DropdownMenuRadioGroup_def DropdownMenuSeparator_def DropdownMenuContent_def DropdownMenuLabel_def DropdownMenuItem_def DropdownMenuSubTrigger_def DropdownMenuSubContent_def DropdownMenuCheckboxItem_def DropdownMenuRadioItem_def DropdownMenuShortcut_def part_rules del: node_all.simps(2))

lemma popover_texts:
  "shown vs \<subseteq> set (node_text (Popover props vs))"
  "shown vs \<subseteq> set (node_text (PopoverTrigger props vs))"
  "shown vs \<subseteq> set (node_text (PopoverTitle props vs))"
  "shown vs \<subseteq> set (node_text (PopoverDescription props vs))"
  "shown vs \<subseteq> set (node_text (PopoverHeader props vs))"
  "shown vs \<subseteq> set (node_text (PopoverContent props vs))"
  "shown vs \<subseteq> set (node_text (TooltipProvider props vs))"
  "shown vs \<subseteq> set (node_text (Tooltip props vs))"
  "shown vs \<subseteq> set (node_text (TooltipTrigger props vs))"
  "shown vs \<subseteq> set (node_text (TooltipContent props vs))"
  "shown vs \<subseteq> set (node_text (DropdownMenu props vs))"
  "shown vs \<subseteq> set (node_text (DropdownMenuPortal props vs))"
  "shown vs \<subseteq> set (node_text (DropdownMenuTrigger props vs))"
  "shown vs \<subseteq> set (node_text (DropdownMenuGroup props vs))"
  "shown vs \<subseteq> set (node_text (DropdownMenuSub props vs))"
  "shown vs \<subseteq> set (node_text (DropdownMenuRadioGroup props vs))"
  "shown vs \<subseteq> set (node_text (DropdownMenuSeparator props vs))"
  "shown vs \<subseteq> set (node_text (DropdownMenuContent props vs))"
  "shown vs \<subseteq> set (node_text (DropdownMenuLabel props vs))"
  "shown vs \<subseteq> set (node_text (DropdownMenuItem props vs))"
  "shown vs \<subseteq> set (node_text (DropdownMenuSubTrigger props vs))"
  "shown vs \<subseteq> set (node_text (DropdownMenuSubContent props vs))"
  "shown vs \<subseteq> set (node_text (DropdownMenuCheckboxItem props vs))"
  "shown vs \<subseteq> set (node_text (DropdownMenuRadioItem props vs))"
  "shown vs \<subseteq> set (node_text (DropdownMenuShortcut props vs))"
  by (auto simp: Popover_def PopoverTrigger_def PopoverTitle_def PopoverDescription_def PopoverHeader_def PopoverContent_def TooltipProvider_def Tooltip_def TooltipTrigger_def TooltipContent_def DropdownMenu_def DropdownMenuPortal_def DropdownMenuTrigger_def DropdownMenuGroup_def DropdownMenuSub_def DropdownMenuRadioGroup_def DropdownMenuSeparator_def DropdownMenuContent_def DropdownMenuLabel_def DropdownMenuItem_def DropdownMenuSubTrigger_def DropdownMenuSubContent_def DropdownMenuCheckboxItem_def DropdownMenuRadioItem_def DropdownMenuShortcut_def)

subsection \<open>Input group and command palette\<close>

definition InputGroup :: "'e kit_part" where
  "InputGroup props kids =
     El ''div'' (spread [(''data-slot'', AText ''input-group''), (''role'', AText ''group'')] props)
       kids"

text \<open>A click on the addon moves the focus to the group's input, unless it hits a button; the event that
  stands for this handler is a parameter, and a caller's \<open>onClick\<close> replaces it.\<close>

definition addon_click :: "bool \<Rightarrow> string option" where
  "addon_click inside_button = (if inside_button then None else Some ''input'')"

definition InputGroupAddon :: "'e \<Rightarrow> 'e kit_part" where
  "InputGroupAddon focus props kids =
     El ''div'' (spread
       [(''role'', AText ''group''), (''data-slot'', AText ''input-group-addon''), (''data-align'', prop_or props ''align'' (AText ''inline-start'')),
        (''onClick'', AEvent focus)] (without [''align''] props)) kids"

definition InputGroupButton :: "'e kit_part" where
  "InputGroupButton props kids =
     Button (spread
       [(''type'', prop_or props ''type'' (AText ''button'')), (''data-size'', prop_or props ''size'' (AText ''xs'')),
        (''variant'', prop_or props ''variant'' (AText ''ghost''))] (without [''type'', ''variant'', ''size''] props)) kids"

definition InputGroupText :: "'e kit_part" where
  "InputGroupText props kids =
     El ''span'' props kids"

definition InputGroupInput :: "'e kit_part" where
  "InputGroupInput props kids =
     Input (spread [(''data-slot'', AText ''input-group-control'')] props) kids"

definition InputGroupTextarea :: "'e kit_part" where
  "InputGroupTextarea props kids =
     Textarea (spread [(''data-slot'', AText ''input-group-control'')] props) kids"

definition Command :: "'e kit_part" where
  "Command props kids =
     El ''CommandPrimitive'' (spread [(''data-slot'', AText ''command'')] props)
       kids"

definition CommandDialog :: "translator \<Rightarrow> 'e kit_part" where
  "CommandDialog t props kids =
     Dialog (without [''title'', ''description'', ''showCloseButton''] props)
       [DialogHeader []
         [DialogTitle [] [Txt (text_prop props ''title'' ''Command Palette'')],
          DialogDescription [] [Txt (text_prop props ''description'' ''Search for a command to run...'')]],
        DialogContent t [(''showCloseButton'', ABool (bool_prop props ''showCloseButton'' False))] kids]"

definition CommandInput :: "'e \<Rightarrow> 'e kit_part" where
  "CommandInput focus props kids =
     El ''div'' [(''data-slot'', AText ''command-input-wrapper'')]
       [InputGroup [] [El ''CommandPrimitive.Input'' (spread [(''data-slot'', AText ''command-input'')] props) kids,
          InputGroupAddon focus [] [El ''SearchIcon'' [] []]]]"

definition CommandList :: "'e kit_part" where
  "CommandList props kids =
     El ''CommandPrimitive.List'' (spread [(''data-slot'', AText ''command-list'')] props)
       [ScrollArea [] [El ''div'' [] kids]]"

definition CommandEmpty :: "'e kit_part" where
  "CommandEmpty props kids =
     El ''CommandPrimitive.Empty'' (spread [(''data-slot'', AText ''command-empty'')] props)
       kids"

definition CommandGroup :: "'e kit_part" where
  "CommandGroup props kids =
     El ''CommandPrimitive.Group'' (spread [(''data-slot'', AText ''command-group'')] props)
       kids"

definition CommandSeparator :: "'e kit_part" where
  "CommandSeparator props kids =
     El ''CommandPrimitive.Separator'' (spread [(''data-slot'', AText ''command-separator'')] props)
       kids"

definition CommandItem :: "'e kit_part" where
  "CommandItem props kids =
     El ''CommandPrimitive.Item'' (spread [(''data-slot'', AText ''command-item'')] props)
       (kids @ [El ''CheckIcon'' [] []])"

definition CommandShortcut :: "'e kit_part" where
  "CommandShortcut props kids =
     El ''span'' (spread [(''data-slot'', AText ''command-shortcut'')] props)
       kids"

lemma input_parts [simp]:
  assumes "handlers_named props"
  shows "node_all P (InputGroup props vs) \<longleftrightarrow> part_all P props vs"
    "node_all P (InputGroupButton props vs) \<longleftrightarrow> part_all P props vs"
    "node_all P (InputGroupText props vs) \<longleftrightarrow> part_all P props vs"
    "node_all P (InputGroupInput props vs) \<longleftrightarrow> part_all P props vs"
    "node_all P (InputGroupTextarea props vs) \<longleftrightarrow> part_all P props vs"
    "node_all P (Command props vs) \<longleftrightarrow> part_all P props vs"
    "node_all P (CommandDialog t props vs) \<longleftrightarrow> part_all P props vs"
    "node_all P (CommandList props vs) \<longleftrightarrow> part_all P props vs"
    "node_all P (CommandEmpty props vs) \<longleftrightarrow> part_all P props vs"
    "node_all P (CommandGroup props vs) \<longleftrightarrow> part_all P props vs"
    "node_all P (CommandSeparator props vs) \<longleftrightarrow> part_all P props vs"
    "node_all P (CommandItem props vs) \<longleftrightarrow> part_all P props vs"
    "node_all P (CommandShortcut props vs) \<longleftrightarrow> part_all P props vs"
  using assms by (simp_all add: InputGroup_def InputGroupButton_def InputGroupText_def InputGroupInput_def InputGroupTextarea_def Command_def CommandDialog_def CommandList_def CommandEmpty_def CommandGroup_def CommandSeparator_def CommandItem_def CommandShortcut_def part_rules del: node_all.simps(2))

lemma input_texts:
  "shown vs \<subseteq> set (node_text (InputGroup props vs))"
  "shown vs \<subseteq> set (node_text (InputGroupButton props vs))"
  "shown vs \<subseteq> set (node_text (InputGroupText props vs))"
  "shown vs \<subseteq> set (node_text (InputGroupInput props vs))"
  "shown vs \<subseteq> set (node_text (InputGroupTextarea props vs))"
  "shown vs \<subseteq> set (node_text (Command props vs))"
  "shown vs \<subseteq> set (node_text (CommandDialog t props vs))"
  "shown vs \<subseteq> set (node_text (CommandList props vs))"
  "shown vs \<subseteq> set (node_text (CommandEmpty props vs))"
  "shown vs \<subseteq> set (node_text (CommandGroup props vs))"
  "shown vs \<subseteq> set (node_text (CommandSeparator props vs))"
  "shown vs \<subseteq> set (node_text (CommandItem props vs))"
  "shown vs \<subseteq> set (node_text (CommandShortcut props vs))"
  by (auto simp: InputGroup_def InputGroupButton_def InputGroupText_def InputGroupInput_def InputGroupTextarea_def Command_def CommandDialog_def CommandList_def CommandEmpty_def CommandGroup_def CommandSeparator_def CommandItem_def CommandShortcut_def Button_def Input_def Textarea_def ScrollArea_def Dialog_def DialogContent_def DialogPortal_def)

subsection \<open>Calendar\<close>

definition Calendar :: "'e kit_part" where
  "Calendar props kids =
     El ''DayPicker'' (spread [(''showOutsideDays'', prop_or props ''showOutsideDays'' (ABool True))] (without [''showOutsideDays''] props)) kids"

definition calendar_chevron :: "string \<Rightarrow> 'e kit_part" where
  "calendar_chevron orientation props kids =
     El (if orientation = ''left'' then ''ChevronLeft'' else ''ChevronRight'') props kids"

lemma calendar_parts [simp]:
  assumes "handlers_named props"
  shows "node_all P (Calendar props vs) \<longleftrightarrow> part_all P props vs"
  using assms by (simp_all add: Calendar_def part_rules del: node_all.simps(2))

lemma calendar_texts:
  "shown vs \<subseteq> set (node_text (Calendar props vs))"
  by (auto simp: Calendar_def)

subsection \<open>Parts with a handler of their own\<close>

lemma addon_all [simp]:
  "node_all P (InputGroupAddon focus [] vs) \<longleftrightarrow> P focus \<and> (\<forall>v \<in> set vs. node_all P v)"
  by (simp add: InputGroupAddon_def spread_def without_def prop_or_def is_disabled_def)

lemma command_input_all [simp]:
  "handlers_named props \<Longrightarrow> node_all P (CommandInput focus props vs) \<longleftrightarrow> part_all P props vs \<and> P focus"
  by (simp add: CommandInput_def part_rules del: node_all.simps(2))

subsection \<open>Rendering a page\<close>

definition box_parts :: "translator \<Rightarrow> (string \<times> 'e kit_part) list" where
  "box_parts t =
     [(''Button'', Button), (''Badge'', Badge), (''Input'', Input), (''Textarea'', Textarea),
      (''Label'', Label), (''Skeleton'', Skeleton), (''Separator'', Separator), (''ScrollArea'', ScrollArea),
      (''ProgressIndicator'', ProgressIndicator), (''ProgressTrack'', ProgressTrack), (''Progress'', Progress),
      (''ProgressLabel'', ProgressLabel), (''ProgressValue'', ProgressValue), (''Card'', Card),
      (''CardHeader'', CardHeader), (''CardTitle'', CardTitle), (''CardDescription'', CardDescription),
      (''CardAction'', CardAction), (''CardContent'', CardContent), (''CardFooter'', CardFooter),
      (''Table'', Table), (''TableHeader'', TableHeader), (''TableBody'', TableBody),
      (''TableFooter'', TableFooter), (''TableRow'', TableRow), (''TableHead'', TableHead),
      (''TableCell'', TableCell), (''TableCaption'', TableCaption), (''Alert'', Alert),
      (''AlertTitle'', AlertTitle), (''AlertDescription'', AlertDescription), (''AlertAction'', AlertAction),
      (''Avatar'', Avatar), (''AvatarImage'', AvatarImage), (''AvatarFallback'', AvatarFallback),
      (''AvatarBadge'', AvatarBadge), (''AvatarGroup'', AvatarGroup), (''AvatarGroupCount'', AvatarGroupCount),
      (''Tabs'', Tabs), (''TabsList'', TabsList), (''TabsTrigger'', TabsTrigger),
      (''TabsContent'', TabsContent), (''Breadcrumb'', Breadcrumb), (''BreadcrumbList'', BreadcrumbList),
      (''BreadcrumbItem'', BreadcrumbItem), (''BreadcrumbLink'', BreadcrumbLink),
      (''BreadcrumbPage'', BreadcrumbPage), (''BreadcrumbSeparator'', BreadcrumbSeparator),
      (''Dialog'', Dialog), (''DialogTrigger'', DialogTrigger), (''DialogPortal'', DialogPortal),
      (''DialogClose'', DialogClose), (''DialogOverlay'', DialogOverlay), (''DialogTitle'', DialogTitle),
      (''DialogDescription'', DialogDescription), (''DialogHeader'', DialogHeader),
      (''DialogContent'', DialogContent t), (''DialogFooter'', DialogFooter), (''AlertDialog'', AlertDialog),
      (''AlertDialogTrigger'', AlertDialogTrigger), (''AlertDialogPortal'', AlertDialogPortal),
      (''AlertDialogOverlay'', AlertDialogOverlay), (''AlertDialogTitle'', AlertDialogTitle),
      (''AlertDialogDescription'', AlertDialogDescription), (''AlertDialogContent'', AlertDialogContent),
      (''AlertDialogHeader'', AlertDialogHeader), (''AlertDialogFooter'', AlertDialogFooter),
      (''AlertDialogMedia'', AlertDialogMedia), (''AlertDialogAction'', AlertDialogAction),
      (''AlertDialogCancel'', AlertDialogCancel), (''Sheet'', Sheet), (''SheetTrigger'', SheetTrigger),
      (''SheetClose'', SheetClose), (''SheetPortal'', SheetPortal), (''SheetOverlay'', SheetOverlay),
      (''SheetTitle'', SheetTitle), (''SheetDescription'', SheetDescription), (''SheetHeader'', SheetHeader),
      (''SheetFooter'', SheetFooter), (''SheetContent'', SheetContent t), (''Popover'', Popover),
      (''PopoverTrigger'', PopoverTrigger), (''PopoverTitle'', PopoverTitle),
      (''PopoverDescription'', PopoverDescription), (''PopoverHeader'', PopoverHeader),
      (''PopoverContent'', PopoverContent), (''TooltipProvider'', TooltipProvider), (''Tooltip'', Tooltip),
      (''TooltipTrigger'', TooltipTrigger), (''TooltipContent'', TooltipContent),
      (''DropdownMenu'', DropdownMenu), (''DropdownMenuPortal'', DropdownMenuPortal),
      (''DropdownMenuTrigger'', DropdownMenuTrigger), (''DropdownMenuGroup'', DropdownMenuGroup),
      (''DropdownMenuSub'', DropdownMenuSub), (''DropdownMenuRadioGroup'', DropdownMenuRadioGroup),
      (''DropdownMenuSeparator'', DropdownMenuSeparator), (''DropdownMenuContent'', DropdownMenuContent),
      (''DropdownMenuLabel'', DropdownMenuLabel), (''DropdownMenuItem'', DropdownMenuItem),
      (''DropdownMenuSubTrigger'', DropdownMenuSubTrigger),
      (''DropdownMenuSubContent'', DropdownMenuSubContent),
      (''DropdownMenuCheckboxItem'', DropdownMenuCheckboxItem),
      (''DropdownMenuRadioItem'', DropdownMenuRadioItem), (''DropdownMenuShortcut'', DropdownMenuShortcut),
      (''InputGroup'', InputGroup), (''InputGroupButton'', InputGroupButton),
      (''InputGroupText'', InputGroupText), (''InputGroupInput'', InputGroupInput),
      (''InputGroupTextarea'', InputGroupTextarea), (''Command'', Command),
      (''CommandDialog'', CommandDialog t), (''CommandList'', CommandList), (''CommandEmpty'', CommandEmpty),
      (''CommandGroup'', CommandGroup), (''CommandSeparator'', CommandSeparator),
      (''CommandItem'', CommandItem), (''CommandShortcut'', CommandShortcut), (''Calendar'', Calendar)]"

definition leaf_parts :: "translator \<Rightarrow> (string \<times> 'e kit_part) list" where
  "leaf_parts t =
     [(''Checkbox'', Checkbox), (''Switch'', Switch), (''ScrollBar'', ScrollBar),
      (''BreadcrumbEllipsis'', BreadcrumbEllipsis t)]"

text \<open>Every transparent part replaced by the element it renders; other elements stay, among them
  the composites with a state of their own: the fields of \<open>Pickers\<close> and the parts of \<open>Sidebar\<close>,
  which those theories render.\<close>

fun expand :: "translator \<Rightarrow> 'e node \<Rightarrow> 'e node" where
  "expand t (Txt s) = Txt s"
| "expand t (El tag as vs) =
     (case map_of (box_parts t @ leaf_parts t) tag of
        Some f \<Rightarrow> f as (map (expand t) vs)
      | None \<Rightarrow> El tag as (map (expand t) vs))"

lemmas part_texts = button_texts progress_texts card_texts breadcrumb_texts dialog_texts popover_texts input_texts calendar_texts

text \<open>Handlers are where handlers belong, and parts that show no children get none.\<close>

fun tidy :: "'e node \<Rightarrow> bool" where
  "tidy (Txt s) \<longleftrightarrow> True"
| "tidy (El tag as vs) \<longleftrightarrow>
     handlers_named as \<and>
     (tag \<in> {''Checkbox'', ''Switch'', ''ScrollBar'', ''BreadcrumbEllipsis''} \<longrightarrow> vs = []) \<and> (\<forall>v \<in> set vs. tidy v)"

lemma box_parts_transparent: "(tag, f) \<in> set (box_parts t) \<Longrightarrow> transparent f"
  by (rule transparentI) (auto simp: box_parts_def)

lemma leaf_parts_tags: "(tag, f) \<in> set (leaf_parts t) \<Longrightarrow> tag \<in> {''Checkbox'', ''Switch'', ''ScrollBar'', ''BreadcrumbEllipsis''}"
  by (auto simp: leaf_parts_def)

lemma leaf_parts_all:
  "(tag, f) \<in> set (leaf_parts t) \<Longrightarrow> handlers_named props \<Longrightarrow> node_all P (f props []) = part_all P props []"
  by (auto simp: leaf_parts_def)

lemma node_all_expand:
  fixes v :: "'e node"
  shows "tidy v \<Longrightarrow> node_all P (expand t v) = node_all P v"
proof (induction v)
  case (El tag as vs)
  have as: "handlers_named as" using El.prems by simp
  have kids: "part_all P as (map (expand t) vs) = part_all P as vs"
    using El by (auto simp: part_all_def)
  show ?case
  proof (cases "map_of (box_parts t @ leaf_parts t :: (string \<times> 'e kit_part) list) tag")
    case None
    show ?thesis using kids by (simp only: expand.simps None option.case node_all_El)
  next
    case (Some f)
    then have "(tag, f) \<in> set (box_parts t) \<or> (tag, f) \<in> set (leaf_parts t)"
      using map_of_SomeD [of "box_parts t @ leaf_parts t"] by fastforce
    then have "node_all P (f as (map (expand t) vs)) = part_all P as (map (expand t) vs)"
    proof
      assume "(tag, f) \<in> set (box_parts t)"
      then show ?thesis using box_parts_transparent as unfolding transparent_def by blast
    next
      assume f: "(tag, f) \<in> set (leaf_parts t)"
      then have "vs = []" using leaf_parts_tags [OF f] El.prems by auto
      then show ?thesis using leaf_parts_all [OF f as] by simp
    qed
    then show ?thesis using kids by (simp only: expand.simps Some option.case node_all_El)
  qed
qed simp

lemma box_parts_text: "(tag, f) \<in> set (box_parts t) \<Longrightarrow> shown vs \<subseteq> set (node_text (f props vs))"
  unfolding box_parts_def by (auto intro!: part_texts [THEN subsetD])

lemma expand_text: "tidy v \<Longrightarrow> set (node_text v) \<subseteq> set (node_text (expand t v))"
proof (induction v)
  case (El tag as vs)
  have kids: "shown vs \<subseteq> shown (map (expand t) vs)" using El by fastforce
  show ?case
  proof (cases "map_of (box_parts t @ leaf_parts t :: (string \<times> 'a kit_part) list) tag")
    case None
    show ?thesis using kids by (simp only: expand.simps None option.case node_text.simps)
  next
    case (Some f)
    have "shown (map (expand t) vs) \<subseteq> set (node_text (f as (map (expand t) vs)))"
    proof (cases "vs = []")
      case False
      then have "(tag, f) \<notin> set (leaf_parts t)" using leaf_parts_tags [of tag f t] El.prems by auto
      then have "(tag, f) \<in> set (box_parts t)"
        using Some map_of_SomeD [of "box_parts t @ leaf_parts t"] by fastforce
      then show ?thesis by (rule box_parts_text)
    qed simp
    then show ?thesis using kids by (simp only: expand.simps Some option.case node_text.simps)
  qed
qed simp

lemma interaction_node_all: "interaction v e \<longleftrightarrow> \<not> node_all (\<lambda>x. x \<noteq> e) v"
proof
  assume "interaction v e"
  then show "\<not> node_all (\<lambda>x. x \<noteq> e) v" using node_all_interaction [of "\<lambda>x. x \<noteq> e" v e] by auto
next
  assume e: "\<not> node_all (\<lambda>x. x \<noteq> e) v"
  show "interaction v e"
  proof (rule ccontr)
    assume "\<not> interaction v e"
    have "node_all (\<lambda>x. x \<noteq> e) v"
    proof (rule node_all_mono [OF node_all_interactions])
      show "x \<noteq> e" if "interaction v x" for x using that \<open>\<not> interaction v e\<close> by metis
    qed
    then show False using e by simp
  qed
qed

lemma kit_interactions: "tidy v \<Longrightarrow> interaction (expand t v) e \<longleftrightarrow> interaction v e"
  using node_all_expand by (simp add: interaction_node_all)

end
