(* ===== verification/AdminRender.thy ===== *)
theory AdminRender
  imports AdminApp Kit
begin

text \<open>
  The admin pages drawn with the element library: every page is put together tidily, so what
  the rendered elements let a user do is what the page's own elements do, and the pages keep
  their contract when they are rendered.
\<close>

lemma quiet_attr_map [simp]: "quiet_attr (map_attr f a) = quiet_attr a"
  by (cases a) simp_all

lemma handlers_named_map [simp]: "handlers_named (map (map_prod id (map_attr f)) as) = handlers_named as"
  by (induction as) auto

lemma tidy_map [simp]: "tidy (map_node f v) = tidy v"
  by (induction v) auto

lemma tidy_show_if [simp]: "(\<forall>v \<in> set (show_if c w). tidy v) \<longleftrightarrow> (c \<longrightarrow> tidy w)"
  by (simp add: show_if_def)

lemma tidy_select [simp]: "tidy (select os val f)"
  by (auto simp: select_def options_def)

lemma tidy_parts [simp]:
  "\<forall>v \<in> set (SummaryStrip segs). tidy v" "tidy (StatusBadge t st)" "tidy (EntryThumb posterKey updatedAt alt)"
  "tidy (EmptyState ei et ed eb) \<longleftrightarrow> (\<forall>v. eb = Some v \<longrightarrow> tidy v)"
  "tidy (kpi_card title icon val hint)" "tidy (cell vs) \<longleftrightarrow> (\<forall>v \<in> set vs. tidy v)"
  "tidy (table_page cols vs) \<longleftrightarrow> (\<forall>v \<in> set vs. tidy v)"
  "\<forall>v \<in> set (skeleton_rows n k). tidy v" "tidy (icon_click e label icon)"
  "tidy LoadingCircle"
  by (auto simp: SummaryStrip_def StatusBadge_def EntryThumb_def EmptyState_def kpi_card_def cell_def table_page_def
      table_head_def skeleton_rows_def icon_click_def LoadingCircle_def split: option.split list.split)

lemma tidy_click [simp]: "tag \<notin> {''Checkbox'', ''Switch'', ''ScrollBar'', ''BreadcrumbEllipsis''} \<Longrightarrow> tidy (click tag e off label)"
  by (simp add: click_def)

lemma users_tidy: "tidy (UsersPage t fd d)"
  by (auto simp: UsersPage_def Let_def user_row_def status_badge_def split: option.split)

lemma viewers_tidy: "tidy (ViewersPage t fd d)"
  by (auto simp: ViewersPage_def Let_def viewer_row_def status_badge_def split: option.split)

lemma categories_tidy: "CategoriesPage t d = Some v \<Longrightarrow> tidy v"
proof -
  have row: "tidy (category_row t flat c n)" for flat c n by (auto simp: category_row_def)
  have "tidy x" if "category_rows t flat = Some xs" "x \<in> set xs" for flat xs x
  proof -
    have "Some x \<in> (\<lambda>c. map_option (category_row t flat c) (depthOf flat (cat_id c))) ` set flat"
      using those_members [OF that(1) [unfolded category_rows_def] that(2)] by simp
    then obtain c where "map_option (category_row t flat c) (depthOf flat (cat_id c)) = Some x" by force
    then show ?thesis using row by auto
  qed
  then show "CategoriesPage t d = Some v \<Longrightarrow> tidy v"
    by (auto simp: CategoriesPage_def Let_def split: option.splits if_splits)
qed

lemma acls_tidy: "tidy (DomainAclsPage t d)"
  by (auto simp: DomainAclsPage_def Let_def acl_row_def domain_badges_def split: option.split)

lemma flavors_tidy: "tidy (FlavorsPage t d)"
  by (auto simp: FlavorsPage_def Let_def flavor_row_def split: option.split)

lemma players_tidy: "tidy (PlayersPage t d)"
  by (auto simp: PlayersPage_def Let_def player_row_def split: option.split)

lemma jobs_tidy: "tidy (JobsPage t fd d)"
proof -
  have "\<forall>v \<in> set (job_actions t j). tidy v" for j
    by (auto simp: job_actions_def action_button_def)
  then show ?thesis
    by (auto simp: JobsPage_def Let_def job_row_def job_badges_def JobStatusBadge_def split: option.split job_status.split)
qed

lemma storage_tidy: "tidy (StoragePage t d)"
  by (auto simp: StoragePage_def Let_def entry_row_def file_row_def show_if_def split: option.split)

lemma entries_tidy: "tidy (EntriesPage t fd cs list s)"
proof -
  have "tidy (entries_toolbar t cs s)" "tidy (entries_head t list s)" "\<And>e. tidy (entry_line t fd cs s e)"
    "\<And>l. \<forall>v \<in> set (entries_empty t l). tidy v" "\<And>l. tidy (entries_pager t l s)"
    by (auto simp: entries_toolbar_def entries_head_def entry_line_def entries_empty_def entries_pager_def Let_def
        RowActions_def show_if_def)
  then show ?thesis by (auto simp: EntriesPage_def split: option.split)
qed

lemma dashboard_tidy: "tidy (DashboardPage t day_key ld d)"
  by (auto simp: DashboardPage_def Let_def welcome_card_def dash_card_def recent_uploads_def recent_card_def recent_details_def
      status_card_def status_segment_def status_line_def Sparkline_def show_if_def split: option.split)

lemma settings_tidy: "tidy (SettingsPage t p)"
proof -
  have "tidy (setting_control p spec k)" for spec k
    by (cases "value_of (page_values p) k"; cases "ss_enum spec") (auto simp: setting_control_def Let_def show_if_def)
  then have "tidy (setting_row p k)" for k by (simp add: setting_row_def Let_def show_if_def)
  then show ?thesis by (auto simp: SettingsPage_def Let_def group_button_def)
qed

lemma chart_tidy [simp]: "tidy (SvgChart t height p points)"
proof -
  have "tidy (chart_circle c n x)" "tidy (grid_line height q)" for c n q and x :: "string \<times> rat"
    by (simp_all add: chart_circle_def grid_line_def Let_def split: prod.split)
  then show ?thesis by (auto simp: SvgChart_def hover_line_def Let_def split: option.split)
qed

lemma preview_tidy [simp]: "tidy (PlaybackPreview t key time ms info)"
  by (auto simp: PlaybackPreview_def show_if_def split: option.split)

lemma sections_tidy:
  "\<forall>v \<in> set (section_menu t a). tidy v" "tidy (entry_header t fd cs e)"
  "tidy (metadata_section t cs e d info)" "tidy (flavors_section t adm fs e dl)"
  "tidy (PosterPicker t e n)" "tidy (SubtitlesTab t e)"
  "tidy (SecurityTab t ac as pl ps pub den)" "tidy (AnalyticsTab t hov r)"
  "tidy (EmbedTab t org k v es) \<longleftrightarrow> tidy v"
  "\<forall>v \<in> set (unsaved_bar t e d dl). tidy v"
  by (auto simp: section_menu_def entry_header_def metadata_section_def flavors_section_def tick_row_def flavor_state_def
      PosterPicker_def SubtitlesTab_def subtitle_row_def SecurityTab_def toggle_card_def choice_card_def
      AnalyticsTab_def chart_card_def EmbedTab_def tab_copy_button_def unsaved_bar_def Let_def show_if_def o_def
      field_def text_input_def table_head_def LoadingCircle_def split: option.split)

lemma entry_tidy: "tidy (EntryDetailDialog t fd l x entry dl)"
proof -
  have "tidy entry_skeleton" by (simp add: entry_skeleton_def)
  moreover have "\<forall>v \<in> set (entry_section t l x e d dl). tidy v" for e d
    using sections_tidy by (simp add: entry_section_def Let_def split: option.split)
  ultimately show ?thesis
    using sections_tidy by (auto simp: EntryDetailDialog_def split: option.split list.split)
qed

lemma upload_tidy: "tidy (UploadDialogContent t expanded w)"
proof -
  have button: "tidy (UploadDialog.button e off l)" for e off l
    by (simp add: button_def)
  have icons: "tidy (El (fst (job_status_shown t job)) [] [])" "tidy (El (fst (url_status_shown t url)) [] [])" for job url
    by (simp_all add: job_status_shown_def url_status_shown_def split: upload_status.split url_status.split)
  have opts: "\<forall>v \<in> set (category_options t cs). tidy v" for cs by (simp add: category_options_def)
  have cards: "tidy (UploadJobCard t cs ex job)" "tidy (UrlDownloadCard t cs ex url)" for cs ex job url
    using icons opts by (auto simp: UploadJobCard_def UrlDownloadCard_def Let_def ball_Un)
  have tabs: "\<forall>v \<in> set (computer_tab t ex d js). tidy v" "\<forall>v \<in> set (url_tab t ex d us). tidy v"
    "tidy (upload_header t d js us)" "tidy (upload_footer t d js us)" for ex d js us
    by (simp_all add: computer_tab_def url_tab_def background_note_def upload_header_def upload_footer_def button cards
        ball_Un)
  then have "tidy (upload_body t ex d js us)" for ex d js us
    by (auto simp: upload_body_def background_note_def cards ball_Un)
  then show ?thesis using tabs by (simp add: UploadDialogContent_def Let_def)
qed

lemma admin_view_tidy: "tidy (admin_view r s)"
  using users_tidy viewers_tidy categories_tidy acls_tidy flavors_tidy players_tidy jobs_tidy storage_tidy
    entries_tidy dashboard_tidy settings_tidy entry_tidy upload_tidy
  by (cases s) (simp_all split: option.split prod.split)

text \<open>The rendered pages keep the contract of the pages.\<close>

interpretation rendered_app: careful_page "\<lambda>s. expand t (admin_view r s)" "admin_step r"
  by unfold_locales
    (metis admin_view_tidy kit_interactions admin_app.interactions_harmless)

end
