(* ===== verification/Sidebar.thy ===== *)
theory Sidebar
  imports Kit AppSidebar
begin

text \<open>
  The folding sidebar \<open>components/ui/sidebar.tsx\<close>: its provider with the open state, the sheet of
  small screens, the cookie and the keyboard shortcut, the three ways it is drawn, and its parts.

  A callback sees the values of the render that made it (\<open>sd_seen\<close>), while the state may already
  have changed; a render takes the current state.  A style variable is a property of its name.
\<close>

definition SIDEBAR_COOKIE_NAME :: string where "SIDEBAR_COOKIE_NAME = ''sidebar_state''"
definition SIDEBAR_COOKIE_MAX_AGE :: nat where "SIDEBAR_COOKIE_MAX_AGE = 60 * 60 * 24 * 7"
definition SIDEBAR_WIDTH :: string where "SIDEBAR_WIDTH = ''16rem''"
definition SIDEBAR_WIDTH_MOBILE :: string where "SIDEBAR_WIDTH_MOBILE = ''18rem''"
definition SIDEBAR_WIDTH_ICON :: string where "SIDEBAR_WIDTH_ICON = ''3rem''"
definition SIDEBAR_KEYBOARD_SHORTCUT :: string where "SIDEBAR_KEYBOARD_SHORTCUT = ''b''"

subsection \<open>The provider\<close>

text \<open>What a render hands to the parts: \<open>SidebarContextProps\<close> without its functions.\<close>

record sidebar_context =
  sc_open :: bool
  sc_openMobile :: bool
  sc_isMobile :: bool

definition sc_state :: "sidebar_context \<Rightarrow> string" where
  "sc_state c = (if sc_open c then ''expanded'' else ''collapsed'')"

definition useSidebar :: "sidebar_context option \<Rightarrow> string + sidebar_context" where
  "useSidebar c = (case c of Some x \<Rightarrow> Inr x | None \<Rightarrow> Inl ''useSidebar must be used within a SidebarProvider.'')"

text \<open>The state: \<open>_open\<close>, \<open>openMobile\<close>, the values of the last render, the
  provider's own assignments to \<open>document.cookie\<close> so far (newest first; the entry dialog's
  provider writes the same cookie), and the calls of \<open>onOpenChange\<close>.\<close>

record sidebar =
  sd_open :: bool
  sd_openMobile :: bool
  sd_seen :: sidebar_context
  sd_cookies :: "string list"
  sd_told :: "bool list"

text \<open>How the provider is used: \<open>open\<close> and whether \<open>onOpenChange\<close> was given.\<close>

record sidebar_props =
  sp_open :: "bool option"
  sp_onOpenChange :: bool

definition render_sidebar :: "sidebar_props \<Rightarrow> bool \<Rightarrow> sidebar \<Rightarrow> sidebar" where
  "render_sidebar p isMobile s =
     s\<lparr>sd_seen := \<lparr>sc_open = (case sp_open p of Some b \<Rightarrow> b | None \<Rightarrow> sd_open s),
        sc_openMobile = sd_openMobile s, sc_isMobile = isMobile\<rparr>\<rparr>"

definition new_sidebar :: "sidebar_props \<Rightarrow> bool option \<Rightarrow> bool \<Rightarrow> sidebar" where
  "new_sidebar p defaultOpen isMobile =
     render_sidebar p isMobile
       \<lparr>sd_open = (case defaultOpen of Some b \<Rightarrow> b | None \<Rightarrow> True), sd_openMobile = False,
        sd_seen = \<lparr>sc_open = True, sc_openMobile = False, sc_isMobile = False\<rparr>, sd_cookies = [], sd_told = []\<rparr>"

definition bool_text :: "bool \<Rightarrow> string" where "bool_text b = (if b then ''true'' else ''false'')"

definition sidebar_cookie :: "bool \<Rightarrow> string" where
  "sidebar_cookie openState =
     SIDEBAR_COOKIE_NAME @ ''='' @ bool_text openState @ ''; path=/; max-age='' @ dec SIDEBAR_COOKIE_MAX_AGE"

definition setOpen :: "sidebar_props \<Rightarrow> (bool \<Rightarrow> bool) \<Rightarrow> sidebar \<Rightarrow> sidebar" where
  "setOpen p change s =
     (let openState = change (sc_open (sd_seen s));
          s1 = (if sp_onOpenChange p then s\<lparr>sd_told := openState # sd_told s\<rparr> else s\<lparr>sd_open := openState\<rparr>)
      in s1\<lparr>sd_cookies := sidebar_cookie openState # sd_cookies s1\<rparr>)"

definition setOpenMobile :: "(bool \<Rightarrow> bool) \<Rightarrow> sidebar \<Rightarrow> sidebar" where
  "setOpenMobile change s = s\<lparr>sd_openMobile := change (sd_openMobile s)\<rparr>"

definition toggleSidebar :: "sidebar_props \<Rightarrow> sidebar \<Rightarrow> sidebar" where
  "toggleSidebar p s = (if sc_isMobile (sd_seen s) then setOpenMobile Not s else setOpen p Not s)"

text \<open>The key handler on the window; \<open>True\<close> if the key's default is prevented.\<close>

definition handleKeyDown :: "sidebar_props \<Rightarrow> string \<Rightarrow> bool \<Rightarrow> bool \<Rightarrow> sidebar \<Rightarrow> sidebar \<times> bool" where
  "handleKeyDown p key metaKey ctrlKey s =
     (if key = SIDEBAR_KEYBOARD_SHORTCUT \<and> (metaKey \<or> ctrlKey) then (toggleSidebar p s, True) else (s, False))"

definition SidebarProvider :: "'e kit_part" where
  "SidebarProvider props kids =
     El ''div'' (spread [(''data-slot'', AText ''sidebar-wrapper''), (''--sidebar-width'', AText SIDEBAR_WIDTH),
         (''--sidebar-width-icon'', AText SIDEBAR_WIDTH_ICON)] (without [''defaultOpen'', ''open'', ''onOpenChange''] props)) kids"

subsection \<open>The sidebar\<close>

datatype sidebar_action = Toggle | MobileOpen bool

definition Sidebar :: "translator \<Rightarrow> sidebar_context \<Rightarrow> (sidebar_action \<Rightarrow> 'e) \<Rightarrow> 'e kit_part" where
  "Sidebar t c ev props kids =
     (let rest = without [''side'', ''variant'', ''collapsible'', ''dir''] props;
          side = prop_or props ''side'' (AText ''left''); collapsible = text_prop props ''collapsible'' ''offcanvas'' in
      if collapsible = ''none'' then El ''div'' (spread [(''data-slot'', AText ''sidebar'')] rest) kids
      else if sc_isMobile c then
        Sheet (spread [(''open'', ABool (sc_openMobile c)), (''onOpenChange'', AInput (\<lambda>x. ev (MobileOpen (x = ''true''))))] rest)
          [SheetContent t (opt_prop props ''dir'' ''dir'' @
             [(''data-sidebar'', AText ''sidebar''), (''data-slot'', AText ''sidebar''), (''data-mobile'', AText ''true''),
              (''--sidebar-width'', AText SIDEBAR_WIDTH_MOBILE), (''side'', side)])
             [SheetHeader [] [SheetTitle [] [Txt (tx t ''sidebarTitle'')], SheetDescription [] [Txt (tx t ''sidebarDesc'')]],
              El ''div'' [] kids]]
      else
        El ''div'' [(''data-state'', AText (sc_state c)),
            (''data-collapsible'', AText (if sc_state c = ''collapsed'' then collapsible else [])),
            (''data-variant'', prop_or props ''variant'' (AText ''sidebar'')), (''data-side'', side),
            (''data-slot'', AText ''sidebar'')]
          [El ''div'' [(''data-slot'', AText ''sidebar-gap'')] [],
           El ''div'' (spread [(''data-slot'', AText ''sidebar-container''), (''data-side'', side)] rest)
             [El ''div'' [(''data-sidebar'', AText ''sidebar''), (''data-slot'', AText ''sidebar-inner'')] kids]])"

text \<open>The trigger's click runs the caller's \<open>onClick\<close> first; here it reports both.  A caller that
  passes \<open>onClick\<close> keeps the toggle, as the component takes it out of the properties.\<close>

definition SidebarTrigger :: "'e \<Rightarrow> 'e kit_part" where
  "SidebarTrigger toggle props kids =
     Button (spread [(''data-sidebar'', AText ''trigger''), (''data-slot'', AText ''sidebar-trigger''), (''variant'', AText ''ghost''),
         (''size'', AText ''icon-sm''), (''onClick'', AEvent toggle)] (without [''onClick''] props))
       [El ''PanelLeftIcon'' [] [], El ''span'' [] [Txt ''Toggle Sidebar'']]"

definition trigger_clicks :: "'e \<Rightarrow> (string \<times> 'e attr) list \<Rightarrow> 'e list" where
  "trigger_clicks toggle props = (case map_of props ''onClick'' of Some (AEvent e) \<Rightarrow> [e, toggle] | _ \<Rightarrow> [toggle])"

definition SidebarRail :: "translator \<Rightarrow> 'e \<Rightarrow> 'e kit_part" where
  "SidebarRail t toggle props kids =
     El ''button'' (spread [(''data-sidebar'', AText ''rail''), (''data-slot'', AText ''sidebar-rail''),
         (''aria-label'', AText (tx t ''srToggleSidebar'')), (''tabIndex'', ANum (Fin (-1))), (''onClick'', AEvent toggle),
         (''title'', AText ''Toggle Sidebar'')] props) kids"

text \<open>The tooltip of a menu button: none, a text, or the properties of its content.\<close>

datatype 'e tooltip = NoTip | TipText string | TipProps "(string \<times> 'e attr) list" "'e node list"

definition SidebarMenuButton :: "sidebar_context \<Rightarrow> 'e tooltip \<Rightarrow> 'e kit_part" where
  "SidebarMenuButton c tip props kids =
     (let own = spread [(''data-slot'', AText ''sidebar-menu-button''), (''data-sidebar'', AText ''menu-button''),
            (''data-size'', prop_or props ''size'' (AText ''default'')), (''data-active'', ABool (bool_prop props ''isActive'' False))]
            (without [''isActive'', ''variant'', ''size''] props);
          placed = [(''side'', AText ''right''), (''align'', AText ''center''), (''hidden'', ABool (sc_state c \<noteq> ''collapsed'' \<or> sc_isMobile c))]
      in case tip of
           NoTip \<Rightarrow> El ''button'' own kids
         | TipText [] \<Rightarrow> El ''button'' own kids
         | TipText (x # xs) \<Rightarrow> Tooltip [] [El ''button'' own [TooltipTrigger [] kids], TooltipContent placed [Txt (x # xs)]]
         | TipProps as vs \<Rightarrow> Tooltip [] [El ''button'' own [TooltipTrigger [] kids], TooltipContent (spread placed as) vs])"

text \<open>The width of a placeholder, from \<open>Math.random()\<close>, which is at least 0 and below 1.\<close>

definition skeleton_width :: "rat \<Rightarrow> string" where
  "skeleton_width r = dec_int (\<lfloor>r * 40\<rfloor> + 50) @ ''%''"

definition SidebarMenuSkeleton :: "rat \<Rightarrow> 'e kit_part" where
  "SidebarMenuSkeleton r props kids =
     El ''div'' (spread [(''data-slot'', AText ''sidebar-menu-skeleton''), (''data-sidebar'', AText ''menu-skeleton'')] (without [''showIcon''] props))
       (show_if (bool_prop props ''showIcon'' False) (Skeleton [(''data-sidebar'', AText ''menu-skeleton-icon'')] []) @
        [Skeleton [(''data-sidebar'', AText ''menu-skeleton-text''), (''--skeleton-width'', AText (skeleton_width r))] []])"

subsection \<open>The parts\<close>

definition SidebarHeader :: "'e kit_part" where
  "SidebarHeader props kids =
     El ''div'' (spread [(''data-slot'', AText ''sidebar-header''), (''data-sidebar'', AText ''header'')] props)
       kids"

definition SidebarFooter :: "'e kit_part" where
  "SidebarFooter props kids =
     El ''div'' (spread [(''data-slot'', AText ''sidebar-footer''), (''data-sidebar'', AText ''footer'')] props)
       kids"

definition SidebarContent :: "'e kit_part" where
  "SidebarContent props kids =
     El ''div'' (spread [(''data-slot'', AText ''sidebar-content''), (''data-sidebar'', AText ''content'')] props)
       kids"

definition SidebarGroup :: "'e kit_part" where
  "SidebarGroup props kids =
     El ''div'' (spread [(''data-slot'', AText ''sidebar-group''), (''data-sidebar'', AText ''group'')] props)
       kids"

definition SidebarGroupLabel :: "'e kit_part" where
  "SidebarGroupLabel props kids =
     El ''div'' (spread [(''data-slot'', AText ''sidebar-group-label''), (''data-sidebar'', AText ''group-label'')] props)
       kids"

definition SidebarGroupAction :: "'e kit_part" where
  "SidebarGroupAction props kids =
     El ''button'' (spread [(''data-slot'', AText ''sidebar-group-action''), (''data-sidebar'', AText ''group-action'')] props)
       kids"

definition SidebarGroupContent :: "'e kit_part" where
  "SidebarGroupContent props kids =
     El ''div'' (spread [(''data-slot'', AText ''sidebar-group-content''), (''data-sidebar'', AText ''group-content'')] props)
       kids"

definition SidebarMenu :: "'e kit_part" where
  "SidebarMenu props kids =
     El ''ul'' (spread [(''data-slot'', AText ''sidebar-menu''), (''data-sidebar'', AText ''menu'')] props)
       kids"

definition SidebarMenuItem :: "'e kit_part" where
  "SidebarMenuItem props kids =
     El ''li'' (spread [(''data-slot'', AText ''sidebar-menu-item''), (''data-sidebar'', AText ''menu-item'')] props)
       kids"

definition SidebarMenuAction :: "'e kit_part" where
  "SidebarMenuAction props kids =
     El ''button'' (spread [(''data-slot'', AText ''sidebar-menu-action''), (''data-sidebar'', AText ''menu-action'')] (without [''showOnHover''] props))
       kids"

definition SidebarMenuBadge :: "'e kit_part" where
  "SidebarMenuBadge props kids =
     El ''div'' (spread [(''data-slot'', AText ''sidebar-menu-badge''), (''data-sidebar'', AText ''menu-badge'')] props)
       kids"

definition SidebarMenuSub :: "'e kit_part" where
  "SidebarMenuSub props kids =
     El ''ul'' (spread [(''data-slot'', AText ''sidebar-menu-sub''), (''data-sidebar'', AText ''menu-sub'')] props)
       kids"

definition SidebarMenuSubItem :: "'e kit_part" where
  "SidebarMenuSubItem props kids =
     El ''li'' (spread [(''data-slot'', AText ''sidebar-menu-sub-item''), (''data-sidebar'', AText ''menu-sub-item'')] props)
       kids"

definition SidebarMenuSubButton :: "'e kit_part" where
  "SidebarMenuSubButton props kids =
     El ''a'' (spread
       [(''data-slot'', AText ''sidebar-menu-sub-button''), (''data-sidebar'', AText ''menu-sub-button''),
        (''data-size'', prop_or props ''size'' (AText ''md'')), (''data-active'', ABool (bool_prop props ''isActive'' False))]
       (without [''size'', ''isActive''] props)) kids"

definition SidebarInset :: "'e kit_part" where
  "SidebarInset props kids =
     El ''main'' (spread [(''data-slot'', AText ''sidebar-inset'')] props)
       kids"

definition SidebarInput :: "'e kit_part" where
  "SidebarInput props kids =
     Input (spread [(''data-slot'', AText ''sidebar-input''), (''data-sidebar'', AText ''input'')] props) kids"

definition SidebarSeparator :: "'e kit_part" where
  "SidebarSeparator props kids =
     Separator (spread [(''data-slot'', AText ''sidebar-separator''), (''data-sidebar'', AText ''separator'')] props) kids"

lemma sidebar_parts [simp]:
  assumes "handlers_named props"
  shows "node_all P (SidebarHeader props vs) \<longleftrightarrow> part_all P props vs"
    "node_all P (SidebarFooter props vs) \<longleftrightarrow> part_all P props vs"
    "node_all P (SidebarContent props vs) \<longleftrightarrow> part_all P props vs"
    "node_all P (SidebarGroup props vs) \<longleftrightarrow> part_all P props vs"
    "node_all P (SidebarGroupLabel props vs) \<longleftrightarrow> part_all P props vs"
    "node_all P (SidebarGroupAction props vs) \<longleftrightarrow> part_all P props vs"
    "node_all P (SidebarGroupContent props vs) \<longleftrightarrow> part_all P props vs"
    "node_all P (SidebarMenu props vs) \<longleftrightarrow> part_all P props vs"
    "node_all P (SidebarMenuItem props vs) \<longleftrightarrow> part_all P props vs"
    "node_all P (SidebarMenuAction props vs) \<longleftrightarrow> part_all P props vs"
    "node_all P (SidebarMenuBadge props vs) \<longleftrightarrow> part_all P props vs"
    "node_all P (SidebarMenuSub props vs) \<longleftrightarrow> part_all P props vs"
    "node_all P (SidebarMenuSubItem props vs) \<longleftrightarrow> part_all P props vs"
    "node_all P (SidebarMenuSubButton props vs) \<longleftrightarrow> part_all P props vs"
    "node_all P (SidebarInset props vs) \<longleftrightarrow> part_all P props vs"
    "node_all P (SidebarInput props vs) \<longleftrightarrow> part_all P props vs"
    "node_all P (SidebarSeparator props vs) \<longleftrightarrow> part_all P props vs"
  using assms by (simp_all add: SidebarHeader_def SidebarFooter_def SidebarContent_def SidebarGroup_def SidebarGroupLabel_def SidebarGroupAction_def SidebarGroupContent_def SidebarMenu_def SidebarMenuItem_def SidebarMenuAction_def SidebarMenuBadge_def SidebarMenuSub_def SidebarMenuSubItem_def SidebarMenuSubButton_def SidebarInset_def SidebarInput_def SidebarSeparator_def part_rules del: node_all.simps(2))

subsection \<open>What the provider keeps\<close>

text \<open>No \<open>open\<close> and no \<open>onOpenChange\<close>, as both places that use the provider have it.\<close>

definition uncontrolled :: sidebar_props where
  "uncontrolled = \<lparr>sp_open = None, sp_onOpenChange = False\<rparr>"

inductive sidebar_reach :: "sidebar_props \<Rightarrow> bool option \<Rightarrow> sidebar \<Rightarrow> bool" for p d where
  sidebar_start: "sidebar_reach p d (new_sidebar p d isMobile)"
| sidebar_render: "sidebar_reach p d s \<Longrightarrow> sidebar_reach p d (render_sidebar p isMobile s)"
| sidebar_click: "sidebar_reach p d s \<Longrightarrow> sidebar_reach p d (toggleSidebar p s)"
| sidebar_key: "sidebar_reach p d s \<Longrightarrow> sidebar_reach p d (fst (handleKeyDown p key metaKey ctrlKey s))"
| sidebar_sheet: "sidebar_reach p d s \<Longrightarrow> sidebar_reach p d (setOpenMobile (\<lambda>_. b) s)"

definition default_open :: "bool option \<Rightarrow> bool" where
  "default_open d = (case d of Some b \<Rightarrow> b | None \<Rightarrow> True)"

lemma uncontrolled_simps [simp]: "sp_open uncontrolled = None" "\<not> sp_onOpenChange uncontrolled"
  by (simp_all add: uncontrolled_def)

lemma sidebar_render_simps [simp]:
  "sd_open (render_sidebar p m s) = sd_open s" "sd_openMobile (render_sidebar p m s) = sd_openMobile s"
  "sd_cookies (render_sidebar p m s) = sd_cookies s"
  "sd_seen (render_sidebar uncontrolled m s) = \<lparr>sc_open = sd_open s, sc_openMobile = sd_openMobile s, sc_isMobile = m\<rparr>"
  by (simp_all add: render_sidebar_def)

lemma new_sidebar_simps [simp]:
  "sd_open (new_sidebar p d m) = default_open d" "sd_openMobile (new_sidebar p d m) = False"
  "sd_cookies (new_sidebar p d m) = []" "sc_isMobile (sd_seen (new_sidebar p d m)) = m"
  by (simp_all add: new_sidebar_def default_open_def render_sidebar_def)

lemma new_sidebar_seen [simp]: "sd_seen (new_sidebar uncontrolled d m) = \<lparr>sc_open = default_open d, sc_openMobile = False, sc_isMobile = m\<rparr>"
  by (simp add: new_sidebar_def default_open_def)

lemma toggle_mobile: "sc_isMobile (sd_seen s) \<Longrightarrow> toggleSidebar p s = s\<lparr>sd_openMobile := \<not> sd_openMobile s\<rparr>"
  by (simp add: toggleSidebar_def setOpenMobile_def)

lemma toggle_desktop:
  "\<not> sc_isMobile (sd_seen s) \<Longrightarrow> toggleSidebar uncontrolled s =
     s\<lparr>sd_open := \<not> sc_open (sd_seen s), sd_cookies := sidebar_cookie (\<not> sc_open (sd_seen s)) # sd_cookies s\<rparr>"
  by (simp add: toggleSidebar_def setOpen_def Let_def)

text \<open>The newest cookie tells the state of the sidebar; before the first one it is the default.\<close>

definition cookie_current :: "bool option \<Rightarrow> sidebar \<Rightarrow> bool" where
  "cookie_current d s \<longleftrightarrow>
     (case sd_cookies s of [] \<Rightarrow> sd_open s = default_open d | c # _ \<Rightarrow> c = sidebar_cookie (sd_open s))"

lemma cookie_current_toggle: "cookie_current d s \<Longrightarrow> cookie_current d (toggleSidebar uncontrolled s)"
  by (cases "sc_isMobile (sd_seen s)") (simp_all add: toggle_mobile toggle_desktop cookie_current_def split: list.splits)

lemma cookie_current_reach: "sidebar_reach uncontrolled d s \<Longrightarrow> cookie_current d s"
proof (induction rule: sidebar_reach.induct)
  case (sidebar_key s key metaKey ctrlKey)
  then show ?case by (simp add: handleKeyDown_def cookie_current_toggle)
qed (simp_all add: cookie_current_toggle, simp_all add: cookie_current_def setOpenMobile_def split: list.splits)

lemma sidebar_cookie_inj: "sidebar_cookie a = sidebar_cookie b \<longleftrightarrow> a = b"
  by (cases a; cases b) (simp_all add: sidebar_cookie_def bool_text_def)

lemma toggles_unseen:
  assumes "\<not> sc_isMobile (sd_seen s)"
  shows "sd_open ((toggleSidebar uncontrolled ^^ Suc n) s) = (\<not> sc_open (sd_seen s)) \<and>
    sd_seen ((toggleSidebar uncontrolled ^^ Suc n) s) = sd_seen s"
proof (induction n)
  case 0
  show ?case using assms by (simp add: toggle_desktop)
next
  case (Suc n)
  have "(toggleSidebar uncontrolled ^^ Suc (Suc n)) s = toggleSidebar uncontrolled ((toggleSidebar uncontrolled ^^ Suc n) s)"
    by simp
  then show ?case using Suc.IH assms by (simp add: toggle_desktop)
qed

lemma toggles_seen:
  "sd_seen (((\<lambda>s. render_sidebar uncontrolled False (toggleSidebar uncontrolled s)) ^^ n) s) =
     (if n = 0 then sd_seen s
      else \<lparr>sc_open = (sc_open (sd_seen s) = even n), sc_openMobile = sd_openMobile s, sc_isMobile = False\<rparr>) \<and>
   sd_openMobile (((\<lambda>s. render_sidebar uncontrolled False (toggleSidebar uncontrolled s)) ^^ n) s) = sd_openMobile s"
  if "\<not> sc_isMobile (sd_seen s)"
  using that by (induction n) (auto simp: toggle_desktop)

text \<open>C18: One folding sidebar, over any sequence of clicks, shortcuts, renders, closings of the
  sheet and changes of the screen's width.  The newest cookie its provider wrote names exactly the state of the
  desktop sidebar and the next render shows that state; on a small screen a toggle moves only
  the sheet and sets no cookie; on a desktop \<open>n\<close> toggles with a render after each leave it open
  exactly if it was open and \<open>n\<close> is even, or closed and \<open>n\<close> odd, while any number of toggles
  before the next render counts as one.\<close>

theorem sidebar_follows_toggles:
  assumes "sidebar_reach uncontrolled d s"
  shows "cookie_current d s \<and>
    sc_open (sd_seen (render_sidebar uncontrolled m s)) = sd_open s \<and>
    (sc_isMobile (sd_seen s) \<longrightarrow>
       toggleSidebar uncontrolled s = s\<lparr>sd_openMobile := \<not> sd_openMobile s\<rparr>) \<and>
    (\<not> sc_isMobile (sd_seen s) \<longrightarrow>
       (sc_open (sd_seen (((\<lambda>s. render_sidebar uncontrolled False (toggleSidebar uncontrolled s)) ^^ n) s)) \<longleftrightarrow>
          (sc_open (sd_seen s) = even n)) \<and>
       sd_open ((toggleSidebar uncontrolled ^^ Suc n) s) = (\<not> sc_open (sd_seen s)))"
  using cookie_current_reach [OF assms] toggle_mobile [of s uncontrolled] toggles_seen [of s n] toggles_unseen [of s n]
  by auto

theorem sidebar_follows_toggles_witness:
  "sd_open ((toggleSidebar uncontrolled ^^ Suc 2) (new_sidebar uncontrolled None False)) = False \<and>
   sc_open (sd_seen (((\<lambda>s. render_sidebar uncontrolled False (toggleSidebar uncontrolled s)) ^^ 2)
     (new_sidebar uncontrolled None False))) = True"
  using sidebar_follows_toggles [OF sidebar_start, of None False _ 2] by (simp add: default_open_def)

text \<open>A page with several providers: the shortcut reaches each of them, so with the entry dialog
  open it folds the page's sidebar behind it too.\<close>

lemma shortcut_reaches_every_provider:
  "map (\<lambda>s. fst (handleKeyDown uncontrolled ''b'' False True s)) ss = map (toggleSidebar uncontrolled) ss"
  by (simp add: handleKeyDown_def SIDEBAR_KEYBOARD_SHORTCUT_def)

text \<open>After a reload the provider starts from its default, whatever the cookie says.\<close>

lemma cookie_not_read: "sd_open (new_sidebar uncontrolled None m) = True"
  by (simp add: default_open_def)

lemma skeleton_width_range:
  assumes "0 \<le> r" and "r < 1"
  shows "\<lfloor>r * 40\<rfloor> + 50 \<in> {50..89}"
  using assms by (simp add: le_floor_iff)

end
