(* ===== verification/Theme.thy ===== *)
theory Theme
  imports Ui
begin

text \<open>
  The theme over all tabs of a browser (\<open>app/layout.tsx\<close>, \<open>components/theme-provider.tsx\<close>): the
  script that runs before the first paint, the hydration, which renders the server's theme first,
  setting and toggling, the events that tell other tabs, and changes of the system's preference.

  A tab's provider re-reads the storage when one of its two events arrives; its effect sets the
  document's class only when the rendered theme changed.
\<close>

subsection \<open>Before the first paint\<close>

text \<open>\<open>themeInitScript\<close>: whether the document gets the class \<open>dark\<close>.\<close>

definition themeInitScript :: "bool \<Rightarrow> string local_storage \<Rightarrow> bool" where
  "themeInitScript prefersLight ls =
     (case get_item ls ''theme'' of
        Inl e \<Rightarrow> True
      | Inr t \<Rightarrow> t = Some ''dark'' \<or> (t \<noteq> Some ''light'' \<and> \<not> prefersLight))"

lemma script_snapshot:
  "themeInitScript p ls = (case theme_snapshot True p ls of Inr th \<Rightarrow> th = Dark | Inl e \<Rightarrow> True)"
  by (auto simp: themeInitScript_def theme_snapshot_def resolveTheme_def THEME_KEY_def split: sum.split)

text \<open>The document around every page: language, the script, and the page.\<close>

definition RootLayout :: "'e node list \<Rightarrow> 'e node" where
  "RootLayout children =
     El ''html'' [(''lang'', AText ''en''), (''suppressHydrationWarning'', ABool True)]
       [El ''head'' [] [El ''script'' [] [Txt ''themeInitScript'']], El ''body'' [] children]"

record page_metadata =
  md_title :: string
  md_template :: string
  md_description :: string
  md_index :: bool
  md_follow :: bool
  md_botIndex :: bool
  md_botFollow :: bool

definition metadata :: page_metadata where
  "metadata = \<lparr>md_title = ''Vidsilo'', md_template = ''%s | Vidsilo'', md_description = ''Vidsilo platform admin panel'',
     md_index = False, md_follow = False, md_botIndex = False, md_botFollow = False\<rparr>"

text \<open>\<open>robots.ts\<close>: the rule for every crawler.\<close>

definition robots :: "(string \<times> string) list" where
  "robots = [(''userAgent'', ''*''), (''disallow'', ''/'')]"

subsection \<open>Tabs\<close>

text \<open>What a tab rendered last, its class, the preference and stored value it read last, whether it
  is hydrated, and the storage events still on their way to it.\<close>

record theme_tab =
  tt_shown :: theme
  tt_dark :: bool
  tt_prefers :: bool
  tt_read :: "string option"
  tt_hydrated :: bool
  tt_pending :: nat

record browser =
  br_ls :: "string local_storage"
  br_prefers :: bool
  br_tabs :: "theme_tab list"

definition stored_theme :: "browser \<Rightarrow> string option" where
  "stored_theme b = ls_items (br_ls b) THEME_KEY"

definition open_tab :: "browser \<Rightarrow> browser" where
  "open_tab b = b\<lparr>br_tabs := br_tabs b @
     [\<lparr>tt_shown = Dark, tt_dark = themeInitScript (br_prefers b) (br_ls b), tt_prefers = br_prefers b,
       tt_read = stored_theme b, tt_hydrated = False, tt_pending = 0\<rparr>]\<rparr>"

text \<open>A render of the provider with a theme, and its effect, which runs when the theme changed.\<close>

definition show_theme :: "theme \<Rightarrow> theme_tab \<Rightarrow> theme_tab" where
  "show_theme th t = (if th = tt_shown t then t else t\<lparr>tt_shown := th, tt_dark := (th = Dark)\<rparr>)"

text \<open>\<open>getSnapshot\<close> after an event, or nothing when the storage throws.\<close>

definition reread :: "browser \<Rightarrow> theme_tab \<Rightarrow> theme_tab" where
  "reread b t =
     (case theme_snapshot True (br_prefers b) (br_ls b) of
        Inl e \<Rightarrow> t
      | Inr th \<Rightarrow> show_theme th (t\<lparr>tt_prefers := br_prefers b, tt_read := stored_theme b\<rparr>))"

text \<open>Hydration renders the server's theme, whose effect always runs, and then the snapshot.\<close>

definition hydrate :: "browser \<Rightarrow> theme_tab \<Rightarrow> theme_tab" where
  "hydrate b t = reread b (t\<lparr>tt_shown := Dark, tt_dark := True, tt_hydrated := True\<rparr>)"

text \<open>\<open>set\<close>: the storage, this tab's class and event; the browser tells the other tabs if the value changed.\<close>

definition set_theme :: "nat \<Rightarrow> theme \<Rightarrow> browser \<Rightarrow> browser" where
  "set_theme i next b =
     (case setTheme next \<lparr>th_ls = br_ls b, th_darkClass = tt_dark (br_tabs b ! i), th_events = 0\<rparr> of
        Inl e \<Rightarrow> b
      | Inr s \<Rightarrow>
          (let b1 = b\<lparr>br_ls := th_ls s\<rparr>; changed = (stored_theme b1 \<noteq> stored_theme b);
               tell = (\<lambda>t. if changed \<and> tt_hydrated t then t\<lparr>tt_pending := Suc (tt_pending t)\<rparr> else t);
               own = reread b1 ((br_tabs b ! i)\<lparr>tt_dark := th_darkClass s\<rparr>)
           in b1\<lparr>br_tabs := (map tell (br_tabs b))[i := own]\<rparr>))"

definition toggle_theme :: "nat \<Rightarrow> browser \<Rightarrow> browser" where
  "toggle_theme i b = set_theme i (if tt_shown (br_tabs b ! i) = Dark then Light else Dark) b"

definition deliver :: "browser \<Rightarrow> theme_tab \<Rightarrow> theme_tab" where
  "deliver b t = reread b (t\<lparr>tt_pending := tt_pending t - 1\<rparr>)"

definition in_tab :: "nat \<Rightarrow> (theme_tab \<Rightarrow> theme_tab) \<Rightarrow> browser \<Rightarrow> browser" where
  "in_tab i f b = b\<lparr>br_tabs := (br_tabs b)[i := f (br_tabs b ! i)]\<rparr>"

inductive theme_reach :: "browser \<Rightarrow> bool" where
  theme_start: "ls_readable ls \<Longrightarrow> theme_reach \<lparr>br_ls = ls, br_prefers = p, br_tabs = []\<rparr>"
| theme_open: "theme_reach b \<Longrightarrow> theme_reach (open_tab b)"
| theme_hydrate: "theme_reach b \<Longrightarrow> i < length (br_tabs b) \<Longrightarrow> \<not> tt_hydrated (br_tabs b ! i) \<Longrightarrow>
    theme_reach (in_tab i (hydrate b) b)"
| theme_set: "theme_reach b \<Longrightarrow> i < length (br_tabs b) \<Longrightarrow> tt_hydrated (br_tabs b ! i) \<Longrightarrow> theme_reach (set_theme i th b)"
| theme_toggle: "theme_reach b \<Longrightarrow> i < length (br_tabs b) \<Longrightarrow> tt_hydrated (br_tabs b ! i) \<Longrightarrow> theme_reach (toggle_theme i b)"
| theme_storage: "theme_reach b \<Longrightarrow> i < length (br_tabs b) \<Longrightarrow> 0 < tt_pending (br_tabs b ! i) \<Longrightarrow>
    theme_reach (in_tab i (deliver b) b)"
| theme_prefers: "theme_reach b \<Longrightarrow> theme_reach (b\<lparr>br_prefers := p\<rparr>)"

subsection \<open>What every tab shows\<close>

definition tab_ok :: "browser \<Rightarrow> theme_tab \<Rightarrow> bool" where
  "tab_ok b t \<longleftrightarrow>
     (tt_hydrated t \<longrightarrow> tt_dark t = (tt_shown t = Dark) \<and> tt_shown t = resolveTheme (tt_prefers t) (tt_read t) \<and>
        (tt_pending t = 0 \<longrightarrow> tt_read t = stored_theme b)) \<and>
     (\<not> tt_hydrated t \<longrightarrow> tt_pending t = 0 \<and> tt_dark t = (resolveTheme (tt_prefers t) (tt_read t) = Dark))"

definition theme_inv :: "browser \<Rightarrow> bool" where
  "theme_inv b \<longleftrightarrow> ls_readable (br_ls b) \<and> (\<forall>t \<in> set (br_tabs b). tab_ok b t)"

lemma snapshot_readable:
  "ls_readable (br_ls b) \<Longrightarrow> theme_snapshot True p (br_ls b) = Inr (resolveTheme p (stored_theme b))"
  by (simp add: theme_snapshot_def get_item_def stored_theme_def)

lemma reread_ok:
  assumes "ls_readable (br_ls b)" and "tt_hydrated t"
    and "tt_dark t = (tt_shown t = Dark) \<or> tt_dark t = (resolveTheme (br_prefers b) (stored_theme b) = Dark)"
  shows "tab_ok b (reread b t)"
  using assms by (auto simp: reread_def snapshot_readable show_theme_def tab_ok_def)

lemma all_update: "\<forall>x \<in> set xs. P x \<Longrightarrow> P y \<Longrightarrow> \<forall>x \<in> set (xs[i := y]). P x"
  using set_update_subset_insert [of xs i y] by blast

lemma in_tab_inv:
  assumes "theme_inv b" and "i < length (br_tabs b)" and "tab_ok b (f (br_tabs b ! i))"
  shows "theme_inv (in_tab i f b)"
proof -
  have same: "tab_ok (in_tab i f b) t = tab_ok b t" for t by (simp add: tab_ok_def stored_theme_def in_tab_def)
  have "\<forall>t \<in> set (br_tabs (in_tab i f b)). tab_ok b t"
    using assms all_update [of "br_tabs b" "tab_ok b" "f (br_tabs b ! i)" i] by (simp add: theme_inv_def in_tab_def)
  then show ?thesis using assms(1) same by (simp add: theme_inv_def) (simp add: in_tab_def)
qed

lemma set_theme_inv:
  assumes inv: "theme_inv b" and i: "i < length (br_tabs b)" and hyd: "tt_hydrated (br_tabs b ! i)"
  shows "theme_inv (set_theme i th b)"
proof (cases "ls_writable (br_ls b)")
  case False
  then show ?thesis using inv by (simp add: set_theme_def setTheme_def set_item_def)
next
  case True
  let ?b = "b\<lparr>br_ls := (br_ls b)\<lparr>ls_items := (ls_items (br_ls b))(THEME_KEY \<mapsto> theme_name th)\<rparr>\<rparr>"
  let ?changed = "stored_theme ?b \<noteq> stored_theme b"
  let ?tell = "\<lambda>t. if ?changed \<and> tt_hydrated t then t\<lparr>tt_pending := Suc (tt_pending t)\<rparr> else t"
  let ?own = "reread ?b ((br_tabs b ! i)\<lparr>tt_dark := (th = Dark)\<rparr>)"
  have eq: "set_theme i th b = ?b\<lparr>br_tabs := (map ?tell (br_tabs b))[i := ?own]\<rparr>"
    using True by (simp add: set_theme_def setTheme_def set_item_def applyTheme_def Let_def)
  have rd: "ls_readable (br_ls ?b)" using inv by (simp add: theme_inv_def)
  have stored: "resolveTheme p (stored_theme ?b) = th" for p
    by (cases th) (simp_all add: stored_theme_def resolveTheme_def)
  have "tab_ok ?b ?own"
    by (rule reread_ok) (use hyd rd stored [of "br_prefers ?b"] in simp_all)
  moreover have "tab_ok ?b (?tell t)" if "t \<in> set (br_tabs b)" for t
    using that inv by (auto simp: theme_inv_def tab_ok_def)
  then have "\<forall>t \<in> set (map ?tell (br_tabs b)). tab_ok ?b t" unfolding set_map by blast
  ultimately have all: "\<forall>t \<in> set ((map ?tell (br_tabs b))[i := ?own]). tab_ok ?b t"
    by (intro all_update)
  have "tab_ok (set_theme i th b) t = tab_ok ?b t" for t
    unfolding eq by (simp add: tab_ok_def stored_theme_def)
  then show ?thesis using all rd by (simp add: theme_inv_def) (simp add: eq)
qed

lemma theme_inv_reach: "theme_reach b \<Longrightarrow> theme_inv b"
proof (induction rule: theme_reach.induct)
  case (theme_open b)
  then show ?case
    by (auto simp: theme_inv_def open_tab_def tab_ok_def script_snapshot snapshot_readable stored_theme_def)
next
  case (theme_hydrate b i)
  then show ?case by (intro in_tab_inv) (auto simp: theme_inv_def hydrate_def intro!: reread_ok)
next
  case (theme_storage b i)
  then have "tab_ok b (br_tabs b ! i)" by (simp add: theme_inv_def)
  then have "tt_hydrated (br_tabs b ! i)" "tt_dark (br_tabs b ! i) = (tt_shown (br_tabs b ! i) = Dark)"
    using theme_storage.hyps(3) unfolding tab_ok_def by auto
  then show ?case using theme_storage by (intro in_tab_inv) (auto simp: theme_inv_def deliver_def intro!: reread_ok)
next
  case (theme_prefers b p)
  then show ?case by (simp add: theme_inv_def tab_ok_def stored_theme_def)
next
  case (theme_start ls p)
  then show ?case by (simp add: theme_inv_def)
qed (simp_all add: set_theme_inv toggle_theme_def)

text \<open>C17: However tabs are opened, hydrated and switched, and however the system's preference
  changes: every tab that all events have reached shows the stored theme, so once the user has
  chosen, all of them agree; a tab is painted before hydration with the theme it would render,
  so hydrating it changes nothing unless the choice or the preference changed in between.\<close>

theorem tabs_show_stored_theme:
  assumes "theme_reach b" and "t \<in> set (br_tabs b)"
  shows "(tt_hydrated t \<and> tt_pending t = 0 \<and> stored_theme b = Some (theme_name th) \<longrightarrow>
      tt_shown t = th \<and> tt_dark t = (th = Dark)) \<and>
    (\<not> tt_hydrated t \<and> tt_read t = stored_theme b \<and> tt_prefers t = br_prefers b \<longrightarrow>
      tt_dark (hydrate b t) = tt_dark t)"
proof -
  have ok: "tab_ok b t" "ls_readable (br_ls b)" using theme_inv_reach [OF assms(1)] assms(2) by (auto simp: theme_inv_def)
  have "resolveTheme p (Some (theme_name th)) = th" for p by (cases th) (simp_all add: resolveTheme_def)
  moreover have "tt_dark (hydrate b t) = (resolveTheme (br_prefers b) (stored_theme b) = Dark)"
    using ok(2) by (cases "resolveTheme (br_prefers b) (stored_theme b)")
      (simp_all add: hydrate_def reread_def snapshot_readable show_theme_def)
  ultimately show ?thesis using ok(1) by (auto simp: tab_ok_def)
qed

definition two_tabs :: browser where
  "two_tabs =
     (let b1 = open_tab (open_tab \<lparr>br_ls = empty_storage, br_prefers = False, br_tabs = []\<rparr>);
          b2 = in_tab 0 (hydrate b1) b1; b3 = in_tab 1 (hydrate b2) b2; b4 = toggle_theme 0 b3
      in in_tab 1 (deliver b4) b4)"

lemma two_tabs_reach: "theme_reach two_tabs"
proof -
  let ?b0 = "\<lparr>br_ls = empty_storage, br_prefers = False, br_tabs = []\<rparr>"
  let ?b1 = "open_tab (open_tab ?b0)"
  let ?b2 = "in_tab 0 (hydrate ?b1) ?b1"
  let ?b3 = "in_tab 1 (hydrate ?b2) ?b2"
  let ?b4 = "toggle_theme 0 ?b3"
  have "theme_reach ?b1" by (intro theme_open theme_start) (simp add: empty_storage_def)
  moreover have "0 < length (br_tabs ?b1)" "\<not> tt_hydrated (br_tabs ?b1 ! 0)" by code_simp+
  ultimately have "theme_reach ?b2" by (rule theme_hydrate)
  moreover have "1 < length (br_tabs ?b2)" "\<not> tt_hydrated (br_tabs ?b2 ! 1)" by code_simp+
  ultimately have "theme_reach ?b3" by (rule theme_hydrate)
  moreover have "0 < length (br_tabs ?b3)" "tt_hydrated (br_tabs ?b3 ! 0)" by code_simp+
  ultimately have "theme_reach ?b4" by (rule theme_toggle)
  moreover have "1 < length (br_tabs ?b4)" "0 < tt_pending (br_tabs ?b4 ! 1)" by code_simp+
  ultimately have "theme_reach (in_tab 1 (deliver ?b4) ?b4)" by (rule theme_storage)
  then show ?thesis by (simp add: two_tabs_def Let_def)
qed

theorem tabs_show_stored_theme_witness:
  "tt_shown (br_tabs two_tabs ! 1) = Light \<and> \<not> tt_dark (br_tabs two_tabs ! 1)"
proof -
  have "1 < length (br_tabs two_tabs)" by code_simp
  then have "br_tabs two_tabs ! 1 \<in> set (br_tabs two_tabs)" by simp
  moreover have "tt_hydrated (br_tabs two_tabs ! 1)" "tt_pending (br_tabs two_tabs ! 1) = 0"
    "stored_theme two_tabs = Some (theme_name Light)"
    by code_simp+
  ultimately show ?thesis using tabs_show_stored_theme [OF two_tabs_reach, of "br_tabs two_tabs ! 1" Light] by simp
qed

subsection \<open>The providers of each section\<close>

definition QueryProvider :: "'e node list \<Rightarrow> 'e node" where
  "QueryProvider children =
     El ''QueryClientProvider'' [(''staleTime'', ANum (Fin 10000)), (''refetchOnWindowFocus'', ABool False)] children"

definition Toaster :: "'e node" where
  "Toaster = El ''SonnerToaster'' [(''position'', AText ''bottom-right''), (''richColors'', ABool True)] []"

definition LibraryProviders :: "'e node list \<Rightarrow> 'e node" where
  "LibraryProviders children = El ''ThemeProvider'' [] [El ''I18nProvider'' [] (children @ [Toaster])]"

definition EmbedProviders :: "'e node list \<Rightarrow> 'e node" where
  "EmbedProviders children = El ''ThemeProvider'' [] [El ''I18nProvider'' [] children]"

definition ViewerLoginProviders :: "'e node list \<Rightarrow> 'e node" where
  "ViewerLoginProviders children = El ''ThemeProvider'' [] [El ''I18nProvider'' [] children]"

definition AdminShell :: "'e node \<Rightarrow> 'e node list \<Rightarrow> 'e node" where
  "AdminShell notifications body =
     QueryProvider [El ''ThemeProvider'' [] [El ''I18nProvider'' []
       [El ''AuthProvider'' [] [El ''DialogProvider'' [] (body @ [notifications])], Toaster]]]"

definition library_metadata :: "string \<times> string" where
  "library_metadata = (''Library'', ''Browse and watch the public video library.'')"

definition LibraryLayout :: "'e node list \<Rightarrow> 'e node" where "LibraryLayout children = LibraryProviders children"
definition EmbedLayout :: "'e node list \<Rightarrow> 'e node" where "EmbedLayout children = EmbedProviders children"
definition LoginLayout :: "'e node list \<Rightarrow> 'e node" where "LoginLayout children = ViewerLoginProviders children"
definition AdminLayout :: "'e node \<Rightarrow> 'e node list \<Rightarrow> 'e node" where
  "AdminLayout notifications children = AdminShell notifications children"

end
