(* ===== verification/Pickers.thy ===== *)
theory Pickers
  imports Charts Kit
begin

text \<open>
  The two fields that open a popover: \<open>components/ui/select.tsx\<close> and
  \<open>components/ui/date-picker.tsx\<close>, with the date range of the header made of two of them.

  The date picker reads its value as midnight in Greenwich and draws it in the browser's time
  zone, \<open>off\<close> minutes ahead of Greenwich; formatting an invalid date throws, which is \<open>None\<close>.
  \<open>fmt\<close> is the text of \<open>format(date, "MMM d, yyyy")\<close>.  The calendar hands over the clicked day at
  local midnight.
\<close>

subsection \<open>Select\<close>

record select_option =
  so_value :: string
  so_label :: string
  so_badges :: "string list option"

definition selectedOption :: "select_option list \<Rightarrow> string \<Rightarrow> select_option option" where
  "selectedOption opts val = find (\<lambda>o'. so_value o' = val) opts"

definition select_label :: "select_option list \<Rightarrow> string \<Rightarrow> string option \<Rightarrow> string" where
  "select_label opts val ph =
     (let p = (case ph of Some x \<Rightarrow> x | None \<Rightarrow> ''Select...'') in
      case selectedOption opts val of
        Some o' \<Rightarrow> (if so_label o' \<noteq> [] then so_label o' else p)
      | None \<Rightarrow> p)"

datatype select_event = SelectOpen bool | SelectPick string | SelectFocus

definition option_badges :: "select_option \<Rightarrow> select_event node list" where
  "option_badges o' =
     (case so_badges o' of
        Some (b # bs) \<Rightarrow> [El ''span'' [] (map (\<lambda>x. Badge [(''variant'', AText ''outline'')] [Txt x]) (b # bs))]
      | _ \<Rightarrow> [])"

definition select_item :: "string \<Rightarrow> select_option \<Rightarrow> select_event node" where
  "select_item val o' =
     CommandItem ([(''value'', AText (so_value o'))] @
         (if val = so_value o' then [(''data-checked'', ABool True)] else []) @
         [(''onSelect'', AEvent (SelectPick (so_value o')))])
       (El ''span'' [] [Txt (so_label o')] # option_badges o')"

definition Select ::
  "translator \<Rightarrow> select_option list \<Rightarrow> string \<Rightarrow> string option \<Rightarrow> bool \<Rightarrow> bool \<Rightarrow> bool \<Rightarrow> select_event node" where
  "Select t opts val ph disabled searchable isOpen =
     El ''div'' []
       [Popover [(''open'', ABool isOpen), (''onOpenChange'', AInput (\<lambda>x. SelectOpen (x = ''true'')))]
          [PopoverTrigger []
             [Button [(''variant'', AText ''outline''), (''role'', AText ''combobox''), (''aria-expanded'', ABool isOpen),
                (''disabled'', ABool disabled)]
                [El ''div'' []
                   (El ''span'' [] [Txt (select_label opts val ph)] #
                    (case selectedOption opts val of Some o' \<Rightarrow> option_badges o' | None \<Rightarrow> [])),
                 El ''ChevronsUpDown'' [] []]],
           PopoverContent []
             [Command []
                (show_if searchable (CommandInput SelectFocus [(''placeholder'', AText ''Search...'')] []) @
                 [CommandList []
                    [CommandEmpty [] [Txt (tx t ''selectNoResults'')],
                     CommandGroup [] (map (select_item val) opts)]])]]]"

text \<open>The open state, and what is reported to the caller's \<open>onChange\<close>; a click on the addon of the
  search field only moves the focus into the field.\<close>

fun select_step :: "select_event \<Rightarrow> bool \<Rightarrow> bool \<times> string option" where
  "select_step (SelectOpen b) isOpen = (b, None)"
| "select_step (SelectPick v) isOpen = (False, Some v)"
| "select_step SelectFocus isOpen = (isOpen, None)"

lemma item_all: "node_all P (select_item val o') \<longleftrightarrow> P (SelectPick (so_value o'))"
  by (auto simp: select_item_def option_badges_def CommandItem_def Badge_def spread_def without_def prop_or_def
      is_disabled_def split: option.split list.split)

lemma badges_all: "\<forall>v \<in> set (option_badges o'). node_all P v"
  by (auto simp: option_badges_def Badge_def spread_def without_def prop_or_def is_disabled_def split: option.split list.split)

lemma select_all:
  "node_all P (Select t opts val ph disabled searchable isOpen) \<longleftrightarrow>
     (\<forall>b. P (SelectOpen b)) \<and> (searchable \<longrightarrow> P SelectFocus) \<and> (\<forall>o' \<in> set opts. P (SelectPick (so_value o')))"
proof -
  have "(\<forall>x. P (SelectOpen (x = ''true''))) \<longleftrightarrow> (\<forall>b. P (SelectOpen b))"
    by (metis (full_types) list.discI)
  then show ?thesis
    by (auto simp: Select_def item_all badges_all part_all_def attrs_all_def is_disabled_def split: option.split)
qed

text \<open>A field only ever reports the value of one of its options, and then shows the first label of that value.\<close>

lemma select_offers:
  "interaction (Select t opts val ph disabled searchable isOpen) (SelectPick v) \<longleftrightarrow> v \<in> so_value ` set opts"
  by (auto simp: interaction_node_all select_all)

lemma select_shows_pick:
  assumes "interaction (Select t opts val ph disabled searchable isOpen) e" and "select_step e isOpen = (b, Some v)"
  shows "\<exists>o'. selectedOption opts v = Some o' \<and> so_value o' = v \<and> \<not> b"
proof -
  have "e = SelectPick v" "\<not> b" using assms(2) by (cases e; simp)+
  then have "v \<in> so_value ` set opts" using assms(1) by (simp add: select_offers)
  then obtain o' where "selectedOption opts v = Some o'"
    unfolding selectedOption_def by (metis (mono_tags, lifting) find_None_iff imageE option.exhaust)
  then show ?thesis using \<open>\<not> b\<close> by (auto simp: selectedOption_def find_Some_iff)
qed

subsection \<open>Days in a time zone\<close>

definition prev_day :: "day \<Rightarrow> day" where
  "prev_day d =
     (if 1 < dy_day d then d\<lparr>dy_day := dy_day d - 1\<rparr>
      else if 1 < dy_month d then d\<lparr>dy_month := dy_month d - 1, dy_day := month_days (dy_year d) (dy_month d - 1)\<rparr>
      else \<lparr>dy_year = dy_year d - 1, dy_month = 12, dy_day = 31\<rparr>)"

lemma next_prev_day:
  assumes "day_ok d" and "0 < dy_year d"
  shows "next_day (prev_day d) = d \<and> day_ok (prev_day d)"
proof -
  consider "1 < dy_day d" | "dy_day d = 1" "1 < dy_month d" | "dy_day d = 1" "dy_month d = 1"
    using assms(1) unfolding day_ok_def by linarith
  then show ?thesis
  proof cases
    case 1
    then show ?thesis using assms(1) by (cases d) (auto simp: prev_day_def next_day_def day_ok_def)
  next
    case 2
    then show ?thesis
      using assms(1) month_days_bounds(1) [of "dy_year d" "dy_month d - 1"]
      by (cases d) (auto simp: prev_day_def next_day_def day_ok_def)
  next
    case 3
    have "month_days y 12 = 31" for y by (simp add: month_days_def)
    then show ?thesis using 3 assms by (cases d) (auto simp: prev_day_def next_day_def day_ok_def)
  qed
qed

text \<open>The local date of midnight in Greenwich, for an offset of less than a day.\<close>

definition local_date :: "int \<Rightarrow> day \<Rightarrow> day" where
  "local_date off d = (if 0 \<le> off then d else prev_day d)"

subsection \<open>The date picker\<close>

record date_picker =
  dp_value :: string
  dp_placeholder :: "string option"
  dp_min :: "string option"
  dp_max :: "string option"
  dp_ariaLabel :: "string option"

datatype date_picker_event = PickerOpen bool | PickDay "day option"

text \<open>\<open>selected\<close>: nothing for an empty value; an invalid date is \<open>Some None\<close>.\<close>

definition picker_selected :: "int \<Rightarrow> date_picker \<Rightarrow> day option option" where
  "picker_selected off p =
     (if dp_value p = [] then None else Some (map_option (local_date off) (parse_day (dp_value p))))"

text \<open>A limit that is absent, empty, or invalid forbids no day.\<close>

definition picker_limit :: "int \<Rightarrow> string option \<Rightarrow> day option" where
  "picker_limit off m =
     (case m of Some (c # x) \<Rightarrow> map_option (local_date off) (parse_day (c # x)) | _ \<Rightarrow> None)"

definition picker_disabled :: "int \<Rightarrow> date_picker \<Rightarrow> day \<Rightarrow> bool" where
  "picker_disabled off p c \<longleftrightarrow>
     (case picker_limit off (dp_min p) of Some m \<Rightarrow> \<not> day_le m c | None \<Rightarrow> False) \<or>
     (case picker_limit off (dp_max p) of Some m \<Rightarrow> \<not> day_le c m | None \<Rightarrow> False)"

text \<open>\<open>selected\<close>, \<open>defaultMonth\<close> and the \<open>before\<close> and \<open>after\<close> of \<open>disabled\<close>, as local days.\<close>

definition calendar_props :: "int \<Rightarrow> date_picker \<Rightarrow> (string \<times> date_picker_event attr) list" where
  "calendar_props off p =
     [(''mode'', AText ''single'')] @
     (case picker_selected off p of
        Some (Some d) \<Rightarrow> [(''selected'', AText (iso_day d)), (''defaultMonth'', AText (iso_day d))] | _ \<Rightarrow> []) @
     (case picker_limit off (dp_min p) of Some d \<Rightarrow> [(''before'', AText (iso_day d))] | None \<Rightarrow> []) @
     (case picker_limit off (dp_max p) of Some d \<Rightarrow> [(''after'', AText (iso_day d))] | None \<Rightarrow> []) @
     [(''onSelect'', AInput (\<lambda>x. PickDay (parse_day x)))]"

definition DatePicker :: "(day \<Rightarrow> string) \<Rightarrow> int \<Rightarrow> date_picker \<Rightarrow> bool \<Rightarrow> date_picker_event node option" where
  "DatePicker fmt off p isOpen =
     (case picker_selected off p of
        Some None \<Rightarrow> None
      | sel \<Rightarrow> Some
          (Popover [(''open'', ABool isOpen), (''onOpenChange'', AInput (\<lambda>x. PickerOpen (x = ''true'')))]
             [PopoverTrigger []
                [Button ([(''variant'', AText ''outline''), (''size'', AText ''sm'')] @
                    (case dp_ariaLabel p of Some l \<Rightarrow> [(''aria-label'', AText l)] | None \<Rightarrow> []))
                   [El ''CalendarIcon'' [] [],
                    (case sel of
                       Some (Some d) \<Rightarrow> Txt (fmt d)
                     | _ \<Rightarrow> El ''span'' [] [Txt (case dp_placeholder p of Some x \<Rightarrow> x | None \<Rightarrow> ''Pick a date'')])]],
              PopoverContent [(''align'', AText ''start'')]
                [Calendar (calendar_props off p) []]]))"

text \<open>\<open>onSelect\<close> gets the clicked day, or nothing when the selected day is clicked again.\<close>

fun picker_step :: "date_picker_event \<Rightarrow> bool \<Rightarrow> bool \<times> string option" where
  "picker_step (PickerOpen b) isOpen = (b, None)"
| "picker_step (PickDay (Some d)) isOpen = (False, Some (iso_day d))"
| "picker_step (PickDay None) isOpen = (isOpen, None)"

lemma two_digits_value:
  "10 * undigit (digit (n div 10 mod 10)) + undigit (digit (n mod 10)) = n mod 100"
proof -
  have "undigit (digit k) = k" if "k < 10" for k using that by (simp add: undigit_digit)
  then show ?thesis by (simp add: mod_mult2_eq [of n 10 10, simplified])
qed

lemma parse_iso:
  assumes "day_ok d" and "dy_year d < 10000"
  shows "parse_day (iso_day d) = Some d"
proof -
  have small: "dy_month d < 100" "dy_day d < 100"
    using assms(1) month_days_bounds(2) [of "dy_year d" "dy_month d"] by (auto simp: day_ok_def)
  have "100 * (dy_year d div 100 mod 100) + dy_year d mod 100 = dy_year d" using assms(2) by simp
  moreover have "1000 * undigit (digit (dy_year d div 100 div 10 mod 10)) + 100 * undigit (digit (dy_year d div 100 mod 10)) =
      100 * (dy_year d div 100 mod 100)"
    using two_digits_value [of "dy_year d div 100"] by simp
  ultimately have year: "1000 * undigit (digit (dy_year d div 100 div 10 mod 10)) + 100 * undigit (digit (dy_year d div 100 mod 10)) +
      10 * undigit (digit (dy_year d div 10 mod 10)) + undigit (digit (dy_year d mod 10)) = dy_year d"
    using two_digits_value [of "dy_year d"] by (simp only: add.assoc)
  show ?thesis
    using two_digits_value [of "dy_month d"] two_digits_value [of "dy_day d"] year small assms(1)
    by (simp add: iso_day_def two_digits_def Let_def day_ok_def)
qed

lemma prev_day_neq: "day_ok d \<Longrightarrow> 0 < dy_year d \<Longrightarrow> prev_day d \<noteq> d"
  using next_prev_day [of d] next_day_ord [of "prev_day d"] by auto

text \<open>C19: Picking a day closes the picker and reports the day's ISO text.  In a zone at or east of
  Greenwich the picker then shows that very day and forbids exactly the days beyond its limits;
  west of Greenwich it shows the day before, and forbids exactly the days beyond the days before
  its limits: with the picked day as upper limit (as the header does for the start of a range)
  that same day cannot be chosen.\<close>

theorem picked_day_shown:
  assumes "day_ok d" and "0 < dy_year d" and "dy_year d < 10000"
  shows "picker_step (PickDay (Some d)) isOpen = (False, Some (iso_day d)) \<and>
    picker_selected off (p\<lparr>dp_value := iso_day d\<rparr>) = Some (Some (if 0 \<le> off then d else prev_day d)) \<and>
    prev_day d \<noteq> d \<and>
    picker_disabled off (p\<lparr>dp_min := None, dp_max := Some (iso_day d)\<rparr>) d = (off < 0) \<and>
    picker_disabled off (p\<lparr>dp_min := None, dp_max := Some (iso_day d)\<rparr>) c =
      (\<not> day_le c (if 0 \<le> off then d else prev_day d)) \<and>
    picker_disabled off (p\<lparr>dp_min := Some (iso_day d), dp_max := None\<rparr>) c =
      (\<not> day_le (if 0 \<le> off then d else prev_day d) c)"
proof -
  have iso: "iso_day d \<noteq> []" "parse_day (iso_day d) = Some d" using parse_iso [OF assms(1,3)] by (auto simp: iso_day_def)
  then obtain x xs where cons: "iso_day d = x # xs" by (cases "iso_day d") auto
  have limit: "picker_limit off (Some (iso_day d)) = Some (local_date off d)"
    using iso cons by (simp add: picker_limit_def)
  have none: "picker_limit off None = None" by (simp add: picker_limit_def)
  have prev: "prev_day d \<noteq> d" "\<not> day_le d (prev_day d)" "day_le d d"
  proof -
    note np = next_prev_day [OF assms(1,2)]
    have "day_ord (prev_day d) < day_ord d" using next_day_ord [of "prev_day d"] np by simp
    then show "prev_day d \<noteq> d" "\<not> day_le d (prev_day d)" "day_le d d"
      using day_le_ord [OF assms(1), of "prev_day d"] day_le_ord [OF assms(1) assms(1)] np by auto
  qed
  show ?thesis
    using iso prev limit none by (auto simp: picker_selected_def picker_disabled_def local_date_def)
qed

definition sample_day :: day where "sample_day = \<lparr>dy_year = 2024, dy_month = 3, dy_day = 1\<rparr>"

theorem picked_day_shown_witness:
  "picker_selected (-300) \<lparr>dp_value = ''2024-03-01'', dp_placeholder = None, dp_min = None, dp_max = None, dp_ariaLabel = None\<rparr> =
     Some (Some \<lparr>dy_year = 2024, dy_month = 2, dy_day = 29\<rparr>)"
proof -
  have "day_ok sample_day" "0 < dy_year sample_day" "dy_year sample_day < 10000"
    by (simp_all add: day_ok_def sample_day_def month_days_def)
  from picked_day_shown [OF this, of True "- 300"
      "\<lparr>dp_value = [], dp_placeholder = None, dp_min = None, dp_max = None, dp_ariaLabel = None\<rparr>"]
  have "picker_selected (- 300) \<lparr>dp_value = iso_day sample_day, dp_placeholder = None, dp_min = None, dp_max = None, dp_ariaLabel = None\<rparr> =
      Some (Some (prev_day sample_day))" by simp
  moreover have "iso_day sample_day = ''2024-03-01''"
    by (simp add: iso_day_def sample_day_def two_digits_def digit_def char_of_eq_iff)
  moreover have "prev_day sample_day = \<lparr>dy_year = 2024, dy_month = 2, dy_day = 29\<rparr>"
    by (simp add: prev_day_def sample_day_def month_days_def leap_def)
  ultimately show ?thesis by simp
qed

text \<open>A date that does not parse, as an address may hold one, ends the render of the header.\<close>

lemma invalid_date_throws: "val \<noteq> [] \<Longrightarrow> parse_day val = None \<Longrightarrow> DatePicker fmt off (p\<lparr>dp_value := val\<rparr>) isOpen = None"
  by (simp add: DatePicker_def picker_selected_def)

end
