(* ===== verification/PlayerLife.thy ===== *)
theory PlayerLife
  imports PlayerProps Web
begin

text \<open>
  The player from mounting to unmounting: its listeners, which handler each event of the media
  element reaches, the analytics requests, and what the cleanups of its effects undo.  The last
  theorem bounds the play time that unmounting loses, as no cleanup sends the unsent seconds.
\<close>

subsection \<open>Listeners\<close>

datatype media_event =
    TimeUpdate | LoadedMetadata | PlayStarted | PauseStarted | VolumeChanged | WaitingForData | PlayingAgain | CanPlayNow
  | FullscreenChanged bool | Second int | BeforeUnload

fun media_step :: "props \<Rightarrow> string \<Rightarrow> video \<Rightarrow> media_event \<Rightarrow> player_state \<Rightarrow> player_state \<times> command list" where
  "media_step pr vid v TimeUpdate s = (onTime v s, [])"
| "media_step pr vid v LoadedMetadata s = onMeta pr v s"
| "media_step pr vid v PlayStarted s = onPlay pr vid s"
| "media_step pr vid v PauseStarted s = onPause pr vid s"
| "media_step pr vid v VolumeChanged s = (onVolume v s, [])"
| "media_step pr vid v WaitingForData s = (s\<lparr>p_buffering := True\<rparr>, [])"
| "media_step pr vid v PlayingAgain s = (s\<lparr>p_buffering := False\<rparr>, [])"
| "media_step pr vid v CanPlayNow s = (s\<lparr>p_buffering := False\<rparr>, [])"
| "media_step pr vid v (FullscreenChanged b) s = (s\<lparr>p_fullscreen := b\<rparr>, [])"
| "media_step pr vid v (Second now) s = ticker pr vid now v s"
| "media_step pr vid v BeforeUnload s = flushWatch pr vid s"

text \<open>What the effects attach when the player mounts: target and event of each listener.\<close>

definition attached :: "(string \<times> string) list" where
  "attached =
     [(''video'', ''timeupdate''), (''video'', ''loadedmetadata''), (''video'', ''play''), (''video'', ''pause''),
      (''video'', ''volumechange''), (''video'', ''waiting''), (''video'', ''playing''), (''video'', ''canplay''),
      (''document'', ''fullscreenchange''), (''window'', ''beforeunload'')]"

definition detached :: "(string \<times> string) list" where
  "detached =
     [(''video'', ''timeupdate''), (''video'', ''loadedmetadata''), (''video'', ''play''), (''video'', ''pause''),
      (''video'', ''volumechange''), (''video'', ''waiting''), (''video'', ''playing''), (''video'', ''canplay''),
      (''document'', ''fullscreenchange''), (''window'', ''beforeunload'')]"

datatype cleanup = DestroyHls | Detach string string | StopTicker | StopHideTimer

definition unmount :: "bool \<Rightarrow> props \<Rightarrow> player_state \<Rightarrow> cleanup list" where
  "unmount hlsSupported pr s =
     (case pi_master (pp_info pr) of Some (c # m) \<Rightarrow> (if hlsSupported then [DestroyHls] else []) | _ \<Rightarrow> []) @
     map (\<lambda>(x, e). Detach x e) detached @ [StopTicker, Detach ''window'' ''keydown''] @
     (if p_hideTimer s then [StopHideTimer] else [])"

lemma detached_attached: "detached = attached"
  by (simp add: detached_def attached_def)

subsection \<open>Analytics requests\<close>

text \<open>\<open>beacon\<close>: a \<open>POST\<close> that outlives the page and whose failure is ignored.\<close>

record beacon_request =
  bq_path :: string
  bq_keepalive :: bool
  bq_body :: json

definition beacon :: "string \<Rightarrow> json \<Rightarrow> beacon_request" where
  "beacon path body = \<lparr>bq_path = path, bq_keepalive = True, bq_body = body\<rparr>"

fun beacon_of :: "command \<Rightarrow> beacon_request option" where
  "beacon_of (BeaconPlay p v) =
     Some (beacon ''/api/analytics/play'' (JObj [(''publicId'', JText p), (''viewerId'', JText v)]))"
| "beacon_of (BeaconWatch p v n) =
     Some (beacon ''/api/analytics/watch'' (JObj [(''publicId'', JText p), (''viewerId'', JText v), (''seconds'', JNat n)]))"
| "beacon_of _ = None"

subsection \<open>What unmounting loses\<close>

text \<open>Ticks come at least a second after the one before, the first one not before \<open>t\<close>.\<close>

fun spaced :: "int \<Rightarrow> watch_event list \<Rightarrow> bool" where
  "spaced t [] \<longleftrightarrow> True"
| "spaced t (Ticker now v # es) \<longleftrightarrow> t + 1000 \<le> now \<and> spaced now es"
| "spaced t (_ # es) \<longleftrightarrow> spaced t es"

definition unsent_ok :: "int \<Rightarrow> player_state \<Rightarrow> bool" where
  "unsent_ok t s \<longleftrightarrow> 1000 * int (p_watched s) \<le> t - p_lastBeacon s \<and> p_watched s \<le> 30"

lemma unsent_flush: "unsent_ok t s \<Longrightarrow> unsent_ok t (fst (flushWatch pr vid s))"
  by (auto simp: unsent_ok_def flushWatch_def)

lemma unsent_tick:
  assumes "unsent_ok t s" and "t + 1000 \<le> now"
  shows "unsent_ok now (fst (ticker pr vid now v s))"
  using assms by (auto simp: unsent_ok_def ticker_def flushWatch_def Let_def)

lemma unsent_run: "unsent_ok t s \<Longrightarrow> spaced t es \<Longrightarrow> p_watched (fst (watch_run pr vid es s)) \<le> 30"
proof (induction es arbitrary: s t)
  case Nil
  then show ?case by (simp add: unsent_ok_def)
next
  case (Cons e es)
  have "\<exists>t'. unsent_ok t' (fst (watch_step pr vid e s)) \<and> spaced t' es"
  proof (cases e)
    case (Ticker now v)
    then show ?thesis using Cons.prems unsent_tick [of t s now pr vid v] by auto
  next
    case Paused
    have "unsent_ok t (s\<lparr>p_playing := False\<rparr>)" using Cons.prems(1) by (simp add: unsent_ok_def)
    then show ?thesis using Cons.prems(2) Paused unsent_flush [of t "s\<lparr>p_playing := False\<rparr>" pr vid] by (auto simp: onPause_def)
  next
    case Unload
    then show ?thesis using Cons.prems unsent_flush [of t s pr vid] by auto
  next
    case Played
    then show ?thesis using Cons.prems by (auto simp: onPlay_def unsent_ok_def Let_def)
  qed
  then obtain t' where "unsent_ok t' (fst (watch_step pr vid e s))" "spaced t' es" by blast
  then have "p_watched (fst (watch_run pr vid es (fst (watch_step pr vid e s)))) \<le> 30" by (rule Cons.IH)
  then show ?case by (simp add: case_prod_unfold)
qed

text \<open>C21: From mounting to unmounting, however often the video is paused and however long it
  plays, the play time reported is never more than the seconds played and at most thirty
  seconds less, although unmounting reports nothing: the ticker sends what it counted as soon as
  thirty seconds have passed since the last time.\<close>

theorem unmount_loses_little:
  assumes "s = initial_player pr vol mut rate" and "0 \<le> t" and "spaced t es"
  shows "reported (snd (watch_run pr vid es s)) \<le> length (filter plays_second es) \<and>
    length (filter plays_second es) \<le> reported (snd (watch_run pr vid es s)) + 30"
proof -
  have new: "p_watched s = 0" "p_lastBeacon s = 0" by (simp_all add: assms(1) initial_player_def)
  have "p_watched (fst (watch_run pr vid es s)) \<le> 30"
    by (rule unsent_run [OF _ assms(3)]) (use new assms(2) in \<open>simp add: unsent_ok_def\<close>)
  then show ?thesis using watch_sum [of pr vid es s] new(1) by linarith
qed

definition two_seconds :: "watch_event list" where
  "two_seconds = [Played, Ticker 100000 middle, Ticker 101000 middle]"

theorem unmount_loses_little_witness:
  "2 \<le> reported (snd (watch_run (fst (player_at 1 0)) ''u'' two_seconds (initial_player (fst (player_at 1 0)) None None None))) + 30 \<and>
   reported (snd (watch_run (fst (player_at 1 0)) ''u'' two_seconds (initial_player (fst (player_at 1 0)) None None None))) = 1"
proof -
  have "spaced 0 two_seconds" "length (filter plays_second two_seconds) = 2"
    by (simp_all add: two_seconds_def middle_def)
  moreover have "reported (snd (watch_run (fst (player_at 1 0)) ''u'' two_seconds (initial_player (fst (player_at 1 0)) None None None))) = 1"
    by (simp add: two_seconds_def middle_def initial_player_def onPlay_def ticker_def flushWatch_def reported_def Let_def)
  ultimately show ?thesis
    using unmount_loses_little [OF refl order_refl, where es = two_seconds and vid = "''u''" and pr = "fst (player_at 1 0)"
        and vol = None and mut = None and rate = None] by simp
qed

end
