(* ===== verification/RepoTests.thy ===== *)
theory RepoTests
  imports UploadFaults ApiClient
begin

text \<open>
  The repository's own unit tests (\<open>lib/api.test.ts\<close>, \<open>lib/upload-store.test.ts\<close>) replayed on the
  model: each test is a scenario with the expectations of its \<open>it\<close>, and the model meets them.
\<close>

subsection \<open>The API client\<close>

definition json_answer :: "nat \<Rightarrow> 'a \<Rightarrow> 'a http_response option" where
  "json_answer status body = Some \<lparr>hr_status = status, hr_statusText = [], hr_body = Json None None body\<rparr>"

definition error_answer :: "nat \<Rightarrow> string \<Rightarrow> string option \<Rightarrow> string http_response option" where
  "error_answer status code message = Some \<lparr>hr_status = status, hr_statusText = [], hr_body = Json (Some code) message code\<rparr>"

definition unauthorized :: "string http_response option" where
  "unauthorized = error_answer 401 ''unauthorized'' None"

text \<open>How every call ended, and how many requests were sent: calls, their retries, and refreshes.\<close>

definition outcomes :: "string api_event list \<Rightarrow> string phase list" where
  "outcomes es = map cl_phase (ct_calls (run_api es fresh_client))"

definition fetches :: "string api_event list \<Rightarrow> nat" where
  "fetches es = (let c = run_api es fresh_client in sum_list (map cl_fetches (ct_calls c)) + ct_refreshes c)"

definition test_parsed :: "string api_event list" where
  "test_parsed = [Call ''/api/x'' get_init, Respond 0 (json_answer 200 ''ok'')]"

definition test_no_content :: "string api_event list" where
  "test_no_content = [Call ''/api/x'' get_init, Respond 0 (Some \<lparr>hr_status = 204, hr_statusText = [], hr_body = NoJson\<rparr>)]"

definition test_api_error :: "string api_event list" where
  "test_api_error = [Call ''/api/x'' get_init, Respond 0 (error_answer 404 ''not_found'' (Some ''nope''))]"

definition test_silent_refresh :: "string api_event list" where
  "test_silent_refresh =
     [Call ''/api/entries'' get_init, Respond 0 unauthorized, RefreshOver True, Respond 0 (json_answer 200 ''ok'')]"

definition test_me_refresh :: "string api_event list" where
  "test_me_refresh =
     [Call ''/api/auth/me'' get_init, Respond 0 unauthorized, RefreshOver True, Respond 0 (json_answer 200 ''id 1'')]"

definition test_login_no_refresh :: "string api_event list" where
  "test_login_no_refresh =
     [Call ''/api/auth/login'' (get_init\<lparr>ri_method := Some ''POST''\<rparr>), Respond 0 unauthorized]"

definition test_one_refresh :: "string api_event list" where
  "test_one_refresh =
     [Call ''/api/a'' get_init, Call ''/api/b'' get_init, Respond 0 unauthorized, Respond 1 unauthorized, RefreshOver True,
      Respond 0 (json_answer 200 ''a''), Respond 1 (json_answer 200 ''b'')]"

definition test_refresh_fails :: "string api_event list" where
  "test_refresh_fails = [Call ''/api/x'' get_init, Respond 0 unauthorized, RefreshOver False]"

definition raised :: "string phase \<Rightarrow> bool" where
  "raised p \<longleftrightarrow> (case p of Ended (Raised e) \<Rightarrow> True | _ \<Rightarrow> False)"

text \<open>The expectations of the eight tests.\<close>

definition api_tests_pass :: bool where
  "api_tests_pass \<longleftrightarrow>
     outcomes test_parsed = [Ended (ApiClient.Returned (Value ''ok''))] \<and> fetches test_parsed = 1 \<and>
     outcomes test_no_content = [Ended (ApiClient.Returned Undefined)] \<and>
     outcomes test_api_error = [Ended (Raised \<lparr>ae_status = 404, ae_code = ''not_found'', ae_message = ''nope''\<rparr>)] \<and>
     outcomes test_silent_refresh = [Ended (ApiClient.Returned (Value ''ok''))] \<and> fetches test_silent_refresh = 3 \<and>
     outcomes test_me_refresh = [Ended (ApiClient.Returned (Value ''id 1''))] \<and> fetches test_me_refresh = 3 \<and>
     list_all raised (outcomes test_login_no_refresh) \<and> fetches test_login_no_refresh = 1 \<and>
     outcomes test_one_refresh = [Ended (ApiClient.Returned (Value ''a'')), Ended (ApiClient.Returned (Value ''b''))] \<and>
     ct_refreshes (run_api test_one_refresh fresh_client) = 1 \<and>
     list_all raised (outcomes test_refresh_fails) \<and> fetches test_refresh_fails = 2"

lemma api_tests: "api_tests_pass"
  by code_simp

subsection \<open>The upload store\<close>

definition test_file :: "string \<Rightarrow> js_file" where
  "test_file name = \<lparr>f_name = name, f_size = 10, f_blob = 0\<rparr>"

text \<open>\<open>beforeEach\<close>: an empty storage and a fresh module.\<close>

definition clean_store :: upload_store where
  "clean_store = resetUploadStore (boot 0 empty_storage empty_idb 0 0)"

definition test_uuid :: "nat \<Rightarrow> string" where
  "test_uuid n = (if n = 0 then ''id0'' else ''id1'')"

definition added :: "string list \<Rightarrow> upload_store \<Rightarrow> upload_store" where
  "added names s = fst (addFiles test_uuid (map test_file names) s)"

definition test_defaults :: "upload_job list" where
  "test_defaults = getUploads (added [''movie.mp4''] clean_store)"

definition test_dedupe :: "upload_job list" where
  "test_dedupe = getUploads (added [''a.mp4'', ''a.mp4''] clean_store)"

definition test_restore :: "upload_job list" where
  "test_restore =
     (let s = updateJob ''id0'' (\<lambda>j. j\<lparr>uj_status := UUploading, uj_progress := Fin 42\<rparr>) (added [''a.mp4''] clean_store)
      in getUploads (boot 0 (us_ls (resetUploadStore s)) empty_idb 0 1))"

definition test_resumable :: "upload_job list" where
  "test_resumable =
     (let s = updateJob ''id0'' (\<lambda>j. j\<lparr>uj_status := UInterrupted, uj_uploadUrl := Some ''/upload/abc''\<rparr>) (added [''a.mp4''] clean_store)
      in getUploads (added [''a.mp4''] s))"

definition test_patch :: "upload_job list" where
  "test_patch = getUploads (updateJob ''id0'' (\<lambda>j. j\<lparr>uj_title := ''Renamed''\<rparr>) (added [''a.mp4''] clean_store))"

definition test_remove :: "upload_job list" where
  "test_remove = getUploads (removeJob ''id0'' (added [''a.mp4''] clean_store))"

definition test_unknown :: start_result where
  "test_unknown = snd (startJob ''missing'' clean_store)"

text \<open>The expectations of the seven tests.\<close>

lemma upload_test_defaults:
  "map uj_fileName test_defaults = [''movie.mp4'']" "map uj_title test_defaults = [''movie'']"
  "map uj_status test_defaults = [UQueued]" "map uj_progress test_defaults = [Fin 0]"
  by code_simp+

lemma upload_test_dedupe: "length test_dedupe = 1"
  by code_simp

lemma upload_test_restore:
  "map uj_status test_restore = [UInterrupted]" "map uj_progress test_restore = [Fin 42]" "map uj_uploadUrl test_restore = [None]"
  by code_simp+

lemma upload_test_resumable: "map (\<lambda>j. (uj_id j, uj_status j)) test_resumable = [(''id0'', UQueued)]"
  by code_simp

lemma upload_test_patch: "map uj_title test_patch = [''Renamed'']"
  by code_simp

lemma upload_test_remove: "test_remove = []"
  by code_simp

lemma upload_test_unknown: "test_unknown = UploadStore.Returned"
  by code_simp

end
