(* ===== verification/Spec2Isabelle.thy ===== *)
theory Spec2Isabelle
  imports UploadFaults UrlDrain Auth DialogStack Messages PlayerProps UploadDialog AppSidebar PlayerView PlayPages
    Catalog Charts AdminUsers Categories DomainAcls Flavors Players Settings JobsPage StoragePage EntriesPage
    DashboardPage EntryDetail AdminApp Queries AdminRender Sidebar Theme Pickers PlayerLife RepoTests
begin

text \<open>
  A verification development of the web client of Vidsilo, the TypeScript program under
  \<open>src/web\<close>: a video library with an administration, uploads, a player and analytics.  The Go
  server of the repository is the client's environment here: its answers are events or parameters.

  THE PROGRAM AND ITS PARTS

  The client is a set of React pages over a few modules that keep state of their own.  The upload
  store (\<open>lib/upload-store.ts\<close>) and the URL download store (\<open>lib/url-download-store.ts\<close>) live as
  long as the tab, persist their jobs to \<open>localStorage\<close> (files to IndexedDB, \<open>lib/idb.ts\<close>) and run
  one asynchronous loop each; the upload dialog, the sidebar and the notifications subscribe to
  them.  Every request goes through \<open>api\<close> of \<open>lib/api.ts\<close>, whose concurrent calls share one token
  refresh.  Pages ask before they delete through the dialog manager (\<open>hooks/use-dialog.tsx\<close>),
  show texts of \<open>lib/i18n.tsx\<close>, validate with \<open>lib/validators.ts\<close> and draw with the element
  library \<open>components/ui\<close>.

  WHERE EACH PART IS MODELLED

  \<^item> \<open>Prelude\<close>, \<open>JsNum\<close>, \<open>UrlCodec\<close>, \<open>QueryString\<close>, \<open>Storage\<close>: what the source uses of JavaScript and the
    browser.  Strings, numbers with \<open>NaN\<close>, infinities and \<open>null\<close>, URI encoding, URL parameters,
    \<open>localStorage\<close> (which may refuse to read or write) and IndexedDB.
  \<^item> \<open>ApiTypes\<close>, \<open>ApiClient\<close>, \<open>SingleFlight\<close>, \<open>SiteConfig\<close>: the interfaces of \<open>lib/api.ts\<close>, its
    request function cut at the awaits, and the cached site configuration.
  \<^item> \<open>JobList\<close>, \<open>UploadStore\<close>, \<open>UploadMachine\<close>, \<open>UploadProps\<close>, \<open>UploadBatch\<close>, \<open>UploadFaults\<close>: the upload store;
    its operations, the step relation over all events with the invariant of the reachable states,
    and the properties.  \<open>UrlStore\<close>, \<open>UrlMachine\<close>, \<open>UrlProps\<close>, \<open>UrlDrain\<close>: the same for URL downloads.
  \<^item> \<open>Format\<close>, \<open>I18n\<close>, \<open>Messages\<close>, \<open>Validators\<close>: \<open>lib/format.ts\<close>, \<open>lib/charts.ts\<close>, \<open>lib/i18n.tsx\<close> with every
    message, \<open>lib/validators.ts\<close>.
  \<^item> \<open>View\<close>, \<open>Ui\<close>, \<open>Web\<close>, \<open>Parts\<close>, \<open>Forms\<close>: elements with their handlers, the small components, the effects
    of a handler (requests, toasts, dialogs, navigation, invalidated queries), and what the
    admin lists and forms share.
  \<^item> \<open>DialogStack\<close>, \<open>Consent\<close>: the dialog manager with the confirm box, and a page running with it.
  \<^item> \<open>Auth\<close>: \<open>components/auth-provider.tsx\<close>, the gate of \<open>app/admin/admin-shell.tsx\<close>, both login pages, the
    change of the password.
  \<^item> \<open>AdminUsers\<close>, \<open>Categories\<close>, \<open>DomainAcls\<close>, \<open>Flavors\<close>, \<open>Players\<close>, \<open>Settings\<close>, \<open>JobsPage\<close>, \<open>StoragePage\<close>,
    \<open>EntriesPage\<close>, \<open>DashboardPage\<close>, \<open>Charts\<close> (analytics): one theory per page under \<open>app/admin\<close>;
    \<open>EntryTabs\<close> and \<open>EntryDetail\<close>: the entry dialog; \<open>UploadDialog\<close>, \<open>AppSidebar\<close>: the dialog and the
    sidebar over both stores.
  \<^item> \<open>Catalog\<close>, \<open>PlayPages\<close>, \<open>Player\<close>, \<open>PlayerView\<close>, \<open>PlayerProps\<close>, \<open>PlayerLife\<close>: the public library, the pages
    around the player, and the player.
  \<^item> \<open>Kit\<close>, \<open>Sidebar\<close>, \<open>Pickers\<close>, \<open>Theme\<close>: the element library \<open>components/ui\<close>, the folding sidebar, select and
    date picker, the theme over all tabs with the layouts and providers.
  \<^item> \<open>AdminApp\<close>: the admin pages as one application; \<open>AdminRender\<close>: the same with the plain parts of the
    element library drawn out (select, date picker and folding sidebar keep state of their own and
    are rendered in their theories).  \<open>Queries\<close>: the data the admin pages share by key, and what each
    mutation invalidates.
  \<^item> \<open>RepoTests\<close>: the repository's own unit tests, replayed on the model.

  HOW THE CODE IS MODELLED

  A module's variables, or a component's \<open>useState\<close> and refs, are a record; a handler is a function
  from the state (and what it captured) to the new state and the list of its effects.  An
  asynchronous function is cut at its awaits: the click and the answer are two events, and the
  answer (\<open>Ok\<close>, \<open>ApiErr\<close>, \<open>OtherErr\<close>, a rejected request) is an argument.  What a component renders is
  a tree of elements; a user can cause the handlers of the elements that are not disabled
  (\<open>can_cause\<close>, and \<open>interaction\<close> with any typed text).  Query data is an argument: pending, failed
  or there (\<open>fetched\<close>), or just absent where the page does not tell the first two apart.  Exceptions are \<open>Inl\<close> or \<open>None\<close>.

  The stores and the API client are state machines (\<open>inductive\<close> reachability over an executable
  step function) in which events come in any order the enabledness predicates allow: any
  interleaving of user actions, answers, timers, reloads and storage failures.

  INTERFACES

  \<^item> \<open>kv_store\<close>: what a client of \<open>localStorage\<close> and of the blob store relies on; interpreted on both.
  \<^item> \<open>job_list\<close>: a list patched and filtered by id; interpreted on both job stores.
  \<^item> \<open>single_flight\<close>: one request shared by concurrent callers; interpreted on the token refresh and on
    the site configuration.
  \<^item> \<open>save_form\<close>: a form whose save is disabled while it runs; interpreted on the six admin forms.
  \<^item> \<open>careful_page\<close>: no interaction sends a dangerous request without a question; interpreted on every
    admin page, the two dialogs, the application, and the application as it is rendered.

  WHAT THE PROPERTIES SHOW

  \<^item> Stores: in every reachable state ids are unique, the limits hold and subscribers are up to date;
    jobs follow the abstract life cycle; both queues drain when the outside answers; a reload
    brings back every active job, interrupted, and the history of the last day; and the situations
    in which a loop never ends are proved as such.
  \<^item> API: one refresh for any number of 401 answers, at most one retry, and every call ends.
  \<^item> Pages: requests carry what is shown, forms send valid and unchanged values, saved and reread
    drafts are clean, buttons are offered only where the operation is allowed.  The library shows a
    prefix of the current query, also when filters change while a page loads; the races it does
    not guard against are excluded by name (\<open>calm\<close>).
  \<^item> Dialogs: everything that deletes, aborts or reprocesses was asked for and confirmed first; the
    retry of a failed job is sent without a question.  The upload dialog closes without a question
    while a transfer runs, and otherwise asks when something is unstarted.
  \<^item> Controls: the date picker and the folding sidebar follow what was clicked; all tabs agree on the
    theme.
  \<^item> Numbers: watch time is conserved and nearly all of it reported; positions, volume, player
    configuration and chart padding stay in range.

  BOUNDS AND FUEL

  No loop of the program is cut off.  The runners are step relations; the loop that climbs the
  parents of a category is a \<open>partial_function\<close>, \<open>None\<close> if it does not end, and is proved to end on
  trees.  \<open>places\<close> writes at most seventeen digits after the point, as many as a double can need.
  Three answers per call and thirty seconds of unsent watch time are proved bounds, not assumptions.

  NOT MODELLED, AND WHY

  \<^item> Numbers are exact rationals: the rounding of doubles and the sign of zero are left out.
  \<^item> Strings have Latin-1 characters; \<open>endash\<close>, \<open>emdash\<close> and \<open>ellipsis\<close> stand for three others.
  \<^item> Style classes, drawings of icons and style sheets; a class that depends on state is a property.
  \<^item> Libraries are parameters or events: tus, hls.js, TanStack Query's cache, zod (\<open>documented_parse\<close> says
    what is relied on), Next's router, Base UI's elements, cmdk, react-day-picker, date-fns.
  \<^item> \<open>crypto.randomUUID\<close> is an injective supply; \<open>toLocaleString\<close> and the current time are parameters.
  \<^item> A handler runs to its next await without interruption, as JavaScript does; React renders after it.
  \<^item> \<open>Sidebar\<close> is one provider: its cookie assignments are its own, while the entry dialog's provider
    writes the same \<open>document.cookie\<close>.
  \<^item> What the server changes besides the path of a request (storage and jobs when an entry is deleted)
    is unknown to the client: \<open>Queries\<close> compares paths only, as library lemmas.
  \<^item> A submit button is the submission of its form; the content of a dialog is an opaque number in
    \<open>DialogStack\<close>, while \<open>Consent\<close> gives confirm boxes their actions.
  \<^item> The Go server, the build configuration and the service files are not part of the client.
\<close>

end
